(* ===== verification/Go_Base.thy ===== *)
theory Go_Base
  imports Main
begin

text \<open>
  The parts of Go and of its standard library that the program uses: 64-bit
  signed arithmetic with wrap-around, truncated division, \<open>time.Time\<close> and
  \<open>time.Duration\<close> in nanoseconds, and the string functions of \<open>strings\<close> and
  \<open>strconv\<close> on byte strings (a Go string is a sequence of bytes in UTF-8, so
  \<open>string\<close>, a list of 8-bit characters, holds exactly those bytes).
\<close>

section \<open>Collections of facts shared by the component theories\<close>

named_theorems tx_inv \<open>inversion of a successful transaction step\<close>
named_theorems row_simps \<open>effect of an UPDATE or INSERT on the rows of a table\<close>
named_theorems closed_intros \<open>steps that stay inside a preorder on database states\<close>

section \<open>64-bit signed integers\<close>

abbreviation (input) MaxInt64 :: int where "MaxInt64 \<equiv> 9223372036854775807"
abbreviation (input) MinInt64 :: int where "MinInt64 \<equiv> - 9223372036854775808"

definition is_i64 :: "int \<Rightarrow> bool" where
  "is_i64 x \<longleftrightarrow> MinInt64 \<le> x \<and> x \<le> MaxInt64"

definition i64 :: "int \<Rightarrow> int" where
  "i64 x = (x + 9223372036854775808) mod 18446744073709551616 - 9223372036854775808"

lemma i64_id [simp]: "is_i64 x \<Longrightarrow> i64 x = x"
  by (simp add: i64_def is_i64_def)

lemma i64_range [simp]: "is_i64 (i64 x)"
proof -
  have "0 \<le> (x + 9223372036854775808) mod 18446744073709551616"
    and "(x + 9223372036854775808) mod 18446744073709551616 < 18446744073709551616"
    by simp_all
  then show ?thesis unfolding i64_def is_i64_def by linarith
qed

lemma is_i64_nonneg_le: "0 \<le> x \<Longrightarrow> x \<le> y \<Longrightarrow> is_i64 y \<Longrightarrow> is_i64 x"
  by (simp add: is_i64_def)

lemma positive_sum_no_wrap:
  "is_i64 x \<Longrightarrow> is_i64 y \<Longrightarrow> 0 < x \<Longrightarrow> 0 \<le> y \<Longrightarrow> 0 < i64 (x + y) \<Longrightarrow> i64 (x + y) = x + y"
proof -
  assume a: "is_i64 x" "is_i64 y" "0 < x" "0 \<le> y" "0 < i64 (x + y)"
  show ?thesis
  proof (cases "x + y \<le> MaxInt64")
    case True
    with a show ?thesis by (simp add: is_i64_def)
  next
    case False
    have "(x + y + 9223372036854775808) mod 18446744073709551616
        = (x + y + 9223372036854775808 - 18446744073709551616) mod 18446744073709551616"
      using False by (intro mod_pos_geq) auto
    also have "... = x + y + 9223372036854775808 - 18446744073709551616"
      using a False by (intro mod_pos_pos_trivial) (auto simp: is_i64_def)
    finally have "(x + y + 9223372036854775808) mod 18446744073709551616
        = x + y + 9223372036854775808 - 18446744073709551616" .
    then have "i64 (x + y) = x + y - 18446744073709551616" by (simp add: i64_def)
    with a show ?thesis by (simp add: is_i64_def)
  qed
qed

text \<open>Go's integer division truncates towards zero.\<close>

definition quot :: "int \<Rightarrow> int \<Rightarrow> int" where
  "quot a b = sgn a * sgn b * (\<bar>a\<bar> div \<bar>b\<bar>)"

lemma quot_nonneg: "0 \<le> a \<Longrightarrow> 0 < b \<Longrightarrow> quot a b = a div b"
  by (cases "a = 0") (auto simp: quot_def)

lemma quot_mult_cancel: "0 < b \<Longrightarrow> quot (n * b) b = n"
  by (cases "n = 0") (auto simp: quot_def abs_mult sgn_mult mult_sgn_abs)

section \<open>Times and durations\<close>

text \<open>
  A \<open>time.Time\<close> is an instant, counted in nanoseconds on the one time line
  (\<open>UTC()\<close> changes its location, not the instant); a \<open>time.Duration\<close> is an
  \<open>int64\<close> count of nanoseconds, and \<open>Time.Sub\<close> saturates at its ends.
\<close>

type_synonym time = int
type_synonym duration = int

abbreviation (input) Second :: duration where "Second \<equiv> 1000000000"
abbreviation (input) Minute :: duration where "Minute \<equiv> 60000000000"
abbreviation (input) Hour :: duration where "Hour \<equiv> 3600000000000"

definition time_sub :: "time \<Rightarrow> time \<Rightarrow> duration" where
  "time_sub t u = max MinInt64 (min MaxInt64 (t - u))"

lemma time_sub_exact: "is_i64 (t - u) \<Longrightarrow> time_sub t u = t - u"
  by (auto simp: time_sub_def is_i64_def)

section \<open>Strings\<close>

subsection \<open>Character classes\<close>

definition in_class :: "char \<Rightarrow> nat \<Rightarrow> nat \<Rightarrow> bool" where
  "in_class c lo hi \<longleftrightarrow> lo \<le> (of_char c :: nat) \<and> (of_char c :: nat) \<le> hi"

definition is_lower :: "char \<Rightarrow> bool" where "is_lower c \<longleftrightarrow> in_class c 97 122"
definition is_upper :: "char \<Rightarrow> bool" where "is_upper c \<longleftrightarrow> in_class c 65 90"
definition is_digit :: "char \<Rightarrow> bool" where "is_digit c \<longleftrightarrow> in_class c 48 57"

subsection \<open>\<open>strings.TrimSpace\<close>\<close>

text \<open>The UTF-8 encodings of the code points for which \<open>unicode.IsSpace\<close> holds.\<close>

definition unicode_spaces :: "string list" where
  "unicode_spaces =
    [[CHR 0x20], [CHR 0x09], [CHR 0x0A], [CHR 0x0B], [CHR 0x0C], [CHR 0x0D],
     [CHR 0xC2, CHR 0x85], [CHR 0xC2, CHR 0xA0], [CHR 0xE1, CHR 0x9A, CHR 0x80],
     [CHR 0xE2, CHR 0x80, CHR 0x80], [CHR 0xE2, CHR 0x80, CHR 0x81], [CHR 0xE2, CHR 0x80, CHR 0x82],
     [CHR 0xE2, CHR 0x80, CHR 0x83], [CHR 0xE2, CHR 0x80, CHR 0x84], [CHR 0xE2, CHR 0x80, CHR 0x85],
     [CHR 0xE2, CHR 0x80, CHR 0x86], [CHR 0xE2, CHR 0x80, CHR 0x87], [CHR 0xE2, CHR 0x80, CHR 0x88],
     [CHR 0xE2, CHR 0x80, CHR 0x89], [CHR 0xE2, CHR 0x80, CHR 0x8A], [CHR 0xE2, CHR 0x80, CHR 0xA8],
     [CHR 0xE2, CHR 0x80, CHR 0xA9], [CHR 0xE2, CHR 0x80, CHR 0xAF], [CHR 0xE2, CHR 0x81, CHR 0x9F],
     [CHR 0xE3, CHR 0x80, CHR 0x80]]"

fun has_prefix :: "string \<Rightarrow> string \<Rightarrow> bool" where
  "has_prefix s [] \<longleftrightarrow> True"
| "has_prefix [] (p # ps) \<longleftrightarrow> False"
| "has_prefix (c # s) (p # ps) \<longleftrightarrow> c = p \<and> has_prefix s ps"

lemma has_prefix_iff: "has_prefix s p \<longleftrightarrow> (\<exists>t. s = p @ t)"
  by (induction s p rule: has_prefix.induct) auto

lemma has_prefix_append [simp]: "has_prefix (p @ t) p"
  by (auto simp: has_prefix_iff)

definition strip_word :: "string list \<Rightarrow> string \<Rightarrow> string option" where
  "strip_word ws s = map_option (\<lambda>w. drop (length w) s) (find (\<lambda>w. w \<noteq> [] \<and> has_prefix s w) ws)"

lemma strip_word_shorter: "strip_word ws s = Some t \<Longrightarrow> length t < length s"
  by (auto simp: strip_word_def find_Some_iff has_prefix_iff)

lemma strip_word_None:
  "strip_word ws s = None \<longleftrightarrow> (\<forall>w\<in>set ws. w \<noteq> [] \<longrightarrow> \<not> has_prefix s w)"
  by (auto simp: strip_word_def find_None_iff)

function trim_words :: "string list \<Rightarrow> string \<Rightarrow> string" where
  "trim_words ws s = (case strip_word ws s of None \<Rightarrow> s | Some t \<Rightarrow> trim_words ws t)"
  by pat_completeness auto
termination
  by (relation "measure (\<lambda>(ws, s). length s)") (auto dest: strip_word_shorter)

declare trim_words.simps [simp del]

definition trim_left :: "string \<Rightarrow> string" where
  "trim_left s = trim_words unicode_spaces s"

definition trim_right :: "string \<Rightarrow> string" where
  "trim_right s = rev (trim_words (map rev unicode_spaces) (rev s))"

definition trim_space :: "string \<Rightarrow> string" where
  "trim_space s = trim_right (trim_left s)"

lemma trim_words_stuck: "strip_word ws (trim_words ws s) = None"
proof (induction ws s rule: trim_words.induct)
  case (1 ws s)
  then show ?case
    by (cases "strip_word ws s") (simp_all add: trim_words.simps [of ws s])
qed

lemma trim_words_fixed: "strip_word ws s = None \<Longrightarrow> trim_words ws s = s"
  by (simp add: trim_words.simps [of ws s])

lemma trim_words_suffix: "\<exists>t. s = t @ trim_words ws s"
proof (induction ws s rule: trim_words.induct)
  case (1 ws s)
  show ?case
  proof (cases "strip_word ws s")
    case None
    then show ?thesis by (simp add: trim_words_fixed)
  next
    case (Some t)
    with 1 obtain u where u: "t = u @ trim_words ws t" by blast
    from Some obtain w where "s = w @ t"
      by (auto simp: strip_word_def find_Some_iff has_prefix_iff)
    moreover from Some have "trim_words ws s = trim_words ws t"
      by (simp add: trim_words.simps [of ws s])
    ultimately have "s = (w @ u) @ trim_words ws s"
      using u by simp
    then show ?thesis by blast
  qed
qed

text \<open>Trimming twice is trimming once: the right trim leaves a prefix of a left-trimmed string.\<close>

lemma strip_word_prefix_None:
  "strip_word ws (s @ t) = None \<Longrightarrow> strip_word ws s = None"
  by (auto simp: strip_word_None has_prefix_iff)

lemma trim_space_idem: "trim_space (trim_space s) = trim_space s"
proof -
  let ?l = "trim_left s"
  have "strip_word unicode_spaces ?l = None"
    by (simp add: trim_left_def trim_words_stuck)
  moreover obtain t where t: "rev ?l = t @ rev (trim_right ?l)"
    using trim_words_suffix by (auto simp: trim_right_def)
  then have "?l = trim_right ?l @ rev t"
    by (metis rev_append rev_rev_ident)
  ultimately have "strip_word unicode_spaces (trim_right ?l) = None"
    by (metis strip_word_prefix_None)
  then have "trim_left (trim_space s) = trim_space s"
    by (simp add: trim_left_def trim_space_def trim_words_fixed)
  moreover have "trim_right (trim_space s) = trim_space s"
    by (simp add: trim_space_def trim_right_def trim_words_fixed trim_words_stuck)
  ultimately show ?thesis by (simp add: trim_space_def)
qed

subsection \<open>\<open>strings.ToUpper\<close>\<close>

text \<open>
  The results are only compared with ASCII literals. The code points whose
  upper case is an ASCII letter are the ASCII lower-case letters, the long s
  (\<open>C5 BF\<close>) and the dotless i (\<open>C4 B1\<close>); every other non-ASCII rune has a
  non-ASCII upper case, and its bytes are kept here.
\<close>

fun to_upper :: "string \<Rightarrow> string" where
  "to_upper [] = []"
| "to_upper (c # s) =
     (if is_lower c then char_of ((of_char c :: nat) - 32) # to_upper s
      else if c = CHR 0xC5 \<and> has_prefix s [CHR 0xBF] then CHR ''S'' # to_upper (drop 1 s)
      else if c = CHR 0xC4 \<and> has_prefix s [CHR 0xB1] then CHR ''I'' # to_upper (drop 1 s)
      else c # to_upper s)"

subsection \<open>Decimal integers: \<open>strconv.FormatInt\<close>, \<open>fmt.Sprintf\<close> and \<open>strconv.ParseInt\<close>\<close>

definition digit_char :: "nat \<Rightarrow> char" where "digit_char d = char_of (48 + d)"
definition digit_val :: "char \<Rightarrow> nat" where "digit_val c = of_char c - 48"

fun dec_digits :: "nat \<Rightarrow> string" where
  "dec_digits n = (if n < 10 then [digit_char n] else dec_digits (n div 10) @ [digit_char (n mod 10)])"

declare dec_digits.simps [simp del]

definition format_int :: "int \<Rightarrow> string" where
  "format_int n = (if n < 0 then CHR ''-'' # dec_digits (nat (- n)) else dec_digits (nat n))"

fun dec_value :: "nat \<Rightarrow> string \<Rightarrow> nat" where
  "dec_value acc [] = acc"
| "dec_value acc (c # s) = dec_value (10 * acc + digit_val c) s"

definition parse_uint :: "string \<Rightarrow> nat option" where
  "parse_uint s = (if s \<noteq> [] \<and> list_all is_digit s then Some (dec_value 0 s) else None)"

definition parse_int :: "string \<Rightarrow> int option" where
  "parse_int s =
    (case s of
       [] \<Rightarrow> None
     | c # t \<Rightarrow>
         (case parse_uint (if c = CHR ''-'' \<or> c = CHR ''+'' then t else s) of
            None \<Rightarrow> None
          | Some n \<Rightarrow>
              (let v = (if c = CHR ''-'' then - int n else int n)
               in if is_i64 v then Some v else None)))"

lemma digit_char_props:
  "d < 10 \<Longrightarrow> is_digit (digit_char d)" "d < 10 \<Longrightarrow> digit_val (digit_char d) = d"
  by (simp_all add: is_digit_def in_class_def digit_char_def digit_val_def)

lemma dec_value_append: "dec_value acc (s @ t) = dec_value (dec_value acc s) t"
  by (induction s arbitrary: acc) auto

lemma dec_digits_correct:
  "dec_digits n \<noteq> [] \<and> list_all is_digit (dec_digits n) \<and> dec_value 0 (dec_digits n) = n"
proof (induction n rule: dec_digits.induct)
  case (1 n)
  show ?case
  proof (cases "n < 10")
    case True
    then show ?thesis by (simp add: dec_digits.simps [of n] digit_char_props)
  next
    case False
    with 1 show ?thesis
      by (simp add: dec_digits.simps [of n] digit_char_props dec_value_append)
  qed
qed

lemma dec_digits_hd: "is_digit (hd (dec_digits n))"
  using dec_digits_correct [of n] by (cases "dec_digits n") auto

lemma sign_not_digit: "\<not> is_digit (CHR ''-'')" "\<not> is_digit (CHR ''+'')"
  by (simp_all add: is_digit_def in_class_def)

lemma parse_uint_dec_digits: "parse_uint (dec_digits n) = Some n"
  by (simp add: parse_uint_def dec_digits_correct)

lemma parse_format_int:
  assumes "is_i64 n"
  shows "parse_int (format_int n) = Some n"
proof (cases "n < 0")
  case True
  with assms show ?thesis
    by (simp add: parse_int_def format_int_def parse_uint_dec_digits Let_def)
next
  case False
  obtain c t where ct: "dec_digits (nat n) = c # t"
    using dec_digits_correct [of "nat n"] by (cases "dec_digits (nat n)") auto
  then have "is_digit c" using dec_digits_hd [of "nat n"] by simp
  then have "c \<noteq> CHR ''-''" "c \<noteq> CHR ''+''"
    using sign_not_digit by metis+
  moreover have "parse_uint (c # t) = Some (nat n)"
    using ct parse_uint_dec_digits by metis
  ultimately show ?thesis
    using False assms ct by (simp add: parse_int_def format_int_def Let_def)
qed

lemma dec_digits_inject: "dec_digits m = dec_digits n \<longleftrightarrow> m = n"
  by (metis dec_digits_correct)

lemma format_int_inject [simp]: "format_int m = format_int n \<longleftrightarrow> m = n"
proof
  assume eq: "format_int m = format_int n"
  have sgn: "format_int k = CHR ''-'' # t \<Longrightarrow> k < 0" for k t
    using dec_digits_hd [of "nat k"] sign_not_digit
    by (auto simp: format_int_def split: if_splits)
  show "m = n"
  proof (cases "m < 0")
    case True
    with eq sgn [of n "dec_digits (nat (- m))"] have "n < 0" by (simp add: format_int_def [of m])
    with True eq show ?thesis by (simp add: format_int_def dec_digits_inject)
  next
    case False
    with eq sgn [of m] have "\<not> n < 0" by (auto simp: format_int_def [of n])
    with False eq show ?thesis by (simp add: format_int_def dec_digits_inject)
  qed
qed simp

end
