(* ===== verification/Errors.thy ===== *)
theory Errors
  imports Go_Base
begin

text \<open>
  Go error values. A package-level \<open>errors.New\<close> variable is a constructor (the
  package is named where two packages use one name), \<open>fmt.Errorf("..: %w", err)\<close>
  is \<open>Wrapf\<close>, an \<open>adminRentalFilterError\<close> unwraps to the error of the filters, \<open>errors.New\<close> or \<open>fmt.Errorf\<close> without a wrapped error is \<open>ErrText\<close>,
  and an error of PostgreSQL carries its SQLSTATE and the violated constraint.
  \<open>errors_is\<close> is \<open>errors.Is\<close> against a package-level error.
\<close>

datatype payment_error =
    ErrPaymentNotFound | ErrWebhookMissingIdentifier | ErrWebhookMissingExternalTxID
  | ErrWebhookNotSuccessful | ErrWebhookInvalidTransition | ErrWebhookExternalTxMismatch
  | ErrWebhookInvalidPayload | ErrWebhookIdentifierMismatch | ErrWebhookFinancialMismatch
  | ErrWebhookProviderUnsupported | ErrInvalidWebhookSecret | ErrPaymentAlreadyProcessed
  | ErrRentalNotEligible | ErrAccountNotReserved | ErrFinancialUserNotFound
  | ErrWalletPaymentNotFound | ErrWalletPaymentNotAllowed | ErrWalletPaymentExpired
  | ErrWalletInsufficientBalance | ErrWalletRefundNotFound | ErrWalletRefundNotAllowed
  | ErrDepositHoldNotFound | ErrDepositSettlementNotAllowed | ErrDepositAlreadySettled
  | ErrDepositReviewDeadlinePassed | ErrInvalidEvidenceReference | ErrInvalidFinalizationLimit
  | ErrLedgerIdempotencyConflict | ErrAdminRequired | ErrInvalidReasonCode
  | ErrInvalidLedgerPagination | ErrInvalidRefundPagination | ErrInvalidAdminRentalFilters
  | ErrAdminRentalNotFound | ErrCustomerRentalNotFound | ErrCustomerPaymentUnavailable

datatype adjustment_error =
    ErrBalanceAdjustmentNotFound | ErrBalanceAdjustmentAmountRequired
  | ErrBalanceAdjustmentWouldBeNegative | ErrBalanceAdjustmentOverflow
  | ErrBalanceAdjustmentCurrencyUnsupported | ErrBalanceAdjustmentReasonRequired
  | ErrBalanceAdjustmentCommentTooLong | ErrBalanceAdjustmentIdempotencyRequired
  | ErrBalanceAdjustmentIdempotencyConflict

datatype rental_error =
    ErrInvalidPeriod | ErrPeriodTooShort | ErrPeriodTooLong | ErrInvalidUserID
  | ErrInvalidAccountID | ErrInvalidPrice | ErrInvalidDeposit | ErrInvalidTransition
  | ErrUnsupportedCurrency | ErrCannotCancel | ErrAccountNotAvailable | ErrInsufficientBalance
  | ErrUserBlocked | ErrCredentialsNotAvailable | ErrInvalidRentalPricing
  | ErrRentalPriceOverflow | ErrRentalAccessDenied | ErrCustomerQueriesUnavailable
  | ErrRentalNotFound

datatype account_error =
    Account_ErrInvalidSteamID | Account_ErrInvalidHourlyPrice | Account_ErrInvalidDeposit
  | Account_ErrCannotPublish | Account_ErrInvalidState | Account_ErrEmptyLogin
  | Account_ErrEmptyPassword | Account_ErrUnsupportedCurrency | Account_ErrAccountNotFound
  | Account_ErrAdminAuthorization | Account_ErrPricingOutOfRange | ErrAccountLifecycleConflict

datatype user_error =
    User_ErrInvalidTrustScore | User_ErrInvalidEmail | User_ErrUserNotFound
  | User_ErrAdminAuthorization | User_ErrAdminSelfUpdateForbidden

datatype auth_error =
    Auth_ErrInvalidEmail | Auth_ErrPasswordTooShort | Auth_ErrUserBlocked | Auth_ErrEmailNotVerified
  | Auth_ErrInvalidRefreshToken | Auth_ErrTokenExpired | Auth_ErrTokenAlreadyRevoked
  | Auth_ErrUserNotFound | Auth_ErrRefreshTokenNotFound
  | ErrCurrentUserForbidden | ErrCurrentAdminRequired | ErrTransactionRequired

datatype err =
    PaymentErr payment_error
  | AdjustmentErr adjustment_error
  | RentalErr rental_error
  | AccountErr account_error
  | UserErr user_error
  | AuthErr auth_error
  | ErrNoRows
  | PgError string string
  | ErrText string
  | adminRentalFilterError string
  | Wrapf string err

fun root_error :: "err \<Rightarrow> err" where
  "root_error (Wrapf msg e) = root_error e"
| "root_error (adminRentalFilterError msg) = PaymentErr ErrInvalidAdminRentalFilters"
| "root_error e = e"

definition errors_is :: "err \<Rightarrow> err \<Rightarrow> bool" where
  "errors_is e target \<longleftrightarrow> root_error e = target"

lemma errors_is_simps [simp]:
  "errors_is (Wrapf msg e) t = errors_is e t"
  "errors_is (PaymentErr p) t = (PaymentErr p = t)"
  "errors_is (AdjustmentErr a) t = (AdjustmentErr a = t)"
  "errors_is (RentalErr r) t = (RentalErr r = t)"
  "errors_is (AccountErr c) t = (AccountErr c = t)"
  "errors_is (UserErr u) t = (UserErr u = t)"
  "errors_is (AuthErr h) t = (AuthErr h = t)"
  "errors_is ErrNoRows t = (ErrNoRows = t)"
  "errors_is (PgError k n) t = (PgError k n = t)"
  "errors_is (ErrText m) t = (ErrText m = t)"
  "errors_is (adminRentalFilterError m) t = (PaymentErr ErrInvalidAdminRentalFilters = t)"
  by (simp_all add: errors_is_def)

abbreviation (input) unique_violation :: "string \<Rightarrow> err" where
  "unique_violation c \<equiv> PgError ''23505'' c"

abbreviation (input) check_violation :: "string \<Rightarrow> err" where
  "check_violation c \<equiv> PgError ''23514'' c"

abbreviation (input) numeric_out_of_range :: err where
  "numeric_out_of_range \<equiv> PgError ''22003'' ''bigint''"

abbreviation (input) invalid_text_representation :: "string \<Rightarrow> err" where
  "invalid_text_representation t \<equiv> PgError ''22P02'' t"

definition sqlstate_is :: "err \<Rightarrow> string \<Rightarrow> bool" where
  "sqlstate_is e code = (case root_error e of PgError c n \<Rightarrow> c = code | _ \<Rightarrow> False)"

text \<open>Calls that return a value or an error, one after the other.\<close>

definition and_then :: "err + 'a \<Rightarrow> ('a \<Rightarrow> err + 'b) \<Rightarrow> err + 'b" where
  "and_then r f = (case r of Inl e \<Rightarrow> Inl e | Inr x \<Rightarrow> f x)"

lemma and_then_ok: "and_then r f = Inr y \<longleftrightarrow> (\<exists>x. r = Inr x \<and> f x = Inr y)"
  by (cases r) (simp_all add: and_then_def)

lemma and_then_simps [simp]: "and_then (Inl e) f = Inl e" "and_then (Inr x) f = f x"
  by (simp_all add: and_then_def)

end
