(* ===== verification/Webhook_Signature.thy ===== *)
theory Webhook_Signature
  imports Errors
begin

text \<open>
  The authentication of a webhook: the rules for the configured secret and the check of
  the request's signature (src/internal/payment/service.go). HMAC-SHA256 is a
  parameter of the model.
\<close>

section \<open>\<open>strings.ToLower\<close> and \<open>strings.Contains\<close>\<close>

text \<open>
  The result is only searched for ASCII words. Beside the ASCII capitals the Kelvin
  sign (\<open>E2 84 AA\<close>) and the dotted I (\<open>C4 B0\<close>) have an ASCII lower case; every
  other non-ASCII rune keeps non-ASCII bytes.
\<close>

fun to_lower :: "string \<Rightarrow> string" where
  "to_lower [] = []"
| "to_lower (c # s) =
     (if is_upper c then char_of ((of_char c :: nat) + 32) # to_lower s
      else if c = CHR 0xE2 \<and> has_prefix s [CHR 0x84, CHR 0xAA] then CHR ''k'' # to_lower (drop 2 s)
      else if c = CHR 0xC4 \<and> has_prefix s [CHR 0xB0] then CHR ''i'' # to_lower (drop 1 s)
      else c # to_lower s)"

fun contains :: "string \<Rightarrow> string \<Rightarrow> bool" where
  "contains [] w \<longleftrightarrow> w = []"
| "contains (c # s) w \<longleftrightarrow> has_prefix (c # s) w \<or> contains s w"

lemma contains_iff: "contains s w \<longleftrightarrow> (\<exists>u v. s = u @ w @ v)"
proof (induction s)
  case (Cons c s)
  have "(\<exists>u v. c # s = u @ w @ v) \<longleftrightarrow> has_prefix (c # s) w \<or> (\<exists>u v. s = u @ w @ v)"
    by (auto simp: has_prefix_iff Cons_eq_append_conv)
  with Cons show ?case by simp
qed auto

section \<open>The secret\<close>

definition unsafe_secret_words :: "string list" where
  "unsafe_secret_words = [''placeholder'', ''change-me'', ''changeme'', ''default'', ''example'',
     ''local-payment-webhook-secret'', ''your-secret'', ''<generate'']"

definition ValidateWebhookSecret :: "string \<Rightarrow> err option" where
  "ValidateWebhookSecret secret =
     (if secret = [] \<or> trim_space secret \<noteq> secret \<or> length secret < 32 then Some (PaymentErr ErrInvalidWebhookSecret)
      else if list_ex (contains (to_lower secret)) unsafe_secret_words then Some (PaymentErr ErrInvalidWebhookSecret)
      else if length (remdups secret) < 8 then Some (PaymentErr ErrInvalidWebhookSecret)
      else None)"

definition NewPaymentServiceWithWebhookSecret :: "string \<Rightarrow> err + string" where
  "NewPaymentServiceWithWebhookSecret secret =
     (case ValidateWebhookSecret secret of Some e \<Rightarrow> Inl e | None \<Rightarrow> Inr secret)"

section \<open>\<open>encoding/hex\<close>\<close>

definition hex_digit :: "nat \<Rightarrow> char" where
  "hex_digit d = (if d < 10 then char_of (48 + d) else char_of (87 + d))"

definition hex_value :: "char \<Rightarrow> nat option" where
  "hex_value c =
     (let n = (of_char c :: nat)
      in if 48 \<le> n \<and> n \<le> 57 then Some (n - 48)
         else if 97 \<le> n \<and> n \<le> 102 then Some (n - 87)
         else if 65 \<le> n \<and> n \<le> 70 then Some (n - 55)
         else None)"

fun hex_encode :: "string \<Rightarrow> string" where
  "hex_encode [] = []"
| "hex_encode (c # s) = hex_digit (of_char c div 16) # hex_digit (of_char c mod 16) # hex_encode s"

fun hex_decode :: "string \<Rightarrow> string option" where
  "hex_decode [] = Some []"
| "hex_decode [_] = None"
| "hex_decode (a # b # s) =
     (case (hex_value a, hex_value b, hex_decode s) of
        (Some x, Some y, Some t) \<Rightarrow> Some (char_of (16 * x + y) # t)
      | _ \<Rightarrow> None)"

lemma hex_value_digit [simp]: "d < 16 \<Longrightarrow> hex_value (hex_digit d) = Some d"
  by (auto simp: hex_value_def hex_digit_def Let_def)

lemma high_nibble: "(of_char (c :: char) :: nat) div 16 < 16"
  by (rule less_mult_imp_div_less) simp

lemma hex_decode_encode [simp]: "hex_decode (hex_encode s) = Some s"
proof (induction s)
  case (Cons c s)
  have "(of_char c :: nat) div 16 < 16" by (rule high_nibble)
  with Cons show ?case by simp
qed simp

lemma length_hex_encode [simp]: "length (hex_encode s) = 2 * length s"
  by (induction s) auto

definition is_lower_hex :: "char \<Rightarrow> bool" where
  "is_lower_hex c \<longleftrightarrow> is_digit c \<or> in_class c 97 102"

lemma hex_digit_lower: "d < 16 \<Longrightarrow> is_lower_hex (hex_digit d)"
  by (auto simp: is_lower_hex_def is_digit_def in_class_def hex_digit_def)

lemma hex_encode_lower: "list_all is_lower_hex (hex_encode s)"
proof (induction s)
  case (Cons c s)
  have "(of_char c :: nat) div 16 < 16" by (rule high_nibble)
  with Cons show ?case by (simp add: hex_digit_lower)
qed simp

lemma hex_digit_value: "is_lower_hex c \<Longrightarrow> \<exists>d<16. hex_value c = Some d \<and> hex_digit d = c"
proof -
  assume c: "is_lower_hex c"
  define n where "n = (of_char c :: nat)"
  have "c = char_of n" by (simp add: n_def)
  moreover have "(48 \<le> n \<and> n \<le> 57) \<or> (97 \<le> n \<and> n \<le> 102)"
    using c by (auto simp: is_lower_hex_def is_digit_def in_class_def n_def)
  ultimately show ?thesis
    by (auto simp: hex_value_def hex_digit_def Let_def)
qed

text \<open>A decoded lower-case string is the encoding of its bytes.\<close>

lemma hex_encode_decode: "list_all is_lower_hex s \<Longrightarrow> hex_decode s = Some t \<Longrightarrow> hex_encode t = s"
proof (induction s arbitrary: t rule: hex_decode.induct)
  case (3 a b s)
  obtain x y where xy: "x < 16" "hex_value a = Some x" "hex_digit x = a" "y < 16" "hex_value b = Some y" "hex_digit y = b"
    using 3(2) hex_digit_value [of a] hex_digit_value [of b] by auto
  then obtain u where u: "hex_decode s = Some u" "t = char_of (16 * x + y) # u"
    using 3(3) by (auto split: option.splits)
  then have "hex_encode u = s" using 3 xy by simp
  with xy u show ?case by simp
qed auto

section \<open>The signature\<close>

text \<open>\<open>mac\<close> stands for HMAC-SHA256 (crypto/hmac, crypto/sha256): key and message to the 32-byte code.\<close>

definition VerifySignature :: "(string \<Rightarrow> string \<Rightarrow> string) \<Rightarrow> string \<Rightarrow> string \<Rightarrow> string \<Rightarrow> bool" where
  "VerifySignature mac webhookSecret payload signature =
     (if ValidateWebhookSecret webhookSecret \<noteq> None \<or> length signature \<noteq> 64 then False
      else if \<not> list_all is_lower_hex signature then False
      else case hex_decode signature of
             None \<Rightarrow> False
           | Some provided \<Rightarrow> if length provided \<noteq> 32 then False else provided = mac webhookSecret payload)"

text \<open>
  A signature is accepted exactly when the configured secret is acceptable and the
  signature is the lower-case hexadecimal form of the payload's authentication code:
  no other spelling of it passes, and under an unacceptable secret nothing does.
\<close>

theorem VerifySignature_iff:
  assumes "length (mac secret payload) = 32"
  shows "VerifySignature mac secret payload signature \<longleftrightarrow>
     ValidateWebhookSecret secret = None \<and> signature = hex_encode (mac secret payload)"
proof
  assume "VerifySignature mac secret payload signature"
  then show "ValidateWebhookSecret secret = None \<and> signature = hex_encode (mac secret payload)"
    using hex_encode_decode [of signature] by (auto simp: VerifySignature_def split: if_splits option.splits)
next
  assume "ValidateWebhookSecret secret = None \<and> signature = hex_encode (mac secret payload)"
  then show "VerifySignature mac secret payload signature"
    using assms by (simp add: VerifySignature_def hex_encode_lower)
qed

lemma VerifySignature_iff_witness:
  "VerifySignature (\<lambda>k m. take 32 k) ''0123456789abcdefghijklmnopqrstuvwxyz'' ''{}'' (hex_encode ''0123456789abcdefghijklmnopqrstuv'')"
proof -
  have "ValidateWebhookSecret ''0123456789abcdefghijklmnopqrstuvwxyz'' = None" by code_simp
  moreover have "length (take 32 ''0123456789abcdefghijklmnopqrstuvwxyz'') = 32" by simp
  ultimately show ?thesis
    using VerifySignature_iff [of "\<lambda>k m. take 32 k" "''0123456789abcdefghijklmnopqrstuvwxyz''" "''{}''"
        "hex_encode ''0123456789abcdefghijklmnopqrstuv''"] by simp
qed

text \<open>
  An acceptable secret has at least 32 bytes of at least 8 different values, no
  surrounding white space, and contains no placeholder word in any capitalisation.
\<close>

theorem ValidateWebhookSecret_ok:
  "ValidateWebhookSecret secret = None \<longleftrightarrow>
     32 \<le> length secret \<and> 8 \<le> card (set secret) \<and> trim_space secret = secret \<and>
     \<not> (\<exists>w\<in>set unsafe_secret_words. \<exists>u v. to_lower secret = u @ w @ v)"
  by (auto simp: ValidateWebhookSecret_def list_ex_iff contains_iff length_remdups_card_conv)

end
