(* ===== verification/Tx.thy ===== *)
theory Tx
  imports Errors
begin

text \<open>
  Transactions. The body of a transaction is a function from the database state
  to an error or a result and the new state: an error carries no state, because
  \<open>WithinTransaction\<close> (src/internal/shared/database/transaction.go) rolls back
  whenever the body returns one. A statement whose error the code inspects and
  survives (no row matched) leaves the state as it was, which is what
  \<open>tx_catch\<close> gives its handler.

  The locale \<open>step_preorder\<close> is the interface for facts of the form \<open>every
  successful step stays in a reflexive and transitive relation\<close>: it is
  interpreted for append-only tables, settled deposits and the other relations
  of the development, and the composition rules are proved once.
\<close>

type_synonym ('s, 'a) tx = "'s \<Rightarrow> err + ('a \<times> 's)"

section \<open>Combinators\<close>

definition tx_return :: "'a \<Rightarrow> ('s, 'a) tx" where
  "tx_return x = (\<lambda>s. Inr (x, s))"

definition tx_fail :: "err \<Rightarrow> ('s, 'a) tx" where
  "tx_fail e = (\<lambda>s. Inl e)"

definition tx_bind :: "('s, 'a) tx \<Rightarrow> ('a \<Rightarrow> ('s, 'b) tx) \<Rightarrow> ('s, 'b) tx" where
  "tx_bind m f = (\<lambda>s. case m s of Inl e \<Rightarrow> Inl e | Inr (x, t) \<Rightarrow> f x t)"

definition tx_seq :: "('s, 'a) tx \<Rightarrow> ('s, 'b) tx \<Rightarrow> ('s, 'b) tx" where
  "tx_seq m n = tx_bind m (\<lambda>_. n)"

definition tx_read :: "('s \<Rightarrow> 'a) \<Rightarrow> ('s, 'a) tx" where
  "tx_read f = (\<lambda>s. Inr (f s, s))"

definition fail_if :: "bool \<Rightarrow> err \<Rightarrow> ('s, unit) tx" where
  "fail_if c e = (\<lambda>s. if c then Inl e else Inr ((), s))"

definition tx_when :: "bool \<Rightarrow> ('s, unit) tx \<Rightarrow> ('s, unit) tx" where
  "tx_when c m = (if c then m else tx_return ())"

definition tx_catch :: "('s, 'a) tx \<Rightarrow> (err \<Rightarrow> ('s, 'a) tx) \<Rightarrow> ('s, 'a) tx" where
  "tx_catch m h = (\<lambda>s. case m s of Inl e \<Rightarrow> h e s | Inr r \<Rightarrow> Inr r)"

definition wrapf :: "string \<Rightarrow> ('s, 'a) tx \<Rightarrow> ('s, 'a) tx" where
  "wrapf msg m = tx_catch m (\<lambda>e. tx_fail (Wrapf msg e))"

definition wrap_unless :: "err \<Rightarrow> string \<Rightarrow> ('s, 'a) tx \<Rightarrow> ('s, 'a) tx" where
  "wrap_unless t msg m = tx_catch m (\<lambda>e. tx_fail (if errors_is e t then e else Wrapf msg e))"

definition lift_result :: "err + 'a \<Rightarrow> ('s, 'a) tx" where
  "lift_result r = (\<lambda>s. case r of Inl e \<Rightarrow> Inl e | Inr x \<Rightarrow> Inr (x, s))"

text \<open>A loop over a slice that returns at the first error, without and with a result per element.\<close>

fun tx_each :: "('a \<Rightarrow> ('s, unit) tx) \<Rightarrow> 'a list \<Rightarrow> ('s, unit) tx" where
  "tx_each f [] = tx_return ()"
| "tx_each f (x # xs) = tx_seq (f x) (tx_each f xs)"

fun tx_collect :: "('a \<Rightarrow> ('s, 'b) tx) \<Rightarrow> 'a list \<Rightarrow> ('s, 'b list) tx" where
  "tx_collect f [] = tx_return []"
| "tx_collect f (x # xs) = tx_bind (f x) (\<lambda>y. tx_bind (tx_collect f xs) (\<lambda>ys. tx_return (y # ys)))"

text \<open>\<open>QueryRow(..).Scan\<close>: the first row of the result, or \<open>pgx.ErrNoRows\<close>.\<close>

definition query_row :: "('s \<Rightarrow> 'a list) \<Rightarrow> ('s, 'a) tx" where
  "query_row q = (\<lambda>s. case q s of [] \<Rightarrow> Inl ErrNoRows | x # _ \<Rightarrow> Inr (x, s))"

text \<open>\<open>if errors.Is(err, pgx.ErrNoRows) { return nil, e }\<close>\<close>

definition no_rows_as :: "err \<Rightarrow> ('s, 'a) tx \<Rightarrow> ('s, 'a) tx" where
  "no_rows_as e m = tx_catch m (\<lambda>d. tx_fail (if errors_is d ErrNoRows then e else d))"

definition WithinTransaction :: "('s, 'a) tx \<Rightarrow> 's \<Rightarrow> (err + 'a) \<times> 's" where
  "WithinTransaction body s =
     (case body s of Inl e \<Rightarrow> (Inl e, s) | Inr (x, t) \<Rightarrow> (Inr x, t))"

section \<open>Inversion of a successful run\<close>

lemma tx_return_ok [tx_inv]: "tx_return x s = Inr r \<longleftrightarrow> r = (x, s)"
  by (auto simp: tx_return_def)

lemma tx_fail_ok [tx_inv]: "tx_fail e s \<noteq> Inr r"
  by (simp add: tx_fail_def)

lemma tx_bind_ok [tx_inv]:
  "tx_bind m f s = Inr r \<longleftrightarrow> (\<exists>x t. m s = Inr (x, t) \<and> f x t = Inr r)"
  by (auto simp: tx_bind_def split: sum.splits prod.splits)

lemma tx_seq_ok [tx_inv]:
  "tx_seq m n s = Inr r \<longleftrightarrow> (\<exists>x t. m s = Inr (x, t) \<and> n t = Inr r)"
  by (simp add: tx_seq_def tx_bind_ok)

lemma tx_read_ok [tx_inv]: "tx_read f s = Inr r \<longleftrightarrow> r = (f s, s)"
  by (auto simp: tx_read_def)

lemma fail_if_ok [tx_inv]: "fail_if c e s = Inr r \<longleftrightarrow> \<not> c \<and> r = ((), s)"
  by (auto simp: fail_if_def)

lemma tx_if_ok [tx_inv]:
  "(if c then m else n) s = Inr r \<longleftrightarrow> (c \<and> m s = Inr r) \<or> (\<not> c \<and> n s = Inr r)"
  by simp

lemma tx_when_ok [tx_inv]:
  "tx_when c m s = Inr r \<longleftrightarrow> (c \<and> m s = Inr r) \<or> (\<not> c \<and> r = ((), s))"
  by (auto simp: tx_when_def tx_return_def)

lemma wrapf_ok [tx_inv]: "wrapf msg m s = Inr r \<longleftrightarrow> m s = Inr r"
  by (auto simp: wrapf_def tx_catch_def tx_fail_def split: sum.splits)

lemma wrap_unless_ok [tx_inv]: "wrap_unless t msg m s = Inr r \<longleftrightarrow> m s = Inr r"
  by (auto simp: wrap_unless_def tx_catch_def tx_fail_def split: sum.splits)

lemma no_rows_as_ok [tx_inv]: "no_rows_as e m s = Inr r \<longleftrightarrow> m s = Inr r"
  by (auto simp: no_rows_as_def tx_catch_def tx_fail_def split: sum.splits)

lemma tx_catch_ok:
  "tx_catch m h s = Inr r \<longleftrightarrow> m s = Inr r \<or> (\<exists>e. m s = Inl e \<and> h e s = Inr r)"
  by (auto simp: tx_catch_def split: sum.splits)

lemma lift_result_ok [tx_inv]: "lift_result x s = Inr r \<longleftrightarrow> (\<exists>v. x = Inr v \<and> r = (v, s))"
  by (auto simp: lift_result_def split: sum.splits)

lemma query_row_ok [tx_inv]:
  "query_row q s = Inr r \<longleftrightarrow> (\<exists>x xs. q s = x # xs \<and> r = (x, s))"
  by (auto simp: query_row_def split: list.splits)

lemma query_row_unique:
  assumes "x \<in> set (q s)" "\<And>y. y \<in> set (q s) \<Longrightarrow> y = x"
  shows "query_row q s = Inr (x, s)"
proof -
  from assms(1) obtain y ys where q: "q s = y # ys" by (cases "q s") auto
  with assms(2) [of y] have "y = x" by simp
  with q show ?thesis by (simp add: query_row_def)
qed

lemma query_row_set: "query_row q s = Inr (x, t) \<Longrightarrow> x \<in> set (q s) \<and> t = s"
  by (auto simp: query_row_ok)

section \<open>Forward evaluation\<close>

lemma tx_bind_step: "m s = Inr (x, t) \<Longrightarrow> tx_bind m f s = f x t"
  by (simp add: tx_bind_def)

lemma tx_bind_stop: "m s = Inl e \<Longrightarrow> tx_bind m f s = Inl e"
  by (simp add: tx_bind_def)

lemma tx_seq_step: "m s = Inr (x, t) \<Longrightarrow> tx_seq m n s = n t"
  by (simp add: tx_seq_def tx_bind_def)

lemma tx_seq_stop: "m s = Inl e \<Longrightarrow> tx_seq m n s = Inl e"
  by (simp add: tx_seq_def tx_bind_def)

lemma tx_catch_step: "m s = Inr r \<Longrightarrow> tx_catch m h s = Inr r"
  by (simp add: tx_catch_def)

lemma tx_catch_stop: "m s = Inl e \<Longrightarrow> tx_catch m h s = h e s"
  by (simp add: tx_catch_def)

lemma wrapf_step: "m s = Inr r \<Longrightarrow> wrapf msg m s = Inr r"
  by (simp add: wrapf_ok)

lemma wrapf_stop: "m s = Inl e \<Longrightarrow> wrapf msg m s = Inl (Wrapf msg e)"
  by (simp add: wrapf_def tx_catch_def tx_fail_def)

lemma wrap_unless_step: "m s = Inr r \<Longrightarrow> wrap_unless t msg m s = Inr r"
  by (simp add: wrap_unless_ok)

lemma wrap_unless_stop:
  "m s = Inl e \<Longrightarrow> wrap_unless t msg m s = Inl (if errors_is e t then e else Wrapf msg e)"
  by (simp add: wrap_unless_def tx_catch_def tx_fail_def)

lemma fail_if_False [simp]: "fail_if False e s = Inr ((), s)"
  by (simp add: fail_if_def)

lemma fail_if_True [simp]: "fail_if True e s = Inl e"
  by (simp add: fail_if_def)

lemmas tx_forward = tx_bind_step tx_seq_step tx_catch_step wrapf_step wrap_unless_step
lemmas tx_stop = tx_bind_stop tx_seq_stop tx_catch_stop wrapf_stop wrap_unless_stop

lemma no_rows_as_empty: "q s = [] \<Longrightarrow> no_rows_as e (query_row q) s = Inl e"
  by (simp add: no_rows_as_def query_row_def tx_catch_def tx_fail_def)

text \<open>All combinators unfolded, for the evaluation of a run on a concrete state.\<close>

lemmas tx_defs = tx_return_def tx_fail_def tx_bind_def tx_seq_def tx_read_def fail_if_def
  tx_when_def tx_catch_def wrapf_def wrap_unless_def lift_result_def query_row_def no_rows_as_def

lemma WithinTransaction_ok [tx_inv]:
  "WithinTransaction body s = (Inr x, t) \<longleftrightarrow> body s = Inr (x, t)"
  by (auto simp: WithinTransaction_def split: sum.splits)

lemma WithinTransaction_error:
  "WithinTransaction body s = (Inl e, t) \<longleftrightarrow> body s = Inl e \<and> t = s"
  by (auto simp: WithinTransaction_def split: sum.splits)

lemma WithinTransaction_cases:
  obtains (ok) x t where "body s = Inr (x, t)" "WithinTransaction body s = (Inr x, t)"
  | (err) e where "body s = Inl e" "WithinTransaction body s = (Inl e, s)"
  by (cases "body s") (auto simp: WithinTransaction_def)

text \<open>The result of a transaction is a success that satisfies \<open>Q\<close>.\<close>

fun ok_with :: "('a \<Rightarrow> bool) \<Rightarrow> (err + 'a) \<times> 's \<Rightarrow> bool" where
  "ok_with Q (Inl e, s) = False"
| "ok_with Q (Inr x, s) = Q x"

lemma ok_withD: "ok_with Q r \<Longrightarrow> \<exists>x t. r = (Inr x, t) \<and> Q x"
  by (induction Q r rule: ok_with.induct) auto

section \<open>Steps inside a preorder\<close>

locale step_preorder =
  fixes R :: "'s \<Rightarrow> 's \<Rightarrow> bool"
  assumes R_refl: "R s s"
    and R_trans: "R s t \<Longrightarrow> R t u \<Longrightarrow> R s u"
begin

definition closed :: "('s, 'a) tx \<Rightarrow> bool" where
  "closed m \<longleftrightarrow> (\<forall>s x t. m s = Inr (x, t) \<longrightarrow> R s t)"

lemma closedI: "(\<And>s x t. m s = Inr (x, t) \<Longrightarrow> R s t) \<Longrightarrow> closed m"
  by (simp add: closed_def)

lemma closedD: "closed m \<Longrightarrow> m s = Inr (x, t) \<Longrightarrow> R s t"
  by (simp add: closed_def)

lemma closed_return [closed_intros]: "closed (tx_return x)"
  by (auto simp: closed_def tx_inv R_refl)

lemma closed_fail [closed_intros]: "closed (tx_fail e)"
  by (simp add: closed_def tx_inv)

lemma closed_read [closed_intros]: "closed (tx_read f)"
  by (auto simp: closed_def tx_inv R_refl)

lemma closed_query_row [closed_intros]: "closed (query_row q)"
  by (auto simp: closed_def tx_inv R_refl)

lemma closed_fail_if [closed_intros]: "closed (fail_if c e)"
  by (auto simp: closed_def tx_inv R_refl)

lemma closed_lift_result [closed_intros]: "closed (lift_result x)"
  by (auto simp: closed_def tx_inv R_refl)

lemma closed_bind [closed_intros]:
  "closed m \<Longrightarrow> (\<And>x. closed (f x)) \<Longrightarrow> closed (tx_bind m f)"
  unfolding closed_def tx_inv by (blast intro: R_trans)

lemma closed_seq [closed_intros]: "closed m \<Longrightarrow> closed n \<Longrightarrow> closed (tx_seq m n)"
  by (simp add: tx_seq_def closed_bind)

lemma closed_if [closed_intros]: "closed m \<Longrightarrow> closed n \<Longrightarrow> closed (if c then m else n)"
  by simp

lemma closed_when [closed_intros]: "closed m \<Longrightarrow> closed (tx_when c m)"
  by (simp add: tx_when_def closed_return)

lemma closed_each [closed_intros]: "(\<And>x. closed (f x)) \<Longrightarrow> closed (tx_each f xs)"
  by (induction xs) (simp_all add: closed_return closed_seq)

lemma closed_collect [closed_intros]: "(\<And>x. closed (f x)) \<Longrightarrow> closed (tx_collect f xs)"
  by (induction xs) (simp_all add: closed_return closed_bind)

lemma closed_wrapf [closed_intros]: "closed m \<Longrightarrow> closed (wrapf msg m)"
  by (simp add: closed_def tx_inv)

lemma closed_wrap_unless [closed_intros]: "closed m \<Longrightarrow> closed (wrap_unless e msg m)"
  by (simp add: closed_def tx_inv)

lemma closed_no_rows_as [closed_intros]: "closed m \<Longrightarrow> closed (no_rows_as e m)"
  by (simp add: closed_def tx_inv)

lemma closed_catch [closed_intros]:
  "closed m \<Longrightarrow> (\<And>e. closed (h e)) \<Longrightarrow> closed (tx_catch m h)"
  unfolding closed_def tx_catch_ok by blast

lemma closed_option [closed_intros]:
  "closed m \<Longrightarrow> (\<And>x. closed (f x)) \<Longrightarrow> closed (case v of None \<Rightarrow> m | Some x \<Rightarrow> f x)"
  by (simp split: option.split)

lemma closed_sum [closed_intros]:
  "(\<And>x. closed (f x)) \<Longrightarrow> (\<And>y. closed (g y)) \<Longrightarrow> closed (case v of Inl x \<Rightarrow> f x | Inr y \<Rightarrow> g y)"
  by (simp split: sum.split)

lemma closed_let [closed_intros]: "(\<And>x. closed (f x)) \<Longrightarrow> closed (let x = v in f x)"
  by simp

lemma closed_prod [closed_intros]: "(\<And>x y. closed (f x y)) \<Longrightarrow> closed (case v of (x, y) \<Rightarrow> f x y)"
  by (simp split: prod.split)

lemma within_closed: "closed m \<Longrightarrow> R s (snd (WithinTransaction m s))"
  by (rule WithinTransaction_cases [of m s]) (auto simp: R_refl dest: closedD)

end

text \<open>Reads leave the state alone: the finest such relation is equality.\<close>

interpretation unchanged: step_preorder "(=)"
  by unfold_locales auto

section \<open>Tables as lists of rows\<close>

text \<open>\<open>UPDATE t SET f WHERE P\<close>: every row that matches is changed in place.\<close>

definition upd :: "('r \<Rightarrow> bool) \<Rightarrow> ('r \<Rightarrow> 'r) \<Rightarrow> 'r list \<Rightarrow> 'r list" where
  "upd P f rows = map (\<lambda>r. if P r then f r else r) rows"

lemma upd_Nil [simp]: "upd P f [] = []"
  by (simp add: upd_def)

lemma upd_Cons [simp]: "upd P f (r # rows) = (if P r then f r else r) # upd P f rows"
  by (simp add: upd_def)

lemma upd_length [simp]: "length (upd P f rows) = length rows"
  by (simp add: upd_def)

lemma upd_append [simp]: "upd P f (xs @ ys) = upd P f xs @ upd P f ys"
  by (simp add: upd_def)

lemma set_upd: "set (upd P f rows) = (\<lambda>r. if P r then f r else r) ` set rows"
  by (simp add: upd_def)

text \<open>
  The constraints of a table: the row-level ones (CHECK, ranges of the column
  types) and the unique indexes, as the violation they raise between two rows.
  \<open>valid_table\<close> is what PostgreSQL keeps of them at every moment.
\<close>

record 'r schema =
  checks :: "'r \<Rightarrow> err option"
  clash :: "'r \<Rightarrow> 'r \<Rightarrow> err option"

fun first_error :: "(bool \<times> err) list \<Rightarrow> err option" where
  "first_error [] = None"
| "first_error ((violated, e) # cs) = (if violated then Some e else first_error cs)"

fun first_some :: "('a \<Rightarrow> 'b option) \<Rightarrow> 'a list \<Rightarrow> 'b option" where
  "first_some f [] = None"
| "first_some f (x # xs) = (case f x of Some y \<Rightarrow> Some y | None \<Rightarrow> first_some f xs)"

fun first_clash :: "'r schema \<Rightarrow> 'r list \<Rightarrow> err option" where
  "first_clash sc [] = None"
| "first_clash sc (r # rows) =
     (case first_some (clash sc r) rows of Some e \<Rightarrow> Some e | None \<Rightarrow> first_clash sc rows)"

definition valid_table :: "'r schema \<Rightarrow> 'r list \<Rightarrow> bool" where
  "valid_table sc rows \<longleftrightarrow>
     list_all (\<lambda>r. checks sc r = None) rows \<and> sorted_wrt (\<lambda>a b. clash sc a b = None) rows"

text \<open>
  The statements. \<open>get\<close> and \<open>put\<close> are the table's field of the state and its
  update. An UPDATE gives the number of the rows it matched (\<open>RowsAffected\<close>); it
  fails when a changed row violates a constraint.
\<close>

definition update_table ::
  "('s \<Rightarrow> 'r list) \<Rightarrow> (('r list \<Rightarrow> 'r list) \<Rightarrow> 's \<Rightarrow> 's) \<Rightarrow> 'r schema \<Rightarrow> ('r \<Rightarrow> bool) \<Rightarrow> ('r \<Rightarrow> 'r) \<Rightarrow> ('s, nat) tx" where
  "update_table get put sc P f =
     (\<lambda>s. let rows = upd P f (get s)
          in case first_some (\<lambda>r. checks sc (f r)) (filter P (get s)) of
               Some e \<Rightarrow> Inl e
             | None \<Rightarrow> (case first_clash sc rows of
                        Some e \<Rightarrow> Inl e
                      | None \<Rightarrow> Inr (length (filter P (get s)), put (\<lambda>_. rows) s)))"

definition insert_row ::
  "('s \<Rightarrow> 'r list) \<Rightarrow> (('r list \<Rightarrow> 'r list) \<Rightarrow> 's \<Rightarrow> 's) \<Rightarrow> 'r schema \<Rightarrow> 'r \<Rightarrow> ('s, unit) tx" where
  "insert_row get put sc r =
     (\<lambda>s. case checks sc r of
            Some e \<Rightarrow> Inl e
          | None \<Rightarrow> (case first_some (\<lambda>x. clash sc x r) (get s) of
                       Some e \<Rightarrow> Inl e
                     | None \<Rightarrow> Inr ((), put (\<lambda>_. get s @ [r]) s)))"

text \<open>\<open>ON CONFLICT (key) DO NOTHING\<close>: whether a row was inserted.\<close>

definition insert_on_conflict ::
  "('s \<Rightarrow> 'r list) \<Rightarrow> (('r list \<Rightarrow> 'r list) \<Rightarrow> 's \<Rightarrow> 's) \<Rightarrow> 'r schema \<Rightarrow> ('r \<Rightarrow> 'k) \<Rightarrow> 'r \<Rightarrow> ('s, bool) tx" where
  "insert_on_conflict get put sc key r =
     (\<lambda>s. if checks sc r = None \<and> list_ex (\<lambda>x. key x = key r) (get s) then Inr (False, s)
          else tx_seq (insert_row get put sc r) (tx_return True) s)"

definition delete_rows :: "('s \<Rightarrow> 'r list) \<Rightarrow> (('r list \<Rightarrow> 'r list) \<Rightarrow> 's \<Rightarrow> 's) \<Rightarrow> ('r \<Rightarrow> bool) \<Rightarrow> ('s, nat) tx" where
  "delete_rows get put P =
     (\<lambda>s. Inr (length (filter P (get s)), put (\<lambda>_. filter (\<lambda>r. \<not> P r) (get s)) s))"

text \<open>\<open>if tag.RowsAffected() == 0 { return e }\<close>\<close>

definition some_rows :: "('s, nat) tx \<Rightarrow> err \<Rightarrow> ('s, unit) tx" where
  "some_rows m e = tx_bind m (\<lambda>n. fail_if (n = 0) e)"

lemma first_error_None: "first_error cs = None \<longleftrightarrow> (\<forall>(v, e)\<in>set cs. \<not> v)"
  by (induction cs rule: first_error.induct) auto

lemma first_some_None: "first_some f xs = None \<longleftrightarrow> (\<forall>x\<in>set xs. f x = None)"
  by (induction xs) (auto split: option.splits)

lemma first_clash_None:
  "first_clash sc rows = None \<longleftrightarrow> sorted_wrt (\<lambda>a b. clash sc a b = None) rows"
  by (induction rows) (auto simp: first_some_None [symmetric] split: option.splits)

text \<open>What a successful UPDATE or INSERT has checked, kept folded in the proofs.\<close>

definition update_ok :: "'r schema \<Rightarrow> ('r \<Rightarrow> bool) \<Rightarrow> ('r \<Rightarrow> 'r) \<Rightarrow> 'r list \<Rightarrow> bool" where
  "update_ok sc P f rows \<longleftrightarrow>
     (\<forall>x\<in>set rows. P x \<longrightarrow> checks sc (f x) = None) \<and> sorted_wrt (\<lambda>a b. clash sc a b = None) (upd P f rows)"

definition insert_ok :: "'r schema \<Rightarrow> 'r \<Rightarrow> 'r list \<Rightarrow> bool" where
  "insert_ok sc r rows \<longleftrightarrow> checks sc r = None \<and> (\<forall>x\<in>set rows. clash sc x r = None)"

lemma update_table_ok [tx_inv]:
  "update_table get put sc P f s = Inr r \<longleftrightarrow>
     update_ok sc P f (get s) \<and> r = (length (filter P (get s)), put (\<lambda>_. upd P f (get s)) s)"
proof -
  have "(\<forall>x\<in>set (get s). P x \<longrightarrow> checks sc (f x) = None) \<longleftrightarrow>
      first_some (\<lambda>r. checks sc (f r)) (filter P (get s)) = None"
    by (auto simp: first_some_None)
  then show ?thesis
    by (auto simp: update_ok_def update_table_def Let_def first_clash_None [symmetric] split: option.splits)
qed

lemma insert_row_ok [tx_inv]:
  "insert_row get put sc r s = Inr q \<longleftrightarrow> insert_ok sc r (get s) \<and> q = ((), put (\<lambda>_. get s @ [r]) s)"
  by (auto simp: insert_ok_def insert_row_def first_some_None [symmetric] split: option.splits)

lemma insert_on_conflict_ok [tx_inv]:
  "insert_on_conflict get put sc key r s = Inr q \<longleftrightarrow>
     ((\<exists>x\<in>set (get s). key x = key r) \<and> checks sc r = None \<and> q = (False, s) \<or>
      \<not> (\<exists>x\<in>set (get s). key x = key r) \<and> insert_ok sc r (get s) \<and> q = (True, put (\<lambda>_. get s @ [r]) s))"
  by (auto simp: insert_on_conflict_def list_ex_iff tx_inv insert_ok_def)

lemma delete_rows_ok [tx_inv]:
  "delete_rows get put P s = Inr q \<longleftrightarrow> q = (length (filter P (get s)), put (\<lambda>_. filter (\<lambda>r. \<not> P r) (get s)) s)"
  by (auto simp: delete_rows_def)

lemma update_ok_checks: "update_ok sc P f rows \<Longrightarrow> x \<in> set rows \<Longrightarrow> P x \<Longrightarrow> checks sc (f x) = None"
  by (simp add: update_ok_def)

lemma insert_ok_checks: "insert_ok sc r rows \<Longrightarrow> checks sc r = None"
  by (simp add: insert_ok_def)

lemma insert_ok_clash: "insert_ok sc r rows \<Longrightarrow> x \<in> set rows \<Longrightarrow> clash sc x r = None"
  by (simp add: insert_ok_def)

lemma some_rows_ok [tx_inv]:
  "some_rows m e s = Inr r \<longleftrightarrow> (\<exists>n t. m s = Inr (n, t) \<and> n \<noteq> 0 \<and> r = ((), t))"
  by (auto simp: some_rows_def tx_inv)

lemma length_filter_pos [simp]: "0 < length (filter P xs) \<longleftrightarrow> (\<exists>x\<in>set xs. P x)"
  by (induction xs) auto

lemma valid_update: "valid_table sc rows \<Longrightarrow> update_ok sc P f rows \<Longrightarrow> valid_table sc (upd P f rows)"
  by (auto simp: valid_table_def update_ok_def list_all_iff set_upd)

lemma valid_insert: "valid_table sc rows \<Longrightarrow> insert_ok sc r rows \<Longrightarrow> valid_table sc (rows @ [r])"
  by (simp add: valid_table_def insert_ok_def sorted_wrt_append)

lemma valid_delete: "valid_table sc rows \<Longrightarrow> valid_table sc (filter P rows)"
  by (simp add: valid_table_def list_all_iff sorted_wrt_filter)

text \<open>An UPDATE that keeps the columns of the unique indexes meets no clash.\<close>

lemma sorted_wrt_upd:
  assumes "sorted_wrt R rows"
    and "\<And>x y. x \<in> set rows \<Longrightarrow> y \<in> set rows \<Longrightarrow> R x y \<Longrightarrow> R (if P x then f x else x) (if P y then f y else y)"
  shows "sorted_wrt R (upd P f rows)"
  unfolding upd_def sorted_wrt_map
  by (rule sorted_wrt_mono_rel [OF assms(2) assms(1)]) auto

text \<open>Exactly one row of a table matches a condition that holds of its key only.\<close>

lemma filter_key:
  assumes "distinct (map key rows)" "x \<in> set rows" "P x" "\<And>y. P y \<Longrightarrow> key y = key x"
  shows "filter P rows = [x]"
  using assms(1-2)
proof (induction rows)
  case (Cons r rows)
  show ?case
  proof (cases "r = x")
    case True
    with Cons.prems assms(4) have "filter P rows = []"
      by (auto simp: filter_empty_conv) (metis image_eqI)
    with True assms(3) show ?thesis by simp
  next
    case False
    with Cons.prems have "x \<in> set rows" "key r \<noteq> key x" by auto
    with Cons assms(4) have "\<not> P r" "filter P rows = [x]" by auto
    then show ?thesis by simp
  qed
qed simp

lemma filter_hd: "filter P xs = z # zs \<Longrightarrow> z \<in> set xs \<and> P z"
  by (auto dest: filter_eq_ConsD)

lemma filter_unique:
  assumes "distinct (map key xs)" "x \<in> set xs" "\<And>y. y \<in> set xs \<Longrightarrow> P y \<longleftrightarrow> key y = key x"
  shows "filter P xs = [x]"
proof -
  have "filter P xs = filter (\<lambda>y. key y = key x) xs" using assms(3) by (simp cong: filter_cong)
  also have "\<dots> = [x]" by (rule filter_key [OF assms(1,2)]) simp_all
  finally show ?thesis .
qed

text \<open>The row with the key of \<open>y\<close> becomes \<open>y\<close>: how the effect of an UPDATE of one row is stated.\<close>

definition set_row :: "('r \<Rightarrow> 'k) \<Rightarrow> 'r \<Rightarrow> 'r list \<Rightarrow> 'r list" where
  "set_row key y rows = map (\<lambda>x. if key x = key y then y else x) rows"

lemma upd_set_row:
  assumes "distinct (map key rows)" "x \<in> set rows" "P x" "\<And>y. P y \<Longrightarrow> key y = key x" "key (f x) = key x"
  shows "upd P f rows = set_row key (f x) rows"
proof -
  have "(if P y then f y else y) = (if key y = key (f x) then f x else y)" if "y \<in> set rows" for y
    using assms that by (metis distinct_map inj_onD)
  then show ?thesis by (simp add: upd_def set_row_def)
qed

lemma set_row_keys: "key y \<in> key ` set rows \<Longrightarrow> map key (set_row key y rows) = map key rows"
  by (auto simp: set_row_def)

lemma in_set_row: "x \<in> set rows \<Longrightarrow> key x = key y \<Longrightarrow> y \<in> set (set_row key y rows)"
  by (auto simp: set_row_def)

lemma in_set_row_other: "x \<in> set rows \<Longrightarrow> key x \<noteq> key y \<Longrightarrow> x \<in> set (set_row key y rows)"
  by (auto simp: set_row_def)

lemma set_row_cases:
  "z \<in> set (set_row key y rows) \<Longrightarrow> z = y \<or> z \<in> set rows \<and> key z \<noteq> key y"
  by (auto simp: set_row_def)

lemma in_updE:
  assumes "y \<in> set (upd P f rows)"
  obtains (changed) x where "x \<in> set rows" "P x" "y = f x"
  | (same) "y \<in> set rows" "\<not> P y"
  using assms by (auto simp: set_upd split: if_splits)

lemma upd_inI: "x \<in> set rows \<Longrightarrow> (if P x then f x else x) \<in> set (upd P f rows)"
  by (auto simp: set_upd)

lemma upd_None: "\<not> (\<exists>x\<in>set rows. P x) \<Longrightarrow> upd P f rows = rows"
  by (auto simp: upd_def intro: map_idI)

lemma map_upd_key:
  "(\<And>r. P r \<Longrightarrow> key (f r) = key r) \<Longrightarrow> map key (upd P f rows) = map key rows"
  by (simp add: upd_def)

lemma key_inj: "distinct (map key rows) \<Longrightarrow> x \<in> set rows \<Longrightarrow> y \<in> set rows \<Longrightarrow> key x = key y \<Longrightarrow> x = y"
  by (auto simp: distinct_map dest: inj_onD)

lemma sum_list_upd:
  fixes g :: "'r \<Rightarrow> int"
  assumes "\<And>r. P r \<Longrightarrow> g (f r) = g r"
  shows "sum_list (map g (upd P f rows)) = sum_list (map g rows)"
  using assms by (induction rows) auto

lemma concat_map_unique:
  "distinct (map key xs) \<Longrightarrow> x \<in> set xs \<Longrightarrow> (\<And>y. y \<in> set xs \<Longrightarrow> key y \<noteq> key x \<Longrightarrow> f y = []) \<Longrightarrow> concat (map f xs) = f x"
proof (induction xs)
  case (Cons y ys)
  show ?case
  proof (cases "x = y")
    case True
    have "f z = []" if "z \<in> set ys" for z
    proof (rule Cons.prems(3))
      show "key z \<noteq> key x" using Cons.prems(1) that True by (metis distinct.simps(2) image_eqI list.map(2) list.set_map)
    qed (use that in simp)
    then have "concat (map f ys) = []" by simp
    then show ?thesis using True by simp
  next
    case False
    then have "x \<in> set ys" "f y = []" using Cons.prems by auto
    then show ?thesis using Cons by simp
  qed
qed simp

lemma upd_False [simp]: "upd (\<lambda>x. False) f rows = rows"
  by (simp add: upd_def)

lemma sorted_wrt_pair: "sorted_wrt R xs \<Longrightarrow> x \<in> set xs \<Longrightarrow> y \<in> set xs \<Longrightarrow> x \<noteq> y \<Longrightarrow> R x y \<or> R y x"
  by (induction xs) auto

section \<open>Tables that evolve row by row\<close>

text \<open>
  A table evolves along an order on rows: the old rows are still there, in their
  places, each one the same or further along, and new rows come after them. With
  equality as the order this is an append-only table.
\<close>

definition grows :: "('r \<Rightarrow> 'r \<Rightarrow> bool) \<Rightarrow> 'r list \<Rightarrow> 'r list \<Rightarrow> bool" where
  "grows N xs ys \<longleftrightarrow> (\<exists>zs es. ys = zs @ es \<and> list_all2 N xs zs)"

locale row_order =
  fixes N :: "'r \<Rightarrow> 'r \<Rightarrow> bool"
  assumes N_refl: "N x x"
    and N_trans: "N x y \<Longrightarrow> N y z \<Longrightarrow> N x z"
begin

lemma grows_refl: "grows N xs xs"
  unfolding grows_def by (rule exI [of _ xs]) (simp add: list.rel_refl N_refl)

lemma grows_trans: "grows N xs ys \<Longrightarrow> grows N ys zs \<Longrightarrow> grows N xs zs"
proof -
  assume "grows N xs ys" "grows N ys zs"
  then obtain as bs cs ds where "ys = as @ bs" "list_all2 N xs as" "zs = cs @ ds" "list_all2 N (as @ bs) cs"
    by (auto simp: grows_def)
  moreover from this obtain cs1 cs2 where "cs = cs1 @ cs2" "list_all2 N as cs1"
    by (auto simp: list_all2_append1)
  ultimately show ?thesis
    unfolding grows_def using list_all2_trans [of N N N xs as cs1] N_trans
    by (metis append.assoc)
qed

lemma grows_append: "grows N xs (xs @ es)"
  unfolding grows_def by (rule exI [of _ xs]) (simp add: list.rel_refl N_refl)

lemma grows_upd: "(\<And>x. x \<in> set xs \<Longrightarrow> P x \<Longrightarrow> N x (f x)) \<Longrightarrow> grows N xs (upd P f xs)"
  unfolding grows_def
  by (rule exI [of _ "upd P f xs"]) (auto simp: upd_def list_all2_map2 list.rel_refl_strong N_refl)

lemma grows_in: "grows N xs ys \<Longrightarrow> x \<in> set xs \<Longrightarrow> \<exists>y\<in>set ys. N x y"
  by (force simp: grows_def list_all2_conv_all_nth in_set_conv_nth nth_append)

end

lemma list_all2_eq_iff: "list_all2 (=) xs ys \<longleftrightarrow> xs = ys"
  by (simp add: list.rel_eq)

lemma grows_eq: "grows (=) xs ys \<longleftrightarrow> (\<exists>es. ys = xs @ es)"
  by (auto simp: grows_def list.rel_eq)

interpretation log: row_order "(=)"
  by unfold_locales auto

end
