(* ===== verification/Schema.thy ===== *)
theory Schema
  imports Tx
begin

text \<open>
  The database of the program, as src/migrations creates it: one record per table
  row, the constraints of each table (CHECK, ranges of BIGINT columns, primary
  keys and unique indexes), the BIGSERIAL sequences, and the clock that \<open>NOW()\<close>
  reads (constant inside a transaction). Foreign keys are not checked: every
  reference the program writes is the id of a row it has just selected.
  Status codes are the SMALLINT codes of the columns.
\<close>

section \<open>Column values\<close>

text \<open>
  A JSONB object is the association list given to \<open>json.Marshal\<close>; \<open>JTime\<close> is an
  instant rendered with \<open>time.RFC3339\<close>.
\<close>

datatype jval = JStr string | JInt int | JBool bool | JTime time | JNull

type_synonym json = "(string \<times> jval) list"

text \<open>A TIMESTAMP column holds microseconds: the driver cuts the nanoseconds of a \<open>time.Time\<close>.\<close>

definition pg_ts :: "time \<Rightarrow> time" where
  "pg_ts t = t - t mod 1000"

lemma pg_ts_le: "pg_ts t \<le> t" and pg_ts_gt: "t - 1000 < pg_ts t"
  by (simp_all add: pg_ts_def)

lemma pg_ts_mono: "t \<le> u \<Longrightarrow> pg_ts t \<le> pg_ts u"
  by (simp add: pg_ts_def minus_mod_eq_mult_div zdiv_mono1)

lemma pg_ts_strict: "t + 1000 \<le> u \<Longrightarrow> pg_ts t < pg_ts u"
  using pg_ts_le [of t] pg_ts_gt [of u] by linarith

definition currencies :: "string list" where
  "currencies = [''USD'', ''EUR'', ''RUB'', ''TJS'']"

definition bigint :: "int \<Rightarrow> bool \<times> err" where
  "bigint x = (\<not> is_i64 x, numeric_out_of_range)"

section \<open>Rows\<close>

record user_row =
  u_id :: int
  u_email :: string
  u_password_hash :: string
  u_first_name :: "string option"
  u_last_name :: "string option"
  u_email_verified :: bool
  u_role :: string
  u_trust :: int
  u_blocked :: bool
  u_balance :: int
  u_created :: time
  u_updated :: time
  u_deleted :: "time option"

record account_row =
  a_id :: int
  a_steam_id64 :: string
  a_login :: string
  a_password :: string
  a_guard :: bool
  a_inventory :: bool
  a_last_check :: "time option"
  a_hourly_price :: int
  a_deposit :: int
  a_status :: int
  a_profile_url :: "string option"
  a_avatar_url :: "string option"
  a_library_synced :: "time option"
  a_created :: time
  a_updated :: time
  a_deleted :: "time option"

record rental_row =
  r_id :: int
  r_user :: int
  r_account :: int
  r_status :: int
  r_start :: time
  r_end :: time
  r_price :: int
  r_deposit :: int
  r_finished :: "time option"
  r_reason :: "string option"
  r_created :: time
  r_updated :: time
  r_payment_expires :: time
  r_review_deadline :: "time option"
  r_completed :: "time option"

record payment_row =
  p_id :: int
  p_rental :: int
  p_user :: int
  p_type :: int
  p_provider :: string
  p_status :: int
  p_amount :: int
  p_currency :: string
  p_external :: "string option"
  p_created :: time
  p_processed :: "time option"

record ledger_row =
  l_id :: int
  l_type :: int
  l_user :: "int option"
  l_rental :: "int option"
  l_payment :: "int option"
  l_account :: "int option"
  l_amount :: int
  l_currency :: string
  l_provider :: "string option"
  l_external :: "string option"
  l_key :: string
  l_correlation :: "string option"
  l_metadata :: json
  l_created :: time

record hold_row =
  d_id :: int
  d_rental :: int
  d_user :: int
  d_payment :: "int option"
  d_amount :: int
  d_currency :: string
  d_status :: int
  d_held :: "time option"
  d_released :: "time option"
  d_forfeited :: "time option"
  d_refunded :: "time option"
  d_refund :: "int option"
  d_key :: string
  d_source :: "int option"
  d_settled_by :: "int option"
  d_reason :: "string option"
  d_evidence :: "string option"
  d_created :: time
  d_updated :: time

record refund_row =
  f_id :: int
  f_payment :: int
  f_rental :: int
  f_user :: int
  f_account :: "int option"
  f_source :: int
  f_kind :: int
  f_status :: int
  f_reason :: string
  f_requested_by :: "int option"
  f_role :: string
  f_principal :: int
  f_deposit :: int
  f_total :: int
  f_currency :: string
  f_key :: string
  f_correlation :: "string option"
  f_metadata :: json
  f_processed :: "time option"
  f_created :: time
  f_updated :: time

record event_row =
  e_id :: int
  e_user :: "int option"
  e_account :: "int option"
  e_rental :: "int option"
  e_type :: int
  e_ip :: "string option"
  e_agent :: "string option"
  e_success :: "bool option"
  e_metadata :: json
  e_created :: time

record audit_row =
  g_id :: int
  g_actor :: "int option"
  g_entity :: string
  g_entity_id :: int
  g_action :: string
  g_old :: json
  g_new :: json
  g_created :: time

record token_row =
  t_id :: int
  t_user :: int
  t_hash :: string
  t_expires :: time
  t_revoked :: "time option"
  t_created :: time

record game_row =
  gm_id :: int
  gm_app :: int
  gm_name :: string
  gm_description :: "string option"
  gm_image :: "string option"
  gm_release :: "time option"
  gm_developers :: "string list option"
  gm_publishers :: "string list option"
  gm_genres :: "string list option"
  gm_created :: time
  gm_updated :: time

record link_row =
  k_account :: int
  k_game :: int
  k_playtime :: int
  k_created :: time

section \<open>Constraints\<close>

definition user_schema :: "user_row schema" where
  "user_schema = \<lparr>
     checks = (\<lambda>r. first_error
       [bigint (u_balance r),
        (u_role r \<noteq> ''ADMIN'' \<and> u_role r \<noteq> ''RENT'', check_violation ''chk_users_role''),
        (u_balance r < 0, check_violation ''users_balance_check''),
        (u_trust r < 0 \<or> 1000 < u_trust r, check_violation ''users_trust_score_check'')]),
     clash = (\<lambda>a b. first_error
       [(u_id a = u_id b, unique_violation ''users_pkey''),
        (u_email a = u_email b, unique_violation ''users_email_key'')])\<rparr>"

definition account_schema :: "account_row schema" where
  "account_schema = \<lparr>
     checks = (\<lambda>r. first_error
       [bigint (a_hourly_price r), bigint (a_deposit r),
        (a_deposit r < 0, check_violation ''accounts_deposit_amount_check''),
        (a_hourly_price r \<le> 0, check_violation ''accounts_hourly_price_check'')]),
     clash = (\<lambda>a b. first_error
       [(a_id a = a_id b, unique_violation ''accounts_pkey''),
        (a_steam_id64 a = a_steam_id64 b, unique_violation ''accounts_steam_id64_key'')])\<rparr>"

text \<open>A rental that occupies its account: the partial unique index counts these.\<close>

definition occupying :: "rental_row \<Rightarrow> bool" where
  "occupying r \<longleftrightarrow> r_status r = 1 \<or> r_status r = 2"

definition rental_schema :: "rental_row schema" where
  "rental_schema = \<lparr>
     checks = (\<lambda>r. first_error
       [bigint (r_price r), bigint (r_deposit r),
        (r_status r = 4 \<and> r_completed r = None, check_violation ''chk_rentals_completed_at_present''),
        (r_end r \<le> r_start r, check_violation ''chk_rentals_dates''),
        (r_payment_expires r \<le> r_created r, check_violation ''chk_rentals_payment_expires_after_created''),
        (case (r_review_deadline r, r_finished r) of (Some d, Some f) \<Rightarrow> d < f | _ \<Rightarrow> False,
         check_violation ''chk_rentals_review_deadline_after_usage_end''),
        (r_deposit r < 0, check_violation ''rentals_deposit_amount_check''),
        (r_price r \<le> 0, check_violation ''rentals_rental_price_check'')]),
     clash = (\<lambda>a b. first_error
       [(r_id a = r_id b, unique_violation ''rentals_pkey''),
        (r_account a = r_account b \<and> occupying a \<and> occupying b,
         unique_violation ''uq_rental_account_waiting_or_active'')])\<rparr>"

definition payment_schema :: "payment_row schema" where
  "payment_schema = \<lparr>
     checks = (\<lambda>r. first_error
       [bigint (p_amount r),
        (p_amount r \<le> 0, check_violation ''payments_amount_check''),
        (p_currency r \<notin> set currencies, check_violation ''payments_currency_check'')]),
     clash = (\<lambda>a b. first_error
       [(p_id a = p_id b, unique_violation ''payments_pkey''),
        (p_provider a = p_provider b \<and> p_external a \<noteq> None \<and> p_external a = p_external b,
         unique_violation ''uq_payments_provider_external_transaction''),
        (p_rental a = p_rental b, unique_violation ''uq_payments_rental_id'')])\<rparr>"

definition ledger_schema :: "ledger_row schema" where
  "ledger_schema = \<lparr>
     checks = (\<lambda>r. first_error
       [bigint (l_amount r),
        (l_amount r \<le> 0, check_violation ''financial_ledger_entries_amount_check''),
        (l_currency r \<notin> set currencies, check_violation ''financial_ledger_entries_currency_check'')]),
     clash = (\<lambda>a b. first_error
       [(l_id a = l_id b, unique_violation ''financial_ledger_entries_pkey''),
        (l_key a = l_key b, unique_violation ''financial_ledger_entries_idempotency_key_key'')])\<rparr>"

definition blank :: "string option \<Rightarrow> bool" where
  "blank v = (case v of None \<Rightarrow> True | Some t \<Rightarrow> list_all (\<lambda>c. c = CHR '' '') t)"

definition settlement_metadata_ok :: "hold_row \<Rightarrow> bool" where
  "settlement_metadata_ok r =
     (case d_source r of
        None \<Rightarrow> True
      | Some src \<Rightarrow>
          src = 1 \<and> d_status r = 2 \<and> d_settled_by r \<noteq> None
        \<or> src = 2 \<and> d_status r = 3 \<and> d_settled_by r \<noteq> None \<and> \<not> blank (d_reason r) \<and> \<not> blank (d_evidence r)
        \<or> src = 3 \<and> d_status r = 2 \<and> d_settled_by r = None
        \<or> src = 4 \<and> d_status r = 4 \<and> d_settled_by r \<noteq> None)"

definition longer_than :: "nat \<Rightarrow> string option \<Rightarrow> bool" where
  "longer_than n v = (case v of None \<Rightarrow> False | Some t \<Rightarrow> n < length t)"

definition hold_schema :: "hold_row schema" where
  "hold_schema = \<lparr>
     checks = (\<lambda>r. first_error
       [bigint (d_amount r),
        (longer_than 64 (d_reason r) \<or> longer_than 255 (d_evidence r), PgError ''22001'' ''varchar''),
        (\<not> settlement_metadata_ok r, check_violation ''chk_deposit_holds_settlement_metadata''),
        (\<not> (d_status r = 1 \<or> d_status r = 2 \<or> d_status r = 3 \<or> d_status r = 4),
         check_violation ''chk_deposit_holds_status_known''),
        (d_amount r \<le> 0, check_violation ''deposit_holds_amount_check''),
        (d_currency r \<notin> set currencies, check_violation ''deposit_holds_currency_check'')]),
     clash = (\<lambda>a b. first_error
       [(d_id a = d_id b, unique_violation ''deposit_holds_pkey''),
        (d_rental a = d_rental b, unique_violation ''deposit_holds_rental_id_key''),
        (d_key a = d_key b, unique_violation ''deposit_holds_idempotency_key_key'')])\<rparr>"

definition refund_schema :: "refund_row schema" where
  "refund_schema = \<lparr>
     checks = (\<lambda>r. first_error
       [bigint (f_principal r), bigint (f_deposit r), bigint (f_total r),
        bigint (f_principal r + f_deposit r),
        (f_total r \<noteq> f_principal r + f_deposit r, check_violation ''chk_refunds_amount_total''),
        (f_deposit r < 0, check_violation ''refunds_amount_deposit_check''),
        (f_principal r < 0, check_violation ''refunds_amount_principal_check''),
        (f_total r \<le> 0, check_violation ''refunds_amount_total_check''),
        (f_currency r \<notin> set currencies, check_violation ''refunds_currency_check'')]),
     clash = (\<lambda>a b. first_error
       [(f_id a = f_id b, unique_violation ''refunds_pkey''),
        (f_key a = f_key b, unique_violation ''refunds_idempotency_key_key'')])\<rparr>"

definition event_schema :: "event_row schema" where
  "event_schema = \<lparr>
     checks = (\<lambda>r. None),
     clash = (\<lambda>a b. first_error [(e_id a = e_id b, unique_violation ''security_events_pkey'')])\<rparr>"

definition audit_schema :: "audit_row schema" where
  "audit_schema = \<lparr>
     checks = (\<lambda>r. None),
     clash = (\<lambda>a b. first_error [(g_id a = g_id b, unique_violation ''audit_logs_pkey'')])\<rparr>"

definition token_schema :: "token_row schema" where
  "token_schema = \<lparr>
     checks = (\<lambda>r. first_error
       [(t_expires r \<le> t_created r, check_violation ''chk_refresh_tokens_expires'')]),
     clash = (\<lambda>a b. first_error
       [(t_id a = t_id b, unique_violation ''refresh_tokens_pkey''),
        (t_hash a = t_hash b, unique_violation ''ux_refresh_tokens_token_hash'')])\<rparr>"

text \<open>\<open>INTEGER\<close> columns hold 32-bit values.\<close>

definition is_i32 :: "int \<Rightarrow> bool" where
  "is_i32 x \<longleftrightarrow> - 2147483648 \<le> x \<and> x \<le> 2147483647"

definition game_schema :: "game_row schema" where
  "game_schema = \<lparr>
     checks = (\<lambda>r. first_error [(\<not> is_i32 (gm_app r), PgError ''22003'' ''integer'')]),
     clash = (\<lambda>a b. first_error
       [(gm_id a = gm_id b, unique_violation ''games_pkey''),
        (gm_app a = gm_app b, unique_violation ''games_steam_app_id_key'')])\<rparr>"

definition link_schema :: "link_row schema" where
  "link_schema = \<lparr>
     checks = (\<lambda>r. first_error
       [(\<not> is_i32 (k_playtime r), PgError ''22003'' ''integer''),
        (k_playtime r < 0, check_violation ''account_games_playtime_minutes_check'')]),
     clash = (\<lambda>a b. first_error
       [(k_account a = k_account b \<and> k_game a = k_game b, unique_violation ''account_games_pkey'')])\<rparr>"

section \<open>The database\<close>

datatype tbl = Users | Accounts | Rentals | Payments | Ledger | Holds | Refunds | Events | Audits | Tokens | Games

text \<open>The tables are finitely many, so that two states can be compared by evaluation.\<close>

instantiation tbl :: enum
begin

definition enum_tbl :: "tbl list" where
  "enum_tbl = [Users, Accounts, Rentals, Payments, Ledger, Holds, Refunds, Events, Audits, Tokens, Games]"

definition enum_all_tbl :: "(tbl \<Rightarrow> bool) \<Rightarrow> bool" where
  "enum_all_tbl P = list_all P enum_class.enum"

definition enum_ex_tbl :: "(tbl \<Rightarrow> bool) \<Rightarrow> bool" where
  "enum_ex_tbl P = list_ex P enum_class.enum"

instance
proof
  show all: "(UNIV :: tbl set) = set enum_class.enum"
  proof -
    have "x \<in> set enum_class.enum" for x :: tbl by (cases x) (simp_all add: enum_tbl_def)
    then show ?thesis by blast
  qed
  show "distinct (enum_class.enum :: tbl list)"
    by (simp add: enum_tbl_def)
  show "enum_class.enum_all P \<longleftrightarrow> Ball (UNIV :: tbl set) P" for P
    using all by (auto simp: enum_all_tbl_def list_all_iff)
  show "enum_class.enum_ex P \<longleftrightarrow> Bex (UNIV :: tbl set) P" for P
    using all by (auto simp: enum_ex_tbl_def list_ex_iff)
qed

end

record db =
  users :: "user_row list"
  accounts :: "account_row list"
  rentals :: "rental_row list"
  payments :: "payment_row list"
  ledger :: "ledger_row list"
  holds :: "hold_row list"
  refunds :: "refund_row list"
  events :: "event_row list"
  audits :: "audit_row list"
  tokens :: "token_row list"
  games :: "game_row list"
  account_games :: "link_row list"
  sequences :: "tbl \<Rightarrow> int"
  clock :: time

text \<open>\<open>nextval\<close> of the sequence behind a BIGSERIAL column.\<close>

definition bump :: "tbl \<Rightarrow> db \<Rightarrow> db" where
  "bump t s = s\<lparr>sequences := (sequences s)(t := sequences s t + 1)\<rparr>"

definition next_id :: "tbl \<Rightarrow> (db, int) tx" where
  "next_id t = (\<lambda>s. Inr (sequences s t, bump t s))"

lemma bump_simps [simp]:
  "users (bump t s) = users s" "accounts (bump t s) = accounts s" "rentals (bump t s) = rentals s"
  "payments (bump t s) = payments s" "ledger (bump t s) = ledger s" "holds (bump t s) = holds s"
  "refunds (bump t s) = refunds s" "events (bump t s) = events s" "audits (bump t s) = audits s"
  "tokens (bump t s) = tokens s" "games (bump t s) = games s" "account_games (bump t s) = account_games s" "clock (bump t s) = clock s"
  "sequences (bump t s) u = (if u = t then sequences s t + 1 else sequences s u)"
  by (simp_all add: bump_def)

lemma next_id_ok [tx_inv]: "next_id t s = Inr r \<longleftrightarrow> r = (sequences s t, bump t s)"
  by (auto simp: next_id_def)

definition db_now :: "(db, time) tx" where
  "db_now = tx_read clock"

lemma db_now_ok [tx_inv]: "db_now s = Inr r \<longleftrightarrow> r = (clock s, s)"
  by (auto simp: db_now_def tx_inv)

definition valid_db :: "db \<Rightarrow> bool" where
  "valid_db s \<longleftrightarrow>
     valid_table user_schema (users s) \<and> valid_table account_schema (accounts s) \<and>
     valid_table rental_schema (rentals s) \<and> valid_table payment_schema (payments s) \<and>
     valid_table ledger_schema (ledger s) \<and> valid_table hold_schema (holds s) \<and>
     valid_table refund_schema (refunds s) \<and> valid_table event_schema (events s) \<and>
     valid_table audit_schema (audits s) \<and> valid_table token_schema (tokens s) \<and>
     valid_table game_schema (games s) \<and> valid_table link_schema (account_games s)"

end
