(* ===== verification/Payment_Repo.thy ===== *)
theory Payment_Repo
  imports Schema
begin

text \<open>
  The statements of src/internal/payment/repository.go on the database: the Go
  structures they read into, the locking reads, and the writes with the conditions
  of their WHERE clauses and the errors of an unexpected row count. A \<open>FOR UPDATE\<close>
  clause has no effect here, where transactions run one after the other.
\<close>

section \<open>Constants and structures\<close>

abbreviation (input) webhookPaymentProvider :: string where "webhookPaymentProvider \<equiv> ''internal''"
abbreviation (input) walletPaymentProvider :: string where "walletPaymentProvider \<equiv> ''balance''"

abbreviation (input) ledgerEntryProviderPaymentReceived :: int where "ledgerEntryProviderPaymentReceived \<equiv> 1"
abbreviation (input) ledgerEntryDepositHeld :: int where "ledgerEntryDepositHeld \<equiv> 2"
abbreviation (input) ledgerEntryDepositReleasedBalance :: int where "ledgerEntryDepositReleasedBalance \<equiv> 3"
abbreviation (input) ledgerEntryDepositForfeited :: int where "ledgerEntryDepositForfeited \<equiv> 4"
abbreviation (input) ledgerEntryBalanceDebit :: int where "ledgerEntryBalanceDebit \<equiv> 5"
abbreviation (input) ledgerEntryBalanceRefundCredit :: int where "ledgerEntryBalanceRefundCredit \<equiv> 6"
abbreviation (input) ledgerEntryDepositRefundCredit :: int where "ledgerEntryDepositRefundCredit \<equiv> 7"
abbreviation (input) ledgerEntryAdminBalanceCredit :: int where "ledgerEntryAdminBalanceCredit \<equiv> 8"
abbreviation (input) ledgerEntryAdminBalanceDebit :: int where "ledgerEntryAdminBalanceDebit \<equiv> 9"
abbreviation (input) depositHoldStatusHeld :: int where "depositHoldStatusHeld \<equiv> 1"
abbreviation (input) depositHoldStatusReleased :: int where "depositHoldStatusReleased \<equiv> 2"
abbreviation (input) depositHoldStatusForfeited :: int where "depositHoldStatusForfeited \<equiv> 3"
abbreviation (input) depositHoldStatusRefunded :: int where "depositHoldStatusRefunded \<equiv> 4"
abbreviation (input) refundSourceTypeWallet :: int where "refundSourceTypeWallet \<equiv> 1"
abbreviation (input) refundKindFull :: int where "refundKindFull \<equiv> 1"
abbreviation (input) refundStatusRequested :: int where "refundStatusRequested \<equiv> 1"
abbreviation (input) refundStatusCompleted :: int where "refundStatusCompleted \<equiv> 2"
abbreviation (input) refundStatusFailed :: int where "refundStatusFailed \<equiv> 3"
abbreviation (input) securityEventTypeDepositReleased :: int where "securityEventTypeDepositReleased \<equiv> 11"
abbreviation (input) securityEventTypeDepositForfeited :: int where "securityEventTypeDepositForfeited \<equiv> 12"
abbreviation (input) securityEventTypeWalletPayment :: int where "securityEventTypeWalletPayment \<equiv> 13"
abbreviation (input) securityEventTypeWalletRefund :: int where "securityEventTypeWalletRefund \<equiv> 14"
abbreviation (input) securityEventTypeBalanceAdjustment :: int where "securityEventTypeBalanceAdjustment \<equiv> 15"
abbreviation (input) securityEventTypeRentalCompleted :: int where "securityEventTypeRentalCompleted \<equiv> 16"
abbreviation (input) securityEventTypeSuspiciousActivity :: int where "securityEventTypeSuspiciousActivity \<equiv> 4"
abbreviation (input) securityEventTypeSecurityIncident :: int where "securityEventTypeSecurityIncident \<equiv> 6"
abbreviation (input) depositSettlementSourceAdminRelease :: int where "depositSettlementSourceAdminRelease \<equiv> 1"
abbreviation (input) depositSettlementSourceAdminForfeit :: int where "depositSettlementSourceAdminForfeit \<equiv> 2"
abbreviation (input) depositSettlementSourceAutoRelease :: int where "depositSettlementSourceAutoRelease \<equiv> 3"
abbreviation (input) depositSettlementSourceWalletRefund :: int where "depositSettlementSourceWalletRefund \<equiv> 4"

record WebhookPaymentState =
  hook_PaymentID :: int
  hook_RentalID :: int
  hook_UserID :: int
  hook_AccountID :: int
  hook_Provider :: string
  hook_ExternalTransactionID :: string
  hook_Status :: int
  hook_Amount :: int
  hook_Currency :: string
  hook_RentalPrice :: int
  hook_DepositAmount :: int
  hook_PaymentExpiresAt :: time
  hook_RentalStatus :: int
  hook_AccountStatus :: int

record FinancialLedgerEntry =
  fle_UserID :: int
  fle_RentalID :: int
  fle_PaymentID :: int
  fle_AccountID :: int
  fle_Amount :: int
  fle_Currency :: string
  fle_Provider :: string
  fle_ExternalTransactionID :: string
  fle_IdempotencyKey :: string
  fle_CorrelationID :: string
  fle_Metadata :: json

record WalletPaymentState =
  wps_PaymentID :: int
  wps_RentalID :: int
  wps_UserID :: int
  wps_AccountID :: int
  wps_Provider :: string
  wps_ExternalTransactionID :: string
  wps_PaymentStatus :: int
  wps_RentalStatus :: int
  wps_AccountStatus :: int
  wps_RentalPrice :: int
  wps_DepositAmount :: int
  wps_PaymentExpiresAt :: time
  wps_Currency :: string
  wps_UserBalance :: int

record WalletRefundState =
  wrs_PaymentID :: int
  wrs_RentalID :: int
  wrs_UserID :: int
  wrs_AccountID :: int
  wrs_Provider :: string
  wrs_PaymentStatus :: int
  wrs_RentalStatus :: int
  wrs_RentalPrice :: int
  wrs_DepositAmount :: int
  wrs_Currency :: string
  wrs_UserBalance :: int
  wrs_HasDepositHold :: bool
  wrs_HoldID :: int
  wrs_HoldStatus :: int
  wrs_HoldAmount :: int
  wrs_CompletedAt :: "time option"

record UserBalance =
  ub_UserID :: int
  ub_AvailableBalance :: int
  ub_Currency :: string

record CustomerPayment =
  cp_ID :: int
  cp_RentalID :: int
  cp_Amount :: int
  cp_Currency :: string
  cp_Status :: int
  cp_CreatedAt :: time

record PublicLedgerEntry =
  ple_ID :: int
  ple_EntryType :: int
  ple_Amount :: int
  ple_Currency :: string
  ple_RentalID :: "int option"
  ple_PaymentID :: "int option"
  ple_CreatedAt :: time
  ple_DisplayType :: string

record PublicRefundEntry =
  pre_ID :: int
  pre_RentalID :: int
  pre_PaymentID :: int
  pre_Status :: string
  pre_PrincipalAmount :: int
  pre_DepositAmount :: int
  pre_TotalAmount :: int
  pre_Currency :: string
  pre_ReasonCode :: "string option"
  pre_CreatedAt :: time
  pre_ProcessedAt :: "time option"

record DepositHold =
  dh_UserID :: int
  dh_RentalID :: int
  dh_PaymentID :: int
  dh_Amount :: int
  dh_Currency :: string
  dh_HeldAt :: time
  dh_IdempotencyKey :: string

record DepositSettlementState =
  dss_HoldID :: int
  dss_RentalID :: int
  dss_UserID :: int
  dss_AccountID :: int
  dss_PaymentID :: int
  dss_HoldStatus :: int
  dss_RentalStatus :: int
  dss_PaymentStatus :: int
  dss_Amount :: int
  dss_Currency :: string
  dss_UserBalance :: int
  dss_Provider :: string
  dss_RentalPrice :: int
  dss_RentalDepositAmount :: int
  dss_EndAt :: time
  dss_ActualFinishedAt :: "time option"
  dss_ReviewDeadlineAt :: "time option"
  dss_CompletedAt :: "time option"
  dss_HasDepositHold :: bool
  dss_ReleasedAt :: "time option"
  dss_ForfeitedAt :: "time option"
  dss_RefundedAt :: "time option"
  dss_SettlementSource :: "int option"
  dss_SettledByUserID :: "int option"
  dss_SettlementReasonCode :: string
  dss_SettlementEvidenceRef :: string
  dss_HoldUserID :: int
  dss_HoldPaymentID :: int
  dss_HoldCurrency :: string

record DepositSettlementEligibility =
  dse_RentalExists :: bool
  dse_RentalStatus :: int
  dse_PaymentStatus :: int
  dse_DepositAmount :: int
  dse_HasDepositHold :: bool

record RefundRecord =
  rr_ID :: int
  rr_PaymentID :: int
  rr_RentalID :: int
  rr_UserID :: int
  rr_AccountID :: int
  rr_SourceType :: int
  rr_RefundKind :: int
  rr_Status :: int
  rr_ReasonCode :: string
  rr_RequestedByUserID :: "int option"
  rr_RequestedByRole :: string
  rr_AmountPrincipal :: int
  rr_AmountDeposit :: int
  rr_AmountTotal :: int
  rr_Currency :: string
  rr_IdempotencyKey :: string
  rr_CorrelationID :: string
  rr_Metadata :: json
  rr_ProcessedAt :: "time option"

record RefundTotals =
  rt_Principal :: int
  rt_Deposit :: int

section \<open>Locking reads\<close>

definition wallet_state :: "payment_row \<Rightarrow> rental_row \<Rightarrow> account_row \<Rightarrow> user_row \<Rightarrow> WalletPaymentState" where
  "wallet_state p r a u =
     \<lparr>wps_PaymentID = p_id p, wps_RentalID = r_id r, wps_UserID = r_user r, wps_AccountID = r_account r,
      wps_Provider = p_provider p, wps_ExternalTransactionID = case_option [] id (p_external p),
      wps_PaymentStatus = p_status p, wps_RentalStatus = r_status r, wps_AccountStatus = a_status a,
      wps_RentalPrice = r_price r, wps_DepositAmount = r_deposit r,
      wps_PaymentExpiresAt = r_payment_expires r, wps_Currency = p_currency p,
      wps_UserBalance = u_balance u\<rparr>"

definition LockWalletPaymentState :: "int \<Rightarrow> int \<Rightarrow> (db, WalletPaymentState) tx" where
  "LockWalletPaymentState rentalID userID =
     no_rows_as (PaymentErr ErrWalletPaymentNotFound) (query_row (\<lambda>s.
       [wallet_state p r a u.
          r \<leftarrow> rentals s, r_id r = rentalID \<and> r_user r = userID,
          a \<leftarrow> accounts s, a_id a = r_account r,
          u \<leftarrow> users s, u_id u = r_user r,
          p \<leftarrow> payments s, p_rental p = r_id r \<and> p_user p = r_user r]))"

definition webhook_state :: "payment_row \<Rightarrow> rental_row \<Rightarrow> account_row \<Rightarrow> WebhookPaymentState" where
  "webhook_state p r a =
     \<lparr>hook_PaymentID = p_id p, hook_RentalID = p_rental p, hook_UserID = p_user p,
      hook_AccountID = r_account r, hook_Provider = p_provider p,
      hook_ExternalTransactionID = case_option [] id (p_external p), hook_Status = p_status p,
      hook_Amount = p_amount p, hook_Currency = p_currency p, hook_RentalPrice = r_price r,
      hook_DepositAmount = r_deposit r, hook_PaymentExpiresAt = r_payment_expires r,
      hook_RentalStatus = r_status r, hook_AccountStatus = a_status a\<rparr>"

definition LockPaymentForWebhookByID :: "int \<Rightarrow> (db, WebhookPaymentState) tx" where
  "LockPaymentForWebhookByID paymentID =
     no_rows_as (PaymentErr ErrPaymentNotFound) (query_row (\<lambda>s.
       [webhook_state p r a.
          p \<leftarrow> payments s, p_id p = paymentID,
          r \<leftarrow> rentals s, r_id r = p_rental p,
          a \<leftarrow> accounts s, a_id a = r_account r]))"

definition LockPaymentForWebhookByExternalTransaction :: "string \<Rightarrow> string \<Rightarrow> (db, WebhookPaymentState) tx" where
  "LockPaymentForWebhookByExternalTransaction provider externalTransactionID =
     no_rows_as (PaymentErr ErrPaymentNotFound) (query_row (\<lambda>s.
       [webhook_state p r a.
          p \<leftarrow> payments s, p_provider p = provider \<and> p_external p = Some externalTransactionID,
          r \<leftarrow> rentals s, r_id r = p_rental p,
          a \<leftarrow> accounts s, a_id a = r_account r]))"

text \<open>
  The settlement state is read with one query per table; \<open>hold_columns\<close> is the
  part that the row of \<open>deposit_holds\<close> fills in. A NULL \<open>payment_id\<close> does not scan
  into an \<open>int64\<close>.
\<close>

definition settlement_state :: "rental_row \<Rightarrow> payment_row \<Rightarrow> int \<Rightarrow> DepositSettlementState" where
  "settlement_state r p balance =
     \<lparr>dss_HoldID = 0, dss_RentalID = r_id r, dss_UserID = r_user r, dss_AccountID = r_account r,
      dss_PaymentID = p_id p, dss_HoldStatus = 0, dss_RentalStatus = r_status r,
      dss_PaymentStatus = p_status p, dss_Amount = 0, dss_Currency = p_currency p,
      dss_UserBalance = balance, dss_Provider = p_provider p, dss_RentalPrice = r_price r,
      dss_RentalDepositAmount = r_deposit r, dss_EndAt = r_end r, dss_ActualFinishedAt = r_finished r,
      dss_ReviewDeadlineAt = r_review_deadline r, dss_CompletedAt = r_completed r,
      dss_HasDepositHold = False, dss_ReleasedAt = None, dss_ForfeitedAt = None, dss_RefundedAt = None,
      dss_SettlementSource = None, dss_SettledByUserID = None, dss_SettlementReasonCode = [],
      dss_SettlementEvidenceRef = [], dss_HoldUserID = 0, dss_HoldPaymentID = 0, dss_HoldCurrency = []\<rparr>"

definition hold_columns :: "hold_row \<Rightarrow> int \<Rightarrow> DepositSettlementState \<Rightarrow> DepositSettlementState" where
  "hold_columns d paymentID st = st
     \<lparr>dss_HoldID := d_id d, dss_HoldUserID := d_user d, dss_HoldPaymentID := paymentID,
      dss_HoldStatus := d_status d, dss_Amount := d_amount d, dss_HoldCurrency := d_currency d,
      dss_HasDepositHold := True, dss_ReleasedAt := d_released d, dss_ForfeitedAt := d_forfeited d,
      dss_RefundedAt := d_refunded d, dss_SettlementSource := d_source d,
      dss_SettledByUserID := d_settled_by d,
      dss_SettlementReasonCode := case_option [] id (d_reason d),
      dss_SettlementEvidenceRef := case_option [] id (d_evidence d)\<rparr>"

definition scan_hold :: "hold_row list \<Rightarrow> DepositSettlementState \<Rightarrow> err + DepositSettlementState" where
  "scan_hold ds st =
     (case ds of
        [] \<Rightarrow> Inr st
      | d # _ \<Rightarrow> (case d_payment d of
                    None \<Rightarrow> Inl (ErrText ''cannot scan NULL into *int64'')
                  | Some paymentID \<Rightarrow> Inr (hold_columns d paymentID st)))"

definition LockDepositSettlementState :: "int \<Rightarrow> (db, DepositSettlementState) tx" where
  "LockDepositSettlementState rentalID =
     tx_bind (no_rows_as (PaymentErr ErrDepositHoldNotFound)
                (query_row (\<lambda>s. filter (\<lambda>r. r_id r = rentalID) (rentals s)))) (\<lambda>r.
     tx_seq (query_row (\<lambda>s. filter (\<lambda>a. a_id a = r_account r) (accounts s)))
    (tx_bind (no_rows_as (PaymentErr ErrPaymentNotFound)
                (query_row (\<lambda>s. filter (\<lambda>p. p_rental p = r_id r \<and> p_user p = r_user r) (payments s)))) (\<lambda>p.
     tx_bind (tx_read (\<lambda>s. filter (\<lambda>d. d_rental d = r_id r) (holds s))) (\<lambda>ds.
     tx_bind (lift_result (scan_hold ds (settlement_state r p 0))) (\<lambda>st.
     tx_bind (query_row (\<lambda>s. filter (\<lambda>u. u_id u = r_user r \<and> u_deleted u = None) (users s))) (\<lambda>u.
     tx_return (st\<lparr>dss_UserBalance := u_balance u\<rparr>)))))))"

definition wallet_refund_state :: "DepositSettlementState \<Rightarrow> WalletRefundState" where
  "wallet_refund_state settlement =
     \<lparr>wrs_PaymentID = dss_PaymentID settlement, wrs_RentalID = dss_RentalID settlement,
      wrs_UserID = dss_UserID settlement, wrs_AccountID = dss_AccountID settlement,
      wrs_Provider = dss_Provider settlement, wrs_PaymentStatus = dss_PaymentStatus settlement,
      wrs_RentalStatus = dss_RentalStatus settlement, wrs_RentalPrice = dss_RentalPrice settlement,
      wrs_DepositAmount = dss_RentalDepositAmount settlement, wrs_Currency = dss_Currency settlement,
      wrs_UserBalance = dss_UserBalance settlement, wrs_HasDepositHold = dss_HasDepositHold settlement,
      wrs_HoldID = dss_HoldID settlement, wrs_HoldStatus = dss_HoldStatus settlement,
      wrs_HoldAmount = dss_Amount settlement, wrs_CompletedAt = dss_CompletedAt settlement\<rparr>"

definition LockWalletRefundState :: "int \<Rightarrow> (db, WalletRefundState) tx" where
  "LockWalletRefundState rentalID =
     tx_bind (tx_catch (LockDepositSettlementState rentalID) (\<lambda>e.
       tx_fail (if errors_is e (PaymentErr ErrDepositHoldNotFound) \<or> errors_is e (PaymentErr ErrPaymentNotFound)
                then PaymentErr ErrWalletRefundNotFound else e))) (\<lambda>settlement.
     tx_return (wallet_refund_state settlement))"

text \<open>
  The finalization queue. \<open>busy\<close> are the rentals whose settlement lock another
  session holds (\<open>pg_try_advisory_xact_lock\<close> fails, or the row is skipped).
\<close>

definition finalizable :: "time \<Rightarrow> rental_row \<Rightarrow> payment_row \<Rightarrow> hold_row option \<Rightarrow> bool" where
  "finalizable now r p d \<longleftrightarrow>
     r_status r = 3 \<and>
     (case d of
        None \<Rightarrow> r_deposit r = 0
      | Some h \<Rightarrow>
          0 < r_deposit r \<and> d_user h = r_user r \<and> d_payment h = Some (p_id p) \<and>
          d_amount h = r_deposit r \<and> d_currency h = p_currency p \<and>
          (d_status h \<in> {2, 3, 4} \<or>
           d_status h = 1 \<and> (case r_review_deadline r of None \<Rightarrow> False | Some t \<Rightarrow> t \<le> pg_ts now)))"

definition left_join :: "'a list \<Rightarrow> 'a option list" where
  "left_join xs = (if xs = [] then [None] else map Some xs)"

definition finalization_queue :: "time \<Rightarrow> db \<Rightarrow> rental_row list" where
  "finalization_queue now s =
     sort_key (\<lambda>r. case_option (r_end r) id (r_review_deadline r)) (sort_key r_id
       [r. r \<leftarrow> rentals s,
           p \<leftarrow> payments s, p_rental p = r_id r \<and> p_user p = r_user r \<and> p_status p = 2,
           d \<leftarrow> left_join (filter (\<lambda>d. d_rental d = r_id r) (holds s)),
           finalizable now r p d])"

definition LockNextRentalFinalizationState ::
  "int set \<Rightarrow> time \<Rightarrow> (db, DepositSettlementState) tx" where
  "LockNextRentalFinalizationState busy now =
     tx_bind (no_rows_as (PaymentErr ErrDepositHoldNotFound) (query_row (\<lambda>s.
       [r_id r. r \<leftarrow> take 1 (finalization_queue now s), r_id r \<notin> busy]))) LockDepositSettlementState"

definition LoadDepositSettlementEligibility :: "int \<Rightarrow> (db, DepositSettlementEligibility) tx" where
  "LoadDepositSettlementEligibility rentalID =
     tx_read (\<lambda>s.
       case [(r, p). r \<leftarrow> rentals s, r_id r = rentalID,
                     p \<leftarrow> left_join (filter (\<lambda>p. p_rental p = r_id r \<and> p_user p = r_user r) (payments s))] of
         [] \<Rightarrow> \<lparr>dse_RentalExists = False, dse_RentalStatus = 0, dse_PaymentStatus = 0,
               dse_DepositAmount = 0, dse_HasDepositHold = False\<rparr>
       | (r, p) # _ \<Rightarrow>
           \<lparr>dse_RentalExists = True, dse_RentalStatus = r_status r,
            dse_PaymentStatus = (case p of None \<Rightarrow> - 1 | Some q \<Rightarrow> p_status q),
            dse_DepositAmount = r_deposit r,
            dse_HasDepositHold = list_ex (\<lambda>d. d_rental d = r_id r) (holds s)\<rparr>)"

definition VerifyDepositForfeitEvidence :: "int \<Rightarrow> int \<Rightarrow> int \<Rightarrow> int \<Rightarrow> (db, bool) tx" where
  "VerifyDepositForfeitEvidence rentalID userID accountID securityEventID =
     tx_read (\<lambda>s. list_ex (\<lambda>e. e_id e = securityEventID \<and> e_rental e = Some rentalID \<and>
       e_user e = Some userID \<and> e_account e = Some accountID \<and> e_success e = Some True \<and>
       e_type e \<in> {securityEventTypeSuspiciousActivity, securityEventTypeSecurityIncident}) (events s))"

definition LoadCompletedRefundTotals :: "int \<Rightarrow> (db, RefundTotals) tx" where
  "LoadCompletedRefundTotals paymentID =
     tx_bind (tx_read (\<lambda>s. filter (\<lambda>f. f_payment f = paymentID \<and> f_status f = refundStatusCompleted) (refunds s))) (\<lambda>fs.
     let principal = sum_list (map f_principal fs); deposit = sum_list (map f_deposit fs)
     in tx_seq (fail_if (\<not> is_i64 principal \<or> \<not> is_i64 deposit) (ErrText ''cannot scan numeric into *int64''))
          (tx_return \<lparr>rt_Principal = principal, rt_Deposit = deposit\<rparr>))"

end
