(* ===== verification/Authorization.thy ===== *)
theory Authorization
  imports Schema
begin

text \<open>
  Who may act: src/internal/shared/authorization/current_admin.go, and the wrapper
  of src/internal/payment/balance_adjustment_repository.go that turns a refusal into
  the error of the payment package. The advisory lock has no effect in a model
  that runs one transaction after the other; inside \<open>WithinTransaction\<close> the handle
  is a transaction, so \<open>ErrTransactionRequired\<close> is the answer outside of one only.
\<close>

record CurrentUser =
  cu_ID :: int
  cu_Role :: string
  cu_IsBlocked :: bool
  cu_DeletedAt :: "time option"

definition current_user :: "user_row \<Rightarrow> CurrentUser" where
  "current_user u = \<lparr>cu_ID = u_id u, cu_Role = u_role u, cu_IsBlocked = u_blocked u, cu_DeletedAt = u_deleted u\<rparr>"

definition LoadCurrentUser :: "int \<Rightarrow> (db, CurrentUser) tx" where
  "LoadCurrentUser userID =
     (if userID \<le> 0 then tx_fail (AuthErr ErrCurrentUserForbidden)
      else tx_bind (no_rows_as (AuthErr ErrCurrentUserForbidden) (query_row (\<lambda>s.
             map current_user (filter (\<lambda>u. u_id u = userID) (users s))))) (\<lambda>user.
           tx_seq (fail_if (cu_IsBlocked user \<or> cu_DeletedAt user \<noteq> None) (AuthErr ErrCurrentUserForbidden))
             (tx_return user)))"

definition RequireCurrentAdmin :: "int \<Rightarrow> (db, unit) tx" where
  "RequireCurrentAdmin userID =
     tx_bind (tx_catch (LoadCurrentUser userID) (\<lambda>e.
       tx_fail (if errors_is e (AuthErr ErrCurrentUserForbidden) then AuthErr ErrCurrentAdminRequired else e))) (\<lambda>user.
     fail_if (cu_Role user \<noteq> ''ADMIN'') (AuthErr ErrCurrentAdminRequired))"

definition RequireCurrentAdminForMutation :: "bool \<Rightarrow> int \<Rightarrow> (db, unit) tx" where
  "RequireCurrentAdminForMutation in_transaction userID =
     (if \<not> in_transaction then tx_fail (AuthErr ErrTransactionRequired) else RequireCurrentAdmin userID)"

definition Payment_RequireCurrentAdmin :: "int \<Rightarrow> (db, unit) tx" where
  "Payment_RequireCurrentAdmin actorUserID =
     tx_catch (RequireCurrentAdminForMutation True actorUserID) (\<lambda>e.
       tx_fail (if errors_is e (AuthErr ErrCurrentAdminRequired) then PaymentErr ErrAdminRequired else e))"

text \<open>The abstract right to act as an administrator.\<close>

definition is_current_admin :: "db \<Rightarrow> int \<Rightarrow> bool" where
  "is_current_admin s uid \<longleftrightarrow>
     0 < uid \<and> (\<exists>u\<in>set (users s). u_id u = uid \<and> u_role u = ''ADMIN'' \<and> \<not> u_blocked u \<and> u_deleted u = None)"

lemma RequireCurrentAdmin_ok: "RequireCurrentAdmin uid s = Inr (x, t) \<Longrightarrow> t = s \<and> is_current_admin s uid"
  by (auto simp: RequireCurrentAdmin_def LoadCurrentUser_def tx_inv tx_catch_ok is_current_admin_def current_user_def
      dest!: filter_hd split: if_splits)

lemma RequireCurrentAdmin_refuses:
  assumes "\<not> is_current_admin s uid"
  shows "RequireCurrentAdmin uid s = Inl (AuthErr ErrCurrentAdminRequired)"
proof (cases "filter (\<lambda>u. u_id u = uid) (users s)")
  case Nil
  then show ?thesis by (simp add: RequireCurrentAdmin_def LoadCurrentUser_def tx_defs)
next
  case (Cons u us)
  then have "u \<in> set (users s)" "u_id u = uid" by (auto dest: filter_hd)
  then show ?thesis
    using assms Cons by (auto simp: RequireCurrentAdmin_def LoadCurrentUser_def tx_defs current_user_def is_current_admin_def)
qed

lemma RequireCurrentAdmin_accepts:
  assumes "distinct (map u_id (users s))" "is_current_admin s uid"
  shows "RequireCurrentAdmin uid s = Inr ((), s)"
proof -
  obtain u where u: "0 < uid" "u \<in> set (users s)" "u_id u = uid" "u_role u = ''ADMIN''" "\<not> u_blocked u" "u_deleted u = None"
    using assms(2) by (auto simp: is_current_admin_def)
  have "filter (\<lambda>u. u_id u = uid) (users s) = [u]"
    using u by (intro filter_key [OF assms(1)]) auto
  then show ?thesis
    using u by (simp add: RequireCurrentAdmin_def LoadCurrentUser_def current_user_def tx_defs)
qed

lemma Payment_RequireCurrentAdmin_ok:
  "Payment_RequireCurrentAdmin uid s = Inr (x, t) \<Longrightarrow> t = s \<and> is_current_admin s uid"
  by (auto simp: Payment_RequireCurrentAdmin_def RequireCurrentAdminForMutation_def tx_inv tx_catch_ok dest: RequireCurrentAdmin_ok)

lemma Payment_RequireCurrentAdmin_refuses:
  "\<not> is_current_admin s uid \<Longrightarrow> Payment_RequireCurrentAdmin uid s = Inl (PaymentErr ErrAdminRequired)"
  using RequireCurrentAdmin_refuses
  by (auto simp: Payment_RequireCurrentAdmin_def RequireCurrentAdminForMutation_def tx_catch_def tx_fail_def)

lemma Payment_RequireCurrentAdmin_accepts:
  "distinct (map u_id (users s)) \<Longrightarrow> is_current_admin s uid \<Longrightarrow> Payment_RequireCurrentAdmin uid s = Inr ((), s)"
  by (simp add: Payment_RequireCurrentAdmin_def RequireCurrentAdminForMutation_def tx_catch_def RequireCurrentAdmin_accepts)

end
