(* ===== verification/Payment_Writes.thy ===== *)
theory Payment_Writes
  imports Payment_Repo Authorization
begin

text \<open>
  The statements of src/internal/payment/repository.go that change the database.
  An UPDATE whose WHERE clause matches no row, and a ledger entry whose key is
  taken, are errors; the deposit hold and the refund are inserted with
  \<open>ON CONFLICT (idempotency_key) DO NOTHING\<close>. \<open>inet\<close> says which strings PostgreSQL
  accepts as an INET value.
\<close>

section \<open>Payments, rentals and accounts\<close>

definition pending_payment_row :: "int \<Rightarrow> int \<Rightarrow> int \<Rightarrow> string \<Rightarrow> int \<Rightarrow> time \<Rightarrow> payment_row" where
  "pending_payment_row rentalID userID amount currency i t =
     \<lparr>p_id = i, p_rental = rentalID, p_user = userID, p_type = 1, p_provider = ''internal'', p_status = 1,
      p_amount = amount, p_currency = currency, p_external = None, p_created = t, p_processed = None\<rparr>"

definition CreatePendingPayment :: "int \<Rightarrow> int \<Rightarrow> int \<Rightarrow> string \<Rightarrow> (db, int) tx" where
  "CreatePendingPayment rentalID userID amount currency =
     tx_bind (next_id Payments) (\<lambda>i. tx_bind db_now (\<lambda>t.
     tx_seq (insert_row payments payments_update payment_schema
       (pending_payment_row rentalID userID amount currency i t))
       (tx_return i)))"

definition MarkPaymentSuccessful :: "int \<Rightarrow> string \<Rightarrow> (db, unit) tx" where
  "MarkPaymentSuccessful paymentID externalTransactionID =
     tx_bind db_now (\<lambda>t. some_rows (tx_catch
       (update_table payments payments_update payment_schema
          (\<lambda>p. p_id p = paymentID \<and> p_status p = 1)
          (\<lambda>p. p\<lparr>p_status := 2, p_external := Some externalTransactionID, p_processed := Some t\<rparr>))
       (\<lambda>e. tx_fail (if sqlstate_is e ''23505'' then PaymentErr ErrWebhookExternalTxMismatch else e)))
       (PaymentErr ErrPaymentAlreadyProcessed))"

definition MarkPaymentSuccessfulForWallet :: "int \<Rightarrow> time \<Rightarrow> (db, unit) tx" where
  "MarkPaymentSuccessfulForWallet paymentID now =
     some_rows (update_table payments payments_update payment_schema
       (\<lambda>p. p_id p = paymentID \<and> p_status p = 1)
       (\<lambda>p. p\<lparr>p_status := 2, p_provider := walletPaymentProvider, p_external := None, p_processed := Some (pg_ts now)\<rparr>))
       (PaymentErr ErrPaymentAlreadyProcessed)"

definition ActivateRentalForWebhook :: "int \<Rightarrow> time \<Rightarrow> (db, unit) tx" where
  "ActivateRentalForWebhook rentalID now =
     tx_bind db_now (\<lambda>t. some_rows (update_table rentals rentals_update rental_schema
       (\<lambda>r. r_id r = rentalID \<and> r_status r = 1 \<and> t < r_payment_expires r)
       (\<lambda>r. r\<lparr>r_status := 2, r_updated := pg_ts now\<rparr>))
       (PaymentErr ErrRentalNotEligible))"

definition MarkAccountRentedForWebhook :: "int \<Rightarrow> time \<Rightarrow> (db, unit) tx" where
  "MarkAccountRentedForWebhook accountID now =
     some_rows (update_table accounts accounts_update account_schema
       (\<lambda>a. a_id a = accountID \<and> a_status a = 3)
       (\<lambda>a. a\<lparr>a_status := 4, a_updated := pg_ts now\<rparr>))
       (PaymentErr ErrAccountNotReserved)"

definition completion_allowed :: "db \<Rightarrow> rental_row \<Rightarrow> bool" where
  "completion_allowed s r \<longleftrightarrow>
     r_deposit r = 0 \<and> \<not> list_ex (\<lambda>d. d_rental d = r_id r) (holds s) \<and>
       list_ex (\<lambda>p. p_rental p = r_id r \<and> p_user p = r_user r \<and> p_status p = 2) (payments s)
   \<or> list_ex (\<lambda>d. d_rental d = r_id r \<and> d_user d = r_user r \<and>
       list_ex (\<lambda>p. Some (p_id p) = d_payment d \<and> p_rental p = r_id r \<and> p_user p = r_user r \<and>
         p_status p = 2 \<and> d_amount d = r_deposit r \<and> d_currency d = p_currency p \<and>
         d_status d \<in> {2, 3, 4}) (payments s)) (holds s)"

definition MarkRentalCompleted :: "int \<Rightarrow> time \<Rightarrow> (db, bool) tx" where
  "MarkRentalCompleted rentalID now =
     tx_bind (tx_read id) (\<lambda>s.
     tx_bind (update_table rentals rentals_update rental_schema
       (\<lambda>r. r_id r = rentalID \<and> r_status r = 3 \<and> completion_allowed s r)
       (\<lambda>r. r\<lparr>r_status := 4, r_completed := Some (pg_ts now), r_updated := pg_ts now\<rparr>)) (\<lambda>n.
     tx_return (n = 1)))"

section \<open>Balances\<close>

definition CreditUserBalance :: "int \<Rightarrow> int \<Rightarrow> time \<Rightarrow> (db, unit) tx" where
  "CreditUserBalance userID amount now =
     some_rows (update_table users users_update user_schema
       (\<lambda>u. u_id u = userID)
       (\<lambda>u. u\<lparr>u_balance := u_balance u + amount, u_updated := pg_ts now\<rparr>))
       (PaymentErr ErrPaymentNotFound)"

definition DebitUserBalance :: "int \<Rightarrow> int \<Rightarrow> time \<Rightarrow> (db, unit) tx" where
  "DebitUserBalance userID amount now =
     some_rows (update_table users users_update user_schema
       (\<lambda>u. u_id u = userID \<and> amount \<le> u_balance u)
       (\<lambda>u. u\<lparr>u_balance := u_balance u - amount, u_updated := pg_ts now\<rparr>))
       (PaymentErr ErrWalletInsufficientBalance)"

section \<open>Ledger\<close>

text \<open>The part that the metadata of the entries and events of the services share.\<close>

definition ids_metadata :: "string \<Rightarrow> int \<Rightarrow> int \<Rightarrow> int \<Rightarrow> json" where
  "ids_metadata event paymentID rentalID accountID =
     [(''event'', JStr event), (''payment_id'', JStr (format_int paymentID)),
      (''rental_id'', JStr (format_int rentalID)), (''account_id'', JStr (format_int accountID))]"

definition ledger_entry_row :: "int \<Rightarrow> FinancialLedgerEntry \<Rightarrow> int \<Rightarrow> time \<Rightarrow> ledger_row" where
  "ledger_entry_row entryType entry i t =
     \<lparr>l_id = i, l_type = entryType, l_user = Some (fle_UserID entry), l_rental = Some (fle_RentalID entry),
      l_payment = Some (fle_PaymentID entry), l_account = Some (fle_AccountID entry),
      l_amount = fle_Amount entry, l_currency = fle_Currency entry, l_provider = Some (fle_Provider entry),
      l_external = Some (fle_ExternalTransactionID entry), l_key = fle_IdempotencyKey entry,
      l_correlation = Some (fle_CorrelationID entry), l_metadata = fle_Metadata entry, l_created = t\<rparr>"

definition insertLedgerEntry :: "int \<Rightarrow> FinancialLedgerEntry \<Rightarrow> (db, unit) tx" where
  "insertLedgerEntry entryType entry =
     tx_bind (next_id Ledger) (\<lambda>i. tx_bind db_now (\<lambda>t.
     tx_bind (insert_on_conflict ledger ledger_update ledger_schema l_key (ledger_entry_row entryType entry i t)) (\<lambda>inserted.
     fail_if (\<not> inserted) (PaymentErr ErrLedgerIdempotencyConflict))))"

definition RecordProviderPaymentReceived :: "FinancialLedgerEntry \<Rightarrow> (db, unit) tx" where
  "RecordProviderPaymentReceived entry = insertLedgerEntry ledgerEntryProviderPaymentReceived entry"

definition RecordDepositHeld :: "FinancialLedgerEntry \<Rightarrow> (db, unit) tx" where
  "RecordDepositHeld entry = insertLedgerEntry ledgerEntryDepositHeld entry"

definition RecordBalanceDebit :: "FinancialLedgerEntry \<Rightarrow> (db, unit) tx" where
  "RecordBalanceDebit entry = insertLedgerEntry ledgerEntryBalanceDebit entry"

definition RecordDepositReleasedToBalance :: "FinancialLedgerEntry \<Rightarrow> (db, unit) tx" where
  "RecordDepositReleasedToBalance entry = insertLedgerEntry ledgerEntryDepositReleasedBalance entry"

definition RecordDepositForfeited :: "FinancialLedgerEntry \<Rightarrow> (db, unit) tx" where
  "RecordDepositForfeited entry = insertLedgerEntry ledgerEntryDepositForfeited entry"

definition RecordBalanceRefundCredit :: "FinancialLedgerEntry \<Rightarrow> (db, unit) tx" where
  "RecordBalanceRefundCredit entry = insertLedgerEntry ledgerEntryBalanceRefundCredit entry"

definition RecordDepositRefundCredit :: "FinancialLedgerEntry \<Rightarrow> (db, unit) tx" where
  "RecordDepositRefundCredit entry = insertLedgerEntry ledgerEntryDepositRefundCredit entry"

section \<open>Deposit holds\<close>

definition held_deposit_row :: "DepositHold \<Rightarrow> int \<Rightarrow> hold_row" where
  "held_deposit_row hold i =
     \<lparr>d_id = i, d_rental = dh_RentalID hold, d_user = dh_UserID hold, d_payment = Some (dh_PaymentID hold),
      d_amount = dh_Amount hold, d_currency = dh_Currency hold, d_status = depositHoldStatusHeld,
      d_held = Some (pg_ts (dh_HeldAt hold)), d_released = None, d_forfeited = None, d_refunded = None,
      d_refund = None, d_key = dh_IdempotencyKey hold, d_source = None, d_settled_by = None,
      d_reason = None, d_evidence = None, d_created = pg_ts (dh_HeldAt hold),
      d_updated = pg_ts (dh_HeldAt hold)\<rparr>"

definition CreateDepositHold :: "DepositHold \<Rightarrow> (db, unit) tx" where
  "CreateDepositHold hold =
     tx_bind (next_id Holds) (\<lambda>i.
     tx_bind (insert_on_conflict holds holds_update hold_schema d_key (held_deposit_row hold i)) (\<lambda>inserted.
     tx_return ()))"

definition MarkDepositReleased :: "int \<Rightarrow> int \<Rightarrow> int option \<Rightarrow> time \<Rightarrow> (db, unit) tx" where
  "MarkDepositReleased holdID source settledByUserID now =
     some_rows (update_table holds holds_update hold_schema
       (\<lambda>d. d_id d = holdID \<and> d_status d = depositHoldStatusHeld)
       (\<lambda>d. d\<lparr>d_status := depositHoldStatusReleased, d_released := Some (pg_ts now), d_source := Some source,
              d_settled_by := settledByUserID, d_reason := None, d_evidence := None, d_updated := pg_ts now\<rparr>))
       (PaymentErr ErrDepositSettlementNotAllowed)"

definition MarkDepositForfeited :: "int \<Rightarrow> int \<Rightarrow> string \<Rightarrow> string \<Rightarrow> time \<Rightarrow> (db, unit) tx" where
  "MarkDepositForfeited holdID settledByUserID reasonCode evidenceReference now =
     some_rows (update_table holds holds_update hold_schema
       (\<lambda>d. d_id d = holdID \<and> d_status d = depositHoldStatusHeld)
       (\<lambda>d. d\<lparr>d_status := depositHoldStatusForfeited, d_forfeited := Some (pg_ts now),
              d_source := Some depositSettlementSourceAdminForfeit, d_settled_by := Some settledByUserID,
              d_reason := Some reasonCode, d_evidence := Some evidenceReference, d_updated := pg_ts now\<rparr>))
       (PaymentErr ErrDepositSettlementNotAllowed)"

definition MarkDepositRefunded :: "int \<Rightarrow> int \<Rightarrow> int \<Rightarrow> time \<Rightarrow> (db, unit) tx" where
  "MarkDepositRefunded holdID refundID settledByUserID now =
     some_rows (update_table holds holds_update hold_schema
       (\<lambda>d. d_id d = holdID \<and> d_status d = depositHoldStatusHeld)
       (\<lambda>d. d\<lparr>d_status := depositHoldStatusRefunded, d_refunded := Some (pg_ts now), d_refund := Some refundID,
              d_source := Some depositSettlementSourceWalletRefund, d_settled_by := Some settledByUserID,
              d_reason := None, d_evidence := None, d_updated := pg_ts now\<rparr>))
       (PaymentErr ErrDepositSettlementNotAllowed)"

section \<open>Refunds\<close>

definition refund_record :: "refund_row \<Rightarrow> RefundRecord" where
  "refund_record f =
     \<lparr>rr_ID = f_id f, rr_PaymentID = f_payment f, rr_RentalID = f_rental f, rr_UserID = f_user f,
      rr_AccountID = case_option 0 id (f_account f), rr_SourceType = f_source f, rr_RefundKind = f_kind f,
      rr_Status = f_status f, rr_ReasonCode = f_reason f, rr_RequestedByUserID = f_requested_by f,
      rr_RequestedByRole = f_role f, rr_AmountPrincipal = f_principal f, rr_AmountDeposit = f_deposit f,
      rr_AmountTotal = f_total f, rr_Currency = f_currency f, rr_IdempotencyKey = f_key f,
      rr_CorrelationID = case_option [] id (f_correlation f), rr_Metadata = f_metadata f,
      rr_ProcessedAt = f_processed f\<rparr>"

definition loadRefundByIdempotencyKey :: "string \<Rightarrow> (db, RefundRecord) tx" where
  "loadRefundByIdempotencyKey idempotencyKey =
     query_row (\<lambda>s. map refund_record (filter (\<lambda>f. f_key f = idempotencyKey) (refunds s)))"

definition requested_refund_row :: "RefundRecord \<Rightarrow> int \<Rightarrow> time \<Rightarrow> refund_row" where
  "requested_refund_row refund i t =
     \<lparr>f_id = i, f_payment = rr_PaymentID refund, f_rental = rr_RentalID refund, f_user = rr_UserID refund,
      f_account = Some (rr_AccountID refund), f_source = rr_SourceType refund, f_kind = rr_RefundKind refund,
      f_status = rr_Status refund, f_reason = rr_ReasonCode refund,
      f_requested_by = rr_RequestedByUserID refund, f_role = rr_RequestedByRole refund,
      f_principal = rr_AmountPrincipal refund, f_deposit = rr_AmountDeposit refund,
      f_total = rr_AmountTotal refund, f_currency = rr_Currency refund, f_key = rr_IdempotencyKey refund,
      f_correlation = Some (rr_CorrelationID refund), f_metadata = rr_Metadata refund, f_processed = None,
      f_created = t, f_updated = t\<rparr>"

definition CreateRefund :: "RefundRecord \<Rightarrow> (db, RefundRecord \<times> bool) tx" where
  "CreateRefund refund =
     tx_bind (next_id Refunds) (\<lambda>i. tx_bind db_now (\<lambda>t.
     tx_bind (insert_on_conflict refunds refunds_update refund_schema f_key (requested_refund_row refund i t)) (\<lambda>inserted.
     if inserted then tx_return (refund\<lparr>rr_ID := i\<rparr>, True)
     else tx_bind (loadRefundByIdempotencyKey (rr_IdempotencyKey refund)) (\<lambda>existing. tx_return (existing, False)))))"

definition MarkRefundCompleted :: "int \<Rightarrow> time \<Rightarrow> (db, unit) tx" where
  "MarkRefundCompleted refundID now =
     some_rows (update_table refunds refunds_update refund_schema
       (\<lambda>f. f_id f = refundID \<and> f_status f = refundStatusRequested)
       (\<lambda>f. f\<lparr>f_status := refundStatusCompleted, f_processed := Some (pg_ts now), f_updated := pg_ts now\<rparr>))
       (PaymentErr ErrWalletRefundNotAllowed)"

section \<open>Security events and audit log\<close>

definition new_event ::
  "int option \<Rightarrow> int option \<Rightarrow> int option \<Rightarrow> int \<Rightarrow> string option \<Rightarrow> string option \<Rightarrow> json \<Rightarrow> time \<Rightarrow> int \<Rightarrow> event_row" where
  "new_event userID accountID rentalID eventType ip userAgent metadata t i =
     \<lparr>e_id = i, e_user = userID, e_account = accountID, e_rental = rentalID, e_type = eventType,
      e_ip = ip, e_agent = userAgent, e_success = Some True, e_metadata = metadata, e_created = t\<rparr>"

definition insert_event ::
  "(string \<Rightarrow> bool) \<Rightarrow> int option \<Rightarrow> int option \<Rightarrow> int option \<Rightarrow> int \<Rightarrow> string option \<Rightarrow> string option \<Rightarrow> json \<Rightarrow> time option \<Rightarrow> (db, unit) tx" where
  "insert_event inet userID accountID rentalID eventType ip userAgent metadata createdAt =
     tx_seq (fail_if (case ip of None \<Rightarrow> False | Some t \<Rightarrow> \<not> inet t) (invalid_text_representation (case_option [] id ip)))
     (tx_bind (next_id Events) (\<lambda>i. tx_bind db_now (\<lambda>t.
     insert_row events events_update event_schema
       (new_event userID accountID rentalID eventType ip userAgent metadata (case_option t id createdAt) i))))"

definition ip_param :: "string \<Rightarrow> string option" where
  "ip_param clientIP =
     (if clientIP = [] \<or> clientIP = ''::1'' \<or> clientIP = ''127.0.0.1'' then Some ''127.0.0.1'' else Some clientIP)"

definition LogDepositSecurityEvent :: "int \<Rightarrow> int \<Rightarrow> int \<Rightarrow> int \<Rightarrow> string \<Rightarrow> json \<Rightarrow> (db, unit) tx" where
  "LogDepositSecurityEvent eventType userID accountID rentalID userAgent metadata =
     insert_event (\<lambda>_. True) (Some userID) (Some accountID) (Some rentalID) eventType None (Some userAgent) metadata None"

definition LogWalletSecurityEvent ::
  "(string \<Rightarrow> bool) \<Rightarrow> int \<Rightarrow> int \<Rightarrow> int \<Rightarrow> string \<Rightarrow> string \<Rightarrow> json \<Rightarrow> (db, unit) tx" where
  "LogWalletSecurityEvent inet userID accountID rentalID clientIP userAgent metadata =
     insert_event inet (Some userID) (Some accountID) (Some rentalID) securityEventTypeWalletPayment
       (ip_param clientIP) (Some userAgent) metadata None"

definition LogRefundSecurityEvent :: "int \<Rightarrow> int \<Rightarrow> int \<Rightarrow> string \<Rightarrow> json \<Rightarrow> (db, unit) tx" where
  "LogRefundSecurityEvent userID accountID rentalID userAgent metadata =
     insert_event (\<lambda>_. True) (Some userID) (Some accountID) (Some rentalID) securityEventTypeWalletRefund
       None (Some userAgent) metadata None"

text \<open>The event of a processed webhook (type 2).\<close>

definition LogSecurityEvent ::
  "(string \<Rightarrow> bool) \<Rightarrow> int \<Rightarrow> int \<Rightarrow> int \<Rightarrow> string \<Rightarrow> string \<Rightarrow> json \<Rightarrow> (db, unit) tx" where
  "LogSecurityEvent inet userID accountID rentalID clientIP userAgent metadata =
     insert_event inet (Some userID) (Some accountID) (Some rentalID) 2 (ip_param clientIP) (Some userAgent) metadata None"

definition new_audit :: "int option \<Rightarrow> string \<Rightarrow> int \<Rightarrow> string \<Rightarrow> json \<Rightarrow> json \<Rightarrow> int \<Rightarrow> time \<Rightarrow> audit_row" where
  "new_audit actor entityType entityID action oldValues newValues i t =
     \<lparr>g_id = i, g_actor = actor, g_entity = entityType, g_entity_id = entityID, g_action = action,
      g_old = oldValues, g_new = newValues, g_created = t\<rparr>"

definition insert_audit :: "int option \<Rightarrow> string \<Rightarrow> int \<Rightarrow> string \<Rightarrow> json \<Rightarrow> json \<Rightarrow> (db, unit) tx" where
  "insert_audit actor entityType entityID action oldValues newValues =
     tx_bind (next_id Audits) (\<lambda>i. tx_bind db_now (\<lambda>t.
     insert_row audits audits_update audit_schema
       (new_audit actor entityType entityID action oldValues newValues i t)))"

definition InsertAuditLog :: "int \<Rightarrow> string \<Rightarrow> int \<Rightarrow> string \<Rightarrow> json \<Rightarrow> json \<Rightarrow> (db, unit) tx" where
  "InsertAuditLog actorUserID entityType entityID action oldValues newValues =
     insert_audit (Some actorUserID) entityType entityID action oldValues newValues"

definition InsertSystemAuditLog :: "string \<Rightarrow> int \<Rightarrow> string \<Rightarrow> json \<Rightarrow> json \<Rightarrow> (db, unit) tx" where
  "InsertSystemAuditLog entityType entityID action oldValues newValues =
     insert_audit None entityType entityID action oldValues newValues"

end
