(* ===== verification/Payment_Facts.thy ===== *)
theory Payment_Facts
  imports Payment_Writes
begin

text \<open>
  What a successful statement of the payment repository has done: one equivalence
  per statement, collected in \<open>tx_inv\<close>, and the rows a locking read returns.
\<close>

section \<open>Unique keys\<close>

lemma schema_clash_key:
  "clash user_schema a b = None \<Longrightarrow> u_id a \<noteq> u_id b"
  "clash account_schema a2 b2 = None \<Longrightarrow> a_id a2 \<noteq> a_id b2"
  "clash rental_schema a3 b3 = None \<Longrightarrow> r_id a3 \<noteq> r_id b3"
  "clash payment_schema a4 b4 = None \<Longrightarrow> p_id a4 \<noteq> p_id b4"
  "clash payment_schema a4 b4 = None \<Longrightarrow> p_rental a4 \<noteq> p_rental b4"
  "clash ledger_schema a5 b5 = None \<Longrightarrow> l_key a5 \<noteq> l_key b5"
  "clash hold_schema a6 b6 = None \<Longrightarrow> d_id a6 \<noteq> d_id b6"
  "clash hold_schema a6 b6 = None \<Longrightarrow> d_rental a6 \<noteq> d_rental b6"
  "clash hold_schema a6 b6 = None \<Longrightarrow> d_key a6 \<noteq> d_key b6"
  "clash refund_schema a7 b7 = None \<Longrightarrow> f_id a7 \<noteq> f_id b7"
  "clash refund_schema a7 b7 = None \<Longrightarrow> f_key a7 \<noteq> f_key b7"
  by (auto simp: user_schema_def account_schema_def rental_schema_def payment_schema_def
      ledger_schema_def hold_schema_def refund_schema_def split: if_splits)

lemma distinct_key:
  assumes "valid_table sc rows" "\<And>a b. clash sc a b = None \<Longrightarrow> key a \<noteq> key b"
  shows "distinct (map key rows)"
proof -
  have "sorted_wrt (\<lambda>a b. clash sc a b = None) rows" using assms(1) by (simp add: valid_table_def)
  then show ?thesis
    by (induction rows) (use assms(2) in auto)
qed

lemma valid_db_keys:
  assumes "valid_db s"
  shows "distinct (map u_id (users s))" "distinct (map a_id (accounts s))" "distinct (map r_id (rentals s))"
    "distinct (map p_id (payments s))" "distinct (map p_rental (payments s))" "distinct (map l_key (ledger s))"
    "distinct (map d_id (holds s))" "distinct (map d_rental (holds s))" "distinct (map d_key (holds s))"
    "distinct (map f_id (refunds s))" "distinct (map f_key (refunds s))"
proof -
  have tables: "valid_table user_schema (users s)" "valid_table account_schema (accounts s)"
    "valid_table rental_schema (rentals s)" "valid_table payment_schema (payments s)"
    "valid_table ledger_schema (ledger s)" "valid_table hold_schema (holds s)"
    "valid_table refund_schema (refunds s)"
    using assms by (simp_all add: valid_db_def)
  show "distinct (map u_id (users s))" by (rule distinct_key [OF tables(1)]) (rule schema_clash_key)
  show "distinct (map a_id (accounts s))" by (rule distinct_key [OF tables(2)]) (rule schema_clash_key)
  show "distinct (map r_id (rentals s))" by (rule distinct_key [OF tables(3)]) (rule schema_clash_key)
  show "distinct (map p_id (payments s))" by (rule distinct_key [OF tables(4)]) (rule schema_clash_key)
  show "distinct (map p_rental (payments s))" by (rule distinct_key [OF tables(4)]) (rule schema_clash_key)
  show "distinct (map l_key (ledger s))" by (rule distinct_key [OF tables(5)]) (rule schema_clash_key)
  show "distinct (map d_id (holds s))" by (rule distinct_key [OF tables(6)]) (rule schema_clash_key)
  show "distinct (map d_rental (holds s))" by (rule distinct_key [OF tables(6)]) (rule schema_clash_key)
  show "distinct (map d_key (holds s))" by (rule distinct_key [OF tables(6)]) (rule schema_clash_key)
  show "distinct (map f_id (refunds s))" by (rule distinct_key [OF tables(7)]) (rule schema_clash_key)
  show "distinct (map f_key (refunds s))" by (rule distinct_key [OF tables(7)]) (rule schema_clash_key)
qed

lemma insert_fresh:
  "insert_ok ledger_schema l ls \<Longrightarrow> x \<in> set ls \<Longrightarrow> l_key x \<noteq> l_key l"
  "insert_ok hold_schema d ds \<Longrightarrow> y \<in> set ds \<Longrightarrow> d_key y \<noteq> d_key d"
  "insert_ok refund_schema f fs \<Longrightarrow> z \<in> set fs \<Longrightarrow> f_key z \<noteq> f_key f"
  by (drule insert_ok_clash, assumption, erule schema_clash_key)+

section \<open>Rows satisfy the constraints of their tables\<close>

lemma valid_db_checks:
  assumes "valid_db s"
  shows "u \<in> set (users s) \<Longrightarrow> checks user_schema u = None"
    and "a \<in> set (accounts s) \<Longrightarrow> checks account_schema a = None"
    and "r \<in> set (rentals s) \<Longrightarrow> checks rental_schema r = None"
    and "p \<in> set (payments s) \<Longrightarrow> checks payment_schema p = None"
    and "l \<in> set (ledger s) \<Longrightarrow> checks ledger_schema l = None"
    and "d \<in> set (holds s) \<Longrightarrow> checks hold_schema d = None"
    and "f \<in> set (refunds s) \<Longrightarrow> checks refund_schema f = None"
  using assms by (auto simp: valid_db_def valid_table_def list_all_iff)

lemma user_checks:
  "checks user_schema u = None \<longleftrightarrow>
     is_i64 (u_balance u) \<and> 0 \<le> u_balance u \<and> (u_role u = ''ADMIN'' \<or> u_role u = ''RENT'') \<and>
     0 \<le> u_trust u \<and> u_trust u \<le> 1000"
  by (auto simp: user_schema_def bigint_def)

lemma ledger_checks:
  "checks ledger_schema l = None \<longleftrightarrow> is_i64 (l_amount l) \<and> 0 < l_amount l \<and> l_currency l \<in> set currencies"
  by (auto simp: ledger_schema_def bigint_def)

lemma rental_checks:
  "checks rental_schema r = None \<longleftrightarrow>
     is_i64 (r_price r) \<and> is_i64 (r_deposit r) \<and> 0 < r_price r \<and> 0 \<le> r_deposit r \<and> r_start r < r_end r \<and>
     r_created r < r_payment_expires r \<and> (r_status r = 4 \<longrightarrow> r_completed r \<noteq> None) \<and>
     (case (r_review_deadline r, r_finished r) of (Some d, Some f) \<Rightarrow> f \<le> d | _ \<Rightarrow> True)"
  by (auto simp: rental_schema_def bigint_def split: option.splits)

lemma payment_checks:
  "checks payment_schema p = None \<longleftrightarrow> is_i64 (p_amount p) \<and> 0 < p_amount p \<and> p_currency p \<in> set currencies"
  by (auto simp: payment_schema_def bigint_def)

lemma hold_checks:
  "checks hold_schema d = None \<Longrightarrow>
     is_i64 (d_amount d) \<and> 0 < d_amount d \<and> d_currency d \<in> set currencies \<and> d_status d \<in> {1, 2, 3, 4} \<and>
     settlement_metadata_ok d"
  by (auto simp: hold_schema_def bigint_def split: if_splits)

section \<open>Columns of the inserted rows and fields of the read states\<close>

lemma wallet_state_simps [simp]:
  "wps_PaymentID (wallet_state p r a u) = p_id p" "wps_RentalID (wallet_state p r a u) = r_id r"
  "wps_UserID (wallet_state p r a u) = r_user r" "wps_AccountID (wallet_state p r a u) = r_account r"
  "wps_Provider (wallet_state p r a u) = p_provider p" "wps_PaymentStatus (wallet_state p r a u) = p_status p"
  "wps_RentalStatus (wallet_state p r a u) = r_status r" "wps_AccountStatus (wallet_state p r a u) = a_status a"
  "wps_RentalPrice (wallet_state p r a u) = r_price r" "wps_DepositAmount (wallet_state p r a u) = r_deposit r"
  "wps_PaymentExpiresAt (wallet_state p r a u) = r_payment_expires r"
  "wps_Currency (wallet_state p r a u) = p_currency p" "wps_UserBalance (wallet_state p r a u) = u_balance u"
  by (simp_all add: wallet_state_def)

lemma webhook_state_simps [simp]:
  "hook_PaymentID (webhook_state p r a) = p_id p" "hook_RentalID (webhook_state p r a) = p_rental p"
  "hook_UserID (webhook_state p r a) = p_user p" "hook_AccountID (webhook_state p r a) = r_account r"
  "hook_Provider (webhook_state p r a) = p_provider p"
  "hook_ExternalTransactionID (webhook_state p r a) = case_option [] id (p_external p)"
  "hook_Status (webhook_state p r a) = p_status p" "hook_Amount (webhook_state p r a) = p_amount p"
  "hook_Currency (webhook_state p r a) = p_currency p" "hook_RentalPrice (webhook_state p r a) = r_price r"
  "hook_DepositAmount (webhook_state p r a) = r_deposit r" "hook_RentalStatus (webhook_state p r a) = r_status r"
  "hook_AccountStatus (webhook_state p r a) = a_status a"
  "hook_PaymentExpiresAt (webhook_state p r a) = r_payment_expires r"
  by (simp_all add: webhook_state_def)

lemma ledger_entry_row_simps [simp]:
  "l_id (ledger_entry_row ty e i t) = i" "l_type (ledger_entry_row ty e i t) = ty"
  "l_user (ledger_entry_row ty e i t) = Some (fle_UserID e)" "l_rental (ledger_entry_row ty e i t) = Some (fle_RentalID e)"
  "l_payment (ledger_entry_row ty e i t) = Some (fle_PaymentID e)" "l_account (ledger_entry_row ty e i t) = Some (fle_AccountID e)"
  "l_amount (ledger_entry_row ty e i t) = fle_Amount e" "l_currency (ledger_entry_row ty e i t) = fle_Currency e"
  "l_key (ledger_entry_row ty e i t) = fle_IdempotencyKey e" "l_created (ledger_entry_row ty e i t) = t"
  by (simp_all add: ledger_entry_row_def)

lemma held_deposit_row_simps [simp]:
  "d_id (held_deposit_row h i) = i" "d_rental (held_deposit_row h i) = dh_RentalID h"
  "d_user (held_deposit_row h i) = dh_UserID h" "d_payment (held_deposit_row h i) = Some (dh_PaymentID h)"
  "d_amount (held_deposit_row h i) = dh_Amount h" "d_currency (held_deposit_row h i) = dh_Currency h"
  "d_status (held_deposit_row h i) = 1" "d_key (held_deposit_row h i) = dh_IdempotencyKey h"
  "d_source (held_deposit_row h i) = None"
  by (simp_all add: held_deposit_row_def)

lemma new_event_simps [simp]:
  "e_id (new_event u a r ty ip agent m t i) = i" "e_user (new_event u a r ty ip agent m t i) = u"
  "e_account (new_event u a r ty ip agent m t i) = a" "e_rental (new_event u a r ty ip agent m t i) = r"
  "e_type (new_event u a r ty ip agent m t i) = ty" "e_ip (new_event u a r ty ip agent m t i) = ip"
  "e_agent (new_event u a r ty ip agent m t i) = agent" "e_metadata (new_event u a r ty ip agent m t i) = m"
  "e_success (new_event u a r ty ip agent m t i) = Some True" "e_created (new_event u a r ty ip agent m t i) = t"
  by (simp_all add: new_event_def)

lemma new_audit_simps [simp]:
  "g_id (new_audit x en i act old new j t) = j" "g_actor (new_audit x en i act old new j t) = x"
  "g_entity (new_audit x en i act old new j t) = en" "g_entity_id (new_audit x en i act old new j t) = i"
  "g_action (new_audit x en i act old new j t) = act" "g_old (new_audit x en i act old new j t) = old"
  "g_new (new_audit x en i act old new j t) = new"
  by (simp_all add: new_audit_def)

section \<open>Inversion of the statements\<close>

lemma some_update_ok:
  "some_rows (update_table get put sc P f) e s = Inr r \<longleftrightarrow>
     update_ok sc P f (get s) \<and> (\<exists>x\<in>set (get s). P x) \<and> r = ((), put (\<lambda>_. upd P f (get s)) s)"
  by (auto simp: tx_inv filter_empty_conv)

lemma CreatePendingPayment_ok [tx_inv]:
  "CreatePendingPayment rid uid amt cur s = Inr r \<longleftrightarrow>
     (let row = pending_payment_row rid uid amt cur (sequences s Payments) (clock s)
      in insert_ok payment_schema row (payments s) \<and>
         r = (sequences s Payments, (bump Payments s)\<lparr>payments := payments s @ [row]\<rparr>))"
  by (auto simp: CreatePendingPayment_def tx_inv Let_def)

lemma MarkPaymentSuccessful_ok [tx_inv]:
  "MarkPaymentSuccessful pid ext s = Inr r \<longleftrightarrow>
     (let P = (\<lambda>p. p_id p = pid \<and> p_status p = 1);
          f = (\<lambda>p. p\<lparr>p_status := 2, p_external := Some ext, p_processed := Some (clock s)\<rparr>)
      in update_ok payment_schema P f (payments s) \<and> (\<exists>p\<in>set (payments s). P p) \<and>
         r = ((), s\<lparr>payments := upd P f (payments s)\<rparr>))"
  by (auto simp: MarkPaymentSuccessful_def tx_inv tx_catch_ok filter_empty_conv Let_def)

lemma MarkPaymentSuccessfulForWallet_ok [tx_inv]:
  "MarkPaymentSuccessfulForWallet pid now s = Inr r \<longleftrightarrow>
     (let P = (\<lambda>p. p_id p = pid \<and> p_status p = 1);
          f = (\<lambda>p. p\<lparr>p_status := 2, p_provider := walletPaymentProvider, p_external := None,
                    p_processed := Some (pg_ts now)\<rparr>)
      in update_ok payment_schema P f (payments s) \<and> (\<exists>p\<in>set (payments s). P p) \<and>
         r = ((), s\<lparr>payments := upd P f (payments s)\<rparr>))"
  by (simp add: MarkPaymentSuccessfulForWallet_def some_update_ok Let_def)

lemma ActivateRentalForWebhook_ok [tx_inv]:
  "ActivateRentalForWebhook rid now s = Inr r \<longleftrightarrow>
     (let P = (\<lambda>r. r_id r = rid \<and> r_status r = 1 \<and> clock s < r_payment_expires r);
          f = (\<lambda>r. r\<lparr>r_status := 2, r_updated := pg_ts now\<rparr>)
      in update_ok rental_schema P f (rentals s) \<and> (\<exists>x\<in>set (rentals s). P x) \<and>
         r = ((), s\<lparr>rentals := upd P f (rentals s)\<rparr>))"
  by (simp add: ActivateRentalForWebhook_def tx_bind_ok db_now_ok some_update_ok Let_def)

lemma MarkAccountRentedForWebhook_ok [tx_inv]:
  "MarkAccountRentedForWebhook aid now s = Inr r \<longleftrightarrow>
     (let P = (\<lambda>a. a_id a = aid \<and> a_status a = 3); f = (\<lambda>a. a\<lparr>a_status := 4, a_updated := pg_ts now\<rparr>)
      in update_ok account_schema P f (accounts s) \<and> (\<exists>a\<in>set (accounts s). P a) \<and>
         r = ((), s\<lparr>accounts := upd P f (accounts s)\<rparr>))"
  by (simp add: MarkAccountRentedForWebhook_def some_update_ok Let_def)

lemma MarkRentalCompleted_ok [tx_inv]:
  "MarkRentalCompleted rid now s = Inr r \<longleftrightarrow>
     (let P = (\<lambda>r. r_id r = rid \<and> r_status r = 3 \<and> completion_allowed s r);
          f = (\<lambda>r. r\<lparr>r_status := 4, r_completed := Some (pg_ts now), r_updated := pg_ts now\<rparr>)
      in update_ok rental_schema P f (rentals s) \<and>
         r = (length (filter P (rentals s)) = 1, s\<lparr>rentals := upd P f (rentals s)\<rparr>))"
  by (auto simp: MarkRentalCompleted_def tx_inv Let_def)

lemma CreditUserBalance_ok [tx_inv]:
  "CreditUserBalance uid amt now s = Inr r \<longleftrightarrow>
     (let P = (\<lambda>u. u_id u = uid); f = (\<lambda>u. u\<lparr>u_balance := u_balance u + amt, u_updated := pg_ts now\<rparr>)
      in update_ok user_schema P f (users s) \<and> (\<exists>u\<in>set (users s). P u) \<and>
         r = ((), s\<lparr>users := upd P f (users s)\<rparr>))"
  by (simp add: CreditUserBalance_def some_update_ok Let_def)

lemma DebitUserBalance_ok [tx_inv]:
  "DebitUserBalance uid amt now s = Inr r \<longleftrightarrow>
     (let P = (\<lambda>u. u_id u = uid \<and> amt \<le> u_balance u);
          f = (\<lambda>u. u\<lparr>u_balance := u_balance u - amt, u_updated := pg_ts now\<rparr>)
      in update_ok user_schema P f (users s) \<and> (\<exists>u\<in>set (users s). P u) \<and>
         r = ((), s\<lparr>users := upd P f (users s)\<rparr>))"
  by (simp add: DebitUserBalance_def some_update_ok Let_def)

lemma insertLedgerEntry_ok [tx_inv]:
  "insertLedgerEntry ty entry s = Inr r \<longleftrightarrow>
     (let row = ledger_entry_row ty entry (sequences s Ledger) (clock s)
      in insert_ok ledger_schema row (ledger s) \<and>
         r = ((), (bump Ledger s)\<lparr>ledger := ledger s @ [row]\<rparr>))"
proof -
  have "insert_ok ledger_schema (ledger_entry_row ty entry i t) (ledger s) \<Longrightarrow>
      \<forall>x\<in>set (ledger s). l_key x \<noteq> fle_IdempotencyKey entry" for i t
    by (auto dest: insert_fresh(1))
  then show ?thesis
    by (auto simp: insertLedgerEntry_def tx_inv Let_def ex_bool_eq)
qed

lemmas ledger_recorders = RecordProviderPaymentReceived_def RecordDepositHeld_def RecordBalanceDebit_def
  RecordDepositReleasedToBalance_def RecordDepositForfeited_def RecordBalanceRefundCredit_def
  RecordDepositRefundCredit_def

lemma CreateDepositHold_ok [tx_inv]:
  "CreateDepositHold hold s = Inr r \<longleftrightarrow>
     (let row = held_deposit_row hold (sequences s Holds)
      in (\<exists>d\<in>set (holds s). d_key d = d_key row) \<and> checks hold_schema row = None \<and> r = ((), bump Holds s) \<or>
         insert_ok hold_schema row (holds s) \<and> r = ((), (bump Holds s)\<lparr>holds := holds s @ [row]\<rparr>))"
proof -
  have "insert_ok hold_schema (held_deposit_row hold i) (holds s) \<Longrightarrow>
      \<forall>x\<in>set (holds s). d_key x \<noteq> dh_IdempotencyKey hold" for i
    by (auto dest: insert_fresh(2))
  then show ?thesis
    by (auto simp: CreateDepositHold_def tx_inv Let_def ex_bool_eq)
qed

lemma MarkDepositReleased_ok [tx_inv]:
  "MarkDepositReleased hid src by_user now s = Inr r \<longleftrightarrow>
     (let P = (\<lambda>d. d_id d = hid \<and> d_status d = 1);
          f = (\<lambda>d. d\<lparr>d_status := 2, d_released := Some (pg_ts now), d_source := Some src,
              d_settled_by := by_user, d_reason := None, d_evidence := None, d_updated := pg_ts now\<rparr>)
      in update_ok hold_schema P f (holds s) \<and> (\<exists>d\<in>set (holds s). P d) \<and>
         r = ((), s\<lparr>holds := upd P f (holds s)\<rparr>))"
  by (simp add: MarkDepositReleased_def some_update_ok Let_def)

lemma MarkDepositForfeited_ok [tx_inv]:
  "MarkDepositForfeited hid by_user reason ev now s = Inr r \<longleftrightarrow>
     (let P = (\<lambda>d. d_id d = hid \<and> d_status d = 1);
          f = (\<lambda>d. d\<lparr>d_status := 3, d_forfeited := Some (pg_ts now), d_source := Some 2,
              d_settled_by := Some by_user, d_reason := Some reason, d_evidence := Some ev, d_updated := pg_ts now\<rparr>)
      in update_ok hold_schema P f (holds s) \<and> (\<exists>d\<in>set (holds s). P d) \<and>
         r = ((), s\<lparr>holds := upd P f (holds s)\<rparr>))"
  by (simp add: MarkDepositForfeited_def some_update_ok Let_def)

lemma MarkDepositRefunded_ok [tx_inv]:
  "MarkDepositRefunded hid refund by_user now s = Inr r \<longleftrightarrow>
     (let P = (\<lambda>d. d_id d = hid \<and> d_status d = 1);
          f = (\<lambda>d. d\<lparr>d_status := 4, d_refunded := Some (pg_ts now), d_refund := Some refund,
              d_source := Some 4, d_settled_by := Some by_user, d_reason := None, d_evidence := None,
              d_updated := pg_ts now\<rparr>)
      in update_ok hold_schema P f (holds s) \<and> (\<exists>d\<in>set (holds s). P d) \<and>
         r = ((), s\<lparr>holds := upd P f (holds s)\<rparr>))"
  by (simp add: MarkDepositRefunded_def some_update_ok Let_def)

lemma CreateRefund_ok [tx_inv]:
  "CreateRefund refund s = Inr r \<longleftrightarrow>
     (let row = requested_refund_row refund (sequences s Refunds) (clock s)
      in insert_ok refund_schema row (refunds s) \<and>
         r = ((refund\<lparr>rr_ID := sequences s Refunds\<rparr>, True), (bump Refunds s)\<lparr>refunds := refunds s @ [row]\<rparr>) \<or>
         checks refund_schema row = None \<and>
         (\<exists>f fs. filter (\<lambda>f. f_key f = rr_IdempotencyKey refund) (refunds s) = f # fs \<and>
            r = ((refund_record f, False), bump Refunds s)))"
proof -
  have fresh: "insert_ok refund_schema row rows \<Longrightarrow> \<not> (\<exists>x\<in>set rows. f_key x = f_key row)" for row rows
    by (meson insert_fresh)
  have key: "f_key (requested_refund_row refund i t) = rr_IdempotencyKey refund" for i t
    by (simp add: requested_refund_row_def)
  have ex: "(\<exists>f fs. filter P xs = f # fs) \<longleftrightarrow> (\<exists>x\<in>set xs. P x)" for P and xs :: "refund_row list"
    by (metis filter_empty_conv list.exhaust list.discI)
  have ex1: "filter P xs = f # fs \<Longrightarrow> \<exists>x\<in>set xs. P x" for P f fs and xs :: "refund_row list"
    using ex by blast
  show ?thesis
    using fresh [of "requested_refund_row refund (sequences s Refunds) (clock s)" "refunds s"] ex
    by (auto simp: CreateRefund_def loadRefundByIdempotencyKey_def tx_inv Let_def key ex_bool_eq dest: ex1)
qed

lemma MarkRefundCompleted_ok [tx_inv]:
  "MarkRefundCompleted fid now s = Inr r \<longleftrightarrow>
     (let P = (\<lambda>f. f_id f = fid \<and> f_status f = 1);
          f = (\<lambda>f. f\<lparr>f_status := 2, f_processed := Some (pg_ts now), f_updated := pg_ts now\<rparr>)
      in update_ok refund_schema P f (refunds s) \<and> (\<exists>f\<in>set (refunds s). P f) \<and>
         r = ((), s\<lparr>refunds := upd P f (refunds s)\<rparr>))"
  by (simp add: MarkRefundCompleted_def some_update_ok Let_def)

lemma insert_event_ok [tx_inv]:
  "insert_event inet u a r ty ip agent meta created s = Inr q \<longleftrightarrow>
     (let row = new_event u a r ty ip agent meta (case_option (clock s) id created) (sequences s Events)
      in (\<forall>t. ip = Some t \<longrightarrow> inet t) \<and> insert_ok event_schema row (events s) \<and>
         q = ((), (bump Events s)\<lparr>events := events s @ [row]\<rparr>))"
  by (auto simp: insert_event_def tx_inv Let_def split: option.splits)

lemma insert_audit_ok [tx_inv]:
  "insert_audit actor ty i act old new s = Inr r \<longleftrightarrow>
     (let row = new_audit actor ty i act old new (sequences s Audits) (clock s)
      in insert_ok audit_schema row (audits s) \<and> r = ((), (bump Audits s)\<lparr>audits := audits s @ [row]\<rparr>))"
  by (auto simp: insert_audit_def tx_inv Let_def)

lemmas event_loggers = LogDepositSecurityEvent_def LogWalletSecurityEvent_def LogRefundSecurityEvent_def
  LogSecurityEvent_def InsertAuditLog_def InsertSystemAuditLog_def

end
