(* ===== verification/Evolution.thy ===== *)
theory Evolution
  imports Payment_Facts
begin

text \<open>
  Two relations between the states before and after a step that every operation
  of the program keeps, for every statement it runs: the constraints of the tables
  go on holding (\<open>keeps_valid\<close>), and the rows evolve (\<open>evolves\<close>): ledger, security
  events and audit log are append-only, a settled deposit hold and a decided
  payment do not change, and a rental moves forward in its life cycle.
\<close>

section \<open>Constraints are kept\<close>

definition keeps_valid :: "db \<Rightarrow> db \<Rightarrow> bool" where
  "keeps_valid s t \<longleftrightarrow> valid_db s \<longrightarrow> valid_db t"

interpretation valid: step_preorder keeps_valid
  by unfold_locales (auto simp: keeps_valid_def)

lemma valid_updates [closed_intros]:
  "valid.closed (update_table users users_update user_schema P1 f1)"
  "valid.closed (update_table accounts accounts_update account_schema P2 f2)"
  "valid.closed (update_table rentals rentals_update rental_schema P3 f3)"
  "valid.closed (update_table payments payments_update payment_schema P4 f4)"
  "valid.closed (update_table holds holds_update hold_schema P5 f5)"
  "valid.closed (update_table refunds refunds_update refund_schema P6 f6)"
  "valid.closed (update_table tokens tokens_update token_schema P7 f7)"
  "valid.closed (update_table account_games account_games_update link_schema P8 f8)"
  by (auto intro!: valid.closedI simp: keeps_valid_def valid_db_def tx_inv valid_update)

lemma valid_inserts [closed_intros]:
  "valid.closed (insert_row users users_update user_schema r1)"
  "valid.closed (insert_row accounts accounts_update account_schema r2)"
  "valid.closed (insert_row rentals rentals_update rental_schema r3)"
  "valid.closed (insert_row payments payments_update payment_schema r4)"
  "valid.closed (insert_row events events_update event_schema r5)"
  "valid.closed (insert_row audits audits_update audit_schema r6)"
  "valid.closed (insert_row tokens tokens_update token_schema r7)"
  "valid.closed (insert_row games games_update game_schema r11)"
  "valid.closed (insert_row account_games account_games_update link_schema r12)"
  "valid.closed (delete_rows account_games account_games_update P13)"
  "valid.closed (insert_row ledger ledger_update ledger_schema r8)"
  "valid.closed (insert_on_conflict ledger ledger_update ledger_schema k8 r8)"
  "valid.closed (insert_on_conflict holds holds_update hold_schema k9 r9)"
  "valid.closed (insert_on_conflict refunds refunds_update refund_schema k10 r10)"
  "valid.closed (next_id tb)" "valid.closed db_now"
  by (auto intro!: valid.closedI simp: keeps_valid_def valid_db_def tx_inv valid_insert valid_delete)

section \<open>Rows evolve\<close>

text \<open>A held deposit may be settled once; nothing else of a hold changes, and a settled one not at all.\<close>

definition hold_next :: "hold_row \<Rightarrow> hold_row \<Rightarrow> bool" where
  "hold_next d d' \<longleftrightarrow>
     d' = d \<or>
     d_status d = 1 \<and> d_status d' \<noteq> 1 \<and> d_id d' = d_id d \<and> d_rental d' = d_rental d \<and> d_user d' = d_user d \<and>
     d_payment d' = d_payment d \<and> d_amount d' = d_amount d \<and> d_currency d' = d_currency d \<and> d_key d' = d_key d"

text \<open>
  The life cycle of a stored rental: waiting, then active, expired or cancelled;
  active, then expired; expired, then completed. Beside the methods of the
  aggregate it has the step from waiting to expired of a reservation that was not
  paid in time.
\<close>

definition later_status :: "int \<Rightarrow> int \<Rightarrow> bool" where
  "later_status a b \<longleftrightarrow> a = b \<or> a = 1 \<and> b \<in> {2, 3, 4, 5} \<or> a = 2 \<and> b \<in> {3, 4} \<or> a = 3 \<and> b = 4"

definition rental_next :: "rental_row \<Rightarrow> rental_row \<Rightarrow> bool" where
  "rental_next r r' \<longleftrightarrow>
     later_status (r_status r) (r_status r') \<and> (r_status r \<in> {4, 5} \<longrightarrow> r' = r) \<and>
     r_id r' = r_id r \<and> r_user r' = r_user r \<and> r_account r' = r_account r \<and> r_price r' = r_price r \<and>
     r_deposit r' = r_deposit r \<and> r_start r' = r_start r \<and> r_end r' = r_end r \<and> r_created r' = r_created r \<and>
     r_payment_expires r' = r_payment_expires r"

text \<open>A pending payment is decided once.\<close>

definition payment_next :: "payment_row \<Rightarrow> payment_row \<Rightarrow> bool" where
  "payment_next p p' \<longleftrightarrow>
     p' = p \<or>
     p_status p = 1 \<and> p_status p' \<in> {2, 3} \<and> p_id p' = p_id p \<and> p_rental p' = p_rental p \<and> p_user p' = p_user p \<and>
     p_type p' = p_type p \<and> p_amount p' = p_amount p \<and> p_currency p' = p_currency p \<and> p_created p' = p_created p"

definition refund_next :: "refund_row \<Rightarrow> refund_row \<Rightarrow> bool" where
  "refund_next f f' \<longleftrightarrow>
     f' = f \<or>
     f_status f = 1 \<and> f_status f' = 2 \<and> f_id f' = f_id f \<and> f_payment f' = f_payment f \<and> f_rental f' = f_rental f \<and>
     f_user f' = f_user f \<and> f_principal f' = f_principal f \<and> f_deposit f' = f_deposit f \<and>
     f_total f' = f_total f \<and> f_currency f' = f_currency f \<and> f_key f' = f_key f"

definition user_next :: "user_row \<Rightarrow> user_row \<Rightarrow> bool" where
  "user_next u u' \<longleftrightarrow> u_id u' = u_id u \<and> u_created u' = u_created u"

definition account_next :: "account_row \<Rightarrow> account_row \<Rightarrow> bool" where
  "account_next a a' \<longleftrightarrow> a_id a' = a_id a \<and> a_created a' = a_created a"

interpretation hold_order: row_order hold_next
  by unfold_locales (auto simp: hold_next_def)

lemma later_status_trans: "later_status a b \<Longrightarrow> later_status b c \<Longrightarrow> later_status a c"
  by (auto simp: later_status_def)

lemma later_status_refl [simp]: "later_status a a"
  by (simp add: later_status_def)

interpretation rental_order: row_order rental_next
proof
  show "rental_next x x" for x by (simp add: rental_next_def)
  show "rental_next x y \<Longrightarrow> rental_next y z \<Longrightarrow> rental_next x z" for x y z
    unfolding rental_next_def by (metis later_status_trans)
qed

interpretation payment_order: row_order payment_next
  by unfold_locales (auto simp: payment_next_def)

interpretation refund_order: row_order refund_next
  by unfold_locales (auto simp: refund_next_def)

interpretation user_order: row_order user_next
  by unfold_locales (auto simp: user_next_def)

interpretation account_order: row_order account_next
  by unfold_locales (auto simp: account_next_def)

definition evolves :: "db \<Rightarrow> db \<Rightarrow> bool" where
  "evolves s t \<longleftrightarrow>
     grows (=) (ledger s) (ledger t) \<and> grows (=) (events s) (events t) \<and> grows (=) (audits s) (audits t) \<and>
     grows hold_next (holds s) (holds t) \<and> grows rental_next (rentals s) (rentals t) \<and>
     grows payment_next (payments s) (payments t) \<and> grows refund_next (refunds s) (refunds t) \<and>
     grows user_next (users s) (users t) \<and> grows account_next (accounts s) (accounts t) \<and> clock t = clock s"

lemmas grows_refls = log.grows_refl hold_order.grows_refl rental_order.grows_refl payment_order.grows_refl
  refund_order.grows_refl user_order.grows_refl account_order.grows_refl
lemmas grows_appends = log.grows_append hold_order.grows_append rental_order.grows_append payment_order.grows_append
  refund_order.grows_append user_order.grows_append account_order.grows_append

interpretation evolution: step_preorder evolves
proof
  show "evolves s s" for s by (simp add: evolves_def grows_refls)
  show "evolves s t \<Longrightarrow> evolves t u \<Longrightarrow> evolves s u" for s t u
    unfolding evolves_def
    by (elim conjE, intro conjI)
      (erule (1) log.grows_trans hold_order.grows_trans rental_order.grows_trans payment_order.grows_trans
         refund_order.grows_trans user_order.grows_trans account_order.grows_trans | simp)+
qed

text \<open>An UPDATE evolves its table when it moves every row it matches forward.\<close>

lemma evolving_updates [closed_intros]:
  "(\<And>u. P1 u \<Longrightarrow> user_next u (f1 u)) \<Longrightarrow> evolution.closed (update_table users users_update user_schema P1 f1)"
  "(\<And>a. P2 a \<Longrightarrow> account_next a (f2 a)) \<Longrightarrow> evolution.closed (update_table accounts accounts_update account_schema P2 f2)"
  "(\<And>r. P3 r \<Longrightarrow> rental_next r (f3 r)) \<Longrightarrow> evolution.closed (update_table rentals rentals_update rental_schema P3 f3)"
  "(\<And>p. P4 p \<Longrightarrow> payment_next p (f4 p)) \<Longrightarrow> evolution.closed (update_table payments payments_update payment_schema P4 f4)"
  "(\<And>d. P5 d \<Longrightarrow> hold_next d (f5 d)) \<Longrightarrow> evolution.closed (update_table holds holds_update hold_schema P5 f5)"
  "(\<And>f. P6 f \<Longrightarrow> refund_next f (f6 f)) \<Longrightarrow> evolution.closed (update_table refunds refunds_update refund_schema P6 f6)"
  "evolution.closed (update_table tokens tokens_update token_schema P7 f7)"
  "evolution.closed (update_table account_games account_games_update link_schema P8 f8)"
  by (auto intro!: evolution.closedI hold_order.grows_upd rental_order.grows_upd payment_order.grows_upd
      refund_order.grows_upd user_order.grows_upd account_order.grows_upd
      simp: evolves_def tx_inv grows_refls)

lemma evolving_inserts [closed_intros]:
  "evolution.closed (insert_row users users_update user_schema r1)"
  "evolution.closed (insert_row accounts accounts_update account_schema r2)"
  "evolution.closed (insert_row rentals rentals_update rental_schema r3)"
  "evolution.closed (insert_row payments payments_update payment_schema r4)"
  "evolution.closed (insert_row events events_update event_schema r5)"
  "evolution.closed (insert_row audits audits_update audit_schema r6)"
  "evolution.closed (insert_row tokens tokens_update token_schema r7)"
  "evolution.closed (insert_row games games_update game_schema r11)"
  "evolution.closed (insert_row account_games account_games_update link_schema r12)"
  "evolution.closed (delete_rows account_games account_games_update P13)"
  "evolution.closed (insert_row ledger ledger_update ledger_schema r8)"
  "evolution.closed (insert_on_conflict ledger ledger_update ledger_schema k8 r8)"
  "evolution.closed (insert_on_conflict holds holds_update hold_schema k9 r9)"
  "evolution.closed (insert_on_conflict refunds refunds_update refund_schema k10 r10)"
  "evolution.closed (next_id tb)" "evolution.closed db_now"
  by (auto intro!: evolution.closedI simp: evolves_def tx_inv grows_refls grows_appends)

section \<open>The statements of the payment repository\<close>

lemmas row_nexts = hold_next_def rental_next_def later_status_def payment_next_def refund_next_def
  user_next_def account_next_def

lemmas payment_statements = CreatePendingPayment_def MarkPaymentSuccessful_def MarkPaymentSuccessfulForWallet_def
  ActivateRentalForWebhook_def MarkAccountRentedForWebhook_def MarkRentalCompleted_def CreditUserBalance_def
  DebitUserBalance_def insertLedgerEntry_def CreateDepositHold_def MarkDepositReleased_def
  MarkDepositForfeited_def MarkDepositRefunded_def CreateRefund_def loadRefundByIdempotencyKey_def
  MarkRefundCompleted_def insert_event_def insert_audit_def some_rows_def

lemmas payment_reads = LockWalletPaymentState_def LockPaymentForWebhookByID_def
  LockPaymentForWebhookByExternalTransaction_def LockDepositSettlementState_def LockWalletRefundState_def
  LockNextRentalFinalizationState_def LoadDepositSettlementEligibility_def VerifyDepositForfeitEvidence_def
  LoadCompletedRefundTotals_def

lemmas admin_reads = Payment_RequireCurrentAdmin_def RequireCurrentAdminForMutation_def RequireCurrentAdmin_def
  LoadCurrentUser_def

end
