(* ===== verification/Sample.thy ===== *)
theory Sample
  imports Schema
begin

text \<open>
  A small concrete database on which the witnesses evaluate the operations: an
  administrator (1), a customer (2) with a balance of 1000, an account (5) of the
  price 10 per hour and a deposit of 50 that is reserved, and the customer's
  rental (7) of three hours that waits for its payment (9).
\<close>

definition admin_row :: user_row where
  "admin_row = \<lparr>u_id = 1, u_email = ''a'', u_password_hash = [], u_first_name = None, u_last_name = None,
     u_email_verified = True, u_role = ''ADMIN'', u_trust = 1000, u_blocked = False, u_balance = 0,
     u_created = 0, u_updated = 0, u_deleted = None\<rparr>"

definition customer_row :: user_row where
  "customer_row = \<lparr>u_id = 2, u_email = ''c'', u_password_hash = [], u_first_name = None, u_last_name = None,
     u_email_verified = True, u_role = ''RENT'', u_trust = 300, u_blocked = False, u_balance = 1000,
     u_created = 0, u_updated = 0, u_deleted = None\<rparr>"

definition account5 :: account_row where
  "account5 = \<lparr>a_id = 5, a_steam_id64 = ''76'', a_login = ''l'', a_password = ''p'', a_guard = True,
     a_inventory = True, a_last_check = None, a_hourly_price = 10, a_deposit = 50, a_status = 3,
     a_profile_url = None, a_avatar_url = None, a_library_synced = Some 0, a_created = 0, a_updated = 0,
     a_deleted = None\<rparr>"

definition rental7 :: rental_row where
  "rental7 = \<lparr>r_id = 7, r_user = 2, r_account = 5, r_status = 1, r_start = 0, r_end = 3 * Hour, r_price = 30,
     r_deposit = 50, r_finished = None, r_reason = None, r_created = 0, r_updated = 0,
     r_payment_expires = 15 * Minute, r_review_deadline = None, r_completed = None\<rparr>"

definition payment9 :: payment_row where
  "payment9 = \<lparr>p_id = 9, p_rental = 7, p_user = 2, p_type = 1, p_provider = ''internal'', p_status = 1,
     p_amount = 80, p_currency = ''USD'', p_external = None, p_created = 0, p_processed = None\<rparr>"

definition waiting_db :: db where
  "waiting_db = \<lparr>users = [admin_row, customer_row], accounts = [account5], rentals = [rental7],
     payments = [payment9], ledger = [], holds = [], refunds = [], events = [], audits = [], tokens = [], games = [], account_games = [],
     sequences = (\<lambda>_. 20), clock = Minute\<rparr>"

lemmas sample_defs = waiting_db_def admin_row_def customer_row_def account5_def rental7_def payment9_def

lemma waiting_db_valid: "valid_db waiting_db"
  by code_simp

end
