(* ===== verification/Wallet_Payment.thy ===== *)
theory Wallet_Payment
  imports Evolution Sample
begin

text \<open>
  Paying a rental from the balance: \<open>PayRentalWithBalance\<close> of
  src/internal/payment/service.go. The body of its transaction is cut into the
  guards, the four status changes, the ledger entries with the deposit hold, and
  the records for security and audit, in the order of the code.
\<close>

section \<open>Model\<close>

record WalletPaymentResult =
  wpr_Changed :: bool
  wpr_Idempotent :: bool
  wpr_PaymentID :: int
  wpr_RentalID :: int
  wpr_AccountID :: int
  wpr_PaymentStatus :: int
  wpr_RentalStatus :: int
  wpr_AccountStatus :: int
  wpr_PaymentProvider :: string

definition deposit_hold_key :: "int \<Rightarrow> string" where
  "deposit_hold_key rentalID = ''deposit:hold:rental:'' @ format_int rentalID"

definition balance_debit_key :: "int \<Rightarrow> string" where
  "balance_debit_key rentalID = ''balance:debit:rental:'' @ format_int rentalID"

definition wallet_debit_entry :: "WalletPaymentState \<Rightarrow> int \<Rightarrow> time \<Rightarrow> FinancialLedgerEntry" where
  "wallet_debit_entry state totalAmount now =
     \<lparr>fle_UserID = wps_UserID state, fle_RentalID = wps_RentalID state, fle_PaymentID = wps_PaymentID state,
      fle_AccountID = wps_AccountID state, fle_Amount = totalAmount, fle_Currency = wps_Currency state,
      fle_Provider = walletPaymentProvider, fle_ExternalTransactionID = [],
      fle_IdempotencyKey = balance_debit_key (wps_RentalID state),
      fle_CorrelationID = balance_debit_key (wps_RentalID state),
      fle_Metadata = ids_metadata ''balance_debit'' (wps_PaymentID state) (wps_RentalID state) (wps_AccountID state)
        @ [(''recorded_at'', JTime now)]\<rparr>"

definition wallet_deposit_hold :: "WalletPaymentState \<Rightarrow> time \<Rightarrow> DepositHold" where
  "wallet_deposit_hold state now =
     \<lparr>dh_UserID = wps_UserID state, dh_RentalID = wps_RentalID state, dh_PaymentID = wps_PaymentID state,
      dh_Amount = wps_DepositAmount state, dh_Currency = wps_Currency state, dh_HeldAt = now,
      dh_IdempotencyKey = deposit_hold_key (wps_RentalID state)\<rparr>"

definition wallet_deposit_entry :: "WalletPaymentState \<Rightarrow> time \<Rightarrow> FinancialLedgerEntry" where
  "wallet_deposit_entry state now =
     \<lparr>fle_UserID = wps_UserID state, fle_RentalID = wps_RentalID state, fle_PaymentID = wps_PaymentID state,
      fle_AccountID = wps_AccountID state, fle_Amount = wps_DepositAmount state, fle_Currency = wps_Currency state,
      fle_Provider = walletPaymentProvider, fle_ExternalTransactionID = [],
      fle_IdempotencyKey = deposit_hold_key (wps_RentalID state),
      fle_CorrelationID = balance_debit_key (wps_RentalID state),
      fle_Metadata = ids_metadata ''deposit_held'' (wps_PaymentID state) (wps_RentalID state) (wps_AccountID state)
        @ [(''recorded_at'', JTime now)]\<rparr>"

definition wallet_status_changes :: "WalletPaymentState \<Rightarrow> int \<Rightarrow> time \<Rightarrow> (db, unit) tx" where
  "wallet_status_changes state totalAmount now =
     tx_seq (wrap_unless (PaymentErr ErrWalletInsufficientBalance) ''debit user balance''
               (DebitUserBalance (wps_UserID state) totalAmount now))
    (tx_seq (wrapf ''mark payment successful for wallet'' (MarkPaymentSuccessfulForWallet (wps_PaymentID state) now))
    (tx_seq (wrapf ''activate rental for wallet payment'' (ActivateRentalForWebhook (wps_RentalID state) now))
            (wrapf ''mark account rented for wallet payment'' (MarkAccountRentedForWebhook (wps_AccountID state) now))))"

definition wallet_financial_records :: "WalletPaymentState \<Rightarrow> int \<Rightarrow> time \<Rightarrow> (db, unit) tx" where
  "wallet_financial_records state totalAmount now =
     tx_seq (wrapf ''insert balance debit ledger entry'' (RecordBalanceDebit (wallet_debit_entry state totalAmount now)))
    (tx_when (0 < wps_DepositAmount state)
      (tx_seq (wrapf ''create deposit hold for wallet payment'' (CreateDepositHold (wallet_deposit_hold state now)))
              (wrapf ''insert wallet deposit held ledger entry'' (RecordDepositHeld (wallet_deposit_entry state now)))))"

definition wallet_event_metadata :: "WalletPaymentState \<Rightarrow> json" where
  "wallet_event_metadata state =
     ids_metadata ''wallet_payment_completed'' (wps_PaymentID state) (wps_RentalID state) (wps_AccountID state)"

definition wallet_old_values :: "WalletPaymentState \<Rightarrow> json" where
  "wallet_old_values state =
     [(''payment_status'', JStr ''PENDING''), (''rental_status'', JStr ''WAITING_PAYMENT''),
      (''account_status'', JStr ''RESERVED''), (''payment_provider'', JStr (wps_Provider state))]"

definition wallet_new_values :: json where
  "wallet_new_values =
     [(''payment_status'', JStr ''SUCCESS''), (''rental_status'', JStr ''ACTIVE''),
      (''account_status'', JStr ''RENTED''), (''payment_provider'', JStr walletPaymentProvider)]"

definition wallet_trail :: "(string \<Rightarrow> bool) \<Rightarrow> WalletPaymentState \<Rightarrow> string \<Rightarrow> string \<Rightarrow> (db, unit) tx" where
  "wallet_trail inet state clientIP userAgent =
     tx_seq (wrapf ''log wallet security event''
       (LogWalletSecurityEvent inet (wps_UserID state) (wps_AccountID state) (wps_RentalID state) clientIP userAgent
          (wallet_event_metadata state)))
     (wrapf ''insert wallet audit log''
       (InsertAuditLog (wps_UserID state) ''payment'' (wps_PaymentID state) ''wallet_payment_success''
          (wallet_old_values state) wallet_new_values))"

definition wallet_result :: "WalletPaymentState \<Rightarrow> WalletPaymentResult" where
  "wallet_result state =
     \<lparr>wpr_Changed = False, wpr_Idempotent = False, wpr_PaymentID = wps_PaymentID state,
      wpr_RentalID = wps_RentalID state, wpr_AccountID = wps_AccountID state,
      wpr_PaymentStatus = wps_PaymentStatus state, wpr_RentalStatus = wps_RentalStatus state,
      wpr_AccountStatus = wps_AccountStatus state, wpr_PaymentProvider = wps_Provider state\<rparr>"

definition wallet_not_allowed :: err where
  "wallet_not_allowed = Wrapf ''payment, rental, account'' (PaymentErr ErrWalletPaymentNotAllowed)"

definition wallet_pay :: "(string \<Rightarrow> bool) \<Rightarrow> WalletPaymentState \<Rightarrow> string \<Rightarrow> string \<Rightarrow> time \<Rightarrow> (db, WalletPaymentResult) tx" where
  "wallet_pay inet state clientIP userAgent now =
     (let totalAmount = i64 (wps_RentalPrice state + wps_DepositAmount state)
      in tx_seq (fail_if (wps_UserBalance state < totalAmount) (PaymentErr ErrWalletInsufficientBalance))
        (tx_seq (wallet_status_changes state totalAmount now)
        (tx_seq (wallet_financial_records state totalAmount now)
        (tx_seq (wallet_trail inet state clientIP userAgent)
        (tx_return ((wallet_result state)
           \<lparr>wpr_Changed := True, wpr_PaymentStatus := 2, wpr_RentalStatus := 2, wpr_AccountStatus := 4,
            wpr_PaymentProvider := walletPaymentProvider\<rparr>))))))"

definition PayRentalWithBalance_body ::
  "(string \<Rightarrow> bool) \<Rightarrow> int \<Rightarrow> int \<Rightarrow> string \<Rightarrow> string \<Rightarrow> time \<Rightarrow> (db, WalletPaymentResult) tx" where
  "PayRentalWithBalance_body inet userID rentalID clientIP userAgent now =
     tx_bind (wrap_unless (PaymentErr ErrWalletPaymentNotFound) ''lock wallet payment state''
                (LockWalletPaymentState rentalID userID)) (\<lambda>state.
     if wps_PaymentStatus state = 2
     then tx_seq (fail_if (wps_RentalStatus state \<noteq> 2 \<or> wps_AccountStatus state \<noteq> 4) wallet_not_allowed)
            (tx_return ((wallet_result state)\<lparr>wpr_Idempotent := True\<rparr>))
     else tx_seq (fail_if (wps_PaymentStatus state \<noteq> 1 \<or> wps_RentalStatus state \<noteq> 1 \<or> wps_AccountStatus state \<noteq> 3)
                    wallet_not_allowed)
         (tx_seq (fail_if (\<not> now < wps_PaymentExpiresAt state) (PaymentErr ErrWalletPaymentExpired))
           (wallet_pay inet state clientIP userAgent now)))"

definition PayRentalWithBalance ::
  "(string \<Rightarrow> bool) \<Rightarrow> int \<Rightarrow> int \<Rightarrow> string \<Rightarrow> string \<Rightarrow> time \<Rightarrow> db \<Rightarrow> (err + WalletPaymentResult) \<times> db" where
  "PayRentalWithBalance inet userID rentalID clientIP userAgent now s =
     (case WithinTransaction (PayRentalWithBalance_body inet userID rentalID clientIP userAgent now) s of
        (Inl e, t) \<Rightarrow> (Inl e, t)
      | (Inr result, t) \<Rightarrow>
          (Inr (if wpr_Idempotent result
                then result\<lparr>wpr_PaymentStatus := 2, wpr_RentalStatus := 2, wpr_AccountStatus := 4\<rparr>
                else result), t))"

lemma wallet_entry_simps [simp]:
  "fle_UserID (wallet_debit_entry st n now) = wps_UserID st" "fle_RentalID (wallet_debit_entry st n now) = wps_RentalID st"
  "fle_Amount (wallet_debit_entry st n now) = n" "fle_Currency (wallet_debit_entry st n now) = wps_Currency st"
  "fle_IdempotencyKey (wallet_debit_entry st n now) = balance_debit_key (wps_RentalID st)"
  "fle_UserID (wallet_deposit_entry st now) = wps_UserID st" "fle_RentalID (wallet_deposit_entry st now) = wps_RentalID st"
  "fle_Amount (wallet_deposit_entry st now) = wps_DepositAmount st" "fle_Currency (wallet_deposit_entry st now) = wps_Currency st"
  "fle_IdempotencyKey (wallet_deposit_entry st now) = deposit_hold_key (wps_RentalID st)"
  "dh_UserID (wallet_deposit_hold st now) = wps_UserID st" "dh_RentalID (wallet_deposit_hold st now) = wps_RentalID st"
  "dh_PaymentID (wallet_deposit_hold st now) = wps_PaymentID st" "dh_Amount (wallet_deposit_hold st now) = wps_DepositAmount st"
  "dh_Currency (wallet_deposit_hold st now) = wps_Currency st" "dh_HeldAt (wallet_deposit_hold st now) = now"
  "dh_IdempotencyKey (wallet_deposit_hold st now) = deposit_hold_key (wps_RentalID st)"
  by (simp_all add: wallet_debit_entry_def wallet_deposit_entry_def wallet_deposit_hold_def)

section \<open>What a successful payment has done\<close>

lemma LockWalletPaymentState_ok:
  "LockWalletPaymentState rid uid s = Inr (st, t) \<Longrightarrow>
   t = s \<and> (\<exists>r\<in>set (rentals s). \<exists>a\<in>set (accounts s). \<exists>u\<in>set (users s). \<exists>p\<in>set (payments s).
     st = wallet_state p r a u \<and> r_id r = rid \<and> r_user r = uid \<and> a_id a = r_account r \<and> u_id u = uid \<and>
     p_rental p = rid \<and> p_user p = uid)"
  by (auto simp: LockWalletPaymentState_def no_rows_as_ok dest!: query_row_set split: if_splits) blast

lemma wallet_status_changes_ok:
  "wallet_status_changes st tot now s = Inr ((), t) \<Longrightarrow>
   t = s\<lparr>users := upd (\<lambda>u. u_id u = wps_UserID st \<and> tot \<le> u_balance u)
                  (\<lambda>u. u\<lparr>u_balance := u_balance u - tot, u_updated := pg_ts now\<rparr>) (users s),
       payments := upd (\<lambda>p. p_id p = wps_PaymentID st \<and> p_status p = 1)
                  (\<lambda>p. p\<lparr>p_status := 2, p_provider := walletPaymentProvider, p_external := None,
                        p_processed := Some (pg_ts now)\<rparr>) (payments s),
       rentals := upd (\<lambda>r. r_id r = wps_RentalID st \<and> r_status r = 1 \<and> clock s < r_payment_expires r)
                  (\<lambda>r. r\<lparr>r_status := 2, r_updated := pg_ts now\<rparr>) (rentals s),
       accounts := upd (\<lambda>a. a_id a = wps_AccountID st \<and> a_status a = 3)
                  (\<lambda>a. a\<lparr>a_status := 4, a_updated := pg_ts now\<rparr>) (accounts s)\<rparr> \<and>
   (\<exists>u\<in>set (users s). u_id u = wps_UserID st \<and> tot \<le> u_balance u) \<and>
   (\<exists>p\<in>set (payments s). p_id p = wps_PaymentID st \<and> p_status p = 1) \<and>
   (\<exists>r\<in>set (rentals s). r_id r = wps_RentalID st \<and> r_status r = 1 \<and> clock s < r_payment_expires r) \<and>
   (\<exists>a\<in>set (accounts s). a_id a = wps_AccountID st \<and> a_status a = 3)"
  by (clarsimp simp: wallet_status_changes_def tx_inv Let_def)

lemma wallet_trail_ok:
  "wallet_trail inet st ip agent s = Inr ((), t) \<Longrightarrow>
   t = s\<lparr>events := events s @ [last (events t)], audits := audits s @ [last (audits t)], sequences := sequences t\<rparr> \<and>
   e_type (last (events t)) = 13 \<and> e_user (last (events t)) = Some (wps_UserID st) \<and>
   e_account (last (events t)) = Some (wps_AccountID st) \<and> e_rental (last (events t)) = Some (wps_RentalID st) \<and>
   e_ip (last (events t)) = ip_param ip \<and> (\<forall>v. ip_param ip = Some v \<longrightarrow> inet v) \<and>
   g_actor (last (audits t)) = Some (wps_UserID st) \<and> g_action (last (audits t)) = ''wallet_payment_success'' \<and>
   g_entity_id (last (audits t)) = wps_PaymentID st"
  by (auto simp: wallet_trail_def event_loggers tx_inv Let_def bump_def)

lemma wallet_financial_records_ok:
  "wallet_financial_records st tot now s = Inr ((), t) \<Longrightarrow>
   (let row = (\<lambda>i ty e. ledger_entry_row ty e (sequences s Ledger + i) (clock s));
        debit = row 0 5 (wallet_debit_entry st tot now);
        held = row 1 2 (wallet_deposit_entry st now);
        hold = held_deposit_row (wallet_deposit_hold st now) (sequences s Holds)
    in checks ledger_schema debit = None \<and>
       t = s\<lparr>ledger := ledger s @ debit # (if 0 < wps_DepositAmount st then [held] else []),
             holds := holds s @ (if 0 < wps_DepositAmount st \<and> d_key hold \<notin> d_key ` set (holds s) then [hold] else []),
             sequences := sequences t\<rparr>)"
  by (auto simp: wallet_financial_records_def ledger_recorders tx_inv Let_def bump_def image_iff
       dest: insert_fresh insert_ok_checks split: if_splits)

lemma PayRentalWithBalance_ok:
  "PayRentalWithBalance inet uid rid ip agent now s = (Inr res, t) \<longleftrightarrow>
   (\<exists>res0. PayRentalWithBalance_body inet uid rid ip agent now s = Inr (res0, t) \<and>
      res = (if wpr_Idempotent res0 then res0\<lparr>wpr_PaymentStatus := 2, wpr_RentalStatus := 2, wpr_AccountStatus := 4\<rparr>
             else res0))"
  by (auto simp: PayRentalWithBalance_def WithinTransaction_def split: sum.splits prod.splits)

text \<open>
  The abstract effect of a payment of \<open>amount\<close> by user \<open>u\<close> for rental \<open>r\<close>: the new
  ledger entries, holds, event and audit record are parameters.
\<close>

definition wallet_paid_db ::
  "user_row \<Rightarrow> rental_row \<Rightarrow> payment_row \<Rightarrow> account_row \<Rightarrow> int \<Rightarrow> ledger_row list \<Rightarrow> hold_row list \<Rightarrow>
   event_row \<Rightarrow> audit_row \<Rightarrow> (tbl \<Rightarrow> int) \<Rightarrow> time \<Rightarrow> db \<Rightarrow> db" where
  "wallet_paid_db u r p a amount ls ds e g q now s = s
     \<lparr>users := set_row u_id (u\<lparr>u_balance := u_balance u - amount, u_updated := pg_ts now\<rparr>) (users s),
      payments := set_row p_id (p\<lparr>p_status := 2, p_provider := ''balance'', p_external := None,
                    p_processed := Some (pg_ts now)\<rparr>) (payments s),
      rentals := set_row r_id (r\<lparr>r_status := 2, r_updated := pg_ts now\<rparr>) (rentals s),
      accounts := set_row a_id (a\<lparr>a_status := 4, a_updated := pg_ts now\<rparr>) (accounts s),
      ledger := ledger s @ ls, holds := holds s @ ds, events := events s @ [e], audits := audits s @ [g],
      sequences := q\<rparr>"

definition wallet_ledger :: "int \<Rightarrow> rental_row \<Rightarrow> int \<Rightarrow> ledger_row list \<Rightarrow> bool" where
  "wallet_ledger uid r amount ls \<longleftrightarrow>
     map (\<lambda>l. (l_type l, l_user l, l_rental l, l_amount l, l_key l)) ls =
       (5, Some uid, Some (r_id r), amount, balance_debit_key (r_id r)) #
       (if 0 < r_deposit r then [(2, Some uid, Some (r_id r), r_deposit r, deposit_hold_key (r_id r))] else [])"

definition wallet_holds :: "int \<Rightarrow> rental_row \<Rightarrow> payment_row \<Rightarrow> hold_row list \<Rightarrow> hold_row list \<Rightarrow> bool" where
  "wallet_holds uid r p before ds \<longleftrightarrow>
     map (\<lambda>d. (d_rental d, d_user d, d_payment d, d_amount d, d_currency d, d_status d, d_key d)) ds =
       (if 0 < r_deposit r \<and> deposit_hold_key (r_id r) \<notin> d_key ` set before
        then [(r_id r, uid, Some (p_id p), r_deposit r, p_currency p, 1, deposit_hold_key (r_id r))] else [])"

lemma wallet_paid:
  assumes valid: "valid_db s"
    and run: "PayRentalWithBalance inet uid rid ip agent now s = (Inr res, t)" "wpr_Changed res"
  obtains u r p a ls ds e g q where
    "u \<in> set (users s)" "r \<in> set (rentals s)" "p \<in> set (payments s)" "a \<in> set (accounts s)"
    "u_id u = uid" "r_id r = rid" "r_user r = uid" "p_rental p = rid" "p_user p = uid" "a_id a = r_account r"
    "r_status r = 1" "p_status p = 1" "a_status a = 3" "now < r_payment_expires r" "clock s < r_payment_expires r"
    "r_price r + r_deposit r \<le> u_balance u"
    "t = wallet_paid_db u r p a (r_price r + r_deposit r) ls ds e g q now s"
    "wallet_ledger uid r (r_price r + r_deposit r) ls" "wallet_holds uid r p (holds s) ds"
    "e_type e = 13" "e_user e = Some uid" "g_actor g = Some uid"
    "res = \<lparr>wpr_Changed = True, wpr_Idempotent = False, wpr_PaymentID = p_id p, wpr_RentalID = rid,
       wpr_AccountID = a_id a, wpr_PaymentStatus = 2, wpr_RentalStatus = 2, wpr_AccountStatus = 4,
       wpr_PaymentProvider = ''balance''\<rparr>"
proof -
  obtain res0 where body: "PayRentalWithBalance_body inet uid rid ip agent now s = Inr (res0, t)"
    and res: "res = (if wpr_Idempotent res0 then res0\<lparr>wpr_PaymentStatus := 2, wpr_RentalStatus := 2,
      wpr_AccountStatus := 4\<rparr> else res0)"
    using PayRentalWithBalance_ok [THEN iffD1, OF run(1)] by blast
  have changed: "wpr_Changed res0"
    using run(2) res by (simp split: if_splits)
  from body obtain st where lock: "LockWalletPaymentState rid uid s = Inr (st, s)"
    and guards: "wps_PaymentStatus st = 1" "wps_RentalStatus st = 1" "wps_AccountStatus st = 3" "now < wps_PaymentExpiresAt st"
    and pay: "wallet_pay inet st ip agent now s = Inr (res0, t)"
    using changed LockWalletPaymentState_ok
    by (fastforce simp: PayRentalWithBalance_body_def tx_inv wallet_result_def)
  obtain r a u p where rows: "r \<in> set (rentals s)" "a \<in> set (accounts s)" "u \<in> set (users s)" "p \<in> set (payments s)"
    and ids: "r_id r = rid" "r_user r = uid" "a_id a = r_account r" "u_id u = uid" "p_rental p = rid" "p_user p = uid"
    and st: "st = wallet_state p r a u"
    using LockWalletPaymentState_ok [OF lock] by blast
  let ?st = "wallet_state p r a u"
  define amt where "amt = i64 (r_price r + r_deposit r)"
  obtain s1 s2 where c1: "wallet_status_changes ?st amt now s = Inr ((), s1)"
    and c2: "wallet_financial_records ?st amt now s1 = Inr ((), s2)"
    and c3: "wallet_trail inet ?st ip agent s2 = Inr ((), t)"
    and res0: "res0 = (wallet_result ?st)\<lparr>wpr_Changed := True, wpr_PaymentStatus := 2, wpr_RentalStatus := 2,
      wpr_AccountStatus := 4, wpr_PaymentProvider := ''balance''\<rparr>"
    using pay by (auto simp: wallet_pay_def tx_inv Let_def amt_def st)
  note f1 = wallet_status_changes_ok [OF c1]
    and f2 = wallet_financial_records_ok [OF c2, unfolded Let_def]
    and f3 = wallet_trail_ok [OF c3]
  have "0 < amt"
    using f2 by (simp add: ledger_checks)
  then have amt: "amt = r_price r + r_deposit r"
    using valid_db_checks(3) [OF valid rows(1)] positive_sum_no_wrap [of "r_price r" "r_deposit r"]
    by (simp add: rental_checks amt_def)
  note keys = valid_db_keys [OF valid]
  obtain u' r' where "u' \<in> set (users s)" "u_id u' = u_id u" "amt \<le> u_balance u'"
    "r' \<in> set (rentals s)" "r_id r' = r_id r" "clock s < r_payment_expires r'"
    using f1 [THEN conjunct2] ids by (auto)
  then have "amt \<le> u_balance u" "clock s < r_payment_expires r"
    using key_inj [OF keys(1) _ rows(3)] key_inj [OF keys(3) _ rows(1)] by metis+
  moreover have "p_status p = 1" "r_status r = 1" "a_status a = 3" "now < r_payment_expires r"
    using guards by (simp_all add: st)
  ultimately have one: "amt \<le> u_balance u" "clock s < r_payment_expires r"
    "p_status p = 1" "r_status r = 1" "a_status a = 3" "now < r_payment_expires r" by auto
  have s1: "s1 = s\<lparr>users := set_row u_id (u\<lparr>u_balance := u_balance u - amt, u_updated := pg_ts now\<rparr>) (users s),
       payments := set_row p_id (p\<lparr>p_status := 2, p_provider := ''balance'', p_external := None,
                      p_processed := Some (pg_ts now)\<rparr>) (payments s),
       rentals := set_row r_id (r\<lparr>r_status := 2, r_updated := pg_ts now\<rparr>) (rentals s),
       accounts := set_row a_id (a\<lparr>a_status := 4, a_updated := pg_ts now\<rparr>) (accounts s)\<rparr>"
    unfolding f1 [THEN conjunct1] using one ids
    by (intro db.equality; simp)
      ((rule upd_set_row [OF keys(1) rows(3)] upd_set_row [OF keys(4) rows(4)]
          upd_set_row [OF keys(3) rows(1)] upd_set_row [OF keys(2) rows(2)]; simp)+)
  obtain e g q where t: "t = s2\<lparr>events := events s2 @ [e], audits := audits s2 @ [g], sequences := q\<rparr>"
    and eg: "e_type e = 13" "e_user e = Some uid" "g_actor g = Some uid"
    using f3 ids by auto
  define q' where "q' = sequences s2"
  have s2: "s2 = s1\<lparr>ledger := ledger s1 @
        ledger_entry_row 5 (wallet_debit_entry ?st amt now) (sequences s1 Ledger) (clock s1) #
        (if 0 < r_deposit r then [ledger_entry_row 2 (wallet_deposit_entry ?st now) (sequences s1 Ledger + 1) (clock s1)] else []),
      holds := holds s1 @ (if 0 < r_deposit r \<and>
          deposit_hold_key rid \<notin> d_key ` set (holds s1)
        then [held_deposit_row (wallet_deposit_hold ?st now) (sequences s1 Holds)] else []), sequences := q'\<rparr>"
    using f2 ids by (simp add: q'_def)
  have res': "res = \<lparr>wpr_Changed = True, wpr_Idempotent = False, wpr_PaymentID = p_id p, wpr_RentalID = rid,
      wpr_AccountID = a_id a, wpr_PaymentStatus = 2, wpr_RentalStatus = 2, wpr_AccountStatus = 4,
      wpr_PaymentProvider = ''balance''\<rparr>"
    using res res0 ids by (simp add: wallet_result_def)
  show thesis
    by (rule that [OF rows(3,1,4,2) ids(4,1,2,5,6,3) one(4,3,5,6,2)])
      (use one(1) amt eg res' in
        \<open>auto simp: t s2 s1 ids wallet_paid_db_def wallet_ledger_def wallet_holds_def\<close>)
qed

lemma LockWalletPaymentState_find:
  assumes valid: "valid_db s"
    and rows: "r \<in> set (rentals s)" "a \<in> set (accounts s)" "u \<in> set (users s)" "p \<in> set (payments s)"
    and ids: "r_id r = rid" "r_user r = uid" "a_id a = r_account r" "u_id u = uid" "p_rental p = rid" "p_user p = uid"
  shows "LockWalletPaymentState rid uid s = Inr (wallet_state p r a u, s)"
proof -
  note keys = valid_db_keys [OF valid]
  let ?q = "\<lambda>s. [wallet_state p r a u.
          r \<leftarrow> rentals s, r_id r = rid \<and> r_user r = uid,
          a \<leftarrow> accounts s, a_id a = r_account r,
          u \<leftarrow> users s, u_id u = r_user r,
          p \<leftarrow> payments s, p_rental p = r_id r \<and> p_user p = r_user r]"
  have "query_row ?q s = Inr (wallet_state p r a u, s)"
  proof (rule query_row_unique)
    show "wallet_state p r a u \<in> set (?q s)"
      using rows ids by fastforce
    fix y
    assume "y \<in> set (?q s)"
    then obtain r' a' u' p' where y: "y = wallet_state p' r' a' u'"
      and rows': "r' \<in> set (rentals s)" "a' \<in> set (accounts s)" "u' \<in> set (users s)" "p' \<in> set (payments s)"
      and ids': "r_id r' = r_id r" "a_id a' = r_account r'" "u_id u' = u_id u" "p_rental p' = p_rental p"
      using ids by (auto split: if_splits)
    have "r' = r" using key_inj [OF keys(3) rows'(1) rows(1) ids'(1)] .
    moreover have "u' = u" using key_inj [OF keys(1) rows'(3) rows(3) ids'(3)] .
    moreover have "p' = p" using key_inj [OF keys(5) rows'(4) rows(4) ids'(4)] .
    moreover have "a' = a" using key_inj [OF keys(2) rows'(2) rows(2)] ids'(2) ids(3) \<open>r' = r\<close> by simp
    ultimately show "y = wallet_state p r a u" using y by simp
  qed
  then show ?thesis
    unfolding LockWalletPaymentState_def no_rows_as_ok .
qed

lemma PayRentalWithBalance_found:
  assumes "valid_db s"
    and "r \<in> set (rentals s)" "a \<in> set (accounts s)" "u \<in> set (users s)" "p \<in> set (payments s)"
    and "r_id r = rid" "r_user r = uid" "a_id a = r_account r" "u_id u = uid" "p_rental p = rid" "p_user p = uid"
  shows "PayRentalWithBalance_body inet uid rid ip agent now s =
     (if p_status p = 2
      then if r_status r \<noteq> 2 \<or> a_status a \<noteq> 4 then Inl wallet_not_allowed
           else Inr ((wallet_result (wallet_state p r a u))\<lparr>wpr_Idempotent := True\<rparr>, s)
      else if p_status p \<noteq> 1 \<or> r_status r \<noteq> 1 \<or> a_status a \<noteq> 3 then Inl wallet_not_allowed
      else if \<not> now < r_payment_expires r then Inl (PaymentErr ErrWalletPaymentExpired)
      else wallet_pay inet (wallet_state p r a u) ip agent now s)"
  using LockWalletPaymentState_find [OF assms]
  by (simp add: PayRentalWithBalance_body_def tx_bind_step wrap_unless_step tx_seq_def tx_bind_def tx_return_def fail_if_def)

section \<open>Properties\<close>

text \<open>
  C1: A payment from the balance that reports a change has debited exactly the
  price and the deposit (no wrap-around) from a sufficient balance, moved the
  payment to success, the waiting rental to active and the reserved account to
  rented while the reservation had not expired, appended the debit and (for a
  positive deposit) the held-deposit entry to the ledger together with the hold,
  one security event and one audit record, and touched nothing else.
\<close>

theorem wallet_payment_effect:
  assumes "valid_db s"
    and "PayRentalWithBalance inet uid rid ip agent now s = (Inr res, t)" "wpr_Changed res"
  shows "\<exists>u\<in>set (users s). \<exists>r\<in>set (rentals s). \<exists>p\<in>set (payments s). \<exists>a\<in>set (accounts s). \<exists>ls ds e g q.
     u_id u = uid \<and> r_id r = rid \<and> r_user r = uid \<and> p_rental p = rid \<and> p_user p = uid \<and> a_id a = r_account r \<and>
     r_status r = 1 \<and> p_status p = 1 \<and> a_status a = 3 \<and>
     now < r_payment_expires r \<and> clock s < r_payment_expires r \<and> r_price r + r_deposit r \<le> u_balance u \<and>
     t = wallet_paid_db u r p a (r_price r + r_deposit r) ls ds e g q now s \<and>
     wallet_ledger uid r (r_price r + r_deposit r) ls \<and> wallet_holds uid r p (holds s) ds \<and>
     e_type e = 13 \<and> e_user e = Some uid \<and> g_actor g = Some uid"
  using wallet_paid [OF assms] by metis

lemma wallet_payment_effect_witness:
  "\<exists>res t. PayRentalWithBalance (\<lambda>_. True) 2 7 [] [] Minute waiting_db = (Inr res, t) \<and> wpr_Changed res \<and>
     (\<exists>r\<in>set (rentals waiting_db). r_id r = 7 \<and> r_status r = 1 \<and> clock waiting_db < r_payment_expires r)"
proof -
  have "valid_db waiting_db" by code_simp
  moreover have "ok_with wpr_Changed (PayRentalWithBalance (\<lambda>_. True) 2 7 [] [] Minute waiting_db)" by code_simp
  then obtain res t where run: "PayRentalWithBalance (\<lambda>_. True) 2 7 [] [] Minute waiting_db = (Inr res, t)"
    and changed: "wpr_Changed res"
    by (auto dest: ok_withD)
  ultimately show ?thesis
    using wallet_payment_effect [OF _ run changed] run changed by (auto simp: Let_def)
qed

lemmas wallet_defs = PayRentalWithBalance_body_def wallet_pay_def wallet_status_changes_def
  wallet_financial_records_def wallet_trail_def ledger_recorders event_loggers payment_statements payment_reads

lemma wallet_valid [closed_intros]: "valid.closed (PayRentalWithBalance_body inet uid rid ip agent now)"
  unfolding wallet_defs by (intro closed_intros)

lemma wallet_evolves [closed_intros]: "evolution.closed (PayRentalWithBalance_body inet uid rid ip agent now)"
  unfolding wallet_defs by (intro closed_intros) (auto simp: row_nexts)

lemma PayRentalWithBalance_run:
  "PayRentalWithBalance inet uid rid ip agent now s =
     (case PayRentalWithBalance_body inet uid rid ip agent now s of
        Inl e \<Rightarrow> (Inl e, s)
      | Inr (result, t) \<Rightarrow>
          (Inr (if wpr_Idempotent result
                then result\<lparr>wpr_PaymentStatus := 2, wpr_RentalStatus := 2, wpr_AccountStatus := 4\<rparr>
                else result), t))"
  by (simp add: PayRentalWithBalance_def WithinTransaction_def split: sum.split prod.split)

text \<open>
  C2: Paying twice is paying once: after a balance payment that reported a change,
  every further call for the same rental, at any time and from any client, answers
  with success, says that it is a replay, and leaves the database as it is.
\<close>

theorem wallet_payment_replay:
  assumes valid: "valid_db s"
    and run: "PayRentalWithBalance inet uid rid ip agent now s = (Inr res, t)" "wpr_Changed res"
  shows "PayRentalWithBalance inet' uid rid ip' agent' now' t = (Inr (res\<lparr>wpr_Changed := False, wpr_Idempotent := True\<rparr>), t)"
proof -
  obtain u r p a ls ds e g q where rows: "u \<in> set (users s)" "r \<in> set (rentals s)" "p \<in> set (payments s)" "a \<in> set (accounts s)"
    and ids: "u_id u = uid" "r_id r = rid" "r_user r = uid" "p_rental p = rid" "p_user p = uid" "a_id a = r_account r"
    and t: "t = wallet_paid_db u r p a (r_price r + r_deposit r) ls ds e g q now s"
    and res: "res = \<lparr>wpr_Changed = True, wpr_Idempotent = False, wpr_PaymentID = p_id p, wpr_RentalID = rid,
       wpr_AccountID = a_id a, wpr_PaymentStatus = 2, wpr_RentalStatus = 2, wpr_AccountStatus = 4,
       wpr_PaymentProvider = ''balance''\<rparr>"
    by (rule wallet_paid [OF assms]) blast
  have "valid_db t"
    using valid run(1) valid.closedD [OF wallet_valid] by (auto simp: PayRentalWithBalance_ok keeps_valid_def)
  moreover have "u\<lparr>u_balance := u_balance u - (r_price r + r_deposit r), u_updated := pg_ts now\<rparr> \<in> set (users t)"
    "r\<lparr>r_status := 2, r_updated := pg_ts now\<rparr> \<in> set (rentals t)"
    "a\<lparr>a_status := 4, a_updated := pg_ts now\<rparr> \<in> set (accounts t)"
    "p\<lparr>p_status := 2, p_provider := ''balance'', p_external := None, p_processed := Some (pg_ts now)\<rparr> \<in> set (payments t)"
    by (simp_all add: t wallet_paid_db_def in_set_row [OF rows(1)] in_set_row [OF rows(2)] in_set_row [OF rows(3)]
        in_set_row [OF rows(4)])
  ultimately show ?thesis
    using ids PayRentalWithBalance_found [of t _ _ _ _ rid uid inet' ip' agent' now']
    by (simp add: PayRentalWithBalance_run wallet_result_def res)
qed

lemma wallet_payment_replay_witness:
  "\<exists>res t. PayRentalWithBalance (\<lambda>_. True) 2 7 [] [] Minute waiting_db = (Inr res, t) \<and> wpr_Changed res \<and>
     PayRentalWithBalance (\<lambda>_. False) 2 7 ''x'' [] (9 * Hour) t = (Inr (res\<lparr>wpr_Changed := False, wpr_Idempotent := True\<rparr>), t)"
proof -
  have "valid_db waiting_db" by code_simp
  moreover have "ok_with wpr_Changed (PayRentalWithBalance (\<lambda>_. True) 2 7 [] [] Minute waiting_db)" by code_simp
  then obtain res t where "PayRentalWithBalance (\<lambda>_. True) 2 7 [] [] Minute waiting_db = (Inr res, t)" "wpr_Changed res"
    by (auto dest: ok_withD)
  ultimately show ?thesis
    using wallet_payment_replay by blast
qed

lemma wallet_pay_overdraft:
  assumes "valid_db s"
    and "r \<in> set (rentals s)" "a \<in> set (accounts s)" "u \<in> set (users s)" "p \<in> set (payments s)"
    and "r_id r = rid" "r_user r = uid" "a_id a = r_account r" "u_id u = uid" "p_rental p = rid" "p_user p = uid"
    and "u_balance u < r_price r + r_deposit r" "PayRentalWithBalance inet uid rid ip agent now s = (Inr res, t)"
  shows "\<not> wpr_Changed res"
proof
  assume changed: "wpr_Changed res"
  note keys = valid_db_keys [OF assms(1)]
  show False
    using wallet_paid [OF assms(1) assms(13) changed] assms(2-12) key_inj [OF keys(1)] key_inj [OF keys(3)]
    by (metis not_le)
qed

text \<open>
  C3: A balance payment that is not payable is refused with the error of the first
  failing guard and changes nothing: a payment, rental or account in another
  state, a reservation that has expired, a balance below price plus deposit; and
  with such a balance the money never moves, even where the sum would overflow.
\<close>

theorem wallet_payment_rejected:
  assumes "valid_db s"
    and "r \<in> set (rentals s)" "a \<in> set (accounts s)" "u \<in> set (users s)" "p \<in> set (payments s)"
    and "r_id r = rid" "r_user r = uid" "a_id a = r_account r" "u_id u = uid" "p_rental p = rid" "p_user p = uid"
  shows "let run = PayRentalWithBalance inet uid rid ip agent now s; payable = (p_status p = 1 \<and> r_status r = 1 \<and> a_status a = 3)
    in (\<not> payable \<and> \<not> (p_status p = 2 \<and> r_status r = 2 \<and> a_status a = 4) \<longrightarrow> run = (Inl wallet_not_allowed, s)) \<and>
       (payable \<and> r_payment_expires r \<le> now \<longrightarrow> run = (Inl (PaymentErr ErrWalletPaymentExpired), s)) \<and>
       (payable \<and> now < r_payment_expires r \<and> u_balance u < r_price r + r_deposit r \<and> is_i64 (r_price r + r_deposit r)
         \<longrightarrow> run = (Inl (PaymentErr ErrWalletInsufficientBalance), s)) \<and>
       (u_balance u < r_price r + r_deposit r \<longrightarrow> snd run = s)"
proof -
  note found = PayRentalWithBalance_found [OF assms, of inet ip agent now]
  have "snd (PayRentalWithBalance inet uid rid ip agent now s) = s" if low: "u_balance u < r_price r + r_deposit r"
  proof (cases "PayRentalWithBalance_body inet uid rid ip agent now s")
    case (Inl e)
    then show ?thesis by (simp add: PayRentalWithBalance_run)
  next
    case (Inr xt)
    then obtain x t where x: "PayRentalWithBalance_body inet uid rid ip agent now s = Inr (x, t)" by (cases xt) auto
    then have "\<not> wpr_Changed x"
      using wallet_pay_overdraft [OF assms low, of inet ip agent now _ t] x
      by (cases "wpr_Idempotent x") (simp_all add: PayRentalWithBalance_run)
    then have "t = s"
      using x found by (auto simp: wallet_pay_def tx_inv Let_def split: if_splits)
    with x show ?thesis by (simp add: PayRentalWithBalance_run)
  qed
  moreover have "wallet_pay inet (wallet_state p r a u) ip agent now s = Inl (PaymentErr ErrWalletInsufficientBalance)"
    if "u_balance u < r_price r + r_deposit r" "is_i64 (r_price r + r_deposit r)"
    using that by (simp add: wallet_pay_def tx_seq_stop Let_def)
  ultimately show ?thesis
    by (auto simp: Let_def PayRentalWithBalance_run found)
qed

lemma wallet_payment_rejected_witness:
  "snd (PayRentalWithBalance (\<lambda>_. True) 2 7 [] [] (16 * Minute) waiting_db) = waiting_db \<and>
   fst (PayRentalWithBalance (\<lambda>_. True) 2 7 [] [] (16 * Minute) waiting_db) = Inl (PaymentErr ErrWalletPaymentExpired)"
proof -
  have "valid_db waiting_db" by code_simp
  then show ?thesis
    using wallet_payment_rejected [of waiting_db rental7 account5 customer_row payment9 7 2 "\<lambda>_. True" "[]" "[]" "16 * Minute"]
    by (simp add: sample_defs Let_def)
qed

end
