(* ===== verification/Webhook.thy ===== *)
theory Webhook
  imports Wallet_Payment
begin

text \<open>
  The provider's payment webhook: \<open>ProcessWebhook\<close>, \<open>recordFinancialFacts\<close> and the
  validation of a request in src/internal/payment/service.go. The HMAC over the
  payload is a parameter; the check of the signature's form and of the secret are
  modelled. \<open>now\<close> is the reading of \<open>time.Now\<close> (the server's zone is UTC).
\<close>

section \<open>Requests\<close>

record WebhookRequest =
  req_PaymentID :: string
  req_RentalID :: string
  req_ExternalTransactionID :: string
  req_Provider :: string
  req_Amount :: int
  req_Currency :: string
  req_Status :: string

record WebhookResult =
  whr_PaymentID :: int
  whr_RentalID :: int
  whr_AccountID :: int
  whr_Processed :: bool
  whr_Idempotent :: bool

definition isSafeWebhookExternalTransactionID :: "string \<Rightarrow> bool" where
  "isSafeWebhookExternalTransactionID v =
     list_all (\<lambda>c. is_lower c \<or> is_upper c \<or> is_digit c \<or> c = CHR ''-'' \<or> c = CHR ''_'' \<or> c = CHR ''.'' \<or> c = CHR '':'') v"

definition validateWebhookRequest :: "WebhookRequest \<Rightarrow> err + (int \<times> int)" where
  "validateWebhookRequest req =
     (if req_PaymentID req = [] \<or> 19 < length (req_PaymentID req) \<or> req_RentalID req = [] \<or>
         19 < length (req_RentalID req) \<or> req_ExternalTransactionID req = [] \<or>
         128 < length (req_ExternalTransactionID req) \<or>
         \<not> isSafeWebhookExternalTransactionID (req_ExternalTransactionID req) \<or>
         req_Provider req \<noteq> webhookPaymentProvider \<or> req_Amount req \<le> 0 \<or> length (req_Currency req) \<noteq> 3 \<or>
         trim_space (req_Currency req) \<noteq> req_Currency req \<or> req_Status req = [] \<or>
         16 < length (req_Status req) \<or> trim_space (req_Status req) \<noteq> req_Status req
      then Inl (PaymentErr ErrWebhookInvalidPayload)
      else case parse_int (req_PaymentID req) of
             None \<Rightarrow> Inl (PaymentErr ErrWebhookInvalidPayload)
           | Some paymentID \<Rightarrow>
               if paymentID \<le> 0 then Inl (PaymentErr ErrWebhookInvalidPayload)
               else case parse_int (req_RentalID req) of
                      None \<Rightarrow> Inl (PaymentErr ErrWebhookInvalidPayload)
                    | Some rentalID \<Rightarrow>
                        if rentalID \<le> 0 then Inl (PaymentErr ErrWebhookInvalidPayload)
                        else Inr (paymentID, rentalID))"

section \<open>Loading the payment\<close>

definition loadWebhookStateByExternalTransaction :: "string \<Rightarrow> string \<Rightarrow> (db, WebhookPaymentState) tx" where
  "loadWebhookStateByExternalTransaction provider externalTransactionID =
     tx_bind (LockPaymentForWebhookByExternalTransaction provider externalTransactionID) (\<lambda>state.
     tx_seq (fail_if (hook_Provider state \<noteq> provider) (PaymentErr ErrPaymentNotFound)) (tx_return state))"

definition loadWebhookState :: "int \<Rightarrow> string \<Rightarrow> string \<Rightarrow> (db, WebhookPaymentState) tx" where
  "loadWebhookState paymentID provider externalTransactionID =
     tx_bind (tx_catch
        (tx_bind (loadWebhookStateByExternalTransaction provider externalTransactionID) (\<lambda>state. tx_return (Some state)))
        (\<lambda>e. if errors_is e (PaymentErr ErrPaymentNotFound) then tx_return None else tx_fail e)) (\<lambda>found.
     case found of
       Some state \<Rightarrow>
         tx_seq (fail_if (hook_PaymentID state \<noteq> paymentID) (PaymentErr ErrWebhookIdentifierMismatch)) (tx_return state)
     | None \<Rightarrow> LockPaymentForWebhookByID paymentID)"

section \<open>Financial facts\<close>

definition webhook_payment_key :: "string \<Rightarrow> string \<Rightarrow> string" where
  "webhook_payment_key provider externalTransactionID =
     ''payment:webhook:'' @ provider @ '':'' @ externalTransactionID"

definition webhook_payment_entry :: "WebhookPaymentState \<Rightarrow> string \<Rightarrow> time \<Rightarrow> FinancialLedgerEntry" where
  "webhook_payment_entry state ext now =
     \<lparr>fle_UserID = hook_UserID state, fle_RentalID = hook_RentalID state, fle_PaymentID = hook_PaymentID state,
      fle_AccountID = hook_AccountID state, fle_Amount = hook_Amount state, fle_Currency = hook_Currency state,
      fle_Provider = hook_Provider state, fle_ExternalTransactionID = ext,
      fle_IdempotencyKey = webhook_payment_key (hook_Provider state) ext,
      fle_CorrelationID = webhook_payment_key (hook_Provider state) ext,
      fle_Metadata = ids_metadata ''provider_payment_received'' (hook_PaymentID state) (hook_RentalID state) (hook_AccountID state)
        @ [(''rental_price'', JInt (hook_RentalPrice state)), (''deposit'', JInt (hook_DepositAmount state)),
           (''recorded_at'', JTime now)]\<rparr>"

definition webhook_deposit_hold :: "WebhookPaymentState \<Rightarrow> time \<Rightarrow> DepositHold" where
  "webhook_deposit_hold state now =
     \<lparr>dh_UserID = hook_UserID state, dh_RentalID = hook_RentalID state, dh_PaymentID = hook_PaymentID state,
      dh_Amount = hook_DepositAmount state, dh_Currency = hook_Currency state, dh_HeldAt = now,
      dh_IdempotencyKey = deposit_hold_key (hook_RentalID state)\<rparr>"

definition webhook_deposit_entry :: "WebhookPaymentState \<Rightarrow> string \<Rightarrow> time \<Rightarrow> FinancialLedgerEntry" where
  "webhook_deposit_entry state ext now =
     \<lparr>fle_UserID = hook_UserID state, fle_RentalID = hook_RentalID state, fle_PaymentID = hook_PaymentID state,
      fle_AccountID = hook_AccountID state, fle_Amount = hook_DepositAmount state, fle_Currency = hook_Currency state,
      fle_Provider = hook_Provider state, fle_ExternalTransactionID = ext,
      fle_IdempotencyKey = deposit_hold_key (hook_RentalID state),
      fle_CorrelationID = webhook_payment_key (hook_Provider state) ext,
      fle_Metadata = ids_metadata ''deposit_held'' (hook_PaymentID state) (hook_RentalID state) (hook_AccountID state)
        @ [(''recorded_at'', JTime now)]\<rparr>"

definition recordFinancialFacts :: "WebhookPaymentState \<Rightarrow> string \<Rightarrow> time \<Rightarrow> (db, unit) tx" where
  "recordFinancialFacts state ext now =
     tx_seq (wrapf ''insert provider payment ledger entry''
               (RecordProviderPaymentReceived (webhook_payment_entry state ext now)))
    (if hook_DepositAmount state \<le> 0 then tx_return ()
     else tx_seq (wrapf ''create deposit hold'' (CreateDepositHold (webhook_deposit_hold state now)))
                 (wrapf ''insert deposit hold ledger entry'' (RecordDepositHeld (webhook_deposit_entry state ext now))))"

section \<open>Processing\<close>

definition webhook_invalid_transition :: err where
  "webhook_invalid_transition = Wrapf ''payment, rental, account'' (PaymentErr ErrWebhookInvalidTransition)"

definition webhook_result :: "WebhookPaymentState \<Rightarrow> bool \<Rightarrow> WebhookResult" where
  "webhook_result state idempotent =
     \<lparr>whr_PaymentID = hook_PaymentID state, whr_RentalID = hook_RentalID state,
      whr_AccountID = hook_AccountID state, whr_Processed = True, whr_Idempotent = idempotent\<rparr>"

definition webhook_event_metadata :: "WebhookPaymentState \<Rightarrow> string \<Rightarrow> time \<Rightarrow> json" where
  "webhook_event_metadata state ext now =
     [(''payment_id'', JStr (format_int (hook_PaymentID state))), (''rental_id'', JStr (format_int (hook_RentalID state))),
      (''account_id'', JStr (format_int (hook_AccountID state))), (''amount'', JInt (hook_Amount state)),
      (''currency'', JStr (hook_Currency state)), (''activated_at'', JTime now), (''external_tx_id'', JStr ext)]"

text \<open>The payment has to carry exactly the facts of the request.\<close>

definition webhook_matches :: "WebhookRequest \<Rightarrow> int \<Rightarrow> int \<Rightarrow> WebhookPaymentState \<Rightarrow> (db, unit) tx" where
  "webhook_matches req paymentID rentalID state =
     tx_seq (fail_if (hook_PaymentID state \<noteq> paymentID \<or> hook_RentalID state \<noteq> rentalID)
               (PaymentErr ErrWebhookIdentifierMismatch))
    (tx_seq (fail_if (hook_Provider state \<noteq> webhookPaymentProvider \<or> hook_Provider state \<noteq> req_Provider req)
               (PaymentErr ErrWebhookProviderUnsupported))
    (tx_seq (fail_if (hook_Amount state \<noteq> req_Amount req \<or> hook_Currency state \<noteq> req_Currency req)
               (PaymentErr ErrWebhookFinancialMismatch))
            (fail_if (hook_RentalPrice state \<le> 0 \<or> hook_DepositAmount state < 0 \<or>
                MaxInt64 - hook_DepositAmount state < hook_RentalPrice state \<or>
                i64 (hook_RentalPrice state + hook_DepositAmount state) \<noteq> hook_Amount state)
               (PaymentErr ErrWebhookFinancialMismatch))))"

text \<open>The answer when another delivery has decided the payment between the lock and the update.\<close>

definition webhook_already_processed :: "WebhookRequest \<Rightarrow> WebhookPaymentState \<Rightarrow> (db, WebhookResult) tx" where
  "webhook_already_processed req state =
     tx_bind (loadWebhookStateByExternalTransaction (hook_Provider state) (req_ExternalTransactionID req)) (\<lambda>updated.
     tx_seq (fail_if (hook_PaymentID updated \<noteq> hook_PaymentID state \<or> hook_RentalID updated \<noteq> hook_RentalID state \<or>
         hook_Provider updated \<noteq> hook_Provider state \<or>
         hook_ExternalTransactionID updated \<noteq> req_ExternalTransactionID req \<or>
         hook_Amount updated \<noteq> hook_Amount state \<or> hook_Currency updated \<noteq> hook_Currency state)
       (PaymentErr ErrWebhookIdentifierMismatch))
    (tx_seq (fail_if (hook_Status updated \<noteq> 2 \<or> hook_RentalStatus updated \<noteq> 2 \<or> hook_AccountStatus updated \<noteq> 4)
       (PaymentErr ErrWebhookInvalidTransition))
    (tx_return (webhook_result updated True))))"

definition webhook_activate ::
  "(string \<Rightarrow> bool) \<Rightarrow> WebhookRequest \<Rightarrow> WebhookPaymentState \<Rightarrow> string \<Rightarrow> string \<Rightarrow> time \<Rightarrow> (db, WebhookResult) tx" where
  "webhook_activate inet req state clientIP userAgent now =
     tx_seq (wrapf ''activate rental'' (ActivateRentalForWebhook (hook_RentalID state) now))
    (tx_seq (wrapf ''mark account rented'' (MarkAccountRentedForWebhook (hook_AccountID state) now))
    (tx_seq (wrapf ''record financial facts'' (recordFinancialFacts state (req_ExternalTransactionID req) now))
    (tx_seq (wrapf ''failed to log security event''
       (LogSecurityEvent inet (hook_UserID state) (hook_AccountID state) (hook_RentalID state) clientIP userAgent
         (webhook_event_metadata state (req_ExternalTransactionID req) now)))
    (tx_return (webhook_result state False)))))"

definition webhook_pay ::
  "(string \<Rightarrow> bool) \<Rightarrow> WebhookRequest \<Rightarrow> WebhookPaymentState \<Rightarrow> string \<Rightarrow> string \<Rightarrow> time \<Rightarrow> (db, WebhookResult) tx" where
  "webhook_pay inet req state clientIP userAgent now =
     tx_bind (tx_catch
        (tx_seq (MarkPaymentSuccessful (hook_PaymentID state) (req_ExternalTransactionID req)) (tx_return None))
        (\<lambda>e. if errors_is e (PaymentErr ErrPaymentAlreadyProcessed)
              then tx_bind (webhook_already_processed req state) (\<lambda>result. tx_return (Some result))
              else tx_fail (Wrapf ''mark payment successful'' e))) (\<lambda>early.
     case early of
       Some result \<Rightarrow> tx_return result
     | None \<Rightarrow> webhook_activate inet req state clientIP userAgent now)"

definition ProcessWebhook_body ::
  "(string \<Rightarrow> bool) \<Rightarrow> WebhookRequest \<Rightarrow> int \<Rightarrow> int \<Rightarrow> string \<Rightarrow> string \<Rightarrow> time \<Rightarrow> (db, WebhookResult) tx" where
  "ProcessWebhook_body inet req paymentID rentalID clientIP userAgent now =
     tx_bind (loadWebhookState paymentID (req_Provider req) (req_ExternalTransactionID req)) (\<lambda>state.
     tx_seq (webhook_matches req paymentID rentalID state)
    (if hook_Status state = 2
     then tx_seq (fail_if (hook_ExternalTransactionID state \<noteq> req_ExternalTransactionID req)
                    (PaymentErr ErrWebhookExternalTxMismatch))
         (tx_seq (fail_if (hook_RentalStatus state \<noteq> 2 \<or> hook_AccountStatus state \<noteq> 4) webhook_invalid_transition)
           (tx_return (webhook_result state True)))
     else tx_seq (fail_if (hook_Status state \<noteq> 1) (PaymentErr ErrWebhookNotSuccessful))
         (tx_seq (fail_if (hook_RentalStatus state \<noteq> 1 \<or> hook_AccountStatus state \<noteq> 3) webhook_invalid_transition)
           (webhook_pay inet req state clientIP userAgent now))))"

definition ProcessWebhook ::
  "(string \<Rightarrow> bool) \<Rightarrow> WebhookRequest \<Rightarrow> string \<Rightarrow> string \<Rightarrow> time \<Rightarrow> db \<Rightarrow> (err + WebhookResult) \<times> db" where
  "ProcessWebhook inet req clientIP userAgent now s =
     (case validateWebhookRequest req of
        Inl e \<Rightarrow> (Inl e, s)
      | Inr (paymentID, rentalID) \<Rightarrow>
          if req_Status req \<noteq> ''success'' then (Inl (PaymentErr ErrWebhookNotSuccessful), s)
          else WithinTransaction (ProcessWebhook_body inet req paymentID rentalID clientIP userAgent now) s)"

section \<open>Locking reads\<close>

lemma LockPaymentForWebhookByID_ok:
  "LockPaymentForWebhookByID pid s = Inr (st, t) \<Longrightarrow>
   t = s \<and> (\<exists>p\<in>set (payments s). \<exists>r\<in>set (rentals s). \<exists>a\<in>set (accounts s).
     st = webhook_state p r a \<and> p_id p = pid \<and> r_id r = p_rental p \<and> a_id a = r_account r)"
  by (auto simp: LockPaymentForWebhookByID_def no_rows_as_ok dest!: query_row_set split: if_splits) blast

lemma LockPaymentForWebhookByExternalTransaction_ok:
  "LockPaymentForWebhookByExternalTransaction pr ext s = Inr (st, t) \<Longrightarrow>
   t = s \<and> (\<exists>p\<in>set (payments s). \<exists>r\<in>set (rentals s). \<exists>a\<in>set (accounts s).
     st = webhook_state p r a \<and> p_provider p = pr \<and> p_external p = Some ext \<and> r_id r = p_rental p \<and> a_id a = r_account r)"
  by (auto simp: LockPaymentForWebhookByExternalTransaction_def no_rows_as_ok dest!: query_row_set split: if_splits) blast

lemma loadWebhookStateByExternalTransaction_ok:
  "loadWebhookStateByExternalTransaction pr ext s = Inr (st, t) \<Longrightarrow>
   t = s \<and> (\<exists>p\<in>set (payments s). \<exists>r\<in>set (rentals s). \<exists>a\<in>set (accounts s).
     st = webhook_state p r a \<and> p_provider p = pr \<and> p_external p = Some ext \<and> r_id r = p_rental p \<and> a_id a = r_account r)"
  by (auto simp: loadWebhookStateByExternalTransaction_def tx_inv dest!: LockPaymentForWebhookByExternalTransaction_ok)

lemma loadWebhookState_ok:
  assumes "loadWebhookState pid pr ext s = Inr (st, t)"
  shows "t = s \<and> (\<exists>p\<in>set (payments s). \<exists>r\<in>set (rentals s). \<exists>a\<in>set (accounts s).
     st = webhook_state p r a \<and> p_id p = pid \<and> r_id r = p_rental p \<and> a_id a = r_account r)"
proof -
  obtain found t' where f: "tx_catch
        (tx_bind (loadWebhookStateByExternalTransaction pr ext) (\<lambda>state. tx_return (Some state)))
        (\<lambda>e. if errors_is e (PaymentErr ErrPaymentNotFound) then tx_return None else tx_fail e) s = Inr (found, t')"
    and rest: "(case found of
       Some state \<Rightarrow> tx_seq (fail_if (hook_PaymentID state \<noteq> pid) (PaymentErr ErrWebhookIdentifierMismatch)) (tx_return state)
     | None \<Rightarrow> LockPaymentForWebhookByID pid) t' = Inr (st, t)"
    using assms by (auto simp: loadWebhookState_def tx_bind_ok)
  show ?thesis
  proof (cases found)
    case None
    with f have "t' = s" by (auto simp: tx_catch_ok tx_inv split: if_splits)
    with rest None show ?thesis by (simp add: LockPaymentForWebhookByID_ok)
  next
    case (Some state)
    with f have "loadWebhookStateByExternalTransaction pr ext s = Inr (state, t')"
      by (auto simp: tx_catch_ok tx_inv split: if_splits)
    with rest Some show ?thesis
      using loadWebhookStateByExternalTransaction_ok by (fastforce simp: tx_inv)
  qed
qed

lemma webhook_query_find:
  assumes valid: "valid_db s"
    and rows: "p \<in> set (payments s)" "r \<in> set (rentals s)" "a \<in> set (accounts s)"
    and ids: "r_id r = p_rental p" "a_id a = r_account r"
    and P: "P p" "\<And>p'. p' \<in> set (payments s) \<Longrightarrow> P p' \<Longrightarrow> p' = p"
  shows "query_row (\<lambda>s. [webhook_state p r a.
          p \<leftarrow> payments s, P p,
          r \<leftarrow> rentals s, r_id r = p_rental p,
          a \<leftarrow> accounts s, a_id a = r_account r]) s = Inr (webhook_state p r a, s)"
proof (rule query_row_unique)
  let ?rows = "[webhook_state p r a. p \<leftarrow> payments s, P p, r \<leftarrow> rentals s, r_id r = p_rental p,
      a \<leftarrow> accounts s, a_id a = r_account r]"
  note keys = valid_db_keys [OF valid]
  show "webhook_state p r a \<in> set ?rows"
    using rows ids P(1) by (auto intro!: bexI [of _ p] bexI [of _ r] bexI [of _ a])
  fix y
  assume "y \<in> set ?rows"
  then obtain p' r' a' where y: "y = webhook_state p' r' a'" and p': "p' \<in> set (payments s)" "P p'"
    and rows': "r' \<in> set (rentals s)" "a' \<in> set (accounts s)" and ids': "r_id r' = p_rental p'" "a_id a' = r_account r'"
    by (auto split: if_splits)
  have "p' = p" using P(2) p' by blast
  moreover from this have "r' = r" using key_inj [OF keys(3) rows'(1) rows(2)] ids ids' by simp
  moreover from this have "a' = a" using key_inj [OF keys(2) rows'(2) rows(3)] ids ids' by simp
  ultimately show "y = webhook_state p r a" using y by simp
qed

lemma valid_pair:
  assumes "valid_table sc rows" "x \<in> set rows" "y \<in> set rows" "x \<noteq> y"
  shows "clash sc x y = None \<or> clash sc y x = None"
  using assms unfolding valid_table_def by (induction rows) auto

lemma external_unique:
  assumes "valid_db s" "p \<in> set (payments s)" "p' \<in> set (payments s)"
    and "p_provider p' = p_provider p" "p_external p' = p_external p" "p_external p = Some ext"
  shows "p' = p"
  using valid_pair [of payment_schema "payments s" p p'] assms
  by (cases "p = p'") (auto simp: valid_db_def payment_schema_def split: if_splits)

lemma LockPaymentForWebhookByID_find:
  assumes "valid_db s" "p \<in> set (payments s)" "r \<in> set (rentals s)" "a \<in> set (accounts s)"
    and "r_id r = p_rental p" "a_id a = r_account r"
  shows "LockPaymentForWebhookByID (p_id p) s = Inr (webhook_state p r a, s)"
  unfolding LockPaymentForWebhookByID_def no_rows_as_ok
  by (rule webhook_query_find [OF assms]) (use key_inj [OF valid_db_keys(4) [OF assms(1)] _ assms(2)] in auto)

lemma loadWebhookState_find:
  assumes "valid_db s" "p \<in> set (payments s)" "r \<in> set (rentals s)" "a \<in> set (accounts s)"
    and "r_id r = p_rental p" "a_id a = r_account r" "p_external p = Some ext"
  shows "loadWebhookState (p_id p) (p_provider p) ext s = Inr (webhook_state p r a, s)"
proof -
  have "LockPaymentForWebhookByExternalTransaction (p_provider p) ext s = Inr (webhook_state p r a, s)"
    unfolding LockPaymentForWebhookByExternalTransaction_def no_rows_as_ok
    by (rule webhook_query_find [OF assms(1-6)]) (use external_unique [OF assms(1,2)] assms(7) in auto)
  then show ?thesis
    by (simp add: loadWebhookState_def loadWebhookStateByExternalTransaction_def tx_defs)
qed

section \<open>What a processed webhook has done\<close>

lemma webhook_entry_simps [simp]:
  "fle_UserID (webhook_payment_entry st ext now) = hook_UserID st" "fle_RentalID (webhook_payment_entry st ext now) = hook_RentalID st"
  "fle_Amount (webhook_payment_entry st ext now) = hook_Amount st" "fle_Currency (webhook_payment_entry st ext now) = hook_Currency st"
  "fle_IdempotencyKey (webhook_payment_entry st ext now) = webhook_payment_key (hook_Provider st) ext"
  "fle_UserID (webhook_deposit_entry st ext now) = hook_UserID st" "fle_RentalID (webhook_deposit_entry st ext now) = hook_RentalID st"
  "fle_Amount (webhook_deposit_entry st ext now) = hook_DepositAmount st" "fle_Currency (webhook_deposit_entry st ext now) = hook_Currency st"
  "fle_IdempotencyKey (webhook_deposit_entry st ext now) = deposit_hold_key (hook_RentalID st)"
  "dh_UserID (webhook_deposit_hold st now) = hook_UserID st" "dh_RentalID (webhook_deposit_hold st now) = hook_RentalID st"
  "dh_PaymentID (webhook_deposit_hold st now) = hook_PaymentID st" "dh_Amount (webhook_deposit_hold st now) = hook_DepositAmount st"
  "dh_Currency (webhook_deposit_hold st now) = hook_Currency st" "dh_HeldAt (webhook_deposit_hold st now) = now"
  "dh_IdempotencyKey (webhook_deposit_hold st now) = deposit_hold_key (hook_RentalID st)"
  by (simp_all add: webhook_payment_entry_def webhook_deposit_entry_def webhook_deposit_hold_def)

lemma recordFinancialFacts_ok:
  "recordFinancialFacts st ext now s = Inr ((), t) \<Longrightarrow>
   (let received = ledger_entry_row 1 (webhook_payment_entry st ext now) (sequences s Ledger) (clock s);
        held = ledger_entry_row 2 (webhook_deposit_entry st ext now) (sequences s Ledger + 1) (clock s);
        hold = held_deposit_row (webhook_deposit_hold st now) (sequences s Holds)
    in t = s\<lparr>ledger := ledger s @ received # (if 0 < hook_DepositAmount st then [held] else []),
             holds := holds s @ (if 0 < hook_DepositAmount st \<and> d_key hold \<notin> d_key ` set (holds s) then [hold] else []),
             sequences := sequences t\<rparr>)"
  by (auto simp: recordFinancialFacts_def ledger_recorders tx_inv Let_def bump_def image_iff
       dest: insert_fresh insert_ok_checks split: if_splits)

lemma webhook_activate_ok:
  "webhook_activate inet req st ip agent now s = Inr (res, t) \<Longrightarrow>
   \<exists>s1. recordFinancialFacts st (req_ExternalTransactionID req) now
       (s\<lparr>rentals := upd (\<lambda>r. r_id r = hook_RentalID st \<and> r_status r = 1 \<and> clock s < r_payment_expires r)
                       (\<lambda>r. r\<lparr>r_status := 2, r_updated := pg_ts now\<rparr>) (rentals s),
          accounts := upd (\<lambda>a. a_id a = hook_AccountID st \<and> a_status a = 3)
                       (\<lambda>a. a\<lparr>a_status := 4, a_updated := pg_ts now\<rparr>) (accounts s)\<rparr>) = Inr ((), s1) \<and>
     t = s1\<lparr>events := events s1 @ [last (events t)], sequences := sequences t\<rparr> \<and>
     e_type (last (events t)) = 2 \<and> e_user (last (events t)) = Some (hook_UserID st) \<and>
     res = webhook_result st False \<and>
     (\<exists>r\<in>set (rentals s). r_id r = hook_RentalID st \<and> r_status r = 1 \<and> clock s < r_payment_expires r) \<and>
     (\<exists>a\<in>set (accounts s). a_id a = hook_AccountID st \<and> a_status a = 3)"
  by (auto simp: webhook_activate_def event_loggers tx_inv Let_def bump_def)

lemma webhook_already_processed_ok:
  "webhook_already_processed req st s = Inr (res, t) \<Longrightarrow> t = s \<and> whr_Idempotent res"
  by (auto simp: webhook_already_processed_def tx_inv webhook_result_def dest!: loadWebhookStateByExternalTransaction_ok)

lemma webhook_pay_ok:
  assumes "webhook_pay inet req st ip agent now s = Inr (res, t)"
  shows "(\<exists>s1. MarkPaymentSuccessful (hook_PaymentID st) (req_ExternalTransactionID req) s = Inr ((), s1) \<and>
            webhook_activate inet req st ip agent now s1 = Inr (res, t)) \<or>
         t = s \<and> whr_Idempotent res"
proof (cases "MarkPaymentSuccessful (hook_PaymentID st) (req_ExternalTransactionID req) s")
  case (Inl e)
  then have "webhook_already_processed req st s = Inr (res, t)"
    using assms by (auto simp: webhook_pay_def tx_bind_ok tx_catch_ok tx_seq_ok tx_return_ok tx_fail_ok split: if_splits option.splits)
  then show ?thesis by (simp add: webhook_already_processed_ok)
next
  case (Inr x)
  then obtain s1 where "MarkPaymentSuccessful (hook_PaymentID st) (req_ExternalTransactionID req) s = Inr ((), s1)"
    by (cases x) auto
  then show ?thesis
    using assms by (simp add: webhook_pay_def tx_bind_def tx_catch_def tx_seq_def tx_return_def)
qed

text \<open>
  The abstract effect of a webhook that pays rental \<open>r\<close>: as for the wallet, but no
  balance moves.
\<close>

definition webhook_paid_db ::
  "payment_row \<Rightarrow> rental_row \<Rightarrow> account_row \<Rightarrow> string \<Rightarrow> ledger_row list \<Rightarrow> hold_row list \<Rightarrow> event_row \<Rightarrow>
   (tbl \<Rightarrow> int) \<Rightarrow> time \<Rightarrow> db \<Rightarrow> db" where
  "webhook_paid_db p r a ext ls ds e q now s = s
     \<lparr>payments := set_row p_id (p\<lparr>p_status := 2, p_external := Some ext, p_processed := Some (clock s)\<rparr>) (payments s),
      rentals := set_row r_id (r\<lparr>r_status := 2, r_updated := pg_ts now\<rparr>) (rentals s),
      accounts := set_row a_id (a\<lparr>a_status := 4, a_updated := pg_ts now\<rparr>) (accounts s),
      ledger := ledger s @ ls, holds := holds s @ ds, events := events s @ [e], sequences := q\<rparr>"

definition webhook_ledger :: "payment_row \<Rightarrow> rental_row \<Rightarrow> string \<Rightarrow> ledger_row list \<Rightarrow> bool" where
  "webhook_ledger p r ext ls \<longleftrightarrow>
     map (\<lambda>l. (l_type l, l_user l, l_rental l, l_amount l, l_key l)) ls =
       (1, Some (p_user p), Some (r_id r), r_price r + r_deposit r, webhook_payment_key (p_provider p) ext) #
       (if 0 < r_deposit r then [(2, Some (p_user p), Some (r_id r), r_deposit r, deposit_hold_key (r_id r))] else [])"

lemma ProcessWebhook_ok:
  "ProcessWebhook inet req ip agent now s = (Inr res, t) \<longleftrightarrow>
   (\<exists>pid rid. validateWebhookRequest req = Inr (pid, rid) \<and> req_Status req = ''success'' \<and>
      ProcessWebhook_body inet req pid rid ip agent now s = Inr (res, t))"
  by (auto simp: ProcessWebhook_def tx_inv split: sum.splits prod.splits if_splits)

lemma webhook_matches_ok:
  "webhook_matches req pid rid (webhook_state p r a) s = Inr (x, t) \<Longrightarrow>
   is_i64 (r_price r) \<Longrightarrow> is_i64 (r_deposit r) \<Longrightarrow>
   t = s \<and> p_id p = pid \<and> p_rental p = rid \<and> p_provider p = ''internal'' \<and> req_Provider req = p_provider p \<and>
   p_amount p = req_Amount req \<and> p_currency p = req_Currency req \<and> p_amount p = r_price r + r_deposit r \<and>
   0 < r_price r \<and> 0 \<le> r_deposit r"
  by (auto simp: webhook_matches_def tx_inv is_i64_def)

lemma webhook_paid:
  assumes valid: "valid_db s"
    and run: "ProcessWebhook inet req ip agent now s = (Inr res, t)" "\<not> whr_Idempotent res"
  obtains p r a ls ds e q where
    "p \<in> set (payments s)" "r \<in> set (rentals s)" "a \<in> set (accounts s)"
    "validateWebhookRequest req = Inr (p_id p, r_id r)" "p_rental p = r_id r" "a_id a = r_account r"
    "p_status p = 1" "r_status r = 1" "a_status a = 3" "clock s < r_payment_expires r"
    "p_provider p = ''internal''" "p_amount p = req_Amount req" "p_currency p = req_Currency req"
    "p_amount p = r_price r + r_deposit r" "req_Provider req = ''internal''"
    "t = webhook_paid_db p r a (req_ExternalTransactionID req) ls ds e q now s"
    "webhook_ledger p r (req_ExternalTransactionID req) ls" "wallet_holds (p_user p) r p (holds s) ds"
    "e_type e = 2" "e_user e = Some (p_user p)"
    "res = \<lparr>whr_PaymentID = p_id p, whr_RentalID = r_id r, whr_AccountID = a_id a, whr_Processed = True, whr_Idempotent = False\<rparr>"
proof -
  obtain pid rid where val: "validateWebhookRequest req = Inr (pid, rid)"
    and body: "ProcessWebhook_body inet req pid rid ip agent now s = Inr (res, t)"
    using run(1) by (auto simp: ProcessWebhook_ok)
  let ?ext = "req_ExternalTransactionID req"
  obtain st s0 where load: "loadWebhookState pid (req_Provider req) ?ext s = Inr (st, s0)"
    and rest: "tx_seq (webhook_matches req pid rid st)
      (if hook_Status st = 2
       then tx_seq (fail_if (hook_ExternalTransactionID st \<noteq> ?ext) (PaymentErr ErrWebhookExternalTxMismatch))
           (tx_seq (fail_if (hook_RentalStatus st \<noteq> 2 \<or> hook_AccountStatus st \<noteq> 4) webhook_invalid_transition)
             (tx_return (webhook_result st True)))
       else tx_seq (fail_if (hook_Status st \<noteq> 1) (PaymentErr ErrWebhookNotSuccessful))
           (tx_seq (fail_if (hook_RentalStatus st \<noteq> 1 \<or> hook_AccountStatus st \<noteq> 3) webhook_invalid_transition)
             (webhook_pay inet req st ip agent now))) s0 = Inr (res, t)"
    using body by (auto simp: ProcessWebhook_body_def tx_bind_ok)
  have not_replay: "res \<noteq> webhook_result st True"
    using run(2) by (auto simp: webhook_result_def)
  obtain p r a where s0: "s0 = s" and rows: "p \<in> set (payments s)" "r \<in> set (rentals s)" "a \<in> set (accounts s)"
    and st: "st = webhook_state p r a" and ids: "p_id p = pid" "r_id r = p_rental p" "a_id a = r_account r"
    using loadWebhookState_ok [OF load] by blast
  have i64: "is_i64 (r_price r)" "is_i64 (r_deposit r)"
    using valid_db_checks(3) [OF valid rows(2)] by (simp_all add: rental_checks)
  let ?st = "webhook_state p r a"
  obtain x s1 where mm: "webhook_matches req pid rid ?st s = Inr (x, s1)"
    and states: "p_status p = 1" "r_status r = 1" "a_status a = 3"
    and pay: "webhook_pay inet req ?st ip agent now s1 = Inr (res, t)"
    using rest not_replay unfolding s0 st by (auto simp: tx_seq_ok tx_if_ok tx_return_ok fail_if_ok)
  note m = webhook_matches_ok [OF mm i64]
  let ?P = "\<lambda>x. p_id x = p_id p \<and> p_status x = 1"
  let ?f = "\<lambda>x. x\<lparr>p_status := 2, p_external := Some ?ext, p_processed := Some (clock s)\<rparr>"
  obtain s2 where "MarkPaymentSuccessful (p_id p) ?ext s = Inr ((), s2)"
    and act: "webhook_activate inet req ?st ip agent now s2 = Inr (res, t)"
    using webhook_pay_ok [OF pay] run(2) m by auto
  then have s2: "s2 = s\<lparr>payments := upd ?P ?f (payments s)\<rparr>"
    by (simp add: MarkPaymentSuccessful_ok Let_def)
  note keys = valid_db_keys [OF valid]
  define s3 where "s3 = s\<lparr>payments := set_row p_id (p\<lparr>p_status := 2, p_external := Some ?ext, p_processed := Some (clock s)\<rparr>) (payments s),
      rentals := set_row r_id (r\<lparr>r_status := 2, r_updated := pg_ts now\<rparr>) (rentals s),
      accounts := set_row a_id (a\<lparr>a_status := 4, a_updated := pg_ts now\<rparr>) (accounts s)\<rparr>"
  obtain s4 r' where facts: "recordFinancialFacts ?st ?ext now (s2
       \<lparr>rentals := upd (\<lambda>x. r_id x = p_rental p \<and> r_status x = 1 \<and> clock s < r_payment_expires x)
                    (\<lambda>x. x\<lparr>r_status := 2, r_updated := pg_ts now\<rparr>) (rentals s),
        accounts := upd (\<lambda>x. a_id x = r_account r \<and> a_status x = 3)
                    (\<lambda>x. x\<lparr>a_status := 4, a_updated := pg_ts now\<rparr>) (accounts s)\<rparr>) = Inr ((), s4)"
    and t: "t = s4\<lparr>events := events s4 @ [last (events t)], sequences := sequences t\<rparr>"
    and e: "e_type (last (events t)) = 2" "e_user (last (events t)) = Some (p_user p)"
    and res: "res = webhook_result ?st False"
    and r': "r' \<in> set (rentals s)" "r_id r' = r_id r" "clock s < r_payment_expires r'"
    using webhook_activate_ok [OF act] ids by (auto simp: s2)
  have expires: "clock s < r_payment_expires r"
    using key_inj [OF keys(3) r'(1) rows(2) r'(2)] r'(3) by simp
  have "s2\<lparr>rentals := upd (\<lambda>x. r_id x = p_rental p \<and> r_status x = 1 \<and> clock s < r_payment_expires x)
                    (\<lambda>x. x\<lparr>r_status := 2, r_updated := pg_ts now\<rparr>) (rentals s),
        accounts := upd (\<lambda>x. a_id x = r_account r \<and> a_status x = 3)
                    (\<lambda>x. x\<lparr>a_status := 4, a_updated := pg_ts now\<rparr>) (accounts s)\<rparr> = s3"
    unfolding s2 s3_def using ids states expires
    by (intro db.equality; simp)
      ((rule upd_set_row [OF keys(4) rows(1)] upd_set_row [OF keys(3) rows(2)] upd_set_row [OF keys(2) rows(3)]; simp)+)
  note f = recordFinancialFacts_ok [OF facts [unfolded this], unfolded Let_def]
  define e' q where "e' = last (events t)" and "q = sequences t"
  have t': "t = s4\<lparr>events := events s4 @ [e'], sequences := q\<rparr>"
    using t by (simp add: e'_def q_def)
  define q4 where "q4 = sequences s4"
  have s4: "s4 = s3\<lparr>ledger := ledger s3 @ ledger_entry_row 1 (webhook_payment_entry ?st ?ext now) (sequences s3 Ledger) (clock s3) #
        (if 0 < r_deposit r then [ledger_entry_row 2 (webhook_deposit_entry ?st ?ext now) (sequences s3 Ledger + 1) (clock s3)] else []),
      holds := holds s3 @ (if 0 < r_deposit r \<and> deposit_hold_key rid \<notin> d_key ` set (holds s3)
        then [held_deposit_row (webhook_deposit_hold ?st now) (sequences s3 Holds)] else []), sequences := q4\<rparr>"
    using f m by (simp add: q4_def)
  have res': "res = \<lparr>whr_PaymentID = p_id p, whr_RentalID = r_id r, whr_AccountID = a_id a, whr_Processed = True, whr_Idempotent = False\<rparr>"
    using res ids by (simp add: webhook_result_def)
  have e'': "e_type e' = 2" "e_user e' = Some (p_user p)" using e by (simp_all add: e'_def)
  show thesis
    by (rule that [OF rows, of _ _ e' q])
      (use val ids m states expires res' e'' in
        \<open>auto simp: t' s4 webhook_paid_db_def s3_def webhook_ledger_def wallet_holds_def\<close>)
qed

lemmas webhook_defs = ProcessWebhook_body_def webhook_pay_def webhook_activate_def webhook_already_processed_def
  webhook_matches_def recordFinancialFacts_def loadWebhookState_def loadWebhookStateByExternalTransaction_def
  ledger_recorders event_loggers payment_statements payment_reads

lemma webhook_valid [closed_intros]: "valid.closed (ProcessWebhook_body inet req pid rid ip agent now)"
  unfolding webhook_defs by (intro closed_intros)

lemma webhook_evolves [closed_intros]: "evolution.closed (ProcessWebhook_body inet req pid rid ip agent now)"
  unfolding webhook_defs by (intro closed_intros) (auto simp: row_nexts)

lemma webhook_matches_run:
  assumes "is_i64 (r_price r)" "is_i64 (r_deposit r)" "0 < r_price r" "0 \<le> r_deposit r" "is_i64 (p_amount p)"
  shows "webhook_matches req pid rid (webhook_state p r a) s =
     (if p_id p \<noteq> pid \<or> p_rental p \<noteq> rid then Inl (PaymentErr ErrWebhookIdentifierMismatch)
      else if p_provider p \<noteq> ''internal'' \<or> p_provider p \<noteq> req_Provider req then Inl (PaymentErr ErrWebhookProviderUnsupported)
      else if p_amount p \<noteq> req_Amount req \<or> p_currency p \<noteq> req_Currency req \<or> r_price r + r_deposit r \<noteq> p_amount p
        then Inl (PaymentErr ErrWebhookFinancialMismatch)
      else Inr ((), s))"
proof -
  have "(r_price r \<le> 0 \<or> r_deposit r < 0 \<or> MaxInt64 - r_deposit r < r_price r \<or> i64 (r_price r + r_deposit r) \<noteq> p_amount p)
     = (r_price r + r_deposit r \<noteq> p_amount p)"
    using assms by (auto simp: is_i64_def)
  then show ?thesis
    by (simp add: webhook_matches_def tx_seq_def tx_bind_def fail_if_def)
qed

lemma ProcessWebhook_found:
  assumes "valid_db s" "p \<in> set (payments s)" "r \<in> set (rentals s)" "a \<in> set (accounts s)"
    and "r_id r = p_rental p" "a_id a = r_account r"
    and load: "loadWebhookState (p_id p) (req_Provider req) (req_ExternalTransactionID req) s = Inr (webhook_state p r a, s)"
    and "validateWebhookRequest req = Inr (p_id p, rid)" "req_Status req = ''success''"
  shows "ProcessWebhook inet req ip agent now s =
     (if p_rental p \<noteq> rid then (Inl (PaymentErr ErrWebhookIdentifierMismatch), s)
      else if p_provider p \<noteq> ''internal'' \<or> p_provider p \<noteq> req_Provider req then (Inl (PaymentErr ErrWebhookProviderUnsupported), s)
      else if p_amount p \<noteq> req_Amount req \<or> p_currency p \<noteq> req_Currency req \<or> r_price r + r_deposit r \<noteq> p_amount p
        then (Inl (PaymentErr ErrWebhookFinancialMismatch), s)
      else if p_status p = 2
        then if case_option [] id (p_external p) \<noteq> req_ExternalTransactionID req then (Inl (PaymentErr ErrWebhookExternalTxMismatch), s)
             else if r_status r \<noteq> 2 \<or> a_status a \<noteq> 4 then (Inl webhook_invalid_transition, s)
             else (Inr (webhook_result (webhook_state p r a) True), s)
      else if p_status p \<noteq> 1 then (Inl (PaymentErr ErrWebhookNotSuccessful), s)
      else if r_status r \<noteq> 1 \<or> a_status a \<noteq> 3 then (Inl webhook_invalid_transition, s)
      else WithinTransaction (webhook_pay inet req (webhook_state p r a) ip agent now) s)"
proof -
  have "is_i64 (r_price r)" "is_i64 (r_deposit r)" "0 < r_price r" "0 \<le> r_deposit r" "is_i64 (p_amount p)"
    using valid_db_checks(3) [OF assms(1,3)] valid_db_checks(4) [OF assms(1,2)]
    by (simp_all add: rental_checks payment_checks)
  note match = webhook_matches_run [OF this, of req "p_id p" rid a s]
  show ?thesis
    unfolding ProcessWebhook_def assms(8) sum.case prod.case WithinTransaction_def ProcessWebhook_body_def
    by (simp add: load match assms(9) tx_seq_def tx_bind_def fail_if_def tx_return_def option.case_eq_if)
qed

lemma webhook_idempotent_unchanged:
  assumes "ProcessWebhook inet req ip agent now s = (Inr res, t)" "whr_Idempotent res"
  shows "t = s"
proof -
  obtain pid rid st s0 where load: "loadWebhookState pid (req_Provider req) (req_ExternalTransactionID req) s = Inr (st, s0)"
    and rest: "tx_seq (webhook_matches req pid rid st)
      (if hook_Status st = 2
       then tx_seq (fail_if (hook_ExternalTransactionID st \<noteq> req_ExternalTransactionID req) (PaymentErr ErrWebhookExternalTxMismatch))
           (tx_seq (fail_if (hook_RentalStatus st \<noteq> 2 \<or> hook_AccountStatus st \<noteq> 4) webhook_invalid_transition)
             (tx_return (webhook_result st True)))
       else tx_seq (fail_if (hook_Status st \<noteq> 1) (PaymentErr ErrWebhookNotSuccessful))
           (tx_seq (fail_if (hook_RentalStatus st \<noteq> 1 \<or> hook_AccountStatus st \<noteq> 3) webhook_invalid_transition)
             (webhook_pay inet req st ip agent now))) s0 = Inr (res, t)"
    using assms(1) by (auto simp: ProcessWebhook_ok ProcessWebhook_body_def tx_bind_ok)
  have s0: "s0 = s" using loadWebhookState_ok [OF load] by blast
  have match: "t' = u" if "webhook_matches req pid rid st u = Inr (x, t')" for u x t'
    using that by (auto simp: webhook_matches_def tx_inv)
  have "t = s" if "webhook_pay inet req st ip agent now s = Inr (res, t)"
    using webhook_pay_ok [OF that] assms(2) webhook_activate_ok by (fastforce simp: webhook_result_def)
  then show ?thesis
    using rest s0 by (auto simp: tx_seq_ok tx_if_ok tx_return_ok fail_if_ok dest: match)
qed

end
