(* ===== verification/Webhook_Properties.thy ===== *)
theory Webhook_Properties
  imports Webhook
begin

text \<open>
  The properties of the payment webhook: the effect of a processed request, its
  repetition, a second transaction for a paid payment, and the decision table of the
  guards.
\<close>

section \<open>Properties\<close>

lemma ProcessWebhook_error: "ProcessWebhook inet req ip agent now s = (Inl e, t) \<Longrightarrow> t = s"
  by (auto simp: ProcessWebhook_def WithinTransaction_error split: sum.splits prod.splits if_splits)

lemma webhook_keeps_valid:
  "valid_db s \<Longrightarrow> ProcessWebhook inet req ip agent now s = (Inr res, t) \<Longrightarrow> valid_db t"
  using valid.closedD [OF webhook_valid] by (fastforce simp: ProcessWebhook_ok keeps_valid_def)

text \<open>A request that succeeds for the row of its payment agrees with every stored fact.\<close>

lemma webhook_success_row:
  assumes "valid_db s" "ProcessWebhook inet req ip agent now s = (Inr res, t)"
    and "p \<in> set (payments s)" "validateWebhookRequest req = Inr (p_id p, rid)"
  shows "p_rental p = rid \<and> p_provider p = ''internal'' \<and> p_amount p = req_Amount req \<and> p_currency p = req_Currency req \<and>
     (p_status p = 2 \<longrightarrow> case_option [] id (p_external p) = req_ExternalTransactionID req) \<and> p_status p \<in> {1, 2}"
proof -
  obtain st s0 where load: "loadWebhookState (p_id p) (req_Provider req) (req_ExternalTransactionID req) s = Inr (st, s0)"
    using assms(2,4) by (auto simp: ProcessWebhook_ok ProcessWebhook_body_def tx_bind_ok)
  obtain p' r a where rows: "p' \<in> set (payments s)" "r \<in> set (rentals s)" "a \<in> set (accounts s)"
    and st: "s0 = s" "st = webhook_state p' r a" "p_id p' = p_id p" "r_id r = p_rental p'" "a_id a = r_account r"
    using loadWebhookState_ok [OF load] by blast
  have "p' = p" using key_inj [OF valid_db_keys(4) [OF assms(1)] rows(1) assms(3) st(3)] .
  then have "loadWebhookState (p_id p) (req_Provider req) (req_ExternalTransactionID req) s = Inr (webhook_state p r a, s)"
    "r_id r = p_rental p" using load st by simp_all
  moreover have "req_Status req = ''success''" using assms(2) by (auto simp: ProcessWebhook_ok)
  ultimately show ?thesis
    using ProcessWebhook_found [OF assms(1,3) rows(2,3) _ st(5) _ assms(4), of inet ip agent now] assms(2)
    by (auto split: if_splits)
qed

text \<open>
  C12: A webhook that is processed and not a repetition has found a pending payment of
  the internal provider whose id, rental, amount and currency are those of the
  request and whose amount is the price plus the deposit, has moved the payment to
  success (keeping the provider's transaction id), the unexpired waiting rental to
  active and the reserved account to rented, has appended the received entry and (for a
  positive deposit) the held-deposit entry and the hold, one security event, and has
  touched nothing else: no balance changes.
\<close>

theorem webhook_payment_effect:
  assumes "valid_db s"
    and "ProcessWebhook inet req ip agent now s = (Inr res, t)" "\<not> whr_Idempotent res"
  shows "\<exists>p\<in>set (payments s). \<exists>r\<in>set (rentals s). \<exists>a\<in>set (accounts s). \<exists>ls ds e q.
     validateWebhookRequest req = Inr (p_id p, r_id r) \<and> p_rental p = r_id r \<and> a_id a = r_account r \<and>
     p_status p = 1 \<and> r_status r = 1 \<and> a_status a = 3 \<and> clock s < r_payment_expires r \<and>
     p_provider p = ''internal'' \<and> p_amount p = req_Amount req \<and> p_currency p = req_Currency req \<and>
     p_amount p = r_price r + r_deposit r \<and>
     t = webhook_paid_db p r a (req_ExternalTransactionID req) ls ds e q now s \<and>
     webhook_ledger p r (req_ExternalTransactionID req) ls \<and> wallet_holds (p_user p) r p (holds s) ds \<and>
     e_type e = 2 \<and> e_user e = Some (p_user p)"
  using webhook_paid [OF assms] by metis

definition webhook9 :: "string \<Rightarrow> WebhookRequest" where
  "webhook9 ext = \<lparr>req_PaymentID = ''9'', req_RentalID = ''7'', req_ExternalTransactionID = ext, req_Provider = ''internal'',
     req_Amount = 80, req_Currency = ''USD'', req_Status = ''success''\<rparr>"

lemma webhook9_processed:
  obtains res t where "ProcessWebhook (\<lambda>_. True) (webhook9 ''tx-1'') [] [] Minute waiting_db = (Inr res, t)" "\<not> whr_Idempotent res"
proof -
  have "ok_with (\<lambda>res. \<not> whr_Idempotent res) (ProcessWebhook (\<lambda>_. True) (webhook9 ''tx-1'') [] [] Minute waiting_db)" by code_simp
  then show thesis using that by (auto dest: ok_withD)
qed

lemma webhook_payment_effect_witness:
  "\<exists>res t. ProcessWebhook (\<lambda>_. True) (webhook9 ''tx-1'') [] [] Minute waiting_db = (Inr res, t) \<and>
     (\<exists>p\<in>set (payments waiting_db). \<exists>r. p_amount p = r_price r + r_deposit r \<and> r \<in> set (rentals waiting_db))"
proof -
  obtain res t where run: "ProcessWebhook (\<lambda>_. True) (webhook9 ''tx-1'') [] [] Minute waiting_db = (Inr res, t)"
    "\<not> whr_Idempotent res" by (rule webhook9_processed)
  show ?thesis
    using webhook_payment_effect [OF waiting_db_valid run] run by blast
qed

lemma webhook_paid_rows:
  assumes "p \<in> set (payments s)" "r \<in> set (rentals s)" "a \<in> set (accounts s)"
    and "t = webhook_paid_db p r a ext ls ds e q now s"
  shows "p\<lparr>p_status := 2, p_external := Some ext, p_processed := Some (clock s)\<rparr> \<in> set (payments t)"
    "r\<lparr>r_status := 2, r_updated := pg_ts now\<rparr> \<in> set (rentals t)"
    "a\<lparr>a_status := 4, a_updated := pg_ts now\<rparr> \<in> set (accounts t)"
  by (simp_all add: assms(4) webhook_paid_db_def in_set_row [OF assms(1)] in_set_row [OF assms(2)] in_set_row [OF assms(3)])

text \<open>
  C13: Webhook delivery is idempotent: once a request has been processed, delivering it
  again, at any time and from any address, succeeds, reports the repetition and leaves
  the database as it is.
\<close>

theorem webhook_replay:
  assumes valid: "valid_db s"
    and run: "ProcessWebhook inet req ip agent now s = (Inr res, t)" "\<not> whr_Idempotent res"
  shows "ProcessWebhook inet' req ip' agent' now' t = (Inr (res\<lparr>whr_Idempotent := True\<rparr>), t)"
proof -
  obtain p r a ls ds e q where rows: "p \<in> set (payments s)" "r \<in> set (rentals s)" "a \<in> set (accounts s)"
    and val: "validateWebhookRequest req = Inr (p_id p, r_id r)"
    and ids: "p_rental p = r_id r" "a_id a = r_account r" "p_provider p = ''internal''" "req_Provider req = ''internal''"
      "p_amount p = req_Amount req" "p_currency p = req_Currency req" "p_amount p = r_price r + r_deposit r"
    and t: "t = webhook_paid_db p r a (req_ExternalTransactionID req) ls ds e q now s"
    and res: "res = \<lparr>whr_PaymentID = p_id p, whr_RentalID = r_id r, whr_AccountID = a_id a, whr_Processed = True, whr_Idempotent = False\<rparr>"
    by (rule webhook_paid [OF assms]) blast
  note valid_t = webhook_keeps_valid [OF valid run(1)]
  note rows' = webhook_paid_rows [OF rows t]
  have success: "req_Status req = ''success''" using run(1) by (auto simp: ProcessWebhook_ok)
  note load = loadWebhookState_find [OF valid_t rows', of "req_ExternalTransactionID req", simplified ids, simplified]
  show ?thesis
    using ProcessWebhook_found [OF valid_t rows', of req "r_id r" inet' ip' agent' now'] load val success ids
    by (simp add: res webhook_result_def)
qed

lemma webhook_replay_witness:
  "\<exists>res t. ProcessWebhook (\<lambda>_. True) (webhook9 ''tx-1'') [] [] Minute waiting_db = (Inr res, t) \<and>
     ProcessWebhook (\<lambda>_. False) (webhook9 ''tx-1'') ''x'' [] (9 * Hour) t = (Inr (res\<lparr>whr_Idempotent := True\<rparr>), t)"
proof -
  obtain res t where run: "ProcessWebhook (\<lambda>_. True) (webhook9 ''tx-1'') [] [] Minute waiting_db = (Inr res, t)"
    "\<not> whr_Idempotent res" by (rule webhook9_processed)
  show ?thesis
    using webhook_replay [OF waiting_db_valid run] run by blast
qed

text \<open>
  A payment is paid by one provider transaction only: after a processed webhook,
  a request for the same payment that names another external transaction is refused
  and changes nothing, whatever else it carries.
\<close>

theorem webhook_second_transaction:
  assumes "valid_db s"
    and "ProcessWebhook inet req ip agent now s = (Inr res, t)" "\<not> whr_Idempotent res"
    and "validateWebhookRequest req' = Inr (whr_PaymentID res, rid')"
    and "req_ExternalTransactionID req' \<noteq> req_ExternalTransactionID req"
  shows "\<exists>e. ProcessWebhook inet' req' ip' agent' now' t = (Inl e, t)"
proof -
  obtain p r a ls ds e q where rows: "p \<in> set (payments s)" "r \<in> set (rentals s)" "a \<in> set (accounts s)"
    and t: "t = webhook_paid_db p r a (req_ExternalTransactionID req) ls ds e q now s"
    and res: "whr_PaymentID res = p_id p"
    by (rule webhook_paid [OF assms(1-3)]) simp
  note rows' = webhook_paid_rows [OF rows t]
  have "ProcessWebhook inet' req' ip' agent' now' t \<noteq> (Inr res', t')" for res' t'
    using webhook_success_row [OF webhook_keeps_valid [OF assms(1,2)] _ rows'(1), of inet' req' ip' agent' now' res' t' rid']
      assms(4,5) res by auto
  then show ?thesis
    using ProcessWebhook_error by (metis sum.exhaust surj_pair)
qed

lemma webhook_second_transaction_witness:
  "\<exists>t e. ProcessWebhook (\<lambda>_. True) (webhook9 ''tx-2'') [] [] Minute t = (Inl e, t)"
proof -
  obtain res t where run: "ProcessWebhook (\<lambda>_. True) (webhook9 ''tx-1'') [] [] Minute waiting_db = (Inr res, t)"
    "\<not> whr_Idempotent res" by (rule webhook9_processed)
  have "validateWebhookRequest (webhook9 ''tx-2'') = Inr (9, 7)" "validateWebhookRequest (webhook9 ''tx-1'') = Inr (9, 7)"
    by code_simp+
  moreover have "whr_PaymentID res = 9"
    by (rule webhook_paid [OF waiting_db_valid run]) (use calculation in auto)
  moreover have "req_ExternalTransactionID (webhook9 ''tx-2'') \<noteq> req_ExternalTransactionID (webhook9 ''tx-1'')"
    by (simp add: webhook9_def)
  ultimately show ?thesis
    using webhook_second_transaction [OF waiting_db_valid run, of "webhook9 ''tx-2''" 7] by metis
qed

lemma loadWebhookState_unclaimed:
  assumes "valid_db s" "p \<in> set (payments s)" "r \<in> set (rentals s)" "a \<in> set (accounts s)"
    and "r_id r = p_rental p" "a_id a = r_account r"
    and only: "\<forall>x\<in>set (payments s). p_provider x = provider \<and> p_external x = Some ext \<longrightarrow> x = p"
  shows "loadWebhookState (p_id p) provider ext s = Inr (webhook_state p r a, s)"
proof (cases "p_provider p = provider \<and> p_external p = Some ext")
  case True
  then show ?thesis using loadWebhookState_find [OF assms(1-6), of ext] by simp
next
  case False
  then have "LockPaymentForWebhookByExternalTransaction provider ext s = Inl (PaymentErr ErrPaymentNotFound)"
    unfolding LockPaymentForWebhookByExternalTransaction_def
    by (intro no_rows_as_empty) (use only in auto)
  then show ?thesis
    using LockPaymentForWebhookByID_find [OF assms(1-6)]
    by (simp add: loadWebhookState_def loadWebhookStateByExternalTransaction_def tx_defs)
qed

text \<open>
  C14: The decision table of a well-formed webhook whose external transaction is not
  taken by another payment: each guard that fails is answered with its own error in
  the order of the code and leaves the database as it is, a payment that the same
  transaction has paid is answered as a repetition, and only a pending payment of a
  waiting rental of a reserved account whose facts all agree is paid.
\<close>

theorem webhook_decision:
  assumes "valid_db s" "p \<in> set (payments s)" "r \<in> set (rentals s)" "a \<in> set (accounts s)"
    and "r_id r = p_rental p" "a_id a = r_account r"
    and "\<forall>x\<in>set (payments s). p_provider x = req_Provider req \<and> p_external x = Some (req_ExternalTransactionID req) \<longrightarrow> x = p"
    and "validateWebhookRequest req = Inr (p_id p, rid)"
  shows "ProcessWebhook inet req ip agent now s =
     (if req_Status req \<noteq> ''success'' then (Inl (PaymentErr ErrWebhookNotSuccessful), s)
      else if p_rental p \<noteq> rid then (Inl (PaymentErr ErrWebhookIdentifierMismatch), s)
      else if p_provider p \<noteq> ''internal'' \<or> p_provider p \<noteq> req_Provider req then (Inl (PaymentErr ErrWebhookProviderUnsupported), s)
      else if p_amount p \<noteq> req_Amount req \<or> p_currency p \<noteq> req_Currency req \<or> r_price r + r_deposit r \<noteq> p_amount p
        then (Inl (PaymentErr ErrWebhookFinancialMismatch), s)
      else if p_status p = 2
        then if case_option [] id (p_external p) \<noteq> req_ExternalTransactionID req then (Inl (PaymentErr ErrWebhookExternalTxMismatch), s)
             else if r_status r \<noteq> 2 \<or> a_status a \<noteq> 4 then (Inl webhook_invalid_transition, s)
             else (Inr (webhook_result (webhook_state p r a) True), s)
      else if p_status p \<noteq> 1 then (Inl (PaymentErr ErrWebhookNotSuccessful), s)
      else if r_status r \<noteq> 1 \<or> a_status a \<noteq> 3 then (Inl webhook_invalid_transition, s)
      else WithinTransaction (webhook_pay inet req (webhook_state p r a) ip agent now) s)"
proof (cases "req_Status req = ''success''")
  case True
  then show ?thesis
    using ProcessWebhook_found [OF assms(1-6) loadWebhookState_unclaimed [OF assms(1-7)] assms(8) True] by simp
next
  case False
  then show ?thesis using assms(8) by (simp add: ProcessWebhook_def)
qed

lemma webhook_decision_witness:
  "ProcessWebhook (\<lambda>_. True) (webhook9 ''tx-1''\<lparr>req_Amount := 79\<rparr>) [] [] Minute waiting_db =
     (Inl (PaymentErr ErrWebhookFinancialMismatch), waiting_db)"
proof -
  have "validateWebhookRequest (webhook9 ''tx-1''\<lparr>req_Amount := 79\<rparr>) = Inr (9, 7)" by code_simp
  then show ?thesis
    using webhook_decision [OF waiting_db_valid, of payment9 rental7 account5 "webhook9 ''tx-1''\<lparr>req_Amount := 79\<rparr>" 7]
    by (simp add: sample_defs webhook9_def)
qed
end
