(* ===== verification/Settlement.thy ===== *)
theory Settlement
  imports Wallet_Payment
begin

text \<open>
  The settlement of deposits by an administrator: \<open>ReleaseDeposit\<close> and \<open>ForfeitDeposit\<close>
  of src/internal/payment/service.go with the reason codes, the evidence references
  and the completion of the rental of src/internal/payment/rental_finalization.go.
  The advisory lock that serialises the settlements of one rental
  (\<open>LockRentalSettlementKey\<close>) has no effect where transactions run one after the other.
\<close>

section \<open>Reason codes and evidence\<close>

definition isSafeReasonCode :: "string \<Rightarrow> bool" where
  "isSafeReasonCode reasonCode =
     (if reasonCode = [] \<or> 64 < length reasonCode then False
      else list_all (\<lambda>c. is_lower c \<or> is_upper c \<or> is_digit c \<or> c = CHR ''_'' \<or> c = CHR ''-'') reasonCode)"

definition depositForfeitReasonCodes :: "string list" where
  "depositForfeitReasonCodes = [''ACCOUNT_SECURITY_VIOLATION'', ''ADMIN_CORRECTION'', ''CREDENTIAL_MISUSE'',
     ''DAMAGE_CONFIRMED'', ''USER_CAUSED_GAME_BAN'']"

definition IsAllowedDepositForfeitReasonCode :: "string \<Rightarrow> bool" where
  "IsAllowedDepositForfeitReasonCode reasonCode = (trim_space reasonCode \<in> set depositForfeitReasonCodes)"

definition parseDepositEvidenceReference :: "string \<Rightarrow> int \<times> bool" where
  "parseDepositEvidenceReference reference =
     (let prefix = ''SECURITY_EVENT:''
      in if \<not> has_prefix reference prefix \<or> 255 < length reference then (0, False)
         else let rawID = drop (length prefix) reference
              in if rawID = [] \<or> trim_space rawID \<noteq> rawID then (0, False)
                 else case parse_int rawID of None \<Rightarrow> (0, False) | Some i \<Rightarrow> (i, 0 < i))"

definition IsValidDepositEvidenceReference :: "string \<Rightarrow> bool" where
  "IsValidDepositEvidenceReference reference = snd (parseDepositEvidenceReference (trim_space reference))"

section \<open>The state of a settlement\<close>

record DepositSettlementResult =
  dsr_Changed :: bool
  dsr_Idempotent :: bool
  dsr_Status :: string
  dsr_DepositStatus :: string
  dsr_SettledAt :: "time option"
  dsr_RentalStatus :: int
  dsr_CompletedAt :: "time option"

definition empty_settlement_result :: DepositSettlementResult where
  "empty_settlement_result = \<lparr>dsr_Changed = False, dsr_Idempotent = False, dsr_Status = [], dsr_DepositStatus = [],
     dsr_SettledAt = None, dsr_RentalStatus = 0, dsr_CompletedAt = None\<rparr>"

definition isConsistentPositiveDepositState :: "DepositSettlementState \<Rightarrow> bool" where
  "isConsistentPositiveDepositState state \<longleftrightarrow>
     0 < dss_RentalDepositAmount state \<and> dss_HasDepositHold state \<and>
     dss_Amount state = dss_RentalDepositAmount state \<and> dss_HoldUserID state = dss_UserID state \<and>
     dss_HoldPaymentID state = dss_PaymentID state \<and> dss_HoldCurrency state = dss_Currency state"

definition setDepositSettlementAliases :: "string \<Rightarrow> DepositSettlementResult \<Rightarrow> DepositSettlementResult" where
  "setDepositSettlementAliases status result =
     (let r = (if dsr_DepositStatus result = [] then result\<lparr>dsr_DepositStatus := status\<rparr> else result)
      in r\<lparr>dsr_Status := dsr_DepositStatus r\<rparr>)"

definition setDepositSettlementResult ::
  "DepositSettlementState \<Rightarrow> string \<Rightarrow> DepositSettlementResult \<Rightarrow> DepositSettlementResult" where
  "setDepositSettlementResult state status result =
     (let r = (setDepositSettlementAliases status result)
                \<lparr>dsr_RentalStatus := dss_RentalStatus state, dsr_CompletedAt := dss_CompletedAt state\<rparr>
      in if status = ''RELEASED'' then r\<lparr>dsr_SettledAt := dss_ReleasedAt state\<rparr>
         else if status = ''FORFEITED'' then r\<lparr>dsr_SettledAt := dss_ForfeitedAt state\<rparr>
         else if status = ''REFUNDED'' then r\<lparr>dsr_SettledAt := dss_RefundedAt state\<rparr>
         else r)"

definition loadDepositSettlementState :: "int \<Rightarrow> (db, DepositSettlementState) tx" where
  "loadDepositSettlementState rentalID =
     tx_bind (tx_catch
        (tx_bind (LockDepositSettlementState rentalID) (\<lambda>state.
           tx_return (if dss_HasDepositHold state then Some state else None)))
        (\<lambda>e. if errors_is e (PaymentErr ErrDepositHoldNotFound) then tx_return None
              else tx_fail (Wrapf ''lock deposit settlement state'' e))) (\<lambda>found.
     case found of
       Some state \<Rightarrow> tx_return state
     | None \<Rightarrow>
         tx_bind (wrapf ''load deposit settlement eligibility'' (LoadDepositSettlementEligibility rentalID)) (\<lambda>eligibility.
         if \<not> dse_RentalExists eligibility then tx_fail (PaymentErr ErrDepositHoldNotFound)
         else tx_fail (PaymentErr ErrDepositSettlementNotAllowed)))"

definition validateDepositReleaseState :: "DepositSettlementState \<Rightarrow> err option" where
  "validateDepositReleaseState state =
     (if dss_HoldStatus state = depositHoldStatusForfeited then Some (PaymentErr ErrDepositAlreadySettled)
      else if dss_HoldStatus state = depositHoldStatusRefunded then Some (PaymentErr ErrDepositAlreadySettled)
      else if dss_HoldStatus state = depositHoldStatusReleased then None
      else if dss_HoldStatus state \<noteq> depositHoldStatusHeld then Some (PaymentErr ErrDepositSettlementNotAllowed)
      else if dss_PaymentStatus state \<noteq> 2 then Some (PaymentErr ErrDepositSettlementNotAllowed)
      else if dss_RentalStatus state \<noteq> 3 then Some (PaymentErr ErrDepositSettlementNotAllowed)
      else if \<not> isConsistentPositiveDepositState state then Some (PaymentErr ErrDepositSettlementNotAllowed)
      else if dss_ReviewDeadlineAt state = None then Some (PaymentErr ErrDepositSettlementNotAllowed)
      else None)"

definition validateDepositForfeitState :: "DepositSettlementState \<Rightarrow> time \<Rightarrow> err option" where
  "validateDepositForfeitState state now =
     (if dss_HoldStatus state = depositHoldStatusReleased then Some (PaymentErr ErrDepositAlreadySettled)
      else if dss_HoldStatus state = depositHoldStatusRefunded then Some (PaymentErr ErrDepositAlreadySettled)
      else if dss_HoldStatus state = depositHoldStatusForfeited then None
      else if dss_HoldStatus state \<noteq> depositHoldStatusHeld then Some (PaymentErr ErrDepositSettlementNotAllowed)
      else if dss_PaymentStatus state \<noteq> 2 then Some (PaymentErr ErrDepositSettlementNotAllowed)
      else if dss_RentalStatus state \<noteq> 3 then Some (PaymentErr ErrDepositSettlementNotAllowed)
      else if \<not> isConsistentPositiveDepositState state then Some (PaymentErr ErrDepositSettlementNotAllowed)
      else case dss_ReviewDeadlineAt state of
             None \<Rightarrow> Some (PaymentErr ErrDepositSettlementNotAllowed)
           | Some deadline \<Rightarrow>
               if \<not> now < deadline then Some (PaymentErr ErrDepositReviewDeadlinePassed) else None)"

text \<open>\<open>if err != nil { return err }\<close> after a check that gives an error or nil.\<close>

definition require_nil :: "err option \<Rightarrow> (db, unit) tx" where
  "require_nil v = (case v of None \<Rightarrow> tx_return () | Some e \<Rightarrow> tx_fail e)"

section \<open>Completing the rental\<close>

definition rental_complete_key :: "int \<Rightarrow> string" where
  "rental_complete_key rentalID = ''rental:complete:'' @ format_int rentalID"

definition completion_metadata :: "DepositSettlementState \<Rightarrow> string \<Rightarrow> json" where
  "completion_metadata state source =
     [(''event'', JStr ''rental_completed''), (''idempotency_key'', JStr (rental_complete_key (dss_RentalID state))),
      (''rental_id'', JStr (format_int (dss_RentalID state))), (''account_id'', JStr (format_int (dss_AccountID state))),
      (''source'', JStr source)]"

definition completion_values :: "DepositSettlementState \<Rightarrow> string \<Rightarrow> time \<Rightarrow> json" where
  "completion_values state source now =
     [(''status'', JStr ''COMPLETED''), (''completed_at'', JTime now),
      (''completion_key'', JStr (rental_complete_key (dss_RentalID state))), (''completion_source'', JStr source)]"

definition completion_audit :: "int option \<Rightarrow> int \<Rightarrow> json \<Rightarrow> (db, unit) tx" where
  "completion_audit actor rentalID newValues =
     (case actor of
        None \<Rightarrow> InsertSystemAuditLog ''rental'' rentalID ''rental_complete'' [(''status'', JStr ''EXPIRED'')] newValues
      | Some a \<Rightarrow> InsertAuditLog a ''rental'' rentalID ''rental_complete'' [(''status'', JStr ''EXPIRED'')] newValues)"

definition completeRentalAfterSettlement ::
  "DepositSettlementState \<Rightarrow> int option \<Rightarrow> string \<Rightarrow> time \<Rightarrow> DepositSettlementResult \<Rightarrow> (db, DepositSettlementResult) tx" where
  "completeRentalAfterSettlement state actor source now result =
     (if dss_RentalStatus state = 4
      then tx_return (result\<lparr>dsr_RentalStatus := 4, dsr_CompletedAt := dss_CompletedAt state\<rparr>)
      else tx_seq (fail_if (dss_RentalStatus state \<noteq> 3 \<or> dss_PaymentStatus state \<noteq> 2)
                     (PaymentErr ErrDepositSettlementNotAllowed))
          (tx_bind (wrapf ''complete rental'' (MarkRentalCompleted (dss_RentalID state) now)) (\<lambda>changed.
           tx_seq (fail_if (\<not> changed) (PaymentErr ErrDepositSettlementNotAllowed))
          (tx_seq (wrapf ''log rental completion security event''
             (LogDepositSecurityEvent securityEventTypeRentalCompleted (dss_UserID state) (dss_AccountID state)
                (dss_RentalID state) (if actor = None then ''system'' else ''api'') (completion_metadata state source)))
          (tx_seq (wrapf ''insert rental completion audit log''
             (completion_audit actor (dss_RentalID state) (completion_values state source now)))
          (tx_return (result\<lparr>dsr_RentalStatus := 4, dsr_CompletedAt := Some now\<rparr>)))))))"

section \<open>Release by an administrator\<close>

definition settlement_entry :: "DepositSettlementState \<Rightarrow> string \<Rightarrow> string \<Rightarrow> json \<Rightarrow> FinancialLedgerEntry" where
  "settlement_entry state provider key metadata =
     \<lparr>fle_UserID = dss_UserID state, fle_RentalID = dss_RentalID state, fle_PaymentID = dss_PaymentID state,
      fle_AccountID = dss_AccountID state, fle_Amount = dss_Amount state, fle_Currency = dss_Currency state,
      fle_Provider = provider, fle_ExternalTransactionID = [], fle_IdempotencyKey = key, fle_CorrelationID = key,
      fle_Metadata = metadata\<rparr>"

definition deposit_release_key :: "int \<Rightarrow> string" where
  "deposit_release_key rentalID = ''deposit:release:rental:'' @ format_int rentalID"

definition settlement_ids :: "string \<Rightarrow> DepositSettlementState \<Rightarrow> json" where
  "settlement_ids event state = ids_metadata event (dss_PaymentID state) (dss_RentalID state) (dss_AccountID state)"

definition ReleaseDeposit_settle ::
  "DepositSettlementState \<Rightarrow> int \<Rightarrow> time \<Rightarrow> (db, DepositSettlementResult) tx" where
  "ReleaseDeposit_settle state actor now =
     tx_seq (wrapf ''mark deposit released''
       (MarkDepositReleased (dss_HoldID state) depositSettlementSourceAdminRelease (Some actor) now))
    (tx_seq (wrapf ''credit user balance'' (CreditUserBalance (dss_UserID state) (dss_Amount state) now))
    (tx_seq (wrapf ''insert deposit release ledger entry''
       (RecordDepositReleasedToBalance (settlement_entry state [] (deposit_release_key (dss_RentalID state))
          (settlement_ids ''deposit_released_to_balance'' state @
             [(''actor_user'', JStr (format_int actor)), (''recorded_at'', JTime now)]))))
    (tx_seq (wrapf ''log release security event''
       (LogDepositSecurityEvent securityEventTypeDepositReleased (dss_UserID state) (dss_AccountID state)
          (dss_RentalID state) ''api''
          (settlement_ids ''deposit_released'' state @ [(''actor_id'', JStr (format_int actor))])))
    (tx_seq (wrapf ''insert release audit log''
       (InsertAuditLog actor ''deposit_hold'' (dss_HoldID state) ''deposit_release''
          [(''status'', JStr ''HELD'')] [(''status'', JStr ''RELEASED'')]))
    (let settled = state\<lparr>dss_HoldStatus := depositHoldStatusReleased,
           dss_SettlementSource := Some depositSettlementSourceAdminRelease, dss_SettledByUserID := Some actor,
           dss_ReleasedAt := Some now\<rparr>
     in completeRentalAfterSettlement settled (Some actor) ''ADMIN_RELEASE'' now
          (setDepositSettlementResult settled ''RELEASED'' (empty_settlement_result\<lparr>dsr_Changed := True\<rparr>)))))))"

definition ReleaseDeposit_body :: "int \<Rightarrow> int \<Rightarrow> time \<Rightarrow> (db, DepositSettlementResult) tx" where
  "ReleaseDeposit_body actor rentalID now =
     tx_seq (wrap_unless (PaymentErr ErrAdminRequired) ''authorize current admin for deposit release''
       (Payment_RequireCurrentAdmin actor))
    (tx_bind (loadDepositSettlementState rentalID) (\<lambda>state.
     tx_seq (require_nil (validateDepositReleaseState state))
    (if dss_HoldStatus state = depositHoldStatusReleased
     then tx_seq (fail_if (case dss_SettlementSource state of None \<Rightarrow> False
                             | Some src \<Rightarrow> src \<noteq> depositSettlementSourceAdminRelease)
                    (PaymentErr ErrDepositAlreadySettled))
           (completeRentalAfterSettlement state (Some actor) ''ADMIN_RELEASE'' now
              (setDepositSettlementResult state ''RELEASED'' (empty_settlement_result\<lparr>dsr_Idempotent := True\<rparr>)))
     else ReleaseDeposit_settle state actor now)))"

definition with_aliases ::
  "string \<Rightarrow> (err + DepositSettlementResult) \<times> db \<Rightarrow> (err + DepositSettlementResult) \<times> db" where
  "with_aliases status r =
     (case r of (Inl e, s) \<Rightarrow> (Inl e, s) | (Inr result, s) \<Rightarrow> (Inr (setDepositSettlementAliases status result), s))"

definition ReleaseDeposit :: "int \<Rightarrow> string \<Rightarrow> int \<Rightarrow> time \<Rightarrow> db \<Rightarrow> (err + DepositSettlementResult) \<times> db" where
  "ReleaseDeposit actorUserID actorRole rentalID now s =
     (if actorRole \<noteq> ''ADMIN'' then (Inl (PaymentErr ErrAdminRequired), s)
      else with_aliases ''RELEASED'' (WithinTransaction (ReleaseDeposit_body actorUserID rentalID now) s))"

section \<open>Forfeit\<close>

definition deposit_forfeit_key :: "int \<Rightarrow> string" where
  "deposit_forfeit_key rentalID = ''deposit:forfeit:rental:'' @ format_int rentalID"

definition ForfeitDeposit_settle ::
  "DepositSettlementState \<Rightarrow> int \<Rightarrow> string \<Rightarrow> string \<Rightarrow> time \<Rightarrow> (db, DepositSettlementResult) tx" where
  "ForfeitDeposit_settle state actor reasonCode evidenceReference now =
     tx_seq (wrapf ''mark deposit forfeited''
       (MarkDepositForfeited (dss_HoldID state) actor reasonCode evidenceReference now))
    (tx_seq (wrapf ''insert deposit forfeit ledger entry''
       (RecordDepositForfeited (settlement_entry state [] (deposit_forfeit_key (dss_RentalID state))
          [(''event'', JStr ''deposit_forfeited''), (''reason_code'', JStr reasonCode),
           (''evidence_reference'', JStr evidenceReference), (''actor_user'', JStr (format_int actor)),
           (''recorded_at'', JTime now)])))
    (tx_seq (wrapf ''log forfeit security event''
       (LogDepositSecurityEvent securityEventTypeDepositForfeited (dss_UserID state) (dss_AccountID state)
          (dss_RentalID state) ''api''
          ([(''event'', JStr ''deposit_forfeited''), (''reason_code'', JStr reasonCode),
            (''evidence_reference'', JStr evidenceReference), (''actor_id'', JStr (format_int actor))]
           @ tl (settlement_ids ''deposit_forfeited'' state))))
    (tx_seq (wrapf ''insert forfeit audit log''
       (InsertAuditLog actor ''deposit_hold'' (dss_HoldID state) ''deposit_forfeit'' [(''status'', JStr ''HELD'')]
          [(''status'', JStr ''FORFEITED''), (''reason_code'', JStr reasonCode),
           (''evidence_reference'', JStr evidenceReference)]))
    (let settled = state\<lparr>dss_HoldStatus := depositHoldStatusForfeited,
           dss_SettlementSource := Some depositSettlementSourceAdminForfeit, dss_SettledByUserID := Some actor,
           dss_SettlementReasonCode := reasonCode, dss_SettlementEvidenceRef := evidenceReference,
           dss_ForfeitedAt := Some now\<rparr>
     in completeRentalAfterSettlement settled (Some actor) ''ADMIN_FORFEIT'' now
          (setDepositSettlementResult settled ''FORFEITED'' (empty_settlement_result\<lparr>dsr_Changed := True\<rparr>))))))"

definition ForfeitDeposit_body ::
  "int \<Rightarrow> int \<Rightarrow> string \<Rightarrow> string \<Rightarrow> int \<Rightarrow> time \<Rightarrow> (db, DepositSettlementResult) tx" where
  "ForfeitDeposit_body actor rentalID reasonCode evidenceReference evidenceEventID now =
     tx_seq (wrap_unless (PaymentErr ErrAdminRequired) ''authorize current admin for deposit forfeit''
       (Payment_RequireCurrentAdmin actor))
    (tx_bind (loadDepositSettlementState rentalID) (\<lambda>state.
     tx_seq (require_nil (validateDepositForfeitState state now))
    (if dss_HoldStatus state = depositHoldStatusForfeited
     then tx_seq (fail_if (case dss_SettlementSource state of None \<Rightarrow> False
                             | Some src \<Rightarrow> src \<noteq> depositSettlementSourceAdminForfeit \<or>
                                 dss_SettlementReasonCode state \<noteq> reasonCode \<or>
                                 dss_SettlementEvidenceRef state \<noteq> evidenceReference)
                    (PaymentErr ErrDepositAlreadySettled))
           (completeRentalAfterSettlement state (Some actor) ''ADMIN_FORFEIT'' now
              (setDepositSettlementResult state ''FORFEITED'' (empty_settlement_result\<lparr>dsr_Idempotent := True\<rparr>)))
     else tx_bind (wrapf ''verify deposit forfeit evidence''
             (VerifyDepositForfeitEvidence (dss_RentalID state) (dss_UserID state) (dss_AccountID state) evidenceEventID))
            (\<lambda>verified.
          tx_seq (fail_if (\<not> verified) (PaymentErr ErrInvalidEvidenceReference))
            (ForfeitDeposit_settle state actor reasonCode evidenceReference now)))))"

definition ForfeitDeposit ::
  "int \<Rightarrow> string \<Rightarrow> int \<Rightarrow> string \<Rightarrow> string \<Rightarrow> time \<Rightarrow> db \<Rightarrow> (err + DepositSettlementResult) \<times> db" where
  "ForfeitDeposit actorUserID actorRole rentalID reasonCode evidenceReference now s =
     (if actorRole \<noteq> ''ADMIN'' then (Inl (PaymentErr ErrAdminRequired), s)
      else let reasonCode = trim_space reasonCode
           in if \<not> IsAllowedDepositForfeitReasonCode reasonCode then (Inl (PaymentErr ErrInvalidReasonCode), s)
              else let evidenceReference = trim_space evidenceReference;
                       (evidenceEventID, ok) = parseDepositEvidenceReference evidenceReference
                   in if \<not> ok then (Inl (PaymentErr ErrInvalidEvidenceReference), s)
                      else with_aliases ''FORFEITED'' (WithinTransaction
                        (ForfeitDeposit_body actorUserID rentalID reasonCode evidenceReference evidenceEventID now) s))"
end
