(* ===== verification/Settlement_Facts.thy ===== *)
theory Settlement_Facts
  imports Settlement
begin

text \<open>
  What a successful settlement has done: the rows it works on, the inversion of its
  statements into one abstract effect on the database, and the control flow of
  release and forfeit. Both keep the constraints and evolve the rows.
\<close>

section \<open>The loaded state\<close>

definition settling :: "rental_row \<Rightarrow> payment_row \<Rightarrow> hold_row \<Rightarrow> user_row \<Rightarrow> DepositSettlementState" where
  "settling r p d u =
     (hold_columns d (case_option 0 id (d_payment d)) (settlement_state r p 0))\<lparr>dss_UserBalance := u_balance u\<rparr>"

lemma settling_simps [simp]:
  "dss_HoldID (settling r p d u) = d_id d" "dss_RentalID (settling r p d u) = r_id r"
  "dss_UserID (settling r p d u) = r_user r" "dss_AccountID (settling r p d u) = r_account r"
  "dss_PaymentID (settling r p d u) = p_id p" "dss_HoldStatus (settling r p d u) = d_status d"
  "dss_RentalStatus (settling r p d u) = r_status r" "dss_PaymentStatus (settling r p d u) = p_status p"
  "dss_Amount (settling r p d u) = d_amount d" "dss_Currency (settling r p d u) = p_currency p"
  "dss_UserBalance (settling r p d u) = u_balance u" "dss_RentalPrice (settling r p d u) = r_price r"
  "dss_RentalDepositAmount (settling r p d u) = r_deposit r" "dss_ReviewDeadlineAt (settling r p d u) = r_review_deadline r"
  "dss_CompletedAt (settling r p d u) = r_completed r" "dss_HasDepositHold (settling r p d u)"
  "dss_ReleasedAt (settling r p d u) = d_released d" "dss_ForfeitedAt (settling r p d u) = d_forfeited d"
  "dss_RefundedAt (settling r p d u) = d_refunded d" "dss_SettlementSource (settling r p d u) = d_source d"
  "dss_SettledByUserID (settling r p d u) = d_settled_by d"
  "dss_SettlementReasonCode (settling r p d u) = case_option [] id (d_reason d)"
  "dss_SettlementEvidenceRef (settling r p d u) = case_option [] id (d_evidence d)"
  "dss_HoldUserID (settling r p d u) = d_user d" "dss_HoldPaymentID (settling r p d u) = case_option 0 id (d_payment d)"
  "dss_HoldCurrency (settling r p d u) = d_currency d" "dss_Provider (settling r p d u) = p_provider p"
  by (simp_all add: settling_def hold_columns_def settlement_state_def)

text \<open>The rows that a settlement of rental \<open>rid\<close> works on.\<close>

definition settlement_rows :: "db \<Rightarrow> int \<Rightarrow> rental_row \<Rightarrow> payment_row \<Rightarrow> hold_row \<Rightarrow> user_row \<Rightarrow> bool" where
  "settlement_rows s rid r p d u \<longleftrightarrow>
     r \<in> set (rentals s) \<and> p \<in> set (payments s) \<and> d \<in> set (holds s) \<and> u \<in> set (users s) \<and>
     r_id r = rid \<and> p_rental p = rid \<and> p_user p = r_user r \<and> d_rental d = rid \<and> d_payment d \<noteq> None \<and>
     u_id u = r_user r \<and> u_deleted u = None \<and> (\<exists>a\<in>set (accounts s). a_id a = r_account r)"

lemma scan_hold_hold:
  "scan_hold ds (settlement_state r p b) = Inr st \<Longrightarrow> dss_HasDepositHold st \<Longrightarrow>
   \<exists>d\<in>set ds. d_payment d \<noteq> None \<and> st = hold_columns d (case_option 0 id (d_payment d)) (settlement_state r p b)"
  by (cases ds) (auto simp: scan_hold_def settlement_state_def split: option.splits)

lemma LockDepositSettlementState_hold:
  assumes "LockDepositSettlementState rid s = Inr (st, t)" "dss_HasDepositHold st"
  shows "t = s \<and> (\<exists>r p d u. settlement_rows s rid r p d u \<and> st = settling r p d u)"
proof -
  obtain r a p ds st' u where rows: "r \<in> set (rentals s)" "r_id r = rid" "a \<in> set (accounts s)" "a_id a = r_account r"
      "p \<in> set (payments s)" "p_rental p = rid" "p_user p = r_user r" "u \<in> set (users s)" "u_id u = r_user r" "u_deleted u = None"
    and ds: "ds = filter (\<lambda>d. d_rental d = rid) (holds s)" "scan_hold ds (settlement_state r p 0) = Inr st'"
    and st: "st = st'\<lparr>dss_UserBalance := u_balance u\<rparr>" "t = s"
    using assms(1) unfolding LockDepositSettlementState_def
    by (auto simp: tx_bind_ok tx_seq_ok tx_read_ok lift_result_ok tx_return_ok no_rows_as_ok dest!: query_row_set)
  obtain d where d: "d \<in> set ds" "d_payment d \<noteq> None" "st' = hold_columns d (case_option 0 id (d_payment d)) (settlement_state r p 0)"
    using scan_hold_hold [OF ds(2)] assms(2) st by auto
  have "settlement_rows s rid r p d u" "st = settling r p d u"
    using rows ds d st by (auto simp: settlement_rows_def settling_def)
  then show ?thesis using st by blast
qed

lemma loadDepositSettlementState_ok:
  assumes "loadDepositSettlementState rid s = Inr (st, t)"
  shows "t = s \<and> (\<exists>r p d u. settlement_rows s rid r p d u \<and> st = settling r p d u)"
  using assms LockDepositSettlementState_hold [of rid s]
  by (auto simp: loadDepositSettlementState_def tx_inv tx_catch_ok split: option.splits if_splits)

lemma loadDepositSettlementState_find:
  assumes valid: "valid_db s" and rows: "settlement_rows s rid r p d u"
  shows "loadDepositSettlementState rid s = Inr (settling r p d u, s)"
proof -
  note keys = valid_db_keys [OF valid]
  obtain a where a: "a \<in> set (accounts s)" "a_id a = r_account r" using rows by (auto simp: settlement_rows_def)
  note w = rows [unfolded settlement_rows_def]
  have q: "filter (\<lambda>r. r_id r = rid) (rentals s) = [r]" "filter (\<lambda>a. a_id a = r_account r) (accounts s) = [a]"
    "filter (\<lambda>p. p_rental p = r_id r \<and> p_user p = r_user r) (payments s) = [p]"
    "filter (\<lambda>d. d_rental d = r_id r) (holds s) = [d]"
    "filter (\<lambda>u. u_id u = r_user r \<and> u_deleted u = None) (users s) = [u]"
    using w a keys
    by (auto intro!: filter_unique [where key = r_id] filter_unique [where key = a_id] filter_unique [where key = p_rental]
        filter_unique [where key = d_rental] filter_unique [where key = u_id] dest: key_inj [OF keys(5)] key_inj [OF keys(1)])
  obtain pid where "d_payment d = Some pid" using w by auto
  then show ?thesis
    using q by (simp add: loadDepositSettlementState_def LockDepositSettlementState_def tx_defs scan_hold_def settling_def
        hold_columns_def settlement_state_def)
qed

section \<open>What a settlement has done\<close>

lemma settlement_entry_simps [simp]:
  "fle_UserID (settlement_entry st pr k m) = dss_UserID st" "fle_RentalID (settlement_entry st pr k m) = dss_RentalID st"
  "fle_PaymentID (settlement_entry st pr k m) = dss_PaymentID st" "fle_AccountID (settlement_entry st pr k m) = dss_AccountID st"
  "fle_Amount (settlement_entry st pr k m) = dss_Amount st" "fle_Currency (settlement_entry st pr k m) = dss_Currency st"
  "fle_IdempotencyKey (settlement_entry st pr k m) = k"
  by (simp_all add: settlement_entry_def)

lemma require_nil_ok [tx_inv]: "require_nil v s = Inr r \<longleftrightarrow> v = None \<and> r = ((), s)"
  by (auto simp: require_nil_def tx_inv split: option.splits)

lemma completion_audit_ok [tx_inv]:
  "completion_audit actor rid new s = Inr r \<longleftrightarrow>
     (let row = new_audit actor ''rental'' rid ''rental_complete'' [(''status'', JStr ''EXPIRED'')] new (sequences s Audits) (clock s)
      in insert_ok audit_schema row (audits s) \<and> r = ((), (bump Audits s)\<lparr>audits := audits s @ [row]\<rparr>))"
  by (auto simp: completion_audit_def event_loggers tx_inv split: option.splits)

definition completed_row :: "rental_row \<Rightarrow> time \<Rightarrow> rental_row" where
  "completed_row r now = r\<lparr>r_status := 4, r_completed := Some (pg_ts now), r_updated := pg_ts now\<rparr>"

lemma completed_row_simps [simp]:
  "r_id (completed_row r now) = r_id r" "r_user (completed_row r now) = r_user r" "r_account (completed_row r now) = r_account r"
  "r_status (completed_row r now) = 4" "r_deposit (completed_row r now) = r_deposit r"
  "r_completed (completed_row r now) = Some (pg_ts now)" "r_price (completed_row r now) = r_price r"
  by (simp_all add: completed_row_def)

text \<open>The rental is completed, one event and one audit record are appended, and nothing else moves.\<close>

lemma complete_rental_ok:
  assumes "distinct (map r_id (rentals s))" "r \<in> set (rentals s)" "r_id r = dss_RentalID st"
    and "completeRentalAfterSettlement st actor source now res s = Inr (res', t)" "dss_RentalStatus st \<noteq> 4"
  shows "\<exists>e g q. t = s\<lparr>rentals := set_row r_id (completed_row r now) (rentals s), events := events s @ [e],
       audits := audits s @ [g], sequences := q\<rparr> \<and>
     r_status r = 3 \<and> completion_allowed s r \<and> dss_RentalStatus st = 3 \<and> dss_PaymentStatus st = 2 \<and>
     res' = res\<lparr>dsr_RentalStatus := 4, dsr_CompletedAt := Some now\<rparr> \<and>
     e_type e = 16 \<and> e_rental e = Some (dss_RentalID st) \<and> e_user e = Some (dss_UserID st) \<and>
     g_action g = ''rental_complete'' \<and> g_actor g = actor"
proof -
  let ?P = "\<lambda>x. r_id x = dss_RentalID st \<and> r_status x = 3 \<and> completion_allowed s x"
  obtain s1 s2 ag md nv where m: "MarkRentalCompleted (dss_RentalID st) now s = Inr (True, s1)"
    and e: "LogDepositSecurityEvent 16 (dss_UserID st) (dss_AccountID st) (dss_RentalID st) ag md s1 = Inr ((), s2)"
    and g: "completion_audit actor (dss_RentalID st) nv s2 = Inr ((), t)"
    and rest: "dss_RentalStatus st = 3" "dss_PaymentStatus st = 2" "res' = res\<lparr>dsr_RentalStatus := 4, dsr_CompletedAt := Some now\<rparr>"
    using assms(4,5) unfolding completeRentalAfterSettlement_def
    by (auto simp: tx_seq_ok tx_bind_ok tx_if_ok fail_if_ok wrapf_ok tx_return_ok)
  have one: "length (filter ?P (rentals s)) = 1" and s1: "s1 = s\<lparr>rentals := upd ?P (\<lambda>r. completed_row r now) (rentals s)\<rparr>"
    using m unfolding MarkRentalCompleted_ok Let_def completed_row_def by (auto simp only: prod.inject)
  from one obtain r' where r': "r' \<in> set (rentals s)" "?P r'"
    using length_filter_pos [of ?P "rentals s"] by auto
  have "r' = r" using key_inj [OF assms(1) r'(1) assms(2)] r'(2) assms(3) by simp
  then have P: "?P r" using r' by simp
  have u: "upd ?P (\<lambda>r. completed_row r now) (rentals s) = set_row r_id (completed_row r now) (rentals s)"
    by (rule upd_set_row [OF assms(1,2)]) (use P in auto)
  define e' g' q q2 where "e' = last (events s2)" and "g' = last (audits t)" and "q = sequences t" and "q2 = sequences s2"
  have t: "t = s2\<lparr>audits := audits s2 @ [g'], sequences := q\<rparr>" "g_action g' = ''rental_complete''" "g_actor g' = actor"
    using g unfolding g'_def q_def by (simp_all add: completion_audit_ok Let_def bump_def)
  have s2: "s2 = s1\<lparr>events := events s1 @ [e'], sequences := q2\<rparr>"
    "e_type e' = 16" "e_rental e' = Some (dss_RentalID st)" "e_user e' = Some (dss_UserID st)"
    using e unfolding e'_def q2_def by (simp_all add: LogDepositSecurityEvent_def insert_event_ok Let_def bump_def)
  have "t = s\<lparr>rentals := set_row r_id (completed_row r now) (rentals s), events := events s @ [e'],
       audits := audits s @ [g'], sequences := q\<rparr>"
    unfolding t s2 s1 u by simp
  then show ?thesis
    using rest P t(2,3) s2(2-4) by blast
qed

text \<open>
  The abstract effect of a settlement that completes rental \<open>r\<close>: the hold \<open>d\<close> becomes
  \<open>d'\<close>, the users' rows become \<open>us\<close>.
\<close>

definition settled_db ::
  "rental_row \<Rightarrow> hold_row \<Rightarrow> user_row list \<Rightarrow> ledger_row \<Rightarrow> event_row list \<Rightarrow> audit_row list \<Rightarrow>
   (tbl \<Rightarrow> int) \<Rightarrow> time \<Rightarrow> db \<Rightarrow> db" where
  "settled_db r d' us l es gs q now s = s
     \<lparr>holds := set_row d_id d' (holds s), users := us, rentals := set_row r_id (completed_row r now) (rentals s),
      ledger := ledger s @ [l], events := events s @ es, audits := audits s @ gs, sequences := q\<rparr>"

definition released_row :: "hold_row \<Rightarrow> int \<Rightarrow> int option \<Rightarrow> time \<Rightarrow> hold_row" where
  "released_row d source actor now = d\<lparr>d_status := 2, d_released := Some (pg_ts now), d_source := Some source,
     d_settled_by := actor, d_reason := None, d_evidence := None, d_updated := pg_ts now\<rparr>"

definition forfeited_row :: "hold_row \<Rightarrow> int \<Rightarrow> string \<Rightarrow> string \<Rightarrow> time \<Rightarrow> hold_row" where
  "forfeited_row d actor reason evidence now = d\<lparr>d_status := 3, d_forfeited := Some (pg_ts now), d_source := Some 2,
     d_settled_by := Some actor, d_reason := Some reason, d_evidence := Some evidence, d_updated := pg_ts now\<rparr>"

definition credited :: "user_row \<Rightarrow> int \<Rightarrow> time \<Rightarrow> user_row list \<Rightarrow> user_row list" where
  "credited u amount now us = set_row u_id (u\<lparr>u_balance := u_balance u + amount, u_updated := pg_ts now\<rparr>) us"

lemma MarkDepositReleased_row:
  assumes "distinct (map d_id (holds s))" "d \<in> set (holds s)"
    and "MarkDepositReleased (d_id d) source actor now s = Inr (x, t)"
  shows "d_status d = 1 \<and> t = s\<lparr>holds := set_row d_id (released_row d source actor now) (holds s)\<rparr>"
proof -
  let ?P = "\<lambda>x. d_id x = d_id d \<and> d_status x = 1"
  have t: "t = s\<lparr>holds := upd ?P (\<lambda>d. released_row d source actor now) (holds s)\<rparr>" and ex: "\<exists>x\<in>set (holds s). ?P x"
    using assms(3) by (auto simp: MarkDepositReleased_ok Let_def released_row_def [abs_def])
  then have "?P d" using key_inj [OF assms(1) _ assms(2)] by auto
  moreover have "upd ?P (\<lambda>d. released_row d source actor now) (holds s) = set_row d_id (released_row d source actor now) (holds s)"
    by (rule upd_set_row [OF assms(1,2)]) (use calculation in \<open>auto simp: released_row_def\<close>)
  ultimately show ?thesis using t by simp
qed

lemma MarkDepositForfeited_row:
  assumes "distinct (map d_id (holds s))" "d \<in> set (holds s)"
    and "MarkDepositForfeited (d_id d) actor reason ev now s = Inr (x, t)"
  shows "d_status d = 1 \<and> t = s\<lparr>holds := set_row d_id (forfeited_row d actor reason ev now) (holds s)\<rparr>"
proof -
  let ?P = "\<lambda>x. d_id x = d_id d \<and> d_status x = 1"
  have t: "t = s\<lparr>holds := upd ?P (\<lambda>d. forfeited_row d actor reason ev now) (holds s)\<rparr>" and ex: "\<exists>x\<in>set (holds s). ?P x"
    using assms(3) by (auto simp: MarkDepositForfeited_ok Let_def forfeited_row_def [abs_def])
  then have "?P d" using key_inj [OF assms(1) _ assms(2)] by auto
  moreover have "upd ?P (\<lambda>d. forfeited_row d actor reason ev now) (holds s) = set_row d_id (forfeited_row d actor reason ev now) (holds s)"
    by (rule upd_set_row [OF assms(1,2)]) (use calculation in \<open>auto simp: forfeited_row_def\<close>)
  ultimately show ?thesis using t by simp
qed

lemma CreditUserBalance_row:
  assumes "distinct (map u_id (users s))" "u \<in> set (users s)" "CreditUserBalance (u_id u) amt now s = Inr (x, t)"
  shows "t = s\<lparr>users := credited u amt now (users s)\<rparr> \<and> is_i64 (u_balance u + amt)"
proof -
  let ?f = "\<lambda>u. u\<lparr>u_balance := u_balance u + amt, u_updated := pg_ts now\<rparr>"
  have t: "t = s\<lparr>users := upd (\<lambda>x. u_id x = u_id u) ?f (users s)\<rparr>"
    and ok: "update_ok user_schema (\<lambda>x. u_id x = u_id u) ?f (users s)"
    using assms(3) by (auto simp: CreditUserBalance_ok Let_def)
  have "upd (\<lambda>x. u_id x = u_id u) ?f (users s) = credited u amt now (users s)"
    unfolding credited_def by (rule upd_set_row [OF assms(1,2)]) auto
  moreover have "checks user_schema (?f u) = None" using update_ok_checks [OF ok assms(2)] by simp
  ultimately show ?thesis using t by (simp add: user_checks)
qed

section \<open>Results\<close>

lemma settlement_result_simps [simp]:
  "dsr_Changed (setDepositSettlementAliases status res) = dsr_Changed res"
  "dsr_Idempotent (setDepositSettlementAliases status res) = dsr_Idempotent res"
  "dsr_RentalStatus (setDepositSettlementAliases status res) = dsr_RentalStatus res"
  "dsr_Changed (setDepositSettlementResult st status res) = dsr_Changed res"
  "dsr_Idempotent (setDepositSettlementResult st status res) = dsr_Idempotent res"
  "dsr_Changed empty_settlement_result = False" "dsr_Idempotent empty_settlement_result = False"
  "dsr_DepositStatus empty_settlement_result = []"
  by (simp_all add: setDepositSettlementAliases_def setDepositSettlementResult_def empty_settlement_result_def Let_def)

lemma complete_result:
  "completeRentalAfterSettlement st actor source now res s = Inr (res', t) \<Longrightarrow>
   dsr_Changed res' = dsr_Changed res \<and> dsr_Idempotent res' = dsr_Idempotent res \<and> dsr_RentalStatus res' = 4"
  by (auto simp: completeRentalAfterSettlement_def tx_inv)

lemma with_aliases_ok:
  "with_aliases status r = (Inr res, t) \<longleftrightarrow> (\<exists>r0. r = (Inr r0, t) \<and> res = setDepositSettlementAliases status r0)"
  by (auto simp: with_aliases_def split: prod.splits sum.splits)

lemma ReleaseDeposit_ok:
  "ReleaseDeposit actor role rid now s = (Inr res, t) \<longleftrightarrow>
     role = ''ADMIN'' \<and> (\<exists>r0. ReleaseDeposit_body actor rid now s = Inr (r0, t) \<and> res = setDepositSettlementAliases ''RELEASED'' r0)"
  by (auto simp: ReleaseDeposit_def with_aliases_ok WithinTransaction_ok)

lemma ForfeitDeposit_ok:
  "ForfeitDeposit actor role rid reason ev now s = (Inr res, t) \<longleftrightarrow>
     role = ''ADMIN'' \<and> IsAllowedDepositForfeitReasonCode (trim_space reason) \<and>
     (\<exists>i r0. parseDepositEvidenceReference (trim_space ev) = (i, True) \<and>
        ForfeitDeposit_body actor rid (trim_space reason) (trim_space ev) i now s = Inr (r0, t) \<and>
        res = setDepositSettlementAliases ''FORFEITED'' r0)"
  by (auto simp: ForfeitDeposit_def with_aliases_ok WithinTransaction_ok Let_def split: prod.splits)

lemma validateDepositReleaseState_held:
  "validateDepositReleaseState (settling r p d u) = None \<Longrightarrow> d_status d \<noteq> 2 \<Longrightarrow>
   d_status d = 1 \<and> p_status p = 2 \<and> r_status r = 3 \<and> 0 < r_deposit r \<and> d_amount d = r_deposit r \<and> d_user d = r_user r \<and>
   case_option 0 id (d_payment d) = p_id p \<and> d_currency d = p_currency p \<and> r_review_deadline r \<noteq> None"
  by (auto simp: validateDepositReleaseState_def isConsistentPositiveDepositState_def split: if_splits)

lemma validateDepositForfeitState_held:
  "validateDepositForfeitState (settling r p d u) now = None \<Longrightarrow> d_status d \<noteq> 3 \<Longrightarrow>
   d_status d = 1 \<and> p_status p = 2 \<and> r_status r = 3 \<and> 0 < r_deposit r \<and> d_amount d = r_deposit r \<and> d_user d = r_user r \<and>
   case_option 0 id (d_payment d) = p_id p \<and> d_currency d = p_currency p \<and>
   (\<exists>deadline. r_review_deadline r = Some deadline \<and> now < deadline)"
  by (auto simp: validateDepositForfeitState_def isConsistentPositiveDepositState_def split: if_splits option.splits)

section \<open>Release\<close>

definition settlement_ledger :: "int \<Rightarrow> string \<Rightarrow> rental_row \<Rightarrow> hold_row \<Rightarrow> ledger_row \<Rightarrow> bool" where
  "settlement_ledger ty key r d l \<longleftrightarrow>
     l_type l = ty \<and> l_user l = Some (r_user r) \<and> l_rental l = Some (r_id r) \<and> l_amount l = d_amount d \<and> l_key l = key"

lemma one_entry:
  "insertLedgerEntry ty entry s = Inr (x, t) \<Longrightarrow>
   t = s\<lparr>ledger := ledger s @ [ledger_entry_row ty entry (sequences s Ledger) (clock s)], sequences := sequences t\<rparr>"
  by (simp add: insertLedgerEntry_ok Let_def bump_def)

lemma one_event:
  "insert_event inet u a r ty ip agent md created s = Inr (x, t) \<Longrightarrow>
   t = s\<lparr>events := events s @ [new_event u a r ty ip agent md (case_option (clock s) id created) (sequences s Events)], sequences := sequences t\<rparr>"
  by (simp add: insert_event_ok Let_def bump_def)

lemma one_audit:
  "insert_audit actor en i act old new s = Inr (x, t) \<Longrightarrow>
   t = s\<lparr>audits := audits s @ [new_audit actor en i act old new (sequences s Audits) (clock s)], sequences := sequences t\<rparr>"
  by (simp add: insert_audit_ok Let_def bump_def)

lemma release_settled:
  assumes valid: "valid_db s" and rows: "settlement_rows s rid r p d u" and "r_status r \<noteq> 4"
    and run: "ReleaseDeposit_settle (settling r p d u) actor now s = Inr (res, t)"
  obtains l e1 e2 g1 g2 q where
    "t = settled_db r (released_row d 1 (Some actor) now) (credited u (d_amount d) now (users s)) l [e1, e2] [g1, g2] q now s"
    "settlement_ledger 3 (deposit_release_key rid) r d l" "d_status d = 1" "is_i64 (u_balance u + d_amount d)"
    "e_type e1 = 11" "e_type e2 = 16" "g_action g1 = ''deposit_release''" "g_action g2 = ''rental_complete''"
    "g_actor g1 = Some actor" "g_actor g2 = Some actor" "dsr_Changed res" "\<not> dsr_Idempotent res"
proof -
  note keys = valid_db_keys [OF valid]
  note w = rows [unfolded settlement_rows_def]
  let ?st = "settling r p d u"
  obtain s1 s2 s3 s4 s5 m1 m2 st where
    1: "MarkDepositReleased (d_id d) 1 (Some actor) now s = Inr ((), s1)"
    and 2: "CreditUserBalance (u_id u) (d_amount d) now s1 = Inr ((), s2)"
    and 3: "insertLedgerEntry 3 (settlement_entry ?st [] (deposit_release_key rid) m1) s2 = Inr ((), s3)"
    and 4: "insert_event (\<lambda>_. True) (Some (r_user r)) (Some (r_account r)) (Some rid) 11 None (Some ''api'') m2 None s3 = Inr ((), s4)"
    and 5: "insert_audit (Some actor) ''deposit_hold'' (d_id d) ''deposit_release'' [(''status'', JStr ''HELD'')] [(''status'', JStr ''RELEASED'')] s4 = Inr ((), s5)"
    and 6: "completeRentalAfterSettlement st (Some actor) ''ADMIN_RELEASE'' now
       (setDepositSettlementResult st ''RELEASED'' (empty_settlement_result\<lparr>dsr_Changed := True\<rparr>)) s5 = Inr (res, t)"
    and st: "dss_RentalID st = rid" "dss_RentalStatus st = r_status r"
    using run w unfolding ReleaseDeposit_settle_def Let_def RecordDepositReleasedToBalance_def event_loggers
    by (auto simp: tx_seq_ok wrapf_ok)
  note 1 = MarkDepositReleased_row [OF keys(7) _ 1]
  have d: "d_status d = 1" and s1: "s1 = s\<lparr>holds := set_row d_id (released_row d 1 (Some actor) now) (holds s)\<rparr>"
    using 1 w by auto
  have s2: "s2 = s1\<lparr>users := credited u (d_amount d) now (users s)\<rparr>" and fits: "is_i64 (u_balance u + d_amount d)"
    using CreditUserBalance_row [OF _ _ 2] keys(1) w by (simp_all add: s1)
  define l e1 g1 q3 q4 q5 where "l = ledger_entry_row 3 (settlement_entry ?st [] (deposit_release_key rid) m1) (sequences s2 Ledger) (clock s2)"
    and "e1 = new_event (Some (r_user r)) (Some (r_account r)) (Some rid) 11 None (Some ''api'') m2 (clock s3) (sequences s3 Events)"
    and "g1 = new_audit (Some actor) ''deposit_hold'' (d_id d) ''deposit_release'' [(''status'', JStr ''HELD'')] [(''status'', JStr ''RELEASED'')] (sequences s4 Audits) (clock s4)"
    and "q3 = sequences s3" and "q4 = sequences s4" and "q5 = sequences s5"
  have s3: "s3 = s2\<lparr>ledger := ledger s2 @ [l], sequences := q3\<rparr>" unfolding l_def q3_def by (rule one_entry [OF 3])
  have s4: "s4 = s3\<lparr>events := events s3 @ [e1], sequences := q4\<rparr>" unfolding e1_def q4_def using one_event [OF 4] by simp
  have s5: "s5 = s4\<lparr>audits := audits s4 @ [g1], sequences := q5\<rparr>" unfolding g1_def q5_def by (rule one_audit [OF 5])
  have frame: "rentals s5 = rentals s" unfolding s5 s4 s3 s2 s1 by simp
  have c: "distinct (map r_id (rentals s5))" "r \<in> set (rentals s5)" "r_id r = dss_RentalID st" "dss_RentalStatus st \<noteq> 4"
    using keys(3) w st assms(3) by (simp_all add: frame)
  obtain e2 g2 q where t: "t = s5\<lparr>rentals := set_row r_id (completed_row r now) (rentals s5), events := events s5 @ [e2], audits := audits s5 @ [g2], sequences := q\<rparr>"
    and o: "e_type e2 = 16" "g_action g2 = ''rental_complete''" "g_actor g2 = Some actor"
    using complete_rental_ok [OF c(1-3) 6 c(4)] by blast
  have t': "t = settled_db r (released_row d 1 (Some actor) now) (credited u (d_amount d) now (users s)) l [e1, e2] [g1, g2] q now s"
    unfolding t s5 s4 s3 s2 s1 settled_db_def by simp
  have "settlement_ledger 3 (deposit_release_key rid) r d l"
    using w by (simp add: settlement_ledger_def l_def)
  moreover have "e_type e1 = 11" "g_action g1 = ''deposit_release''" "g_actor g1 = Some actor"
    by (simp_all add: e1_def g1_def)
  moreover have "dsr_Changed res" "\<not> dsr_Idempotent res"
    using complete_result [OF 6] by simp_all
  ultimately show thesis using that t' d fits o by blast
qed

section \<open>Forfeit\<close>

lemma forfeit_settled:
  assumes valid: "valid_db s" and rows: "settlement_rows s rid r p d u" and "r_status r \<noteq> 4"
    and run: "ForfeitDeposit_settle (settling r p d u) actor reason evidence now s = Inr (res, t)"
  obtains l e1 e2 g1 g2 q where
    "t = settled_db r (forfeited_row d actor reason evidence now) (users s) l [e1, e2] [g1, g2] q now s"
    "settlement_ledger 4 (deposit_forfeit_key rid) r d l" "d_status d = 1"
    "e_type e1 = 12" "e_type e2 = 16" "g_action g1 = ''deposit_forfeit''" "g_action g2 = ''rental_complete''"
    "g_actor g1 = Some actor" "g_actor g2 = Some actor" "dsr_Changed res" "\<not> dsr_Idempotent res"
proof -
  note keys = valid_db_keys [OF valid]
  note w = rows [unfolded settlement_rows_def]
  let ?st = "settling r p d u"
  obtain s1 s3 s4 s5 m1 m2 n2 st where
    1: "MarkDepositForfeited (d_id d) actor reason evidence now s = Inr ((), s1)"
    and 3: "insertLedgerEntry 4 (settlement_entry ?st [] (deposit_forfeit_key rid) m1) s1 = Inr ((), s3)"
    and 4: "insert_event (\<lambda>_. True) (Some (r_user r)) (Some (r_account r)) (Some rid) 12 None (Some ''api'') m2 None s3 = Inr ((), s4)"
    and 5: "insert_audit (Some actor) ''deposit_hold'' (d_id d) ''deposit_forfeit'' [(''status'', JStr ''HELD'')] n2 s4 = Inr ((), s5)"
    and 6: "completeRentalAfterSettlement st (Some actor) ''ADMIN_FORFEIT'' now
       (setDepositSettlementResult st ''FORFEITED'' (empty_settlement_result\<lparr>dsr_Changed := True\<rparr>)) s5 = Inr (res, t)"
    and st: "dss_RentalID st = rid" "dss_RentalStatus st = r_status r"
    using run w unfolding ForfeitDeposit_settle_def Let_def RecordDepositForfeited_def event_loggers
    by (auto simp: tx_seq_ok wrapf_ok)
  have d: "d_status d = 1" and s1: "s1 = s\<lparr>holds := set_row d_id (forfeited_row d actor reason evidence now) (holds s)\<rparr>"
    using MarkDepositForfeited_row [OF keys(7) _ 1] w by auto
  define l e1 g1 q3 q4 q5 where "l = ledger_entry_row 4 (settlement_entry ?st [] (deposit_forfeit_key rid) m1) (sequences s1 Ledger) (clock s1)"
    and "e1 = new_event (Some (r_user r)) (Some (r_account r)) (Some rid) 12 None (Some ''api'') m2 (clock s3) (sequences s3 Events)"
    and "g1 = new_audit (Some actor) ''deposit_hold'' (d_id d) ''deposit_forfeit'' [(''status'', JStr ''HELD'')] n2 (sequences s4 Audits) (clock s4)"
    and "q3 = sequences s3" and "q4 = sequences s4" and "q5 = sequences s5"
  have s3: "s3 = s1\<lparr>ledger := ledger s1 @ [l], sequences := q3\<rparr>" unfolding l_def q3_def by (rule one_entry [OF 3])
  have s4: "s4 = s3\<lparr>events := events s3 @ [e1], sequences := q4\<rparr>" unfolding e1_def q4_def using one_event [OF 4] by simp
  have s5: "s5 = s4\<lparr>audits := audits s4 @ [g1], sequences := q5\<rparr>" unfolding g1_def q5_def by (rule one_audit [OF 5])
  have frame: "rentals s5 = rentals s" unfolding s5 s4 s3 s1 by simp
  have c: "distinct (map r_id (rentals s5))" "r \<in> set (rentals s5)" "r_id r = dss_RentalID st" "dss_RentalStatus st \<noteq> 4"
    using keys(3) w st assms(3) by (simp_all add: frame)
  obtain e2 g2 q where t: "t = s5\<lparr>rentals := set_row r_id (completed_row r now) (rentals s5), events := events s5 @ [e2], audits := audits s5 @ [g2], sequences := q\<rparr>"
    and o: "e_type e2 = 16" "g_action g2 = ''rental_complete''" "g_actor g2 = Some actor"
    using complete_rental_ok [OF c(1-3) 6 c(4)] by blast
  have t': "t = settled_db r (forfeited_row d actor reason evidence now) (users s) l [e1, e2] [g1, g2] q now s"
    unfolding t s5 s4 s3 s1 settled_db_def by simp
  have "settlement_ledger 4 (deposit_forfeit_key rid) r d l"
    using w by (simp add: settlement_ledger_def l_def)
  moreover have "e_type e1 = 12" "g_action g1 = ''deposit_forfeit''" "g_actor g1 = Some actor"
    by (simp_all add: e1_def g1_def)
  moreover have "dsr_Changed res" "\<not> dsr_Idempotent res"
    using complete_result [OF 6] by simp_all
  ultimately show thesis using that t' d o by blast
qed

section \<open>Control flow of the two operations\<close>

lemma ReleaseDeposit_body_ok:
  assumes "ReleaseDeposit_body actor rid now s = Inr (res, t)"
  obtains r p d u where "is_current_admin s actor" "settlement_rows s rid r p d u"
    "validateDepositReleaseState (settling r p d u) = None"
    "d_status d = 2 \<and> (\<forall>src. d_source d = Some src \<longrightarrow> src = 1) \<and>
       completeRentalAfterSettlement (settling r p d u) (Some actor) ''ADMIN_RELEASE'' now
         (setDepositSettlementResult (settling r p d u) ''RELEASED'' (empty_settlement_result\<lparr>dsr_Idempotent := True\<rparr>)) s = Inr (res, t) \<or>
     d_status d \<noteq> 2 \<and> ReleaseDeposit_settle (settling r p d u) actor now s = Inr (res, t)"
proof -
  obtain st s' where admin: "is_current_admin s actor" and load: "loadDepositSettlementState rid s = Inr (st, s')"
    and rest: "validateDepositReleaseState st = None"
      "dss_HoldStatus st = 2 \<and> (\<forall>src. dss_SettlementSource st = Some src \<longrightarrow> src = 1) \<and>
       completeRentalAfterSettlement st (Some actor) ''ADMIN_RELEASE'' now
         (setDepositSettlementResult st ''RELEASED'' (empty_settlement_result\<lparr>dsr_Idempotent := True\<rparr>)) s' = Inr (res, t) \<or>
     dss_HoldStatus st \<noteq> 2 \<and> ReleaseDeposit_settle st actor now s' = Inr (res, t)"
    using assms unfolding ReleaseDeposit_body_def
    by (auto simp: tx_seq_ok tx_bind_ok wrap_unless_ok require_nil_ok tx_if_ok fail_if_ok split: option.splits
        dest!: Payment_RequireCurrentAdmin_ok)
  obtain r p d u where "s' = s" "settlement_rows s rid r p d u" "st = settling r p d u"
    using loadDepositSettlementState_ok [OF load] by auto
  with admin rest that show thesis by simp
qed

lemma ForfeitDeposit_body_ok:
  assumes "ForfeitDeposit_body actor rid reason evidence i now s = Inr (res, t)"
  obtains r p d u where "is_current_admin s actor" "settlement_rows s rid r p d u"
    "validateDepositForfeitState (settling r p d u) now = None"
    "d_status d = 3 \<and> (d_source d \<noteq> None \<longrightarrow> d_source d = Some 2 \<and> case_option [] id (d_reason d) = reason \<and> case_option [] id (d_evidence d) = evidence) \<and>
       completeRentalAfterSettlement (settling r p d u) (Some actor) ''ADMIN_FORFEIT'' now
         (setDepositSettlementResult (settling r p d u) ''FORFEITED'' (empty_settlement_result\<lparr>dsr_Idempotent := True\<rparr>)) s = Inr (res, t) \<or>
     d_status d \<noteq> 3 \<and> VerifyDepositForfeitEvidence rid (r_user r) (r_account r) i s = Inr (True, s) \<and>
       ForfeitDeposit_settle (settling r p d u) actor reason evidence now s = Inr (res, t)"
proof -
  obtain st s' where admin: "is_current_admin s actor" and load: "loadDepositSettlementState rid s = Inr (st, s')"
    and rest: "validateDepositForfeitState st now = None"
      "dss_HoldStatus st = 3 \<and> (dss_SettlementSource st \<noteq> None \<longrightarrow> dss_SettlementSource st = Some 2 \<and>
         dss_SettlementReasonCode st = reason \<and> dss_SettlementEvidenceRef st = evidence) \<and>
       completeRentalAfterSettlement st (Some actor) ''ADMIN_FORFEIT'' now
         (setDepositSettlementResult st ''FORFEITED'' (empty_settlement_result\<lparr>dsr_Idempotent := True\<rparr>)) s' = Inr (res, t) \<or>
     dss_HoldStatus st \<noteq> 3 \<and> VerifyDepositForfeitEvidence (dss_RentalID st) (dss_UserID st) (dss_AccountID st) i s' = Inr (True, s') \<and>
       ForfeitDeposit_settle st actor reason evidence now s' = Inr (res, t)"
    using assms unfolding ForfeitDeposit_body_def
    by (auto simp: tx_seq_ok tx_bind_ok wrap_unless_ok wrapf_ok require_nil_ok tx_if_ok fail_if_ok VerifyDepositForfeitEvidence_def tx_read_ok
        split: option.splits dest!: Payment_RequireCurrentAdmin_ok)
  obtain r p d u where "s' = s" "settlement_rows s rid r p d u" "st = settling r p d u"
    using loadDepositSettlementState_ok [OF load] by auto
  with admin rest that show thesis by (auto simp: settlement_rows_def)
qed

lemmas settlement_defs = ReleaseDeposit_body_def ForfeitDeposit_body_def ReleaseDeposit_settle_def ForfeitDeposit_settle_def
  completeRentalAfterSettlement_def completion_audit_def loadDepositSettlementState_def require_nil_def
  ledger_recorders event_loggers payment_statements payment_reads admin_reads

lemma settlement_valid [closed_intros]:
  "valid.closed (ReleaseDeposit_body actor rid now)"
  "valid.closed (ForfeitDeposit_body actor rid reason ev i now)"
  unfolding settlement_defs by (intro closed_intros)+

lemma settlement_evolves [closed_intros]:
  "evolution.closed (ReleaseDeposit_body actor rid now)"
  "evolution.closed (ForfeitDeposit_body actor rid reason ev i now)"
  unfolding settlement_defs by (intro closed_intros; auto simp: row_nexts)+

end
