(* ===== verification/Settlement_Properties.thy ===== *)
theory Settlement_Properties
  imports Settlement_Facts
begin

text \<open>
  The properties of deposit settlement: the effect of a release and of a forfeit, the
  outcome of every later operation on a settled deposit, the administrator check, and
  the form of evidence references.
\<close>

section \<open>A database with an expired rental\<close>

definition hold4 :: hold_row where
  "hold4 = \<lparr>d_id = 4, d_rental = 7, d_user = 2, d_payment = Some 9, d_amount = 50, d_currency = ''USD'', d_status = 1,
     d_held = Some Minute, d_released = None, d_forfeited = None, d_refunded = None, d_refund = None,
     d_key = deposit_hold_key 7, d_source = None, d_settled_by = None, d_reason = None, d_evidence = None,
     d_created = Minute, d_updated = Minute\<rparr>"

definition incident6 :: event_row where
  "incident6 = new_event (Some 2) (Some 5) (Some 7) 6 None None [] Hour 6"

definition expired_db :: db where
  "expired_db = waiting_db
     \<lparr>rentals := [rental7\<lparr>r_status := 3, r_finished := Some (3 * Hour), r_review_deadline := Some (27 * Hour)\<rparr>],
      payments := [payment9\<lparr>p_status := 2, p_processed := Some Minute\<rparr>], accounts := [account5\<lparr>a_status := 2\<rparr>],
      holds := [hold4], events := [incident6], clock := 4 * Hour\<rparr>"

lemma expired_db_valid: "valid_db expired_db"
  by code_simp

section \<open>Properties\<close>

lemma release_changed:
  assumes valid: "valid_db s" and run: "ReleaseDeposit actor role rid now s = (Inr res, t)" and changed: "dsr_Changed res"
  shows "role = ''ADMIN'' \<and> is_current_admin s actor \<and>
     (\<exists>r p d u l e1 e2 g1 g2 q. settlement_rows s rid r p d u \<and> d_status d = 1 \<and> r_status r = 3 \<and> p_status p = 2 \<and>
        d_amount d = r_deposit r \<and> 0 < r_deposit r \<and> is_i64 (u_balance u + r_deposit r) \<and>
        t = settled_db r (released_row d 1 (Some actor) now) (credited u (r_deposit r) now (users s)) l [e1, e2] [g1, g2] q now s \<and>
        settlement_ledger 3 (deposit_release_key rid) r d l \<and> e_type e1 = 11 \<and> e_type e2 = 16 \<and>
        g_action g1 = ''deposit_release'' \<and> g_action g2 = ''rental_complete'' \<and> g_actor g1 = Some actor \<and> g_actor g2 = Some actor)"
proof -
  obtain r0 where role: "role = ''ADMIN''" and body: "ReleaseDeposit_body actor rid now s = Inr (r0, t)" and r0: "dsr_Changed r0"
    using run changed by (auto simp: ReleaseDeposit_ok)
  show ?thesis
  proof (rule ReleaseDeposit_body_ok [OF body])
    fix r p d u
    assume admin: "is_current_admin s actor" and rows: "settlement_rows s rid r p d u"
      and ok: "validateDepositReleaseState (settling r p d u) = None"
      and path: "d_status d = 2 \<and> (\<forall>src. d_source d = Some src \<longrightarrow> src = 1) \<and>
         completeRentalAfterSettlement (settling r p d u) (Some actor) ''ADMIN_RELEASE'' now
           (setDepositSettlementResult (settling r p d u) ''RELEASED'' (empty_settlement_result\<lparr>dsr_Idempotent := True\<rparr>)) s = Inr (r0, t) \<or>
       d_status d \<noteq> 2 \<and> ReleaseDeposit_settle (settling r p d u) actor now s = Inr (r0, t)"
    have run': "d_status d \<noteq> 2" "ReleaseDeposit_settle (settling r p d u) actor now s = Inr (r0, t)"
      using path r0 by (auto dest: complete_result)
    note held = validateDepositReleaseState_held [OF ok run'(1)]
    then have not_completed: "r_status r \<noteq> 4" by simp
    show ?thesis
      by (rule release_settled [OF valid rows not_completed run'(2)]) (use held admin role rows in \<open>simp, blast\<close>)
  qed
qed

text \<open>
  C16: A release that reports a change was made by a current administrator on a held
  deposit of a paid, expired rental: the customer's balance grows by exactly the
  deposit (within the range of an int64), the hold becomes released with the
  administrator as its settler, the rental is completed, one ledger entry, two
  security events and two audit records are appended, and nothing else changes.
\<close>

theorem deposit_release_effect:
  assumes valid: "valid_db s" and run: "ReleaseDeposit actor role rid now s = (Inr res, t)" and changed: "dsr_Changed res"
  shows "role = ''ADMIN'' \<and> is_current_admin s actor \<and>
     (\<exists>r p d u l e1 e2 g1 g2 q. settlement_rows s rid r p d u \<and> d_status d = 1 \<and> r_status r = 3 \<and> p_status p = 2 \<and>
        d_amount d = r_deposit r \<and> 0 < r_deposit r \<and> is_i64 (u_balance u + r_deposit r) \<and>
        t = settled_db r (released_row d 1 (Some actor) now) (credited u (r_deposit r) now (users s)) l [e1, e2] [g1, g2] q now s \<and>
        settlement_ledger 3 (deposit_release_key rid) r d l \<and> e_type e1 = 11 \<and> e_type e2 = 16 \<and>
        g_action g1 = ''deposit_release'' \<and> g_action g2 = ''rental_complete'' \<and> g_actor g1 = Some actor \<and> g_actor g2 = Some actor)"
  by (rule release_changed [OF assms])

lemma forfeit_changed:
  assumes valid: "valid_db s" and run: "ForfeitDeposit actor role rid reason ev now s = (Inr res, t)" and changed: "dsr_Changed res"
  shows "role = ''ADMIN'' \<and> is_current_admin s actor \<and> trim_space reason \<in> set depositForfeitReasonCodes \<and>
     (\<exists>r p d u l e1 e2 g1 g2 q deadline i. settlement_rows s rid r p d u \<and> d_status d = 1 \<and> r_status r = 3 \<and> p_status p = 2 \<and>
        d_amount d = r_deposit r \<and> 0 < r_deposit r \<and> r_review_deadline r = Some deadline \<and> now < deadline \<and>
        parseDepositEvidenceReference (trim_space ev) = (i, True) \<and>
        (\<exists>e\<in>set (events s). e_id e = i \<and> e_rental e = Some rid \<and> e_user e = Some (r_user r) \<and> e_account e = Some (r_account r) \<and>
           e_success e = Some True \<and> e_type e \<in> {4, 6}) \<and>
        t = settled_db r (forfeited_row d actor (trim_space reason) (trim_space ev) now) (users s) l [e1, e2] [g1, g2] q now s \<and>
        settlement_ledger 4 (deposit_forfeit_key rid) r d l \<and> e_type e1 = 12 \<and> e_type e2 = 16 \<and>
        g_action g1 = ''deposit_forfeit'' \<and> g_action g2 = ''rental_complete'' \<and> g_actor g1 = Some actor \<and> g_actor g2 = Some actor)"
proof -
  obtain i r0 where args: "role = ''ADMIN''" "trim_space reason \<in> set depositForfeitReasonCodes" "parseDepositEvidenceReference (trim_space ev) = (i, True)"
    and body: "ForfeitDeposit_body actor rid (trim_space reason) (trim_space ev) i now s = Inr (r0, t)" and r0: "dsr_Changed r0"
    using run changed by (auto simp: ForfeitDeposit_ok IsAllowedDepositForfeitReasonCode_def trim_space_idem)
  show ?thesis
  proof (rule ForfeitDeposit_body_ok [OF body])
    fix r p d u
    assume admin: "is_current_admin s actor" and rows: "settlement_rows s rid r p d u"
      and ok: "validateDepositForfeitState (settling r p d u) now = None"
      and path: "d_status d = 3 \<and> (d_source d \<noteq> None \<longrightarrow> d_source d = Some 2 \<and> case_option [] id (d_reason d) = trim_space reason \<and>
           case_option [] id (d_evidence d) = trim_space ev) \<and>
         completeRentalAfterSettlement (settling r p d u) (Some actor) ''ADMIN_FORFEIT'' now
           (setDepositSettlementResult (settling r p d u) ''FORFEITED'' (empty_settlement_result\<lparr>dsr_Idempotent := True\<rparr>)) s = Inr (r0, t) \<or>
       d_status d \<noteq> 3 \<and> VerifyDepositForfeitEvidence rid (r_user r) (r_account r) i s = Inr (True, s) \<and>
         ForfeitDeposit_settle (settling r p d u) actor (trim_space reason) (trim_space ev) now s = Inr (r0, t)"
    have run': "d_status d \<noteq> 3" "ForfeitDeposit_settle (settling r p d u) actor (trim_space reason) (trim_space ev) now s = Inr (r0, t)"
      and verified: "VerifyDepositForfeitEvidence rid (r_user r) (r_account r) i s = Inr (True, s)"
      using path r0 by (auto dest: complete_result)
    note held = validateDepositForfeitState_held [OF ok run'(1)]
    then have not_completed: "r_status r \<noteq> 4" by auto
    have ev: "\<exists>e\<in>set (events s). e_id e = i \<and> e_rental e = Some rid \<and> e_user e = Some (r_user r) \<and> e_account e = Some (r_account r) \<and>
           e_success e = Some True \<and> e_type e \<in> {4, 6}"
      using verified by (auto simp: VerifyDepositForfeitEvidence_def tx_read_def list_ex_iff)
    show ?thesis
      by (rule forfeit_settled [OF valid rows not_completed run'(2)]) (use held admin args rows ev in \<open>simp, blast\<close>)
  qed
qed

text \<open>
  C17: A forfeit that reports a change was made by a current administrator with an
  allowed reason and a verified security event of the rental, before the review
  deadline: the hold becomes forfeited with reason and evidence, the rental is
  completed, one ledger entry over the deposit is appended, and no balance changes.
\<close>

theorem deposit_forfeit_effect:
  assumes valid: "valid_db s" and run: "ForfeitDeposit actor role rid reason ev now s = (Inr res, t)" and changed: "dsr_Changed res"
  shows "role = ''ADMIN'' \<and> is_current_admin s actor \<and> trim_space reason \<in> set depositForfeitReasonCodes \<and>
     (\<exists>r p d u l e1 e2 g1 g2 q deadline i. settlement_rows s rid r p d u \<and> d_status d = 1 \<and> r_status r = 3 \<and> p_status p = 2 \<and>
        d_amount d = r_deposit r \<and> 0 < r_deposit r \<and> r_review_deadline r = Some deadline \<and> now < deadline \<and>
        parseDepositEvidenceReference (trim_space ev) = (i, True) \<and>
        (\<exists>e\<in>set (events s). e_id e = i \<and> e_rental e = Some rid \<and> e_user e = Some (r_user r) \<and> e_account e = Some (r_account r) \<and>
           e_success e = Some True \<and> e_type e \<in> {4, 6}) \<and>
        t = settled_db r (forfeited_row d actor (trim_space reason) (trim_space ev) now) (users s) l [e1, e2] [g1, g2] q now s \<and>
        settlement_ledger 4 (deposit_forfeit_key rid) r d l \<and> e_type e1 = 12 \<and> e_type e2 = 16 \<and>
        g_action g1 = ''deposit_forfeit'' \<and> g_action g2 = ''rental_complete'' \<and> g_actor g1 = Some actor \<and> g_actor g2 = Some actor)"
  by (rule forfeit_changed [OF assms])

lemma released_expired:
  obtains res t where "ReleaseDeposit 1 ''ADMIN'' 7 (5 * Hour) expired_db = (Inr res, t)" "dsr_Changed res"
proof -
  have "ok_with dsr_Changed (ReleaseDeposit 1 ''ADMIN'' 7 (5 * Hour) expired_db)" by code_simp
  then show thesis using that by (auto dest: ok_withD)
qed

lemma forfeited_expired:
  obtains res t where "ForfeitDeposit 1 ''ADMIN'' 7 '' DAMAGE_CONFIRMED'' ''SECURITY_EVENT:6'' (5 * Hour) expired_db = (Inr res, t)" "dsr_Changed res"
proof -
  have "ok_with dsr_Changed (ForfeitDeposit 1 ''ADMIN'' 7 '' DAMAGE_CONFIRMED'' ''SECURITY_EVENT:6'' (5 * Hour) expired_db)" by code_simp
  then show thesis using that by (auto dest: ok_withD)
qed

lemma deposit_release_effect_witness:
  "\<exists>res t. ReleaseDeposit 1 ''ADMIN'' 7 (5 * Hour) expired_db = (Inr res, t) \<and> is_current_admin expired_db 1 \<and>
     (\<exists>r p d u. settlement_rows expired_db 7 r p d u \<and> d_amount d = r_deposit r)"
proof (rule released_expired)
  fix res t
  assume run: "ReleaseDeposit 1 ''ADMIN'' 7 (5 * Hour) expired_db = (Inr res, t)" "dsr_Changed res"
  show ?thesis
    using deposit_release_effect [OF expired_db_valid run] run(1) by blast
qed

lemma deposit_forfeit_effect_witness:
  "\<exists>res t. ForfeitDeposit 1 ''ADMIN'' 7 '' DAMAGE_CONFIRMED'' ''SECURITY_EVENT:6'' (5 * Hour) expired_db = (Inr res, t) \<and>
     is_current_admin expired_db 1 \<and> (\<exists>r p d u. settlement_rows expired_db 7 r p d u \<and> 5 * Hour < the (r_review_deadline r))"
proof (rule forfeited_expired)
  fix res t
  assume run: "ForfeitDeposit 1 ''ADMIN'' 7 '' DAMAGE_CONFIRMED'' ''SECURITY_EVENT:6'' (5 * Hour) expired_db = (Inr res, t)" "dsr_Changed res"
  show ?thesis
    using deposit_forfeit_effect [OF expired_db_valid run] run(1) by (metis option.sel)
qed

section \<open>A deposit is settled once\<close>

lemma released_row_simps [simp]:
  "d_id (released_row d src actor now) = d_id d" "d_rental (released_row d src actor now) = d_rental d"
  "d_payment (released_row d src actor now) = d_payment d" "d_status (released_row d src actor now) = 2"
  "d_source (released_row d src actor now) = Some src" "d_amount (released_row d src actor now) = d_amount d"
  "d_user (released_row d src actor now) = d_user d" "d_currency (released_row d src actor now) = d_currency d"
  by (simp_all add: released_row_def)

lemma forfeited_row_simps [simp]:
  "d_id (forfeited_row d actor reason ev now) = d_id d" "d_rental (forfeited_row d actor reason ev now) = d_rental d"
  "d_payment (forfeited_row d actor reason ev now) = d_payment d" "d_status (forfeited_row d actor reason ev now) = 3"
  "d_source (forfeited_row d actor reason ev now) = Some 2" "d_reason (forfeited_row d actor reason ev now) = Some reason"
  "d_evidence (forfeited_row d actor reason ev now) = Some ev"
  by (simp_all add: forfeited_row_def)

lemma settled_rows:
  assumes rows: "settlement_rows s rid r p d u" and "d_id d' = d_id d" "d_rental d' = d_rental d" "d_payment d' = d_payment d"
    and "u' \<in> set us" "u_id u' = u_id u" "u_deleted u' = None"
  shows "settlement_rows (settled_db r d' us l es gs q now s) rid (completed_row r now) p d' u'"
  using assms by (auto simp: settlement_rows_def settled_db_def intro!: in_set_row)

lemma ReleaseDeposit_body_run:
  assumes "valid_db s" "is_current_admin s actor" "settlement_rows s rid r p d u"
  shows "ReleaseDeposit_body actor rid now s =
     (case validateDepositReleaseState (settling r p d u) of
        Some e \<Rightarrow> Inl e
      | None \<Rightarrow>
          if d_status d = 2
          then if (case d_source d of None \<Rightarrow> False | Some src \<Rightarrow> src \<noteq> 1) then Inl (PaymentErr ErrDepositAlreadySettled)
               else completeRentalAfterSettlement (settling r p d u) (Some actor) ''ADMIN_RELEASE'' now
                 (setDepositSettlementResult (settling r p d u) ''RELEASED'' (empty_settlement_result\<lparr>dsr_Idempotent := True\<rparr>)) s
          else ReleaseDeposit_settle (settling r p d u) actor now s)"
proof -
  have "Payment_RequireCurrentAdmin actor s = Inr ((), s)"
    using Payment_RequireCurrentAdmin_accepts valid_db_keys(1) assms(1,2) by blast
  then show ?thesis
    using loadDepositSettlementState_find [OF assms(1,3)]
    by (cases "validateDepositReleaseState (settling r p d u)"; cases "d_source d"; simp add: ReleaseDeposit_body_def wrap_unless_def tx_catch_def tx_seq_def tx_bind_def require_nil_def tx_return_def
        tx_fail_def fail_if_def)
qed

lemma ForfeitDeposit_body_run:
  assumes "valid_db s" "is_current_admin s actor" "settlement_rows s rid r p d u"
  shows "ForfeitDeposit_body actor rid reason ev i now s =
     (case validateDepositForfeitState (settling r p d u) now of
        Some e \<Rightarrow> Inl e
      | None \<Rightarrow>
          if d_status d = 3
          then if (case d_source d of None \<Rightarrow> False
                | Some src \<Rightarrow> src \<noteq> 2 \<or> case_option [] id (d_reason d) \<noteq> reason \<or> case_option [] id (d_evidence d) \<noteq> ev)
               then Inl (PaymentErr ErrDepositAlreadySettled)
               else completeRentalAfterSettlement (settling r p d u) (Some actor) ''ADMIN_FORFEIT'' now
                 (setDepositSettlementResult (settling r p d u) ''FORFEITED'' (empty_settlement_result\<lparr>dsr_Idempotent := True\<rparr>)) s
          else tx_bind (wrapf ''verify deposit forfeit evidence'' (VerifyDepositForfeitEvidence rid (r_user r) (r_account r) i)) (\<lambda>verified.
             tx_seq (fail_if (\<not> verified) (PaymentErr ErrInvalidEvidenceReference)) (ForfeitDeposit_settle (settling r p d u) actor reason ev now)) s)"
proof -
  have "Payment_RequireCurrentAdmin actor s = Inr ((), s)"
    using Payment_RequireCurrentAdmin_accepts valid_db_keys(1) assms(1,2) by blast
  moreover have "r_id r = rid" using assms(3) by (simp add: settlement_rows_def)
  ultimately show ?thesis
    using loadDepositSettlementState_find [OF assms(1,3)]
    by (cases "validateDepositForfeitState (settling r p d u) now"; cases "d_source d"; simp add: ForfeitDeposit_body_def wrap_unless_def tx_catch_def tx_seq_def tx_bind_def require_nil_def tx_return_def
        tx_fail_def fail_if_def)
qed

lemma operations_keep_valid:
  "valid_db s \<Longrightarrow> ReleaseDeposit actor role rid now s = (Inr res, t) \<Longrightarrow> valid_db t"
  "valid_db s \<Longrightarrow> ForfeitDeposit actor role rid reason ev now s = (Inr res, t) \<Longrightarrow> valid_db t"
  using valid.closedD [OF settlement_valid(1)] valid.closedD [OF settlement_valid(2)]
  by (fastforce simp: ReleaseDeposit_ok ForfeitDeposit_ok keeps_valid_def)+

lemma completed_again:
  "r_status r = 4 \<Longrightarrow> completeRentalAfterSettlement (settling r p d u) actor source now res s =
     Inr (res\<lparr>dsr_RentalStatus := 4, dsr_CompletedAt := r_completed r\<rparr>, s)"
  by (simp add: completeRentalAfterSettlement_def tx_return_def)

text \<open>The operations on a settled deposit of a completed rental.\<close>

lemma release_released:
  assumes "valid_db s" "is_current_admin s actor" "settlement_rows s rid r p d u"
    and "r_status r = 4" "d_status d = 2" "d_source d = Some 1"
  shows "\<exists>res. ReleaseDeposit actor ''ADMIN'' rid now s = (Inr res, s) \<and> dsr_Idempotent res \<and> \<not> dsr_Changed res"
  using ReleaseDeposit_body_run [OF assms(1-3), of now] completed_again [OF assms(4)] assms(5,6)
  by (simp add: ReleaseDeposit_def with_aliases_def WithinTransaction_def validateDepositReleaseState_def)

lemma release_forfeited:
  assumes "valid_db s" "is_current_admin s actor" "settlement_rows s rid r p d u" "d_status d = 3"
  shows "ReleaseDeposit actor ''ADMIN'' rid now s = (Inl (PaymentErr ErrDepositAlreadySettled), s)"
  using ReleaseDeposit_body_run [OF assms(1-3), of now] assms(4)
  by (simp add: ReleaseDeposit_def with_aliases_def WithinTransaction_def validateDepositReleaseState_def)

lemma forfeit_body_released:
  assumes "valid_db s" "is_current_admin s actor" "settlement_rows s rid r p d u" "d_status d = 2"
  shows "ForfeitDeposit_body actor rid reason ev i now s = Inl (PaymentErr ErrDepositAlreadySettled)"
  using ForfeitDeposit_body_run [OF assms(1-3), of reason ev i now] assms(4)
  by (simp add: validateDepositForfeitState_def)

lemma forfeit_body_forfeited:
  assumes "valid_db s" "is_current_admin s actor" "settlement_rows s rid r p d u" "d_status d = 3" "r_status r = 4"
    and "d_source d = Some 2" "d_reason d = Some reason" "d_evidence d = Some ev"
  shows "ForfeitDeposit_body actor rid reason' ev' i now s =
     (if reason' = reason \<and> ev' = ev
      then Inr ((setDepositSettlementResult (settling r p d u) ''FORFEITED'' (empty_settlement_result\<lparr>dsr_Idempotent := True\<rparr>))
             \<lparr>dsr_RentalStatus := 4, dsr_CompletedAt := r_completed r\<rparr>, s)
      else Inl (PaymentErr ErrDepositAlreadySettled))"
  using ForfeitDeposit_body_run [OF assms(1-3), of reason' ev' i now] completed_again [OF assms(5)] assms(4,6-8)
  by (auto simp: validateDepositForfeitState_def)

text \<open>
  A deposit that has been released stays released: every later release, by any
  current administrator and at any time, succeeds as a repetition and leaves the
  database as it is, so the deposit is credited once; every forfeit is refused.
\<close>

theorem deposit_released_once:
  assumes valid: "valid_db s" and run: "ReleaseDeposit actor role rid now s = (Inr res, t)" "dsr_Changed res"
    and admin: "is_current_admin t actor'"
  shows "(\<exists>res'. ReleaseDeposit actor' ''ADMIN'' rid now' t = (Inr res', t) \<and> dsr_Idempotent res' \<and> \<not> dsr_Changed res') \<and>
     (\<exists>e. ForfeitDeposit actor' ''ADMIN'' rid reason ev now' t = (Inl e, t))"
proof -
  obtain r p d u l e1 e2 g1 g2 q where rows: "settlement_rows s rid r p d u"
    and t: "t = settled_db r (released_row d 1 (Some actor) now) (credited u (r_deposit r) now (users s)) l [e1, e2] [g1, g2] q now s"
    using release_changed [OF valid run] by blast
  let ?u = "u\<lparr>u_balance := u_balance u + r_deposit r, u_updated := pg_ts now\<rparr>"
  have "settlement_rows t rid (completed_row r now) p (released_row d 1 (Some actor) now) ?u"
    unfolding t using rows
    by (intro settled_rows [OF rows]) (auto simp: credited_def settlement_rows_def intro!: in_set_row)
  note now_rows = operations_keep_valid(1) [OF valid run(1)] admin this
  have "\<exists>e. ForfeitDeposit actor' ''ADMIN'' rid reason ev now' t = (Inl e, t)"
    using forfeit_body_released [OF now_rows, of "trim_space reason" "trim_space ev" _ now']
    by (simp add: ForfeitDeposit_def Let_def with_aliases_def WithinTransaction_def split: prod.split)
  then show ?thesis
    using release_released [OF now_rows] by simp
qed

text \<open>
  A deposit that has been forfeited stays forfeited: repeating the forfeit with the
  same reason and evidence succeeds as a repetition and changes nothing, every other
  forfeit and every release is refused.
\<close>

theorem deposit_forfeited_once:
  assumes valid: "valid_db s" and run: "ForfeitDeposit actor role rid reason ev now s = (Inr res, t)" "dsr_Changed res"
    and admin: "is_current_admin t actor'"
  shows "(\<exists>res'. ForfeitDeposit actor' ''ADMIN'' rid reason ev now' t = (Inr res', t) \<and> dsr_Idempotent res' \<and> \<not> dsr_Changed res') \<and>
     (trim_space reason' \<noteq> trim_space reason \<or> trim_space ev' \<noteq> trim_space ev \<longrightarrow>
        (\<exists>e. ForfeitDeposit actor' ''ADMIN'' rid reason' ev' now' t = (Inl e, t))) \<and>
     ReleaseDeposit actor' ''ADMIN'' rid now' t = (Inl (PaymentErr ErrDepositAlreadySettled), t)"
proof -
  obtain r p d u l e1 e2 g1 g2 q i where reason: "trim_space reason \<in> set depositForfeitReasonCodes" and rows: "settlement_rows s rid r p d u"
    and i: "parseDepositEvidenceReference (trim_space ev) = (i, True)"
    and t: "t = settled_db r (forfeited_row d actor (trim_space reason) (trim_space ev) now) (users s) l [e1, e2] [g1, g2] q now s"
    using forfeit_changed [OF valid run] by blast
  have "settlement_rows t rid (completed_row r now) p (forfeited_row d actor (trim_space reason) (trim_space ev) now) u"
    unfolding t by (intro settled_rows [OF rows]) (use rows in \<open>auto simp: settlement_rows_def\<close>)
  note now_rows = operations_keep_valid(2) [OF valid run(1)] admin this
  note again = forfeit_body_forfeited [OF now_rows, of "trim_space reason" "trim_space ev" _ _ _ now', simplified]
  have "\<exists>res'. ForfeitDeposit actor' ''ADMIN'' rid reason ev now' t = (Inr res', t) \<and> dsr_Idempotent res' \<and> \<not> dsr_Changed res'"
    using again [of "trim_space reason" "trim_space ev" i] reason i
    by (simp add: ForfeitDeposit_def IsAllowedDepositForfeitReasonCode_def trim_space_idem with_aliases_def WithinTransaction_def)
  moreover have "\<exists>e. ForfeitDeposit actor' ''ADMIN'' rid reason' ev' now' t = (Inl e, t)"
    if "trim_space reason' \<noteq> trim_space reason \<or> trim_space ev' \<noteq> trim_space ev"
    using again [of "trim_space reason'" "trim_space ev'"] that
    by (auto simp: ForfeitDeposit_def Let_def with_aliases_def WithinTransaction_def split: prod.split)
  ultimately show ?thesis
    using release_forfeited [OF now_rows] by simp
qed

text \<open>
  Only a current administrator settles deposits: with another role, or for a user
  who is not an unblocked, undeleted administrator in the database, release and
  forfeit fail and leave the database as it is.
\<close>

theorem settlement_needs_admin:
  assumes "role \<noteq> ''ADMIN'' \<or> \<not> is_current_admin s actor"
  shows "ReleaseDeposit actor role rid now s = (Inl (PaymentErr ErrAdminRequired), s) \<and>
     (\<exists>e. ForfeitDeposit actor role rid reason ev now s = (Inl e, s)) \<and>
     (IsAllowedDepositForfeitReasonCode reason \<and> IsValidDepositEvidenceReference ev \<longrightarrow>
        ForfeitDeposit actor role rid reason ev now s = (Inl (PaymentErr ErrAdminRequired), s))"
proof -
  have "ReleaseDeposit_body actor rid now s = Inl (PaymentErr ErrAdminRequired)"
    "ForfeitDeposit_body actor rid reason' ev' i now s = Inl (PaymentErr ErrAdminRequired)" if "\<not> is_current_admin s actor" for reason' ev' i
    using Payment_RequireCurrentAdmin_refuses [OF that]
    by (simp_all add: ReleaseDeposit_body_def ForfeitDeposit_body_def tx_seq_stop wrap_unless_stop)
  then show ?thesis
    using assms by (auto simp: ReleaseDeposit_def ForfeitDeposit_def with_aliases_def WithinTransaction_def Let_def
        IsAllowedDepositForfeitReasonCode_def IsValidDepositEvidenceReference_def trim_space_idem split: prod.splits)
qed

lemma trim_no_space:
  assumes "list_all is_digit s"
  shows "trim_space s = s"
proof -
  have no: "strip_word (map f unicode_spaces) t = None" if "list_all is_digit t" "f = id \<or> f = rev" for f t
    using that by (cases t) (auto simp: strip_word_None unicode_spaces_def is_digit_def in_class_def)
  have "strip_word unicode_spaces s = None" "strip_word (map rev unicode_spaces) (rev s) = None"
    using no [of s id] no [of "rev s" rev] assms by simp_all
  then show ?thesis
    by (simp add: trim_space_def trim_left_def trim_right_def trim_words_fixed)
qed

lemma length_dec_digits: "n < 10 ^ k \<Longrightarrow> 0 < k \<Longrightarrow> length (dec_digits n) \<le> k"
proof (induction n arbitrary: k rule: dec_digits.induct)
  case (1 n)
  show ?case
  proof (cases "n < 10")
    case True
    with 1 show ?thesis by (simp add: dec_digits.simps [of n])
  next
    case False
    then obtain m where k: "k = Suc m" "0 < m" using 1(2,3) by (cases k) (auto, metis One_nat_def neq0_conv power_0 power_one_right mult_1_right)
    then have "length (dec_digits (n div 10)) \<le> m" using False 1 by (simp add: less_mult_imp_div_less)
    with False k show ?thesis by (simp add: dec_digits.simps [of n])
  qed
qed

text \<open>
  An evidence reference names exactly its security event: the reference printed
  for a positive id parses back to it, every accepted reference is the prefix followed
  by a text that parses to the returned positive id.
\<close>

theorem evidence_reference_round_trip:
  "(0 < i \<and> is_i64 i \<longrightarrow> parseDepositEvidenceReference (''SECURITY_EVENT:'' @ format_int i) = (i, True)) \<and>
   (parseDepositEvidenceReference reference = (i, True) \<longrightarrow>
      0 < i \<and> is_i64 i \<and> (\<exists>raw. reference = ''SECURITY_EVENT:'' @ raw \<and> parse_int raw = Some i))"
proof (rule conjI; rule impI)
  assume i: "0 < i \<and> is_i64 i"
  have "format_int i = dec_digits (nat i)" using i by (simp add: format_int_def)
  moreover have "length (dec_digits (nat i)) \<le> 19"
    using i by (intro length_dec_digits) (simp_all add: is_i64_def nat_less_iff)
  ultimately show "parseDepositEvidenceReference (''SECURITY_EVENT:'' @ format_int i) = (i, True)"
    using i dec_digits_correct [of "nat i"] trim_no_space [of "dec_digits (nat i)"] parse_format_int [of i]
    by (simp add: parseDepositEvidenceReference_def Let_def)
next
  assume parsed: "parseDepositEvidenceReference reference = (i, True)"
  then obtain raw where raw: "reference = ''SECURITY_EVENT:'' @ raw"
    by (auto simp: parseDepositEvidenceReference_def Let_def has_prefix_iff split: if_splits)
  then have p: "parse_int raw = Some i" "0 < i"
    using parsed by (auto simp: parseDepositEvidenceReference_def Let_def split: if_splits option.splits)
  moreover have "is_i64 i" using p(1) by (auto simp: parse_int_def Let_def split: list.splits option.splits if_splits)
  ultimately show "0 < i \<and> is_i64 i \<and> (\<exists>raw. reference = ''SECURITY_EVENT:'' @ raw \<and> parse_int raw = Some i)"
    using raw by blast
qed



lemma current_admin_settled:
  "is_current_admin expired_db 1 \<Longrightarrow> ReleaseDeposit 1 ''ADMIN'' 7 now expired_db = (Inr res, t) \<Longrightarrow> dsr_Changed res \<Longrightarrow> is_current_admin t 1"
  using release_changed [OF expired_db_valid, of 1 "''ADMIN''" 7 now res t]
  by (auto simp: settled_db_def is_current_admin_def credited_def settlement_rows_def expired_db_def sample_defs set_row_def)

lemma deposit_released_once_witness:
  "\<exists>res t. ReleaseDeposit 1 ''ADMIN'' 7 (5 * Hour) expired_db = (Inr res, t) \<and>
     (\<exists>e. ForfeitDeposit 1 ''ADMIN'' 7 ''DAMAGE_CONFIRMED'' ''SECURITY_EVENT:6'' (6 * Hour) t = (Inl e, t))"
proof (rule released_expired)
  fix res t
  assume run: "ReleaseDeposit 1 ''ADMIN'' 7 (5 * Hour) expired_db = (Inr res, t)" "dsr_Changed res"
  have "is_current_admin expired_db 1" by code_simp
  then show ?thesis
    using deposit_released_once [OF expired_db_valid run current_admin_settled [OF _ run]] run(1) by blast
qed

lemma deposit_forfeited_once_witness:
  "\<exists>res t. ForfeitDeposit 1 ''ADMIN'' 7 '' DAMAGE_CONFIRMED'' ''SECURITY_EVENT:6'' (5 * Hour) expired_db = (Inr res, t) \<and>
     ReleaseDeposit 1 ''ADMIN'' 7 (6 * Hour) t = (Inl (PaymentErr ErrDepositAlreadySettled), t)"
proof (rule forfeited_expired)
  fix res t
  assume run: "ForfeitDeposit 1 ''ADMIN'' 7 '' DAMAGE_CONFIRMED'' ''SECURITY_EVENT:6'' (5 * Hour) expired_db = (Inr res, t)" "dsr_Changed res"
  have "is_current_admin expired_db 1" by code_simp
  moreover have "users t = users expired_db"
    using forfeit_changed [OF expired_db_valid run] by (auto simp: settled_db_def)
  ultimately have "is_current_admin t 1" by (simp add: is_current_admin_def)
  then show ?thesis
    using deposit_forfeited_once [OF expired_db_valid run] run(1) by blast
qed

lemma settlement_needs_admin_witness:
  "ReleaseDeposit 2 ''ADMIN'' 7 (5 * Hour) expired_db = (Inl (PaymentErr ErrAdminRequired), expired_db)"
proof -
  have "\<not> is_current_admin expired_db 2" by code_simp
  then show ?thesis using settlement_needs_admin by blast
qed

lemma evidence_reference_round_trip_witness:
  "parseDepositEvidenceReference (''SECURITY_EVENT:'' @ format_int 6) = (6, True)"
  using evidence_reference_round_trip [of 6] by (simp add: is_i64_def)

end
