(* ===== verification/Finalization.thy ===== *)
theory Finalization
  imports Settlement_Properties
begin

text \<open>
  The finalization of expired rentals (src/internal/payment/rental_finalization.go):
  the automatic release of a deposit whose review deadline has passed, the pass over
  the next due rental, and the loop of \<open>FinalizeExpiredRentals\<close>. The facts: the queue
  as a filter and a sort, the effect of one pass, and the loop by induction on the
  passes that are left.
\<close>

section \<open>The model\<close>

record RentalFinalizationResult =
  rfr_Processed :: int
  rfr_Completed :: int
  rfr_AutoReleased :: int

definition deposit_auto_release_key :: "int \<Rightarrow> string" where
  "deposit_auto_release_key rentalID = ''deposit:auto-release:rental:'' @ format_int rentalID"

definition autoReleaseDeposit :: "DepositSettlementState \<Rightarrow> time \<Rightarrow> (db, DepositSettlementState) tx" where
  "autoReleaseDeposit state now =
     tx_seq (wrapf ''mark deposit auto-released''
       (MarkDepositReleased (dss_HoldID state) depositSettlementSourceAutoRelease None now))
    (tx_seq (wrapf ''credit auto-released deposit'' (CreditUserBalance (dss_UserID state) (dss_Amount state) now))
    (tx_seq (wrapf ''insert auto-release ledger entry''
       (RecordDepositReleasedToBalance (settlement_entry state ''internal'' (deposit_auto_release_key (dss_RentalID state))
          (settlement_ids ''deposit_auto_released_to_balance'' state @
             [(''source'', JStr ''SYSTEM''), (''recorded_at'', JTime now)]))))
    (tx_seq (wrapf ''log auto-release security event''
       (LogDepositSecurityEvent securityEventTypeDepositReleased (dss_UserID state) (dss_AccountID state)
          (dss_RentalID state) ''system'' (settlement_ids ''deposit_auto_released'' state)))
    (tx_seq (wrapf ''insert auto-release audit log''
       (InsertSystemAuditLog ''deposit_hold'' (dss_HoldID state) ''deposit_auto_release'' [(''status'', JStr ''HELD'')]
          [(''status'', JStr ''RELEASED''), (''source'', JStr ''SYSTEM_AUTO_RELEASE'')]))
    (tx_return (state\<lparr>dss_HoldStatus := depositHoldStatusReleased,
       dss_SettlementSource := Some depositSettlementSourceAutoRelease, dss_SettledByUserID := None,
       dss_ReleasedAt := Some now\<rparr>))))))"

text \<open>
  One transaction of the finalization loop: None when no rental is found, otherwise
  whether a deposit was released.
\<close>

definition settle_for_finalization ::
  "DepositSettlementState \<Rightarrow> time \<Rightarrow> (db, DepositSettlementState \<times> bool \<times> string) tx" where
  "settle_for_finalization state now =
     (if dss_RentalDepositAmount state = 0 \<and> \<not> dss_HasDepositHold state
      then tx_return (state, False, ''NO_DEPOSIT'')
      else if isConsistentPositiveDepositState state \<and> dss_HoldStatus state = depositHoldStatusHeld
      then tx_seq (fail_if (case dss_ReviewDeadlineAt state of None \<Rightarrow> True | Some deadline \<Rightarrow> now < deadline)
                     (PaymentErr ErrDepositSettlementNotAllowed))
          (tx_bind (autoReleaseDeposit state now) (\<lambda>settled. tx_return (settled, True, ''AUTO_RELEASE'')))
      else if isConsistentPositiveDepositState state \<and>
          (dss_HoldStatus state = depositHoldStatusReleased \<or> dss_HoldStatus state = depositHoldStatusForfeited \<or>
           dss_HoldStatus state = depositHoldStatusRefunded)
      then tx_return (state, False, ''TERMINAL_DEPOSIT_CATCH_UP'')
      else tx_fail (PaymentErr ErrDepositSettlementNotAllowed))"

definition finalize_next :: "int set \<Rightarrow> time \<Rightarrow> (db, bool option) tx" where
  "finalize_next busy now =
     tx_bind (tx_catch
        (tx_bind (LockNextRentalFinalizationState busy now) (\<lambda>state. tx_return (Some state)))
        (\<lambda>e. if errors_is e (PaymentErr ErrDepositHoldNotFound) then tx_return None
              else tx_fail (Wrapf ''lock next rental finalization state'' e))) (\<lambda>next.
     case next of
       None \<Rightarrow> tx_return None
     | Some state \<Rightarrow>
         tx_seq (fail_if (dss_RentalStatus state \<noteq> 3 \<or> dss_PaymentStatus state \<noteq> 2)
                   (PaymentErr ErrDepositSettlementNotAllowed))
        (tx_bind (settle_for_finalization state now) (\<lambda>(settled, autoReleased, source).
         tx_seq (completeRentalAfterSettlement settled None source now empty_settlement_result)
           (tx_return (Some autoReleased)))))"

text \<open>
  The loop: \<open>n\<close> is the number of passes that are left (\<open>limit - Processed\<close>). \<open>busy k\<close>
  are the rentals that other sessions hold locked when \<open>k\<close> passes are left.
\<close>

fun finalize_loop :: "nat \<Rightarrow> (nat \<Rightarrow> int set) \<Rightarrow> time \<Rightarrow> RentalFinalizationResult \<Rightarrow> db \<Rightarrow> (err + RentalFinalizationResult) \<times> db" where
  "finalize_loop 0 busy now result s = (Inr result, s)"
| "finalize_loop (Suc n) busy now result s =
     (case WithinTransaction (finalize_next (busy n) now) s of
        (Inl e, t) \<Rightarrow> (Inl e, t)
      | (Inr None, t) \<Rightarrow> (Inr result, t)
      | (Inr (Some autoReleased), t) \<Rightarrow>
          finalize_loop n busy now
            \<lparr>rfr_Processed = rfr_Processed result + 1, rfr_Completed = rfr_Completed result + 1,
             rfr_AutoReleased = (if autoReleased then rfr_AutoReleased result + 1 else rfr_AutoReleased result)\<rparr> t)"

definition FinalizeExpiredRentals :: "(nat \<Rightarrow> int set) \<Rightarrow> time \<Rightarrow> int \<Rightarrow> db \<Rightarrow> (err + RentalFinalizationResult) \<times> db" where
  "FinalizeExpiredRentals busy now limit s =
     (if limit \<le> 0 \<or> 100 < limit then (Inl (PaymentErr ErrInvalidFinalizationLimit), s)
      else finalize_loop (nat limit) busy now \<lparr>rfr_Processed = 0, rfr_Completed = 0, rfr_AutoReleased = 0\<rparr> s)"

section \<open>Constraints and evolution\<close>

lemmas finalize_defs = finalize_next_def settle_for_finalization_def autoReleaseDeposit_def settlement_defs

lemma finalize_valid [closed_intros]: "valid.closed (finalize_next busy now)"
  unfolding finalize_defs by (intro closed_intros)

lemma finalize_evolves [closed_intros]: "evolution.closed (finalize_next busy now)"
  unfolding finalize_defs by (intro closed_intros; auto simp: row_nexts)

lemma finalize_loop_induct:
  assumes step: "\<And>busy s r t. finalize_next busy now s = Inr (r, t) \<Longrightarrow> R s t"
    and refl: "\<And>s. R s s" and trans: "\<And>s t u. R s t \<Longrightarrow> R t u \<Longrightarrow> R s u"
  shows "R s (snd (finalize_loop n busy now result s))"
proof (induction n arbitrary: result s)
  case (Suc n)
  show ?case
  proof (rule WithinTransaction_cases [of "finalize_next (busy n) now" s])
    fix x t
    assume ok: "finalize_next (busy n) now s = Inr (x, t)" "WithinTransaction (finalize_next (busy n) now) s = (Inr x, t)"
    then show ?thesis
      using step [OF ok(1)] Suc trans by (cases x) auto
  qed (simp add: refl)
qed (simp add: refl)

section \<open>The queue\<close>

lemma concat_map_if: "concat (map (\<lambda>x. if P x then f x else []) xs) = concat (map f (filter P xs))"
  by (induction xs) auto

lemma concat_map_single: "concat (map (\<lambda>x. if P x then [x] else []) xs) = filter P xs"
  by (induction xs) auto

lemma filter_le_one:
  assumes "distinct (map key xs)" "\<And>x y. P x \<Longrightarrow> P y \<Longrightarrow> key x = key y"
  shows "filter P xs = [] \<or> (\<exists>x. filter P xs = [x])"
proof (cases "filter P xs")
  case (Cons x ys)
  then have x: "x \<in> set xs" "P x" by (auto dest: filter_hd)
  have "filter P xs = [x]" by (rule filter_key [where key = key and P = P, OF assms(1) x]) (use assms(2) x in blast)
  then show ?thesis by blast
qed simp

text \<open>The rental is due: its one payment and its hold (if any) let it be finalized.\<close>

definition due :: "time \<Rightarrow> db \<Rightarrow> rental_row \<Rightarrow> bool" where
  "due now s r =
     (case filter (\<lambda>p. p_rental p = r_id r \<and> p_user p = r_user r \<and> p_status p = 2) (payments s) of
        [] \<Rightarrow> False
      | p # _ \<Rightarrow> (case filter (\<lambda>d. d_rental d = r_id r) (holds s) of
                   [] \<Rightarrow> finalizable now r p None
                 | d # _ \<Rightarrow> finalizable now r p (Some d)))"

definition due_time :: "rental_row \<Rightarrow> time" where
  "due_time r = case_option (r_end r) id (r_review_deadline r)"

lemma finalization_queue_due:
  assumes "valid_db s"
  shows "finalization_queue now s = sort_key due_time (sort_key r_id (filter (due now s) (rentals s)))"
proof -
  note keys = valid_db_keys [OF assms]
  have inner: "concat (map (\<lambda>p. if p_rental p = r_id r \<and> p_user p = r_user r \<and> p_status p = 2
        then concat (map (\<lambda>d. if finalizable now r p d then [r] else []) (left_join (filter (\<lambda>d. d_rental d = r_id r) (holds s)))) else []) (payments s))
      = (if due now s r then [r] else [])" for r
  proof -
    have p: "filter (\<lambda>p. p_rental p = r_id r \<and> p_user p = r_user r \<and> p_status p = 2) (payments s) = [] \<or>
      (\<exists>p. filter (\<lambda>p. p_rental p = r_id r \<and> p_user p = r_user r \<and> p_status p = 2) (payments s) = [p])"
      by (rule filter_le_one [OF keys(5)]) simp
    have d: "filter (\<lambda>d. d_rental d = r_id r) (holds s) = [] \<or> (\<exists>d. filter (\<lambda>d. d_rental d = r_id r) (holds s) = [d])"
      by (rule filter_le_one [OF keys(8)]) simp
    show ?thesis
      unfolding concat_map_if due_def left_join_def using p d by (elim disjE exE) simp_all
  qed
  show ?thesis
    unfolding finalization_queue_def inner concat_map_single due_time_def ..
qed

lemma set_finalization_queue: "valid_db s \<Longrightarrow> set (finalization_queue now s) = {r \<in> set (rentals s). due now s r}"
  by (simp add: finalization_queue_due)

lemma distinct_finalization_queue: "valid_db s \<Longrightarrow> distinct (map r_id (finalization_queue now s))"
proof -
  assume v: "valid_db s"
  have "distinct (map r_id (filter (due now s) (rentals s)))"
    using valid_db_keys(3) [OF v] by (simp add: distinct_map inj_on_def)
  then show ?thesis
    unfolding finalization_queue_due [OF v] by (metis distinct_map distinct_sort set_sort)
qed

text \<open>Once its head is completed the rest of the queue is left.\<close>

lemma filter_due_step:
  assumes valid: "valid_db s" and r: "r \<in> set (rentals s)"
    and t: "rentals t = set_row r_id (completed_row r now) (rentals s)" "payments t = payments s"
      "\<And>x. x \<noteq> r_id r \<Longrightarrow> filter (\<lambda>d. d_rental d = x) (holds t) = filter (\<lambda>d. d_rental d = x) (holds s)"
  shows "filter (due now t) (rentals t) = filter (\<lambda>x. r_id x \<noteq> r_id r) (filter (due now s) (rentals s))"
proof -
  have "due now t x = due now s x" if "r_id x \<noteq> r_id r" for x
    unfolding due_def t(2) t(3) [OF that] ..
  moreover have "\<not> due now t (completed_row r now)"
    by (simp add: due_def finalizable_def split: list.split)
  ultimately have "filter (due now t) (set_row r_id (completed_row r now) rs) =
      filter (\<lambda>x. r_id x \<noteq> r_id r) (filter (due now s) rs)" for rs
    by (induction rs) (auto simp: set_row_def)
  then show ?thesis by (simp add: t(1))
qed

lemma finalization_queue_step:
  assumes valid: "valid_db s" "valid_db t" and queue: "finalization_queue now s = r # rs"
    and t: "rentals t = set_row r_id (completed_row r now) (rentals s)" "payments t = payments s"
      "\<And>x. x \<noteq> r_id r \<Longrightarrow> filter (\<lambda>d. d_rental d = x) (holds t) = filter (\<lambda>d. d_rental d = x) (holds s)"
  shows "finalization_queue now t = rs"
proof -
  have "r \<in> set (rentals s)"
    using set_finalization_queue [OF valid(1), of now] queue by auto
  then have "finalization_queue now t = filter (\<lambda>x. r_id x \<noteq> r_id r) (finalization_queue now s)"
    unfolding finalization_queue_due [OF valid(1)] finalization_queue_due [OF valid(2)]
    by (simp add: filter_due_step [OF valid(1) _ t] filter_sort)
  then show ?thesis
    using distinct_finalization_queue [OF valid(1), of now] queue by (auto simp: image_iff intro!: filter_True)
qed

section \<open>One pass\<close>

lemma LockDepositSettlementState_queued:
  assumes valid: "valid_db s" and run: "LockDepositSettlementState rid s = Inr (st, t)" and r: "r \<in> set (rentals s)" "r_id r = rid"
  shows "t = s \<and> ((\<exists>p d u. settlement_rows s rid r p d u \<and> st = settling r p d u) \<or>
     \<not> dss_HasDepositHold st \<and> dss_RentalStatus st = r_status r \<and> dss_RentalID st = rid)"
proof (cases "dss_HasDepositHold st")
  case True
  obtain r' p d u where "t = s" "settlement_rows s rid r' p d u" "st = settling r' p d u"
    using LockDepositSettlementState_hold [OF run True] by blast
  moreover from this have "r' = r"
    using key_inj [OF valid_db_keys(3) [OF valid] _ r(1)] r(2) by (auto simp: settlement_rows_def)
  ultimately show ?thesis by blast
next
  case False
  obtain r' p st' b where "t = s" "r' \<in> set (rentals s)" "r_id r' = rid" "st = st'\<lparr>dss_UserBalance := b\<rparr>"
    and scan: "scan_hold (filter (\<lambda>d. d_rental d = rid) (holds s)) (settlement_state r' p 0) = Inr st'"
    using run unfolding LockDepositSettlementState_def
    by (auto simp: tx_bind_ok tx_seq_ok tx_read_ok lift_result_ok tx_return_ok no_rows_as_ok dest!: query_row_set)
  moreover from this have "r' = r"
    using key_inj [OF valid_db_keys(3) [OF valid] _ r(1)] r(2) by auto
  ultimately show ?thesis
    using False by (auto simp: scan_hold_def hold_columns_def settlement_state_def split: list.splits option.splits)
qed

lemma LockDepositSettlementState_no_missing_hold:
  assumes "r \<in> set (rentals s)" "r_id r = rid" "LockDepositSettlementState rid s = Inl e"
  shows "\<not> errors_is e (PaymentErr ErrDepositHoldNotFound)"
proof -
  obtain r' rs where q: "filter (\<lambda>r. r_id r = rid) (rentals s) = r' # rs"
    using assms(1,2) by (cases "filter (\<lambda>r. r_id r = rid) (rentals s)") (auto simp: filter_empty_conv)
  show ?thesis
    using assms(3) q
    by (auto simp: LockDepositSettlementState_def tx_defs scan_hold_def split: sum.splits list.splits option.splits if_splits prod.splits)
qed

lemma LockNext_ok:
  assumes "valid_db s" "LockNextRentalFinalizationState busy now s = Inr (st, t)"
  obtains r rs where "finalization_queue now s = r # rs" "r_id r \<notin> busy" "r \<in> set (rentals s)"
    "LockDepositSettlementState (r_id r) s = Inr (st, t)"
proof -
  obtain rid where "rid \<in> set [r_id r. r \<leftarrow> take 1 (finalization_queue now s), r_id r \<notin> busy]"
    and lock: "LockDepositSettlementState rid s = Inr (st, t)"
    using assms(2) unfolding LockNextRentalFinalizationState_def
    by (auto simp only: tx_bind_ok no_rows_as_ok dest!: query_row_set)
  then obtain r rs where "finalization_queue now s = r # rs" "r_id r = rid" "r_id r \<notin> busy"
    by (cases "finalization_queue now s") (auto split: if_splits)
  with lock that show thesis
    using set_finalization_queue [OF assms(1), of now] by auto
qed

lemma LockNext_none:
  assumes "valid_db s" "LockNextRentalFinalizationState busy now s = Inl e" "errors_is e (PaymentErr ErrDepositHoldNotFound)"
  shows "finalization_queue now s = [] \<or> r_id (hd (finalization_queue now s)) \<in> busy"
proof (rule ccontr)
  assume "\<not> ?thesis"
  then obtain r rs where q: "finalization_queue now s = r # rs" "r_id r \<notin> busy"
    by (cases "finalization_queue now s") auto
  then have "LockDepositSettlementState (r_id r) s = Inl e"
    using assms(2) by (simp add: LockNextRentalFinalizationState_def tx_bind_def no_rows_as_def tx_catch_def query_row_def)
  moreover have "r \<in> set (rentals s)"
    using set_finalization_queue [OF assms(1), of now] q by auto
  ultimately show False
    using LockDepositSettlementState_no_missing_hold assms(3) by blast
qed

lemma LockNext_free:
  assumes "finalization_queue now s = r # rs" "r_id r \<notin> busy"
  shows "LockNextRentalFinalizationState busy now s = LockDepositSettlementState (r_id r) s"
  using assms by (simp add: LockNextRentalFinalizationState_def tx_bind_def no_rows_as_def tx_catch_def query_row_def)

lemma auto_released:
  assumes valid: "valid_db s" and rows: "settlement_rows s rid r p d u"
    and run: "autoReleaseDeposit (settling r p d u) now s = Inr (st, t)"
  obtains l e g q where
    "t = s\<lparr>holds := set_row d_id (released_row d 3 None now) (holds s), users := credited u (d_amount d) now (users s),
       ledger := ledger s @ [l], events := events s @ [e], audits := audits s @ [g], sequences := q\<rparr>"
    "settlement_ledger 3 (deposit_auto_release_key rid) r d l" "d_status d = 1" "is_i64 (u_balance u + d_amount d)"
    "e_type e = 11" "g_action g = ''deposit_auto_release''" "g_actor g = None"
    "dss_RentalID st = rid" "dss_RentalStatus st = r_status r"
proof -
  note keys = valid_db_keys [OF valid]
  note w = rows [unfolded settlement_rows_def]
  let ?st = "settling r p d u"
  obtain s1 s2 s3 s4 m1 m2 n where
    1: "MarkDepositReleased (d_id d) 3 None now s = Inr ((), s1)"
    and 2: "CreditUserBalance (u_id u) (d_amount d) now s1 = Inr ((), s2)"
    and 3: "insertLedgerEntry 3 (settlement_entry ?st ''internal'' (deposit_auto_release_key rid) m1) s2 = Inr ((), s3)"
    and 4: "insert_event (\<lambda>_. True) (Some (r_user r)) (Some (r_account r)) (Some rid) 11 None (Some ''system'') m2 None s3 = Inr ((), s4)"
    and 5: "insert_audit None ''deposit_hold'' (d_id d) ''deposit_auto_release'' [(''status'', JStr ''HELD'')] n s4 = Inr ((), t)"
    and st: "dss_RentalID st = rid" "dss_RentalStatus st = r_status r"
    using run w unfolding autoReleaseDeposit_def RecordDepositReleasedToBalance_def event_loggers
    by (auto simp: tx_seq_ok wrapf_ok tx_return_ok)
  have d: "d_status d = 1" and s1: "s1 = s\<lparr>holds := set_row d_id (released_row d 3 None now) (holds s)\<rparr>"
    using MarkDepositReleased_row [OF keys(7) _ 1] w by auto
  have s2: "s2 = s1\<lparr>users := credited u (d_amount d) now (users s)\<rparr>" and fits: "is_i64 (u_balance u + d_amount d)"
    using CreditUserBalance_row [OF _ _ 2] keys(1) w by (simp_all add: s1)
  define l e g q3 q4 q where "l = ledger_entry_row 3 (settlement_entry ?st ''internal'' (deposit_auto_release_key rid) m1) (sequences s2 Ledger) (clock s2)"
    and "e = new_event (Some (r_user r)) (Some (r_account r)) (Some rid) 11 None (Some ''system'') m2 (clock s3) (sequences s3 Events)"
    and "g = new_audit None ''deposit_hold'' (d_id d) ''deposit_auto_release'' [(''status'', JStr ''HELD'')] n (sequences s4 Audits) (clock s4)"
    and "q3 = sequences s3" and "q4 = sequences s4" and "q = sequences t"
  have s3: "s3 = s2\<lparr>ledger := ledger s2 @ [l], sequences := q3\<rparr>" unfolding l_def q3_def by (rule one_entry [OF 3])
  have s4: "s4 = s3\<lparr>events := events s3 @ [e], sequences := q4\<rparr>" unfolding e_def q4_def using one_event [OF 4] by simp
  have t: "t = s4\<lparr>audits := audits s4 @ [g], sequences := q\<rparr>" unfolding g_def q_def by (rule one_audit [OF 5])
  show thesis
  proof (rule that)
    show "t = s\<lparr>holds := set_row d_id (released_row d 3 None now) (holds s), users := credited u (d_amount d) now (users s),
       ledger := ledger s @ [l], events := events s @ [e], audits := audits s @ [g], sequences := q\<rparr>"
      unfolding t s4 s3 s2 s1 by simp
    show "settlement_ledger 3 (deposit_auto_release_key rid) r d l"
      using w by (simp add: settlement_ledger_def l_def)
    show "e_type e = 11" "g_action g = ''deposit_auto_release''" "g_actor g = None"
      by (simp_all add: e_def g_def)
  qed (use d fits st in simp_all)
qed

text \<open>
  The effect of one pass on the head \<open>r\<close> of the queue: the rental is completed; an
  auto-release in addition pays the held deposit out, as a release by the system.
\<close>

definition completed_db :: "rental_row \<Rightarrow> event_row \<Rightarrow> audit_row \<Rightarrow> (tbl \<Rightarrow> int) \<Rightarrow> time \<Rightarrow> db \<Rightarrow> db" where
  "completed_db r e g q now s = s\<lparr>rentals := set_row r_id (completed_row r now) (rentals s), events := events s @ [e],
     audits := audits s @ [g], sequences := q\<rparr>"

lemma finalize_pass:
  assumes valid: "valid_db s" and run: "finalize_next busy now s = Inr (Some a, t)"
  obtains r rs where "finalization_queue now s = r # rs" "r_id r \<notin> busy" "r \<in> set (rentals s)" "r_status r = 3"
    "(\<not> a \<and> (\<exists>e g q. t = completed_db r e g q now s \<and> e_type e = 16 \<and> g_actor g = None)) \<or>
     (a \<and> (\<exists>p d u deadline l e1 e2 g1 g2 q. settlement_rows s (r_id r) r p d u \<and> d_status d = 1 \<and> d_amount d = r_deposit r \<and>
        0 < r_deposit r \<and> r_review_deadline r = Some deadline \<and> deadline \<le> now \<and>
        t = settled_db r (released_row d 3 None now) (credited u (r_deposit r) now (users s)) l [e1, e2] [g1, g2] q now s \<and>
        settlement_ledger 3 (deposit_auto_release_key (r_id r)) r d l \<and> e_type e1 = 11 \<and> e_type e2 = 16 \<and>
        g_actor g1 = None \<and> g_actor g2 = None))"
proof -
  obtain st s0 st' source s1 x where lock: "LockNextRentalFinalizationState busy now s = Inr (st, s0)"
    and status: "dss_RentalStatus st = 3" "dss_PaymentStatus st = 2"
    and settle: "settle_for_finalization st now s0 = Inr ((st', a, source), s1)"
    and complete: "completeRentalAfterSettlement st' None source now empty_settlement_result s1 = Inr (x, t)"
    using run unfolding finalize_next_def
    by (auto simp: tx_bind_ok tx_seq_ok tx_catch_ok tx_return_ok tx_fail_ok fail_if_ok split: option.splits if_splits prod.splits)
  obtain r rs where queue: "finalization_queue now s = r # rs" "r_id r \<notin> busy" and r: "r \<in> set (rentals s)"
    and lock': "LockDepositSettlementState (r_id r) s = Inr (st, s0)"
    by (rule LockNext_ok [OF valid lock])
  note state = LockDepositSettlementState_queued [OF valid lock' r refl]
  have s0: "s0 = s" using state by blast
  have r3: "r_status r = 3" using state status(1) by auto
  note keys = valid_db_keys [OF valid]
  have completes: "\<exists>e g q. t = completed_db r e g q now s1 \<and> e_type e = 16 \<and> g_actor g = None"
    if "rentals s1 = rentals s" "dss_RentalID st' = r_id r" "dss_RentalStatus st' = 3"
    using complete_rental_ok [of s1 r st' None source now empty_settlement_result x t] that keys(3) r complete
    by (auto simp: completed_db_def)
  show thesis
  proof (cases a)
    case False
    then have "st' = st \<and> s1 = s"
      using settle s0 by (auto simp: settle_for_finalization_def tx_inv split: if_splits)
    moreover have "dss_RentalID st = r_id r" using state by (auto simp: settlement_rows_def)
    ultimately show thesis
      using completes status False that [OF queue r r3] by auto
  next
    case True
    then have pos: "isConsistentPositiveDepositState st" "dss_HoldStatus st = 1"
      and deadline: "\<exists>deadline. dss_ReviewDeadlineAt st = Some deadline \<and> deadline \<le> now"
      and paid: "autoReleaseDeposit st now s = Inr (st', s1)"
      using settle s0 by (auto simp: settle_for_finalization_def tx_inv split: if_splits option.splits)
    obtain p d u where rows: "settlement_rows s (r_id r) r p d u" and st: "st = settling r p d u"
      using state pos by (auto simp: isConsistentPositiveDepositState_def)
    obtain l e g q where s1: "s1 = s\<lparr>holds := set_row d_id (released_row d 3 None now) (holds s), users := credited u (d_amount d) now (users s),
       ledger := ledger s @ [l], events := events s @ [e], audits := audits s @ [g], sequences := q\<rparr>"
      and facts: "settlement_ledger 3 (deposit_auto_release_key (r_id r)) r d l" "d_status d = 1" "e_type e = 11" "g_actor g = None"
      and st': "dss_RentalID st' = r_id r" "dss_RentalStatus st' = r_status r"
      by (rule auto_released [OF valid rows paid [unfolded st]]) blast
    obtain e2 g2 q2 where t: "t = completed_db r e2 g2 q2 now s1" and e2: "e_type e2 = 16" "g_actor g2 = None"
      using completes st' r3 by (auto simp: s1)
    have amount: "d_amount d = r_deposit r" "0 < r_deposit r"
      using pos by (simp_all add: st isConsistentPositiveDepositState_def)
    have "t = settled_db r (released_row d 3 None now) (credited u (r_deposit r) now (users s)) l [e, e2] [g, g2] q2 now s"
      unfolding t s1 completed_db_def settled_db_def amount by simp
    moreover obtain deadline where "r_review_deadline r = Some deadline" "deadline \<le> now"
      using deadline by (auto simp: st)
    ultimately show thesis
      using that [OF queue r r3] True rows facts amount e2 by blast
  qed
qed

lemma filter_set_row:
  assumes "\<And>z. z \<in> set rows \<Longrightarrow> key z = key y \<Longrightarrow> \<not> P z" "\<not> P y"
  shows "filter P (set_row key y rows) = filter P rows"
  using assms by (induction rows) (auto simp: set_row_def)

lemma finalize_next_valid:
  "valid_db s \<Longrightarrow> finalize_next busy now s = Inr (x, t) \<Longrightarrow> valid_db t"
  using valid.closedD [OF finalize_valid] by (fastforce simp: keeps_valid_def)

lemma finalize_pass_queue:
  assumes valid: "valid_db s" and run: "finalize_next busy now s = Inr (Some a, t)"
  obtains r where "finalization_queue now s = r # finalization_queue now t" "completed_row r now \<in> set (rentals t)"
proof (rule finalize_pass [OF valid run])
  fix r rs
  assume queue: "finalization_queue now s = r # rs" and r: "r \<in> set (rentals s)"
    and effect: "(\<not> a \<and> (\<exists>e g q. t = completed_db r e g q now s \<and> e_type e = 16 \<and> g_actor g = None)) \<or>
     (a \<and> (\<exists>p d u deadline l e1 e2 g1 g2 q. settlement_rows s (r_id r) r p d u \<and> d_status d = 1 \<and> d_amount d = r_deposit r \<and>
        0 < r_deposit r \<and> r_review_deadline r = Some deadline \<and> deadline \<le> now \<and>
        t = settled_db r (released_row d 3 None now) (credited u (r_deposit r) now (users s)) l [e1, e2] [g1, g2] q now s \<and>
        settlement_ledger 3 (deposit_auto_release_key (r_id r)) r d l \<and> e_type e1 = 11 \<and> e_type e2 = 16 \<and>
        g_actor g1 = None \<and> g_actor g2 = None))"
  have t: "rentals t = set_row r_id (completed_row r now) (rentals s)" "payments t = payments s"
    using effect by (auto simp: completed_db_def settled_db_def)
  have "filter (\<lambda>d. d_rental d = x) (holds t) = filter (\<lambda>d. d_rental d = x) (holds s)" if "x \<noteq> r_id r" for x
  proof (cases a)
    case False
    then show ?thesis using effect by (auto simp: completed_db_def)
  next
    case True
    then obtain p d u where rows: "settlement_rows s (r_id r) r p d u"
      and h: "holds t = set_row d_id (released_row d 3 None now) (holds s)"
      using effect by (auto simp: settled_db_def)
    have d: "d \<in> set (holds s)" "d_rental d = r_id r" using rows by (auto simp: settlement_rows_def)
    show ?thesis
      unfolding h using d that key_inj [OF valid_db_keys(7) [OF valid] _ d(1)] by (intro filter_set_row) auto
  qed
  then have "finalization_queue now t = rs"
    by (rule finalization_queue_step [OF valid finalize_next_valid [OF valid run] queue t])
  moreover have "completed_row r now \<in> set (rentals t)"
    unfolding t(1) by (rule in_set_row [OF r]) simp
  ultimately show thesis using that queue by simp
qed

lemma tx_map_error: "tx_bind m (\<lambda>x. tx_return (f x)) s = Inl e \<longleftrightarrow> m s = Inl e"
  by (auto simp: tx_bind_def tx_return_def split: sum.splits)

lemma tx_map_ok: "tx_bind m (\<lambda>x. tx_return (f x)) s = Inr (y, t) \<longleftrightarrow> (\<exists>x. m s = Inr (x, t) \<and> y = f x)"
  by (auto simp: tx_bind_ok tx_return_ok)

lemma finalize_none:
  assumes "valid_db s" "finalize_next busy now s = Inr (None, t)"
  shows "t = s \<and> (finalization_queue now s = [] \<or> r_id (hd (finalization_queue now s)) \<in> busy)"
proof -
  have none: "(\<exists>e. LockNextRentalFinalizationState busy now s = Inl e \<and> errors_is e (PaymentErr ErrDepositHoldNotFound)) \<and> t = s"
    using assms(2) unfolding finalize_next_def
    by (auto simp: tx_bind_ok [of "tx_catch _ _"] tx_seq_ok tx_bind_ok [of "settle_for_finalization _ _"] tx_catch_ok tx_map_error
        tx_map_ok tx_return_ok tx_fail_ok split: option.splits if_splits prod.splits)
  then show ?thesis using LockNext_none [OF assms(1)] by blast
qed

lemma completed_stays:
  assumes "evolves s t" "completed_row r now \<in> set (rentals s)"
  shows "completed_row r now \<in> set (rentals t)"
  using rental_order.grows_in [of "rentals s" "rentals t" "completed_row r now"] assms
  by (auto simp: evolves_def rental_next_def)

lemma finalize_loop_evolves: "evolves s (snd (finalize_loop n busy now result s))"
  by (rule finalize_loop_induct) (auto intro: evolution.R_refl evolution.R_trans evolution.closedD [OF finalize_evolves])

lemma finalize_loop_valid: "valid_db s \<Longrightarrow> valid_db (snd (finalize_loop n busy now result s))"
  using finalize_loop_induct [of now keeps_valid s n busy result] valid.closedD [OF finalize_valid]
  by (auto simp: keeps_valid_def)

lemma finalize_loop_ok:
  assumes "valid_db s" "finalize_loop n busy now result s = (Inr res, t)"
  shows "\<exists>k a. k \<le> n \<and> a \<le> k \<and> rfr_Processed res = rfr_Processed result + int k \<and> rfr_Completed res = rfr_Completed result + int k \<and>
     rfr_AutoReleased res = rfr_AutoReleased result + int a \<and> k \<le> length (finalization_queue now s) \<and>
     finalization_queue now t = drop k (finalization_queue now s) \<and>
     (\<forall>r\<in>set (take k (finalization_queue now s)). completed_row r now \<in> set (rentals t)) \<and>
     (k = n \<or> k = length (finalization_queue now s) \<or> r_id (finalization_queue now s ! k) \<in> busy (n - Suc k))"
  using assms
proof (induction n arbitrary: result s)
  case 0
  then show ?case by auto
next
  case (Suc n)
  show ?case
  proof (cases "finalize_next (busy n) now s")
    case (Inl e)
    then show ?thesis using Suc.prems by (simp add: WithinTransaction_def)
  next
    case (Inr xs)
    then obtain x s1 where run: "finalize_next (busy n) now s = Inr (x, s1)" by (cases xs) auto
    show ?thesis
    proof (cases x)
      case None
      then have "res = result" "t = s" using run Suc.prems(2) finalize_none [OF Suc.prems(1), of "busy n" now s1]
        by (auto simp: WithinTransaction_def)
      then show ?thesis
        using finalize_none [OF Suc.prems(1), of "busy n" now s1] run None
        by (intro exI [of _ 0]) (cases "finalization_queue now s"; auto)
    next
      case (Some a)
      let ?r1 = "\<lparr>rfr_Processed = rfr_Processed result + 1, rfr_Completed = rfr_Completed result + 1,
             rfr_AutoReleased = (if a then rfr_AutoReleased result + 1 else rfr_AutoReleased result)\<rparr>"
      have loop: "finalize_loop n busy now ?r1 s1 = (Inr res, t)"
        using Suc.prems(2) run Some by (simp add: WithinTransaction_def)
      obtain r where q: "finalization_queue now s = r # finalization_queue now s1" and c: "completed_row r now \<in> set (rentals s1)"
        by (rule finalize_pass_queue [OF Suc.prems(1) run [unfolded Some]])
      have ct: "completed_row r now \<in> set (rentals t)"
        using completed_stays [OF finalize_loop_evolves [of s1 n busy now ?r1] c] loop by simp
      obtain k b where "k \<le> n" "b \<le> k" "rfr_Processed res = rfr_Processed result + 1 + int k" "rfr_Completed res = rfr_Completed result + 1 + int k"
        "rfr_AutoReleased res = rfr_AutoReleased ?r1 + int b" "k \<le> length (finalization_queue now s1)"
        "finalization_queue now t = drop k (finalization_queue now s1)"
        "\<forall>r\<in>set (take k (finalization_queue now s1)). completed_row r now \<in> set (rentals t)"
        "k = n \<or> k = length (finalization_queue now s1) \<or> r_id (finalization_queue now s1 ! k) \<in> busy (n - Suc k)"
        using Suc.IH [OF finalize_next_valid [OF Suc.prems(1) run] loop] by auto
      then show ?thesis
        using q ct by (intro exI [of _ "Suc k"] exI [of _ "if a then Suc b else b"]) auto
    qed
  qed
qed

section \<open>A head that cannot be settled\<close>

text \<open>A rental that is due stays due, and the head of the queue stays its head, as long as nothing changes but the time.\<close>

lemma due_later: "now \<le> later \<Longrightarrow> due now s r \<Longrightarrow> due later s r"
  using pg_ts_mono [of now later]
  by (auto simp: due_def finalizable_def split: list.splits option.splits)

lemma due_head:
  assumes valid: "valid_db s" and r: "due now s r" and d: "d \<in> set (holds s)" "d_rental d = r_id r" "d_status d = 1"
  shows "\<exists>t. r_review_deadline r = Some t \<and> t \<le> pg_ts now" "d_amount d = r_deposit r" "0 < r_deposit r"
proof -
  have "filter (\<lambda>x. d_rental x = r_id r) (holds s) = [d]"
    by (rule filter_unique [where key = d_rental, OF valid_db_keys(8) [OF valid] d(1)]) (simp add: d(2))
  then show "\<exists>t. r_review_deadline r = Some t \<and> t \<le> pg_ts now" "d_amount d = r_deposit r" "0 < r_deposit r"
    using r d(3) by (auto simp: due_def finalizable_def split: list.splits option.splits)
qed

lemma newly_due: "due later s x \<Longrightarrow> \<not> due now s x \<Longrightarrow> \<exists>t. r_review_deadline x = Some t \<and> pg_ts now < t"
  by (auto simp: due_def finalizable_def not_le split: list.splits option.splits)

lemma queue_head_stays:
  assumes valid: "valid_db s" and queue: "finalization_queue now s = r # rs" and later: "now \<le> later"
    and d: "d \<in> set (holds s)" "d_rental d = r_id r" "d_status d = 1"
  shows "\<exists>rs'. finalization_queue later s = r # rs' \<and> set rs \<subseteq> set rs'"
proof -
  have due: "due now s r" using set_finalization_queue [OF valid, of now] queue by auto
  obtain t where t: "r_review_deadline r = Some t" "t \<le> pg_ts now" using due_head(1) [OF valid due d] by blast
  have both: "filter (\<lambda>x. due later s x \<and> due now s x) (rentals s) = filter (due now s) (rentals s)"
    using due_later [OF later] by (auto intro!: filter_cong)
  have "filter (due now s) (finalization_queue later s) = r # rs"
    unfolding queue [symmetric] finalization_queue_due [OF valid] by (simp add: filter_sort both)
  then obtain us vs where split: "finalization_queue later s = us @ r # vs" "\<forall>u\<in>set us. \<not> due now s u" "rs = filter (due now s) vs"
    unfolding filter_eq_Cons_iff by blast
  have "us = []"
  proof (rule ccontr)
    assume "us \<noteq> []"
    then obtain x where x: "x \<in> set us" by (cases us) auto
    have "due later s x" using set_finalization_queue [OF valid, of later] split(1) x by auto
    then obtain v where v: "r_review_deadline x = Some v" "pg_ts now < v" using newly_due split(2) x by blast
    have "sorted (map due_time (us @ r # vs))" unfolding split(1) [symmetric] finalization_queue_due [OF valid] by simp
    then have "due_time x \<le> due_time r" using x by (auto simp: sorted_append)
    then show False using v t by (simp add: due_time_def)
  qed
  then show ?thesis using split by auto
qed

text \<open>A pass cannot release the deposit of a rental whose customer's balance has no room for it.\<close>

lemma overfull_pass_fails:
  assumes valid: "valid_db s" and queue: "finalization_queue now s = r # rs" and free: "r_id r \<notin> busy"
    and d: "d \<in> set (holds s)" "d_rental d = r_id r" "d_status d = 1"
    and u: "u \<in> set (users s)" "u_id u = r_user r" "MaxInt64 < u_balance u + r_deposit r"
  shows "finalize_next busy now s \<noteq> Inr (q, t)"
proof
  assume run: "finalize_next busy now s = Inr (q, t)"
  note keys = valid_db_keys [OF valid]
  have due: "due now s r" using set_finalization_queue [OF valid, of now] queue by auto
  show False
  proof (cases q)
    case None
    have failed: "tx_bind m (\<lambda>st. tx_return (Some st)) s = Inl e \<longleftrightarrow> m s = Inl e" for m :: "(db, DepositSettlementState) tx" and e
      by (auto simp: tx_bind_def tx_return_def split: sum.split)
    from None obtain e where "LockNextRentalFinalizationState busy now s = Inl e" "errors_is e (PaymentErr ErrDepositHoldNotFound)"
      using run unfolding finalize_next_def
      by (auto simp: tx_bind_ok tx_seq_ok tx_catch_ok tx_return_ok tx_fail_ok fail_if_ok failed split: option.splits if_splits prod.splits)
    from LockNext_none [OF valid this] show False using queue free by simp
  next
    case (Some a)
    obtain st s0 st' source s1 x where lock: "LockNextRentalFinalizationState busy now s = Inr (st, s0)"
      and status: "dss_RentalStatus st = 3" and settle: "settle_for_finalization st now s0 = Inr ((st', a, source), s1)"
      and complete: "completeRentalAfterSettlement st' None source now empty_settlement_result s1 = Inr (x, t)"
      using run unfolding finalize_next_def Some
      by (auto simp: tx_bind_ok tx_seq_ok tx_catch_ok tx_return_ok tx_fail_ok fail_if_ok split: option.splits if_splits prod.splits)
    have r: "r \<in> set (rentals s)" and lock': "LockDepositSettlementState (r_id r) s = Inr (st, s0)"
      using LockNext_ok [OF valid lock] queue by auto
    note state = LockDepositSettlementState_queued [OF valid lock' r refl]
    have s0: "s0 = s" using state by blast
    show False
    proof (cases a)
      case False
      then have same: "st' = st" "s1 = s"
        using settle s0 by (auto simp: settle_for_finalization_def tx_inv split: if_splits)
      have "dss_RentalID st = r_id r" using state by (auto simp: settlement_rows_def)
      then have "completion_allowed s r"
        using complete_rental_ok [OF keys(3) r, of st None source now empty_settlement_result x t] complete status unfolding same by auto
      moreover have "d' = d" if "d' \<in> set (holds s)" "d_rental d' = r_id r" for d'
        using key_inj [OF keys(8) that(1) d(1)] that(2) d(2) by simp
      ultimately show False using due_head(3) [OF valid due d] d(3) by (auto simp: completion_allowed_def list_ex_iff)
    next
      case True
      then have pos: "isConsistentPositiveDepositState st" and paid: "autoReleaseDeposit st now s = Inr (st', s1)"
        using settle s0 by (auto simp: settle_for_finalization_def tx_inv split: if_splits option.splits)
      obtain p d' u' where rows: "settlement_rows s (r_id r) r p d' u'" and st: "st = settling r p d' u'"
        using state pos by (auto simp: isConsistentPositiveDepositState_def)
      have "d' = d" "u' = u"
        using rows key_inj [OF keys(8) _ d(1), of d'] key_inj [OF keys(1) _ u(1), of u'] d(2) u(2) by (auto simp: settlement_rows_def)
      moreover have "is_i64 (u_balance u' + d_amount d')" by (rule auto_released [OF valid rows paid [unfolded st]])
      ultimately show False using u(3) due_head(2) [OF valid due d] by (simp add: is_i64_def)
    qed
  qed
qed

lemma finalize_next_free:
  assumes "finalization_queue now s = r # rs" "r_id r \<notin> busy" "r_id r \<notin> busy'"
  shows "finalize_next busy now s = finalize_next busy' now s"
  by (simp add: finalize_next_def tx_bind_def tx_catch_def LockNext_free [OF assms(1,2)] LockNext_free [OF assms(1,3)])

end
