(* ===== verification/Finalization_Properties.thy ===== *)
theory Finalization_Properties
  imports Finalization
begin

text \<open>
  The properties of the finalization: the effect of a pass, what a run completes, its
  order, and what a failing pass does to a run.
\<close>

section \<open>Properties\<close>

text \<open>
  C18: A pass of the finalization that completes a rental takes the head of the queue
  (the earliest due rental) that no other session holds: the rental moves from expired
  to completed, and either nothing else but the trail is written, or the held deposit
  whose review deadline has passed is paid out in full to the customer, released by
  the system, and recorded in the ledger.
\<close>

theorem finalization_pass:
  assumes "valid_db s" "finalize_next busy now s = Inr (Some autoReleased, t)"
  shows "\<exists>r rs. finalization_queue now s = r # rs \<and> r_id r \<notin> busy \<and> r \<in> set (rentals s) \<and> r_status r = 3 \<and>
     (if autoReleased
      then \<exists>p d u deadline l e1 e2 g1 g2 q. settlement_rows s (r_id r) r p d u \<and> d_status d = 1 \<and> d_amount d = r_deposit r \<and>
        0 < r_deposit r \<and> r_review_deadline r = Some deadline \<and> deadline \<le> now \<and>
        t = settled_db r (released_row d 3 None now) (credited u (r_deposit r) now (users s)) l [e1, e2] [g1, g2] q now s \<and>
        settlement_ledger 3 (deposit_auto_release_key (r_id r)) r d l \<and> e_type e1 = 11 \<and> e_type e2 = 16
      else \<exists>e g q. t = completed_db r e g q now s \<and> e_type e = 16 \<and> g_actor g = None)"
proof (rule finalize_pass [OF assms], goal_cases)
  case (1 r rs)
  then show ?case by (cases autoReleased) (simp_all, blast+)
qed

text \<open>
  C19: A finalization run that returns has completed exactly the first k rentals of the
  queue, where k is the number it reports and is at most the limit, and what is left is
  the rest of the queue; it stopped because the limit was reached, the queue was
  exhausted, or its next rental was locked by another session. Without other sessions
  k is the smaller of the limit and the length of the queue.
\<close>

theorem finalization_run:
  assumes "valid_db s" "FinalizeExpiredRentals busy now limit s = (Inr res, t)"
  shows "0 < limit \<and> limit \<le> 100 \<and>
     (\<exists>k. rfr_Processed res = int k \<and> rfr_Completed res = int k \<and> 0 \<le> rfr_AutoReleased res \<and> rfr_AutoReleased res \<le> int k \<and>
        int k \<le> limit \<and> k \<le> length (finalization_queue now s) \<and>
        finalization_queue now t = drop k (finalization_queue now s) \<and>
        (\<forall>r\<in>set (take k (finalization_queue now s)). completed_row r now \<in> set (rentals t)) \<and>
        (int k = limit \<or> k = length (finalization_queue now s) \<or> (\<exists>n. r_id (finalization_queue now s ! k) \<in> busy n)) \<and>
        ((\<forall>n. busy n = {}) \<longrightarrow> k = min (nat limit) (length (finalization_queue now s))))"
proof -
  have limit: "0 < limit" "limit \<le> 100" and loop: "finalize_loop (nat limit) busy now \<lparr>rfr_Processed = 0, rfr_Completed = 0, rfr_AutoReleased = 0\<rparr> s = (Inr res, t)"
    using assms(2) by (auto simp: FinalizeExpiredRentals_def split: if_splits)
  obtain k a where k: "k \<le> nat limit" "a \<le> k" "rfr_Processed res = int k" "rfr_Completed res = int k" "rfr_AutoReleased res = int a"
      "k \<le> length (finalization_queue now s)" "finalization_queue now t = drop k (finalization_queue now s)"
      "\<forall>r\<in>set (take k (finalization_queue now s)). completed_row r now \<in> set (rentals t)"
    and stop: "k = nat limit \<or> k = length (finalization_queue now s) \<or> r_id (finalization_queue now s ! k) \<in> busy (nat limit - Suc k)"
    using finalize_loop_ok [OF assms(1) loop] by auto
  have "int k = limit \<or> k = length (finalization_queue now s) \<or> (\<exists>n. r_id (finalization_queue now s ! k) \<in> busy n)"
    using stop limit by auto
  moreover have "k = min (nat limit) (length (finalization_queue now s))" if "\<forall>n. busy n = {}"
    using stop that k(1,6) by auto
  ultimately show ?thesis
    using k limit by (intro conjI exI [of _ k]) auto
qed

text \<open>
  The queue is worked off in the order of the review deadlines (of the ends of
  use for rentals without one), and holds every due rental once.
\<close>

theorem finalization_order:
  assumes "valid_db s"
  shows "sorted (map due_time (finalization_queue now s)) \<and> distinct (map r_id (finalization_queue now s)) \<and>
     set (finalization_queue now s) = {r \<in> set (rentals s). due now s r}"
  using set_finalization_queue [OF assms] distinct_finalization_queue [OF assms]
  by (simp add: finalization_queue_due [OF assms])

text \<open>
  C20: A deposit that does not fit into its customer's balance stops the finalization. When the earliest due rental has a held deposit and the
  customer's balance plus this deposit is beyond 64 bits, then every run, at this time or later, with every limit and whatever other rentals are
  locked, fails and leaves the database as it is, as long as nothing else changes the database: this rental stays the head of the queue, and of the rentals that wait
  behind it, none is completed.
\<close>

theorem finalization_blocked:
  assumes valid: "valid_db s" and queue: "finalization_queue now s = r # rs" and later: "now \<le> later"
    and hold: "d \<in> set (holds s)" "d_rental d = r_id r" "d_status d = 1"
    and customer: "u \<in> set (users s)" "u_id u = r_user r" "MaxInt64 < u_balance u + r_deposit r"
  shows "\<exists>rs' e. finalization_queue later s = r # rs' \<and> set rs \<subseteq> set rs' \<and>
    (\<forall>busy limit. (\<forall>n. r_id r \<notin> busy n) \<and> 0 < limit \<and> limit \<le> 100 \<longrightarrow> FinalizeExpiredRentals busy later limit s = (Inl e, s))"
proof -
  obtain rs' where q: "finalization_queue later s = r # rs'" "set rs \<subseteq> set rs'" using queue_head_stays [OF valid queue later hold] by blast
  obtain e where e: "finalize_next {} later s = Inl e"
    using overfull_pass_fails [OF valid q(1) _ hold customer, of "{}"] by (cases "finalize_next {} later s") auto
  have "FinalizeExpiredRentals busy later limit s = (Inl e, s)" if b: "\<forall>n. r_id r \<notin> busy n" and l: "0 < limit" "limit \<le> 100" for busy limit
  proof -
    obtain n where n: "nat limit = Suc n" using l by (cases "nat limit") auto
    have "finalize_next (busy n) later s = Inl e" using finalize_next_free [OF q(1), of "busy n" "{}"] b e by simp
    then show ?thesis using l n by (simp add: FinalizeExpiredRentals_def WithinTransaction_def)
  qed
  then show ?thesis using q by blast
qed

definition no_deposit_rental :: "int \<Rightarrow> int \<Rightarrow> rental_row" where
  "no_deposit_rental rid aid = rental7\<lparr>r_id := rid, r_account := aid, r_status := 3, r_deposit := 0, r_end := 29 * Hour,
     r_finished := Some (29 * Hour)\<rparr>"

text \<open>Behind the expired rental 7 an expired rental 8 without deposit waits; \<open>full\<close> fills the customer's balance.\<close>

definition two_expired_db :: "int \<Rightarrow> db" where
  "two_expired_db balance = expired_db
     \<lparr>rentals := rentals expired_db @ [no_deposit_rental 8 5],
      payments := payments expired_db @ [payment9\<lparr>p_id := 10, p_rental := 8, p_status := 2\<rparr>],
      users := [admin_row, customer_row\<lparr>u_balance := balance\<rparr>]\<rparr>"

lemma finalization_pass_witness:
  "\<exists>t. finalize_next {} (40 * Hour) expired_db = Inr (Some True, t) \<and> finalization_queue (40 * Hour) expired_db \<noteq> []"
proof -
  have "ok_with (\<lambda>x. x = Some True) (WithinTransaction (finalize_next {} (40 * Hour)) expired_db)" by code_simp
  then obtain t where "finalize_next {} (40 * Hour) expired_db = Inr (Some True, t)"
    by (auto dest!: ok_withD simp: WithinTransaction_ok)
  then show ?thesis
    using finalization_pass [OF expired_db_valid] by fastforce
qed

lemma finalization_run_witness:
  "\<exists>res t. FinalizeExpiredRentals (\<lambda>_. {}) (40 * Hour) 100 (two_expired_db 0) = (Inr res, t) \<and> rfr_Processed res = 2"
proof -
  have v: "valid_db (two_expired_db 0)" by code_simp
  have "ok_with (\<lambda>_. True) (FinalizeExpiredRentals (\<lambda>_. {}) (40 * Hour) 100 (two_expired_db 0))" by code_simp
  then obtain res t where run: "FinalizeExpiredRentals (\<lambda>_. {}) (40 * Hour) 100 (two_expired_db 0) = (Inr res, t)"
    by (auto dest: ok_withD)
  have "length (finalization_queue (40 * Hour) (two_expired_db 0)) = 2" by code_simp
  then show ?thesis using finalization_run [OF v run] run by auto
qed

lemma finalization_order_witness:
  "sorted (map due_time (finalization_queue (40 * Hour) (two_expired_db 0))) \<and> map r_id (finalization_queue (40 * Hour) (two_expired_db 0)) = [7, 8]"
proof -
  have "valid_db (two_expired_db 0)" "map r_id (finalization_queue (40 * Hour) (two_expired_db 0)) = [7, 8]" by code_simp+
  then show ?thesis using finalization_order by blast
qed

lemma finalization_blocked_witness:
  "\<exists>e. FinalizeExpiredRentals (\<lambda>_. {}) (41 * Hour) 100 (two_expired_db MaxInt64) = (Inl e, two_expired_db MaxInt64) \<and>
     map r_id (finalization_queue (40 * Hour) (two_expired_db MaxInt64)) = [7, 8]"
proof -
  let ?s = "two_expired_db MaxInt64" and ?d = "hd (holds (two_expired_db MaxInt64))" and ?u = "customer_row\<lparr>u_balance := MaxInt64\<rparr>"
  have v: "valid_db ?s" by code_simp
  have ids: "map r_id (finalization_queue (40 * Hour) ?s) = [7, 8]" by code_simp
  then obtain r rs where q: "finalization_queue (40 * Hour) ?s = r # rs" by (cases "finalization_queue (40 * Hour) ?s") auto
  have head: "map (\<lambda>r. (r_id r, r_user r, 0 < r_deposit r)) (finalization_queue (40 * Hour) ?s) = [(7, 2, True), (8, 2, False)]" by code_simp
  have r: "r_id r = 7" "r_user r = 2" "0 < r_deposit r" using head [unfolded q] by simp_all
  have d: "?d \<in> set (holds ?s)" "d_rental ?d = 7" "d_status ?d = 1" by (code_simp)+
  have u: "?u \<in> set (users ?s)" "u_id ?u = 2" "u_balance ?u = MaxInt64" by (simp_all add: two_expired_db_def customer_row_def)
  show ?thesis
    using finalization_blocked [OF v q _ d(1) _ d(3) u(1), of "41 * Hour"] r d(2) u(2,3) ids by auto
qed

end
