(* ===== verification/Refund.thy ===== *)
theory Refund
  imports Finalization_Properties
begin

text \<open>
  The full refund of a wallet payment, \<open>RefundWalletPayment\<close> of
  src/internal/payment/service.go: the allowed reasons, the eligibility of a rental,
  the refund record (new, or the stored one with the rental's idempotency key), the
  money it moves, its trail, and the completion of the rental. The lemmas give the
  rows that a call works on, the abstract effect of a refund, and its repetition.
\<close>

section \<open>Reasons and eligibility\<close>

record WalletRefundReasonOption =
  Code :: string
  Label :: string

definition walletRefundReasonOptions :: "WalletRefundReasonOption list" where
  "walletRefundReasonOptions =
     [\<lparr>Code = ''SERVICE_UNAVAILABLE'', Label = ''Service unavailable''\<rparr>,
      \<lparr>Code = ''ACCOUNT_INVALID'', Label = ''Account invalid''\<rparr>,
      \<lparr>Code = ''ADMIN_CORRECTION'', Label = ''Admin correction''\<rparr>]"

definition walletRefundReasonCodeSet :: "string list" where
  "walletRefundReasonCodeSet = map Code walletRefundReasonOptions"

definition IsAllowedWalletRefundReasonCode :: "string \<Rightarrow> bool" where
  "IsAllowedWalletRefundReasonCode reasonCode =
     (let reasonCode = trim_space reasonCode
      in if \<not> isSafeReasonCode reasonCode then False else reasonCode \<in> set walletRefundReasonCodeSet)"

record WalletRefundResult =
  wrr_Changed :: bool
  wrr_Idempotent :: bool
  wrr_RefundID :: int
  wrr_Status :: string
  wrr_PrincipalAmount :: int
  wrr_DepositAmount :: int
  wrr_TotalAmount :: int
  wrr_DepositStatus :: string

definition validateWalletRefundEligibility :: "WalletRefundState \<Rightarrow> err + (int \<times> int)" where
  "validateWalletRefundEligibility state =
     (if wrs_Provider state \<noteq> walletPaymentProvider then Inl (PaymentErr ErrWalletRefundNotAllowed)
      else if wrs_PaymentStatus state \<noteq> 2 then Inl (PaymentErr ErrWalletRefundNotAllowed)
      else if wrs_RentalStatus state \<noteq> 3 \<and> wrs_RentalStatus state \<noteq> 4 then Inl (PaymentErr ErrWalletRefundNotAllowed)
      else let principalAmount = wrs_RentalPrice state
           in if principalAmount \<le> 0 then Inl (PaymentErr ErrWalletRefundNotAllowed)
              else if wrs_DepositAmount state \<le> 0 then Inr (principalAmount, 0)
              else if \<not> wrs_HasDepositHold state then Inl (PaymentErr ErrWalletRefundNotAllowed)
              else if wrs_HoldStatus state = depositHoldStatusHeld then Inr (principalAmount, wrs_HoldAmount state)
              else if wrs_HoldStatus state = depositHoldStatusReleased \<or> wrs_HoldStatus state = depositHoldStatusForfeited \<or>
                 wrs_HoldStatus state = depositHoldStatusRefunded then Inr (principalAmount, 0)
              else Inl (PaymentErr ErrWalletRefundNotAllowed))"

definition maxRefundableDeposit :: "WalletRefundState \<Rightarrow> int" where
  "maxRefundableDeposit state =
     (if wrs_DepositAmount state \<le> 0 then 0
      else if wrs_HasDepositHold state \<and> wrs_HoldStatus state = depositHoldStatusHeld then wrs_HoldAmount state
      else 0)"

definition walletRefundDepositStatus :: "int \<Rightarrow> int \<Rightarrow> bool \<Rightarrow> string" where
  "walletRefundDepositStatus holdStatus depositAmount hasDepositHold =
     (if depositAmount \<le> 0 then ''NONE''
      else if \<not> hasDepositHold then ''NONE''
      else if holdStatus = depositHoldStatusHeld then ''HELD''
      else if holdStatus = depositHoldStatusReleased then ''RELEASED''
      else if holdStatus = depositHoldStatusForfeited then ''FORFEITED''
      else if holdStatus = depositHoldStatusRefunded then ''REFUNDED''
      else ''UNKNOWN'')"

section \<open>The refund record and its entries\<close>

definition refund_key :: "int \<Rightarrow> string" where
  "refund_key rentalID = ''refund:wallet:full:rental:'' @ format_int rentalID"

definition principal_key :: "int \<Rightarrow> string" where
  "principal_key rentalID = ''refund:wallet:principal:full:rental:'' @ format_int rentalID"

definition deposit_refund_key :: "int \<Rightarrow> string" where
  "deposit_refund_key rentalID = ''refund:wallet:deposit:full:rental:'' @ format_int rentalID"

definition state_deposit_status :: "WalletRefundState \<Rightarrow> string" where
  "state_deposit_status state = walletRefundDepositStatus (wrs_HoldStatus state) (wrs_DepositAmount state) (wrs_HasDepositHold state)"

definition refund_ids :: "string \<Rightarrow> WalletRefundState \<Rightarrow> json" where
  "refund_ids event state = ids_metadata event (wrs_PaymentID state) (wrs_RentalID state) (wrs_AccountID state)"

definition new_refund :: "WalletRefundState \<Rightarrow> int \<Rightarrow> string \<Rightarrow> string \<Rightarrow> int \<Rightarrow> int \<Rightarrow> time \<Rightarrow> RefundRecord" where
  "new_refund state actor role reasonCode principalAmount depositAmount now =
     \<lparr>rr_ID = 0, rr_PaymentID = wrs_PaymentID state, rr_RentalID = wrs_RentalID state, rr_UserID = wrs_UserID state,
      rr_AccountID = wrs_AccountID state, rr_SourceType = refundSourceTypeWallet, rr_RefundKind = refundKindFull,
      rr_Status = refundStatusRequested, rr_ReasonCode = reasonCode, rr_RequestedByUserID = Some actor,
      rr_RequestedByRole = role, rr_AmountPrincipal = principalAmount, rr_AmountDeposit = depositAmount,
      rr_AmountTotal = i64 (principalAmount + depositAmount), rr_Currency = wrs_Currency state,
      rr_IdempotencyKey = refund_key (wrs_RentalID state), rr_CorrelationID = refund_key (wrs_RentalID state),
      rr_Metadata = refund_ids ''wallet_full_refund'' state @
        [(''reason_code'', JStr reasonCode), (''actor_user'', JStr (format_int actor)),
         (''deposit_hold_status'', JStr (state_deposit_status state)), (''recorded_at'', JTime now)],
      rr_ProcessedAt = None\<rparr>"

definition refund_entry :: "WalletRefundState \<Rightarrow> string \<Rightarrow> string \<Rightarrow> int \<Rightarrow> string \<Rightarrow> int \<Rightarrow> time \<Rightarrow> FinancialLedgerEntry" where
  "refund_entry state event key amount reasonCode refundID now =
     \<lparr>fle_UserID = wrs_UserID state, fle_RentalID = wrs_RentalID state, fle_PaymentID = wrs_PaymentID state,
      fle_AccountID = wrs_AccountID state, fle_Amount = amount, fle_Currency = wrs_Currency state,
      fle_Provider = walletPaymentProvider, fle_ExternalTransactionID = [], fle_IdempotencyKey = key,
      fle_CorrelationID = refund_key (wrs_RentalID state),
      fle_Metadata = refund_ids event state @
        [(''refund_id'', JStr (format_int refundID)), (''reason_code'', JStr reasonCode), (''recorded_at'', JTime now)]\<rparr>"

section \<open>The refund\<close>

text \<open>The money: the credit, the hold, and the ledger entries.\<close>

definition refund_money ::
  "WalletRefundState \<Rightarrow> int \<Rightarrow> string \<Rightarrow> int \<Rightarrow> int \<Rightarrow> int \<Rightarrow> time \<Rightarrow> (db, unit) tx" where
  "refund_money state actor reasonCode refundID principalAmount depositAmount now =
     tx_seq (wrapf ''credit refund amount to balance''
       (CreditUserBalance (wrs_UserID state) (i64 (principalAmount + depositAmount)) now))
    (tx_seq (tx_when (0 < depositAmount)
       (wrapf ''mark deposit refunded'' (MarkDepositRefunded (wrs_HoldID state) refundID actor now)))
    (tx_seq (wrapf ''insert principal refund ledger entry''
       (RecordBalanceRefundCredit (refund_entry state ''balance_refund_credit'' (principal_key (wrs_RentalID state))
          principalAmount reasonCode refundID now)))
    (tx_when (0 < depositAmount)
       (wrapf ''insert deposit refund ledger entry''
         (RecordDepositRefundCredit (refund_entry state ''deposit_refund_credit'' (deposit_refund_key (wrs_RentalID state))
            depositAmount reasonCode refundID now))))))"

definition refund_trail ::
  "WalletRefundState \<Rightarrow> int \<Rightarrow> string \<Rightarrow> int \<Rightarrow> int \<Rightarrow> int \<Rightarrow> string \<Rightarrow> time \<Rightarrow> (db, unit) tx" where
  "refund_trail state actor reasonCode refundID principalAmount depositAmount depositStatus now =
     tx_seq (wrapf ''mark refund completed'' (MarkRefundCompleted refundID now))
    (tx_seq (wrapf ''log refund security event''
       (LogRefundSecurityEvent (wrs_UserID state) (wrs_AccountID state) (wrs_RentalID state) ''api''
          (refund_ids ''wallet_refund_completed'' state @
             [(''refund_id'', JStr (format_int refundID)), (''actor_id'', JStr (format_int actor)),
              (''reason_code'', JStr reasonCode), (''principal_refunded'', JBool (0 < principalAmount)),
              (''deposit_refunded'', JBool (0 < depositAmount)), (''deposit_status'', JStr depositStatus)])))
    (wrapf ''insert refund audit log''
       (InsertAuditLog actor ''refund'' refundID ''wallet_refund_completed''
          [(''status'', JStr ''REQUESTED''), (''principal'', JInt principalAmount), (''deposit'', JInt depositAmount),
           (''deposit_status'', JStr (state_deposit_status state))]
          [(''status'', JStr ''COMPLETED''), (''principal'', JInt principalAmount), (''deposit'', JInt depositAmount),
           (''deposit_status'', JStr depositStatus), (''reason_code'', JStr reasonCode)])))"

definition refund_complete_rental :: "string \<Rightarrow> string \<Rightarrow> int \<Rightarrow> int \<Rightarrow> time \<Rightarrow> (db, unit) tx" where
  "refund_complete_rental msg source rentalID actor now =
     tx_bind (wrapf msg (LockDepositSettlementState rentalID)) (\<lambda>settlementState.
     tx_seq (completeRentalAfterSettlement settlementState (Some actor) source now empty_settlement_result)
       (tx_return ()))"

definition refund_settle ::
  "WalletRefundState \<Rightarrow> int \<Rightarrow> string \<Rightarrow> RefundRecord \<Rightarrow> int \<Rightarrow> int \<Rightarrow> time \<Rightarrow> (db, WalletRefundResult) tx" where
  "refund_settle state actor reasonCode refund principalAmount depositAmount now =
     tx_bind (wrapf ''load completed refund totals'' (LoadCompletedRefundTotals (wrs_PaymentID state))) (\<lambda>totals.
     tx_seq (fail_if (wrs_RentalPrice state < i64 (rt_Principal totals + principalAmount)) (PaymentErr ErrWalletRefundNotAllowed))
    (tx_seq (fail_if (maxRefundableDeposit state < i64 (rt_Deposit totals + depositAmount)) (PaymentErr ErrWalletRefundNotAllowed))
    (let depositStatus = (if 0 < depositAmount then ''REFUNDED'' else state_deposit_status state)
     in tx_seq (refund_money state actor reasonCode (rr_ID refund) principalAmount depositAmount now)
       (tx_seq (refund_trail state actor reasonCode (rr_ID refund) principalAmount depositAmount depositStatus now)
       (tx_seq (refund_complete_rental ''reload settlement state after wallet refund'' ''WALLET_REFUND'' (wrs_RentalID state) actor now)
       (tx_return \<lparr>wrr_Changed = True, wrr_Idempotent = False, wrr_RefundID = rr_ID refund, wrr_Status = ''COMPLETED'',
          wrr_PrincipalAmount = rr_AmountPrincipal refund, wrr_DepositAmount = rr_AmountDeposit refund,
          wrr_TotalAmount = rr_AmountTotal refund, wrr_DepositStatus = depositStatus\<rparr>))))))"

definition refund_replay :: "WalletRefundState \<Rightarrow> int \<Rightarrow> RefundRecord \<Rightarrow> time \<Rightarrow> (db, WalletRefundResult) tx" where
  "refund_replay state actor refund now =
     tx_seq (refund_complete_rental ''reload settlement state for refund replay'' ''WALLET_REFUND_REPLAY'' (wrs_RentalID state) actor now)
       (tx_return \<lparr>wrr_Changed = False, wrr_Idempotent = True, wrr_RefundID = rr_ID refund, wrr_Status = ''COMPLETED'',
          wrr_PrincipalAmount = rr_AmountPrincipal refund, wrr_DepositAmount = rr_AmountDeposit refund,
          wrr_TotalAmount = rr_AmountTotal refund,
          wrr_DepositStatus = (if 0 < wrs_DepositAmount state \<and> wrs_HasDepositHold state \<and>
             wrs_HoldStatus state = depositHoldStatusHeld then ''REFUNDED'' else state_deposit_status state)\<rparr>)"

definition RefundWalletPayment_body ::
  "int \<Rightarrow> string \<Rightarrow> int \<Rightarrow> string \<Rightarrow> time \<Rightarrow> (db, WalletRefundResult) tx" where
  "RefundWalletPayment_body actor role rentalID reasonCode now =
     tx_seq (wrap_unless (PaymentErr ErrAdminRequired) ''authorize current admin for wallet refund''
       (Payment_RequireCurrentAdmin actor))
    (tx_bind (wrap_unless (PaymentErr ErrWalletRefundNotFound) ''lock wallet refund state''
       (LockWalletRefundState rentalID)) (\<lambda>state.
     tx_bind (lift_result (validateWalletRefundEligibility state)) (\<lambda>(principalAmount, depositAmount).
     tx_bind (wrapf ''create refund record''
       (CreateRefund (new_refund state actor role reasonCode principalAmount depositAmount now))) (\<lambda>(refund, created).
     if rr_Status refund = refundStatusCompleted
     then refund_replay state actor refund now
     else refund_settle state actor reasonCode refund principalAmount depositAmount now))))"

definition RefundWalletPayment ::
  "int \<Rightarrow> string \<Rightarrow> int \<Rightarrow> string \<Rightarrow> time \<Rightarrow> db \<Rightarrow> (err + WalletRefundResult) \<times> db" where
  "RefundWalletPayment actorUserID actorRole rentalID reasonCode now s =
     (if actorRole \<noteq> ''ADMIN'' then (Inl (PaymentErr ErrAdminRequired), s)
      else let reasonCode = trim_space reasonCode
           in if \<not> IsAllowedWalletRefundReasonCode reasonCode then (Inl (PaymentErr ErrInvalidReasonCode), s)
              else WithinTransaction (RefundWalletPayment_body actorUserID actorRole rentalID reasonCode now) s)"

section \<open>Constraints and evolution\<close>

lemmas refund_defs = RefundWalletPayment_body_def refund_settle_def refund_replay_def refund_money_def refund_trail_def
  refund_complete_rental_def settlement_defs

lemma refund_valid [closed_intros]: "valid.closed (RefundWalletPayment_body actor role rid reason now)"
  unfolding refund_defs by (intro closed_intros)

lemma refund_evolves [closed_intros]: "evolution.closed (RefundWalletPayment_body actor role rid reason now)"
  unfolding refund_defs by (intro closed_intros; auto simp: row_nexts)

section \<open>The rows of a refund\<close>

text \<open>The rows that a refund of rental \<open>rid\<close> works on; \<open>h\<close> is the hold, if there is one.\<close>

definition refund_rows :: "db \<Rightarrow> int \<Rightarrow> rental_row \<Rightarrow> payment_row \<Rightarrow> user_row \<Rightarrow> hold_row option \<Rightarrow> bool" where
  "refund_rows s rid r p u h \<longleftrightarrow>
     r \<in> set (rentals s) \<and> p \<in> set (payments s) \<and> u \<in> set (users s) \<and> r_id r = rid \<and> p_rental p = rid \<and> p_user p = r_user r \<and>
     u_id u = r_user r \<and> u_deleted u = None \<and> (\<exists>a\<in>set (accounts s). a_id a = r_account r) \<and>
     (case h of None \<Rightarrow> \<forall>d\<in>set (holds s). d_rental d \<noteq> rid
              | Some d \<Rightarrow> d \<in> set (holds s) \<and> d_rental d = rid \<and> d_payment d \<noteq> None)"

definition refund_state :: "rental_row \<Rightarrow> payment_row \<Rightarrow> user_row \<Rightarrow> hold_row option \<Rightarrow> WalletRefundState" where
  "refund_state r p u h = wallet_refund_state
     (case h of None \<Rightarrow> (settlement_state r p 0)\<lparr>dss_UserBalance := u_balance u\<rparr> | Some d \<Rightarrow> settling r p d u)"

lemma refund_state_simps [simp]:
  "wrs_PaymentID (refund_state r p u h) = p_id p" "wrs_RentalID (refund_state r p u h) = r_id r"
  "wrs_UserID (refund_state r p u h) = r_user r" "wrs_AccountID (refund_state r p u h) = r_account r"
  "wrs_Provider (refund_state r p u h) = p_provider p" "wrs_PaymentStatus (refund_state r p u h) = p_status p"
  "wrs_RentalStatus (refund_state r p u h) = r_status r" "wrs_RentalPrice (refund_state r p u h) = r_price r"
  "wrs_DepositAmount (refund_state r p u h) = r_deposit r" "wrs_Currency (refund_state r p u h) = p_currency p"
  "wrs_HasDepositHold (refund_state r p u h) \<longleftrightarrow> h \<noteq> None" "wrs_HoldID (refund_state r p u (Some d)) = d_id d"
  "wrs_HoldStatus (refund_state r p u (Some d)) = d_status d" "wrs_HoldAmount (refund_state r p u (Some d)) = d_amount d"
  by (cases h; simp add: refund_state_def wallet_refund_state_def settlement_state_def)+

lemma LockDepositSettlementState_rows:
  assumes "LockDepositSettlementState rid s = Inr (st, t)"
  shows "t = s \<and> (\<exists>r p u h. refund_rows s rid r p u h \<and> wallet_refund_state st = refund_state r p u h \<and>
     dss_RentalID st = rid \<and> dss_RentalStatus st = r_status r)"
proof -
  obtain r a p ds st' u where rows: "r \<in> set (rentals s)" "r_id r = rid"
      "p \<in> set (payments s)" "p_rental p = rid" "p_user p = r_user r" "u \<in> set (users s)" "u_id u = r_user r" "u_deleted u = None"
      "a \<in> set (accounts s)" "a_id a = r_account r"
    and ds: "ds = filter (\<lambda>d. d_rental d = rid) (holds s)" "scan_hold ds (settlement_state r p 0) = Inr st'"
    and st: "st = st'\<lparr>dss_UserBalance := u_balance u\<rparr>" "t = s"
    using assms unfolding LockDepositSettlementState_def
    by (auto simp: tx_bind_ok tx_seq_ok tx_read_ok lift_result_ok tx_return_ok no_rows_as_ok dest!: query_row_set)
  show ?thesis
  proof (cases ds)
    case Nil
    then have st0: "st = (settlement_state r p 0)\<lparr>dss_UserBalance := u_balance u\<rparr>"
      using ds(2) st(1) by (simp add: scan_hold_def)
    have "filter (\<lambda>d. d_rental d = rid) (holds s) = []" using ds(1) Nil by simp
    then have "\<forall>d\<in>set (holds s). d_rental d \<noteq> rid" by (simp add: filter_empty_conv)
    then have "refund_rows s rid r p u None" using rows by (auto simp: refund_rows_def)
    moreover have "wallet_refund_state st = refund_state r p u None" unfolding st0 by (simp add: refund_state_def)
    moreover have "dss_RentalID st = rid" "dss_RentalStatus st = r_status r"
      unfolding st0 using rows by (simp_all add: settlement_state_def)
    ultimately have "refund_rows s rid r p u None \<and> wallet_refund_state st = refund_state r p u None \<and> dss_RentalID st = rid \<and> dss_RentalStatus st = r_status r"
      by blast
    then show ?thesis using st by blast
  next
    case (Cons d ds')
    then have d: "d \<in> set (holds s)" "d_rental d = rid" using filter_hd [of "\<lambda>d. d_rental d = rid" "holds s" d ds'] ds(1) by simp_all
    obtain pid where pid: "d_payment d = Some pid" "st' = hold_columns d pid (settlement_state r p 0)"
      using ds(2) unfolding Cons by (auto simp: scan_hold_def split: option.splits)
    have st0: "st = settling r p d u" unfolding st(1) pid(2) settling_def pid(1) by simp
    have "refund_rows s rid r p u (Some d)" using rows d pid(1) by (auto simp: refund_rows_def)
    moreover have "wallet_refund_state st = refund_state r p u (Some d)" unfolding st0 by (simp add: refund_state_def)
    moreover have "dss_RentalID st = rid" "dss_RentalStatus st = r_status r" unfolding st0 using rows by simp_all
    ultimately have "refund_rows s rid r p u (Some d) \<and> wallet_refund_state st = refund_state r p u (Some d) \<and> dss_RentalID st = rid \<and> dss_RentalStatus st = r_status r"
      by blast
    then show ?thesis using st by blast
  qed
qed

lemma LockWalletRefundState_ok:
  assumes "LockWalletRefundState rid s = Inr (st, t)"
  shows "t = s \<and> (\<exists>r p u h. refund_rows s rid r p u h \<and> st = refund_state r p u h)"
proof -
  obtain st0 where "LockDepositSettlementState rid s = Inr (st0, t)" "st = wallet_refund_state st0"
    using assms by (auto simp: LockWalletRefundState_def tx_bind_ok tx_catch_ok tx_fail_ok tx_return_ok)
  with LockDepositSettlementState_rows show ?thesis by metis
qed

lemma validateWalletRefundEligibility_ok:
  "validateWalletRefundEligibility (refund_state r p u h) = Inr (amount, dep) \<Longrightarrow> 0 \<le> r_deposit r \<Longrightarrow>
   p_provider p = ''balance'' \<and> p_status p = 2 \<and> r_status r \<in> {3, 4} \<and> amount = r_price r \<and> 0 < amount \<and>
   (0 < r_deposit r \<longrightarrow> (\<exists>d. h = Some d \<and> d_status d \<in> {1, 2, 3, 4})) \<and>
   dep = (case h of Some d \<Rightarrow> (if 0 < r_deposit r \<and> d_status d = 1 then d_amount d else 0) | None \<Rightarrow> 0)"
  by (cases h) (auto simp: validateWalletRefundEligibility_def Let_def split: if_splits)

section \<open>What a refund has done\<close>

lemma refund_entry_simps [simp]:
  "fle_UserID (refund_entry st ev k amt rc i now) = wrs_UserID st" "fle_RentalID (refund_entry st ev k amt rc i now) = wrs_RentalID st"
  "fle_Amount (refund_entry st ev k amt rc i now) = amt" "fle_IdempotencyKey (refund_entry st ev k amt rc i now) = k"
  by (simp_all add: refund_entry_def)

definition refunded_row :: "hold_row \<Rightarrow> int \<Rightarrow> int \<Rightarrow> time \<Rightarrow> hold_row" where
  "refunded_row d refundID actor now = d\<lparr>d_status := 4, d_refunded := Some (pg_ts now), d_refund := Some refundID,
     d_source := Some 4, d_settled_by := Some actor, d_reason := None, d_evidence := None, d_updated := pg_ts now\<rparr>"

lemma MarkDepositRefunded_row:
  assumes "distinct (map d_id (holds s))" "d \<in> set (holds s)"
    and "MarkDepositRefunded (d_id d) i actor now s = Inr (x, t)"
  shows "d_status d = 1 \<and> t = s\<lparr>holds := set_row d_id (refunded_row d i actor now) (holds s)\<rparr>"
proof -
  let ?P = "\<lambda>x. d_id x = d_id d \<and> d_status x = 1"
  have t: "t = s\<lparr>holds := upd ?P (\<lambda>d. refunded_row d i actor now) (holds s)\<rparr>" and ex: "\<exists>x\<in>set (holds s). ?P x"
    using assms(3) by (auto simp: MarkDepositRefunded_ok Let_def refunded_row_def [abs_def])
  then have "?P d" using key_inj [OF assms(1) _ assms(2)] by auto
  moreover have "upd ?P (\<lambda>d. refunded_row d i actor now) (holds s) = set_row d_id (refunded_row d i actor now) (holds s)"
    by (rule upd_set_row [OF assms(1,2)]) (use calculation in \<open>auto simp: refunded_row_def\<close>)
  ultimately show ?thesis using t by simp
qed

definition completed_refund :: "refund_row \<Rightarrow> time \<Rightarrow> refund_row" where
  "completed_refund f now = f\<lparr>f_status := 2, f_processed := Some (pg_ts now), f_updated := pg_ts now\<rparr>"

lemma MarkRefundCompleted_row:
  assumes "distinct (map f_id (refunds s))" "f \<in> set (refunds s)" "MarkRefundCompleted (f_id f) now s = Inr (x, t)"
  shows "f_status f = 1 \<and> t = s\<lparr>refunds := set_row f_id (completed_refund f now) (refunds s)\<rparr>"
proof -
  let ?P = "\<lambda>x. f_id x = f_id f \<and> f_status x = 1"
  have t: "t = s\<lparr>refunds := upd ?P (\<lambda>f. completed_refund f now) (refunds s)\<rparr>" and ex: "\<exists>x\<in>set (refunds s). ?P x"
    using assms(3) by (auto simp: MarkRefundCompleted_ok Let_def completed_refund_def [abs_def])
  then have "?P f" using key_inj [OF assms(1) _ assms(2)] by auto
  moreover have "upd ?P (\<lambda>f. completed_refund f now) (refunds s) = set_row f_id (completed_refund f now) (refunds s)"
    by (rule upd_set_row [OF assms(1,2)]) (use calculation in \<open>auto simp: completed_refund_def\<close>)
  ultimately show ?thesis using t by simp
qed

definition refund_ledger :: "rental_row \<Rightarrow> int \<Rightarrow> ledger_row list \<Rightarrow> bool" where
  "refund_ledger r dep ls \<longleftrightarrow>
     map (\<lambda>l. (l_type l, l_user l, l_rental l, l_amount l, l_key l)) ls =
       (6, Some (r_user r), Some (r_id r), r_price r, principal_key (r_id r)) #
       (if 0 < dep then [(7, Some (r_user r), Some (r_id r), dep, deposit_refund_key (r_id r))] else [])"

text \<open>The rows that a refund appends, with their numbers and the transaction's time.\<close>

definition refund_postings :: "WalletRefundState \<Rightarrow> string \<Rightarrow> int \<Rightarrow> int \<Rightarrow> int \<Rightarrow> time \<Rightarrow> db \<Rightarrow> ledger_row list" where
  "refund_postings state reasonCode refundID principalAmount depositAmount now s =
     ledger_entry_row 6 (refund_entry state ''balance_refund_credit'' (principal_key (wrs_RentalID state)) principalAmount reasonCode refundID now)
       (sequences s Ledger) (clock s) #
     (if 0 < depositAmount
      then [ledger_entry_row 7 (refund_entry state ''deposit_refund_credit'' (deposit_refund_key (wrs_RentalID state)) depositAmount reasonCode refundID now)
        (sequences s Ledger + 1) (clock s)]
      else [])"

definition refund_event :: "WalletRefundState \<Rightarrow> int \<Rightarrow> string \<Rightarrow> int \<Rightarrow> int \<Rightarrow> int \<Rightarrow> string \<Rightarrow> db \<Rightarrow> event_row" where
  "refund_event state actor reasonCode refundID principalAmount depositAmount depositStatus s =
     new_event (Some (wrs_UserID state)) (Some (wrs_AccountID state)) (Some (wrs_RentalID state)) 14 None (Some ''api'')
       (refund_ids ''wallet_refund_completed'' state @
          [(''refund_id'', JStr (format_int refundID)), (''actor_id'', JStr (format_int actor)),
           (''reason_code'', JStr reasonCode), (''principal_refunded'', JBool (0 < principalAmount)),
           (''deposit_refunded'', JBool (0 < depositAmount)), (''deposit_status'', JStr depositStatus)])
       (clock s) (sequences s Events)"

definition refund_audit :: "WalletRefundState \<Rightarrow> int \<Rightarrow> string \<Rightarrow> int \<Rightarrow> int \<Rightarrow> int \<Rightarrow> string \<Rightarrow> db \<Rightarrow> audit_row" where
  "refund_audit state actor reasonCode refundID principalAmount depositAmount depositStatus s =
     new_audit (Some actor) ''refund'' refundID ''wallet_refund_completed''
       [(''status'', JStr ''REQUESTED''), (''principal'', JInt principalAmount), (''deposit'', JInt depositAmount),
        (''deposit_status'', JStr (state_deposit_status state))]
       [(''status'', JStr ''COMPLETED''), (''principal'', JInt principalAmount), (''deposit'', JInt depositAmount),
        (''deposit_status'', JStr depositStatus), (''reason_code'', JStr reasonCode)]
       (sequences s Audits) (clock s)"

text \<open>The rows of the completion of a rental, which come after one event and one record of the refund.\<close>

definition completion_events :: "rental_row \<Rightarrow> string \<Rightarrow> int \<Rightarrow> time \<Rightarrow> event_row list" where
  "completion_events r source i t =
     (if r_status r = 4 then []
      else [new_event (Some (r_user r)) (Some (r_account r)) (Some (r_id r)) 16 None (Some ''api'')
        [(''event'', JStr ''rental_completed''), (''idempotency_key'', JStr (rental_complete_key (r_id r))),
         (''rental_id'', JStr (format_int (r_id r))), (''account_id'', JStr (format_int (r_account r))), (''source'', JStr source)] t i])"

definition completion_audits :: "rental_row \<Rightarrow> int \<Rightarrow> string \<Rightarrow> time \<Rightarrow> int \<Rightarrow> time \<Rightarrow> audit_row list" where
  "completion_audits r actor source now i t =
     (if r_status r = 4 then []
      else [new_audit (Some actor) ''rental'' (r_id r) ''rental_complete'' [(''status'', JStr ''EXPIRED'')]
        [(''status'', JStr ''COMPLETED''), (''completed_at'', JTime now), (''completion_key'', JStr (rental_complete_key (r_id r))),
         (''completion_source'', JStr source)] i t])"

lemma refund_postings_ledger: "refund_ledger r dep (refund_postings (refund_state r p u h) reason i (r_price r) dep now s)"
  by (simp add: refund_ledger_def refund_postings_def)

lemma one_entry_numbers:
  "insertLedgerEntry ty entry s = Inr (x, t) \<Longrightarrow> sequences t = (sequences s)(Ledger := sequences s Ledger + 1)"
  "insert_event inet us a r ty' ip agent md created s = Inr (x, t) \<Longrightarrow> sequences t = (sequences s)(Events := sequences s Events + 1)"
  "insert_audit actor en i act old new s = Inr (x, t) \<Longrightarrow> sequences t = (sequences s)(Audits := sequences s Audits + 1)"
  by (auto simp: insertLedgerEntry_ok insert_event_ok insert_audit_ok Let_def bump_def)

lemma refund_money_ok:
  assumes keys: "distinct (map u_id (users s))" "distinct (map d_id (holds s))"
    and u: "u \<in> set (users s)" "u_id u = r_user r" and h: "0 < dep \<Longrightarrow> \<exists>d. h = Some d \<and> d \<in> set (holds s)"
    and run: "refund_money (refund_state r p u' h) actor reason i (r_price r) dep now s = Inr (x, t)"
  obtains ls q where "ls = refund_postings (refund_state r p u' h) reason i (r_price r) dep now s" "is_i64 (u_balance u + i64 (r_price r + dep))"
    "q = (sequences s)(Ledger := sequences s Ledger + int (length ls))"
    "t = s\<lparr>users := credited u (i64 (r_price r + dep)) now (users s),
       holds := (if 0 < dep then set_row d_id (refunded_row (the h) i actor now) (holds s) else holds s),
       ledger := ledger s @ ls, sequences := q\<rparr>"
    "0 < dep \<longrightarrow> d_status (the h) = 1"
proof -
  let ?st = "refund_state r p u' h"
  obtain s1 s2 s3 where
    1: "CreditUserBalance (u_id u) (i64 (r_price r + dep)) now s = Inr ((), s1)"
    and 2: "tx_when (0 < dep) (MarkDepositRefunded (wrs_HoldID ?st) i actor now) s1 = Inr ((), s2)"
    and 3: "insertLedgerEntry 6 (refund_entry ?st ''balance_refund_credit'' (principal_key (r_id r)) (r_price r) reason i now) s2 = Inr ((), s3)"
    and 4: "tx_when (0 < dep) (insertLedgerEntry 7 (refund_entry ?st ''deposit_refund_credit'' (deposit_refund_key (r_id r)) dep reason i now)) s3 = Inr ((), t)"
    using run u unfolding refund_money_def RecordBalanceRefundCredit_def RecordDepositRefundCredit_def
    by (auto simp: tx_seq_ok wrapf_ok tx_when_ok)
  have s1: "s1 = s\<lparr>users := credited u (i64 (r_price r + dep)) now (users s)\<rparr>" and fits: "is_i64 (u_balance u + i64 (r_price r + dep))"
    using CreditUserBalance_row [OF keys(1) u(1) 1] by simp_all
  define l where "l = ledger_entry_row 6 (refund_entry ?st ''balance_refund_credit'' (principal_key (r_id r)) (r_price r) reason i now) (sequences s2 Ledger) (clock s2)"
  define q3 where "q3 = sequences s3"
  have s3: "s3 = s2\<lparr>ledger := ledger s2 @ [l], sequences := q3\<rparr>" unfolding l_def q3_def by (rule one_entry [OF 3])
  have s2_same: "sequences s2 = sequences s" "clock s2 = clock s"
    using 2 by (auto simp: tx_when_ok MarkDepositRefunded_ok Let_def s1 split: if_splits)
  have l: "l = ledger_entry_row 6 (refund_entry ?st ''balance_refund_credit'' (principal_key (r_id r)) (r_price r) reason i now) (sequences s Ledger) (clock s)"
    unfolding l_def s2_same ..
  have q3: "q3 = (sequences s)(Ledger := sequences s Ledger + 1)" unfolding q3_def one_entry_numbers(1) [OF 3] s2_same ..
  show thesis
  proof (cases "0 < dep")
    case False
    then have "s2 = s1" "t = s3" using 2 4 by (simp_all add: tx_when_ok)
    then have t: "t = s\<lparr>users := credited u (i64 (r_price r + dep)) now (users s), holds := holds s, ledger := ledger s @ [l], sequences := q3\<rparr>"
      unfolding s3 s1 by simp
    have ls: "[l] = refund_postings ?st reason i (r_price r) dep now s" using False by (simp add: refund_postings_def l)
    have "q3 = (sequences s)(Ledger := sequences s Ledger + int (length [l]))" unfolding q3 by simp
    then show thesis using that [OF ls fits] t False by simp
  next
    case True
    then obtain d where d: "h = Some d" "d \<in> set (holds s)" using h by blast
    have "d \<in> set (holds s1)" "distinct (map d_id (holds s1))" using d keys(2) by (simp_all add: s1)
    then have s2: "s2 = s1\<lparr>holds := set_row d_id (refunded_row d i actor now) (holds s)\<rparr>" and held: "d_status d = 1"
      using MarkDepositRefunded_row [of s1 d i actor now "()" s2] 2 True d(1) by (simp_all add: tx_when_ok s1)
    define l' q where "l' = ledger_entry_row 7 (refund_entry ?st ''deposit_refund_credit'' (deposit_refund_key (r_id r)) dep reason i now) (sequences s3 Ledger) (clock s3)"
      and "q = sequences t"
    have 5: "insertLedgerEntry 7 (refund_entry ?st ''deposit_refund_credit'' (deposit_refund_key (r_id r)) dep reason i now) s3 = Inr ((), t)"
      using 4 True by (simp add: tx_when_ok)
    then have "t = s3\<lparr>ledger := ledger s3 @ [l'], sequences := q\<rparr>"
      unfolding l'_def q_def by (rule one_entry)
    then have t: "t = s\<lparr>users := credited u (i64 (r_price r + dep)) now (users s),
       holds := set_row d_id (refunded_row d i actor now) (holds s), ledger := ledger s @ [l, l'], sequences := q\<rparr>"
      unfolding s3 s2 s1 by simp
    have s3_same: "sequences s3 = q3" "clock s3 = clock s" unfolding s3 using s2_same by simp_all
    have l': "l' = ledger_entry_row 7 (refund_entry ?st ''deposit_refund_credit'' (deposit_refund_key (r_id r)) dep reason i now) (sequences s Ledger + 1) (clock s)"
      unfolding l'_def s3_same q3 by simp
    have ls: "[l, l'] = refund_postings ?st reason i (r_price r) dep now s" using True by (simp add: refund_postings_def l l')
    have "q = (sequences s)(Ledger := sequences s Ledger + int (length [l, l']))" unfolding q_def one_entry_numbers(1) [OF 5] s3_same q3 by (rule ext) simp
    then show thesis using that [OF ls fits] t True d held by simp
  qed
qed

definition refundable :: "rental_row \<Rightarrow> hold_row option \<Rightarrow> int" where
  "refundable r h = (case h of Some d \<Rightarrow> (if 0 < r_deposit r \<and> d_status d = 1 then d_amount d else 0) | None \<Rightarrow> 0)"

lemma LoadCompletedRefundTotals_ok:
  "LoadCompletedRefundTotals pid s = Inr (x, t) \<Longrightarrow>
   t = s \<and> rt_Principal x = sum_list (map f_principal (filter (\<lambda>f. f_payment f = pid \<and> f_status f = 2) (refunds s)))"
  by (auto simp: LoadCompletedRefundTotals_def tx_inv Let_def)

lemma refund_trail_ok:
  assumes "distinct (map f_id (refunds s))" "f \<in> set (refunds s)" "f_id f = i"
    and "refund_trail st actor reason i amount dep status now s = Inr (x, t)"
  shows "f_status f = 1 \<and> (\<exists>q. t = s\<lparr>refunds := set_row f_id (completed_refund f now) (refunds s),
       events := events s @ [refund_event st actor reason i amount dep status s],
       audits := audits s @ [refund_audit st actor reason i amount dep status s], sequences := q\<rparr> \<and>
     q = (sequences s)(Events := sequences s Events + 1, Audits := sequences s Audits + 1))"
proof -
  define m n n' where "m = refund_ids ''wallet_refund_completed'' st @
          [(''refund_id'', JStr (format_int i)), (''actor_id'', JStr (format_int actor)),
           (''reason_code'', JStr reason), (''principal_refunded'', JBool (0 < amount)),
           (''deposit_refunded'', JBool (0 < dep)), (''deposit_status'', JStr status)]"
    and "n = [(''status'', JStr ''REQUESTED''), (''principal'', JInt amount), (''deposit'', JInt dep),
        (''deposit_status'', JStr (state_deposit_status st))]"
    and "n' = [(''status'', JStr ''COMPLETED''), (''principal'', JInt amount), (''deposit'', JInt dep),
        (''deposit_status'', JStr status), (''reason_code'', JStr reason)]"
  obtain s1 s2 where
    1: "MarkRefundCompleted (f_id f) now s = Inr ((), s1)"
    and 2: "insert_event (\<lambda>_. True) (Some (wrs_UserID st)) (Some (wrs_AccountID st)) (Some (wrs_RentalID st)) 14 None (Some ''api'') m None s1 = Inr ((), s2)"
    and 3: "insert_audit (Some actor) ''refund'' i ''wallet_refund_completed'' n n' s2 = Inr ((), t)"
    using assms(3,4) unfolding refund_trail_def event_loggers m_def [symmetric] n_def [symmetric] n'_def [symmetric]
    by (auto simp: tx_seq_ok wrapf_ok)
  have f: "f_status f = 1" and s1: "s1 = s\<lparr>refunds := set_row f_id (completed_refund f now) (refunds s)\<rparr>"
    using MarkRefundCompleted_row [OF assms(1,2) 1] by simp_all
  define e g q2 q where "e = new_event (Some (wrs_UserID st)) (Some (wrs_AccountID st)) (Some (wrs_RentalID st)) 14 None (Some ''api'') m (clock s1) (sequences s1 Events)"
    and "g = new_audit (Some actor) ''refund'' i ''wallet_refund_completed'' n n' (sequences s2 Audits) (clock s2)"
    and "q2 = sequences s2" and "q = sequences t"
  have s2: "s2 = s1\<lparr>events := events s1 @ [e], sequences := q2\<rparr>" unfolding e_def q2_def using one_event [OF 2] by simp
  have t: "t = s2\<lparr>audits := audits s2 @ [g], sequences := q\<rparr>" unfolding g_def q_def by (rule one_audit [OF 3])
  have same: "sequences s1 = sequences s" "clock s1 = clock s" "sequences s2 = (sequences s)(Events := sequences s Events + 1)" "clock s2 = clock s"
    using one_entry_numbers(2) [OF 2] s1 s2 by simp_all
  have e: "e = refund_event st actor reason i amount dep status s"
    unfolding e_def refund_event_def m_def same ..
  have g: "g = refund_audit st actor reason i amount dep status s"
    unfolding g_def refund_audit_def n_def n'_def same by simp
  have "t = s\<lparr>refunds := set_row f_id (completed_refund f now) (refunds s), events := events s @ [e], audits := audits s @ [g], sequences := q\<rparr>"
    unfolding t s2 s1 by simp
  moreover have "q = (sequences s)(Events := sequences s Events + 1, Audits := sequences s Audits + 1)"
    unfolding q_def one_entry_numbers(3) [OF 3] same by simp
  ultimately show ?thesis unfolding e g using f by blast
qed

text \<open>The end of a refund completes the rental unless it is completed already.\<close>

definition completed_rentals :: "rental_row \<Rightarrow> time \<Rightarrow> rental_row list \<Rightarrow> rental_row list" where
  "completed_rentals r now rs = (if r_status r = 4 then rs else set_row r_id (completed_row r now) rs)"

lemma complete_rental_rows:
  assumes "distinct (map r_id (rentals s))" "r \<in> set (rentals s)" "r_id r = dss_RentalID st"
    and st: "dss_UserID st = r_user r" "dss_AccountID st = r_account r" "dss_RentalStatus st = r_status r"
    and run: "completeRentalAfterSettlement st (Some actor) source now res s = Inr (res', t)" and open_rental: "r_status r \<noteq> 4"
  shows "r_status r = 3 \<and> t = s\<lparr>rentals := set_row r_id (completed_row r now) (rentals s),
       events := events s @ completion_events r source (sequences s Events) (clock s),
       audits := audits s @ completion_audits r actor source now (sequences s Audits) (clock s),
       sequences := (sequences s)(Events := sequences s Events + 1, Audits := sequences s Audits + 1)\<rparr>"
proof -
  obtain e0 g0 q0 where weak: "t = s\<lparr>rentals := set_row r_id (completed_row r now) (rentals s), events := events s @ [e0],
       audits := audits s @ [g0], sequences := q0\<rparr>" "r_status r = 3"
    using complete_rental_ok [OF assms(1-3) run] open_rental st(3) by auto
  define md nv where "md = completion_metadata st source" and "nv = completion_values st source now"
  obtain s1 s2 where m: "MarkRentalCompleted (dss_RentalID st) now s = Inr (True, s1)"
    and e: "insert_event (\<lambda>_. True) (Some (r_user r)) (Some (r_account r)) (Some (r_id r)) 16 None (Some ''api'') md None s1 = Inr ((), s2)"
    and g: "insert_audit (Some actor) ''rental'' (r_id r) ''rental_complete'' [(''status'', JStr ''EXPIRED'')] nv s2 = Inr ((), t)"
    using run open_rental st assms(3) unfolding completeRentalAfterSettlement_def md_def nv_def completion_audit_def event_loggers
    by (auto simp: tx_seq_ok tx_bind_ok tx_if_ok fail_if_ok wrapf_ok tx_return_ok)
  have s1: "sequences s1 = sequences s" "clock s1 = clock s" "events s1 = events s" "audits s1 = audits s"
    using m unfolding MarkRentalCompleted_ok Let_def by auto
  have s2: "sequences s2 = (sequences s)(Events := sequences s Events + 1)" "clock s2 = clock s" "audits s2 = audits s"
    "events s2 = events s @ [new_event (Some (r_user r)) (Some (r_account r)) (Some (r_id r)) 16 None (Some ''api'') md (clock s) (sequences s Events)]"
    using e s1 by (auto simp: insert_event_ok Let_def bump_def)
  have t: "sequences t = (sequences s)(Events := sequences s Events + 1, Audits := sequences s Audits + 1)" "events t = events s2"
    "audits t = audits s @ [new_audit (Some actor) ''rental'' (r_id r) ''rental_complete'' [(''status'', JStr ''EXPIRED'')] nv (sequences s Audits) (clock s)]"
    using g s2(1-3) by (auto simp: insert_audit_ok Let_def bump_def)
  have parts: "[e0] = completion_events r source (sequences s Events) (clock s)"
    "[g0] = completion_audits r actor source now (sequences s Audits) (clock s)"
    "q0 = (sequences s)(Events := sequences s Events + 1, Audits := sequences s Audits + 1)"
    using t s2(4) open_rental assms(3) st unfolding weak(1)
    by (simp_all add: completion_events_def completion_audits_def md_def nv_def completion_metadata_def completion_values_def)
  show ?thesis using weak unfolding parts [symmetric] by blast
qed

lemma refund_complete_rental_ok:
  assumes keys: "distinct (map r_id (rentals s))" and r: "r \<in> set (rentals s)" "r_id r = rid"
    and run: "refund_complete_rental msg source rid actor now s = Inr (x, t)"
  shows "\<exists>es gs q. t = s\<lparr>rentals := completed_rentals r now (rentals s), events := events s @ es, audits := audits s @ gs, sequences := q\<rparr> \<and>
     es = completion_events r source (sequences s Events) (clock s) \<and> gs = completion_audits r actor source now (sequences s Audits) (clock s) \<and>
     q = (sequences s)(Events := sequences s Events + int (length es), Audits := sequences s Audits + int (length gs)) \<and> r_status r \<in> {3, 4}"
proof -
  obtain st s1 y where lock: "LockDepositSettlementState rid s = Inr (st, s1)"
    and complete: "completeRentalAfterSettlement st (Some actor) source now empty_settlement_result s1 = Inr (y, t)"
    using run unfolding refund_complete_rental_def by (auto simp: tx_bind_ok tx_seq_ok wrapf_ok tx_return_ok)
  obtain r' p u h where s1: "s1 = s" and rows: "r' \<in> set (rentals s)" "r_id r' = rid" and ws: "wallet_refund_state st = refund_state r' p u h"
    and ids: "dss_RentalID st = rid" "dss_RentalStatus st = r_status r'"
    using LockDepositSettlementState_rows [OF lock] by (auto simp: refund_rows_def)
  have same: "r' = r" using key_inj [OF keys rows(1) r(1)] rows(2) r(2) by simp
  have "dss_UserID st = wrs_UserID (wallet_refund_state st)" "dss_AccountID st = wrs_AccountID (wallet_refund_state st)"
    by (simp_all add: wallet_refund_state_def)
  then have st: "dss_UserID st = r_user r" "dss_AccountID st = r_account r" "dss_RentalStatus st = r_status r" "r_id r = dss_RentalID st"
    unfolding ws using ids same r(2) by simp_all
  show ?thesis
  proof (cases "r_status r = 4")
    case True
    then have t: "t = s" using complete st s1 by (simp add: completeRentalAfterSettlement_def tx_return_ok)
    show ?thesis
      by (rule exI [of _ "[]"], rule exI [of _ "[]"], rule exI [of _ "sequences s"])
        (simp add: t True completed_rentals_def completion_events_def completion_audits_def)
  next
    case False
    note rows = complete_rental_rows [OF keys r(1) st(4,1-3) complete [unfolded s1] False]
    show ?thesis
      by (rule exI, rule exI, rule exI, intro conjI, unfold completed_rentals_def if_not_P [OF False], rule conjunct2 [OF rows])
        (use rows False in \<open>simp_all add: completion_events_def completion_audits_def\<close>)
  qed
qed

text \<open>The abstract effect of a refund of the amount \<open>total_amount\<close> to user \<open>u\<close>.\<close>

definition refunded_db ::
  "rental_row \<Rightarrow> user_row \<Rightarrow> int \<Rightarrow> hold_row list \<Rightarrow> refund_row list \<Rightarrow> ledger_row list \<Rightarrow> event_row list \<Rightarrow> audit_row list \<Rightarrow>
   (tbl \<Rightarrow> int) \<Rightarrow> time \<Rightarrow> db \<Rightarrow> db" where
  "refunded_db r u total_amount hs fs ls es gs q now s = s
     \<lparr>users := credited u total_amount now (users s), holds := hs, refunds := fs,
      rentals := completed_rentals r now (rentals s), ledger := ledger s @ ls, events := events s @ es,
      audits := audits s @ gs, sequences := q\<rparr>"

definition refund_deposit_status :: "WalletRefundState \<Rightarrow> int \<Rightarrow> string" where
  "refund_deposit_status state depositAmount = (if 0 < depositAmount then ''REFUNDED'' else state_deposit_status state)"

text \<open>The events and audit records of a refund, with those of the completion, and the numbers that are used up by them, by the entries and by \<open>n\<close> refund records.\<close>

definition refund_events :: "rental_row \<Rightarrow> WalletRefundState \<Rightarrow> int \<Rightarrow> string \<Rightarrow> int \<Rightarrow> int \<Rightarrow> db \<Rightarrow> event_row list" where
  "refund_events r state actor reasonCode refundID depositAmount s =
     refund_event state actor reasonCode refundID (r_price r) depositAmount (refund_deposit_status state depositAmount) s #
     completion_events r ''WALLET_REFUND'' (sequences s Events + 1) (clock s)"

definition refund_audits :: "rental_row \<Rightarrow> WalletRefundState \<Rightarrow> int \<Rightarrow> string \<Rightarrow> int \<Rightarrow> int \<Rightarrow> time \<Rightarrow> db \<Rightarrow> audit_row list" where
  "refund_audits r state actor reasonCode refundID depositAmount now s =
     refund_audit state actor reasonCode refundID (r_price r) depositAmount (refund_deposit_status state depositAmount) s #
     completion_audits r actor ''WALLET_REFUND'' now (sequences s Audits + 1) (clock s)"

definition numbered_on :: "int \<Rightarrow> ledger_row list \<Rightarrow> event_row list \<Rightarrow> audit_row list \<Rightarrow> (tbl \<Rightarrow> int) \<Rightarrow> tbl \<Rightarrow> int" where
  "numbered_on n ls es gs q tb =
     q tb + (case tb of Refunds \<Rightarrow> n | Ledger \<Rightarrow> int (length ls) | Events \<Rightarrow> int (length es) | Audits \<Rightarrow> int (length gs) | _ \<Rightarrow> 0)"

lemma refund_rows_shift:
  assumes "sequences s' Ledger = sequences s Ledger" "sequences s' Events = sequences s Events" "sequences s' Audits = sequences s Audits" "clock s' = clock s"
  shows "refund_postings st reason i amount dep now s' = refund_postings st reason i amount dep now s"
    "refund_events r st actor reason i dep s' = refund_events r st actor reason i dep s"
    "refund_audits r st actor reason i dep now s' = refund_audits r st actor reason i dep now s"
  by (simp_all add: refund_postings_def refund_events_def refund_audits_def refund_event_def refund_audit_def assms)

lemma refund_settled:
  assumes valid: "valid_db s" and rows: "refund_rows s rid r p u h"
    and f: "f \<in> set (refunds s)" "f_id f = rr_ID refund"
    and dep: "0 < dep \<Longrightarrow> \<exists>d. h = Some d"
    and run: "refund_settle (refund_state r p u h) actor reason refund (r_price r) dep now s = Inr (res, t)"
  obtains ls es gs q where
    "t = refunded_db r u (i64 (r_price r + dep)) (if 0 < dep then set_row d_id (refunded_row (the h) (f_id f) actor now) (holds s) else holds s)
       (set_row f_id (completed_refund f now) (refunds s)) ls es gs q now s"
    "ls = refund_postings (refund_state r p u h) reason (f_id f) (r_price r) dep now s"
    "es = refund_events r (refund_state r p u h) actor reason (f_id f) dep s" "gs = refund_audits r (refund_state r p u h) actor reason (f_id f) dep now s"
    "q = numbered_on 0 ls es gs (sequences s)" "f_status f = 1" "is_i64 (u_balance u + i64 (r_price r + dep))"
    "i64 (sum_list (map f_principal (filter (\<lambda>f. f_payment f = p_id p \<and> f_status f = 2) (refunds s))) + r_price r) \<le> r_price r"
    "wrr_Changed res" "r_status r \<in> {3, 4}"
proof -
  note keys = valid_db_keys [OF valid]
  let ?st = "refund_state r p u h"
  have w: "r \<in> set (rentals s)" "r_id r = rid" "u \<in> set (users s)" "u_id u = r_user r" "p_user p = r_user r"
    using rows by (simp_all add: refund_rows_def)
  have h: "\<exists>d. h = Some d \<and> d \<in> set (holds s)" if "0 < dep"
    using dep [OF that] rows by (auto simp: refund_rows_def)
  define status where "status = refund_deposit_status ?st dep"
  obtain totals s0 s1 s2 x y z where totals: "LoadCompletedRefundTotals (p_id p) s = Inr (totals, s0)"
    and limit: "i64 (rt_Principal totals + r_price r) \<le> r_price r"
    and 1: "refund_money ?st actor reason (rr_ID refund) (r_price r) dep now s0 = Inr (x, s1)"
    and 2: "refund_trail ?st actor reason (rr_ID refund) (r_price r) dep status now s1 = Inr (y, s2)"
    and 3: "refund_complete_rental ''reload settlement state after wallet refund'' ''WALLET_REFUND'' rid actor now s2 = Inr (z, t)"
    and res: "wrr_Changed res"
    using run w(2) unfolding refund_settle_def Let_def status_def refund_deposit_status_def
    by (auto simp: tx_seq_ok tx_bind_ok wrapf_ok fail_if_ok tx_return_ok not_less)
  note total = LoadCompletedRefundTotals_ok [OF totals]
  obtain ls q where ls: "ls = refund_postings ?st reason (rr_ID refund) (r_price r) dep now s" and fits: "is_i64 (u_balance u + i64 (r_price r + dep))"
    and q: "q = (sequences s)(Ledger := sequences s Ledger + int (length ls))"
    and s1: "s1 = s\<lparr>users := credited u (i64 (r_price r + dep)) now (users s),
       holds := (if 0 < dep then set_row d_id (refunded_row (the h) (rr_ID refund) actor now) (holds s) else holds s),
       ledger := ledger s @ ls, sequences := q\<rparr>"
    by (rule refund_money_ok [OF keys(1,7) w(3,4) h 1 [unfolded total [THEN conjunct1]]]) blast
  have f1: "distinct (map f_id (refunds s1))" "f \<in> set (refunds s1)" using keys(10) f(1) by (simp_all add: s1)
  define e g where "e = refund_event ?st actor reason (rr_ID refund) (r_price r) dep status s"
    and "g = refund_audit ?st actor reason (rr_ID refund) (r_price r) dep status s"
  have first: "refund_event ?st actor reason (rr_ID refund) (r_price r) dep status s1 = e" "refund_audit ?st actor reason (rr_ID refund) (r_price r) dep status s1 = g"
    by (simp_all add: e_def g_def refund_event_def refund_audit_def s1 q)
  obtain q2 where open_refund: "f_status f = 1" and q2: "q2 = (sequences s1)(Events := sequences s1 Events + 1, Audits := sequences s1 Audits + 1)"
    and s2: "s2 = s1\<lparr>refunds := set_row f_id (completed_refund f now) (refunds s1), events := events s1 @ [e], audits := audits s1 @ [g], sequences := q2\<rparr>"
    using refund_trail_ok [OF f1 f(2) 2] unfolding first by blast
  have r2: "distinct (map r_id (rentals s2))" "r \<in> set (rentals s2)" using keys(3) w(1) by (simp_all add: s2 s1)
  obtain es gs q3 where t: "t = s2\<lparr>rentals := completed_rentals r now (rentals s2), events := events s2 @ es, audits := audits s2 @ gs, sequences := q3\<rparr>"
    and es: "es = completion_events r ''WALLET_REFUND'' (sequences s2 Events) (clock s2)"
    and gs: "gs = completion_audits r actor ''WALLET_REFUND'' now (sequences s2 Audits) (clock s2)"
    and q3: "q3 = (sequences s2)(Events := sequences s2 Events + int (length es), Audits := sequences s2 Audits + int (length gs))"
    and status_r: "r_status r \<in> {3, 4}"
    using refund_complete_rental_ok [OF r2 w(2) 3] by (elim exE conjE)
  have at2: "sequences s2 = q2" "clock s2 = clock s" by (simp_all add: s2 s1)
  have q2': "q2 = (sequences s)(Ledger := sequences s Ledger + int (length ls), Events := sequences s Events + 1, Audits := sequences s Audits + 1)"
    unfolding q2 by (simp add: s1 q)
  show thesis
  proof (rule that)
    show "t = refunded_db r u (i64 (r_price r + dep)) (if 0 < dep then set_row d_id (refunded_row (the h) (f_id f) actor now) (holds s) else holds s)
       (set_row f_id (completed_refund f now) (refunds s)) ls (e # es) (g # gs) q3 now s"
      unfolding t s2 s1 refunded_db_def f(2) by simp
    show "ls = refund_postings ?st reason (f_id f) (r_price r) dep now s" unfolding f(2) by (rule ls)
    show "e # es = refund_events r ?st actor reason (f_id f) dep s"
      by (simp add: refund_events_def e_def status_def f(2) es at2 q2')
    show "g # gs = refund_audits r ?st actor reason (f_id f) dep now s"
      by (simp add: refund_audits_def g_def status_def f(2) gs at2 q2')
    show "q3 = numbered_on 0 ls (e # es) (g # gs) (sequences s)"
    proof
      fix tb
      show "q3 tb = numbered_on 0 ls (e # es) (g # gs) (sequences s) tb"
        by (cases tb) (simp_all add: numbered_on_def q3 at2 q2')
    qed
  qed (fact status_r fits open_refund res limit [unfolded total [THEN conjunct2]])+
qed

lemma LockDepositSettlementState_find:
  assumes valid: "valid_db s" and rows: "refund_rows s rid r p u h"
  obtains st where "LockDepositSettlementState rid s = Inr (st, s)" "wallet_refund_state st = refund_state r p u h"
    "dss_RentalID st = rid" "dss_RentalStatus st = r_status r" "dss_CompletedAt st = r_completed r"
proof -
  note keys = valid_db_keys [OF valid]
  obtain a where a: "a \<in> set (accounts s)" "a_id a = r_account r" using rows by (auto simp: refund_rows_def)
  note w = rows [unfolded refund_rows_def]
  have q: "filter (\<lambda>r. r_id r = rid) (rentals s) = [r]" "filter (\<lambda>a. a_id a = r_account r) (accounts s) = [a]"
    "filter (\<lambda>p. p_rental p = r_id r \<and> p_user p = r_user r) (payments s) = [p]"
    "filter (\<lambda>u. u_id u = r_user r \<and> u_deleted u = None) (users s) = [u]"
    using w a keys
    by (auto intro!: filter_unique [where key = r_id] filter_unique [where key = a_id] filter_unique [where key = p_rental]
        filter_unique [where key = u_id] dest: key_inj [OF keys(5)] key_inj [OF keys(1)])
  have rid: "r_id r = rid" using w by simp
  show thesis
  proof (cases h)
    case None
    then have "filter (\<lambda>d. d_rental d = r_id r) (holds s) = []" using w by (simp add: filter_empty_conv)
    then have "LockDepositSettlementState rid s = Inr ((settlement_state r p 0)\<lparr>dss_UserBalance := u_balance u\<rparr>, s)"
      using q by (simp add: LockDepositSettlementState_def tx_defs scan_hold_def)
    then show thesis
      using that None rid by (simp add: refund_state_def settlement_state_def)
  next
    case (Some d)
    then obtain pid where d: "d \<in> set (holds s)" "d_rental d = rid" "d_payment d = Some pid" using w by auto
    then have "filter (\<lambda>d. d_rental d = r_id r) (holds s) = [d]"
      using rid keys(8) by (intro filter_unique [where key = d_rental]) auto
    then have "LockDepositSettlementState rid s = Inr (settling r p d u, s)"
      using q d(3) by (simp add: LockDepositSettlementState_def tx_defs scan_hold_def settling_def)
    then show thesis
      using that Some rid by (simp add: refund_state_def)
  qed
qed

lemma LockWalletRefundState_find:
  assumes "valid_db s" "refund_rows s rid r p u h"
  shows "LockWalletRefundState rid s = Inr (refund_state r p u h, s)"
  by (rule LockDepositSettlementState_find [OF assms]) (simp add: LockWalletRefundState_def tx_defs)

lemma valid_CreateRefund: "valid.closed (CreateRefund refund)"
  unfolding payment_statements by (intro closed_intros)

lemma new_refund_simps [simp]:
  "rr_Status (new_refund st actor role reason amount dep now) = 1" "rr_ID (new_refund st actor role reason amount dep now) = 0"
  "rr_IdempotencyKey (new_refund st actor role reason amount dep now) = refund_key (wrs_RentalID st)"
  "f_id (requested_refund_row rec i t) = i" "f_status (requested_refund_row rec i t) = rr_Status rec"
  "f_key (requested_refund_row rec i t) = rr_IdempotencyKey rec" "rr_ID (refund_record f) = f_id f" "rr_Status (refund_record f) = f_status f"
  "f_principal (requested_refund_row rec i t) = rr_AmountPrincipal rec" "f_deposit (requested_refund_row rec i t) = rr_AmountDeposit rec"
  "f_total (requested_refund_row rec i t) = rr_AmountTotal rec" "f_currency (requested_refund_row rec i t) = rr_Currency rec"
  "rr_AmountPrincipal (new_refund st actor role reason amount dep now) = amount" "rr_AmountDeposit (new_refund st actor role reason amount dep now) = dep"
  "rr_AmountTotal (new_refund st actor role reason amount dep now) = i64 (amount + dep)" "rr_Currency (new_refund st actor role reason amount dep now) = wrs_Currency st"
  by (simp_all add: new_refund_def requested_refund_row_def refund_record_def)

lemma refund_checks:
  "checks refund_schema f = None \<longleftrightarrow>
     is_i64 (f_principal f) \<and> is_i64 (f_deposit f) \<and> is_i64 (f_principal f + f_deposit f) \<and>
     f_total f = f_principal f + f_deposit f \<and> 0 \<le> f_deposit f \<and> 0 \<le> f_principal f \<and> 0 < f_total f \<and> f_currency f \<in> set currencies"
  by (auto simp: refund_schema_def bigint_def)

lemma new_refund_row_checks:
  "checks refund_schema (requested_refund_row (new_refund st actor role reason amount dep now) i t) = None \<Longrightarrow>
   i64 (amount + dep) = amount + dep \<and> is_i64 (amount + dep)"
  by (auto simp: refund_checks)

text \<open>The refund row that a call works on: a new one, or the stored one with the key.\<close>

lemma CreateRefund_row:
  assumes "CreateRefund (new_refund st actor role reason amount dep now) s = Inr ((refund, created), t)"
  obtains f fs where "t = s\<lparr>refunds := fs, sequences := sequences t\<rparr>" "f \<in> set fs" "f_id f = rr_ID refund" "f_status f = rr_Status refund"
    "f_key f = refund_key (wrs_RentalID st)"
    "fs = refunds s \<or> fs = refunds s @ [f] \<and> f = requested_refund_row (new_refund st actor role reason amount dep now) (sequences s Refunds) (clock s)"
    "sequences t = (sequences s)(Refunds := sequences s Refunds + 1)"
    "i64 (amount + dep) = amount + dep" "is_i64 (amount + dep)"
proof -
  let ?rec = "new_refund st actor role reason amount dep now"
  define row where "row = requested_refund_row ?rec (sequences s Refunds) (clock s)"
  consider (inserted) "insert_ok refund_schema row (refunds s)" "refund = ?rec\<lparr>rr_ID := sequences s Refunds\<rparr>"
      "t = (bump Refunds s)\<lparr>refunds := refunds s @ [row]\<rparr>"
    | (existing) f fs where "checks refund_schema row = None" "filter (\<lambda>f. f_key f = refund_key (wrs_RentalID st)) (refunds s) = f # fs"
      "refund = refund_record f" "t = bump Refunds s"
    using assms by (auto simp: CreateRefund_ok Let_def row_def)
  then show thesis
  proof cases
    case inserted
    have t: "t = s\<lparr>refunds := refunds s @ [row], sequences := sequences t\<rparr>"
      unfolding inserted(3) by (simp add: bump_def)
    have row: "f_id row = rr_ID refund" "f_status row = rr_Status refund" "f_key row = refund_key (wrs_RentalID st)" "f_status row = 1"
      by (simp_all add: row_def inserted(2))
    show thesis
      by (rule that [OF t _ row(1-3)])
        (use row(4) new_refund_row_checks [OF insert_ok_checks [OF inserted(1), unfolded row_def]] in \<open>simp_all add: row_def inserted(3) bump_def\<close>)
  next
    case (existing f fs)
    have t: "t = s\<lparr>refunds := refunds s, sequences := sequences t\<rparr>"
      unfolding existing(4) by (simp add: bump_def)
    have f: "f \<in> set (refunds s)" "f_key f = refund_key (wrs_RentalID st)" using filter_hd [OF existing(2)] by simp_all
    have ids: "f_id f = rr_ID refund" "f_status f = rr_Status refund" by (simp_all add: existing(3))
    show thesis
      by (rule that [OF t f(1) ids f(2)]) (use new_refund_row_checks [OF existing(1) [unfolded row_def]] in \<open>simp_all add: existing(4) bump_def\<close>)
  qed
qed

lemma RefundWalletPayment_ok:
  "RefundWalletPayment actor role rid reason now s = (Inr res, t) \<longleftrightarrow>
     role = ''ADMIN'' \<and> IsAllowedWalletRefundReasonCode (trim_space reason) \<and>
     RefundWalletPayment_body actor role rid (trim_space reason) now s = Inr (res, t)"
  by (auto simp: RefundWalletPayment_def Let_def WithinTransaction_ok)

lemma refund_changed:
  assumes valid: "valid_db s" and run: "RefundWalletPayment actor role rid reason now s = (Inr res, t)" and changed: "wrr_Changed res"
  obtains r p u h f fs ls es gs q where
    "role = ''ADMIN''" "is_current_admin s actor" "refund_rows s rid r p u h" "p_provider p = ''balance''" "p_status p = 2"
    "r_status r \<in> {3, 4}" "0 < r_deposit r \<longrightarrow> h \<noteq> None" "f \<in> set fs" "f_key f = refund_key rid" "f_status f = 1"
    "fs = refunds s \<or> fs = refunds s @ [f] \<and> f = requested_refund_row
       (new_refund (refund_state r p u h) actor role (trim_space reason) (r_price r) (refundable r h) now) (sequences s Refunds) (clock s)"
    "distinct (map f_id fs)"
    "is_i64 (r_price r + refundable r h)" "is_i64 (u_balance u + (r_price r + refundable r h))"
    "t = refunded_db r u (r_price r + refundable r h)
       (if 0 < refundable r h then set_row d_id (refunded_row (the h) (f_id f) actor now) (holds s) else holds s)
       (set_row f_id (completed_refund f now) fs) ls es gs q now s"
    "ls = refund_postings (refund_state r p u h) (trim_space reason) (f_id f) (r_price r) (refundable r h) now s"
    "es = refund_events r (refund_state r p u h) actor (trim_space reason) (f_id f) (refundable r h) s"
    "gs = refund_audits r (refund_state r p u h) actor (trim_space reason) (f_id f) (refundable r h) now s"
    "q = numbered_on 1 ls es gs (sequences s)"
proof -
  have role: "role = ''ADMIN''" and body: "RefundWalletPayment_body actor role rid (trim_space reason) now s = Inr (res, t)"
    using run by (auto simp: RefundWalletPayment_ok)
  obtain st s0 amount dep refund created s1 where admin: "is_current_admin s actor"
    and lock: "LockWalletRefundState rid s = Inr (st, s0)"
    and eligible: "validateWalletRefundEligibility st = Inr (amount, dep)"
    and create: "CreateRefund (new_refund st actor role (trim_space reason) amount dep now) s0 = Inr ((refund, created), s1)"
    and rest: "(if rr_Status refund = 2 then refund_replay st actor refund now
        else refund_settle st actor (trim_space reason) refund amount dep now) s1 = Inr (res, t)"
    using body unfolding RefundWalletPayment_body_def
    by (auto simp: tx_seq_ok tx_bind_ok wrap_unless_ok wrapf_ok lift_result_ok dest!: Payment_RequireCurrentAdmin_ok split: prod.splits)
  obtain r p u h where s0: "s0 = s" and rows: "refund_rows s rid r p u h" and st: "st = refund_state r p u h"
    using LockWalletRefundState_ok [OF lock] by blast
  have rid: "r_id r = rid" "r \<in> set (rentals s)" using rows by (simp_all add: refund_rows_def)
  then have dep0: "0 \<le> r_deposit r" using valid_db_checks(3) [OF valid] by (simp add: rental_checks)
  note elig = validateWalletRefundEligibility_ok [OF eligible [unfolded st] dep0]
  have dep: "dep = refundable r h" using elig by (simp add: refundable_def)
  have settle: "refund_settle st actor (trim_space reason) refund (r_price r) dep now s1 = Inr (res, t)"
    using rest changed elig by (auto simp: refund_replay_def tx_seq_ok tx_return_ok split: if_splits)
  obtain f fs where s1: "s1 = s\<lparr>refunds := fs, sequences := sequences s1\<rparr>"
    and f: "f \<in> set fs" "f_id f = rr_ID refund" "f_key f = refund_key rid"
      "fs = refunds s \<or> fs = refunds s @ [f] \<and> f = requested_refund_row (new_refund st actor role (trim_space reason) amount dep now) (sequences s Refunds) (clock s)"
    and numbers: "sequences s1 = (sequences s)(Refunds := sequences s Refunds + 1)"
    and amounts: "i64 (r_price r + dep) = r_price r + dep" "is_i64 (r_price r + dep)"
    by (rule CreateRefund_row [OF create [unfolded s0]]) (use elig rid(1) st in auto)
  have valid1: "valid_db s1"
    using valid.closedD [OF valid_CreateRefund create] valid by (simp add: keeps_valid_def s0)
  define q1 where "q1 = sequences s1"
  have s1': "s1 = s\<lparr>refunds := fs, sequences := q1\<rparr>" using s1 by (simp add: q1_def)
  have rows1: "refund_rows s1 rid r p u h" using rows by (cases h) (simp_all add: s1' refund_rows_def)
  have f1: "f \<in> set (refunds s1)" using f(1) by (simp add: s1')
  have dep1: "\<exists>d. h = Some d" if "0 < dep" using that by (cases h) (simp_all add: dep refundable_def)
  obtain ls es gs q where t: "t = refunded_db r u (i64 (r_price r + dep)) (if 0 < dep then set_row d_id (refunded_row (the h) (f_id f) actor now) (holds s1) else holds s1)
       (set_row f_id (completed_refund f now) (refunds s1)) ls es gs q now s1"
    and trail: "ls = refund_postings (refund_state r p u h) (trim_space reason) (f_id f) (r_price r) dep now s1"
      "es = refund_events r (refund_state r p u h) actor (trim_space reason) (f_id f) dep s1"
      "gs = refund_audits r (refund_state r p u h) actor (trim_space reason) (f_id f) dep now s1"
      "q = numbered_on 0 ls es gs (sequences s1)"
    and facts: "f_status f = 1" "is_i64 (u_balance u + i64 (r_price r + dep))"
    by (rule refund_settled [OF valid1 rows1 f1 f(2) dep1 settle [unfolded st]]) blast
  have q1': "sequences s1 Ledger = sequences s Ledger" "sequences s1 Events = sequences s Events" "sequences s1 Audits = sequences s Audits" "clock s1 = clock s"
    using numbers by (simp_all add: s1')
  note rows_at = refund_rows_shift [OF q1']
  show thesis
  proof (rule that)
    show "t = refunded_db r u (r_price r + refundable r h)
       (if 0 < refundable r h then set_row d_id (refunded_row (the h) (f_id f) actor now) (holds s) else holds s)
       (set_row f_id (completed_refund f now) fs) ls es gs q now s"
      unfolding t amounts(1) dep [symmetric] s1' refunded_db_def by simp
    show "ls = refund_postings (refund_state r p u h) (trim_space reason) (f_id f) (r_price r) (refundable r h) now s"
      unfolding trail(1) rows_at dep ..
    show "es = refund_events r (refund_state r p u h) actor (trim_space reason) (f_id f) (refundable r h) s" unfolding trail(2) rows_at dep ..
    show "gs = refund_audits r (refund_state r p u h) actor (trim_space reason) (f_id f) (refundable r h) now s" unfolding trail(3) rows_at dep ..
    show "q = numbered_on 1 ls es gs (sequences s)"
    proof
      fix tb
      show "q tb = numbered_on 1 ls es gs (sequences s) tb" by (cases tb) (simp_all add: trail(4) numbered_on_def numbers)
    qed
    show "fs = refunds s \<or> fs = refunds s @ [f] \<and> f = requested_refund_row
       (new_refund (refund_state r p u h) actor role (trim_space reason) (r_price r) (refundable r h) now) (sequences s Refunds) (clock s)"
      using f(4) elig unfolding st dep by simp
    show "is_i64 (u_balance u + (r_price r + refundable r h))" using facts(2) amounts(1) by (simp add: dep)
    show "distinct (map f_id fs)" using valid_db_keys(10) [OF valid1] by (simp add: s1')
    show "p_provider p = ''balance''" "p_status p = 2" "r_status r \<in> {3, 4}" "0 < r_deposit r \<longrightarrow> h \<noteq> None" using elig by blast+
  qed (fact role admin rows f(1-3) facts(1) amounts [unfolded dep])+
qed

section \<open>Refusals\<close>

lemma validateWalletRefundEligibility_refuses:
  "p_provider p \<noteq> ''balance'' \<or> p_status p \<noteq> 2 \<or> r_status r \<notin> {3, 4} \<or> 0 < r_deposit r \<and> h = None \<Longrightarrow> 
     validateWalletRefundEligibility (refund_state r p u h) = Inl (PaymentErr ErrWalletRefundNotAllowed)"
  by (auto simp: validateWalletRefundEligibility_def Let_def)

lemma RefundWalletPayment_run:
  assumes "valid_db s" "is_current_admin s actor" "refund_rows s rid r p u h"
    and "IsAllowedWalletRefundReasonCode (trim_space reason)"
  shows "RefundWalletPayment actor ''ADMIN'' rid reason now s =
     (case validateWalletRefundEligibility (refund_state r p u h) of
        Inl e \<Rightarrow> (Inl e, s)
      | Inr (amount, dep) \<Rightarrow> WithinTransaction
          (tx_bind (wrapf ''create refund record'' (CreateRefund (new_refund (refund_state r p u h) actor ''ADMIN'' (trim_space reason) amount dep now)))
            (\<lambda>(refund, created).
               if rr_Status refund = 2 then refund_replay (refund_state r p u h) actor refund now
               else refund_settle (refund_state r p u h) actor (trim_space reason) refund amount dep now)) s)"
proof -
  have "Payment_RequireCurrentAdmin actor s = Inr ((), s)"
    using Payment_RequireCurrentAdmin_accepts valid_db_keys(1) assms(1,2) by blast
  then show ?thesis
    using LockWalletRefundState_find [OF assms(1,3)] assms(4)
    by (cases "validateWalletRefundEligibility (refund_state r p u h)")
      (simp_all add: RefundWalletPayment_def RefundWalletPayment_body_def Let_def wrap_unless_def tx_catch_def
        tx_seq_def tx_bind_def lift_result_def WithinTransaction_def split: prod.splits)
qed

lemma refund_not_eligible:
  assumes "valid_db s" "is_current_admin s actor" "refund_rows s rid r p u h"
    and "IsAllowedWalletRefundReasonCode (trim_space reason)"
    and "p_provider p \<noteq> ''balance'' \<or> p_status p \<noteq> 2 \<or> r_status r \<notin> {3, 4} \<or> 0 < r_deposit r \<and> h = None"
  shows "RefundWalletPayment actor ''ADMIN'' rid reason now s = (Inl (PaymentErr ErrWalletRefundNotAllowed), s)"
  using RefundWalletPayment_run [OF assms(1-4), of now] validateWalletRefundEligibility_refuses [OF assms(5), of u] by simp

section \<open>A repeated refund\<close>

lemma refund_rows_bump: "refund_rows (bump tb s) rid r p u h = refund_rows s rid r p u h"
  by (cases h) (simp_all add: refund_rows_def)

lemma valid_bump: "valid_db s \<Longrightarrow> valid_db (bump tb s)"
  by (simp add: valid_db_def)

lemma refund_replay_run:
  assumes "valid_db s" "refund_rows s rid r p u h" "r_status r = 4"
  shows "\<exists>res. refund_replay (refund_state r p u h) actor refund now s = Inr (res, s) \<and> wrr_Idempotent res \<and> \<not> wrr_Changed res \<and>
     wrr_RefundID res = rr_ID refund \<and> wrr_TotalAmount res = rr_AmountTotal refund"
proof -
  have rid: "r_id r = rid" using assms(2) by (simp add: refund_rows_def)
  obtain st where st: "LockDepositSettlementState rid s = Inr (st, s)" "dss_RentalStatus st = r_status r"
    by (rule LockDepositSettlementState_find [OF assms(1,2)]) simp
  then have "completeRentalAfterSettlement st (Some actor) ''WALLET_REFUND_REPLAY'' now empty_settlement_result s =
      Inr (empty_settlement_result\<lparr>dsr_RentalStatus := 4, dsr_CompletedAt := dss_CompletedAt st\<rparr>, s)"
    using assms(3) by (simp add: completeRentalAfterSettlement_def tx_return_def)
  then show ?thesis
    using st rid by (simp add: refund_replay_def refund_complete_rental_def tx_seq_def tx_bind_def wrapf_def tx_catch_def tx_return_def)
qed

lemma CreateRefund_existing:
  assumes "checks refund_schema (requested_refund_row rec (sequences s Refunds) (clock s)) = None"
    and "distinct (map f_key (refunds s))" "f \<in> set (refunds s)" "f_key f = rr_IdempotencyKey rec"
  shows "CreateRefund rec s = Inr ((refund_record f, False), bump Refunds s)"
proof -
  have "filter (\<lambda>f. f_key f = rr_IdempotencyKey rec) (refunds s) = [f]"
    by (rule filter_unique [OF assms(2,3)]) (use assms(4) in simp)
  moreover have "list_ex (\<lambda>x. f_key x = rr_IdempotencyKey rec) (refunds s)"
    using assms(3,4) by (auto simp: list_ex_iff)
  ultimately show ?thesis
    using assms(1) by (simp add: CreateRefund_def insert_on_conflict_def next_id_def db_now_def tx_bind_def tx_read_def
      loadRefundByIdempotencyKey_def query_row_def tx_return_def)
qed

lemma refund_replayed:
  assumes valid: "valid_db s" and admin: "is_current_admin s actor" and rows: "refund_rows s rid r p u h"
    and reason: "IsAllowedWalletRefundReasonCode (trim_space reason)"
    and elig: "validateWalletRefundEligibility (refund_state r p u h) = Inr (r_price r, 0)"
    and r4: "r_status r = 4" and f: "f \<in> set (refunds s)" "f_key f = refund_key rid" "f_status f = 2"
  shows "\<exists>res. RefundWalletPayment actor ''ADMIN'' rid reason now s = (Inr res, bump Refunds s) \<and> wrr_Idempotent res \<and> \<not> wrr_Changed res \<and>
     wrr_RefundID res = f_id f \<and> wrr_TotalAmount res = f_total f"
proof -
  let ?rec = "new_refund (refund_state r p u h) actor ''ADMIN'' (trim_space reason) (r_price r) 0 now"
  have in_db: "r \<in> set (rentals s)" "p \<in> set (payments s)" "r_id r = rid" using rows by (simp_all add: refund_rows_def)
  have "checks refund_schema (requested_refund_row ?rec (sequences s Refunds) (clock s)) = None"
    using valid_db_checks(3) [OF valid in_db(1)] valid_db_checks(4) [OF valid in_db(2)]
    by (simp add: refund_checks rental_checks payment_checks is_i64_def)
  then have create: "CreateRefund ?rec s = Inr ((refund_record f, False), bump Refunds s)"
    using CreateRefund_existing [OF _ valid_db_keys(11) [OF valid] f(1)] f(2) in_db(3) by simp
  obtain res where res: "refund_replay (refund_state r p u h) actor (refund_record f) now (bump Refunds s) = Inr (res, bump Refunds s)"
      "wrr_Idempotent res" "\<not> wrr_Changed res" "wrr_RefundID res = rr_ID (refund_record f)" "wrr_TotalAmount res = rr_AmountTotal (refund_record f)"
    using refund_replay_run [OF valid_bump [OF valid], of Refunds rid r p u h actor "refund_record f" now] rows r4 by (auto simp: refund_rows_bump)
  have "RefundWalletPayment actor ''ADMIN'' rid reason now s = (Inr res, bump Refunds s)"
    using create res(1) f(3) RefundWalletPayment_run [OF valid admin rows reason, of now]
    by (simp add: elig tx_bind_def wrapf_def tx_catch_def WithinTransaction_def)
  then show ?thesis using res by (simp add: refund_record_def)
qed

section \<open>Properties\<close>

text \<open>
  C21: A wallet refund that reports a change was made by a current administrator
  for a paid wallet payment of an expired or completed rental. The customer is
  credited with the rental price and, if the deposit is still held, with the
  deposit, within the range of an int64; the hold becomes refunded; the refund
  record of the rental, a stored open one or a new one with these amounts, becomes
  completed; exactly one ledger entry per amount is appended, one event and one audit
  record of the refund, and, if the rental was expired, it becomes completed, with one
  event and one audit record of that; these rows are given in full, with their numbers, and
  nothing else changes but the numbers that are used up. (The document of sequence diagrams
  says that a refund leaves the rental's status alone; the code completes the rental.)
\<close>

theorem wallet_refund_effect:
  assumes valid: "valid_db s" and run: "RefundWalletPayment actor role rid reason now s = (Inr res, t)" and changed: "wrr_Changed res"
  shows "role = ''ADMIN'' \<and> is_current_admin s actor \<and>
     (\<exists>r p u h f fs ls es gs q. refund_rows s rid r p u h \<and> p_provider p = ''balance'' \<and> p_status p = 2 \<and> r_status r \<in> {3, 4} \<and>
        f \<in> set fs \<and> f_key f = refund_key rid \<and> f_status f = 1 \<and>
        (fs = refunds s \<or> fs = refunds s @ [f] \<and> f = requested_refund_row
           (new_refund (refund_state r p u h) actor role (trim_space reason) (r_price r) (refundable r h) now) (sequences s Refunds) (clock s)) \<and>
        is_i64 (u_balance u + (r_price r + refundable r h)) \<and>
        t = refunded_db r u (r_price r + refundable r h)
          (if 0 < refundable r h then set_row d_id (refunded_row (the h) (f_id f) actor now) (holds s) else holds s)
          (set_row f_id (completed_refund f now) fs) ls es gs q now s \<and>
        ls = refund_postings (refund_state r p u h) (trim_space reason) (f_id f) (r_price r) (refundable r h) now s \<and>
        refund_ledger r (refundable r h) ls \<and>
        es = refund_events r (refund_state r p u h) actor (trim_space reason) (f_id f) (refundable r h) s \<and>
        gs = refund_audits r (refund_state r p u h) actor (trim_space reason) (f_id f) (refundable r h) now s \<and>
        q = numbered_on 1 ls es gs (sequences s))"
  by (rule refund_changed [OF assms]) (intro conjI exI; (assumption | simp only: refund_postings_ledger))

lemma refunded_row_simps [simp]:
  "d_id (refunded_row d i actor now) = d_id d" "d_rental (refunded_row d i actor now) = d_rental d"
  "d_payment (refunded_row d i actor now) = d_payment d" "d_status (refunded_row d i actor now) = 4"
  by (simp_all add: refunded_row_def)

lemma completed_refund_simps [simp]:
  "f_id (completed_refund f now) = f_id f" "f_key (completed_refund f now) = f_key f" "f_status (completed_refund f now) = 2"
  "f_total (completed_refund f now) = f_total f"
  by (simp_all add: completed_refund_def)

lemma refund_keeps_valid: "valid_db s \<Longrightarrow> RefundWalletPayment actor role rid reason now s = (Inr res, t) \<Longrightarrow> valid_db t"
  using valid.closedD [OF refund_valid] by (fastforce simp: RefundWalletPayment_ok keeps_valid_def)

text \<open>What is found of a rental after its refund.\<close>

lemma refunded_db_rows:
  assumes valid: "valid_db s" and rows: "refund_rows s rid r p u h" and status: "r_status r \<in> {3, 4}"
    and deposit: "0 < r_deposit r \<longrightarrow> h \<noteq> None" and elig: "p_provider p = ''balance''" "p_status p = 2"
    and t: "t = refunded_db r u amount
       (if 0 < refundable r h then set_row d_id (refunded_row (the h) i actor now) (holds s) else holds s) fs ls es gs q now s"
  shows "\<exists>r' u' h'. refund_rows t rid r' p u' h' \<and> r_status r' = 4 \<and>
     validateWalletRefundEligibility (refund_state r' p u' h') = Inr (r_price r', 0)"
proof -
  let ?r = "if r_status r = 4 then r else completed_row r now"
  let ?u = "u\<lparr>u_balance := u_balance u + amount, u_updated := pg_ts now\<rparr>"
  let ?h = "if 0 < refundable r h then Some (refunded_row (the h) i actor now) else h"
  note w = rows [unfolded refund_rows_def]
  have checks: "0 < r_price r" "0 \<le> r_deposit r"
    using valid_db_checks(3) [OF valid, of r] w by (simp_all add: rental_checks)
  have tables: "rentals t = completed_rentals r now (rentals s)" "payments t = payments s" "users t = credited u amount now (users s)"
    "accounts t = accounts s" "holds t = (if 0 < refundable r h then set_row d_id (refunded_row (the h) i actor now) (holds s) else holds s)"
    unfolding t by (simp_all add: refunded_db_def)
  have r': "?r \<in> set (rentals t)" "r_id ?r = rid" "r_user ?r = r_user r" "r_account ?r = r_account r" "r_price ?r = r_price r"
    "r_deposit ?r = r_deposit r" "r_status ?r = 4"
    using w by (auto simp: tables completed_rentals_def completed_row_def intro!: in_set_row)
  have u': "?u \<in> set (users t)" using w by (auto simp: tables credited_def intro!: in_set_row)
  have hold: "case ?h of None \<Rightarrow> \<forall>d\<in>set (holds t). d_rental d \<noteq> rid | Some d \<Rightarrow> d \<in> set (holds t) \<and> d_rental d = rid \<and> d_payment d \<noteq> None"
  proof (cases "0 < refundable r h")
    case True
    then obtain d where "h = Some d" by (cases h) (auto simp: refundable_def)
    then show ?thesis using True w by (auto simp: tables intro!: in_set_row)
  next
    case False
    then show ?thesis using w by (cases h) (simp_all add: tables)
  qed
  have rows': "refund_rows t rid ?r p ?u ?h"
    unfolding refund_rows_def r' tables(2,4) using w r'(1) u' hold by simp
  have hold_status: "d_status d \<in> {2, 3, 4}" if "0 < r_deposit r" "?h = Some d" for d
  proof (cases "0 < refundable r h")
    case True
    then show ?thesis using that(2) by auto
  next
    case False
    then have "h = Some d" using that(2) by simp
    then have "d \<in> set (holds s)" using w by simp
    then have "d_status d \<in> {1, 2, 3, 4}" "0 < d_amount d" using hold_checks [OF valid_db_checks(6) [OF valid, of d]] by auto
    then show ?thesis using False \<open>h = Some d\<close> that(1) by (auto simp: refundable_def)
  qed
  have present: "\<exists>d. ?h = Some d" if "0 < r_deposit r" using that deposit by auto
  have "validateWalletRefundEligibility (refund_state ?r p ?u ?h) = Inr (r_price ?r, 0)"
  proof (cases "0 < r_deposit r")
    case False
    then show ?thesis using checks elig r' by (simp add: validateWalletRefundEligibility_def)
  next
    case True
    then obtain d where "?h = Some d" using present by blast
    moreover from this have "d_status d \<in> {2, 3, 4}" using hold_status True by blast
    ultimately show ?thesis
      using True checks elig r' by (auto simp add: validateWalletRefundEligibility_def simp del: split_paired_Ex split del: if_split)
  qed
  then show ?thesis using rows' r'(7) by blast
qed
text \<open>
  C22: A rental is refunded once: after a refund that changed something, every later
  refund of the rental, by any current administrator and for any allowed reason,
  succeeds as a repetition with the same refund record and amount, and changes no
  row; only a number of the refund sequence is used up.
\<close>

theorem wallet_refund_once:
  assumes valid: "valid_db s" and run: "RefundWalletPayment actor role rid reason now s = (Inr res, t)" "wrr_Changed res"
    and admin: "is_current_admin t actor'" and reason: "IsAllowedWalletRefundReasonCode (trim_space reason')"
  shows "\<exists>res' f. RefundWalletPayment actor' ''ADMIN'' rid reason' now' t = (Inr res', bump Refunds t) \<and>
     wrr_Idempotent res' \<and> \<not> wrr_Changed res' \<and>
     f \<in> set (refunds t) \<and> f_key f = refund_key rid \<and> f_status f = 2 \<and> wrr_RefundID res' = f_id f \<and> wrr_TotalAmount res' = f_total f"
proof (rule refund_changed [OF valid run])
  fix r p u h f fs ls es gs q
  assume rows: "refund_rows s rid r p u h" "p_provider p = ''balance''" "p_status p = 2" "r_status r \<in> {3, 4}" "0 < r_deposit r \<longrightarrow> h \<noteq> None"
    and f: "f \<in> set fs" "f_key f = refund_key rid"
    and t: "t = refunded_db r u (r_price r + refundable r h)
       (if 0 < refundable r h then set_row d_id (refunded_row (the h) (f_id f) actor now) (holds s) else holds s)
       (set_row f_id (completed_refund f now) fs) ls es gs q now s"
  have f': "completed_refund f now \<in> set (refunds t)"
    unfolding t refunded_db_def using f(1) by (simp add: in_set_row)
  obtain r' p' u' h' where after: "refund_rows t rid r' p' u' h'" "r_status r' = 4"
      "validateWalletRefundEligibility (refund_state r' p' u' h') = Inr (r_price r', 0)"
    using refunded_db_rows [OF valid rows(1,4,5,2,3) t] by blast
  show ?thesis
    using refund_replayed [OF refund_keeps_valid [OF valid run(1)] admin after(1) reason after(3,2) f', of now'] f(2) f'
    by (metis completed_refund_simps)
qed

text \<open>
  A refund is refused without any effect when the caller does not hold the role,
  when the reason is not an allowed one, when the actor is not a current
  administrator, and when the rental was not paid from the balance, its payment is
  not successful, it is neither expired nor completed, or its deposit has no hold.
\<close>

theorem wallet_refund_refused:
  assumes valid: "valid_db s"
  shows "(role \<noteq> ''ADMIN'' \<longrightarrow> RefundWalletPayment actor role rid reason now s = (Inl (PaymentErr ErrAdminRequired), s)) \<and>
    (\<not> IsAllowedWalletRefundReasonCode (trim_space reason) \<longrightarrow>
       RefundWalletPayment actor ''ADMIN'' rid reason now s = (Inl (PaymentErr ErrInvalidReasonCode), s)) \<and>
    (IsAllowedWalletRefundReasonCode (trim_space reason) \<longrightarrow>
       (\<not> is_current_admin s actor \<longrightarrow> RefundWalletPayment actor ''ADMIN'' rid reason now s = (Inl (PaymentErr ErrAdminRequired), s)) \<and>
       (is_current_admin s actor \<and> refund_rows s rid r p u h \<and>
         (p_provider p \<noteq> ''balance'' \<or> p_status p \<noteq> 2 \<or> r_status r \<notin> {3, 4} \<or> 0 < r_deposit r \<and> h = None) \<longrightarrow>
           RefundWalletPayment actor ''ADMIN'' rid reason now s = (Inl (PaymentErr ErrWalletRefundNotAllowed), s)))"
proof (intro conjI impI)
  assume "\<not> is_current_admin s actor" "IsAllowedWalletRefundReasonCode (trim_space reason)"
  then show "RefundWalletPayment actor ''ADMIN'' rid reason now s = (Inl (PaymentErr ErrAdminRequired), s)"
    using Payment_RequireCurrentAdmin_refuses
    by (simp add: RefundWalletPayment_def RefundWalletPayment_body_def Let_def WithinTransaction_def wrap_unless_def
        tx_seq_def tx_bind_def tx_catch_def tx_fail_def)
next
  assume "IsAllowedWalletRefundReasonCode (trim_space reason)"
    and "is_current_admin s actor \<and> refund_rows s rid r p u h \<and>
         (p_provider p \<noteq> ''balance'' \<or> p_status p \<noteq> 2 \<or> r_status r \<notin> {3, 4} \<or> 0 < r_deposit r \<and> h = None)"
  then show "RefundWalletPayment actor ''ADMIN'' rid reason now s = (Inl (PaymentErr ErrWalletRefundNotAllowed), s)"
    using refund_not_eligible [OF valid] by blast
qed (simp_all add: RefundWalletPayment_def Let_def)

section \<open>Witnesses\<close>

text \<open>The expired rental, paid from the balance.\<close>

definition wallet_expired_db :: db where
  "wallet_expired_db = expired_db\<lparr>payments := [payment9\<lparr>p_status := 2, p_provider := ''balance'', p_processed := Some Minute\<rparr>]\<rparr>"

lemma wallet_expired_db_valid: "valid_db wallet_expired_db"
  by code_simp

lemma refunded_expired:
  obtains res t where "RefundWalletPayment 1 ''ADMIN'' 7 ''ACCOUNT_INVALID '' (5 * Hour) wallet_expired_db = (Inr res, t)" "wrr_Changed res"
proof -
  have "ok_with wrr_Changed (RefundWalletPayment 1 ''ADMIN'' 7 ''ACCOUNT_INVALID '' (5 * Hour) wallet_expired_db)" by code_simp
  then show thesis using that by (auto dest: ok_withD)
qed

lemma wallet_refund_effect_witness:
  "\<exists>res t. RefundWalletPayment 1 ''ADMIN'' 7 ''ACCOUNT_INVALID '' (5 * Hour) wallet_expired_db = (Inr res, t) \<and>
     is_current_admin wallet_expired_db 1 \<and> (\<exists>r p u h. refund_rows wallet_expired_db 7 r p u h \<and> p_provider p = ''balance'')"
proof (rule refunded_expired)
  fix res t
  assume run: "RefundWalletPayment 1 ''ADMIN'' 7 ''ACCOUNT_INVALID '' (5 * Hour) wallet_expired_db = (Inr res, t)" "wrr_Changed res"
  show ?thesis
    using wallet_refund_effect [OF wallet_expired_db_valid run] run(1) by blast
qed

lemma wallet_refund_once_witness:
  "\<exists>res res' t. RefundWalletPayment 1 ''ADMIN'' 7 ''ACCOUNT_INVALID '' (5 * Hour) wallet_expired_db = (Inr res, t) \<and>
     RefundWalletPayment 1 ''ADMIN'' 7 ''ADMIN_CORRECTION'' (6 * Hour) t = (Inr res', bump Refunds t)"
proof (rule refunded_expired)
  fix res t
  assume run: "RefundWalletPayment 1 ''ADMIN'' 7 ''ACCOUNT_INVALID '' (5 * Hour) wallet_expired_db = (Inr res, t)" "wrr_Changed res"
  have "IsAllowedWalletRefundReasonCode (trim_space ''ADMIN_CORRECTION'')" by code_simp
  moreover have "is_current_admin t 1"
  proof -
    have "is_current_admin (snd (RefundWalletPayment 1 ''ADMIN'' 7 ''ACCOUNT_INVALID '' (5 * Hour) wallet_expired_db)) 1" by code_simp
    then show ?thesis using run(1) by simp
  qed
  ultimately show ?thesis
    using wallet_refund_once [OF wallet_expired_db_valid run, of 1 "''ADMIN_CORRECTION''" "6 * Hour"] run(1) by blast
qed

lemma wallet_refund_refused_witness:
  "RefundWalletPayment 2 ''ADMIN'' 7 ''ACCOUNT_INVALID '' (5 * Hour) wallet_expired_db = (Inl (PaymentErr ErrAdminRequired), wallet_expired_db)"
proof -
  have "IsAllowedWalletRefundReasonCode (trim_space ''ACCOUNT_INVALID '')" "\<not> is_current_admin wallet_expired_db 2" by code_simp+
  then show ?thesis using wallet_refund_refused [OF wallet_expired_db_valid] by blast
qed

end
