(* ===== verification/Account_Entity.thy ===== *)
theory Account_Entity
  imports Errors
begin

text \<open>
  The account aggregate of src/internal/account/entity.go: money with a currency,
  Steam credentials, and the state changes of an account. The status codes are those
  of the \<open>AccountStatus\<close> constants, which are also stored in the database.
\<close>

section \<open>Status\<close>

abbreviation (input) Account_Created :: int where "Account_Created \<equiv> 0"
abbreviation (input) Account_Verifying :: int where "Account_Verifying \<equiv> 1"
abbreviation (input) Account_Available :: int where "Account_Available \<equiv> 2"
abbreviation (input) Account_Reserved :: int where "Account_Reserved \<equiv> 3"
abbreviation (input) Account_Rented :: int where "Account_Rented \<equiv> 4"
abbreviation (input) Account_Maintenance :: int where "Account_Maintenance \<equiv> 5"
abbreviation (input) Account_Disabled :: int where "Account_Disabled \<equiv> 6"

definition AccountStatus_String :: "int \<Rightarrow> string" where
  "AccountStatus_String s =
     (if s = Account_Created then ''Created''
      else if s = Account_Verifying then ''Verifying''
      else if s = Account_Available then ''Available''
      else if s = Account_Reserved then ''Reserved''
      else if s = Account_Rented then ''Rented''
      else if s = Account_Maintenance then ''Maintenance''
      else if s = Account_Disabled then ''Disabled''
      else ''Unknown'')"

section \<open>Money\<close>

record Account_Money =
  am_Amount :: int
  am_Currency :: string

definition Account_NewMoney :: "int \<Rightarrow> string \<Rightarrow> err + Account_Money" where
  "Account_NewMoney amount currency =
     (let c = to_upper (trim_space currency)
      in if c \<noteq> ''USD'' \<and> c \<noteq> ''EUR'' \<and> c \<noteq> ''RUB'' \<and> c \<noteq> ''TJS'' then Inl (AccountErr Account_ErrUnsupportedCurrency)
         else Inr \<lparr>am_Amount = amount, am_Currency = c\<rparr>)"

definition Account_Money_IsZero :: "Account_Money \<Rightarrow> bool" where
  "Account_Money_IsZero m \<longleftrightarrow> am_Amount m = 0"

definition Account_Money_Add :: "Account_Money \<Rightarrow> Account_Money \<Rightarrow> err + Account_Money" where
  "Account_Money_Add m n =
     (if am_Currency m \<noteq> am_Currency n then Inl (ErrText ''currency mismatch'')
      else Inr \<lparr>am_Amount = i64 (am_Amount m + am_Amount n), am_Currency = am_Currency m\<rparr>)"

definition Account_Money_Sub :: "Account_Money \<Rightarrow> Account_Money \<Rightarrow> err + Account_Money" where
  "Account_Money_Sub m n =
     (if am_Currency m \<noteq> am_Currency n then Inl (ErrText ''currency mismatch'')
      else Inr \<lparr>am_Amount = i64 (am_Amount m - am_Amount n), am_Currency = am_Currency m\<rparr>)"

section \<open>Credentials\<close>

record SteamCredentials =
  sc_Login :: string
  sc_EncryptedPassword :: string
  sc_SteamID64 :: string

text \<open>
  The loop over the runes of the identifier: every rune outside the ASCII digits is
  refused, and a byte of a multi-byte rune is no ASCII digit, so it is a test of the bytes.
\<close>

definition NewSteamCredentials :: "string \<Rightarrow> string \<Rightarrow> string \<Rightarrow> err + SteamCredentials" where
  "NewSteamCredentials login encryptedPassword steamID64 =
     (if login = [] then Inl (AccountErr Account_ErrEmptyLogin)
      else if encryptedPassword = [] then Inl (AccountErr Account_ErrEmptyPassword)
      else if steamID64 = [] then Inl (AccountErr Account_ErrInvalidSteamID)
      else if \<not> list_all is_digit steamID64 then Inl (AccountErr Account_ErrInvalidSteamID)
      else Inr \<lparr>sc_Login = login, sc_EncryptedPassword = encryptedPassword, sc_SteamID64 = steamID64\<rparr>)"

section \<open>Accounts\<close>

record Game =
  gm_ID :: int
  gm_SteamAppID :: int
  gm_Name :: string
  gm_ShortDescription :: string
  gm_HeaderImage :: string
  gm_ReleaseDate :: "time option"
  gm_Developers :: "string list"
  gm_Publishers :: "string list"
  gm_Genres :: "string list"
  gm_CreatedAt :: time
  gm_UpdatedAt :: time

record AccountGame =
  ag_Game :: Game
  ag_PlaytimeMinutes :: int

record Account =
  acc_ID :: int
  acc_Credentials :: SteamCredentials
  acc_SteamGuardEnabled :: bool
  acc_InventoryVerified :: bool
  acc_LastSecurityCheck :: time
  acc_HourlyPrice :: Account_Money
  acc_DepositAmount :: Account_Money
  acc_Status :: int
  acc_ProfileURL :: string
  acc_AvatarURL :: string
  acc_LibrarySyncedAt :: time
  acc_Games :: "AccountGame list"
  acc_CreatedAt :: time
  acc_UpdatedAt :: time
  acc_DeletedAt :: "time option"

text \<open>The zero value of \<open>time.Time\<close>: January 1 of the year 1, in Unix time.\<close>

abbreviation (input) zero_time :: time where "zero_time \<equiv> - 62135596800000000000"

definition NewAccount :: "SteamCredentials \<Rightarrow> Account_Money \<Rightarrow> Account_Money \<Rightarrow> time \<Rightarrow> err + Account" where
  "NewAccount creds hourlyPrice depositAmount now =
     (if am_Amount hourlyPrice \<le> 0 then Inl (AccountErr Account_ErrInvalidHourlyPrice)
      else if am_Amount depositAmount < 0 then Inl (AccountErr Account_ErrInvalidDeposit)
      else Inr \<lparr>acc_ID = 0, acc_Credentials = creds, acc_SteamGuardEnabled = False, acc_InventoryVerified = False,
                acc_LastSecurityCheck = zero_time, acc_HourlyPrice = hourlyPrice, acc_DepositAmount = depositAmount,
                acc_Status = Account_Created, acc_ProfileURL = [], acc_AvatarURL = [], acc_LibrarySyncedAt = zero_time,
                acc_Games = [], acc_CreatedAt = now, acc_UpdatedAt = now, acc_DeletedAt = None\<rparr>)"

definition Verify :: "time \<Rightarrow> Account \<Rightarrow> Account" where
  "Verify now a = a\<lparr>acc_Status := Account_Verifying, acc_UpdatedAt := now\<rparr>"

definition MarkSecurityChecked :: "bool \<Rightarrow> bool \<Rightarrow> time \<Rightarrow> Account \<Rightarrow> Account" where
  "MarkSecurityChecked steamGuard inventoryVerified now a =
     a\<lparr>acc_SteamGuardEnabled := steamGuard, acc_InventoryVerified := inventoryVerified,
       acc_LastSecurityCheck := now, acc_UpdatedAt := now\<rparr>"

definition SyncLibrary :: "AccountGame list \<Rightarrow> time \<Rightarrow> Account \<Rightarrow> Account" where
  "SyncLibrary gs now a = a\<lparr>acc_Games := gs, acc_LibrarySyncedAt := now, acc_UpdatedAt := now\<rparr>"

definition Publish :: "time \<Rightarrow> Account \<Rightarrow> err + Account" where
  "Publish now a =
     (if \<not> acc_SteamGuardEnabled a \<or> \<not> acc_InventoryVerified a \<or> acc_LibrarySyncedAt a = zero_time
      then Inl (AccountErr Account_ErrCannotPublish)
      else Inr (a\<lparr>acc_Status := Account_Available, acc_UpdatedAt := now\<rparr>))"

definition Reserve :: "time \<Rightarrow> Account \<Rightarrow> err + Account" where
  "Reserve now a =
     (if acc_Status a \<noteq> Account_Available then Inl (AccountErr Account_ErrInvalidState)
      else Inr (a\<lparr>acc_Status := Account_Reserved, acc_UpdatedAt := now\<rparr>))"

definition Rent :: "time \<Rightarrow> Account \<Rightarrow> err + Account" where
  "Rent now a =
     (if acc_Status a \<noteq> Account_Reserved then Inl (AccountErr Account_ErrInvalidState)
      else Inr (a\<lparr>acc_Status := Account_Rented, acc_UpdatedAt := now\<rparr>))"

definition Release :: "time \<Rightarrow> Account \<Rightarrow> err + Account" where
  "Release now a =
     (if acc_Status a \<noteq> Account_Rented \<and> acc_Status a \<noteq> Account_Reserved then Inl (AccountErr Account_ErrInvalidState)
      else Inr (a\<lparr>acc_Status := Account_Available, acc_UpdatedAt := now\<rparr>))"

definition SetMaintenance :: "time \<Rightarrow> Account \<Rightarrow> Account" where
  "SetMaintenance now a = a\<lparr>acc_Status := Account_Maintenance, acc_UpdatedAt := now\<rparr>"

definition Disable :: "time \<Rightarrow> Account \<Rightarrow> Account" where
  "Disable now a = a\<lparr>acc_Status := Account_Disabled, acc_UpdatedAt := now\<rparr>"

section \<open>Facts\<close>

lemma Account_NewMoney_USD [simp]:
  "Account_NewMoney amount ''USD'' = Inr \<lparr>am_Amount = amount, am_Currency = ''USD''\<rparr>"
proof -
  have "to_upper (trim_space ''USD'') = ''USD''" by code_simp
  then show ?thesis by (simp add: Account_NewMoney_def)
qed

lemma NewSteamCredentials_ok:
  "NewSteamCredentials login password steam = Inr c \<longleftrightarrow>
     login \<noteq> [] \<and> password \<noteq> [] \<and> steam \<noteq> [] \<and> list_all is_digit steam \<and>
     c = \<lparr>sc_Login = login, sc_EncryptedPassword = password, sc_SteamID64 = steam\<rparr>"
  by (auto simp: NewSteamCredentials_def)

end
