(* ===== verification/Accounts.thy ===== *)
theory Accounts
  imports Account_Entity Evolution Sample
begin

text \<open>
  The accounts: src/internal/account/repository_postgres.go, validator.go,
  admin_service.go and service_postgres.go. The reads build the aggregate of
  Account_Entity from a row and its games, so they fail when the stored credentials
  are not well formed; the writes are the statements of the repository, and the
  services check the administrator and the price range.
\<close>

section \<open>Passwords at rest\<close>

text \<open>
  AES-GCM is not code of the program: \<open>seal\<close> and \<open>unseal\<close> are its two operations on a
  key, a nonce and a text. \<open>aes.NewCipher\<close> accepts keys of 16, 24 and 32 bytes, and the
  standard nonce has 12 bytes.
\<close>

record aead =
  seal :: "string \<Rightarrow> string \<Rightarrow> string \<Rightarrow> string"
  unseal :: "string \<Rightarrow> string \<Rightarrow> string \<Rightarrow> string option"

definition new_cipher :: "string \<Rightarrow> err + unit" where
  "new_cipher key =
     (if length key \<in> {16, 24, 32} then Inr () else Inl (ErrText (''crypto/aes: invalid key size '' @ format_int (int (length key)))))"

definition Encrypt :: "aead \<Rightarrow> string \<Rightarrow> err + string \<Rightarrow> string \<Rightarrow> err + string" where
  "Encrypt gcm encryptionKey random plaintext =
     (if encryptionKey = [] then Inl (ErrText ''encryption key not configured'')
      else and_then (new_cipher encryptionKey) (\<lambda>_. and_then random (\<lambda>nonce.
        Inr (nonce @ seal gcm encryptionKey nonce plaintext))))"

definition Decrypt :: "aead \<Rightarrow> string \<Rightarrow> string \<Rightarrow> err + string" where
  "Decrypt gcm encryptionKey ciphertext =
     (if encryptionKey = [] then Inl (ErrText ''encryption key not configured'')
      else and_then (new_cipher encryptionKey) (\<lambda>_.
        if length ciphertext < 12 then Inl (ErrText ''ciphertext too short'')
        else case unseal gcm encryptionKey (take 12 ciphertext) (drop 12 ciphertext) of
               None \<Rightarrow> Inl (ErrText ''cipher: message authentication failed'')
             | Some plaintext \<Rightarrow> Inr plaintext))"

section \<open>Reading accounts\<close>

definition mapStatusToDB :: "int \<Rightarrow> int" where "mapStatusToDB status = status"
definition mapStatusFromDB :: "int \<Rightarrow> int" where "mapStatusFromDB statusVal = statusVal"

definition game_of_row :: "game_row \<Rightarrow> Game" where
  "game_of_row g =
     \<lparr>gm_ID = gm_id g, gm_SteamAppID = gm_app g, gm_Name = gm_name g,
      gm_ShortDescription = case_option [] id (gm_description g), gm_HeaderImage = case_option [] id (gm_image g),
      gm_ReleaseDate = gm_release g, gm_Developers = case_option [] id (gm_developers g),
      gm_Publishers = case_option [] id (gm_publishers g), gm_Genres = case_option [] id (gm_genres g),
      gm_CreatedAt = gm_created g, gm_UpdatedAt = gm_updated g\<rparr>"

definition getAccountGames :: "int \<Rightarrow> (db, AccountGame list) tx" where
  "getAccountGames accountID = tx_read (\<lambda>s.
     [\<lparr>ag_Game = game_of_row g, ag_PlaytimeMinutes = k_playtime k\<rparr>.
        k \<leftarrow> account_games s, k_account k = accountID, g \<leftarrow> games s, gm_id g = k_game k])"

definition account_of_row :: "account_row \<Rightarrow> err + Account" where
  "account_of_row a =
     and_then (NewSteamCredentials (a_login a) (a_password a) (a_steam_id64 a)) (\<lambda>creds.
     and_then (Account_NewMoney (a_hourly_price a) ''USD'') (\<lambda>hourlyPrice.
     and_then (Account_NewMoney (a_deposit a) ''USD'') (\<lambda>depositAmount.
     Inr \<lparr>acc_ID = a_id a, acc_Credentials = creds, acc_SteamGuardEnabled = a_guard a, acc_InventoryVerified = a_inventory a,
          acc_LastSecurityCheck = case_option zero_time id (a_last_check a), acc_HourlyPrice = hourlyPrice,
          acc_DepositAmount = depositAmount, acc_Status = mapStatusFromDB (a_status a),
          acc_ProfileURL = case_option [] id (a_profile_url a), acc_AvatarURL = case_option [] id (a_avatar_url a),
          acc_LibrarySyncedAt = case_option zero_time id (a_library_synced a), acc_Games = [],
          acc_CreatedAt = a_created a, acc_UpdatedAt = a_updated a, acc_DeletedAt = a_deleted a\<rparr>)))"

definition load_account :: "account_row \<Rightarrow> (db, Account) tx" where
  "load_account a =
     tx_bind (lift_result (account_of_row a)) (\<lambda>acc.
     tx_bind (getAccountGames (acc_ID acc)) (\<lambda>gs.
     tx_return (acc\<lparr>acc_Games := gs\<rparr>)))"

definition GetAccount :: "int \<Rightarrow> (db, Account) tx" where
  "GetAccount i =
     tx_bind (no_rows_as (AccountErr Account_ErrAccountNotFound)
       (query_row (\<lambda>s. filter (\<lambda>a. a_id a = i \<and> a_deleted a = None) (accounts s)))) load_account"

definition GetAccountForUpdate :: "int \<Rightarrow> (db, Account) tx" where
  "GetAccountForUpdate i =
     tx_bind (no_rows_as (AccountErr Account_ErrAccountNotFound)
       (query_row (\<lambda>s. filter (\<lambda>a. a_id a = i \<and> a_deleted a = None) (accounts s)))) load_account"

text \<open>
  The search. \<open>ilike\<close> is the pattern match of PostgreSQL; a LIMIT or OFFSET below zero is an
  error of the database. Rows with one creation time come in the order of the table.
\<close>

definition status_filter :: "string \<Rightarrow> int" where
  "status_filter status =
     (if status = ''Created'' then Account_Created
      else if status = ''Verifying'' then Account_Verifying
      else if status = ''Available'' then Account_Available
      else if status = ''Reserved'' then Account_Reserved
      else if status = ''Rented'' then Account_Rented
      else if status = ''Maintenance'' then Account_Maintenance
      else if status = ''Disabled'' then Account_Disabled
      else - 1)"

definition search_match ::
  "(string \<Rightarrow> string \<Rightarrow> bool) \<Rightarrow> db \<Rightarrow> string \<Rightarrow> int \<Rightarrow> int \<Rightarrow> int \<Rightarrow> int \<Rightarrow> account_row \<Rightarrow> bool" where
  "search_match ilike s search gameID minPrice maxPrice statusValue a \<longleftrightarrow>
     a_deleted a = None \<and>
     (search = [] \<or> ilike (a_login a) (''%'' @ search @ ''%'') \<or> ilike (a_steam_id64 a) (''%'' @ search @ ''%'') \<or>
      list_ex (\<lambda>k. k_account k = a_id a \<and>
        list_ex (\<lambda>g. gm_id g = k_game k \<and> ilike (gm_name g) (''%'' @ search @ ''%'')) (games s)) (account_games s)) \<and>
     (gameID = 0 \<or> list_ex (\<lambda>k. k_account k = a_id a \<and> k_game k = gameID) (account_games s)) \<and>
     (minPrice = 0 \<or> minPrice \<le> a_hourly_price a) \<and> (maxPrice = 0 \<or> a_hourly_price a \<le> maxPrice) \<and>
     (statusValue = - 1 \<or> a_status a = statusValue)"

definition page_of :: "int \<Rightarrow> int \<Rightarrow> 'a list \<Rightarrow> err + 'a list" where
  "page_of limit offset xs =
     (if limit < 0 then Inl (PgError ''2201W'' ''LIMIT must not be negative'')
      else if offset < 0 then Inl (PgError ''2201X'' ''OFFSET must not be negative'')
      else Inr (take (nat limit) (drop (nat offset) xs)))"

definition SearchAccounts ::
  "(string \<Rightarrow> string \<Rightarrow> bool) \<Rightarrow> int \<Rightarrow> int \<Rightarrow> string \<Rightarrow> int \<Rightarrow> int \<Rightarrow> int \<Rightarrow> string \<Rightarrow> (db, Account list) tx" where
  "SearchAccounts ilike limit offset search gameID minPrice maxPrice status =
     tx_bind (tx_read (\<lambda>s. page_of limit offset (sort_key (\<lambda>a. - a_created a)
       (filter (search_match ilike s search gameID minPrice maxPrice (status_filter status)) (accounts s))))) (\<lambda>page.
     tx_bind (lift_result page) (\<lambda>rows. tx_collect load_account rows))"

definition ListAccounts :: "(string \<Rightarrow> string \<Rightarrow> bool) \<Rightarrow> int \<Rightarrow> int \<Rightarrow> (db, Account list) tx" where
  "ListAccounts ilike limit offset = SearchAccounts ilike limit offset [] 0 0 0 []"

section \<open>Writing accounts\<close>

definition ReserveAccount :: "int \<Rightarrow> time \<Rightarrow> (db, unit) tx" where
  "ReserveAccount i now =
     some_rows (update_table accounts accounts_update account_schema
       (\<lambda>a. a_id a = i \<and> a_status a = Account_Available \<and> a_deleted a = None)
       (\<lambda>a. a\<lparr>a_status := Account_Reserved, a_updated := pg_ts now\<rparr>))
       (AccountErr Account_ErrInvalidState)"

definition row_of_account :: "Account \<Rightarrow> account_row" where
  "row_of_account a =
     \<lparr>a_id = acc_ID a, a_steam_id64 = sc_SteamID64 (acc_Credentials a), a_login = sc_Login (acc_Credentials a),
      a_password = sc_EncryptedPassword (acc_Credentials a), a_guard = acc_SteamGuardEnabled a,
      a_inventory = acc_InventoryVerified a, a_last_check = Some (pg_ts (acc_LastSecurityCheck a)),
      a_hourly_price = am_Amount (acc_HourlyPrice a), a_deposit = am_Amount (acc_DepositAmount a),
      a_status = mapStatusToDB (acc_Status a), a_profile_url = Some (acc_ProfileURL a), a_avatar_url = Some (acc_AvatarURL a),
      a_library_synced = Some (pg_ts (acc_LibrarySyncedAt a)), a_created = pg_ts (acc_CreatedAt a),
      a_updated = pg_ts (acc_UpdatedAt a), a_deleted = map_option pg_ts (acc_DeletedAt a)\<rparr>"

definition row_of_game :: "Game \<Rightarrow> game_row" where
  "row_of_game g =
     \<lparr>gm_id = gm_ID g, gm_app = gm_SteamAppID g, gm_name = gm_Name g, gm_description = Some (gm_ShortDescription g),
      gm_image = Some (gm_HeaderImage g), gm_release = gm_ReleaseDate g, gm_developers = Some (gm_Developers g),
      gm_publishers = Some (gm_Publishers g), gm_genres = Some (gm_Genres g), gm_created = pg_ts (gm_CreatedAt g),
      gm_updated = pg_ts (gm_UpdatedAt g)\<rparr>"

definition insert_link :: "int \<Rightarrow> int \<Rightarrow> int \<Rightarrow> (db, unit) tx" where
  "insert_link accountID gameID playtime =
     tx_bind db_now (\<lambda>t. insert_row account_games account_games_update link_schema
       \<lparr>k_account = accountID, k_game = gameID, k_playtime = playtime, k_created = t\<rparr>)"

definition SyncAccountGames :: "int \<Rightarrow> AccountGame list \<Rightarrow> (db, unit) tx" where
  "SyncAccountGames accountID gs =
     tx_seq (delete_rows account_games account_games_update (\<lambda>k. k_account k = accountID))
       (tx_each (\<lambda>ag.
          tx_bind (tx_read (\<lambda>s. list_ex (\<lambda>g. gm_id g = gm_ID (ag_Game ag)) (games s))) (\<lambda>known.
          tx_seq (tx_when (\<not> known) (insert_row games games_update game_schema (row_of_game (ag_Game ag))))
            (insert_link accountID (gm_ID (ag_Game ag)) (ag_PlaytimeMinutes ag)))) gs)"

definition CreateAccount :: "Account \<Rightarrow> (db, unit) tx" where
  "CreateAccount a =
     tx_seq (insert_row accounts accounts_update account_schema (row_of_account a))
       (SyncAccountGames (acc_ID a) (acc_Games a))"

definition CreateAdminAccount :: "string \<Rightarrow> string \<Rightarrow> string \<Rightarrow> int \<Rightarrow> int \<Rightarrow> (db, int) tx" where
  "CreateAdminAccount steamID64 login encryptedPassword hourlyPrice depositAmount =
     tx_bind (next_id Accounts) (\<lambda>i. tx_bind db_now (\<lambda>t.
     tx_seq (insert_row accounts accounts_update account_schema
       \<lparr>a_id = i, a_steam_id64 = steamID64, a_login = login, a_password = encryptedPassword, a_guard = True,
        a_inventory = True, a_last_check = None, a_hourly_price = hourlyPrice, a_deposit = depositAmount,
        a_status = 2, a_profile_url = None, a_avatar_url = None, a_library_synced = None, a_created = t,
        a_updated = t, a_deleted = None\<rparr>)
       (tx_return i)))"

definition UpdateAdminPricing :: "int \<Rightarrow> int option \<Rightarrow> int option \<Rightarrow> (db, unit) tx" where
  "UpdateAdminPricing i hourlyPrice depositAmount =
     tx_bind db_now (\<lambda>t.
     some_rows (update_table accounts accounts_update account_schema
       (\<lambda>a. a_id a = i \<and> a_deleted a = None)
       (\<lambda>a. a\<lparr>a_hourly_price := case_option (a_hourly_price a) id hourlyPrice,
              a_deposit := case_option (a_deposit a) id depositAmount, a_updated := t\<rparr>))
       (AccountErr Account_ErrAccountNotFound))"

section \<open>Services\<close>

definition validateAdminPricing :: "int \<Rightarrow> int \<Rightarrow> err option" where
  "validateAdminPricing hourlyPrice depositAmount =
     (if hourlyPrice \<le> 0 \<or> depositAmount < 0 \<or> quot MaxInt64 720 < hourlyPrice then Some (AccountErr Account_ErrPricingOutOfRange)
      else if i64 (MaxInt64 - depositAmount) < i64 (hourlyPrice * 720) then Some (AccountErr Account_ErrPricingOutOfRange)
      else None)"

definition Account_RequireCurrentAdmin :: "int \<Rightarrow> (db, unit) tx" where
  "Account_RequireCurrentAdmin actorUserID =
     tx_catch (RequireCurrentAdminForMutation True actorUserID) (\<lambda>e.
       tx_fail (if errors_is e (AuthErr ErrCurrentAdminRequired) then AccountErr Account_ErrAdminAuthorization else e))"

record AdminAccountInput =
  aai_SteamID64 :: string
  aai_SteamLogin :: string
  aai_SteamPassword :: string
  aai_PricePerHour :: int
  aai_SecurityDeposit :: int

record AdminAccountUpdate =
  aau_PricePerHour :: "int option"
  aau_SecurityDeposit :: "int option"

definition AdminService_ListAccounts :: "(string \<Rightarrow> string \<Rightarrow> bool) \<Rightarrow> (db, Account list) tx" where
  "AdminService_ListAccounts ilike = SearchAccounts ilike 100000 0 [] 0 0 0 []"

definition AdminService_CreateAccount ::
  "(string \<Rightarrow> err + string) \<Rightarrow> int \<Rightarrow> AdminAccountInput \<Rightarrow> db \<Rightarrow> (err + int) \<times> db" where
  "AdminService_CreateAccount encrypt actorUserID input s =
     (case validateAdminPricing (aai_PricePerHour input) (aai_SecurityDeposit input) of
        Some e \<Rightarrow> (Inl e, s)
      | None \<Rightarrow>
          (case encrypt (aai_SteamPassword input) of
             Inl e \<Rightarrow> (Inl e, s)
           | Inr encrypted \<Rightarrow>
               WithinTransaction (tx_seq (Account_RequireCurrentAdmin actorUserID)
                 (CreateAdminAccount (aai_SteamID64 input) (aai_SteamLogin input) encrypted
                    (aai_PricePerHour input) (aai_SecurityDeposit input))) s))"

definition AdminService_UpdateAccount :: "int \<Rightarrow> int \<Rightarrow> AdminAccountUpdate \<Rightarrow> db \<Rightarrow> (err + unit) \<times> db" where
  "AdminService_UpdateAccount actorUserID accountID input =
     WithinTransaction
       (tx_seq (Account_RequireCurrentAdmin actorUserID)
       (tx_bind (GetAccountForUpdate accountID) (\<lambda>current.
        let price = case_option (am_Amount (acc_HourlyPrice current)) id (aau_PricePerHour input);
            deposit = case_option (am_Amount (acc_DepositAmount current)) id (aau_SecurityDeposit input)
        in case validateAdminPricing price deposit of
             Some e \<Rightarrow> tx_fail e
           | None \<Rightarrow> UpdateAdminPricing accountID (aau_PricePerHour input) (aau_SecurityDeposit input))))"

record QueryParams =
  qp_Page :: int
  qp_PageSize :: int
  qp_Search :: string
  qp_Sort :: string
  qp_Order :: string
  qp_Status :: string
  qp_GameID :: int
  qp_MinPrice :: int
  qp_MaxPrice :: int
  qp_TrustLevel :: string

text \<open>\<open>q.Get\<close> is a function of the parameter's name; an absent parameter is the empty string.\<close>

definition int_param :: "string \<Rightarrow> int" where
  "int_param v = (if v = [] then 0 else case_option 0 id (parse_int v))"

definition ParseAndValidateQueryParams :: "(string \<Rightarrow> string) \<Rightarrow> QueryParams" where
  "ParseAndValidateQueryParams q =
     (let page = (case parse_int (q ''page'') of Some p \<Rightarrow> if 0 < p then p else 1 | None \<Rightarrow> 1);
          pageSize = (case parse_int (q ''page_size'') of Some ps \<Rightarrow> if 0 < ps then (if 100 < ps then 100 else ps) else 20 | None \<Rightarrow> 20)
      in \<lparr>qp_Page = page, qp_PageSize = pageSize, qp_Search = q ''search'', qp_Sort = q ''sort'', qp_Order = q ''order'',
          qp_Status = q ''status'', qp_GameID = int_param (q ''game''), qp_MinPrice = int_param (q ''min_price''),
          qp_MaxPrice = int_param (q ''max_price''), qp_TrustLevel = q ''trust_level''\<rparr>)"

definition PostgresService_ListAccounts :: "(string \<Rightarrow> string \<Rightarrow> bool) \<Rightarrow> QueryParams \<Rightarrow> (db, Account list \<times> int) tx" where
  "PostgresService_ListAccounts ilike params =
     (let offset = i64 (i64 (qp_Page params - 1) * qp_PageSize params)
      in tx_bind (SearchAccounts ilike (qp_PageSize params) offset (qp_Search params) (qp_GameID params)
           (qp_MinPrice params) (qp_MaxPrice params) (qp_Status params)) (\<lambda>found.
         let n = i64 (offset + int (length found))
         in tx_return (found, if int (length found) = qp_PageSize params then i64 (n + 1) else n)))"

definition GetAccountByID :: "int \<Rightarrow> (db, Account) tx" where
  "GetAccountByID i = GetAccount i"

definition CheckAvailability :: "int \<Rightarrow> (db, bool) tx" where
  "CheckAvailability i = tx_bind (GetAccount i) (\<lambda>acc. tx_return (acc_Status acc = Account_Available))"

section \<open>Constraints and evolution\<close>

lemmas account_reads = GetAccount_def GetAccountForUpdate_def load_account_def getAccountGames_def SearchAccounts_def
  ListAccounts_def AdminService_ListAccounts_def PostgresService_ListAccounts_def CheckAvailability_def GetAccountByID_def

lemmas account_writes = ReserveAccount_def CreateAccount_def SyncAccountGames_def insert_link_def CreateAdminAccount_def
  UpdateAdminPricing_def some_rows_def Account_RequireCurrentAdmin_def admin_reads

lemma account_valid [closed_intros]:
  "valid.closed (ReserveAccount i now)" "valid.closed (CreateAccount acc)" "valid.closed (SyncAccountGames i gs)"
  "valid.closed (CreateAdminAccount steam login pw price deposit)" "valid.closed (UpdateAdminPricing i price' deposit')"
  "valid.closed (Account_RequireCurrentAdmin i)" "valid.closed (GetAccount i)" "valid.closed (GetAccountForUpdate i)"
  unfolding account_writes account_reads by (intro closed_intros)+

lemma account_evolves [closed_intros]:
  "evolution.closed (ReserveAccount i now)" "evolution.closed (CreateAccount acc)" "evolution.closed (SyncAccountGames i gs)"
  "evolution.closed (CreateAdminAccount steam login pw price deposit)" "evolution.closed (UpdateAdminPricing i price' deposit')"
  "evolution.closed (Account_RequireCurrentAdmin i)" "evolution.closed (GetAccount i)" "evolution.closed (GetAccountForUpdate i)"
  unfolding account_writes account_reads by (intro closed_intros; simp add: account_next_def)+

lemma account_reads_unchanged [closed_intros]:
  "unchanged.closed (GetAccount i)" "unchanged.closed (GetAccountForUpdate i)" "unchanged.closed (Account_RequireCurrentAdmin i)"
  unfolding account_writes account_reads by (intro closed_intros)+

lemma Account_RequireCurrentAdmin_ok:
  "Account_RequireCurrentAdmin uid s = Inr (x, t) \<Longrightarrow> t = s \<and> is_current_admin s uid"
  by (auto simp: Account_RequireCurrentAdmin_def RequireCurrentAdminForMutation_def tx_inv tx_catch_ok dest: RequireCurrentAdmin_ok)

section \<open>The account that a successful read returns\<close>

lemma GetAccountForUpdate_ok:
  assumes "GetAccountForUpdate i s = Inr (acc, t)"
  obtains a where "t = s" "a \<in> set (accounts s)" "a_id a = i" "a_deleted a = None"
    "acc_ID acc = i" "acc_Status acc = a_status a" "acc_HourlyPrice acc = \<lparr>am_Amount = a_hourly_price a, am_Currency = ''USD''\<rparr>"
    "acc_DepositAmount acc = \<lparr>am_Amount = a_deposit a, am_Currency = ''USD''\<rparr>"
    "\<exists>c. NewSteamCredentials (a_login a) (a_password a) (a_steam_id64 a) = Inr c"
proof -
  obtain a as acc0 gs where a: "filter (\<lambda>a. a_id a = i \<and> a_deleted a = None) (accounts s) = a # as"
    and acc: "account_of_row a = Inr acc0" "acc = acc0\<lparr>acc_Games := gs\<rparr>" "t = s"
    using assms by (auto simp: GetAccountForUpdate_def load_account_def getAccountGames_def tx_inv)
  then have "a \<in> set (accounts s)" "a_id a = i" "a_deleted a = None" by (auto dest!: filter_hd)
  moreover have "acc_ID acc = i" "acc_Status acc = a_status a" "acc_HourlyPrice acc = \<lparr>am_Amount = a_hourly_price a, am_Currency = ''USD''\<rparr>"
    "acc_DepositAmount acc = \<lparr>am_Amount = a_deposit a, am_Currency = ''USD''\<rparr>"
    "\<exists>c. NewSteamCredentials (a_login a) (a_password a) (a_steam_id64 a) = Inr c"
    using acc calculation(2) by (auto simp: account_of_row_def and_then_ok mapStatusFromDB_def)
  ultimately show thesis using that acc(3) by blast
qed

lemma load_account_malformed:
  "\<not> list_all is_digit (a_steam_id64 a) \<Longrightarrow> load_account a s \<noteq> Inr r"
  by (auto simp: load_account_def account_of_row_def and_then_ok tx_inv NewSteamCredentials_ok)

lemma tx_collect_stuck:
  "x \<in> set xs \<Longrightarrow> (\<And>s r. f x s \<noteq> Inr r) \<Longrightarrow> tx_collect f xs s \<noteq> Inr r"
  by (induction xs arbitrary: s r) (auto simp: tx_inv)

lemma not_Inr: "(\<And>r. x \<noteq> Inr r) \<Longrightarrow> \<exists>e. x = Inl e"
  by (cases x) auto

section \<open>Properties\<close>

text \<open>
  A password that the repository encrypts, with a configured key and the nonce
  that the random source gives, is decrypted to itself, for every authenticated
  cipher that opens what it has sealed.
\<close>

theorem encrypt_round_trip:
  assumes cipher: "\<And>k n p. unseal gcm k n (seal gcm k n p) = Some p"
    and nonce: "\<And>n. random = Inr n \<Longrightarrow> length n = 12" and ok: "Encrypt gcm key random plaintext = Inr ciphertext"
  shows "Decrypt gcm key ciphertext = Inr plaintext"
proof -
  obtain n where n: "random = Inr n" "ciphertext = n @ seal gcm key n plaintext" "key \<noteq> []" "new_cipher key = Inr ()"
    using ok by (auto simp: Encrypt_def and_then_ok split: if_splits)
  then have "take 12 ciphertext = n" "drop 12 ciphertext = seal gcm key n plaintext" "12 \<le> length ciphertext"
    using nonce [OF n(1)] by simp_all
  then show ?thesis using n(3,4) cipher by (simp add: Decrypt_def)
qed

definition toy_gcm :: aead where
  "toy_gcm = \<lparr>seal = (\<lambda>k n p. p @ k), unseal = (\<lambda>k n c. if drop (length c - length k) c = k then Some (take (length c - length k) c) else None)\<rparr>"

lemma encrypt_round_trip_witness:
  "Decrypt toy_gcm ''0123456789abcdef'' (''nonce-nonce-pw'' @ ''0123456789abcdef'') = Inr ''pw''"
proof (rule encrypt_round_trip [where random = "Inr ''nonce-nonce-''"])
  show "unseal toy_gcm k n (seal toy_gcm k n p) = Some p" for k n p by (simp add: toy_gcm_def)
  show "Inr ''nonce-nonce-'' = (Inr n :: err + string) \<Longrightarrow> length n = 12" for n by auto
  show "Encrypt toy_gcm ''0123456789abcdef'' (Inr ''nonce-nonce-'') ''pw'' = Inr (''nonce-nonce-pw'' @ ''0123456789abcdef'')" by code_simp
qed

lemma created_account:
  assumes "AdminService_CreateAccount encrypt actor input s = (Inr i, t)"
  shows "is_current_admin s actor \<and> validateAdminPricing (aai_PricePerHour input) (aai_SecurityDeposit input) = None \<and>
     (\<exists>a pw. encrypt (aai_SteamPassword input) = Inr pw \<and> t = (bump Accounts s)\<lparr>accounts := accounts s @ [a]\<rparr> \<and>
        a_id a = i \<and> i = sequences s Accounts \<and> a_status a = 2 \<and> a_deleted a = None \<and> a_password a = pw \<and>
        a_steam_id64 a = aai_SteamID64 input \<and> a_hourly_price a = aai_PricePerHour input \<and> a_deposit a = aai_SecurityDeposit input \<and>
        (\<forall>b\<in>set (accounts s). a_steam_id64 b \<noteq> aai_SteamID64 input))"
proof -
  obtain pw where pw: "validateAdminPricing (aai_PricePerHour input) (aai_SecurityDeposit input) = None" "encrypt (aai_SteamPassword input) = Inr pw"
    and body: "tx_seq (Account_RequireCurrentAdmin actor)
        (CreateAdminAccount (aai_SteamID64 input) (aai_SteamLogin input) pw (aai_PricePerHour input) (aai_SecurityDeposit input)) s = Inr (i, t)"
    using assms by (auto simp: AdminService_CreateAccount_def tx_inv split: option.splits sum.splits)
  then have admin: "is_current_admin s actor"
    and create: "CreateAdminAccount (aai_SteamID64 input) (aai_SteamLogin input) pw (aai_PricePerHour input) (aai_SecurityDeposit input) s = Inr (i, t)"
    by (auto simp: tx_seq_ok dest!: Account_RequireCurrentAdmin_ok)
  define a where "a = \<lparr>a_id = sequences s Accounts, a_steam_id64 = aai_SteamID64 input, a_login = aai_SteamLogin input, a_password = pw, a_guard = True,
        a_inventory = True, a_last_check = None, a_hourly_price = aai_PricePerHour input, a_deposit = aai_SecurityDeposit input,
        a_status = 2, a_profile_url = None, a_avatar_url = None, a_library_synced = None, a_created = clock s,
        a_updated = clock s, a_deleted = None\<rparr>"
  have ins: "insert_ok account_schema a (accounts s)" and t: "t = (bump Accounts s)\<lparr>accounts := accounts s @ [a]\<rparr>" "i = sequences s Accounts"
    using create by (auto simp: CreateAdminAccount_def tx_inv a_def)
  have "a_steam_id64 b \<noteq> aai_SteamID64 input" if "b \<in> set (accounts s)" for b
    using insert_ok_clash [OF ins that] by (auto simp: account_schema_def a_def split: if_splits)
  moreover have "a_id a = i" "a_status a = 2" "a_deleted a = None" "a_password a = pw" "a_steam_id64 a = aai_SteamID64 input"
    "a_hourly_price a = aai_PricePerHour input" "a_deposit a = aai_SecurityDeposit input"
    by (simp_all add: a_def t(2))
  ultimately show ?thesis using admin pw t by blast
qed

text \<open>
  An account that an administrator creates was created by a current administrator
  with prices inside the supported range. Exactly one row is appended to the accounts,
  available, with the encrypted password and the returned id; nothing else changes but
  the number sequence.
\<close>

theorem admin_create_account_effect:
  assumes "AdminService_CreateAccount encrypt actor input s = (Inr i, t)"
  shows "is_current_admin s actor \<and> validateAdminPricing (aai_PricePerHour input) (aai_SecurityDeposit input) = None \<and>
     (\<exists>a pw. encrypt (aai_SteamPassword input) = Inr pw \<and> t = (bump Accounts s)\<lparr>accounts := accounts s @ [a]\<rparr> \<and>
        a_id a = i \<and> i = sequences s Accounts \<and> a_status a = 2 \<and> a_deleted a = None \<and> a_password a = pw \<and>
        a_steam_id64 a = aai_SteamID64 input \<and> a_hourly_price a = aai_PricePerHour input \<and> a_deposit a = aai_SecurityDeposit input \<and>
        (\<forall>b\<in>set (accounts s). a_steam_id64 b \<noteq> aai_SteamID64 input))"
  by (rule created_account [OF assms])

definition new_account_input :: AdminAccountInput where
  "new_account_input = \<lparr>aai_SteamID64 = ''77'', aai_SteamLogin = ''l'', aai_SteamPassword = ''p'', aai_PricePerHour = 10, aai_SecurityDeposit = 0\<rparr>"

lemma admin_create_account_effect_witness:
  "\<exists>i t. AdminService_CreateAccount Inr 1 new_account_input waiting_db = (Inr i, t) \<and> is_current_admin waiting_db 1"
proof -
  have "ok_with (\<lambda>_. True) (AdminService_CreateAccount Inr 1 new_account_input waiting_db)" by code_simp
  then obtain i t where "AdminService_CreateAccount Inr 1 new_account_input waiting_db = (Inr i, t)" by (blast dest: ok_withD)
  then show ?thesis using admin_create_account_effect by blast
qed

text \<open>
  The identifier of a new account is not checked when it is created, but whenever
  accounts are read: as soon as one account with an identifier that is not a numeral
  is stored, it cannot be read, and a list of all accounts cannot be read either.
\<close>

theorem malformed_steam_id_breaks_listing:
  assumes run: "AdminService_CreateAccount encrypt actor input s = (Inr i, t)"
    and malformed: "\<not> list_all is_digit (aai_SteamID64 input)" and few: "length (accounts s) < 100000"
  shows "\<exists>e. AdminService_ListAccounts ilike t = Inl e"
proof -
  obtain a where t: "t = (bump Accounts s)\<lparr>accounts := accounts s @ [a]\<rparr>" and a: "a_steam_id64 a = aai_SteamID64 input" "a_deleted a = None"
    using created_account [OF run] by blast
  have a: "a \<in> set (accounts t)" "a_steam_id64 a = aai_SteamID64 input" "a_deleted a = None" "length (accounts t) \<le> 100000"
    using a few by (simp_all add: t)
  let ?rows = "sort_key (\<lambda>a. - a_created a) (filter (search_match ilike t [] 0 0 0 (status_filter [])) (accounts t))"
  have "length ?rows \<le> 100000" using a(4) by (simp add: le_trans [OF length_filter_le])
  then have "page_of 100000 0 ?rows = Inr ?rows" by (simp add: page_of_def)
  moreover have "a \<in> set ?rows" using a(1,3) by (simp add: search_match_def status_filter_def)
  then have "tx_collect load_account ?rows t \<noteq> Inr r" for r
    by (rule tx_collect_stuck) (rule load_account_malformed, use malformed a(2) in simp)
  ultimately have "AdminService_ListAccounts ilike t \<noteq> Inr r" for r
    by (simp add: AdminService_ListAccounts_def SearchAccounts_def tx_bind_ok tx_read_ok lift_result_ok)
  then show ?thesis using not_Inr by blast
qed

definition malformed_account_input :: AdminAccountInput where
  "malformed_account_input = new_account_input\<lparr>aai_SteamID64 := ''steam''\<rparr>"

lemma malformed_steam_id_breaks_listing_witness:
  "\<exists>i t e. AdminService_CreateAccount Inr 1 malformed_account_input waiting_db = (Inr i, t) \<and>
     AdminService_ListAccounts (\<lambda>_ _. True) t = Inl e"
proof -
  have "ok_with (\<lambda>_. True) (AdminService_CreateAccount Inr 1 malformed_account_input waiting_db)" by code_simp
  then obtain i t where run: "AdminService_CreateAccount Inr 1 malformed_account_input waiting_db = (Inr i, t)" by (blast dest: ok_withD)
  have "\<not> list_all is_digit (aai_SteamID64 malformed_account_input)" "length (accounts waiting_db) < 100000"
    by code_simp (simp add: waiting_db_def)
  then show ?thesis using malformed_steam_id_breaks_listing [OF run] run by blast
qed

end
