(* ===== verification/Users.thy ===== *)
theory Users
  imports Authorization Sample Evolution
begin

text \<open>
  The users: src/internal/user. The aggregate of entity.go (trust score and levels),
  the statements of repository_postgres.go, and the services: an administrator's
  update of another user, with the revocation of the user's sessions and the audit
  record, and a user's update of the own profile.
\<close>

section \<open>The user\<close>

abbreviation (input) TrustLevelBronze :: string where "TrustLevelBronze \<equiv> ''Bronze''"
abbreviation (input) TrustLevelSilver :: string where "TrustLevelSilver \<equiv> ''Silver''"
abbreviation (input) TrustLevelGold :: string where "TrustLevelGold \<equiv> ''Gold''"
abbreviation (input) TrustLevelDiamond :: string where "TrustLevelDiamond \<equiv> ''Diamond''"

definition GetTrustLevel :: "int \<Rightarrow> string" where
  "GetTrustLevel score =
     (if 850 \<le> score then TrustLevelDiamond
      else if 600 \<le> score then TrustLevelGold
      else if 300 \<le> score then TrustLevelSilver
      else TrustLevelBronze)"

record User =
  usr_ID :: int
  usr_Email :: string
  usr_FirstName :: string
  usr_LastName :: string
  usr_TrustScore :: int
  usr_Role :: string
  usr_IsBlocked :: bool
  usr_Balance :: int
  usr_CreatedAt :: time
  usr_UpdatedAt :: time
  usr_DeletedAt :: "time option"

text \<open>
  \<open>strings.Split(email, "@")\<close> has two non-empty parts: there is exactly one \<open>@\<close>, and it is
  neither the first nor the last byte. \<open>address\<close> is whether \<open>mail.ParseAddress\<close> accepts the text.
\<close>

fun split_on :: "char \<Rightarrow> string \<Rightarrow> string list" where
  "split_on c [] = [[]]"
| "split_on c (x # xs) =
     (if x = c then [] # split_on c xs
      else case split_on c xs of [] \<Rightarrow> [[x]] | p # ps \<Rightarrow> (x # p) # ps)"

definition User_ValidateEmail :: "(string \<Rightarrow> bool) \<Rightarrow> string \<Rightarrow> err option" where
  "User_ValidateEmail address email =
     (if email = [] then Some (UserErr User_ErrInvalidEmail)
      else if \<not> address email then Some (UserErr User_ErrInvalidEmail)
      else (case split_on CHR ''@'' email of
              [local, domain] \<Rightarrow> if local = [] \<or> domain = [] then Some (UserErr User_ErrInvalidEmail) else None
            | _ \<Rightarrow> Some (UserErr User_ErrInvalidEmail)))"

definition User_Validate :: "(string \<Rightarrow> bool) \<Rightarrow> User \<Rightarrow> err option" where
  "User_Validate address u =
     (case User_ValidateEmail address (usr_Email u) of
        Some e \<Rightarrow> Some e
      | None \<Rightarrow> if usr_TrustScore u < 0 \<or> 1000 < usr_TrustScore u then Some (UserErr User_ErrInvalidTrustScore) else None)"

definition User_NewUser :: "(string \<Rightarrow> bool) \<Rightarrow> string \<Rightarrow> string \<Rightarrow> string \<Rightarrow> time \<Rightarrow> err + User" where
  "User_NewUser address email firstName lastName now =
     (let u = \<lparr>usr_ID = 0, usr_Email = email, usr_FirstName = firstName, usr_LastName = lastName, usr_TrustScore = 300,
               usr_Role = ''RENT'', usr_IsBlocked = False, usr_Balance = 0, usr_CreatedAt = now, usr_UpdatedAt = now,
               usr_DeletedAt = None\<rparr>
      in case User_Validate address u of Some e \<Rightarrow> Inl e | None \<Rightarrow> Inr u)"

definition User_TrustLevel :: "User \<Rightarrow> string" where
  "User_TrustLevel u = GetTrustLevel (usr_TrustScore u)"

definition ModifyTrustScore :: "int \<Rightarrow> time \<Rightarrow> User \<Rightarrow> User" where
  "ModifyTrustScore delta now u =
     (let newScore = i64 (usr_TrustScore u + delta);
          newScore = (if newScore < 0 then 0 else newScore);
          newScore = (if 1000 < newScore then 1000 else newScore)
      in u\<lparr>usr_TrustScore := newScore, usr_UpdatedAt := now\<rparr>)"

definition Block :: "time \<Rightarrow> User \<Rightarrow> User" where
  "Block now u = u\<lparr>usr_IsBlocked := True, usr_UpdatedAt := now\<rparr>"

definition Unblock :: "time \<Rightarrow> User \<Rightarrow> User" where
  "Unblock now u = u\<lparr>usr_IsBlocked := False, usr_UpdatedAt := now\<rparr>"

section \<open>The repository\<close>

definition user_of_row :: "user_row \<Rightarrow> User" where
  "user_of_row u =
     \<lparr>usr_ID = u_id u, usr_Email = u_email u, usr_FirstName = case_option [] id (u_first_name u),
      usr_LastName = case_option [] id (u_last_name u), usr_TrustScore = u_trust u, usr_Role = u_role u,
      usr_IsBlocked = u_blocked u, usr_Balance = u_balance u, usr_CreatedAt = u_created u,
      usr_UpdatedAt = u_updated u, usr_DeletedAt = u_deleted u\<rparr>"

definition query_user :: "(user_row \<Rightarrow> bool) \<Rightarrow> (db, User) tx" where
  "query_user P =
     no_rows_as (UserErr User_ErrUserNotFound)
       (query_row (\<lambda>s. map user_of_row (filter (\<lambda>u. P u \<and> u_deleted u = None) (users s))))"

definition GetUser :: "int \<Rightarrow> (db, User) tx" where
  "GetUser i = query_user (\<lambda>u. u_id u = i)"

definition GetUserForUpdate :: "int \<Rightarrow> (db, User) tx" where
  "GetUserForUpdate i = query_user (\<lambda>u. u_id u = i)"

definition User_GetUserByEmail :: "string \<Rightarrow> (db, User) tx" where
  "User_GetUserByEmail email = query_user (\<lambda>u. u_email u = email)"

definition User_CreateUser :: "User \<Rightarrow> (db, User) tx" where
  "User_CreateUser u =
     tx_bind (next_id Users) (\<lambda>i.
     tx_seq (insert_row users users_update user_schema
       \<lparr>u_id = i, u_email = usr_Email u, u_password_hash = [], u_first_name = Some (usr_FirstName u),
        u_last_name = Some (usr_LastName u), u_email_verified = False, u_role = usr_Role u, u_trust = usr_TrustScore u,
        u_blocked = usr_IsBlocked u, u_balance = 0, u_created = pg_ts (usr_CreatedAt u), u_updated = pg_ts (usr_UpdatedAt u),
        u_deleted = map_option pg_ts (usr_DeletedAt u)\<rparr>)
       (tx_return (u\<lparr>usr_ID := i, usr_Balance := 0\<rparr>)))"

definition User_UpdateUser :: "User \<Rightarrow> (db, unit) tx" where
  "User_UpdateUser u =
     tx_seq (update_table users users_update user_schema
       (\<lambda>r. u_id r = usr_ID u \<and> u_deleted r = None)
       (\<lambda>r. r\<lparr>u_first_name := Some (usr_FirstName u), u_last_name := Some (usr_LastName u), u_updated := pg_ts (usr_UpdatedAt u)\<rparr>))
     (tx_return ())"

definition limited :: "int \<Rightarrow> int \<Rightarrow> 'a list \<Rightarrow> 'a list" where
  "limited limit offset xs = take (nat limit) (drop (nat offset) xs)"

text \<open>The callers pass the limits 100 and 100000 and the offset 0.\<close>

definition ListUsers :: "int \<Rightarrow> int \<Rightarrow> (db, User list) tx" where
  "ListUsers limit offset = tx_read (\<lambda>s.
     map user_of_row (limited limit offset (sort_key (\<lambda>u. - u_created u) (filter (\<lambda>u. u_deleted u = None) (users s)))))"

definition UpdateAdminState :: "int \<Rightarrow> int option \<Rightarrow> bool option \<Rightarrow> string option \<Rightarrow> (db, unit) tx" where
  "UpdateAdminState i trustScore isBlocked role =
     tx_bind db_now (\<lambda>t.
     some_rows (update_table users users_update user_schema
       (\<lambda>u. u_id u = i \<and> u_deleted u = None)
       (\<lambda>u. u\<lparr>u_trust := case_option (u_trust u) id trustScore, u_blocked := case_option (u_blocked u) id isBlocked,
              u_role := case_option (u_role u) id role, u_updated := t\<rparr>))
       (UserErr User_ErrUserNotFound))"

definition RevokeActiveRefreshTokens :: "int \<Rightarrow> (db, unit) tx" where
  "RevokeActiveRefreshTokens userID =
     tx_bind db_now (\<lambda>t.
     tx_seq (update_table tokens tokens_update token_schema
       (\<lambda>k. t_user k = userID \<and> t_revoked k = None) (\<lambda>k. k\<lparr>t_revoked := Some t\<rparr>))
     (tx_return ()))"

definition RecordAdminUserStateChange :: "int \<Rightarrow> int \<Rightarrow> string \<Rightarrow> bool \<Rightarrow> string \<Rightarrow> bool \<Rightarrow> (db, unit) tx" where
  "RecordAdminUserStateChange actorUserID userID oldRole oldBlocked newRole newBlocked =
     tx_bind (next_id Audits) (\<lambda>i. tx_bind db_now (\<lambda>t.
     insert_row audits audits_update audit_schema
       \<lparr>g_id = i, g_actor = Some actorUserID, g_entity = ''USER'', g_entity_id = userID,
        g_action = ''USER_SECURITY_STATE_UPDATED'',
        g_old = [(''role'', JStr oldRole), (''is_blocked'', JBool oldBlocked)],
        g_new = [(''role'', JStr newRole), (''is_blocked'', JBool newBlocked)], g_created = t\<rparr>))"

record AuditLog =
  al_ID :: int
  al_ActorUserID :: "int option"
  al_EntityType :: string
  al_EntityID :: int
  al_Action :: string
  al_CreatedAt :: time

definition ListAuditLogs :: "int \<Rightarrow> (db, AuditLog list) tx" where
  "ListAuditLogs limit = tx_read (\<lambda>s.
     map (\<lambda>g. \<lparr>al_ID = g_id g, al_ActorUserID = g_actor g, al_EntityType = g_entity g, al_EntityID = g_entity_id g,
               al_Action = g_action g, al_CreatedAt = g_created g\<rparr>)
       (take (nat limit) (sort_key (\<lambda>g. - g_created g) (audits s))))"

section \<open>The services\<close>

record AdminUpdateInput =
  aui_TrustScore :: "int option"
  aui_IsBlocked :: "bool option"
  aui_Role :: "string option"

definition User_RequireCurrentAdmin :: "int \<Rightarrow> (db, unit) tx" where
  "User_RequireCurrentAdmin actorUserID =
     tx_catch (RequireCurrentAdminForMutation True actorUserID) (\<lambda>e.
       tx_fail (if errors_is e (AuthErr ErrCurrentAdminRequired) then UserErr User_ErrAdminAuthorization else e))"

definition User_AdminListUsers :: "(db, User list) tx" where
  "User_AdminListUsers = ListUsers 100000 0"

definition User_AdminListAuditLogs :: "(db, AuditLog list) tx" where
  "User_AdminListAuditLogs = ListAuditLogs 100"

definition User_AdminUpdate_body :: "int \<Rightarrow> int \<Rightarrow> AdminUpdateInput \<Rightarrow> (db, unit) tx" where
  "User_AdminUpdate_body actorUserID targetUserID input =
     tx_seq (User_RequireCurrentAdmin actorUserID)
    (tx_seq (fail_if (actorUserID = targetUserID) (UserErr User_ErrAdminSelfUpdateForbidden))
    (tx_bind (GetUserForUpdate targetUserID) (\<lambda>current.
     tx_seq (UpdateAdminState targetUserID (aui_TrustScore input) (aui_IsBlocked input) (aui_Role input))
    (let newRole = case_option (usr_Role current) id (aui_Role input);
         newBlocked = case_option (usr_IsBlocked current) id (aui_IsBlocked input)
     in if newRole \<noteq> usr_Role current \<or> newBlocked \<noteq> usr_IsBlocked current
        then tx_seq (RevokeActiveRefreshTokens targetUserID)
               (RecordAdminUserStateChange actorUserID targetUserID (usr_Role current) (usr_IsBlocked current) newRole newBlocked)
        else tx_return ()))))"

definition User_AdminUpdateUser :: "int \<Rightarrow> int \<Rightarrow> AdminUpdateInput \<Rightarrow> db \<Rightarrow> (err + unit) \<times> db" where
  "User_AdminUpdateUser actorUserID targetUserID input =
     WithinTransaction (User_AdminUpdate_body actorUserID targetUserID input)"

definition GetUserByID :: "int \<Rightarrow> (db, User) tx" where
  "GetUserByID i = GetUser i"

definition User_ServiceUpdateUser :: "int \<Rightarrow> string \<Rightarrow> string \<Rightarrow> time \<Rightarrow> (db, User) tx" where
  "User_ServiceUpdateUser i firstName lastName now =
     tx_bind (GetUser i) (\<lambda>u.
     let u = u\<lparr>usr_FirstName := firstName, usr_LastName := lastName, usr_UpdatedAt := now\<rparr>
     in tx_seq (User_UpdateUser u) (tx_return u))"

definition User_ServiceListUsers :: "(db, User list) tx" where
  "User_ServiceListUsers = ListUsers 100 0"

section \<open>Constraints and evolution\<close>

lemmas user_statements = query_user_def GetUser_def GetUserForUpdate_def User_GetUserByEmail_def User_CreateUser_def User_UpdateUser_def
  ListUsers_def UpdateAdminState_def RevokeActiveRefreshTokens_def RecordAdminUserStateChange_def some_rows_def
  User_RequireCurrentAdmin_def admin_reads User_ServiceUpdateUser_def Let_def

lemma user_valid [closed_intros]:
  "valid.closed (GetUser i)" "valid.closed (User_CreateUser u)" "valid.closed (User_UpdateUser u)"
  "valid.closed (User_AdminUpdate_body actor target input)" "valid.closed (User_ServiceUpdateUser i f l now)"
  unfolding User_AdminUpdate_body_def user_statements by (intro closed_intros)+

lemma user_evolves [closed_intros]:
  "evolution.closed (GetUser i)" "evolution.closed (User_CreateUser u)" "evolution.closed (User_UpdateUser u)"
  "evolution.closed (User_AdminUpdate_body actor target input)" "evolution.closed (User_ServiceUpdateUser i f l now)"
  unfolding User_AdminUpdate_body_def user_statements by (intro closed_intros; simp add: user_next_def)+

lemma User_RequireCurrentAdmin_ok:
  "User_RequireCurrentAdmin uid s = Inr (x, t) \<Longrightarrow> t = s \<and> is_current_admin s uid"
  by (auto simp: User_RequireCurrentAdmin_def RequireCurrentAdminForMutation_def tx_inv tx_catch_ok dest: RequireCurrentAdmin_ok)

lemma query_user_ok:
  "query_user P s = Inr (u, t) \<Longrightarrow> \<exists>r\<in>set (users s). P r \<and> u_deleted r = None \<and> u = user_of_row r \<and> t = s"
  by (auto simp: query_user_def tx_inv dest!: filter_hd)

section \<open>An administrator's update of a user\<close>

definition updated_user :: "AdminUpdateInput \<Rightarrow> time \<Rightarrow> user_row \<Rightarrow> user_row" where
  "updated_user input t u = u\<lparr>u_trust := case_option (u_trust u) id (aui_TrustScore input),
     u_blocked := case_option (u_blocked u) id (aui_IsBlocked input), u_role := case_option (u_role u) id (aui_Role input), u_updated := t\<rparr>"

lemma admin_update_body:
  assumes keys: "distinct (map u_id (users s))" and run: "User_AdminUpdate_body actor target input s = Inr (x, t)"
  shows "is_current_admin s actor \<and> actor \<noteq> target \<and>
     (\<exists>r\<in>set (users s). u_id r = target \<and> u_deleted r = None \<and>
        users t = set_row u_id (updated_user input (clock s) r) (users s) \<and> accounts t = accounts s \<and> rentals t = rentals s \<and>
        payments t = payments s \<and> ledger t = ledger s \<and> holds t = holds s \<and> refunds t = refunds s \<and> events t = events s \<and>
        (let changed = u_role (updated_user input (clock s) r) \<noteq> u_role r \<or> u_blocked (updated_user input (clock s) r) \<noteq> u_blocked r
         in tokens t = (if changed then upd (\<lambda>k. t_user k = target \<and> t_revoked k = None) (\<lambda>k. k\<lparr>t_revoked := Some (clock s)\<rparr>) (tokens s) else tokens s) \<and>
           (if changed then \<exists>g. audits t = audits s @ [g] \<and> g_actor g = Some actor \<and> g_entity_id g = target \<and> g_action g = ''USER_SECURITY_STATE_UPDATED''
            else audits t = audits s)))"
proof -
  obtain current s0 s1 where admin: "is_current_admin s actor" and other: "actor \<noteq> target"
    and get: "GetUserForUpdate target s = Inr (current, s0)"
    and state: "UpdateAdminState target (aui_TrustScore input) (aui_IsBlocked input) (aui_Role input) s0 = Inr ((), s1)"
    and rest: "(let newRole = case_option (usr_Role current) id (aui_Role input);
         newBlocked = case_option (usr_IsBlocked current) id (aui_IsBlocked input)
     in if newRole \<noteq> usr_Role current \<or> newBlocked \<noteq> usr_IsBlocked current
        then tx_seq (RevokeActiveRefreshTokens target)
               (RecordAdminUserStateChange actor target (usr_Role current) (usr_IsBlocked current) newRole newBlocked)
        else tx_return ()) s1 = Inr (x, t)"
    using run unfolding User_AdminUpdate_body_def
    by (auto simp: tx_seq_ok tx_bind_ok fail_if_ok dest!: User_RequireCurrentAdmin_ok)
  obtain r where r: "r \<in> set (users s)" "u_id r = target" "u_deleted r = None" "current = user_of_row r" "s0 = s"
    using query_user_ok [OF get [unfolded GetUserForUpdate_def]] by blast
  let ?P = "\<lambda>u. u_id u = target \<and> u_deleted u = None"
  have "s1 = s\<lparr>users := upd ?P (updated_user input (clock s)) (users s)\<rparr>"
    using state r(5) by (auto simp: UpdateAdminState_def tx_inv updated_user_def [abs_def])
  moreover have "upd ?P (updated_user input (clock s)) (users s) = set_row u_id (updated_user input (clock s) r) (users s)"
    by (rule upd_set_row [OF keys r(1)]) (use r in \<open>auto simp: updated_user_def\<close>)
  ultimately have s1: "s1 = s\<lparr>users := set_row u_id (updated_user input (clock s) r) (users s)\<rparr>" by simp
  have fields: "usr_Role current = u_role r" "usr_IsBlocked current = u_blocked r" by (simp_all add: r(4) user_of_row_def)
  show ?thesis
  proof (cases "u_role (updated_user input (clock s) r) \<noteq> u_role r \<or> u_blocked (updated_user input (clock s) r) \<noteq> u_blocked r")
    case True
    then have "tx_seq (RevokeActiveRefreshTokens target)
        (RecordAdminUserStateChange actor target (u_role r) (u_blocked r) (case_option (u_role r) id (aui_Role input)) (case_option (u_blocked r) id (aui_IsBlocked input)))
        s1 = Inr (x, t)"
      using rest unfolding Let_def fields by (auto simp: updated_user_def)
    then obtain g where "t = (bump Audits (s1\<lparr>tokens := upd (\<lambda>k. t_user k = target \<and> t_revoked k = None) (\<lambda>k. k\<lparr>t_revoked := Some (clock s1)\<rparr>) (tokens s1)\<rparr>))\<lparr>audits := audits s1 @ [g]\<rparr>"
      "g_actor g = Some actor" "g_entity_id g = target" "g_action g = ''USER_SECURITY_STATE_UPDATED''"
      by (auto simp: RevokeActiveRefreshTokens_def RecordAdminUserStateChange_def tx_seq_ok tx_bind_ok tx_inv)
    then show ?thesis using admin other r True by (intro conjI bexI [of _ r]) (simp_all add: s1)
  next
    case False
    then have "t = s1" using rest unfolding Let_def fields by (auto simp: updated_user_def tx_return_ok)
    then show ?thesis using admin other r False by (intro conjI bexI [of _ r]) (simp_all add: s1)
  qed
qed

text \<open>
  An administrator's update of a user that succeeds was made by a current
  administrator on another, existing user. The given trust score, blocking and role
  are stored and the other columns of the user kept. When the role or the blocking
  changes, every refresh token of the user is revoked and one audit record names the
  administrator; otherwise no token and no audit record changes.
\<close>

theorem admin_user_update_effect:
  assumes valid: "valid_db s" and run: "User_AdminUpdateUser actor target input s = (Inr x, t)"
  shows "is_current_admin s actor \<and> actor \<noteq> target \<and>
     (\<exists>r\<in>set (users s). u_id r = target \<and> u_deleted r = None \<and> users t = set_row u_id (updated_user input (clock s) r) (users s) \<and>
       (if u_role (updated_user input (clock s) r) \<noteq> u_role r \<or> u_blocked (updated_user input (clock s) r) \<noteq> u_blocked r
        then (\<forall>k\<in>set (tokens t). t_user k = target \<longrightarrow> t_revoked k \<noteq> None) \<and>
          (\<exists>g. audits t = audits s @ [g] \<and> g_actor g = Some actor \<and> g_entity_id g = target)
        else tokens t = tokens s \<and> audits t = audits s))"
proof -
  have keys: "distinct (map u_id (users s))" by (rule valid_db_keys(1) [OF valid])
  have body: "User_AdminUpdate_body actor target input s = Inr (x, t)" using run by (simp add: User_AdminUpdateUser_def tx_inv)
  have revoked: "\<forall>k\<in>set (upd (\<lambda>k. t_user k = target \<and> t_revoked k = None) (\<lambda>k. k\<lparr>t_revoked := Some c\<rparr>) ks). t_user k = target \<longrightarrow> t_revoked k \<noteq> None" for c ks
    by (induction ks) auto
  obtain r where r: "r \<in> set (users s)" "u_id r = target" "u_deleted r = None" "users t = set_row u_id (updated_user input (clock s) r) (users s)"
    and trail: "let changed = u_role (updated_user input (clock s) r) \<noteq> u_role r \<or> u_blocked (updated_user input (clock s) r) \<noteq> u_blocked r
         in tokens t = (if changed then upd (\<lambda>k. t_user k = target \<and> t_revoked k = None) (\<lambda>k. k\<lparr>t_revoked := Some (clock s)\<rparr>) (tokens s) else tokens s) \<and>
           (if changed then \<exists>g. audits t = audits s @ [g] \<and> g_actor g = Some actor \<and> g_entity_id g = target \<and> g_action g = ''USER_SECURITY_STATE_UPDATED''
            else audits t = audits s)"
    using admin_update_body [OF keys body] by blast
  have "if u_role (updated_user input (clock s) r) \<noteq> u_role r \<or> u_blocked (updated_user input (clock s) r) \<noteq> u_blocked r
        then (\<forall>k\<in>set (tokens t). t_user k = target \<longrightarrow> t_revoked k \<noteq> None) \<and>
          (\<exists>g. audits t = audits s @ [g] \<and> g_actor g = Some actor \<and> g_entity_id g = target)
        else tokens t = tokens s \<and> audits t = audits s"
  proof (cases "u_role (updated_user input (clock s) r) \<noteq> u_role r \<or> u_blocked (updated_user input (clock s) r) \<noteq> u_blocked r")
    case True
    then have "tokens t = upd (\<lambda>k. t_user k = target \<and> t_revoked k = None) (\<lambda>k. k\<lparr>t_revoked := Some (clock s)\<rparr>) (tokens s)"
      "\<exists>g. audits t = audits s @ [g] \<and> g_actor g = Some actor \<and> g_entity_id g = target"
      using trail by (simp_all add: Let_def) blast+
    then show ?thesis using True revoked by simp
  qed (use trail in \<open>simp add: Let_def\<close>)
  then show ?thesis using admin_update_body [OF keys body] r by blast
qed

text \<open>A sequence of attempts to update users, successful or not.\<close>

definition admin_updates :: "(int \<times> int \<times> AdminUpdateInput) list \<Rightarrow> db \<Rightarrow> db" where
  "admin_updates us s = fold (\<lambda>(actor, target, input) s. snd (User_AdminUpdateUser actor target input s)) us s"

lemma admin_update_keeps_actor:
  assumes "distinct (map u_id (users s))" "User_AdminUpdateUser actor target input s = (Inr x, t)"
  shows "is_current_admin t actor"
proof -
  obtain r where "is_current_admin s actor" "actor \<noteq> target" "u_id r = target"
      "users t = set_row u_id (updated_user input (clock s) r) (users s)"
    using admin_update_body [OF assms(1)] assms(2) by (fastforce simp: User_AdminUpdateUser_def tx_inv)
  then show ?thesis by (fastforce simp: is_current_admin_def set_row_def updated_user_def)
qed

text \<open>
  C30: The platform does not lose its last administrator by way of user updates: an
  update never changes its own actor, so after any sequence of attempted updates, by
  anyone and with any input, there is a current administrator if there was one before.
\<close>

theorem admins_never_vanish:
  assumes "valid_db s" "\<exists>a. is_current_admin s a"
  shows "valid_db (admin_updates us s) \<and> (\<exists>a. is_current_admin (admin_updates us s) a)"
  using assms
proof (induction us arbitrary: s)
  case Nil
  then show ?case by (simp add: admin_updates_def)
next
  case (Cons u us)
  obtain actor target input where u: "u = (actor, target, input)" by (cases u) auto
  let ?t = "snd (User_AdminUpdateUser actor target input s)"
  have "valid_db ?t"
    using valid.within_closed [OF user_valid(4)] Cons.prems(1) by (simp add: User_AdminUpdateUser_def keeps_valid_def)
  moreover have "\<exists>a. is_current_admin ?t a"
  proof (rule WithinTransaction_cases [of "User_AdminUpdate_body actor target input" s])
    fix x t
    assume "WithinTransaction (User_AdminUpdate_body actor target input) s = (Inr x, t)"
    then show ?thesis
      using admin_update_keeps_actor [OF valid_db_keys(1) [OF Cons.prems(1)]] by (fastforce simp: User_AdminUpdateUser_def)
  next
    fix e
    assume "WithinTransaction (User_AdminUpdate_body actor target input) s = (Inl e, s)"
    then show ?thesis using Cons.prems(2) by (simp add: User_AdminUpdateUser_def)
  qed
  ultimately show ?case using Cons.IH [of ?t] by (simp add: u admin_updates_def)
qed

text \<open>
  A change of a trust score leaves it between 0 and 1000; without an overflow of
  the sum it is the sum, cut at these ends.
\<close>

theorem trust_score_bounds:
  "usr_TrustScore (ModifyTrustScore delta now u) \<in> {0..1000} \<and>
   (is_i64 (usr_TrustScore u + delta) \<longrightarrow> usr_TrustScore (ModifyTrustScore delta now u) = max 0 (min 1000 (usr_TrustScore u + delta)))"
  by (auto simp: ModifyTrustScore_def Let_def)

section \<open>Witnesses\<close>

definition token3 :: token_row where
  "token3 = \<lparr>t_id = 3, t_user = 2, t_hash = ''h'', t_expires = 30 * 24 * Hour, t_revoked = None, t_created = 0\<rparr>"

definition session_db :: db where "session_db = waiting_db\<lparr>tokens := [token3]\<rparr>"

definition block_input :: AdminUpdateInput where
  "block_input = \<lparr>aui_TrustScore = None, aui_IsBlocked = Some True, aui_Role = None\<rparr>"

lemma session_db_valid: "valid_db session_db"
  by code_simp

lemma admin_user_update_effect_witness:
  "\<exists>t. User_AdminUpdateUser 1 2 block_input session_db = (Inr (), t) \<and> is_current_admin session_db 1 \<and>
     (\<exists>r\<in>set (users session_db). u_id r = 2 \<and> users t = set_row u_id (updated_user block_input (clock session_db) r) (users session_db))"
proof -
  have "ok_with (\<lambda>_. True) (User_AdminUpdateUser 1 2 block_input session_db)" by code_simp
  then obtain t where run: "User_AdminUpdateUser 1 2 block_input session_db = (Inr (), t)" by (auto dest: ok_withD)
  show ?thesis using admin_user_update_effect [OF session_db_valid run] run by blast
qed

lemma admins_never_vanish_witness:
  "\<exists>a. is_current_admin (admin_updates [(1, 2, block_input), (2, 1, block_input)] session_db) a"
proof -
  have "is_current_admin session_db 1" by code_simp
  then show ?thesis using admins_never_vanish [OF session_db_valid] by blast
qed

lemma trust_score_bounds_witness:
  "usr_TrustScore (ModifyTrustScore 900 0 (user_of_row customer_row)) = 1000"
  using trust_score_bounds [of 900 0 "user_of_row customer_row"] by (simp add: user_of_row_def customer_row_def is_i64_def)

end
