(* ===== verification/Rental_Entity.thy ===== *)
theory Rental_Entity
  imports Errors
begin

text \<open>
  The rental aggregate of src/internal/rental/entity.go: money with a currency, the
  rental period, and the state machine of a rental (\<open>rental_step\<close> is one method
  call). The status codes are those of the \<open>RentalStatus\<close> constants, which are
  also stored in the database.
\<close>

section \<open>Status\<close>

abbreviation (input) Rental_Created :: int where "Rental_Created \<equiv> 0"
abbreviation (input) Rental_WaitingPayment :: int where "Rental_WaitingPayment \<equiv> 1"
abbreviation (input) Rental_Active :: int where "Rental_Active \<equiv> 2"
abbreviation (input) Rental_Expired :: int where "Rental_Expired \<equiv> 3"
abbreviation (input) Rental_Completed :: int where "Rental_Completed \<equiv> 4"
abbreviation (input) Rental_Cancelled :: int where "Rental_Cancelled \<equiv> 5"

definition RentalStatus_String :: "int \<Rightarrow> string" where
  "RentalStatus_String s =
     (if s = Rental_Created then ''Created''
      else if s = Rental_WaitingPayment then ''WaitingPayment''
      else if s = Rental_Active then ''Active''
      else if s = Rental_Expired then ''Expired''
      else if s = Rental_Completed then ''Completed''
      else if s = Rental_Cancelled then ''Cancelled''
      else ''Unknown'')"

section \<open>Money\<close>

record Money =
  Amount :: int
  Currency :: string

definition NewMoney :: "int \<Rightarrow> string \<Rightarrow> err + Money" where
  "NewMoney amount currency =
     (let c = to_upper (trim_space currency)
      in if c \<noteq> ''USD'' \<and> c \<noteq> ''EUR'' \<and> c \<noteq> ''RUB'' \<and> c \<noteq> ''TJS'' then Inl (RentalErr ErrUnsupportedCurrency)
         else Inr \<lparr>Amount = amount, Currency = c\<rparr>)"

definition Money_Add :: "Money \<Rightarrow> Money \<Rightarrow> err + Money" where
  "Money_Add m n =
     (if Currency m \<noteq> Currency n then Inl (ErrText ''currency mismatch'')
      else Inr \<lparr>Amount = i64 (Amount m + Amount n), Currency = Currency m\<rparr>)"

definition Money_Sub :: "Money \<Rightarrow> Money \<Rightarrow> err + Money" where
  "Money_Sub m n =
     (if Currency m \<noteq> Currency n then Inl (ErrText ''currency mismatch'')
      else Inr \<lparr>Amount = i64 (Amount m - Amount n), Currency = Currency m\<rparr>)"

section \<open>Period\<close>

record RentalPeriod =
  StartAt :: time
  EndAt :: time

definition Period_Duration :: "RentalPeriod \<Rightarrow> duration" where
  "Period_Duration p = time_sub (EndAt p) (StartAt p)"

definition Period_Validate :: "RentalPeriod \<Rightarrow> err option" where
  "Period_Validate p =
     (if \<not> StartAt p < EndAt p then Some (RentalErr ErrInvalidPeriod)
      else if Period_Duration p < Hour then Some (RentalErr ErrPeriodTooShort)
      else if 30 * 24 * Hour < Period_Duration p then Some (RentalErr ErrPeriodTooLong)
      else None)"

definition NewRentalPeriod :: "time \<Rightarrow> time \<Rightarrow> err + RentalPeriod" where
  "NewRentalPeriod start finish =
     (let p = \<lparr>StartAt = start, EndAt = finish\<rparr>
      in case Period_Validate p of Some e \<Rightarrow> Inl e | None \<Rightarrow> Inr p)"

definition Period_IsExpired :: "RentalPeriod \<Rightarrow> time \<Rightarrow> bool" where
  "Period_IsExpired p now \<longleftrightarrow> \<not> now < EndAt p"

definition Period_RemainingTime :: "RentalPeriod \<Rightarrow> time \<Rightarrow> duration" where
  "Period_RemainingTime p now = (if Period_IsExpired p now then 0 else time_sub (EndAt p) now)"

section \<open>Rental\<close>

record Rental =
  ID :: int
  UserID :: int
  AccountID :: int
  Status :: int
  Period :: RentalPeriod
  RentalPrice :: Money
  DepositAmount :: Money
  ActualFinishedAt :: "time option"
  DepositReviewDeadlineAt :: "time option"
  CompletedAt :: "time option"
  CancellationReason :: "string option"
  CreatedAt :: time
  UpdatedAt :: time

definition NewRental :: "int \<Rightarrow> int \<Rightarrow> RentalPeriod \<Rightarrow> Money \<Rightarrow> Money \<Rightarrow> time \<Rightarrow> err + Rental" where
  "NewRental userID accountID period price deposit now =
     (if userID \<le> 0 then Inl (RentalErr ErrInvalidUserID)
      else if accountID \<le> 0 then Inl (RentalErr ErrInvalidAccountID)
      else if Amount price \<le> 0 then Inl (RentalErr ErrInvalidPrice)
      else if Amount deposit < 0 then Inl (RentalErr ErrInvalidDeposit)
      else if Currency price \<noteq> Currency deposit
        then Inl (ErrText ''rental price and deposit currency must match'')
      else Inr \<lparr>ID = 0, UserID = userID, AccountID = accountID, Status = Rental_Created, Period = period,
                RentalPrice = price, DepositAmount = deposit, ActualFinishedAt = None,
                DepositReviewDeadlineAt = None, CompletedAt = None, CancellationReason = None,
                CreatedAt = now, UpdatedAt = now\<rparr>)"

definition PrepareForPayment :: "time \<Rightarrow> Rental \<Rightarrow> err + Rental" where
  "PrepareForPayment now r =
     (if Status r \<noteq> Rental_Created then Inl (RentalErr ErrInvalidTransition)
      else Inr (r\<lparr>Status := Rental_WaitingPayment, UpdatedAt := now\<rparr>))"

definition Activate :: "time \<Rightarrow> Rental \<Rightarrow> err + Rental" where
  "Activate now r =
     (if Status r \<noteq> Rental_WaitingPayment then Inl (RentalErr ErrInvalidTransition)
      else Inr (r\<lparr>Status := Rental_Active, UpdatedAt := now\<rparr>))"

definition Expire :: "time \<Rightarrow> Rental \<Rightarrow> err + Rental" where
  "Expire now r =
     (if Status r \<noteq> Rental_Active then Inl (RentalErr ErrInvalidTransition)
      else if now < EndAt (Period r) then Inl (RentalErr ErrInvalidTransition)
      else Inr (r\<lparr>Status := Rental_Expired, ActualFinishedAt := Some (EndAt (Period r)), UpdatedAt := now\<rparr>))"

definition Complete :: "time \<Rightarrow> Rental \<Rightarrow> err + Rental" where
  "Complete now r =
     (if Status r \<noteq> Rental_Expired then Inl (RentalErr ErrInvalidTransition)
      else Inr (r\<lparr>Status := Rental_Completed, CompletedAt := Some now, UpdatedAt := now\<rparr>))"

definition Cancel :: "string \<Rightarrow> time \<Rightarrow> Rental \<Rightarrow> err + Rental" where
  "Cancel reason now r =
     (if Status r \<noteq> Rental_WaitingPayment then Inl (RentalErr ErrCannotCancel)
      else Inr (r\<lparr>Status := Rental_Cancelled, CancellationReason := Some (trim_space reason),
                 ActualFinishedAt := Some now, UpdatedAt := now\<rparr>))"

section \<open>The state machine\<close>

inductive rental_step :: "Rental \<Rightarrow> Rental \<Rightarrow> bool" where
  prepare: "PrepareForPayment now r = Inr r' \<Longrightarrow> rental_step r r'"
| activate: "Activate now r = Inr r' \<Longrightarrow> rental_step r r'"
| expire: "Expire now r = Inr r' \<Longrightarrow> rental_step r r'"
| complete: "Complete now r = Inr r' \<Longrightarrow> rental_step r r'"
| cancel: "Cancel reason now r = Inr r' \<Longrightarrow> rental_step r r'"

inductive rental_reachable :: "Rental \<Rightarrow> bool" where
  create: "NewRentalPeriod start finish = Inr period \<Longrightarrow>
     NewRental userID accountID period price deposit now = Inr r \<Longrightarrow> rental_reachable r"
| call: "rental_reachable r \<Longrightarrow> rental_step r r' \<Longrightarrow> rental_reachable r'"

inductive_cases rental_stepE: "rental_step r r'"

lemmas rental_methods = PrepareForPayment_def Activate_def Expire_def Complete_def Cancel_def

text \<open>What every rental that the methods can produce satisfies.\<close>

definition rental_ok :: "Rental \<Rightarrow> bool" where
  "rental_ok r \<longleftrightarrow>
     0 < UserID r \<and> 0 < AccountID r \<and> 0 < Amount (RentalPrice r) \<and> 0 \<le> Amount (DepositAmount r) \<and>
     Currency (RentalPrice r) = Currency (DepositAmount r) \<and>
     StartAt (Period r) + Hour \<le> EndAt (Period r) \<and> EndAt (Period r) \<le> StartAt (Period r) + 720 * Hour \<and>
     Status r \<in> {0..5} \<and>
     (ActualFinishedAt r = None \<longleftrightarrow> Status r \<in> {Rental_Created, Rental_WaitingPayment, Rental_Active}) \<and>
     (Status r \<in> {Rental_Expired, Rental_Completed} \<longrightarrow> ActualFinishedAt r = Some (EndAt (Period r))) \<and>
     (CompletedAt r \<noteq> None \<longleftrightarrow> Status r = Rental_Completed) \<and>
     (CancellationReason r \<noteq> None \<longleftrightarrow> Status r = Rental_Cancelled)"

lemma NewRentalPeriod_ok:
  "NewRentalPeriod start finish = Inr p \<longleftrightarrow>
     p = \<lparr>StartAt = start, EndAt = finish\<rparr> \<and> start + Hour \<le> finish \<and> finish \<le> start + 720 * Hour"
  by (auto simp: NewRentalPeriod_def Period_Validate_def Period_Duration_def time_sub_def Let_def split: if_splits)

lemma rental_step_ok: "rental_step r r' \<Longrightarrow> rental_ok r \<Longrightarrow> rental_ok r'"
  by (erule rental_stepE) (auto simp: rental_methods rental_ok_def split: if_splits)

lemma rental_reachable_ok: "rental_reachable r \<Longrightarrow> rental_ok r"
proof (induction rule: rental_reachable.induct)
  case (create start finish period userID accountID price deposit now r)
  then show ?case
    by (auto simp: NewRentalPeriod_ok NewRental_def rental_ok_def split: if_splits)
qed (rule rental_step_ok)

text \<open>The states only move forward, and the two final ones admit no method.\<close>

definition status_rank :: "int \<Rightarrow> nat" where
  "status_rank s = (if s = Rental_Cancelled then 4 else nat s)"

lemma rental_step_forward: "rental_step r r' \<Longrightarrow> 0 \<le> Status r \<Longrightarrow> status_rank (Status r) < status_rank (Status r')"
  by (erule rental_stepE) (auto simp: rental_methods status_rank_def split: if_splits)

lemma rental_final: "Status r \<in> {Rental_Completed, Rental_Cancelled} \<Longrightarrow> \<not> rental_step r r'"
  by (auto simp: rental_methods elim!: rental_stepE split: if_splits)

section \<open>Properties\<close>

text \<open>
  C28: Every rental that the aggregate can be brought to, by any sequence of calls of its
  methods from its creation, is well formed: it has a customer, an account, a positive
  price and a deposit in one currency, a period of 1 to 720 hours, a status of the life
  cycle, and exactly the timestamps and the reason that belong to its status.
\<close>

theorem rental_invariant:
  assumes "rental_reachable r"
  shows "0 < UserID r \<and> 0 < AccountID r \<and> 0 < Amount (RentalPrice r) \<and> 0 \<le> Amount (DepositAmount r) \<and>
     Currency (RentalPrice r) = Currency (DepositAmount r) \<and>
     StartAt (Period r) + Hour \<le> EndAt (Period r) \<and> EndAt (Period r) \<le> StartAt (Period r) + 720 * Hour \<and>
     Status r \<in> {0..5} \<and>
     (ActualFinishedAt r = None \<longleftrightarrow> Status r \<in> {Rental_Created, Rental_WaitingPayment, Rental_Active}) \<and>
     (Status r \<in> {Rental_Expired, Rental_Completed} \<longrightarrow> ActualFinishedAt r = Some (EndAt (Period r))) \<and>
     (CompletedAt r \<noteq> None \<longleftrightarrow> Status r = Rental_Completed) \<and>
     (CancellationReason r \<noteq> None \<longleftrightarrow> Status r = Rental_Cancelled)"
  using rental_reachable_ok [OF assms] unfolding rental_ok_def .

lemma rental_steps_rank:
  "(rental_step ^^ n) r r' \<Longrightarrow> rental_ok r \<Longrightarrow> rental_ok r' \<and> status_rank (Status r) + n \<le> status_rank (Status r')"
proof (induction n arbitrary: r')
  case (Suc n)
  then obtain r1 where r1: "(rental_step ^^ n) r r1" "rental_step r1 r'" by auto
  then have "rental_ok r1" "status_rank (Status r) + n \<le> status_rank (Status r1)" using Suc by simp_all
  moreover have "status_rank (Status r1) < status_rank (Status r')"
    using rental_step_forward [OF r1(2)] calculation(1) by (simp add: rental_ok_def)
  ultimately show ?case using rental_step_ok [OF r1(2)] by simp
qed simp

lemma status_rank_bound: "rental_ok r \<Longrightarrow> status_rank (Status r) \<le> 4"
  by (auto simp: rental_ok_def status_rank_def)

text \<open>
  C29: The life of a rental ends: from any rental that the aggregate can be brought to, at
  most four method calls succeed one after the other, and a completed or cancelled
  rental admits no call at all.
\<close>

theorem rental_life_ends:
  assumes "rental_reachable r" "(rental_step ^^ n) r r'"
  shows "n \<le> 4 \<and> (Status r \<in> {Rental_Completed, Rental_Cancelled} \<longrightarrow> n = 0)"
proof
  show "n \<le> 4"
    using rental_steps_rank [OF assms(2) rental_reachable_ok [OF assms(1)]] status_rank_bound [of r'] by linarith
  show "Status r \<in> {Rental_Completed, Rental_Cancelled} \<longrightarrow> n = 0"
  proof
    assume final: "Status r \<in> {Rental_Completed, Rental_Cancelled}"
    show "n = 0"
    proof (rule ccontr)
      assume "n \<noteq> 0"
      then obtain m where "n = Suc m" by (cases n) auto
      then obtain r1 where "rental_step r r1" using assms(2) by (blast dest: relpowp_Suc_D2)
      then show False using rental_final [OF final] by blast
    qed
  qed
qed

definition sample_rental :: Rental where
  "sample_rental = \<lparr>ID = 0, UserID = 2, AccountID = 5, Status = 0, Period = \<lparr>StartAt = 0, EndAt = 3 * Hour\<rparr>,
     RentalPrice = \<lparr>Amount = 30, Currency = ''USD''\<rparr>, DepositAmount = \<lparr>Amount = 0, Currency = ''USD''\<rparr>, ActualFinishedAt = None,
     DepositReviewDeadlineAt = None, CompletedAt = None, CancellationReason = None, CreatedAt = 0, UpdatedAt = 0\<rparr>"

lemma sample_rental_reachable: "rental_reachable sample_rental"
proof (rule rental_reachable.create)
  show "NewRentalPeriod 0 (3 * Hour) = Inr \<lparr>StartAt = 0, EndAt = 3 * Hour\<rparr>" by (simp add: NewRentalPeriod_ok)
  show "NewRental 2 5 \<lparr>StartAt = 0, EndAt = 3 * Hour\<rparr> \<lparr>Amount = 30, Currency = ''USD''\<rparr> \<lparr>Amount = 0, Currency = ''USD''\<rparr> 0 = Inr sample_rental"
    by (simp add: NewRental_def sample_rental_def)
qed

lemma rental_invariant_witness: "0 < Amount (RentalPrice sample_rental)"
  using rental_invariant [OF sample_rental_reachable] by blast

lemma rental_life_ends_witness:
  "\<exists>r n. rental_reachable sample_rental \<and> (rental_step ^^ n) sample_rental r \<and> n = 1 \<and> n \<le> 4"
proof -
  have "rental_step sample_rental (sample_rental\<lparr>Status := 1, UpdatedAt := 1\<rparr>)"
    by (rule rental_step.prepare [where now = 1]) (simp add: PrepareForPayment_def sample_rental_def)
  then have "(rental_step ^^ 1) sample_rental (sample_rental\<lparr>Status := 1, UpdatedAt := 1\<rparr>)" by (simp add: eq_OO)
  then show ?thesis using rental_life_ends [OF sample_rental_reachable] sample_rental_reachable by blast
qed

end
