(* ===== verification/Rental_Service.thy ===== *)
theory Rental_Service
  imports Accounts Users Rental_Entity Payment_Writes
begin

text \<open>
  The rental service: src/internal/rental/service.go and repository_postgres.go. The
  price of a rental, the statements on rentals (with the one that cancels a waiting
  rental, its payment and the reservation of its account together), and the operations
  of a customer: to request a rental, to cancel it, to read it, and to get the
  credentials of the rented account.
\<close>

section \<open>Pricing\<close>

definition CalculateRentalTotal :: "int \<Rightarrow> int \<Rightarrow> int \<Rightarrow> err + (int \<times> int)" where
  "CalculateRentalTotal hourlyPrice depositAmount hours =
     (if hourlyPrice \<le> 0 \<or> depositAmount < 0 \<or> hours \<le> 0 then Inl (RentalErr ErrInvalidRentalPricing)
      else if quot MaxInt64 hours < hourlyPrice then Inl (RentalErr ErrRentalPriceOverflow)
      else let rentalPrice = i64 (hourlyPrice * hours)
           in if i64 (MaxInt64 - depositAmount) < rentalPrice then Inl (RentalErr ErrRentalPriceOverflow)
              else Inr (rentalPrice, i64 (rentalPrice + depositAmount)))"

text \<open>
  \<open>int64(duration.Hours())\<close>. \<open>Hours\<close> is the sum of the whole hours and the fraction
  of an hour as a \<open>float64\<close>; below 2048 hours its rounding error is smaller than the
  distance from the next whole hour, so the conversion gives the whole hours. A longer
  duration is refused by the check of the period, whatever price it has.
\<close>

definition whole_hours :: "duration \<Rightarrow> int" where
  "whole_hours d = quot d Hour"

section \<open>The repository\<close>

definition rental_insert_row :: "Rental \<Rightarrow> time \<Rightarrow> rental_row" where
  "rental_insert_row rental t =
     \<lparr>r_id = ID rental, r_user = UserID rental, r_account = AccountID rental, r_status = Status rental,
      r_start = pg_ts (StartAt (Period rental)), r_end = pg_ts (EndAt (Period rental)), r_price = Amount (RentalPrice rental),
      r_deposit = Amount (DepositAmount rental), r_finished = None, r_reason = None, r_created = t, r_updated = t,
      r_payment_expires = t + 15 * Minute, r_review_deadline = None, r_completed = None\<rparr>"

definition CreateRental :: "Rental \<Rightarrow> (db, unit) tx" where
  "CreateRental rental =
     tx_bind db_now (\<lambda>t. insert_row rentals rentals_update rental_schema (rental_insert_row rental t))"

definition GetRental :: "int \<Rightarrow> (db, Rental) tx" where
  "GetRental i =
     tx_bind (no_rows_as (RentalErr ErrRentalNotFound) (query_row (\<lambda>s. filter (\<lambda>r. r_id r = i) (rentals s)))) (\<lambda>r.
     tx_bind (lift_result (NewMoney (r_price r) ''USD'')) (\<lambda>rentalPrice.
     tx_bind (lift_result (NewMoney (r_deposit r) ''USD'')) (\<lambda>depositAmount.
     tx_bind (lift_result (NewRentalPeriod (r_start r) (r_end r))) (\<lambda>period.
     tx_return \<lparr>ID = r_id r, UserID = r_user r, AccountID = r_account r, Status = r_status r, Period = period,
        RentalPrice = rentalPrice, DepositAmount = depositAmount, ActualFinishedAt = r_finished r,
        DepositReviewDeadlineAt = r_review_deadline r, CompletedAt = r_completed r, CancellationReason = None,
        CreatedAt = zero_time, UpdatedAt = zero_time\<rparr>))))"

record CustomerRental =
  cr_ID :: int
  cr_UserID :: int
  cr_AccountID :: int
  cr_Status :: int
  cr_DepositHoldStatus :: int
  cr_RefundStatus :: int
  cr_StartAt :: time
  cr_EndAt :: time
  cr_PaymentExpiresAt :: time
  cr_RentalPrice :: int
  cr_DepositAmount :: int
  cr_RefundTotalAmount :: int
  cr_RefundProcessedAt :: "time option"

text \<open>The newest refund of a rental: the order is by creation time and then by id, descending.\<close>

definition latest_refund :: "db \<Rightarrow> rental_row \<Rightarrow> refund_row option" where
  "latest_refund s r =
     (case sort_key (\<lambda>f. - f_created f) (sort_key (\<lambda>f. - f_id f)
        (filter (\<lambda>f. f_rental f = r_id r \<and> f_user f = r_user r) (refunds s))) of
        [] \<Rightarrow> None | f # _ \<Rightarrow> Some f)"

definition customer_rental :: "db \<Rightarrow> rental_row \<Rightarrow> CustomerRental" where
  "customer_rental s r =
     (let d = (case filter (\<lambda>d. d_rental d = r_id r) (holds s) of [] \<Rightarrow> None | d # _ \<Rightarrow> Some d); rf = latest_refund s r
      in \<lparr>cr_ID = r_id r, cr_UserID = r_user r, cr_AccountID = r_account r, cr_Status = r_status r,
          cr_DepositHoldStatus = case_option 0 d_status d, cr_RefundStatus = case_option 0 f_status rf,
          cr_StartAt = r_start r, cr_EndAt = r_end r, cr_PaymentExpiresAt = r_payment_expires r, cr_RentalPrice = r_price r,
          cr_DepositAmount = r_deposit r, cr_RefundTotalAmount = case_option 0 f_total rf,
          cr_RefundProcessedAt = (case rf of None \<Rightarrow> None | Some f \<Rightarrow> f_processed f)\<rparr>)"

definition Repo_ListCustomerRentals :: "int \<Rightarrow> (db, CustomerRental list) tx" where
  "Repo_ListCustomerRentals userID = tx_read (\<lambda>s.
     map (customer_rental s) (sort_key (\<lambda>r. - r_created r) (filter (\<lambda>r. r_user r = userID) (rentals s))))"

definition Repo_GetCustomerRental :: "int \<Rightarrow> (db, CustomerRental) tx" where
  "Repo_GetCustomerRental rentalID =
     no_rows_as (RentalErr ErrRentalNotFound) (query_row (\<lambda>s. map (customer_rental s) (filter (\<lambda>r. r_id r = rentalID) (rentals s))))"

record RentalQuote =
  rq_HourlyPrice :: int
  rq_DepositAmount :: int

definition GetRentalQuote :: "int \<Rightarrow> (db, RentalQuote) tx" where
  "GetRentalQuote accountID =
     no_rows_as (RentalErr ErrRentalNotFound) (query_row (\<lambda>s.
       map (\<lambda>a. \<lparr>rq_HourlyPrice = a_hourly_price a, rq_DepositAmount = a_deposit a\<rparr>)
         (filter (\<lambda>a. a_id a = accountID \<and> a_deleted a = None) (accounts s))))"

record RentalCredentialsRecord =
  rcr_RentalID :: int
  rcr_UserID :: int
  rcr_AccountID :: int
  rcr_RentalStatus :: int
  rcr_AccountStatus :: int
  rcr_PaymentExpiresAt :: time
  rcr_PaymentID :: int
  rcr_Login :: string
  rcr_EncryptedPassword :: string
  rcr_SteamID64 :: string

definition credentials_record :: "rental_row \<Rightarrow> account_row \<Rightarrow> payment_row \<Rightarrow> RentalCredentialsRecord" where
  "credentials_record r a p =
     \<lparr>rcr_RentalID = r_id r, rcr_UserID = r_user r, rcr_AccountID = r_account r, rcr_RentalStatus = r_status r,
      rcr_AccountStatus = a_status a, rcr_PaymentExpiresAt = r_payment_expires r, rcr_PaymentID = p_id p,
      rcr_Login = a_login a, rcr_EncryptedPassword = a_password a, rcr_SteamID64 = a_steam_id64 a\<rparr>"

definition Repo_GetRentalCredentials :: "int \<Rightarrow> int \<Rightarrow> time \<Rightarrow> (db, RentalCredentialsRecord) tx" where
  "Repo_GetRentalCredentials rentalID userID now =
     no_rows_as (RentalErr ErrRentalNotFound) (query_row (\<lambda>s.
       [credentials_record r a p.
          r \<leftarrow> rentals s, r_id r = rentalID \<and> r_user r = userID \<and> r_status r = Rental_Active \<and>
            r_start r \<le> pg_ts now \<and> pg_ts now < r_end r \<and>
            \<not> list_ex (\<lambda>f. f_rental f = r_id r \<and> f_user f = r_user r \<and> f_status f \<in> {1, 2}) (refunds s),
          a \<leftarrow> accounts s, a_id a = r_account r \<and> a_status a = Account_Rented,
          p \<leftarrow> payments s, p_rental p = r_id r \<and> p_user p = r_user r \<and> p_status p = 2]))"

definition RecordCredentialIssued :: "(string \<Rightarrow> bool) \<Rightarrow> int \<Rightarrow> int \<Rightarrow> int \<Rightarrow> string \<Rightarrow> string \<Rightarrow> time \<Rightarrow> (db, unit) tx" where
  "RecordCredentialIssued inet userID accountID rentalID ipAddress userAgent createdAt =
     insert_event inet (Some userID) (Some accountID) (Some rentalID) 7
       (if ipAddress = [] then None else Some ipAddress) (Some userAgent)
       [(''event'', JStr ''rental_credentials_issued''), (''rental_id'', JInt rentalID), (''user_id'', JInt userID)]
       (Some (pg_ts createdAt))"

section \<open>Cancellation\<close>

text \<open>
  The statement of the cancellation: every part of a \<open>WITH\<close> reads the state before the
  statement, so the locked rows and the test for an active rental are taken first. The
  result is the numbers of locked rows, of freed accounts and of inserted events.
\<close>

definition cancel_locked :: "int \<Rightarrow> int \<Rightarrow> db \<Rightarrow> (rental_row \<times> payment_row) list" where
  "cancel_locked rentalID userID s =
     [(r, p). r \<leftarrow> rentals s, r_id r = rentalID \<and> r_user r = userID \<and> r_status r = Rental_WaitingPayment,
        p \<leftarrow> payments s, p_rental p = r_id r \<and> p_user p = r_user r \<and> p_status p = 1,
        a \<leftarrow> accounts s, a_id a = r_account r \<and> a_status a = Account_Reserved]"

definition has_active_rental :: "db \<Rightarrow> int \<Rightarrow> bool" where
  "has_active_rental s accountID = list_ex (\<lambda>r. r_account r = accountID \<and> r_status r = Rental_Active) (rentals s)"

definition cancel_reason :: "string \<Rightarrow> string" where
  "cancel_reason reason = (let reason = trim_space reason in if reason = [] then ''cancelled by user'' else reason)"

definition cancelled_event :: "rental_row \<Rightarrow> payment_row \<Rightarrow> json" where
  "cancelled_event r p =
     [(''event'', JStr ''rental_cancelled''), (''payment_id'', JInt (p_id p)), (''rental_id'', JInt (r_id r)), (''account_id'', JInt (r_account r))]"

definition cancel_statement :: "int \<Rightarrow> int \<Rightarrow> string \<Rightarrow> time \<Rightarrow> (db, nat \<times> nat \<times> nat) tx" where
  "cancel_statement rentalID userID reason now =
     tx_bind (tx_read id) (\<lambda>s.
     let locked = cancel_locked rentalID userID s
     in tx_bind (update_table payments payments_update payment_schema
          (\<lambda>x. list_ex (\<lambda>(r, p). p_id x = p_id p) locked)
          (\<lambda>x. x\<lparr>p_status := 3, p_processed := Some (pg_ts now)\<rparr>)) (\<lambda>paymentUpdated.
        tx_bind (update_table rentals rentals_update rental_schema
          (\<lambda>x. list_ex (\<lambda>(r, p). r_id x = r_id r) locked)
          (\<lambda>x. x\<lparr>r_status := Rental_Cancelled, r_reason := Some reason, r_finished := Some (pg_ts now), r_updated := pg_ts now\<rparr>)) (\<lambda>rentalUpdated.
        tx_bind (update_table accounts accounts_update account_schema
          (\<lambda>x. list_ex (\<lambda>(r, p). a_id x = r_account r \<and> \<not> has_active_rental s (r_account r)) locked)
          (\<lambda>x. x\<lparr>a_status := Account_Available, a_updated := pg_ts now\<rparr>)) (\<lambda>accountUpdated.
        let audited = (if 0 < paymentUpdated \<and> 0 < rentalUpdated \<and> 0 < accountUpdated then locked else [])
        in tx_seq (tx_each (\<lambda>(r, p). insert_event (\<lambda>_. True) (Some (r_user r)) (Some (r_account r)) (Some (r_id r)) 9 None (Some ''api'')
                     (cancelled_event r p) (Some (pg_ts now))) audited)
             (tx_return (length locked, accountUpdated, length audited))))))"

definition CancelWaitingPaymentRental :: "int \<Rightarrow> int \<Rightarrow> string \<Rightarrow> time \<Rightarrow> (db, bool) tx" where
  "CancelWaitingPaymentRental rentalID userID reason now =
     tx_bind (wrapf ''cancel waiting payment rental transition'' (cancel_statement rentalID userID (cancel_reason reason) now))
       (\<lambda>(lockedCount, accountUpdated, auditInserted).
     if 0 < lockedCount
     then tx_seq (fail_if (accountUpdated = 0 \<or> auditInserted = 0)
            (Wrapf ''cancel waiting payment rental transition'' (RentalErr ErrInvalidTransition)))
            (tx_return True)
     else tx_bind (no_rows_as (RentalErr ErrRentalNotFound)
            (query_row (\<lambda>s. map r_status (filter (\<lambda>r. r_id r = rentalID \<and> r_user r = userID) (rentals s))))) (\<lambda>status.
          if status = Rental_Cancelled then tx_return False else tx_fail (RentalErr ErrCannotCancel)))"

section \<open>The service\<close>

definition isRentalAvailabilityConflict :: "err \<Rightarrow> bool" where
  "isRentalAvailabilityConflict e =
     (case root_error e of PgError code constraint \<Rightarrow> code = ''23505'' \<and> constraint = ''uq_rental_account_waiting_or_active'' | _ \<Rightarrow> False)"

definition ListCustomerRentals :: "int \<Rightarrow> (db, CustomerRental list) tx" where
  "ListCustomerRentals userID = Repo_ListCustomerRentals userID"

definition GetCustomerRental :: "int \<Rightarrow> int \<Rightarrow> (db, CustomerRental) tx" where
  "GetCustomerRental userID rentalID =
     tx_bind (Repo_GetCustomerRental rentalID) (\<lambda>rent.
     tx_seq (fail_if (cr_UserID rent \<noteq> userID) (RentalErr ErrRentalAccessDenied)) (tx_return rent))"

definition QuoteRental :: "int \<Rightarrow> int \<Rightarrow> (db, RentalQuote \<times> int) tx" where
  "QuoteRental accountID durationHours =
     tx_bind (GetRentalQuote accountID) (\<lambda>quote.
     tx_bind (lift_result (CalculateRentalTotal (rq_HourlyPrice quote) (rq_DepositAmount quote) durationHours)) (\<lambda>(price, amount).
     tx_return (quote, amount)))"

text \<open>\<open>rentalID\<close> is the number that \<open>generateRandomID\<close> draws.\<close>

definition RentAccount_body :: "int \<Rightarrow> int \<Rightarrow> int \<Rightarrow> duration \<Rightarrow> time \<Rightarrow> (db, Rental) tx" where
  "RentAccount_body rentalID userID accountID duration now =
     tx_bind (GetAccountForUpdate accountID) (\<lambda>acc.
     tx_seq (fail_if (acc_Status acc \<noteq> Account_Available) (RentalErr ErrAccountNotAvailable))
    (tx_bind (GetUser userID) (\<lambda>u.
     tx_seq (fail_if (usr_IsBlocked u) (RentalErr ErrUserBlocked))
    (let hours = whole_hours duration; hours = (if hours = 0 then 1 else hours)
     in tx_bind (lift_result (CalculateRentalTotal (am_Amount (acc_HourlyPrice acc)) (am_Amount (acc_DepositAmount acc)) hours)) (\<lambda>(totalPriceAmount, paymentAmount).
     tx_bind (lift_result (NewMoney totalPriceAmount (am_Currency (acc_HourlyPrice acc)))) (\<lambda>pricePaid.
     tx_bind (lift_result (NewMoney (am_Amount (acc_DepositAmount acc)) (am_Currency (acc_DepositAmount acc)))) (\<lambda>depositPaid.
     tx_seq (fail_if (usr_Balance u < paymentAmount) (RentalErr ErrInsufficientBalance))
    (tx_seq (lift_result (Reserve now acc))
    (tx_seq (ReserveAccount (acc_ID acc) now)
    (tx_bind (lift_result (NewRentalPeriod now (now + duration))) (\<lambda>period.
     tx_bind (lift_result (NewRental userID accountID period pricePaid depositPaid now)) (\<lambda>newRental.
     tx_bind (lift_result (PrepareForPayment now (newRental\<lparr>ID := rentalID\<rparr>))) (\<lambda>newRental.
     tx_seq (tx_catch (CreateRental newRental) (\<lambda>e.
       tx_fail (if isRentalAvailabilityConflict e then RentalErr ErrAccountNotAvailable else e)))
    (tx_seq (wrapf ''failed to create pending payment''
       (CreatePendingPayment (ID newRental) userID paymentAmount (am_Currency (acc_HourlyPrice acc))))
    (tx_return newRental)))))))))))))))"

definition RentAccount :: "int \<Rightarrow> int \<Rightarrow> int \<Rightarrow> duration \<Rightarrow> time \<Rightarrow> db \<Rightarrow> (err + Rental) \<times> db" where
  "RentAccount rentalID userID accountID duration now = WithinTransaction (RentAccount_body rentalID userID accountID duration now)"

record RentalCredentials =
  rc_AccountID :: int
  rc_Login :: string
  rc_Password :: string
  rc_SteamID64 :: string

definition GetRentalCredentials_body ::
  "(string \<Rightarrow> bool) \<Rightarrow> (string \<Rightarrow> err + string) \<Rightarrow> int \<Rightarrow> int \<Rightarrow> string \<Rightarrow> string \<Rightarrow> time \<Rightarrow> (db, RentalCredentials) tx" where
  "GetRentalCredentials_body inet decrypt userID rentalID ipAddress userAgent now =
     tx_bind (tx_catch (Repo_GetRentalCredentials rentalID userID now) (\<lambda>e.
       tx_fail (if errors_is e (RentalErr ErrRentalNotFound) then RentalErr ErrCredentialsNotAvailable else e))) (\<lambda>rec.
     tx_seq (fail_if (rcr_RentalStatus rec \<noteq> Rental_Active \<or> rcr_AccountStatus rec \<noteq> Account_Rented) (RentalErr ErrCredentialsNotAvailable))
    (tx_bind (wrapf ''failed to decrypt credentials'' (lift_result (decrypt (rcr_EncryptedPassword rec)))) (\<lambda>password.
     tx_seq (wrapf ''record credential issuance''
       (RecordCredentialIssued inet userID (rcr_AccountID rec) rentalID ipAddress userAgent now))
    (tx_return \<lparr>rc_AccountID = rcr_AccountID rec, rc_Login = rcr_Login rec, rc_Password = password, rc_SteamID64 = rcr_SteamID64 rec\<rparr>))))"

definition GetRentalCredentials ::
  "(string \<Rightarrow> bool) \<Rightarrow> (string \<Rightarrow> err + string) \<Rightarrow> int \<Rightarrow> int \<Rightarrow> string \<Rightarrow> string \<Rightarrow> time \<Rightarrow> db \<Rightarrow> (err + RentalCredentials) \<times> db" where
  "GetRentalCredentials inet decrypt userID rentalID ipAddress userAgent now =
     WithinTransaction (GetRentalCredentials_body inet decrypt userID rentalID ipAddress userAgent now)"

definition CancelRental :: "int \<Rightarrow> int \<Rightarrow> string \<Rightarrow> time \<Rightarrow> db \<Rightarrow> (err + bool) \<times> db" where
  "CancelRental userID rentalID reason now =
     WithinTransaction (wrapf ''cancel rental'' (CancelWaitingPaymentRental rentalID userID reason now))"

section \<open>Constraints and evolution\<close>

lemmas rental_defs = CreateRental_def RecordCredentialIssued_def cancel_statement_def CancelWaitingPaymentRental_def
  RentAccount_body_def GetRentalCredentials_body_def Repo_GetRentalCredentials_def insert_event_def CreatePendingPayment_def

lemma rental_valid [closed_intros]:
  "valid.closed (RentAccount_body i uid aid d now)" "valid.closed (CancelWaitingPaymentRental i uid reason now)"
  "valid.closed (GetRentalCredentials_body inet decrypt uid i ip agent now)"
  unfolding rental_defs Let_def by (intro closed_intros)+

lemma cancel_locked_status:
  "list_ex (\<lambda>(r, p). p_id x = p_id p) (cancel_locked rid uid s) \<Longrightarrow> \<exists>p\<in>set (payments s). p_id p = p_id x \<and> p_status p = 1"
  "list_ex (\<lambda>(r, p). r_id y = r_id r) (cancel_locked rid uid s) \<Longrightarrow> \<exists>r\<in>set (rentals s). r_id r = r_id y \<and> r_status r = 1"
  by (auto simp: list_ex_iff cancel_locked_def)

end
