(* ===== verification/Rental_Service_Properties.thy ===== *)
theory Rental_Service_Properties
  imports Rental_Service Settlement_Properties
begin

text \<open>
  The properties of the rental service: exact prices, the effect and the refusals of a
  cancellation, the effect of a request for a rental and its exclusiveness, and who
  gets the credentials of an account.
\<close>

section \<open>The effect of a cancellation\<close>

definition cancel_rows :: "db \<Rightarrow> int \<Rightarrow> int \<Rightarrow> rental_row \<Rightarrow> payment_row \<Rightarrow> account_row \<Rightarrow> bool" where
  "cancel_rows s rid uid r p a \<longleftrightarrow>
     r \<in> set (rentals s) \<and> r_id r = rid \<and> r_user r = uid \<and> r_status r = 1 \<and>
     p \<in> set (payments s) \<and> p_rental p = rid \<and> p_user p = uid \<and> p_status p = 1 \<and>
     a \<in> set (accounts s) \<and> a_id a = r_account r \<and> a_status a = 3"

lemma cancel_locked_cases:
  assumes valid: "valid_db s"
  obtains (none) "cancel_locked rid uid s = []" "\<not> (\<exists>r p a. cancel_rows s rid uid r p a)"
  | (row) r p a where "cancel_locked rid uid s = [(r, p)]" "cancel_rows s rid uid r p a"
proof (cases "\<exists>r p a. cancel_rows s rid uid r p a")
  case False
  then have "x \<notin> set (cancel_locked rid uid s)" for x by (auto simp: cancel_locked_def cancel_rows_def)
  then have "cancel_locked rid uid s = []" by (cases "cancel_locked rid uid s") auto
  then show thesis using none False by blast
next
  case True
  then obtain r p a where rows: "cancel_rows s rid uid r p a" by blast
  note w = rows [unfolded cancel_rows_def]
  note keys = valid_db_keys [OF valid]
  have accounts: "concat (map (\<lambda>a. if a_id a = r_account r \<and> a_status a = 3 then [(r, p)] else []) (accounts s)) = [(r, p)]"
    using concat_map_unique [OF keys(2), of a "\<lambda>a. if a_id a = r_account r \<and> a_status a = 3 then [(r, p)] else []"] w by simp
  have payments: "concat (map (\<lambda>p. if p_rental p = r_id r \<and> p_user p = r_user r \<and> p_status p = 1
      then concat (map (\<lambda>a. if a_id a = r_account r \<and> a_status a = 3 then [(r, p)] else []) (accounts s)) else []) (payments s)) = [(r, p)]"
    using concat_map_unique [OF keys(5), of p "\<lambda>p. if p_rental p = r_id r \<and> p_user p = r_user r \<and> p_status p = 1
      then concat (map (\<lambda>a. if a_id a = r_account r \<and> a_status a = 3 then [(r, p)] else []) (accounts s)) else []"] w accounts by simp
  have "cancel_locked rid uid s = [(r, p)]"
    unfolding cancel_locked_def
    by (subst concat_map_unique [OF keys(3), of r]) (use w payments in simp_all)
  then show thesis using row rows by blast
qed

definition cancelled_db :: "rental_row \<Rightarrow> payment_row \<Rightarrow> account_row \<Rightarrow> string \<Rightarrow> time \<Rightarrow> event_row \<Rightarrow> (tbl \<Rightarrow> int) \<Rightarrow> db \<Rightarrow> db" where
  "cancelled_db r p a reason now e q s = s
     \<lparr>payments := set_row p_id (p\<lparr>p_status := 3, p_processed := Some (pg_ts now)\<rparr>) (payments s),
      rentals := set_row r_id (r\<lparr>r_status := 5, r_reason := Some reason, r_finished := Some (pg_ts now), r_updated := pg_ts now\<rparr>) (rentals s),
      accounts := set_row a_id (a\<lparr>a_status := 2, a_updated := pg_ts now\<rparr>) (accounts s),
      events := events s @ [e], sequences := q\<rparr>"

lemma waiting_no_active:
  assumes "valid_db s" "r \<in> set (rentals s)" "r_status r = 1"
  shows "\<not> has_active_rental s (r_account r)"
proof
  assume "has_active_rental s (r_account r)"
  then obtain x where x: "x \<in> set (rentals s)" "r_account x = r_account r" "r_status x = 2"
    by (auto simp: has_active_rental_def list_ex_iff)
  have "sorted_wrt (\<lambda>a b. clash rental_schema a b = None) (rentals s)" using assms(1) by (simp add: valid_db_def valid_table_def)
  moreover have "x \<noteq> r" using x assms by auto
  ultimately have "clash rental_schema x r = None \<or> clash rental_schema r x = None"
    by (rule sorted_wrt_pair [OF _ x(1) assms(2)])
  then show False using x assms(3) by (auto simp: rental_schema_def occupying_def split: if_splits)
qed

lemma cancel_statement_none:
  assumes "cancel_locked rid uid s = []" "cancel_statement rid uid reason now s = Inr ((n, m, k), t)"
  shows "n = 0 \<and> t = s"
proof -
  show ?thesis
    using assms by (auto simp: cancel_statement_def Let_def tx_inv)
qed

lemma cancel_statement_row:
  assumes valid: "valid_db s" and rows: "cancel_rows s rid uid r p a" and locked: "cancel_locked rid uid s = [(r, p)]"
    and run: "cancel_statement rid uid reason now s = Inr ((n, m, k), t)"
  shows "n = 1 \<and> m = 1 \<and> k = 1 \<and> (\<exists>e q. t = cancelled_db r p a reason now e q s \<and>
     e_type e = 9 \<and> e_user e = Some uid \<and> e_rental e = Some rid \<and> e_account e = Some (r_account r))"
proof -
  note w = rows [unfolded cancel_rows_def] and keys = valid_db_keys [OF valid]
  have idle: "\<not> has_active_rental s (r_account r)" using waiting_no_active [OF valid] w by blast
  obtain s1 s2 s3 n1 n2 where
    1: "update_table payments payments_update payment_schema (\<lambda>x. p_id x = p_id p)
          (\<lambda>x. x\<lparr>p_status := 3, p_processed := Some (pg_ts now)\<rparr>) s = Inr (n1, s1)"
    and 2: "update_table rentals rentals_update rental_schema (\<lambda>x. r_id x = r_id r)
          (\<lambda>x. x\<lparr>r_status := 5, r_reason := Some reason, r_finished := Some (pg_ts now), r_updated := pg_ts now\<rparr>) s1 = Inr (n2, s2)"
    and 3: "update_table accounts accounts_update account_schema (\<lambda>x. a_id x = r_account r)
          (\<lambda>x. x\<lparr>a_status := 2, a_updated := pg_ts now\<rparr>) s2 = Inr (m, s3)"
    and 4: "tx_seq (tx_each (\<lambda>(r, p). insert_event (\<lambda>_. True) (Some (r_user r)) (Some (r_account r)) (Some (r_id r)) 9 None (Some ''api'')
                     (cancelled_event r p) (Some (pg_ts now))) (if 0 < n1 \<and> 0 < n2 \<and> 0 < m then cancel_locked rid uid s else []))
             (tx_return (1, m, length (if 0 < n1 \<and> 0 < n2 \<and> 0 < m then cancel_locked rid uid s else []))) s3 = Inr ((n, m, k), t)"
    using run unfolding cancel_statement_def Let_def
    by (auto simp: tx_bind_ok tx_read_ok locked idle tx_seq_ok tx_return_ok)
  have p: "filter (\<lambda>x. p_id x = p_id p) (payments s) = [p]"
    and u1: "upd (\<lambda>x. p_id x = p_id p) (\<lambda>x. x\<lparr>p_status := 3, p_processed := Some (pg_ts now)\<rparr>) (payments s) =
       set_row p_id (p\<lparr>p_status := 3, p_processed := Some (pg_ts now)\<rparr>) (payments s)"
    using w keys by (auto intro!: filter_unique [where key = p_id] upd_set_row)
  have s1: "n1 = 1" "s1 = s\<lparr>payments := set_row p_id (p\<lparr>p_status := 3, p_processed := Some (pg_ts now)\<rparr>) (payments s)\<rparr>"
    using 1 by (simp_all add: update_table_ok p u1)
  have r: "filter (\<lambda>x. r_id x = r_id r) (rentals s) = [r]"
    and u2: "upd (\<lambda>x. r_id x = r_id r) (\<lambda>x. x\<lparr>r_status := 5, r_reason := Some reason, r_finished := Some (pg_ts now), r_updated := pg_ts now\<rparr>) (rentals s) =
       set_row r_id (r\<lparr>r_status := 5, r_reason := Some reason, r_finished := Some (pg_ts now), r_updated := pg_ts now\<rparr>) (rentals s)"
    using w keys by (auto intro!: filter_unique [where key = r_id] upd_set_row)
  have s2: "n2 = 1" "s2 = s1\<lparr>rentals := set_row r_id (r\<lparr>r_status := 5, r_reason := Some reason, r_finished := Some (pg_ts now), r_updated := pg_ts now\<rparr>) (rentals s)\<rparr>"
    using 2 by (simp_all add: update_table_ok s1(2) r u2)
  have a: "filter (\<lambda>x. a_id x = r_account r) (accounts s) = [a]"
    and u3: "upd (\<lambda>x. a_id x = r_account r) (\<lambda>x. x\<lparr>a_status := 2, a_updated := pg_ts now\<rparr>) (accounts s) =
       set_row a_id (a\<lparr>a_status := 2, a_updated := pg_ts now\<rparr>) (accounts s)"
    using w keys by (auto intro!: filter_unique [where key = a_id] upd_set_row)
  have s3: "m = 1" "s3 = s2\<lparr>accounts := set_row a_id (a\<lparr>a_status := 2, a_updated := pg_ts now\<rparr>) (accounts s)\<rparr>"
    using 3 by (simp_all add: update_table_ok s2(2) s1(2) a u3)
  have nk: "n = 1" "k = 1" and ins: "insert_event (\<lambda>_. True) (Some uid) (Some (r_account r)) (Some rid) 9 None (Some ''api'')
      (cancelled_event r p) (Some (pg_ts now)) s3 = Inr ((), t)"
    using 4 w by (auto simp: s1(1) s2(1) s3(1) locked tx_seq_ok tx_return_ok)
  define e q where "e = new_event (Some uid) (Some (r_account r)) (Some rid) 9 None (Some ''api'') (cancelled_event r p) (pg_ts now) (sequences s3 Events)"
    and "q = sequences t"
  have "t = s3\<lparr>events := events s3 @ [e], sequences := q\<rparr>"
    using one_event [OF ins] by (simp add: e_def q_def)
  then have "t = cancelled_db r p a reason now e q s"
    unfolding cancelled_db_def s3(2) s2(2) s1(2) by simp
  moreover have "e_type e = 9" "e_user e = Some uid" "e_rental e = Some rid" "e_account e = Some (r_account r)"
    by (simp_all add: e_def)
  ultimately show ?thesis using nk s3(1) by blast
qed

lemma cancel_result:
  assumes valid: "valid_db s" and run: "CancelRental uid rid reason now s = (Inr changed, t)"
  shows "if changed
    then \<exists>r p a e q. cancel_rows s rid uid r p a \<and> t = cancelled_db r p a (cancel_reason reason) now e q s \<and>
      e_type e = 9 \<and> e_user e = Some uid \<and> e_rental e = Some rid \<and> e_account e = Some (r_account r)
    else t = s \<and> (\<exists>r\<in>set (rentals s). r_id r = rid \<and> r_user r = uid \<and> r_status r = 5)"
proof -
  obtain n m k s1 where stmt: "cancel_statement rid uid (cancel_reason reason) now s = Inr ((n, m, k), s1)"
    and rest: "(if 0 < n
     then tx_seq (fail_if (m = 0 \<or> k = 0) (Wrapf ''cancel waiting payment rental transition'' (RentalErr ErrInvalidTransition))) (tx_return True)
     else tx_bind (no_rows_as (RentalErr ErrRentalNotFound)
            (query_row (\<lambda>s. map r_status (filter (\<lambda>r. r_id r = rid \<and> r_user r = uid) (rentals s))))) (\<lambda>status.
          if status = 5 then tx_return False else tx_fail (RentalErr ErrCannotCancel))) s1 = Inr (changed, t)"
    using run by (auto simp: CancelRental_def CancelWaitingPaymentRental_def WithinTransaction_ok wrapf_ok tx_bind_ok)
  show ?thesis
  proof (rule cancel_locked_cases [OF valid, of rid uid])
    assume "cancel_locked rid uid s = []"
    then have "n = 0" "s1 = s" using cancel_statement_none [OF _ stmt] by simp_all
    then show ?thesis using rest by (auto simp: tx_inv dest!: filter_hd)
  next
    fix r p a
    assume "cancel_locked rid uid s = [(r, p)]" and rows: "cancel_rows s rid uid r p a"
    from cancel_statement_row [OF valid rows this(1) stmt]
    obtain e q where "n = 1" "m = 1" "k = 1" and s1: "s1 = cancelled_db r p a (cancel_reason reason) now e q s"
      and e: "e_type e = 9" "e_user e = Some uid" "e_rental e = Some rid" "e_account e = Some (r_account r)"
      by blast
    then have t: "changed" "t = s1" using rest by (auto simp: tx_inv)
    then have "cancel_rows s rid uid r p a \<and> t = cancelled_db r p a (cancel_reason reason) now e q s \<and>
      e_type e = 9 \<and> e_user e = Some uid \<and> e_rental e = Some rid \<and> e_account e = Some (r_account r)"
      using rows s1 e by simp
    then have "\<exists>r p a e q. cancel_rows s rid uid r p a \<and> t = cancelled_db r p a (cancel_reason reason) now e q s \<and>
      e_type e = 9 \<and> e_user e = Some uid \<and> e_rental e = Some rid \<and> e_account e = Some (r_account r)"
      by blast
    then show ?thesis using t(1) by simp
  qed
qed

section \<open>Pricing\<close>

lemma CalculateRentalTotal_ok:
  assumes "CalculateRentalTotal p d h = Inr (price, amount)" "is_i64 p" "is_i64 d" "is_i64 h"
  shows "0 < p \<and> 0 \<le> d \<and> 0 < h \<and> price = p * h \<and> amount = p * h + d \<and> is_i64 (p * h + d) \<and> is_i64 (p * h)"
proof -
  have pos: "0 < p" "0 \<le> d" "0 < h" and le: "p \<le> quot MaxInt64 h" and sum: "i64 (p * h) \<le> i64 (MaxInt64 - d)"
    and res: "price = i64 (p * h)" "amount = i64 (i64 (p * h) + d)"
    using assms(1) by (auto simp: CalculateRentalTotal_def Let_def split: if_splits)
  have "p * h \<le> (MaxInt64 div h) * h" using le pos by (simp add: quot_nonneg mult_right_mono)
  also have "\<dots> \<le> MaxInt64" using div_mult_mod_eq [of MaxInt64 h] pos_mod_sign [of h MaxInt64] pos by linarith
  finally have ph: "p * h \<le> MaxInt64" .
  have ph0: "0 < p * h" using pos by simp
  then have iph: "is_i64 (p * h)" using ph by (simp add: is_i64_def)
  have "is_i64 (MaxInt64 - d)" using pos assms(3) by (simp add: is_i64_def)
  then have "p * h + d \<le> MaxInt64" using sum iph by simp
  then have "is_i64 (p * h + d)" using ph0 pos(2) unfolding is_i64_def by linarith
  then show ?thesis using pos iph res by simp
qed

lemma CalculateRentalTotal_run:
  assumes "0 < p" "0 \<le> d" "0 < h" "is_i64 (p * h + d)"
  shows "CalculateRentalTotal p d h = Inr (p * h, p * h + d)"
proof -
  have ph: "0 < p * h" "p * h \<le> MaxInt64 - d" using assms by (simp_all add: is_i64_def)
  then have "p * h \<le> MaxInt64" using assms(2) by linarith
  then have "p * h div h \<le> MaxInt64 div h" using assms(3) by (rule zdiv_mono1)
  then have "p \<le> MaxInt64 div h" using assms(3) by simp
  moreover have "is_i64 (p * h)" "is_i64 (MaxInt64 - d)" using ph assms(2) unfolding is_i64_def by linarith+
  ultimately show ?thesis using assms ph by (simp add: CalculateRentalTotal_def Let_def quot_nonneg)
qed

text \<open>
  A rental is priced without an overflow or not at all: the calculation succeeds
  exactly for a positive price per hour, a deposit that is not negative and a positive
  number of hours whose exact total fits into an int64, and then gives the exact price
  and total; otherwise it is an error.
\<close>

theorem rental_total_exact:
  assumes "is_i64 p" "is_i64 d" "is_i64 h"
  shows "CalculateRentalTotal p d h =
    (if p \<le> 0 \<or> d < 0 \<or> h \<le> 0 then Inl (RentalErr ErrInvalidRentalPricing)
     else if is_i64 (p * h + d) then Inr (p * h, p * h + d)
     else Inl (RentalErr ErrRentalPriceOverflow))"
proof (cases "p \<le> 0 \<or> d < 0 \<or> h \<le> 0")
  case True
  then show ?thesis by (auto simp: CalculateRentalTotal_def)
next
  case valid: False
  show ?thesis
  proof (cases "is_i64 (p * h + d)")
    case True
    then show ?thesis using CalculateRentalTotal_run valid by simp
  next
    case False
    then have "CalculateRentalTotal p d h \<noteq> Inr (i64 (p * h), i64 (i64 (p * h) + d))"
      using CalculateRentalTotal_ok [OF _ assms] by blast
    then show ?thesis using valid False by (simp add: CalculateRentalTotal_def Let_def split: if_splits)
  qed
qed

lemma rental_total_exact_witness:
  "CalculateRentalTotal 10 50 3 = Inr (30, 80)"
  using rental_total_exact [of 10 50 3] by (simp add: is_i64_def)

text \<open>
  The price range that the administration accepts is safe for every rental: for an
  accepted price and deposit and any duration that a rental may have, up to 720 hours,
  the total is computed and exact.
\<close>

theorem admin_pricing_safe:
  assumes "validateAdminPricing p d = None" "is_i64 p" "is_i64 d" "1 \<le> h" "h \<le> 720"
  shows "CalculateRentalTotal p d h = Inr (p * h, p * h + d) \<and> is_i64 (p * h + d)"
proof -
  have pos: "0 < p" "0 \<le> d" and le: "p \<le> MaxInt64 div 720" and sum: "i64 (p * 720) \<le> i64 (MaxInt64 - d)"
    using assms(1) by (auto simp: validateAdminPricing_def quot_nonneg split: if_splits)
  have "is_i64 (p * 720)" "is_i64 (MaxInt64 - d)" using pos le assms(3) by (simp_all add: is_i64_def)
  then have "p * 720 + d \<le> MaxInt64" using sum by simp
  moreover have "p * h \<le> p * 720" "0 < p * h" using pos assms(4,5) by simp_all
  ultimately have "is_i64 (p * h + d)" using pos(2) unfolding is_i64_def by linarith
  then show ?thesis using CalculateRentalTotal_run pos assms(4) by simp
qed

lemma admin_pricing_safe_witness:
  "CalculateRentalTotal 10 50 720 = Inr (7200, 7250)"
proof -
  have "validateAdminPricing 10 50 = None" by code_simp
  then show ?thesis using admin_pricing_safe [of 10 50 720] by (simp add: is_i64_def)
qed

section \<open>Cancellation\<close>

text \<open>
  C26: A cancellation that reports a change found the caller's own waiting rental with
  its pending payment and its reserved account. The rental becomes cancelled with the
  trimmed reason, the payment fails, the account is available again and one security
  event is appended, all together; no money and no ledger entry is involved. One that
  reports no change leaves the database as it was, and the rental was cancelled before.
\<close>

theorem cancel_rental_effect:
  assumes valid: "valid_db s" and run: "CancelRental uid rid reason now s = (Inr changed, t)"
  shows "if changed
    then \<exists>r p a e q. cancel_rows s rid uid r p a \<and> t = cancelled_db r p a (cancel_reason reason) now e q s \<and>
      e_type e = 9 \<and> e_user e = Some uid \<and> e_rental e = Some rid \<and> e_account e = Some (r_account r)
    else t = s \<and> (\<exists>r\<in>set (rentals s). r_id r = rid \<and> r_user r = uid \<and> r_status r = 5)"
  by (rule cancel_result [OF assms])

lemma update_nothing:
  assumes "valid_table sc (get s)" "put (\<lambda>_. get s) s = s"
  shows "update_table get put sc (\<lambda>x. False) f s = Inr (0, s)"
proof -
  have "first_clash sc (get s) = None" using assms(1) by (simp add: first_clash_None valid_table_def)
  then show ?thesis using assms(2) by (simp add: update_table_def)
qed

text \<open>
  A cancellation of anything else changes nothing: a rental that does not exist or
  belongs to another customer is not found, an already cancelled one is a repetition,
  and every other rental (active, finished, or waiting with a decided payment) cannot
  be cancelled.
\<close>

theorem cancel_rental_refused:
  assumes valid: "valid_db s" and none: "\<not> (\<exists>r p a. cancel_rows s rid uid r p a)"
  shows "CancelRental uid rid reason now s =
    ((case filter (\<lambda>r. r_id r = rid \<and> r_user r = uid) (rentals s) of
        [] \<Rightarrow> Inl (Wrapf ''cancel rental'' (RentalErr ErrRentalNotFound))
      | r # _ \<Rightarrow> if r_status r = 5 then Inr False else Inl (Wrapf ''cancel rental'' (RentalErr ErrCannotCancel))), s)"
proof -
  have "cancel_locked rid uid s = []" by (rule cancel_locked_cases [OF valid]) (use none in blast)+
  moreover have "valid_table payment_schema (payments s)" "valid_table rental_schema (rentals s)" "valid_table account_schema (accounts s)"
    using valid by (simp_all add: valid_db_def)
  ultimately have "cancel_statement rid uid (cancel_reason reason) now s = Inr ((0, 0, 0), s)"
    by (simp add: cancel_statement_def Let_def tx_bind_def tx_read_def update_nothing tx_seq_def tx_return_def)
  then show ?thesis
    by (cases "filter (\<lambda>r. r_id r = rid \<and> r_user r = uid) (rentals s)")
      (simp_all add: CancelRental_def CancelWaitingPaymentRental_def WithinTransaction_def tx_defs)
qed

lemma cancel_rental_effect_witness:
  "\<exists>t. CancelRental 2 7 '' '' (2 * Minute) waiting_db = (Inr True, t) \<and>
     (\<exists>r p a e q. cancel_rows waiting_db 7 2 r p a \<and> t = cancelled_db r p a (cancel_reason '' '') (2 * Minute) e q waiting_db)"
proof -
  have "ok_with (\<lambda>changed. changed) (CancelRental 2 7 '' '' (2 * Minute) waiting_db)" by code_simp
  then obtain changed t where run: "CancelRental 2 7 '' '' (2 * Minute) waiting_db = (Inr changed, t)" "changed" by (blast dest: ok_withD)
  show ?thesis using cancel_rental_effect [OF waiting_db_valid run(1)] run by (simp only: if_True) blast
qed

lemma cancel_rental_refused_witness:
  "CancelRental 3 7 '' '' (2 * Minute) waiting_db = (Inl (Wrapf ''cancel rental'' (RentalErr ErrRentalNotFound)), waiting_db)"
proof -
  have "\<not> (\<exists>r p a. cancel_rows waiting_db 7 3 r p a)" by (simp add: cancel_rows_def sample_defs)
  then show ?thesis
    using cancel_rental_refused [OF waiting_db_valid, of 7 3] by (simp add: sample_defs)
qed

section \<open>The effect of a new rental\<close>

lemma NewMoney_USD: "NewMoney amount ''USD'' = Inr \<lparr>Amount = amount, Currency = ''USD''\<rparr>"
proof -
  have "to_upper (trim_space ''USD'') = ''USD''" by code_simp
  then show ?thesis by (simp add: NewMoney_def)
qed

definition reserved_account :: "time \<Rightarrow> account_row \<Rightarrow> account_row" where
  "reserved_account now a = a\<lparr>a_status := 3, a_updated := pg_ts now\<rparr>"

lemma ReserveAccount_row:
  assumes "distinct (map a_id (accounts s))" "a \<in> set (accounts s)" "a_id a = i" "a_status a = 2" "a_deleted a = None"
    and "ReserveAccount i now s = Inr (x, t)"
  shows "t = s\<lparr>accounts := set_row a_id (reserved_account now a) (accounts s)\<rparr>"
proof -
  let ?P = "\<lambda>a. a_id a = i \<and> a_status a = 2 \<and> a_deleted a = None"
  have "upd ?P (reserved_account now) (accounts s) = set_row a_id (reserved_account now a) (accounts s)"
    by (rule upd_set_row [OF assms(1,2)]) (use assms(3-5) in \<open>auto simp: reserved_account_def\<close>)
  moreover have "t = s\<lparr>accounts := upd ?P (reserved_account now) (accounts s)\<rparr>"
    using assms(6) by (auto simp: ReserveAccount_def tx_inv reserved_account_def [abs_def])
  ultimately show ?thesis by simp
qed

definition new_rental_row :: "int \<Rightarrow> int \<Rightarrow> account_row \<Rightarrow> int \<Rightarrow> duration \<Rightarrow> time \<Rightarrow> time \<Rightarrow> rental_row" where
  "new_rental_row i uid a price d now t =
     \<lparr>r_id = i, r_user = uid, r_account = a_id a, r_status = 1, r_start = pg_ts now, r_end = pg_ts (now + d), r_price = price,
      r_deposit = a_deposit a, r_finished = None, r_reason = None, r_created = t, r_updated = t,
      r_payment_expires = t + 15 * Minute, r_review_deadline = None, r_completed = None\<rparr>"

definition rented_db :: "account_row \<Rightarrow> rental_row \<Rightarrow> payment_row \<Rightarrow> time \<Rightarrow> db \<Rightarrow> db" where
  "rented_db a r p now s = (bump Payments s)
     \<lparr>accounts := set_row a_id (reserved_account now a) (accounts s), rentals := rentals s @ [r], payments := payments s @ [p]\<rparr>"

lemma billed_hours:
  assumes "now + Hour \<le> now + d" "now + d \<le> now + 720 * Hour"
  shows "(if whole_hours d = 0 then 1 else whole_hours d) = d div Hour" "1 \<le> d div Hour" "d div Hour \<le> 720"
proof -
  have d: "Hour \<le> d" "d \<le> 720 * Hour" using assms by simp_all
  then show "1 \<le> d div Hour" "d div Hour \<le> 720" using zdiv_mono1 [OF d(1), of Hour] zdiv_mono1 [OF d(2), of Hour] by simp_all
  then show "(if whole_hours d = 0 then 1 else whole_hours d) = d div Hour"
    using d by (simp add: whole_hours_def quot_nonneg)
qed

lemma rented:
  assumes valid: "valid_db s" and run: "RentAccount i uid aid d now s = (Inr rental, t)"
  obtains a u r p where "a \<in> set (accounts s)" "a_id a = aid" "a_status a = 2" "a_deleted a = None"
    "\<exists>c. NewSteamCredentials (a_login a) (a_password a) (a_steam_id64 a) = Inr c"
    "u \<in> set (users s)" "u_id u = uid" "u_deleted u = None" "\<not> u_blocked u"
    "Hour \<le> d" "d \<le> 720 * Hour" "r = new_rental_row i uid a (a_hourly_price a * (d div Hour)) d now (clock s)"
    "is_i64 (r_price r + r_deposit r)" "r_price r + r_deposit r \<le> u_balance u"
    "p = pending_payment_row i uid (r_price r + r_deposit r) ''USD'' (sequences s Payments) (clock s)"
    "t = rented_db a r p now s" "ID rental = i" "Status rental = 1"
proof -
  have body: "RentAccount_body i uid aid d now s = Inr (rental, t)"
    using run by (simp add: RentAccount_def WithinTransaction_ok)
  let ?h = "if whole_hours d = 0 then 1 else whole_hours d"
  obtain acc s0 usr s1 price amount pricePaid depositPaid acc' s2 period rental0 rental1 s3 pid where
    acc: "GetAccountForUpdate aid s = Inr (acc, s0)" and available: "acc_Status acc = 2"
    and usr: "GetUser uid s0 = Inr (usr, s1)" and free: "\<not> usr_IsBlocked usr"
    and total_ok: "CalculateRentalTotal (am_Amount (acc_HourlyPrice acc)) (am_Amount (acc_DepositAmount acc)) ?h = Inr (price, amount)"
    and money: "NewMoney price (am_Currency (acc_HourlyPrice acc)) = Inr pricePaid"
      "NewMoney (am_Amount (acc_DepositAmount acc)) (am_Currency (acc_DepositAmount acc)) = Inr depositPaid"
    and funds: "\<not> usr_Balance usr < amount"
    and reserve: "ReserveAccount (acc_ID acc) now s1 = Inr ((), s2)"
    and period: "NewRentalPeriod now (now + d) = Inr period"
    and new: "NewRental uid aid period pricePaid depositPaid now = Inr rental0"
    and prepare: "PrepareForPayment now (rental0\<lparr>ID := i\<rparr>) = Inr rental1"
    and create: "CreateRental rental1 s2 = Inr ((), s3)"
    and pay: "CreatePendingPayment (ID rental1) uid amount (am_Currency (acc_HourlyPrice acc)) s3 = Inr (pid, t)"
    and res: "rental = rental1"
    using body unfolding RentAccount_body_def Let_def
    by (auto simp: tx_bind_ok tx_seq_ok fail_if_ok lift_result_ok wrapf_ok tx_return_ok tx_catch_ok tx_fail_ok split: prod.splits)
  obtain a where a: "s0 = s" "a \<in> set (accounts s)" "a_id a = aid" "a_deleted a = None" "acc_ID acc = aid" "acc_Status acc = a_status a"
      "acc_HourlyPrice acc = \<lparr>am_Amount = a_hourly_price a, am_Currency = ''USD''\<rparr>" "acc_DepositAmount acc = \<lparr>am_Amount = a_deposit a, am_Currency = ''USD''\<rparr>"
      "\<exists>c. NewSteamCredentials (a_login a) (a_password a) (a_steam_id64 a) = Inr c"
    by (rule GetAccountForUpdate_ok [OF acc])
  obtain u where u: "u \<in> set (users s)" "u_id u = uid" "u_deleted u = None" "usr = user_of_row u" "s1 = s"
    using query_user_ok [OF usr [unfolded GetUser_def]] a(1) by blast
  have d: "Hour \<le> d" "d \<le> 720 * Hour" and period': "period = \<lparr>StartAt = now, EndAt = now + d\<rparr>"
    using period by (auto simp: NewRentalPeriod_ok)
  note hours = billed_hours [of now d]
  have "is_i64 (a_hourly_price a)" "is_i64 (a_deposit a)"
    using valid_db_checks(2) [OF valid a(2)] by (auto simp: account_schema_def bigint_def split: if_splits)
  moreover have "is_i64 (d div Hour)" using hours(2,3) d by (simp add: is_i64_def)
  ultimately have price: "price = a_hourly_price a * (d div Hour)" "amount = price + a_deposit a" "is_i64 (price + a_deposit a)"
    using CalculateRentalTotal_ok [OF total_ok] hours(1) d by (simp_all add: a(7,8))
  have paid: "pricePaid = \<lparr>Amount = price, Currency = ''USD''\<rparr>" "depositPaid = \<lparr>Amount = a_deposit a, Currency = ''USD''\<rparr>"
    using money by (simp_all add: a(7,8) NewMoney_USD)
  define r where "r = new_rental_row i uid a price d now (clock s)"
  have rental1: "ID rental1 = i" "Status rental1 = 1" and row: "rental_insert_row rental1 (clock s) = r"
    using prepare new a(3) unfolding paid period'
    by (auto simp: PrepareForPayment_def NewRental_def rental_insert_row_def r_def new_rental_row_def split: if_splits)
  have s2: "s2 = s\<lparr>accounts := set_row a_id (reserved_account now a) (accounts s)\<rparr>"
    using ReserveAccount_row [OF valid_db_keys(2) [OF valid] a(2,3) _ a(4)] reserve available a(5,6) u(5) by simp
  have "s3 = s2\<lparr>rentals := rentals s2 @ [rental_insert_row rental1 (clock s2)]\<rparr>"
    using create by (simp add: CreateRental_def tx_inv)
  then have s3: "s3 = s2\<lparr>rentals := rentals s @ [r]\<rparr>" using row by (simp add: s2)
  define p where "p = pending_payment_row i uid (price + a_deposit a) ''USD'' (sequences s Payments) (clock s)"
  have "t = (bump Payments s3)\<lparr>payments := payments s3 @ [pending_payment_row i uid (price + a_deposit a) ''USD'' (sequences s3 Payments) (clock s3)]\<rparr>"
    using pay by (auto simp: CreatePendingPayment_ok Let_def rental1 a(7) price(2))
  then have t: "t = rented_db a r p now s"
    unfolding s3 s2 rented_db_def p_def by (simp add: bump_def)
  have rfields: "r_price r = price" "r_deposit r = a_deposit a" by (simp_all add: r_def new_rental_row_def)
  show thesis
  proof (rule that)
    show "a_status a = 2" using available a(6) by simp
    show "\<not> u_blocked u" using free u(4) by (simp add: user_of_row_def)
    show "r_price r + r_deposit r \<le> u_balance u" using funds u(4) price(2) by (simp add: rfields user_of_row_def)
    show "r = new_rental_row i uid a (a_hourly_price a * (d div Hour)) d now (clock s)" by (simp add: r_def price(1))
    show "is_i64 (r_price r + r_deposit r)" using price(3) by (simp add: rfields)
    show "p = pending_payment_row i uid (r_price r + r_deposit r) ''USD'' (sequences s Payments) (clock s)" by (simp add: p_def rfields)
    show "ID rental = i" "Status rental = 1" using rental1 res by simp_all
  qed (fact a u d t)+
qed

text \<open>
  C25: A successful request for a rental found an available account and an unblocked
  customer whose balance covers the total. Then exactly these things happen together:
  the account becomes reserved, one waiting rental of 1 to 720 hours is stored with the
  exact price of the whole hours and fifteen minutes to pay, and one pending payment
  over the price and the deposit is stored. No balance changes.
\<close>

theorem rent_account_effect:
  assumes valid: "valid_db s" and run: "RentAccount i uid aid d now s = (Inr rental, t)"
  shows "\<exists>a u r p. a \<in> set (accounts s) \<and> a_id a = aid \<and> a_status a = 2 \<and> a_deleted a = None \<and>
     u \<in> set (users s) \<and> u_id u = uid \<and> u_deleted u = None \<and> \<not> u_blocked u \<and> Hour \<le> d \<and> d \<le> 720 * Hour \<and>
     r = new_rental_row i uid a (a_hourly_price a * (d div Hour)) d now (clock s) \<and>
     is_i64 (r_price r + r_deposit r) \<and> r_price r + r_deposit r \<le> u_balance u \<and>
     p = pending_payment_row i uid (r_price r + r_deposit r) ''USD'' (sequences s Payments) (clock s) \<and>
     t = rented_db a r p now s \<and> ID rental = i \<and> Status rental = 1"
  by (rule rented [OF assms]) blast

lemma GetAccountForUpdate_find:
  assumes "distinct (map a_id (accounts s))" "a \<in> set (accounts s)" "a_id a = i" "a_deleted a = None"
    and "\<exists>c. NewSteamCredentials (a_login a) (a_password a) (a_steam_id64 a) = Inr c"
  shows "\<exists>acc. GetAccountForUpdate i s = Inr (acc, s) \<and> acc_Status acc = a_status a"
proof -
  have "filter (\<lambda>a. a_id a = i \<and> a_deleted a = None) (accounts s) = [a]"
    by (rule filter_key [OF assms(1,2)]) (use assms(3,4) in auto)
  moreover obtain c where "NewSteamCredentials (a_login a) (a_password a) (a_steam_id64 a) = Inr c" using assms(5) by blast
  ultimately show ?thesis
    by (simp add: GetAccountForUpdate_def load_account_def getAccountGames_def account_of_row_def mapStatusFromDB_def tx_defs)
qed

lemma rent_keeps_valid: "valid_db s \<Longrightarrow> RentAccount i uid aid d now s = (Inr rental, t) \<Longrightarrow> valid_db t"
  using valid.closedD [OF rental_valid(1)] by (fastforce simp: RentAccount_def WithinTransaction_ok keeps_valid_def)

text \<open>
  An account is not given to two customers: as soon as a rental of the account has
  been requested with success, every other request for it, by whomever and for whatever
  time, is refused as not available and leaves the database as it is.
\<close>

theorem account_rented_once:
  assumes valid: "valid_db s" and run: "RentAccount i uid aid d now s = (Inr rental, t)"
  shows "RentAccount i' uid' aid d' now' t = (Inl (RentalErr ErrAccountNotAvailable), t)"
proof (rule rented [OF valid run])
  fix a u r p
  assume a: "a \<in> set (accounts s)" "a_id a = aid" "a_deleted a = None" "\<exists>c. NewSteamCredentials (a_login a) (a_password a) (a_steam_id64 a) = Inr c"
    and t: "t = rented_db a r p now s"
  have "reserved_account now a \<in> set (accounts t)"
    using a(1) by (auto simp: t rented_db_def reserved_account_def intro!: in_set_row)
  then obtain acc where "GetAccountForUpdate aid t = Inr (acc, t)" "acc_Status acc = 3"
    using GetAccountForUpdate_find [OF valid_db_keys(2) [OF rent_keeps_valid [OF valid run]], of "reserved_account now a" aid] a
    by (auto simp: reserved_account_def)
  then show ?thesis by (simp add: RentAccount_def RentAccount_body_def WithinTransaction_def tx_bind_def tx_seq_def)
qed

text \<open>
  C27: Credentials are issued to the renter only, while the rental is active, inside its
  period, paid, and neither refunded nor with a refund requested, and the account is
  rented. The answer has the decrypted password of that account, and issuing them
  appends exactly one security event of the caller and changes nothing else.
\<close>

theorem credentials_for_the_renter_only:
  assumes run: "GetRentalCredentials inet decrypt uid rid ip agent now s = (Inr c, t)"
  shows "\<exists>r a p e. r \<in> set (rentals s) \<and> r_id r = rid \<and> r_user r = uid \<and> r_status r = 2 \<and> r_start r \<le> pg_ts now \<and> pg_ts now < r_end r \<and>
     a \<in> set (accounts s) \<and> a_id a = r_account r \<and> a_status a = 4 \<and>
     p \<in> set (payments s) \<and> p_rental p = rid \<and> p_user p = uid \<and> p_status p = 2 \<and>
     (\<forall>f\<in>set (refunds s). f_rental f = rid \<and> f_user f = uid \<longrightarrow> f_status f \<notin> {1, 2}) \<and>
     decrypt (a_password a) = Inr (rc_Password c) \<and> rc_Login c = a_login a \<and> rc_AccountID c = a_id a \<and>
     t = (bump Events s)\<lparr>events := events s @ [e]\<rparr> \<and> e_type e = 7 \<and> e_user e = Some uid \<and> e_rental e = Some rid \<and> e_account e = Some (a_id a)"
proof -
  obtain rec s0 pw where query: "Repo_GetRentalCredentials rid uid now s = Inr (rec, s0)"
    and pw: "decrypt (rcr_EncryptedPassword rec) = Inr pw"
    and issued: "RecordCredentialIssued inet uid (rcr_AccountID rec) rid ip agent now s0 = Inr ((), t)"
    and c: "c = \<lparr>rc_AccountID = rcr_AccountID rec, rc_Login = rcr_Login rec, rc_Password = pw, rc_SteamID64 = rcr_SteamID64 rec\<rparr>"
    using run unfolding GetRentalCredentials_def GetRentalCredentials_body_def
    by (auto simp: WithinTransaction_ok tx_bind_ok tx_seq_ok tx_catch_ok tx_fail_ok fail_if_ok lift_result_ok wrapf_ok tx_return_ok)
  obtain r a p where rows: "r \<in> set (rentals s)" "r_id r = rid" "r_user r = uid" "r_status r = 2" "r_start r \<le> pg_ts now" "pg_ts now < r_end r"
      "\<not> list_ex (\<lambda>f. f_rental f = r_id r \<and> f_user f = r_user r \<and> f_status f \<in> {1, 2}) (refunds s)"
      "a \<in> set (accounts s)" "a_id a = r_account r" "a_status a = 4" "p \<in> set (payments s)" "p_rental p = r_id r" "p_user p = r_user r" "p_status p = 2"
    and rec: "rec = credentials_record r a p" "s0 = s"
    using query unfolding Repo_GetRentalCredentials_def no_rows_as_ok by (auto dest!: query_row_set)
  obtain e where t: "t = (bump Events s)\<lparr>events := events s @ [e]\<rparr>"
    and e: "e_type e = 7" "e_user e = Some uid" "e_rental e = Some rid" "e_account e = Some (a_id a)"
  proof -
    let ?e = "new_event (Some uid) (Some (r_account r)) (Some rid) 7 (if ip = [] then None else Some ip) (Some agent)
       [(''event'', JStr ''rental_credentials_issued''), (''rental_id'', JInt rid), (''user_id'', JInt uid)] (pg_ts now) (sequences s Events)"
    have "t = (bump Events s)\<lparr>events := events s @ [?e]\<rparr>"
      using issued by (simp add: rec credentials_record_def RecordCredentialIssued_def insert_event_def tx_inv)
    then show thesis by (rule that) (simp_all add: rows(9))
  qed
  have refund: "\<forall>f\<in>set (refunds s). f_rental f = rid \<and> f_user f = uid \<longrightarrow> f_status f \<notin> {1, 2}"
    using rows(2,3,7) by (auto simp: list_ex_iff)
  have pw': "decrypt (a_password a) = Inr (rc_Password c)" "rc_Login c = a_login a" "rc_AccountID c = a_id a"
    using pw rows(9) by (simp_all add: c rec credentials_record_def)
  show ?thesis
    by (intro exI [of _ r] exI [of _ a] exI [of _ p] exI [of _ e] conjI) (use rows refund pw' t e in simp_all)
qed

section \<open>Witnesses\<close>

text \<open>The account is free again, and the customer has no rental.\<close>

definition free_db :: db where
  "free_db = waiting_db\<lparr>accounts := [account5\<lparr>a_status := 2\<rparr>], rentals := [], payments := []\<rparr>"

lemma free_db_valid: "valid_db free_db"
  by code_simp

lemma rent_free:
  obtains rental t where "RentAccount 77 2 5 (3 * Hour) (2 * Minute) free_db = (Inr rental, t)"
proof -
  have "ok_with (\<lambda>_. True) (RentAccount 77 2 5 (3 * Hour) (2 * Minute) free_db)" by code_simp
  then show thesis using that by (blast dest: ok_withD)
qed

lemma rent_account_effect_witness:
  "\<exists>rental t a. RentAccount 77 2 5 (3 * Hour) (2 * Minute) free_db = (Inr rental, t) \<and> a \<in> set (accounts free_db) \<and> a_status a = 2 \<and> ID rental = 77"
  by (rule rent_free) (use rent_account_effect [OF free_db_valid] in blast)

lemma account_rented_once_witness:
  "\<exists>rental t. RentAccount 77 2 5 (3 * Hour) (2 * Minute) free_db = (Inr rental, t) \<and>
     RentAccount 78 1 5 (9 * Hour) (3 * Minute) t = (Inl (RentalErr ErrAccountNotAvailable), t)"
  by (rule rent_free) (use account_rented_once [OF free_db_valid] in blast)

definition active_db :: db where
  "active_db = waiting_db\<lparr>rentals := [rental7\<lparr>r_status := 2\<rparr>], accounts := [account5\<lparr>a_status := 4\<rparr>],
     payments := [payment9\<lparr>p_status := 2, p_processed := Some Minute\<rparr>]\<rparr>"

lemma credentials_for_the_renter_only_witness:
  "\<exists>c t. GetRentalCredentials (\<lambda>_. True) Inr 2 7 [] ''agent'' Hour active_db = (Inr c, t) \<and>
     (\<exists>a\<in>set (accounts active_db). Inr (a_password a) = (Inr (rc_Password c) :: err + string))"
proof -
  have "ok_with (\<lambda>_. True) (GetRentalCredentials (\<lambda>_. True) Inr 2 7 [] ''agent'' Hour active_db)" by code_simp
  then obtain c t where run: "GetRentalCredentials (\<lambda>_. True) Inr 2 7 [] ''agent'' Hour active_db = (Inr c, t)" by (blast dest: ok_withD)
  then show ?thesis using credentials_for_the_renter_only [OF run] by blast
qed

end
