(* ===== verification/Workers.thy ===== *)
theory Workers
  imports Rental_Service_Properties
begin

text \<open>
  The worker side of the database (\<open>internal/repository/postgres/workers.go\<close>) and the scheduled
  tasks over it (\<open>internal/shared/scheduler\<close>): ending rentals whose time is over, freeing reservations that
  were not paid, and the synchronisation of the accounts with Steam. A statement with a
  \<open>WITH\<close> clause is modelled part by part; every part reads the state before the statement, so the rows that
  are locked are computed first. The Steam client is a record of functions. The second half has
  the effect of each statement in closed form, and the locale \<open>cleanup\<close> that both clean-up tasks share.
\<close>

section \<open>Reservations that were not paid in time\<close>

record ExpiredRental =
  xr_ID :: int
  xr_AccountID :: int

record ExpiredWaitingPaymentReservation =
  xw_PaymentID :: int
  xw_RentalID :: int
  xw_AccountID :: int
  xw_UserID :: int

definition unpaid_reservation :: "db \<Rightarrow> time \<Rightarrow> payment_row \<Rightarrow> rental_row \<Rightarrow> bool" where
  "unpaid_reservation s now p r \<longleftrightarrow>
     r_id r = p_rental p \<and> p_provider p = ''internal'' \<and> p_status p = 1 \<and> r_status r = 1 \<and> r_payment_expires r \<le> pg_ts now \<and>
     list_ex (\<lambda>a. a_id a = r_account r \<and> a_status a = 3) (accounts s)"

definition GetExpiredWaitingPaymentReservations :: "time \<Rightarrow> (db, ExpiredWaitingPaymentReservation list) tx" where
  "GetExpiredWaitingPaymentReservations now = tx_read (\<lambda>s.
     map (\<lambda>(p, r). \<lparr>xw_PaymentID = p_id p, xw_RentalID = r_id r, xw_AccountID = r_account r, xw_UserID = r_user r\<rparr>)
       (sort_key (\<lambda>(p, r). r_payment_expires r) (sort_key (\<lambda>(p, r). p_id p)
         [(p, r). p \<leftarrow> payments s, r \<leftarrow> rentals s, unpaid_reservation s now p r])))"

text \<open>
  The statement that ends a reservation. Every part of a \<open>WITH\<close> reads the state before the
  statement, so the locked rows are taken first; the result is the first locked payment.
\<close>

definition reservation_locked :: "int \<Rightarrow> time \<Rightarrow> db \<Rightarrow> (payment_row \<times> rental_row) list" where
  "reservation_locked paymentID now s =
     [(p, r). p \<leftarrow> payments s, p_id p = paymentID, r \<leftarrow> rentals s, unpaid_reservation s now p r]"

definition reservation_event :: "payment_row \<Rightarrow> rental_row \<Rightarrow> json" where
  "reservation_event p r =
     [(''event'', JStr ''waiting_payment_expired''), (''payment_id'', JInt (p_id p)), (''rental_id'', JInt (p_rental p)),
      (''account_id'', JInt (r_account r))]"

definition ExpireWaitingPaymentReservation_body :: "int \<Rightarrow> time \<Rightarrow> (db, bool) tx" where
  "ExpireWaitingPaymentReservation_body paymentID now =
     tx_bind (tx_read (reservation_locked paymentID now)) (\<lambda>locked.
     tx_seq (update_table payments payments_update payment_schema
       (\<lambda>x. list_ex (\<lambda>(p, r). p_id x = p_id p) locked) (\<lambda>x. x\<lparr>p_status := 3, p_processed := Some (pg_ts now)\<rparr>))
    (tx_seq (update_table rentals rentals_update rental_schema
       (\<lambda>x. list_ex (\<lambda>(p, r). r_id x = p_rental p) locked) (\<lambda>x. x\<lparr>r_status := 3, r_updated := pg_ts now\<rparr>))
    (tx_seq (update_table accounts accounts_update account_schema
       (\<lambda>x. list_ex (\<lambda>(p, r). a_id x = r_account r) locked) (\<lambda>x. x\<lparr>a_status := 2, a_updated := pg_ts now\<rparr>))
    (tx_seq (tx_each (\<lambda>(p, r). insert_event (\<lambda>_. True) (Some (p_user p)) (Some (r_account r)) (Some (p_rental p)) 8 None
       (Some ''scheduler'') (reservation_event p r) (Some (pg_ts now))) locked)
    (tx_return (case locked of [] \<Rightarrow> False | (p, r) # _ \<Rightarrow> p_id p \<noteq> 0))))))"

definition ExpireWaitingPaymentReservation :: "int \<Rightarrow> time \<Rightarrow> db \<Rightarrow> (err + bool) \<times> db" where
  "ExpireWaitingPaymentReservation paymentID now = WithinTransaction (ExpireWaitingPaymentReservation_body paymentID now)"

section \<open>Rentals whose time is over\<close>

definition GetExpiredRentals :: "time \<Rightarrow> (db, ExpiredRental list) tx" where
  "GetExpiredRentals now = tx_read (\<lambda>s.
     map (\<lambda>r. \<lparr>xr_ID = r_id r, xr_AccountID = r_account r\<rparr>)
       (sort_key r_end (sort_key r_id (filter (\<lambda>r. r_status r = 2 \<and> r_end r \<le> pg_ts now) (rentals s)))))"

text \<open>\<open>busy\<close> are the rentals that \<open>SKIP LOCKED\<close> leaves out: another session holds the row or its account's.\<close>

definition expiry_locked :: "(int \<Rightarrow> bool) \<Rightarrow> int \<Rightarrow> int \<Rightarrow> time \<Rightarrow> db \<Rightarrow> rental_row list" where
  "expiry_locked busy rentalID accountID now s =
     [r. r \<leftarrow> rentals s, r_id r = rentalID \<and> r_account r = accountID \<and> r_status r = 2 \<and> r_end r \<le> pg_ts now \<and> \<not> busy rentalID,
         a \<leftarrow> accounts s, a_id a = r_account r \<and> a_status a = 4]"

definition consistent_hold :: "db \<Rightarrow> rental_row \<Rightarrow> bool" where
  "consistent_hold s r \<longleftrightarrow>
     list_ex (\<lambda>p. p_rental p = r_id r \<and> p_user p = r_user r \<and> p_status p = 2 \<and>
       list_ex (\<lambda>d. d_payment d = Some (p_id p) \<and> d_rental d = p_rental p \<and> d_user d = p_user p \<and> d_status d = 1 \<and>
         d_amount d = r_deposit r \<and> d_currency d = p_currency p) (holds s)) (payments s)"

definition expired_row :: "db \<Rightarrow> time \<Rightarrow> rental_row \<Rightarrow> rental_row" where
  "expired_row s now r = r\<lparr>r_status := 3, r_finished := Some (r_end r),
     r_review_deadline := (if 0 < r_deposit r \<and> consistent_hold s r then Some (r_end r + 24 * Hour) else None), r_updated := pg_ts now\<rparr>"

definition other_active :: "db \<Rightarrow> rental_row \<Rightarrow> bool" where
  "other_active s r = list_ex (\<lambda>x. r_account x = r_account r \<and> r_id x \<noteq> r_id r \<and> r_status x = 2) (rentals s)"

definition expiry_event :: "rental_row \<Rightarrow> json" where
  "expiry_event r = [(''event'', JStr ''rental_expired''), (''rental_id'', JInt (r_id r)), (''account_id'', JInt (r_account r))]"

definition expire_statement :: "(int \<Rightarrow> bool) \<Rightarrow> int \<Rightarrow> int \<Rightarrow> time \<Rightarrow> (db, nat \<times> nat \<times> nat) tx" where
  "expire_statement busy rentalID accountID now =
     tx_bind (tx_read id) (\<lambda>s.
     let locked = expiry_locked busy rentalID accountID now s
     in tx_bind (update_table rentals rentals_update rental_schema (\<lambda>x. list_ex (\<lambda>r. r_id x = r_id r) locked) (expired_row s now)) (\<lambda>rentalUpdated.
        tx_bind (update_table accounts accounts_update account_schema
          (\<lambda>x. list_ex (\<lambda>r. a_id x = r_account r \<and> \<not> other_active s r) locked) (\<lambda>x. x\<lparr>a_status := 2, a_updated := pg_ts now\<rparr>)) (\<lambda>accountUpdated.
        let audited = (if 0 < rentalUpdated \<and> 0 < accountUpdated then locked else [])
        in tx_seq (tx_each (\<lambda>r. insert_event (\<lambda>_. True) (Some (r_user r)) (Some (r_account r)) (Some (r_id r)) 10 None
             (Some ''scheduler'') (expiry_event r) (Some (pg_ts now))) audited)
           (tx_return (length locked, accountUpdated, length audited)))))"

definition ExpireRental :: "(int \<Rightarrow> bool) \<Rightarrow> int \<Rightarrow> int \<Rightarrow> time \<Rightarrow> db \<Rightarrow> (err + bool) \<times> db" where
  "ExpireRental busy rentalID accountID now =
     WithinTransaction (tx_bind (expire_statement busy rentalID accountID now) (\<lambda>(lockedCount, accountUpdated, auditInserted).
       if lockedCount = 0 then tx_return False
       else tx_seq (fail_if (accountUpdated = 0 \<or> auditInserted = 0)
              (ErrText ''expire rental transition did not update all required records''))
            (tx_return True)))"

section \<open>Accounts\<close>

definition GetAccountsForSync :: "(db, int list) tx" where
  "GetAccountsForSync = tx_read (\<lambda>s. map a_id (accounts s))"

definition GetAccountSyncDetails :: "int \<Rightarrow> (db, string \<times> string) tx" where
  "GetAccountSyncDetails accountID =
     query_row (\<lambda>s. map (\<lambda>a. (a_login a, a_steam_id64 a)) (filter (\<lambda>a. a_id a = accountID) (accounts s)))"

definition disableAccountIfIdle :: "int \<Rightarrow> (db, unit) tx" where
  "disableAccountIfIdle accountID =
     tx_bind (tx_read id) (\<lambda>s. tx_bind db_now (\<lambda>t.
     let locked = filter (\<lambda>a. a_id a = accountID \<and> a_deleted a = None) (accounts s)
     in tx_bind (update_table accounts accounts_update account_schema
          (\<lambda>x. list_ex (\<lambda>a. a_id x = a_id a \<and> a_status x \<notin> {3, 4} \<and>
             \<not> list_ex (\<lambda>r. r_account r = a_id a \<and> r_status r \<in> {1, 2}) (rentals s)) locked)
          (\<lambda>x. x\<lparr>a_status := 6, a_deleted := Some t, a_updated := t\<rparr>)) (\<lambda>updatedCount.
        tx_seq (fail_if (locked = []) ErrNoRows) (fail_if (updatedCount = 0) (AccountErr ErrAccountLifecycleConflict)))))"

definition DisableAccountIfIdle :: "int \<Rightarrow> db \<Rightarrow> (err + unit) \<times> db" where
  "DisableAccountIfIdle accountID = WithinTransaction (disableAccountIfIdle accountID)"

definition DisableAccountIfIdleAsCurrentAdmin :: "int \<Rightarrow> int \<Rightarrow> db \<Rightarrow> (err + unit) \<times> db" where
  "DisableAccountIfIdleAsCurrentAdmin actorUserID accountID =
     WithinTransaction (tx_seq (RequireCurrentAdminForMutation True actorUserID) (disableAccountIfIdle accountID))"

record AccountGameSyncInfo =
  gs_StoreGameID :: string
  gs_Name :: string
  gs_PlaytimeMinutes :: int

text \<open>\<open>pg_int\<close> is the conversion of a text to an INTEGER of PostgreSQL.\<close>

definition sync_game :: "(string \<Rightarrow> int option) \<Rightarrow> AccountGameSyncInfo \<Rightarrow> (db, int) tx" where
  "sync_game pg_int g =
     (case pg_int (gs_StoreGameID g) of
        None \<Rightarrow> tx_fail (invalid_text_representation (gs_StoreGameID g))
      | Some app \<Rightarrow>
          tx_bind (tx_read (\<lambda>s. map gm_id (filter (\<lambda>x. gm_app x = app) (games s)))) (\<lambda>found.
          case found of
            i # _ \<Rightarrow> tx_return i
          | [] \<Rightarrow>
              tx_bind (next_id Games) (\<lambda>i. tx_bind db_now (\<lambda>t.
              tx_seq (insert_row games games_update game_schema
                \<lparr>gm_id = i, gm_app = app, gm_name = gs_Name g, gm_description = None, gm_image = None, gm_release = None,
                 gm_developers = None, gm_publishers = None, gm_genres = None, gm_created = t, gm_updated = t\<rparr>)
                (tx_return i)))))"

definition syncAccountGames :: "(string \<Rightarrow> int option) \<Rightarrow> int \<Rightarrow> AccountGameSyncInfo list \<Rightarrow> (db, unit) tx" where
  "syncAccountGames pg_int accountID gs =
     tx_seq (tx_each (\<lambda>g.
       tx_bind (sync_game pg_int g) (\<lambda>gameID.
       tx_bind (tx_read (\<lambda>s. list_ex (\<lambda>k. k_account k = accountID \<and> k_game k = gameID) (account_games s))) (\<lambda>known.
       if known
       then tx_seq (update_table account_games account_games_update link_schema
              (\<lambda>k. k_account k = accountID \<and> k_game k = gameID) (\<lambda>k. k\<lparr>k_playtime := gs_PlaytimeMinutes g\<rparr>)) (tx_return ())
       else insert_link accountID gameID (gs_PlaytimeMinutes g)))) gs)
     (tx_bind db_now (\<lambda>t. tx_when (gs \<noteq> [])
       (tx_seq (update_table accounts accounts_update account_schema (\<lambda>a. a_id a = accountID)
          (\<lambda>a. a\<lparr>a_library_synced := Some t, a_updated := t\<rparr>)) (tx_return ()))))"

definition Workers_SyncAccountGames :: "(string \<Rightarrow> int option) \<Rightarrow> int \<Rightarrow> AccountGameSyncInfo list \<Rightarrow> db \<Rightarrow> (err + unit) \<times> db" where
  "Workers_SyncAccountGames pg_int accountID gs = WithinTransaction (syncAccountGames pg_int accountID gs)"

definition SyncAccountGamesAsCurrentAdmin :: "(string \<Rightarrow> int option) \<Rightarrow> int \<Rightarrow> int \<Rightarrow> AccountGameSyncInfo list \<Rightarrow> db \<Rightarrow> (err + unit) \<times> db" where
  "SyncAccountGamesAsCurrentAdmin pg_int actorUserID accountID gs =
     WithinTransaction (tx_seq (RequireCurrentAdminForMutation True actorUserID) (syncAccountGames pg_int accountID gs))"

section \<open>The scheduled tasks\<close>

text \<open>An error of one element is logged, and the loop goes on with the next.\<close>

definition ExpiredCleanup :: "(int \<Rightarrow> bool) \<Rightarrow> time \<Rightarrow> db \<Rightarrow> db" where
  "ExpiredCleanup busy now s =
     (case GetExpiredRentals now s of
        Inl e \<Rightarrow> s
      | Inr (expired, t) \<Rightarrow> fold (\<lambda>x u. snd (ExpireRental busy (xr_ID x) (xr_AccountID x) now u)) expired t)"

definition WaitingPaymentCleanup :: "time \<Rightarrow> db \<Rightarrow> db" where
  "WaitingPaymentCleanup now s =
     (case GetExpiredWaitingPaymentReservations now s of
        Inl e \<Rightarrow> s
      | Inr (reservations, t) \<Rightarrow> fold (\<lambda>x u. snd (ExpireWaitingPaymentReservation (xw_PaymentID x) now u)) reservations t)"

record SteamClient =
  CheckVACBans :: "string \<Rightarrow> err + bool"
  GetOwnedGames :: "string \<Rightarrow> err + AccountGameSyncInfo list"

definition steam_sync_account :: "(string \<Rightarrow> int option) \<Rightarrow> SteamClient \<Rightarrow> int \<Rightarrow> db \<Rightarrow> db" where
  "steam_sync_account pg_int client accountID s =
     (case GetAccountSyncDetails accountID s of
        Inl e \<Rightarrow> s
      | Inr ((login, steamID64), t) \<Rightarrow>
          if steamID64 = [] then t
          else (case CheckVACBans client steamID64 of
                  Inl e \<Rightarrow> t
                | Inr True \<Rightarrow> snd (DisableAccountIfIdle accountID t)
                | Inr False \<Rightarrow>
                    (case GetOwnedGames client steamID64 of
                       Inl e \<Rightarrow> t
                     | Inr gs \<Rightarrow> snd (Workers_SyncAccountGames pg_int accountID gs t))))"

definition SteamSyncWorker :: "(string \<Rightarrow> int option) \<Rightarrow> SteamClient \<Rightarrow> db \<Rightarrow> db" where
  "SteamSyncWorker pg_int client s =
     (case GetAccountsForSync s of Inl e \<Rightarrow> s | Inr (ids, t) \<Rightarrow> fold (steam_sync_account pg_int client) ids t)"

definition fake_games_pool :: "(string \<times> string) list" where
  "fake_games_pool =
     [(''730'', ''Counter-Strike 2''), (''570'', ''Dota 2''), (''1091500'', ''Cyberpunk 2077''),
      (''1174180'', ''Red Dead Redemption 2''), (''292030'', ''The Witcher 3: Wild Hunt''), (''400'', ''Portal''), (''220'', ''Half-Life 2'')]"

definition Fake_GetOwnedGames :: "string \<Rightarrow> AccountGameSyncInfo list" where
  "Fake_GetOwnedGames steamID64 =
     (let numGames = length steamID64 mod length fake_games_pool + 1
      in map (\<lambda>i. let (app, title) = fake_games_pool ! ((i + length steamID64) mod length fake_games_pool)
                 in \<lparr>gs_StoreGameID = app, gs_Name = title, gs_PlaytimeMinutes = 10 + int ((length steamID64 * 31 + i * 17) mod 10000)\<rparr>)
          [0..<numGames])"

definition Fake_CheckVACBans :: "string \<Rightarrow> bool" where
  "Fake_CheckVACBans steamID64 \<longleftrightarrow> 3 < length steamID64 \<and> drop (length steamID64 - 3) steamID64 = ''999''"

section \<open>Statements that succeed\<close>

lemma update_forward:
  assumes "valid_table sc (get s)" "\<And>x. x \<in> set (get s) \<Longrightarrow> P x \<Longrightarrow> checks sc (f x) = None"
    and "\<And>x y. clash sc x y = None \<Longrightarrow> clash sc (if P x then f x else x) (if P y then f y else y) = None"
  shows "update_table get put sc P f s = Inr (length (filter P (get s)), put (\<lambda>_. upd P f (get s)) s)"
proof -
  have "update_ok sc P f (get s)"
    unfolding update_ok_def using assms by (auto simp: valid_table_def intro!: sorted_wrt_upd)
  then show ?thesis by (simp add: update_table_ok)
qed

lemma rental_update_forward:
  assumes "valid_db s" "\<And>x. x \<in> set (rentals s) \<Longrightarrow> P x \<Longrightarrow> checks rental_schema (f x) = None"
    and "\<And>x. r_id (f x) = r_id x \<and> r_account (f x) = r_account x \<and> \<not> occupying (f x)"
  shows "update_table rentals rentals_update rental_schema P f s = Inr (length (filter P (rentals s)), s\<lparr>rentals := upd P f (rentals s)\<rparr>)"
proof (rule update_forward)
  show "clash rental_schema (if P x then f x else x) (if P y then f y else y) = None" if "clash rental_schema x y = None" for x y
    using that by (cases "P x"; cases "P y"; simp add: rental_schema_def assms(3) split: if_splits)
qed (use assms(1,2) in \<open>simp_all add: valid_db_def\<close>)

lemma payment_update_forward:
  assumes "valid_db s" "\<And>x. p_id (f x) = p_id x \<and> p_provider (f x) = p_provider x \<and> p_external (f x) = p_external x \<and> p_rental (f x) = p_rental x \<and>
      p_amount (f x) = p_amount x \<and> p_currency (f x) = p_currency x"
  shows "update_table payments payments_update payment_schema P f s = Inr (length (filter P (payments s)), s\<lparr>payments := upd P f (payments s)\<rparr>)"
proof (rule update_forward)
  show "checks payment_schema (f x) = None" if "x \<in> set (payments s)" for x
    using valid_db_checks(4) [OF assms(1) that] by (simp add: payment_checks assms(2))
  show "clash payment_schema (if P x then f x else x) (if P y then f y else y) = None" if "clash payment_schema x y = None" for x y
    using that by (cases "P x"; cases "P y"; simp add: payment_schema_def assms(2) split: if_splits)
qed (use assms(1) in \<open>simp add: valid_db_def\<close>)

lemma account_update_forward:
  assumes "valid_db s" "\<And>x. a_id (f x) = a_id x \<and> a_steam_id64 (f x) = a_steam_id64 x \<and> a_hourly_price (f x) = a_hourly_price x \<and> a_deposit (f x) = a_deposit x"
  shows "update_table accounts accounts_update account_schema P f s = Inr (length (filter P (accounts s)), s\<lparr>accounts := upd P f (accounts s)\<rparr>)"
proof (rule update_forward)
  show "checks account_schema (f x) = None" if "x \<in> set (accounts s)" for x
    using valid_db_checks(2) [OF assms(1) that] by (simp add: account_schema_def assms(2))
  show "clash account_schema (if P x then f x else x) (if P y then f y else y) = None" if "clash account_schema x y = None" for x y
    using that by (cases "P x"; cases "P y"; simp add: account_schema_def assms(2) split: if_splits)
qed (use assms(1) in \<open>simp add: valid_db_def\<close>)

text \<open>The sequence of the security events is ahead of the stored numbers.\<close>

definition events_fresh :: "db \<Rightarrow> bool" where
  "events_fresh s \<longleftrightarrow> (\<forall>e\<in>set (events s). e_id e < sequences s Events)"

lemma insert_event_forward:
  assumes "events_fresh s"
  shows "insert_event (\<lambda>_. True) u a r ty None agent m (Some c) s =
     Inr ((), (bump Events s)\<lparr>events := events s @ [new_event u a r ty None agent m c (sequences s Events)]\<rparr>)"
proof -
  have "first_some (\<lambda>x. clash event_schema x (new_event u a r ty None agent m c (sequences s Events))) (events s) = None"
    using assms by (auto simp: first_some_None event_schema_def events_fresh_def new_event_def)
  then show ?thesis
    by (simp add: insert_event_def next_id_def db_now_def tx_defs insert_row_def event_schema_def)
qed

section \<open>Locked rows\<close>

lemma expiry_locked_cases:
  assumes valid: "valid_db s"
  obtains (none) "expiry_locked busy i acc now s = []"
      "\<not> (\<exists>r a. r \<in> set (rentals s) \<and> r_id r = i \<and> r_account r = acc \<and> r_status r = 2 \<and> r_end r \<le> pg_ts now \<and> \<not> busy i \<and>
         a \<in> set (accounts s) \<and> a_id a = acc \<and> a_status a = 4)"
  | (row) r a where "expiry_locked busy i acc now s = [r]" "r \<in> set (rentals s)" "r_id r = i" "r_account r = acc" "r_status r = 2"
      "r_end r \<le> pg_ts now" "\<not> busy i" "a \<in> set (accounts s)" "a_id a = acc" "a_status a = 4"
proof (cases "expiry_locked busy i acc now s = []")
  case True
  moreover have "r \<in> set (expiry_locked busy i acc now s)"
    if "r \<in> set (rentals s)" "r_id r = i" "r_account r = acc" "r_status r = 2" "r_end r \<le> pg_ts now" "\<not> busy i"
      "a \<in> set (accounts s)" "a_id a = acc" "a_status a = 4" for r a
    using that by (auto simp: expiry_locked_def intro!: bexI [of _ r] bexI [of _ a])
  ultimately show thesis by (intro none) auto
next
  case False
  note keys = valid_db_keys [OF valid]
  obtain r where "r \<in> set (expiry_locked busy i acc now s)" using False by (cases "expiry_locked busy i acc now s") auto
  then obtain a where w: "r \<in> set (rentals s)" "r_id r = i" "r_account r = acc" "r_status r = 2" "r_end r \<le> pg_ts now" "\<not> busy i"
      "a \<in> set (accounts s)" "a_id a = acc" "a_status a = 4"
    by (auto simp: expiry_locked_def split: if_splits)
  have "concat (map (\<lambda>a. if a_id a = r_account r \<and> a_status a = 4 then [r] else []) (accounts s)) = [r]"
    by (subst concat_map_unique [OF keys(2), of a]) (use w in simp_all)
  then have "expiry_locked busy i acc now s = [r]"
    unfolding expiry_locked_def
    by (subst concat_map_unique [OF keys(3), of r]) (use w in simp_all)
  then show thesis using row w by blast
qed

lemma active_alone:
  assumes "valid_db s" "r \<in> set (rentals s)" "r_status r = 2"
  shows "\<not> other_active s r"
proof
  assume "other_active s r"
  then obtain x where x: "x \<in> set (rentals s)" "r_account x = r_account r" "r_id x \<noteq> r_id r" "r_status x = 2"
    by (auto simp: other_active_def list_ex_iff)
  have "sorted_wrt (\<lambda>a b. clash rental_schema a b = None) (rentals s)" using assms(1) by (simp add: valid_db_def valid_table_def)
  then have "clash rental_schema x r = None \<or> clash rental_schema r x = None"
    by (rule sorted_wrt_pair [OF _ x(1) assms(2)]) (use x(3) in blast)
  then show False using x assms(3) by (auto simp: rental_schema_def occupying_def split: if_splits)
qed

section \<open>The expiry of a rental\<close>

definition available_account :: "time \<Rightarrow> account_row \<Rightarrow> account_row" where
  "available_account now a = a\<lparr>a_status := 2, a_updated := pg_ts now\<rparr>"

definition expired_rental_db :: "rental_row \<Rightarrow> account_row \<Rightarrow> time \<Rightarrow> db \<Rightarrow> db" where
  "expired_rental_db r a now s = (bump Events s)
     \<lparr>rentals := set_row r_id (expired_row s now r) (rentals s), accounts := set_row a_id (available_account now a) (accounts s),
      events := events s @ [new_event (Some (r_user r)) (Some (r_account r)) (Some (r_id r)) 10 None (Some ''scheduler'') (expiry_event r)
        (pg_ts now) (sequences s Events)]\<rparr>"

lemma expired_row_simps [simp]:
  "r_id (expired_row s now r) = r_id r" "r_account (expired_row s now r) = r_account r" "r_status (expired_row s now r) = 3"
  "\<not> occupying (expired_row s now r)"
  by (simp_all add: expired_row_def occupying_def)

lemma expired_row_checks: "checks rental_schema r = None \<Longrightarrow> checks rental_schema (expired_row s now r) = None"
  by (auto simp: rental_checks expired_row_def)

lemma ExpireRental_row:
  assumes valid: "valid_db s" and fresh: "events_fresh s" and locked: "expiry_locked busy i acc now s = [r]"
    and r: "r \<in> set (rentals s)" "r_status r = 2" and a: "a \<in> set (accounts s)" "a_id a = r_account r"
  shows "ExpireRental busy i acc now s = (Inr True, expired_rental_db r a now s)"
proof -
  note keys = valid_db_keys [OF valid]
  have idle: "\<not> other_active s r" by (rule active_alone [OF valid r])
  have rs: "filter (\<lambda>x. r_id x = r_id r) (rentals s) = [r]" "upd (\<lambda>x. r_id x = r_id r) (expired_row s now) (rentals s) = set_row r_id (expired_row s now r) (rentals s)"
    using r keys by (auto intro!: filter_unique [where key = r_id] upd_set_row)
  have as: "filter (\<lambda>x. a_id x = r_account r) (accounts s) = [a]"
    using a keys by (auto intro!: filter_unique [where key = a_id])
  have as': "upd (\<lambda>x. a_id x = r_account r) (available_account now) (accounts s) = set_row a_id (available_account now a) (accounts s)"
    by (rule upd_set_row [OF keys(2) a(1)]) (use a in \<open>simp_all add: available_account_def\<close>)
  define s1 where "s1 = s\<lparr>rentals := set_row r_id (expired_row s now r) (rentals s)\<rparr>"
  have 1: "update_table rentals rentals_update rental_schema (\<lambda>x. r_id x = r_id r) (expired_row s now) s = Inr (1, s1)"
    using rental_update_forward [OF valid, of "\<lambda>x. r_id x = r_id r" "expired_row s now"] valid_db_checks(3) [OF valid]
    by (simp add: expired_row_checks rs s1_def)
  have valid1: "valid_db s1"
    using valid.closedD [OF valid_updates(3) 1] valid by (simp add: keeps_valid_def)
  define s2 where "s2 = s1\<lparr>accounts := set_row a_id (available_account now a) (accounts s)\<rparr>"
  have 2: "update_table accounts accounts_update account_schema (\<lambda>x. a_id x = r_account r) (available_account now) s1 = Inr (1, s2)"
    using account_update_forward [OF valid1, of "available_account now" "\<lambda>x. a_id x = r_account r"]
    by (simp add: s1_def s2_def as as') (simp add: available_account_def)
  have "events_fresh s2" using fresh by (simp add: events_fresh_def s2_def s1_def)
  note 3 = insert_event_forward [OF this]
  have "expire_statement busy i acc now s = Inr ((1, 1, 1), expired_rental_db r a now s)"
    using 1 2 3 unfolding expire_statement_def Let_def
    by (simp add: tx_bind_def tx_read_def locked idle tx_seq_def tx_return_def available_account_def [abs_def] expired_rental_db_def s2_def s1_def bump_def)
  then show ?thesis
    by (simp add: ExpireRental_def WithinTransaction_def tx_bind_def tx_seq_def tx_return_def)
qed

lemma ExpireRental_none:
  assumes valid: "valid_db s" and none: "expiry_locked busy i acc now s = []"
  shows "ExpireRental busy i acc now s = (Inr False, s)"
proof -
  have "valid_table rental_schema (rentals s)" "valid_table account_schema (accounts s)" using valid by (simp_all add: valid_db_def)
  then show ?thesis
    using none by (simp add: ExpireRental_def expire_statement_def Let_def WithinTransaction_def tx_bind_def tx_read_def update_nothing
        tx_seq_def tx_return_def)
qed

section \<open>The end of a reservation\<close>

definition unpaid_row :: "time \<Rightarrow> rental_row \<Rightarrow> rental_row" where
  "unpaid_row now r = r\<lparr>r_status := 3, r_updated := pg_ts now\<rparr>"

definition failed_payment :: "time \<Rightarrow> payment_row \<Rightarrow> payment_row" where
  "failed_payment now p = p\<lparr>p_status := 3, p_processed := Some (pg_ts now)\<rparr>"

definition expired_reservation_db :: "payment_row \<Rightarrow> rental_row \<Rightarrow> account_row \<Rightarrow> time \<Rightarrow> db \<Rightarrow> db" where
  "expired_reservation_db p r a now s = (bump Events s)
     \<lparr>payments := set_row p_id (failed_payment now p) (payments s), rentals := set_row r_id (unpaid_row now r) (rentals s),
      accounts := set_row a_id (available_account now a) (accounts s),
      events := events s @ [new_event (Some (p_user p)) (Some (r_account r)) (Some (p_rental p)) 8 None (Some ''scheduler'') (reservation_event p r)
        (pg_ts now) (sequences s Events)]\<rparr>"

lemma unpaid_row_simps [simp]:
  "r_id (unpaid_row now r) = r_id r" "r_account (unpaid_row now r) = r_account r" "\<not> occupying (unpaid_row now r)" "r_status (unpaid_row now r) = 3"
  by (simp_all add: unpaid_row_def occupying_def)

lemma unpaid_row_checks: "checks rental_schema r = None \<Longrightarrow> checks rental_schema (unpaid_row now r) = None"
  by (simp add: rental_checks unpaid_row_def)

lemma reservation_locked_cases:
  assumes valid: "valid_db s"
  obtains (none) "reservation_locked i now s = []" "\<not> (\<exists>p\<in>set (payments s). p_id p = i \<and> (\<exists>r\<in>set (rentals s). unpaid_reservation s now p r))"
  | (row) p r where "reservation_locked i now s = [(p, r)]" "p \<in> set (payments s)" "p_id p = i" "r \<in> set (rentals s)" "unpaid_reservation s now p r"
proof (cases "reservation_locked i now s = []")
  case True
  moreover have "(p, r) \<in> set (reservation_locked i now s)" if "p \<in> set (payments s)" "p_id p = i" "r \<in> set (rentals s)" "unpaid_reservation s now p r" for p r
    using that by (auto simp: reservation_locked_def)
  ultimately show thesis by (intro none) auto
next
  case False
  note keys = valid_db_keys [OF valid]
  obtain x where "x \<in> set (reservation_locked i now s)" using False by (cases "reservation_locked i now s") auto
  then obtain p r where w: "p \<in> set (payments s)" "p_id p = i" "r \<in> set (rentals s)" "unpaid_reservation s now p r"
    by (auto simp: reservation_locked_def split: if_splits)
  have other: "\<not> unpaid_reservation s now p y" if "r_id y \<noteq> r_id r" for y
    using that w(4) by (simp add: unpaid_reservation_def)
  have "concat (map (\<lambda>r. if unpaid_reservation s now p r then [(p, r)] else []) (rentals s)) = [(p, r)]"
    by (subst concat_map_unique [OF keys(3), of r]) (use w other in simp_all)
  then have "reservation_locked i now s = [(p, r)]"
    unfolding reservation_locked_def
    by (subst concat_map_unique [OF keys(4), of p]) (use w in simp_all)
  then show thesis using row w by blast
qed

lemma ExpireWaitingPaymentReservation_row:
  assumes valid: "valid_db s" and fresh: "events_fresh s" and locked: "reservation_locked i now s = [(p, r)]"
    and p: "p \<in> set (payments s)" and r: "r \<in> set (rentals s)" "r_id r = p_rental p" and a: "a \<in> set (accounts s)" "a_id a = r_account r"
  shows "ExpireWaitingPaymentReservation i now s = (Inr (p_id p \<noteq> 0), expired_reservation_db p r a now s)"
proof -
  note keys = valid_db_keys [OF valid]
  have ps: "upd (\<lambda>x. p_id x = p_id p) (failed_payment now) (payments s) = set_row p_id (failed_payment now p) (payments s)"
    by (rule upd_set_row [OF keys(4) p]) (simp_all add: failed_payment_def)
  have rs: "upd (\<lambda>x. r_id x = p_rental p) (unpaid_row now) (rentals s) = set_row r_id (unpaid_row now r) (rentals s)"
    by (rule upd_set_row [OF keys(3) r(1)]) (use r(2) in simp_all)
  have as: "upd (\<lambda>x. a_id x = r_account r) (available_account now) (accounts s) = set_row a_id (available_account now a) (accounts s)"
    by (rule upd_set_row [OF keys(2) a(1)]) (use a in \<open>simp_all add: available_account_def\<close>)
  define s1 where "s1 = s\<lparr>payments := set_row p_id (failed_payment now p) (payments s)\<rparr>"
  have "update_table payments payments_update payment_schema (\<lambda>x. p_id x = p_id p) (failed_payment now) s =
      Inr (length (filter (\<lambda>x. p_id x = p_id p) (payments s)), s\<lparr>payments := upd (\<lambda>x. p_id x = p_id p) (failed_payment now) (payments s)\<rparr>)"
    by (rule payment_update_forward [OF valid]) (simp add: failed_payment_def)
  then obtain n1 where 1: "update_table payments payments_update payment_schema (\<lambda>x. p_id x = p_id p) (failed_payment now) s = Inr (n1, s1)"
    by (simp add: ps s1_def)
  have valid1: "valid_db s1" using valid.closedD [OF valid_updates(4) 1] valid by (simp add: keeps_valid_def)
  define s2 where "s2 = s1\<lparr>rentals := set_row r_id (unpaid_row now r) (rentals s)\<rparr>"
  have "update_table rentals rentals_update rental_schema (\<lambda>x. r_id x = p_rental p) (unpaid_row now) s1 =
      Inr (length (filter (\<lambda>x. r_id x = p_rental p) (rentals s1)), s1\<lparr>rentals := upd (\<lambda>x. r_id x = p_rental p) (unpaid_row now) (rentals s1)\<rparr>)"
    by (rule rental_update_forward [OF valid1]) (use valid_db_checks(3) [OF valid1] unpaid_row_checks in simp_all)
  then obtain n2 where 2: "update_table rentals rentals_update rental_schema (\<lambda>x. r_id x = p_rental p) (unpaid_row now) s1 = Inr (n2, s2)"
    using rs by (simp add: s1_def s2_def)
  have valid2: "valid_db s2" using valid.closedD [OF valid_updates(3) 2] valid1 by (simp add: keeps_valid_def)
  define s3 where "s3 = s2\<lparr>accounts := set_row a_id (available_account now a) (accounts s)\<rparr>"
  have "update_table accounts accounts_update account_schema (\<lambda>x. a_id x = r_account r) (available_account now) s2 =
      Inr (length (filter (\<lambda>x. a_id x = r_account r) (accounts s2)), s2\<lparr>accounts := upd (\<lambda>x. a_id x = r_account r) (available_account now) (accounts s2)\<rparr>)"
    by (rule account_update_forward [OF valid2]) (simp add: available_account_def)
  then obtain n3 where 3: "update_table accounts accounts_update account_schema (\<lambda>x. a_id x = r_account r) (available_account now) s2 = Inr (n3, s3)"
    using as by (simp add: s1_def s2_def s3_def)
  have "events_fresh s3" using fresh by (simp add: events_fresh_def s3_def s2_def s1_def)
  note 4 = insert_event_forward [OF this]
  have "ExpireWaitingPaymentReservation_body i now s = Inr (p_id p \<noteq> 0, expired_reservation_db p r a now s)"
    using 1 2 3 4 unfolding ExpireWaitingPaymentReservation_body_def
    by (simp add: tx_bind_def tx_read_def locked tx_seq_def tx_return_def available_account_def [abs_def] failed_payment_def [abs_def]
        unpaid_row_def [abs_def] expired_reservation_db_def s3_def s2_def s1_def bump_def)
  then show ?thesis by (simp add: ExpireWaitingPaymentReservation_def WithinTransaction_def)
qed

lemma ExpireWaitingPaymentReservation_none:
  assumes valid: "valid_db s" and none: "reservation_locked i now s = []"
  shows "ExpireWaitingPaymentReservation i now s = (Inr False, s)"
proof -
  have "valid_table payment_schema (payments s)" "valid_table rental_schema (rentals s)" "valid_table account_schema (accounts s)"
    using valid by (simp_all add: valid_db_def)
  then show ?thesis
    using none by (simp add: ExpireWaitingPaymentReservation_def ExpireWaitingPaymentReservation_body_def WithinTransaction_def
        tx_bind_def tx_read_def update_nothing tx_seq_def tx_return_def)
qed

section \<open>A pass over the elements that are due\<close>

text \<open>
  What the two clean-up tasks share: every step keeps an invariant and takes its
  element out of the set of those that are due, without adding one.
\<close>

locale cleanup =
  fixes step :: "'i \<Rightarrow> 's \<Rightarrow> 's" and due :: "'s \<Rightarrow> 'k set" and key :: "'i \<Rightarrow> 'k" and inv :: "'s \<Rightarrow> bool"
  assumes step_inv: "inv s \<Longrightarrow> inv (step i s)"
    and step_due: "inv s \<Longrightarrow> due (step i s) \<subseteq> due s - {key i}"
begin

lemma pass_inv: "inv s \<Longrightarrow> inv (fold step xs s)"
  by (induction xs arbitrary: s) (simp_all add: step_inv)

lemma pass_due: "inv s \<Longrightarrow> due (fold step xs s) \<subseteq> due s - key ` set xs"
proof (induction xs arbitrary: s)
  case (Cons x xs)
  then show ?case using step_inv [of s x] step_due [of s x] by fastforce
qed simp

end

definition steady :: "db \<Rightarrow> bool" where
  "steady s \<longleftrightarrow> valid_db s \<and> events_fresh s"

text \<open>The rentals that are due and that no other session holds, with their accounts.\<close>

definition due_rentals :: "(int \<Rightarrow> bool) \<Rightarrow> time \<Rightarrow> db \<Rightarrow> (int \<times> int) set" where
  "due_rentals busy now s = {(r_id r, r_account r) |r a. r \<in> set (rentals s) \<and> r_status r = 2 \<and> r_end r \<le> pg_ts now \<and> \<not> busy (r_id r) \<and>
     a \<in> set (accounts s) \<and> a_id a = r_account r \<and> a_status a = 4}"

definition due_reservations :: "time \<Rightarrow> db \<Rightarrow> int set" where
  "due_reservations now s = {p_id p |p r. p \<in> set (payments s) \<and> r \<in> set (rentals s) \<and> unpaid_reservation s now p r}"

lemma expired_rental_db_simps [simp]:
  "rentals (expired_rental_db r a now s) = set_row r_id (expired_row s now r) (rentals s)"
  "accounts (expired_rental_db r a now s) = set_row a_id (available_account now a) (accounts s)"
  "payments (expired_rental_db r a now s) = payments s" "users (expired_rental_db r a now s) = users s" "holds (expired_rental_db r a now s) = holds s"
  by (simp_all add: expired_rental_db_def)

lemma available_account_simps [simp]: "a_id (available_account now a) = a_id a" "a_status (available_account now a) = 2"
  by (simp_all add: available_account_def)

lemma events_fresh_append:
  "events_fresh s \<Longrightarrow> events t = events s @ [new_event u a r ty ip agent m c (sequences s Events)] \<Longrightarrow> sequences t Events = sequences s Events + 1 \<Longrightarrow> events_fresh t"
  by (auto simp: events_fresh_def new_event_def)

lemma ExpireRental_valid: "valid_db s \<Longrightarrow> valid_db (snd (ExpireRental busy i acc now s))"
proof -
  have "valid.closed (tx_bind (expire_statement busy i acc now) (\<lambda>(lockedCount, accountUpdated, auditInserted).
       if lockedCount = 0 then tx_return False
       else tx_seq (fail_if (accountUpdated = 0 \<or> auditInserted = 0) (ErrText ''expire rental transition did not update all required records''))
            (tx_return True)))"
    unfolding expire_statement_def insert_event_def Let_def by (intro closed_intros)
  then show "valid_db s \<Longrightarrow> valid_db (snd (ExpireRental busy i acc now s))"
    using valid.within_closed by (fastforce simp: ExpireRental_def keeps_valid_def)
qed

lemma ExpireWaitingPaymentReservation_valid: "valid_db s \<Longrightarrow> valid_db (snd (ExpireWaitingPaymentReservation i now s))"
proof -
  have "valid.closed (ExpireWaitingPaymentReservation_body i now)"
    unfolding ExpireWaitingPaymentReservation_body_def insert_event_def by (intro closed_intros)
  then show "valid_db s \<Longrightarrow> valid_db (snd (ExpireWaitingPaymentReservation i now s))"
    using valid.within_closed by (fastforce simp: ExpireWaitingPaymentReservation_def keeps_valid_def)
qed

interpretation expired: cleanup "\<lambda>x s. snd (ExpireRental busy (xr_ID x) (xr_AccountID x) now s)" "due_rentals busy now"
  "\<lambda>x. (xr_ID x, xr_AccountID x)" steady for busy now
proof
  fix s x
  assume inv: "steady s"
  then have valid: "valid_db s" and fresh: "events_fresh s" by (simp_all add: steady_def)
  let ?t = "snd (ExpireRental busy (xr_ID x) (xr_AccountID x) now s)"
  have "events_fresh ?t \<and> due_rentals busy now ?t \<subseteq> due_rentals busy now s - {(xr_ID x, xr_AccountID x)}"
  proof (rule expiry_locked_cases [OF valid, of busy "xr_ID x" "xr_AccountID x" now])
    assume none: "expiry_locked busy (xr_ID x) (xr_AccountID x) now s = []"
      "\<not> (\<exists>r a. r \<in> set (rentals s) \<and> r_id r = xr_ID x \<and> r_account r = xr_AccountID x \<and> r_status r = 2 \<and> r_end r \<le> pg_ts now \<and> \<not> busy (xr_ID x) \<and>
         a \<in> set (accounts s) \<and> a_id a = xr_AccountID x \<and> a_status a = 4)"
    then have "?t = s" using ExpireRental_none [OF valid] by simp
    moreover have "(xr_ID x, xr_AccountID x) \<notin> due_rentals busy now s" using none(2) by (auto simp: due_rentals_def)
    ultimately show ?thesis using fresh by simp
  next
    fix r a
    assume locked: "expiry_locked busy (xr_ID x) (xr_AccountID x) now s = [r]" and r: "r \<in> set (rentals s)" "r_id r = xr_ID x"
      "r_account r = xr_AccountID x" "r_status r = 2" and a: "a \<in> set (accounts s)" "a_id a = xr_AccountID x"
    have "a_id a = r_account r" using r(3) a(2) by simp
    then have t: "?t = expired_rental_db r a now s" using ExpireRental_row [OF valid fresh locked r(1,4) a(1)] by simp
    have "events_fresh ?t" unfolding t by (rule events_fresh_append [OF fresh]) (simp_all add: expired_rental_db_def)
    moreover have "due_rentals busy now ?t \<subseteq> due_rentals busy now s - {(xr_ID x, xr_AccountID x)}"
      unfolding t due_rentals_def using r(2) by (fastforce dest!: set_row_cases)
    ultimately show ?thesis ..
  qed
  then show "steady ?t" "due_rentals busy now ?t \<subseteq> due_rentals busy now s - {(xr_ID x, xr_AccountID x)}"
    using ExpireRental_valid [OF valid] by (simp_all add: steady_def)
qed

interpretation unpaid: cleanup "\<lambda>x s. snd (ExpireWaitingPaymentReservation (xw_PaymentID x) now s)" "due_reservations now"
  xw_PaymentID steady for now
proof
  fix s x
  assume inv: "steady s"
  then have valid: "valid_db s" and fresh: "events_fresh s" by (simp_all add: steady_def)
  let ?t = "snd (ExpireWaitingPaymentReservation (xw_PaymentID x) now s)"
  have "events_fresh ?t \<and> due_reservations now ?t \<subseteq> due_reservations now s - {xw_PaymentID x}"
  proof (rule reservation_locked_cases [OF valid, of "xw_PaymentID x" now])
    assume none: "reservation_locked (xw_PaymentID x) now s = []"
      "\<not> (\<exists>p\<in>set (payments s). p_id p = xw_PaymentID x \<and> (\<exists>r\<in>set (rentals s). unpaid_reservation s now p r))"
    then have "?t = s" using ExpireWaitingPaymentReservation_none [OF valid] by simp
    moreover have "xw_PaymentID x \<notin> due_reservations now s" using none(2) by (auto simp: due_reservations_def)
    ultimately show ?thesis using fresh by simp
  next
    fix p r
    assume locked: "reservation_locked (xw_PaymentID x) now s = [(p, r)]" and p: "p \<in> set (payments s)" "p_id p = xw_PaymentID x"
      and r: "r \<in> set (rentals s)" and unpaid: "unpaid_reservation s now p r"
    then obtain a where a: "a \<in> set (accounts s)" "a_id a = r_account r" and rid: "r_id r = p_rental p"
      by (auto simp: unpaid_reservation_def list_ex_iff)
    have t: "?t = expired_reservation_db p r a now s"
      using ExpireWaitingPaymentReservation_row [OF valid fresh locked p(1) r rid a] by simp
    have "events_fresh ?t" unfolding t by (rule events_fresh_append [OF fresh]) (simp_all add: expired_reservation_db_def)
    have still: "p' \<in> set (payments s) \<and> r' \<in> set (rentals s) \<and> unpaid_reservation s now p' r' \<and> p_id p' \<noteq> p_id p"
      if "p' \<in> set (payments ?t)" "r' \<in> set (rentals ?t)" "unpaid_reservation ?t now p' r'" for p' r'
    proof -
      have p': "p' \<in> set (payments s)" "p_id p' \<noteq> p_id p" and r': "r' \<in> set (rentals s)"
        using that unfolding t expired_reservation_db_def by (auto dest!: set_row_cases simp: unpaid_reservation_def failed_payment_def)
      have "list_ex (\<lambda>a. a_id a = r_account r' \<and> a_status a = 3) (accounts s)"
        using that(3) unfolding t expired_reservation_db_def unpaid_reservation_def list_ex_iff by (auto dest!: set_row_cases)
      then show ?thesis using that(3) p' r' by (simp add: unpaid_reservation_def)
    qed
    have "due_reservations now ?t \<subseteq> due_reservations now s - {xw_PaymentID x}"
    proof (rule subsetI)
      fix y
      assume "y \<in> due_reservations now ?t"
      then obtain p' r' where y: "y = p_id p'" "p' \<in> set (payments ?t)" "r' \<in> set (rentals ?t)" "unpaid_reservation ?t now p' r'"
        unfolding due_reservations_def by auto
      show "y \<in> due_reservations now s - {xw_PaymentID x}"
        using still [OF y(2-4)] y(1) p(2) by (auto simp: due_reservations_def)
    qed
    with \<open>events_fresh ?t\<close> show ?thesis ..
  qed
  then show "steady ?t" "due_reservations now ?t \<subseteq> due_reservations now s - {xw_PaymentID x}"
    using ExpireWaitingPaymentReservation_valid [OF valid] by (simp_all add: steady_def)
qed

end
