(* ===== verification/Workers_Properties.thy ===== *)
theory Workers_Properties
  imports Workers
begin

text \<open>
  What the worker statements and the clean-up tasks guarantee.
\<close>

section \<open>What the statements and the tasks do\<close>

lemma active_db_steady: "steady active_db"
  by code_simp

lemma active_due: "(7, 5) \<in> due_rentals (\<lambda>_. False) (3 * Hour) active_db"
proof -
  have "rental7\<lparr>r_status := 2\<rparr> \<in> set (rentals active_db)" "account5\<lparr>a_status := 4\<rparr> \<in> set (accounts active_db)"
    by (simp_all add: active_db_def)
  moreover have "r_end rental7 \<le> pg_ts (3 * Hour)" by code_simp
  ultimately show ?thesis unfolding due_rentals_def
    by (intro CollectI exI [of _ "rental7\<lparr>r_status := 2\<rparr>"] exI [of _ "account5\<lparr>a_status := 4\<rparr>"]) (simp add: rental7_def account5_def)
qed

text \<open>
  C31: The statement that ends a rental does so exactly when the rental is due: it is active, its
  planned end is not after the clock (a rental whose end is the clock's time is due, where the
  documents speak of a time after the end), its account is the one given and is rented, and no other
  session holds the rows. Then the rental becomes expired, finished at its planned end and
  with a review deadline iff its deposit is held, the account becomes available, one event is recorded, and
  nothing else changes; otherwise the statement reports no change and leaves the database as it is.
\<close>

lemma expire_rental_exact:
  assumes "steady s"
  shows "(if (i, acc) \<in> due_rentals busy now s
     then \<exists>r a. r \<in> set (rentals s) \<and> r_id r = i \<and> r_account r = acc \<and> r_status r = 2 \<and> a \<in> set (accounts s) \<and> a_id a = acc \<and>
            ExpireRental busy i acc now s = (Inr True, expired_rental_db r a now s)
     else ExpireRental busy i acc now s = (Inr False, s))"
proof -
  have valid: "valid_db s" and fresh: "events_fresh s" using assms by (simp_all add: steady_def)
  show ?thesis
  proof (rule expiry_locked_cases [OF valid, of busy i acc now])
    assume none: "expiry_locked busy i acc now s = []"
      "\<not> (\<exists>r a. r \<in> set (rentals s) \<and> r_id r = i \<and> r_account r = acc \<and> r_status r = 2 \<and> r_end r \<le> pg_ts now \<and> \<not> busy i \<and>
         a \<in> set (accounts s) \<and> a_id a = acc \<and> a_status a = 4)"
    then have "(i, acc) \<notin> due_rentals busy now s" by (auto simp: due_rentals_def)
    then show ?thesis using ExpireRental_none [OF valid none(1)] by simp
  next
    fix r a
    assume locked: "expiry_locked busy i acc now s = [r]" and r: "r \<in> set (rentals s)" "r_id r = i" "r_account r = acc" "r_status r = 2"
      "r_end r \<le> pg_ts now" "\<not> busy i" and a: "a \<in> set (accounts s)" "a_id a = acc" "a_status a = 4"
    have "(i, acc) \<in> due_rentals busy now s" using r a by (auto simp: due_rentals_def)
    moreover have "ExpireRental busy i acc now s = (Inr True, expired_rental_db r a now s)"
      by (rule ExpireRental_row [OF valid fresh locked r(1,4) a(1)]) (use r a in simp)
    ultimately show ?thesis using r a by auto
  qed
qed

lemma expire_rental_exact_witness:
  "\<exists>r a. ExpireRental (\<lambda>_. False) 7 5 (3 * Hour) active_db = (Inr True, expired_rental_db r a (3 * Hour) active_db)"
proof -
  have "steady active_db" by (rule active_db_steady)
  moreover have "(7, 5) \<in> due_rentals (\<lambda>_. False) (3 * Hour) active_db" by (rule active_due)
  ultimately show ?thesis using expire_rental_exact [of active_db 7 5 "\<lambda>_. False" "3 * Hour"] by auto
qed

text \<open>
  C32: After a run of the expiry task no rental is left that was due (its end is the clock's time or before it) and that no other session held, however many
  there were, and whatever happened to each of them; the database is well formed.
\<close>

lemma expired_cleanup_complete:
  assumes "steady s"
  shows "due_rentals busy now (ExpiredCleanup busy now s) = {} \<and> valid_db (ExpiredCleanup busy now s)"
proof -
  let ?xs = "map (\<lambda>r. \<lparr>xr_ID = r_id r, xr_AccountID = r_account r\<rparr>)
    (sort_key r_end (sort_key r_id (filter (\<lambda>r. r_status r = 2 \<and> r_end r \<le> pg_ts now) (rentals s))))"
  have run: "ExpiredCleanup busy now s = fold (\<lambda>x u. snd (ExpireRental busy (xr_ID x) (xr_AccountID x) now u)) ?xs s"
    by (simp add: ExpiredCleanup_def GetExpiredRentals_def tx_read_def)
  have "due_rentals busy now s \<subseteq> (\<lambda>x. (xr_ID x, xr_AccountID x)) ` set ?xs"
    by (auto simp: due_rentals_def image_image)
  then show ?thesis
    using expired.pass_due [OF assms, of busy now ?xs] expired.pass_inv [OF assms, of busy now ?xs] by (auto simp: run steady_def)
qed

lemma expired_cleanup_complete_witness:
  "due_rentals (\<lambda>_. False) (3 * Hour) active_db \<noteq> {} \<and>
   due_rentals (\<lambda>_. False) (3 * Hour) (ExpiredCleanup (\<lambda>_. False) (3 * Hour) active_db) = {}"
  using active_due expired_cleanup_complete [OF active_db_steady] by blast

text \<open>
  After a run of the task for unpaid reservations no payment is left whose reservation ran out: each is failed,
  its rental ended and its account free again.
\<close>

lemma waiting_payment_cleanup_complete:
  assumes "steady s"
  shows "due_reservations now (WaitingPaymentCleanup now s) = {} \<and> valid_db (WaitingPaymentCleanup now s)"
proof -
  let ?xs = "map (\<lambda>(p, r). \<lparr>xw_PaymentID = p_id p, xw_RentalID = r_id r, xw_AccountID = r_account r, xw_UserID = r_user r\<rparr>)
    (sort_key (\<lambda>(p, r). r_payment_expires r) (sort_key (\<lambda>(p, r). p_id p) [(p, r). p \<leftarrow> payments s, r \<leftarrow> rentals s, unpaid_reservation s now p r]))"
  have run: "WaitingPaymentCleanup now s = fold (\<lambda>x u. snd (ExpireWaitingPaymentReservation (xw_PaymentID x) now u)) ?xs s"
    by (simp add: WaitingPaymentCleanup_def GetExpiredWaitingPaymentReservations_def tx_read_def)
  have "due_reservations now s \<subseteq> xw_PaymentID ` set ?xs"
    by (force simp: due_reservations_def)
  then show ?thesis
    using unpaid.pass_due [OF assms, of now ?xs] unpaid.pass_inv [OF assms, of now ?xs] by (auto simp: run steady_def)
qed

lemma waiting_db_due: "due_reservations (15 * Minute) waiting_db \<noteq> {}"
proof -
  have "payment9 \<in> set (payments waiting_db)" "rental7 \<in> set (rentals waiting_db)"
    by (simp_all add: waiting_db_def)
  moreover have "unpaid_reservation waiting_db (15 * Minute) payment9 rental7" by code_simp
  ultimately show ?thesis unfolding due_reservations_def by blast
qed

lemma waiting_payment_cleanup_complete_witness:
  "due_reservations (15 * Minute) waiting_db \<noteq> {} \<and>
   due_reservations (15 * Minute) (WaitingPaymentCleanup (15 * Minute) waiting_db) = {}"
proof -
  have "steady waiting_db" by code_simp
  then show ?thesis using waiting_db_due waiting_payment_cleanup_complete by blast
qed

text \<open>
  An account that is in use is never taken away: the check for bans disables an account only when it is neither
  reserved nor rented and has no waiting or active rental; otherwise it reports a conflict, or that there is no such
  account, and changes nothing. In particular every rental that runs keeps its account.
\<close>

lemma accounts_in_use_are_not_disabled:
  assumes valid: "valid_db s"
  shows "case DisableAccountIfIdle i s of
     (Inr _, t) \<Rightarrow> \<exists>a\<in>set (accounts s). a_id a = i \<and> a_deleted a = None \<and> a_status a \<notin> {3, 4} \<and>
        (\<forall>r\<in>set (rentals s). r_account r = i \<longrightarrow> r_status r \<notin> {1, 2}) \<and>
        t = s\<lparr>accounts := set_row a_id (a\<lparr>a_status := 6, a_deleted := Some (clock s), a_updated := clock s\<rparr>) (accounts s)\<rparr>
   | (Inl e, t) \<Rightarrow> t = s \<and> (e = ErrNoRows \<or> e = AccountErr ErrAccountLifecycleConflict)"
proof -
  note keys = valid_db_keys [OF valid]
  have ok: "valid_table account_schema (accounts s)" using valid by (simp add: valid_db_def)
  define busy where "busy = list_ex (\<lambda>r. r_account r = i \<and> r_status r \<in> {1, 2}) (rentals s)"
  define f :: "account_row \<Rightarrow> account_row" where "f = (\<lambda>x. x\<lparr>a_status := 6, a_deleted := Some (clock s), a_updated := clock s\<rparr>)"
  note run = DisableAccountIfIdle_def disableAccountIfIdle_def WithinTransaction_def tx_bind_def tx_read_def db_now_def tx_seq_def
    fail_if_def tx_fail_def tx_return_def Let_def
  have f: "\<And>P. update_table accounts accounts_update account_schema P f s = Inr (length (filter P (accounts s)), s\<lparr>accounts := upd P f (accounts s)\<rparr>)"
    by (rule account_update_forward [OF valid]) (simp add: f_def)
  consider (none) "filter (\<lambda>a. a_id a = i \<and> a_deleted a = None) (accounts s) = []"
    | (row) a where "a \<in> set (accounts s)" "a_id a = i" "a_deleted a = None"
    by (auto simp: filter_empty_conv)
  then show ?thesis
  proof cases
    case none
    then show ?thesis using update_nothing [where get = accounts and put = accounts_update and f = f and s = s, OF ok] by (simp add: run f_def)
  next
    case (row a)
    have same: "y = a" if "y \<in> set (accounts s)" "a_id y = i" for y
      using that row keys(2) by (auto simp: distinct_map inj_on_def)
    have locked: "filter (\<lambda>a. a_id a = i \<and> a_deleted a = None) (accounts s) = [a]"
      by (rule filter_unique [OF keys(2) row(1)]) (use row same in blast)
    define P :: "account_row \<Rightarrow> bool" where "P = (\<lambda>x. a_id x = i \<and> a_status x \<notin> {3, 4} \<and> \<not> busy)"
    have P_eq: "P = (\<lambda>x. a_id x = i \<and> a_status x \<noteq> 3 \<and> a_status x \<noteq> 4 \<and>
        \<not> list_ex (\<lambda>r. r_account r = i \<and> (r_status r = 1 \<or> r_status r = 2)) (rentals s))"
      by (simp add: P_def busy_def)
    have Pc: "filter P (accounts s) = (if P a then [a] else [])"
    proof (cases "P a")
      case True
      have "filter P (accounts s) = [a]"
        by (rule filter_unique [OF keys(2) row(1)]) (use True row(2) same in \<open>unfold P_def, blast\<close>)
      then show ?thesis using True by simp
    next
      case False
      have "\<not> P y" if "y \<in> set (accounts s)" for y using False same [OF that] by (cases "a_id y = i") (auto simp: P_def)
      then show ?thesis using False by (simp add: filter_empty_conv)
    qed
    have "disableAccountIfIdle i s = (if P a then Inr ((), s\<lparr>accounts := upd P f (accounts s)\<rparr>) else Inl (AccountErr ErrAccountLifecycleConflict))"
      using f [of P] Pc row(2) by (simp add: run locked P_eq [symmetric] f_def [symmetric])
    moreover have "upd P f (accounts s) = set_row a_id (f a) (accounts s)" if "P a"
      by (rule upd_set_row [where P = P, OF keys(2) row(1) that]) (use row(2) in \<open>simp_all add: P_def f_def\<close>)
    ultimately show ?thesis
      using row by (auto simp: DisableAccountIfIdle_def WithinTransaction_def P_def busy_def f_def list_ex_iff)
  qed
qed

lemma accounts_in_use_are_not_disabled_witness:
  "valid_db active_db \<and> (case DisableAccountIfIdle 5 active_db of (Inr _, t) \<Rightarrow> False | (Inl e, t) \<Rightarrow> t = active_db)"
proof -
  have "valid_db active_db" by code_simp
  from accounts_in_use_are_not_disabled [OF this, of 5] show ?thesis
    using \<open>valid_db active_db\<close> by (auto simp: active_db_def waiting_db_def account5_def split: prod.splits sum.splits)
qed

end
