(* ===== verification/Go_Text.thy ===== *)
theory Go_Text
  imports Go_Base
begin

text \<open>
  What the program uses of \<open>unicode/utf8\<close> and \<open>net\<close>: the runes of a string, with the
  replacement character for bytes that are no encoding, the string cut after a number of runes, and the
  canonical text of the IP address that a string denotes.
\<close>

section \<open>Runes\<close>

text \<open>
  \<open>utf8.DecodeRune\<close>: the number of bytes of the encoding at the head of a string, 0 when
  there is none, so that \<open>[]rune(s)\<close> has the replacement character for one byte.
\<close>

definition byte :: "char \<Rightarrow> nat" where "byte c = of_char c"

definition cont :: "char \<Rightarrow> bool" where "cont c \<longleftrightarrow> 0x80 \<le> byte c \<and> byte c \<le> 0xBF"

definition second_byte :: "nat \<Rightarrow> char \<Rightarrow> bool" where
  "second_byte b c \<longleftrightarrow>
     (if b = 0xE0 then 0xA0 else if b = 0xF0 then 0x90 else 0x80) \<le> byte c \<and>
     byte c \<le> (if b = 0xED then 0x9F else if b = 0xF4 then 0x8F else 0xBF)"

definition rune_size :: "char \<Rightarrow> string \<Rightarrow> nat" where
  "rune_size c s =
     (let b = byte c in
      if b < 0x80 then 1
      else if 0xC2 \<le> b \<and> b \<le> 0xDF then (case s of d # _ \<Rightarrow> if cont d then 2 else 0 | _ \<Rightarrow> 0)
      else if 0xE0 \<le> b \<and> b \<le> 0xEF then (case s of d # e # _ \<Rightarrow> if second_byte b d \<and> cont e then 3 else 0 | _ \<Rightarrow> 0)
      else if 0xF0 \<le> b \<and> b \<le> 0xF4 then (case s of d # e # f # _ \<Rightarrow> if second_byte b d \<and> cont e \<and> cont f then 4 else 0 | _ \<Rightarrow> 0)
      else 0)"

text \<open>The runes of a string, each as its UTF-8 encoding.\<close>

function runes :: "string \<Rightarrow> string list" where
  "runes [] = []"
| "runes (c # s) =
     (case rune_size c s of
        0 \<Rightarrow> [CHR 0xEF, CHR 0xBF, CHR 0xBD] # runes s
      | Suc n \<Rightarrow> (c # take n s) # runes (drop n s))"
  by pat_completeness auto
termination by (relation "measure length") auto

definition rune_count :: "string \<Rightarrow> nat" where
  "rune_count s = length (runes s)"

lemma rune_size_le: "rune_size c s \<le> 4"
  by (simp add: rune_size_def Let_def split: list.splits)

lemma rune_bytes: "x \<in> set (runes s) \<Longrightarrow> length x \<le> 4"
proof (induction s rule: runes.induct)
  case (2 c s)
  then show ?case using rune_size_le [of c s] by (fastforce split: nat.splits)
qed simp

lemma rune_count_le: "rune_count s \<le> length s"
proof -
  have "length (runes s) \<le> length s"
  proof (induction s rule: runes.induct)
    case (2 c s)
    show ?case
    proof (cases "rune_size c s")
      case (Suc n)
      then show ?thesis using 2(2) [OF Suc] by simp
    qed (use 2(1) in simp)
  qed simp
  then show ?thesis by (simp add: rune_count_def)
qed

text \<open>\<open>utf8.ValidString\<close>, which holds of a string of ASCII characters.\<close>

function valid_utf8 :: "string \<Rightarrow> bool" where
  "valid_utf8 [] = True"
| "valid_utf8 (c # s) = (case rune_size c s of 0 \<Rightarrow> False | Suc n \<Rightarrow> valid_utf8 (drop n s))"
  by pat_completeness auto
termination by (relation "measure length") auto

lemma valid_utf8_ascii: "\<forall>c\<in>set s. byte c < 0x80 \<Longrightarrow> valid_utf8 s"
  by (induction s) (simp_all add: rune_size_def)

text \<open>A string cut after its first \<open>n\<close> runes.\<close>

definition first_runes :: "nat \<Rightarrow> string \<Rightarrow> string" where
  "first_runes n s = concat (take n (runes s))"

lemma first_runes_length: "length (first_runes n s) \<le> 4 * n"
proof -
  have "sum_list (map length xs) \<le> 4 * length xs" if "\<And>x. x \<in> set xs \<Longrightarrow> length x \<le> 4" for xs :: "string list"
    using that by (induction xs) force+
  from this [of "take n (runes s)"] have "length (first_runes n s) \<le> 4 * length (take n (runes s))"
    using rune_bytes by (auto simp: first_runes_def length_concat dest: in_set_takeD)
  also have "\<dots> \<le> 4 * n" by simp
  finally show ?thesis .
qed

section \<open>Addresses\<close>

text \<open>
  \<open>net.ParseIP\<close> and \<open>IP.String\<close>: a dotted address of four octets, or groups of
  up to four hexadecimal digits with at most one \<open>::\<close> and perhaps a dotted end.
\<close>

fun fields :: "char \<Rightarrow> string \<Rightarrow> string list" where
  "fields sep [] = [[]]"
| "fields sep (c # s) = (if c = sep then [] # fields sep s else (case fields sep s of w # ws \<Rightarrow> (c # w) # ws | [] \<Rightarrow> [[c]]))"

definition parse_octet :: "string \<Rightarrow> nat option" where
  "parse_octet s =
     (case parse_uint s of
        None \<Rightarrow> None
      | Some n \<Rightarrow> if n \<le> 255 \<and> (1 < length s \<longrightarrow> hd s \<noteq> CHR ''0'') then Some n else None)"

definition parse_ipv4 :: "string \<Rightarrow> nat list option" where
  "parse_ipv4 s =
     (let os = map parse_octet (fields (CHR ''.'') s)
      in if length os = 4 \<and> None \<notin> set os then Some (map the os) else None)"

definition hex_val :: "char \<Rightarrow> nat option" where
  "hex_val c = (if is_digit c then Some (byte c - 48) else if in_class c 97 102 then Some (byte c - 87)
     else if in_class c 65 70 then Some (byte c - 55) else None)"

fun hex_value :: "nat \<Rightarrow> string \<Rightarrow> nat option" where
  "hex_value acc [] = Some acc"
| "hex_value acc (c # s) = (case hex_val c of None \<Rightarrow> None | Some d \<Rightarrow> hex_value (16 * acc + d) s)"

definition parse_group :: "string \<Rightarrow> nat option" where
  "parse_group s = (if s = [] \<or> 4 < length s then None else hex_value 0 s)"

text \<open>Groups separated by colons; the last one may be a dotted address, which is two groups.\<close>

fun parse_groups :: "string list \<Rightarrow> nat list option" where
  "parse_groups [] = Some []"
| "parse_groups (w # ws) =
     (case (if ws = [] \<and> CHR ''.'' \<in> set w
            then map_option (\<lambda>os. [256 * os ! 0 + os ! 1, 256 * os ! 2 + os ! 3]) (parse_ipv4 w)
            else map_option (\<lambda>n. [n]) (parse_group w)) of
        None \<Rightarrow> None
      | Some gs \<Rightarrow> map_option (\<lambda>rest. gs @ rest) (parse_groups ws))"

fun split_ellipsis :: "string \<Rightarrow> (string \<times> string) option" where
  "split_ellipsis (c # d # s) =
     (if c = CHR '':'' \<and> d = CHR '':'' then Some ([], s) else map_option (\<lambda>(a, b). (c # a, b)) (split_ellipsis (d # s)))"
| "split_ellipsis s = None"

definition some_groups :: "string \<Rightarrow> nat list option" where
  "some_groups s = (if s = [] then Some [] else parse_groups (fields (CHR '':'') s))"

definition parse_ipv6 :: "string \<Rightarrow> nat list option" where
  "parse_ipv6 s =
     (case split_ellipsis s of
        None \<Rightarrow> (case parse_groups (fields (CHR '':'') s) of Some gs \<Rightarrow> if length gs = 8 then Some gs else None | None \<Rightarrow> None)
      | Some (a, b) \<Rightarrow>
          if CHR ''.'' \<in> set a then None
          else (case (some_groups a, some_groups b) of
             (Some xs, Some ys) \<Rightarrow>
               if length xs + length ys < 8 then Some (xs @ replicate (8 - length xs - length ys) 0 @ ys) else None
           | _ \<Rightarrow> None))"

definition dotted :: "nat list \<Rightarrow> string" where
  "dotted os = concat (map (\<lambda>i. (if i = 0 then [] else ''.'') @ dec_digits (os ! i)) [0..<4])"

definition hex_char :: "nat \<Rightarrow> char" where
  "hex_char d = char_of (if d < 10 then 48 + d else 87 + d)"

fun hex_digits :: "nat \<Rightarrow> string" where
  "hex_digits n = (if n < 16 then [hex_char n] else hex_digits (n div 16) @ [hex_char (n mod 16)])"

declare hex_digits.simps [simp del]

text \<open>The first of the longest runs of at least two zero groups is written as \<open>::\<close>.\<close>

definition zeros_at :: "nat list \<Rightarrow> nat \<Rightarrow> nat" where
  "zeros_at gs i = length (takeWhile (\<lambda>g. g = 0) (drop i gs))"

definition longest_zeros :: "nat list \<Rightarrow> nat \<times> nat" where
  "longest_zeros gs = fold (\<lambda>i (b, n). if 2 \<le> zeros_at gs i \<and> n < zeros_at gs i then (i, zeros_at gs i) else (b, n)) [0..<8] (0, 0)"

fun colons :: "string list \<Rightarrow> string" where
  "colons [] = []"
| "colons [w] = w"
| "colons (w # ws) = w @ '':'' @ colons ws"

definition format_ipv6 :: "nat list \<Rightarrow> string" where
  "format_ipv6 gs =
     (let (b, n) = longest_zeros gs; ws = map hex_digits gs
      in if n = 0 then colons ws else colons (take b ws) @ ''::'' @ colons (drop (b + n) ws))"

text \<open>The text of the address that a string denotes: an address that maps an IPv4 one is written as that.\<close>

definition ParseIP_String :: "string \<Rightarrow> string option" where
  "ParseIP_String s =
     (if CHR '':'' \<notin> set s then map_option dotted (parse_ipv4 s)
      else (case parse_ipv6 s of
              None \<Rightarrow> None
            | Some gs \<Rightarrow>
                if take 6 gs = [0, 0, 0, 0, 0, 0xFFFF]
                then Some (dotted [gs ! 6 div 256, gs ! 6 mod 256, gs ! 7 div 256, gs ! 7 mod 256])
                else Some (format_ipv6 gs)))"

end
