(* ===== verification/Adjustment.thy ===== *)
theory Adjustment
  imports Go_Text Evolution Sample Settlement
begin

text \<open>
  Corrections of a user's balance by an administrator
  (\<open>internal/payment/balance_adjustment.go\<close> and \<open>balance_adjustment_repository.go\<close>). The metadata of
  the ledger entry is the JSON object that a replay is compared with; \<open>RecordedAt\<close> is an instant
  in its RFC 3339 form. The advisory lock on the key (\<open>LockBalanceAdjustmentKey\<close>) has no effect where
  transactions run one after the other.
\<close>

section \<open>Requests and records\<close>

record AdminBalanceAdjustmentInput =
  abi_Amount :: int
  abi_Currency :: string
  abi_ReasonCode :: string
  abi_Comment :: string
  abi_IdempotencyKey :: string

record AdminBalanceAdjustmentRecord =
  abr_ActorUserID :: int
  abr_TargetUserID :: int
  abr_Amount :: int
  abr_Magnitude :: int
  abr_Currency :: string
  abr_ReasonCode :: string
  abr_Comment :: string
  abr_ClientIdempotencyKey :: string
  abr_CanonicalIdempotencyKey :: string
  abr_PreviousBalance :: int
  abr_NewBalance :: int
  abr_Metadata :: json

record AdminBalanceAdjustmentResult =
  abx_AdjustmentID :: int
  abx_LedgerEntryID :: int
  abx_ActorUserID :: int
  abx_UserID :: int
  abx_PreviousBalance :: int
  abx_NewBalance :: int
  abx_Amount :: int
  abx_Currency :: string
  abx_ReasonCode :: string
  abx_Comment :: string
  abx_IdempotencyKey :: string
  abx_CanonicalIdempotencyKey :: string
  abx_IdempotentReplay :: bool
  abx_CreatedAt :: time
  abx_entryType :: int

text \<open>\<open>RecordedAt\<close> is a JSON string, an instant in its RFC 3339 form.\<close>

record adminBalanceAdjustmentMetadata =
  abm_Event :: string
  abm_ActorUserID :: int
  abm_TargetUserID :: int
  abm_SignedAmount :: int
  abm_PreviousBalance :: int
  abm_NewBalance :: int
  abm_ReasonCode :: string
  abm_Comment :: string
  abm_ClientIdempotencyKey :: string
  abm_RecordedAt :: jval

section \<open>Metadata as JSON\<close>

definition metadata_json :: "adminBalanceAdjustmentMetadata \<Rightarrow> json" where
  "metadata_json m =
     [(''event'', JStr (abm_Event m)), (''actor_user_id'', JInt (abm_ActorUserID m)), (''target_user_id'', JInt (abm_TargetUserID m)),
      (''signed_amount'', JInt (abm_SignedAmount m)), (''previous_balance'', JInt (abm_PreviousBalance m)),
      (''new_balance'', JInt (abm_NewBalance m)), (''reason_code'', JStr (abm_ReasonCode m))] @
     (if abm_Comment m = [] then [] else [(''comment'', JStr (abm_Comment m))]) @
     [(''client_idempotency_key'', JStr (abm_ClientIdempotencyKey m)), (''recorded_at'', abm_RecordedAt m)]"

definition unmarshal_error :: "string \<Rightarrow> err" where
  "unmarshal_error key = ErrText (''json: cannot unmarshal '' @ key)"

definition json_int :: "json \<Rightarrow> string \<Rightarrow> err + int" where
  "json_int j key = (case map_of j key of None \<Rightarrow> Inr 0 | Some JNull \<Rightarrow> Inr 0
     | Some (JInt i) \<Rightarrow> if is_i64 i then Inr i else Inl (unmarshal_error key) | Some _ \<Rightarrow> Inl (unmarshal_error key))"

definition json_string :: "json \<Rightarrow> string \<Rightarrow> err + string" where
  "json_string j key = (case map_of j key of None \<Rightarrow> Inr [] | Some JNull \<Rightarrow> Inr []
     | Some (JStr v) \<Rightarrow> Inr v | Some _ \<Rightarrow> Inl (unmarshal_error key))"

definition json_instant :: "json \<Rightarrow> string \<Rightarrow> err + jval" where
  "json_instant j key = (case map_of j key of None \<Rightarrow> Inr (JStr []) | Some JNull \<Rightarrow> Inr (JStr [])
     | Some (JStr v) \<Rightarrow> Inr (JStr v) | Some (JTime t) \<Rightarrow> Inr (JTime t) | Some _ \<Rightarrow> Inl (unmarshal_error key))"

definition unmarshal_metadata :: "json \<Rightarrow> err + adminBalanceAdjustmentMetadata" where
  "unmarshal_metadata j =
     and_then (json_string j ''event'') (\<lambda>event. and_then (json_int j ''actor_user_id'') (\<lambda>actor.
     and_then (json_int j ''target_user_id'') (\<lambda>target. and_then (json_int j ''signed_amount'') (\<lambda>amount.
     and_then (json_int j ''previous_balance'') (\<lambda>previous. and_then (json_int j ''new_balance'') (\<lambda>new.
     and_then (json_string j ''reason_code'') (\<lambda>reason. and_then (json_string j ''comment'') (\<lambda>comment.
     and_then (json_string j ''client_idempotency_key'') (\<lambda>key. and_then (json_instant j ''recorded_at'') (\<lambda>at.
     Inr \<lparr>abm_Event = event, abm_ActorUserID = actor, abm_TargetUserID = target, abm_SignedAmount = amount, abm_PreviousBalance = previous,
       abm_NewBalance = new, abm_ReasonCode = reason, abm_Comment = comment, abm_ClientIdempotencyKey = key, abm_RecordedAt = at\<rparr>))))))))))"

section \<open>Validation\<close>

definition isSafeBalanceAdjustmentIdempotencyKey :: "string \<Rightarrow> bool" where
  "isSafeBalanceAdjustmentIdempotencyKey key =
     (if length key < 8 \<or> 128 < length key then False
      else list_all (\<lambda>c. is_lower c \<or> is_upper c \<or> is_digit c \<or> c = CHR ''-'' \<or> c = CHR ''_'' \<or> c = CHR ''.'' \<or> c = CHR '':'') key)"

definition adminBalanceAdjustmentKeyPrefix :: string where
  "adminBalanceAdjustmentKeyPrefix = ''admin:balance-adjustment:''"

definition normalizeAdminBalanceAdjustment :: "int \<Rightarrow> int \<Rightarrow> AdminBalanceAdjustmentInput \<Rightarrow> err + AdminBalanceAdjustmentRecord" where
  "normalizeAdminBalanceAdjustment actorUserID targetUserID input =
     (if actorUserID \<le> 0 \<or> targetUserID \<le> 0 then Inl (PaymentErr ErrFinancialUserNotFound)
      else if abi_Amount input = 0 then Inl (AdjustmentErr ErrBalanceAdjustmentAmountRequired)
      else if abi_Amount input = MinInt64 then Inl (AdjustmentErr ErrBalanceAdjustmentOverflow)
      else let currency = to_upper (trim_space (abi_Currency input)) in
        if currency \<noteq> ''USD'' then Inl (AdjustmentErr ErrBalanceAdjustmentCurrencyUnsupported)
        else let reasonCode = trim_space (abi_ReasonCode input) in
          if \<not> isSafeReasonCode reasonCode then Inl (AdjustmentErr ErrBalanceAdjustmentReasonRequired)
          else let comment = trim_space (abi_Comment input) in
            if 500 < rune_count comment then Inl (AdjustmentErr ErrBalanceAdjustmentCommentTooLong)
            else let clientKey = trim_space (abi_IdempotencyKey input) in
              if \<not> isSafeBalanceAdjustmentIdempotencyKey clientKey then Inl (AdjustmentErr ErrBalanceAdjustmentIdempotencyRequired)
              else let magnitude = (if abi_Amount input < 0 then i64 (- abi_Amount input) else abi_Amount input) in
                Inr \<lparr>abr_ActorUserID = actorUserID, abr_TargetUserID = targetUserID, abr_Amount = abi_Amount input, abr_Magnitude = magnitude,
                  abr_Currency = currency, abr_ReasonCode = reasonCode, abr_Comment = comment, abr_ClientIdempotencyKey = clientKey,
                  abr_CanonicalIdempotencyKey = adminBalanceAdjustmentKeyPrefix @ clientKey, abr_PreviousBalance = 0, abr_NewBalance = 0,
                  abr_Metadata = []\<rparr>)"

definition checkedBalanceAdjustment :: "int \<Rightarrow> int \<Rightarrow> err + int" where
  "checkedBalanceAdjustment previous amount =
     (if 0 < amount \<and> i64 (MaxInt64 - amount) < previous then Inl (AdjustmentErr ErrBalanceAdjustmentOverflow)
      else if amount < 0 \<and> previous < i64 (- amount) then Inl (AdjustmentErr ErrBalanceAdjustmentWouldBeNegative)
      else Inr (i64 (previous + amount)))"

definition sanitizeBalanceAdjustmentUserAgent :: "string \<Rightarrow> string" where
  "sanitizeBalanceAdjustmentUserAgent v = first_runes 512 (trim_space v)"

definition adminBalanceAdjustmentMatches :: "AdminBalanceAdjustmentResult \<Rightarrow> AdminBalanceAdjustmentRecord \<Rightarrow> bool" where
  "adminBalanceAdjustmentMatches existing requested =
     (let expectedType = (if abr_Amount requested < 0 then ledgerEntryAdminBalanceDebit else ledgerEntryAdminBalanceCredit)
      in abx_entryType existing = expectedType \<and> abx_ActorUserID existing = abr_ActorUserID requested \<and>
         abx_UserID existing = abr_TargetUserID requested \<and> abx_Amount existing = abr_Amount requested \<and>
         abx_Currency existing = abr_Currency requested \<and> abx_ReasonCode existing = abr_ReasonCode requested \<and>
         abx_Comment existing = abr_Comment requested \<and> abx_IdempotencyKey existing = abr_ClientIdempotencyKey requested)"

section \<open>Statements\<close>

definition scan_int :: "int option \<Rightarrow> err + int" where
  "scan_int v = (case v of None \<Rightarrow> Inl (ErrText ''cannot scan NULL into *int64'') | Some i \<Rightarrow> Inr i)"

definition stored_adjustment :: "string \<Rightarrow> ledger_row \<Rightarrow> err + AdminBalanceAdjustmentResult" where
  "stored_adjustment canonicalKey l =
     and_then (scan_int (l_user l)) (\<lambda>user.
     and_then (case unmarshal_metadata (l_metadata l) of
         Inl e \<Rightarrow> Inl (Wrapf ''decode stored balance adjustment metadata'' e) | Inr m \<Rightarrow> Inr m) (\<lambda>m.
     Inr \<lparr>abx_AdjustmentID = l_id l, abx_LedgerEntryID = l_id l, abx_ActorUserID = abm_ActorUserID m, abx_UserID = user,
       abx_PreviousBalance = abm_PreviousBalance m, abx_NewBalance = abm_NewBalance m,
       abx_Amount = (if l_type l = ledgerEntryAdminBalanceDebit then i64 (- l_amount l) else l_amount l),
       abx_Currency = l_currency l, abx_ReasonCode = abm_ReasonCode m, abx_Comment = abm_Comment m,
       abx_IdempotencyKey = abm_ClientIdempotencyKey m, abx_CanonicalIdempotencyKey = canonicalKey, abx_IdempotentReplay = False,
       abx_CreatedAt = l_created l, abx_entryType = l_type l\<rparr>))"

definition GetAdminBalanceAdjustment :: "string \<Rightarrow> (db, AdminBalanceAdjustmentResult) tx" where
  "GetAdminBalanceAdjustment canonicalKey =
     tx_bind (no_rows_as (AdjustmentErr ErrBalanceAdjustmentNotFound)
       (query_row (\<lambda>s. filter (\<lambda>l. l_key l = canonicalKey) (ledger s)))) (\<lambda>l.
     lift_result (stored_adjustment canonicalKey l))"

text \<open>The loop over the locked rows: whether the actor may act, and the balance of the target.\<close>

definition scan_locked_users :: "int \<Rightarrow> int \<Rightarrow> user_row list \<Rightarrow> bool \<times> int option" where
  "scan_locked_users actorUserID targetUserID rows =
     fold (\<lambda>u (actorAllowed, balance).
       (if u_id u = actorUserID then u_role u = ''ADMIN'' \<and> \<not> u_blocked u else actorAllowed,
        if u_id u = targetUserID then Some (u_balance u) else balance)) rows (False, None)"

definition LockAdminAndUserBalanceForAdjustment :: "int \<Rightarrow> int \<Rightarrow> (db, int) tx" where
  "LockAdminAndUserBalanceForAdjustment actorUserID targetUserID =
     tx_bind (tx_read (\<lambda>s. scan_locked_users actorUserID targetUserID
       (sort_key u_id (filter (\<lambda>u. (u_id u = actorUserID \<or> u_id u = targetUserID) \<and> u_deleted u = None) (users s))))) (\<lambda>(actorAllowed, balance).
     tx_seq (fail_if (\<not> actorAllowed) (PaymentErr ErrAdminRequired))
       (case balance of None \<Rightarrow> tx_fail (PaymentErr ErrFinancialUserNotFound) | Some b \<Rightarrow> tx_return b))"

definition adjustment_entry :: "AdminBalanceAdjustmentRecord \<Rightarrow> int \<Rightarrow> time \<Rightarrow> ledger_row" where
  "adjustment_entry r i t =
     \<lparr>l_id = i, l_type = (if abr_Amount r < 0 then ledgerEntryAdminBalanceDebit else ledgerEntryAdminBalanceCredit),
      l_user = Some (abr_TargetUserID r), l_rental = None, l_payment = None, l_account = None, l_amount = abr_Magnitude r,
      l_currency = abr_Currency r, l_provider = Some ''admin'', l_external = None, l_key = abr_CanonicalIdempotencyKey r,
      l_correlation = Some (abr_CanonicalIdempotencyKey r), l_metadata = abr_Metadata r, l_created = t\<rparr>"

definition InsertAdminBalanceAdjustmentLedger :: "AdminBalanceAdjustmentRecord \<Rightarrow> (db, int \<times> time) tx" where
  "InsertAdminBalanceAdjustmentLedger r =
     tx_bind (next_id Ledger) (\<lambda>i. tx_bind db_now (\<lambda>t.
     tx_seq (tx_catch (insert_row ledger ledger_update ledger_schema (adjustment_entry r i t)) (\<lambda>e.
         tx_fail (if sqlstate_is e ''23505'' then AdjustmentErr ErrBalanceAdjustmentIdempotencyConflict else e)))
       (tx_return (i, t))))"

definition SetUserBalance :: "int \<Rightarrow> int \<Rightarrow> time \<Rightarrow> (db, unit) tx" where
  "SetUserBalance userID balance now =
     some_rows (update_table users users_update user_schema (\<lambda>u. u_id u = userID) (\<lambda>u. u\<lparr>u_balance := balance, u_updated := pg_ts now\<rparr>))
       (PaymentErr ErrFinancialUserNotFound)"

text \<open>The text of an address that \<open>net.ParseIP\<close> has accepted is one that the database accepts.\<close>

definition LogAdminBalanceAdjustmentSecurityEvent :: "int \<Rightarrow> string \<Rightarrow> string \<Rightarrow> json \<Rightarrow> (db, unit) tx" where
  "LogAdminBalanceAdjustmentSecurityEvent targetUserID clientIP userAgent metadata =
     insert_event (\<lambda>_. True) (Some targetUserID) None None securityEventTypeBalanceAdjustment (ParseIP_String clientIP) (Some userAgent) metadata None"

section \<open>The operation\<close>

definition adjustment_metadata :: "AdminBalanceAdjustmentRecord \<Rightarrow> int \<Rightarrow> int \<Rightarrow> time \<Rightarrow> adminBalanceAdjustmentMetadata" where
  "adjustment_metadata r actorUserID targetUserID now =
     \<lparr>abm_Event = ''admin_balance_adjustment'', abm_ActorUserID = actorUserID, abm_TargetUserID = targetUserID, abm_SignedAmount = abr_Amount r,
      abm_PreviousBalance = abr_PreviousBalance r, abm_NewBalance = abr_NewBalance r, abm_ReasonCode = abr_ReasonCode r,
      abm_Comment = abr_Comment r, abm_ClientIdempotencyKey = abr_ClientIdempotencyKey r, abm_RecordedAt = JTime now\<rparr>"

definition store_adjustment :: "AdminBalanceAdjustmentRecord \<Rightarrow> int \<Rightarrow> int \<Rightarrow> string \<Rightarrow> string \<Rightarrow> time \<Rightarrow> (db, AdminBalanceAdjustmentResult) tx" where
  "store_adjustment r actorUserID targetUserID clientIP userAgent now =
     tx_bind (wrapf ''insert balance adjustment ledger entry'' (InsertAdminBalanceAdjustmentLedger r)) (\<lambda>(ledgerEntryID, createdAt).
     tx_seq (wrapf ''set adjusted user balance'' (SetUserBalance targetUserID (abr_NewBalance r) now))
    (tx_seq (wrapf ''insert balance adjustment audit log'' (InsertAuditLog actorUserID ''user_balance'' targetUserID ''admin_balance_adjustment''
       [(''balance'', JInt (abr_PreviousBalance r)), (''currency'', JStr (abr_Currency r))]
       [(''balance'', JInt (abr_NewBalance r)), (''currency'', JStr (abr_Currency r)), (''amount'', JInt (abr_Amount r)),
        (''reason_code'', JStr (abr_ReasonCode r)), (''comment'', JStr (abr_Comment r)),
        (''idempotency_key'', JStr (abr_ClientIdempotencyKey r)), (''ledger_entry_id'', JInt ledgerEntryID)]))
    (tx_seq (wrapf ''insert balance adjustment security event''
       (LogAdminBalanceAdjustmentSecurityEvent targetUserID clientIP (sanitizeBalanceAdjustmentUserAgent userAgent) (abr_Metadata r)))
    (tx_return \<lparr>abx_AdjustmentID = ledgerEntryID, abx_LedgerEntryID = ledgerEntryID, abx_ActorUserID = actorUserID, abx_UserID = targetUserID,
       abx_PreviousBalance = abr_PreviousBalance r, abx_NewBalance = abr_NewBalance r, abx_Amount = abr_Amount r, abx_Currency = abr_Currency r,
       abx_ReasonCode = abr_ReasonCode r, abx_Comment = abr_Comment r, abx_IdempotencyKey = abr_ClientIdempotencyKey r,
       abx_CanonicalIdempotencyKey = abr_CanonicalIdempotencyKey r, abx_IdempotentReplay = False, abx_CreatedAt = createdAt, abx_entryType = 0\<rparr>))))"

definition adjusted_record :: "AdminBalanceAdjustmentRecord \<Rightarrow> int \<Rightarrow> int \<Rightarrow> int \<Rightarrow> int \<Rightarrow> time \<Rightarrow> AdminBalanceAdjustmentRecord" where
  "adjusted_record r balance newBalance actorUserID targetUserID now =
     (let r = r\<lparr>abr_PreviousBalance := balance, abr_NewBalance := newBalance\<rparr>
      in r\<lparr>abr_Metadata := metadata_json (adjustment_metadata r actorUserID targetUserID now)\<rparr>)"

definition adjust_balance :: "AdminBalanceAdjustmentRecord \<Rightarrow> int \<Rightarrow> int \<Rightarrow> int \<Rightarrow> string \<Rightarrow> string \<Rightarrow> time \<Rightarrow> (db, AdminBalanceAdjustmentResult) tx" where
  "adjust_balance r balance actorUserID targetUserID clientIP userAgent now =
     tx_bind (lift_result (checkedBalanceAdjustment balance (abr_Amount r))) (\<lambda>newBalance.
     store_adjustment (adjusted_record r balance newBalance actorUserID targetUserID now) actorUserID targetUserID clientIP userAgent now)"

text \<open>The lookup of an earlier request: \<open>None\<close> is the error that there is none.\<close>

definition find_adjustment :: "string \<Rightarrow> (db, AdminBalanceAdjustmentResult option) tx" where
  "find_adjustment canonicalKey =
     tx_catch (tx_bind (GetAdminBalanceAdjustment canonicalKey) (\<lambda>x. tx_return (Some x))) (\<lambda>e.
       if errors_is e (AdjustmentErr ErrBalanceAdjustmentNotFound) then tx_return None
       else tx_fail (Wrapf ''load balance adjustment replay'' e))"

definition AdjustAdminBalance_body :: "AdminBalanceAdjustmentRecord \<Rightarrow> int \<Rightarrow> int \<Rightarrow> string \<Rightarrow> string \<Rightarrow> time \<Rightarrow> (db, AdminBalanceAdjustmentResult) tx" where
  "AdjustAdminBalance_body r actorUserID targetUserID clientIP userAgent now =
     tx_seq (wrap_unless (PaymentErr ErrAdminRequired) ''authorize current admin for balance adjustment'' (Payment_RequireCurrentAdmin actorUserID))
    (tx_bind (wrapf ''lock admin actor and target user balance'' (LockAdminAndUserBalanceForAdjustment actorUserID targetUserID)) (\<lambda>balance.
     tx_bind (find_adjustment (abr_CanonicalIdempotencyKey r)) (\<lambda>existing.
     case existing of
       Some x \<Rightarrow> tx_seq (fail_if (\<not> adminBalanceAdjustmentMatches x r) (AdjustmentErr ErrBalanceAdjustmentIdempotencyConflict))
                   (tx_return (x\<lparr>abx_IdempotentReplay := True\<rparr>))
     | None \<Rightarrow> adjust_balance r balance actorUserID targetUserID clientIP userAgent now)))"

definition AdjustAdminBalance ::
  "int \<Rightarrow> string \<Rightarrow> int \<Rightarrow> AdminBalanceAdjustmentInput \<Rightarrow> string \<Rightarrow> string \<Rightarrow> time \<Rightarrow> db \<Rightarrow> (err + AdminBalanceAdjustmentResult) \<times> db" where
  "AdjustAdminBalance actorUserID actorRole targetUserID input clientIP userAgent now s =
     (if actorRole \<noteq> ''ADMIN'' then (Inl (PaymentErr ErrAdminRequired), s)
      else (case normalizeAdminBalanceAdjustment actorUserID targetUserID input of
              Inl e \<Rightarrow> (Inl e, s)
            | Inr r \<Rightarrow> WithinTransaction (AdjustAdminBalance_body r actorUserID targetUserID clientIP userAgent now) s))"

section \<open>Facts\<close>

lemma json_instant_JTime [simp]: "map_of j key = Some (JTime t) \<Longrightarrow> json_instant j key = Inr (JTime t)"
  by (simp add: json_instant_def)

lemma metadata_round_trip:
  assumes "is_i64 (abm_ActorUserID m)" "is_i64 (abm_TargetUserID m)" "is_i64 (abm_SignedAmount m)" "is_i64 (abm_PreviousBalance m)"
    and "is_i64 (abm_NewBalance m)" and "abm_RecordedAt m = JTime t"
  shows "unmarshal_metadata (metadata_json m) = Inr m"
  using assms by (simp add: unmarshal_metadata_def metadata_json_def json_int_def json_string_def and_then_simps)

lemma checked_exact:
  assumes "is_i64 amount" "amount \<noteq> MinInt64" "is_i64 b" "0 \<le> b"
  shows "checkedBalanceAdjustment b amount =
    (if MaxInt64 < b + amount then Inl (AdjustmentErr ErrBalanceAdjustmentOverflow)
     else if b + amount < 0 then Inl (AdjustmentErr ErrBalanceAdjustmentWouldBeNegative) else Inr (b + amount))"
proof -
  have neg: "amount < 0 \<Longrightarrow> i64 (- amount) = - amount" by (rule i64_id) (use assms in \<open>simp add: is_i64_def\<close>)
  have pos: "0 < amount \<Longrightarrow> i64 (MaxInt64 - amount) = MaxInt64 - amount" by (rule i64_id) (use assms in \<open>simp add: is_i64_def\<close>)
  have sum: "0 \<le> b + amount \<Longrightarrow> b + amount \<le> MaxInt64 \<Longrightarrow> i64 (b + amount) = b + amount" by (rule i64_id) (simp add: is_i64_def)
  have "b \<le> MaxInt64" using assms(3) by (simp add: is_i64_def)
  then show ?thesis using neg pos sum assms(4) unfolding checkedBalanceAdjustment_def
    by (cases "0 < amount"; cases "amount < 0") auto
qed

lemma normalized:
  assumes "normalizeAdminBalanceAdjustment actor target input = Inr r"
  shows "r = \<lparr>abr_ActorUserID = actor, abr_TargetUserID = target, abr_Amount = abi_Amount input,
      abr_Magnitude = (if abi_Amount input < 0 then i64 (- abi_Amount input) else abi_Amount input), abr_Currency = ''USD'',
      abr_ReasonCode = trim_space (abi_ReasonCode input), abr_Comment = trim_space (abi_Comment input),
      abr_ClientIdempotencyKey = trim_space (abi_IdempotencyKey input),
      abr_CanonicalIdempotencyKey = adminBalanceAdjustmentKeyPrefix @ trim_space (abi_IdempotencyKey input),
      abr_PreviousBalance = 0, abr_NewBalance = 0, abr_Metadata = []\<rparr>"
    and "abi_Amount input \<noteq> 0" "abi_Amount input \<noteq> MinInt64"
  using assms by (auto simp: normalizeAdminBalanceAdjustment_def Let_def split: if_splits)

lemma scan_locked_users_unique:
  assumes "distinct (map u_id us)" "u \<in> set us" "u_id u = target" "u_deleted u = None"
    and "scan_locked_users actor target (sort_key u_id (filter (\<lambda>u. (u_id u = actor \<or> u_id u = target) \<and> u_deleted u = None) us)) = (ok, b)"
  shows "b = Some (u_balance u)"
proof -
  let ?f = "\<lambda>u (a, b). (if u_id u = actor then u_role u = ''ADMIN'' \<and> \<not> u_blocked u else a, if u_id u = target then Some (u_balance u) else b)"
  have fold: "snd (fold ?f xs (a, b)) = Some (u_balance u)"
    if "u \<in> set xs \<or> b = Some (u_balance u)" "\<forall>x\<in>set xs. u_id x = target \<longrightarrow> x = u" for xs a b
    using that assms(3) by (induction xs arbitrary: a b) auto
  have same: "\<forall>x\<in>set us. u_id x = target \<longrightarrow> x = u"
    using assms(1-3) by (auto simp: distinct_map inj_on_def)
  have "snd (fold ?f (sort_key u_id (filter (\<lambda>u. (u_id u = actor \<or> u_id u = target) \<and> u_deleted u = None) us)) (False, None)) = Some (u_balance u)"
  proof (rule fold)
    show "u \<in> set (sort_key u_id (filter (\<lambda>u. (u_id u = actor \<or> u_id u = target) \<and> u_deleted u = None) us)) \<or> None = Some (u_balance u)"
      using assms(2-4) by simp
    show "\<forall>x\<in>set (sort_key u_id (filter (\<lambda>u. (u_id u = actor \<or> u_id u = target) \<and> u_deleted u = None) us)). u_id x = target \<longrightarrow> x = u"
      unfolding set_sort set_filter using same by blast
  qed
  then show ?thesis using assms(5) by (simp add: scan_locked_users_def)
qed

lemma scan_locked_users_found:
  assumes "scan_locked_users actor target us = (ok, Some b)"
  shows "\<exists>u\<in>set us. u_id u = target \<and> u_balance u = b"
proof -
  let ?f = "\<lambda>u (a, b). (if u_id u = actor then u_role u = ''ADMIN'' \<and> \<not> u_blocked u else a, if u_id u = target then Some (u_balance u) else b)"
  have "snd (fold ?f xs (a, c)) = Some b \<Longrightarrow> c = Some b \<or> (\<exists>u\<in>set xs. u_id u = target \<and> u_balance u = b)" for xs a c
    by (induction xs arbitrary: a c) (fastforce split: if_splits)+
  from this [of us False None] show ?thesis using assms by (simp add: scan_locked_users_def)
qed

lemma lock_ok:
  assumes "LockAdminAndUserBalanceForAdjustment actor target s = Inr (b, t)"
  shows "t = s \<and> (\<exists>u\<in>set (users s). u_id u = target \<and> u_deleted u = None \<and> u_balance u = b)"
  using assms
  by (auto simp: LockAdminAndUserBalanceForAdjustment_def tx_inv split: option.splits prod.splits dest!: scan_locked_users_found)

lemma InsertAdminBalanceAdjustmentLedger_ok:
  "InsertAdminBalanceAdjustmentLedger r s = Inr (v, t) \<longleftrightarrow>
     v = (sequences s Ledger, clock s) \<and>
     insert_row ledger ledger_update ledger_schema (adjustment_entry r (sequences s Ledger) (clock s)) (bump Ledger s) = Inr ((), t)"
  by (auto simp: InsertAdminBalanceAdjustmentLedger_def tx_bind_ok tx_seq_ok next_id_ok db_now_ok tx_catch_ok tx_fail_ok tx_return_ok)

definition fresh_result :: "AdminBalanceAdjustmentRecord \<Rightarrow> int \<Rightarrow> int \<Rightarrow> int \<Rightarrow> time \<Rightarrow> AdminBalanceAdjustmentResult" where
  "fresh_result r i actor target t = \<lparr>abx_AdjustmentID = i, abx_LedgerEntryID = i, abx_ActorUserID = actor, abx_UserID = target,
     abx_PreviousBalance = abr_PreviousBalance r, abx_NewBalance = abr_NewBalance r, abx_Amount = abr_Amount r, abx_Currency = abr_Currency r,
     abx_ReasonCode = abr_ReasonCode r, abx_Comment = abr_Comment r, abx_IdempotencyKey = abr_ClientIdempotencyKey r,
     abx_CanonicalIdempotencyKey = abr_CanonicalIdempotencyKey r, abx_IdempotentReplay = False, abx_CreatedAt = t, abx_entryType = 0\<rparr>"

text \<open>The rows that an adjustment writes.\<close>

lemma store_adjustment_ok:
  assumes keys: "distinct (map u_id (users s))" and u: "u \<in> set (users s)" "u_id u = target"
    and run: "store_adjustment r actor target ip agent now s = Inr (x, t)"
  obtains e g where
    "checks ledger_schema (adjustment_entry r (sequences s Ledger) (clock s)) = None"
    "ledger t = ledger s @ [adjustment_entry r (sequences s Ledger) (clock s)]"
    "users t = set_row u_id (u\<lparr>u_balance := abr_NewBalance r, u_updated := pg_ts now\<rparr>) (users s)"
    "accounts t = accounts s" "rentals t = rentals s" "payments t = payments s" "holds t = holds s" "refunds t = refunds s" "tokens t = tokens s"
    "audits t = audits s @ [g]" "g_actor g = Some actor" "g_entity g = ''user_balance''" "g_entity_id g = target"
    "events t = events s @ [e]" "e_user e = Some target" "e_type e = 15" "e_metadata e = abr_Metadata r"
    "x = fresh_result r (sequences s Ledger) actor target (clock s)"
proof -
  obtain old new s1 s2 s3 where ins: "InsertAdminBalanceAdjustmentLedger r s = Inr ((sequences s Ledger, clock s), s1)"
    and set: "SetUserBalance target (abr_NewBalance r) now s1 = Inr ((), s2)"
    and audit: "InsertAuditLog actor ''user_balance'' target ''admin_balance_adjustment'' old new s2 = Inr ((), s3)"
    and log: "LogAdminBalanceAdjustmentSecurityEvent target ip (sanitizeBalanceAdjustmentUserAgent agent) (abr_Metadata r) s3 = Inr ((), t)"
    and x: "x = fresh_result r (sequences s Ledger) actor target (clock s)"
    using run unfolding store_adjustment_def fresh_result_def
    by (auto simp: tx_bind_ok tx_seq_ok wrapf_ok tx_return_ok InsertAdminBalanceAdjustmentLedger_ok)
  let ?l = "adjustment_entry r (sequences s Ledger) (clock s)"
  let ?u = "u\<lparr>u_balance := abr_NewBalance r, u_updated := pg_ts now\<rparr>"
  have s1: "s1 = (bump Ledger s)\<lparr>ledger := ledger s @ [?l]\<rparr>" "checks ledger_schema ?l = None"
    using ins by (auto simp: InsertAdminBalanceAdjustmentLedger_ok insert_row_ok insert_ok_def)
  have "upd (\<lambda>u. u_id u = target) (\<lambda>u. u\<lparr>u_balance := abr_NewBalance r, u_updated := pg_ts now\<rparr>) (users s) = set_row u_id ?u (users s)"
    by (rule upd_set_row [OF keys u(1)]) (use u(2) in simp_all)
  then have s2: "s2 = s1\<lparr>users := set_row u_id ?u (users s)\<rparr>"
    using set by (auto simp: SetUserBalance_def some_rows_def tx_bind_ok fail_if_ok update_table_ok s1(1))
  obtain g where s3: "s3 = (bump Audits s2)\<lparr>audits := audits s2 @ [g]\<rparr>" and g: "g_actor g = Some actor" "g_entity g = ''user_balance''" "g_entity_id g = target"
    using audit by (auto simp: InsertAuditLog_def insert_audit_def tx_bind_ok next_id_ok db_now_ok insert_row_ok new_audit_def)
  obtain e where t: "t = (bump Events s3)\<lparr>events := events s3 @ [e]\<rparr>" and e: "e_user e = Some target" "e_type e = 15" "e_metadata e = abr_Metadata r"
    using log by (auto simp: LogAdminBalanceAdjustmentSecurityEvent_def insert_event_def tx_bind_ok tx_seq_ok fail_if_ok next_id_ok db_now_ok insert_row_ok new_event_def)
  show thesis
  proof (rule that [of g e])
    show "ledger t = ledger s @ [?l]" "users t = set_row u_id ?u (users s)" "accounts t = accounts s" "rentals t = rentals s" "payments t = payments s"
      "holds t = holds s" "refunds t = refunds s" "tokens t = tokens s" "audits t = audits s @ [g]" "events t = events s @ [e]"
      unfolding t s3 s2 s1(1) by simp_all
  qed (fact s1(2) g e x)+
qed

section \<open>Constraints and evolution\<close>

lemmas adjustment_statements = AdjustAdminBalance_body_def adjust_balance_def store_adjustment_def find_adjustment_def GetAdminBalanceAdjustment_def
  LockAdminAndUserBalanceForAdjustment_def InsertAdminBalanceAdjustmentLedger_def SetUserBalance_def
  LogAdminBalanceAdjustmentSecurityEvent_def insert_event_def InsertAuditLog_def insert_audit_def some_rows_def admin_reads

lemma adjustment_valid [closed_intros]: "valid.closed (AdjustAdminBalance_body r actor target ip agent now)"
  unfolding adjustment_statements by (intro closed_intros)

lemma adjustment_evolves [closed_intros]: "evolution.closed (AdjustAdminBalance_body r actor target ip agent now)"
  unfolding adjustment_statements by (intro closed_intros; simp add: user_next_def)

section \<open>Cases of a run\<close>

lemma and_then_error: "and_then r f = Inl e \<longleftrightarrow> r = Inl e \<or> (\<exists>x. r = Inr x \<and> f x = Inl e)"
  by (cases r) (simp_all add: and_then_simps)

lemma json_errors:
  "json_int j k = Inl e \<Longrightarrow> \<exists>m. e = ErrText m" "json_string j k = Inl e \<Longrightarrow> \<exists>m. e = ErrText m" "json_instant j k = Inl e \<Longrightarrow> \<exists>m. e = ErrText m"
  by (auto simp: json_int_def json_string_def json_instant_def unmarshal_error_def split: option.splits jval.splits if_splits)

lemma unmarshal_metadata_error: "unmarshal_metadata j = Inl e \<Longrightarrow> \<exists>m. e = ErrText m"
  unfolding unmarshal_metadata_def by (auto simp: and_then_error dest: json_errors)

lemma stored_adjustment_error: "stored_adjustment k l = Inl e \<Longrightarrow> \<not> errors_is e (AdjustmentErr a)"
  by (auto simp: stored_adjustment_def and_then_def scan_int_def errors_is_simps split: sum.splits option.splits dest!: unmarshal_metadata_error)

lemma find_adjustment_none:
  "find_adjustment k s = Inr (None, t) \<Longrightarrow> t = s \<and> k \<notin> l_key ` set (ledger s)"
  by (auto simp: find_adjustment_def GetAdminBalanceAdjustment_def tx_defs errors_is_simps filter_empty_conv
      split: list.splits sum.splits if_splits dest: stored_adjustment_error)

lemma find_adjustment_some:
  assumes "find_adjustment k s = Inr (Some x, t)"
  shows "t = s \<and> (\<exists>l\<in>set (ledger s). l_key l = k \<and> stored_adjustment k l = Inr x)"
  using assms
  by (auto simp: find_adjustment_def GetAdminBalanceAdjustment_def tx_inv tx_catch_ok split: if_splits dest!: filter_hd)

lemma body_cases:
  assumes "AdjustAdminBalance_body r actor target ip agent now s = Inr (x, t)"
  obtains (replay) l y where "l \<in> set (ledger s)" "l_key l = abr_CanonicalIdempotencyKey r" "stored_adjustment (abr_CanonicalIdempotencyKey r) l = Inr y"
      "adminBalanceAdjustmentMatches y r" "x = y\<lparr>abx_IdempotentReplay := True\<rparr>" "t = s"
  | (adjusted) u where "is_current_admin s actor" "abr_CanonicalIdempotencyKey r \<notin> l_key ` set (ledger s)" "u \<in> set (users s)" "u_id u = target" "u_deleted u = None"
      "adjust_balance r (u_balance u) actor target ip agent now s = Inr (x, t)"
proof -
  obtain b found where admin: "is_current_admin s actor" and lock: "LockAdminAndUserBalanceForAdjustment actor target s = Inr (b, s)"
    and find: "find_adjustment (abr_CanonicalIdempotencyKey r) s = Inr (found, s)"
    and rest: "(case found of
       Some x \<Rightarrow> tx_seq (fail_if (\<not> adminBalanceAdjustmentMatches x r) (AdjustmentErr ErrBalanceAdjustmentIdempotencyConflict))
                   (tx_return (x\<lparr>abx_IdempotentReplay := True\<rparr>))
     | None \<Rightarrow> adjust_balance r b actor target ip agent now) s = Inr (x, t)"
  proof -
    obtain v s1 s2 s3 b found where a: "Payment_RequireCurrentAdmin actor s = Inr (v, s1)" and b: "LockAdminAndUserBalanceForAdjustment actor target s1 = Inr (b, s2)"
      and c: "find_adjustment (abr_CanonicalIdempotencyKey r) s2 = Inr (found, s3)"
      and d: "(case found of
         Some x \<Rightarrow> tx_seq (fail_if (\<not> adminBalanceAdjustmentMatches x r) (AdjustmentErr ErrBalanceAdjustmentIdempotencyConflict))
                     (tx_return (x\<lparr>abx_IdempotentReplay := True\<rparr>))
       | None \<Rightarrow> adjust_balance r b actor target ip agent now) s3 = Inr (x, t)"
      using assms unfolding AdjustAdminBalance_body_def tx_bind_ok tx_seq_ok wrapf_ok wrap_unless_ok by blast
    have "s1 = s" "is_current_admin s actor" using Payment_RequireCurrentAdmin_ok [OF a] by auto
    moreover have "s2 = s1" using lock_ok [OF b] by simp
    moreover have "s3 = s2" using c find_adjustment_none find_adjustment_some by (cases found) fastforce+
    ultimately show thesis using that b c d by simp
  qed
  show thesis
  proof (cases found)
    case None
    obtain u where "u \<in> set (users s)" "u_id u = target" "u_deleted u = None" "u_balance u = b" using lock_ok [OF lock] by blast
    then show thesis using adjusted admin find_adjustment_none [of "abr_CanonicalIdempotencyKey r" s s] find rest None by simp
  next
    case (Some y)
    then have "adminBalanceAdjustmentMatches y r" "x = y\<lparr>abx_IdempotentReplay := True\<rparr>" "t = s"
      using rest by (auto simp: tx_seq_ok fail_if_ok tx_return_ok)
    then show thesis using replay find_adjustment_some find Some by blast
  qed
qed

lemma adjust_run:
  assumes "AdjustAdminBalance actor role target input ip agent now s = (Inr x, t)"
  obtains r where "role = ''ADMIN''" "normalizeAdminBalanceAdjustment actor target input = Inr r"
    "AdjustAdminBalance_body r actor target ip agent now s = Inr (x, t)"
  using assms by (auto simp: AdjustAdminBalance_def WithinTransaction_ok split: if_splits sum.splits)

lemma magnitude: "is_i64 a \<Longrightarrow> a \<noteq> MinInt64 \<Longrightarrow> (if a < 0 then i64 (- a) else a) = \<bar>a\<bar>"
  by (simp add: i64_id is_i64_def)

text \<open>What an adjustment that is no replay does.\<close>

lemma adjustment_effect:
  assumes valid: "valid_db s" and amount: "is_i64 (abi_Amount input)"
    and run: "AdjustAdminBalance actor role target input ip agent now s = (Inr x, t)" and new: "\<not> abx_IdempotentReplay x"
  obtains u r e g where "role = ''ADMIN''" "is_current_admin s actor" "normalizeAdminBalanceAdjustment actor target input = Inr r"
    "abr_CanonicalIdempotencyKey r \<notin> l_key ` set (ledger s)" "u \<in> set (users s)" "u_id u = target" "u_deleted u = None"
    "0 \<le> u_balance u + abi_Amount input" "u_balance u + abi_Amount input \<le> MaxInt64"
    "users t = set_row u_id (u\<lparr>u_balance := u_balance u + abi_Amount input, u_updated := pg_ts now\<rparr>) (users s)"
    "ledger t = ledger s @ [adjustment_entry (adjusted_record r (u_balance u) (u_balance u + abi_Amount input) actor target now) (sequences s Ledger) (clock s)]"
    "accounts t = accounts s" "rentals t = rentals s" "payments t = payments s" "holds t = holds s" "refunds t = refunds s" "tokens t = tokens s"
    "audits t = audits s @ [g]" "g_actor g = Some actor" "g_entity g = ''user_balance''" "g_entity_id g = target"
    "events t = events s @ [e]" "e_user e = Some target" "e_type e = 15"
    "x = fresh_result (adjusted_record r (u_balance u) (u_balance u + abi_Amount input) actor target now) (sequences s Ledger) actor target (clock s)"
proof -
  obtain r where role: "role = ''ADMIN''" and norm: "normalizeAdminBalanceAdjustment actor target input = Inr r"
    and body: "AdjustAdminBalance_body r actor target ip agent now s = Inr (x, t)"
    by (rule adjust_run [OF run])
  note r = normalized [OF norm]
  from body show thesis
  proof (cases rule: body_cases)
    case replay
    then show thesis using new by simp
  next
    case (adjusted u)
    have u: "is_i64 (u_balance u)" "0 \<le> u_balance u" using valid_db_checks(1) [OF valid adjusted(3)] by (simp_all add: user_checks)
    have am: "abr_Amount r = abi_Amount input" by (simp add: r(1))
    obtain nb where nb: "checkedBalanceAdjustment (u_balance u) (abi_Amount input) = Inr nb"
      and store: "store_adjustment (adjusted_record r (u_balance u) nb actor target now) actor target ip agent now s = Inr (x, t)"
      using adjusted(6) by (auto simp: adjust_balance_def tx_bind_ok lift_result_ok am)
    have sum: "nb = u_balance u + abi_Amount input" "0 \<le> u_balance u + abi_Amount input" "u_balance u + abi_Amount input \<le> MaxInt64"
      using nb checked_exact [OF amount r(3) u] by (auto split: if_splits)
    have "abr_NewBalance (adjusted_record r (u_balance u) nb actor target now) = nb" by (simp add: adjusted_record_def Let_def)
    with store_adjustment_ok [OF valid_db_keys(1) [OF valid] adjusted(3,4) store] show thesis
      using that [OF role adjusted(1) norm adjusted(2-5)] sum by simp metis
  qed
qed

end
