(* ===== verification/Adjustment_Properties.thy ===== *)
theory Adjustment_Properties
  imports Adjustment
begin

text \<open>
  What a balance adjustment does, and that its idempotency key is used once.
\<close>

section \<open>Replays\<close>

definition entry_type :: "int \<Rightarrow> int" where
  "entry_type amount = (if amount < 0 then ledgerEntryAdminBalanceDebit else ledgerEntryAdminBalanceCredit)"

text \<open>The stored entry of an adjustment gives the result of that adjustment back.\<close>

lemma stored_of_entry:
  assumes norm: "normalizeAdminBalanceAdjustment actor target input = Inr r" and amount: "is_i64 (abi_Amount input)"
    and ids: "is_i64 actor" "is_i64 target" and balances: "is_i64 b" "is_i64 nb"
  shows "stored_adjustment (abr_CanonicalIdempotencyKey r) (adjustment_entry (adjusted_record r b nb actor target now) i t) =
    Inr (fresh_result (adjusted_record r b nb actor target now) i actor target t\<lparr>abx_entryType := entry_type (abi_Amount input)\<rparr>)"
proof -
  note r = normalized [OF norm]
  have mag: "abr_Magnitude r = \<bar>abi_Amount input\<bar>" using magnitude [OF amount r(3)] by (simp add: r(1))
  have neg: "abi_Amount input < 0 \<Longrightarrow> i64 (- \<bar>abi_Amount input\<bar>) = abi_Amount input" using amount by (simp add: i64_id is_i64_def)
  let ?m = "adjustment_metadata (r\<lparr>abr_PreviousBalance := b, abr_NewBalance := nb\<rparr>) actor target now"
  have "unmarshal_metadata (metadata_json ?m) = Inr ?m"
    by (rule metadata_round_trip [where t = now]) (use ids balances amount in \<open>simp_all add: adjustment_metadata_def r(1)\<close>)
  then show ?thesis
    using mag neg r(2)
    by (auto simp: stored_adjustment_def adjustment_entry_def adjusted_record_def scan_int_def and_then_simps fresh_result_def
        adjustment_metadata_def r(1) entry_type_def Let_def)
qed

lemma scan_locked_users_allowed:
  assumes "u \<in> set us" "u_id u = actor" "u_role u = ''ADMIN''" "\<not> u_blocked u" "\<And>x. x \<in> set us \<Longrightarrow> u_id x = actor \<Longrightarrow> x = u"
  shows "fst (scan_locked_users actor target us)"
proof -
  let ?f = "\<lambda>u (a, b). (if u_id u = actor then u_role u = ''ADMIN'' \<and> \<not> u_blocked u else a, if u_id u = target then Some (u_balance u) else b)"
  have "fst (fold ?f xs (a, c))" if "a \<or> u \<in> set xs" "\<And>x. x \<in> set xs \<Longrightarrow> u_id x = actor \<Longrightarrow> u_role x = ''ADMIN'' \<and> \<not> u_blocked x" for xs a c
    using that
  proof (induction xs arbitrary: a c)
    case (Cons x xs)
    have "u_id x = actor \<or> a \<or> u \<in> set xs" using Cons.prems(1) assms(2) by auto
    then show ?case using Cons.IH Cons.prems(2) by auto
  qed simp
  then show ?thesis unfolding scan_locked_users_def using assms by blast
qed

lemma lock_forward:
  assumes valid: "valid_db s" and admin: "is_current_admin s actor" and u: "u \<in> set (users s)" "u_id u = target" "u_deleted u = None"
  shows "LockAdminAndUserBalanceForAdjustment actor target s = Inr (u_balance u, s)"
proof -
  note keys = valid_db_keys(1) [OF valid]
  obtain w where w: "w \<in> set (users s)" "u_id w = actor" "u_role w = ''ADMIN''" "\<not> u_blocked w" "u_deleted w = None"
    using admin by (auto simp: is_current_admin_def)
  let ?rows = "sort_key u_id (filter (\<lambda>u. (u_id u = actor \<or> u_id u = target) \<and> u_deleted u = None) (users s))"
  obtain ok b where scan: "scan_locked_users actor target ?rows = (ok, b)" by (cases "scan_locked_users actor target ?rows")
  have "b = Some (u_balance u)" by (rule scan_locked_users_unique [OF keys u scan])
  moreover have "fst (scan_locked_users actor target ?rows)"
  proof (rule scan_locked_users_allowed [OF _ w(2-4)])
    show "w \<in> set ?rows" using w by simp
    show "x = w" if "x \<in> set ?rows" "u_id x = actor" for x
      using that w(1,2) keys by (auto simp: distinct_map inj_on_def)
  qed
  ultimately show ?thesis using scan by (simp add: LockAdminAndUserBalanceForAdjustment_def tx_bind_def tx_read_def tx_seq_def tx_return_def)
qed

lemma find_forward:
  assumes "valid_db s" "l \<in> set (ledger s)" "l_key l = k" "stored_adjustment k l = Inr x"
  shows "find_adjustment k s = Inr (Some x, s)"
proof -
  have "filter (\<lambda>l. l_key l = k) (ledger s) = [l]"
    by (rule filter_key [OF valid_db_keys(6) [OF assms(1)] assms(2)]) (simp_all add: assms(3))
  then show ?thesis
    using assms(4) by (simp add: find_adjustment_def GetAdminBalanceAdjustment_def tx_defs)
qed

section \<open>Properties\<close>

text \<open>
  C34: A balance adjustment that is not a replay was made by a current administrator on an
  existing user. The user's balance changes by exactly the signed amount and stays between 0 and
  the largest BIGINT; exactly one ledger entry is appended, a credit or a debit of the absolute amount under the key of the
  request; one audit record and one security event name the administrator and the user, the result gives both balances, and no other table
  changes.
\<close>

theorem balance_adjustment_effect:
  assumes "valid_db s" "is_i64 (abi_Amount input)"
    and "AdjustAdminBalance actor role target input ip agent now s = (Inr x, t)" "\<not> abx_IdempotentReplay x"
  shows "role = ''ADMIN'' \<and> is_current_admin s actor \<and>
    (\<exists>u\<in>set (users s). u_id u = target \<and> u_deleted u = None \<and>
       0 \<le> u_balance u + abi_Amount input \<and> u_balance u + abi_Amount input \<le> MaxInt64 \<and>
       users t = set_row u_id (u\<lparr>u_balance := u_balance u + abi_Amount input, u_updated := pg_ts now\<rparr>) (users s) \<and>
       abx_PreviousBalance x = u_balance u \<and> abx_NewBalance x = u_balance u + abi_Amount input) \<and>
    (\<exists>l. ledger t = ledger s @ [l] \<and> l_type l = (if abi_Amount input < 0 then 9 else 8) \<and> l_amount l = \<bar>abi_Amount input\<bar> \<and>
       l_user l = Some target \<and> l_currency l = ''USD'' \<and> l_key l = adminBalanceAdjustmentKeyPrefix @ trim_space (abi_IdempotencyKey input)) \<and>
    (\<exists>g. audits t = audits s @ [g] \<and> g_actor g = Some actor \<and> g_entity_id g = target) \<and>
    (\<exists>e. events t = events s @ [e] \<and> e_user e = Some target \<and> e_type e = 15) \<and>
    accounts t = accounts s \<and> rentals t = rentals s \<and> payments t = payments s \<and> holds t = holds s \<and> refunds t = refunds s \<and> tokens t = tokens s"
proof (rule adjustment_effect [OF assms])
  fix u :: user_row and r e g
  assume role: "role = ''ADMIN''" "is_current_admin s actor" and norm: "normalizeAdminBalanceAdjustment actor target input = Inr r"
    and u: "u \<in> set (users s)" "u_id u = target" "u_deleted u = None" "0 \<le> u_balance u + abi_Amount input" "u_balance u + abi_Amount input \<le> MaxInt64"
      "users t = set_row u_id (u\<lparr>u_balance := u_balance u + abi_Amount input, u_updated := pg_ts now\<rparr>) (users s)"
    and l: "ledger t = ledger s @ [adjustment_entry (adjusted_record r (u_balance u) (u_balance u + abi_Amount input) actor target now) (sequences s Ledger) (clock s)]"
    and same: "accounts t = accounts s" "rentals t = rentals s" "payments t = payments s" "holds t = holds s" "refunds t = refunds s" "tokens t = tokens s"
    and g: "audits t = audits s @ [g]" "g_actor g = Some actor" "g_entity_id g = target"
    and e: "events t = events s @ [e]" "e_user e = Some target" "e_type e = 15"
    and x: "x = fresh_result (adjusted_record r (u_balance u) (u_balance u + abi_Amount input) actor target now) (sequences s Ledger) actor target (clock s)"
  note r = normalized [OF norm]
  have mag: "abr_Magnitude r = \<bar>abi_Amount input\<bar>" using magnitude [OF assms(2) r(3)] by (simp add: r(1))
  have "\<exists>l. ledger t = ledger s @ [l] \<and> l_type l = (if abi_Amount input < 0 then 9 else 8) \<and> l_amount l = \<bar>abi_Amount input\<bar> \<and>
       l_user l = Some target \<and> l_currency l = ''USD'' \<and> l_key l = adminBalanceAdjustmentKeyPrefix @ trim_space (abi_IdempotencyKey input)"
    using l mag by (simp add: adjustment_entry_def adjusted_record_def Let_def) (simp add: r(1))
  moreover have "abx_PreviousBalance x = u_balance u \<and> abx_NewBalance x = u_balance u + abi_Amount input"
    by (simp add: x fresh_result_def adjusted_record_def Let_def)
  ultimately show ?thesis using role u same g e by blast
qed

text \<open>What any request with the key of a stored adjustment does: nothing, and if it is accepted it returns that adjustment as a replay.\<close>

lemma stored_key_replayed:
  assumes valid: "valid_db t" and stored: "stored_adjustment k l0 = Inr z" "l_key l0 = k" "l0 \<in> set (ledger t)"
    and key: "\<And>r. normalizeAdminBalanceAdjustment actor target input = Inr r \<Longrightarrow> abr_CanonicalIdempotencyKey r = k"
  shows "case AdjustAdminBalance actor role target input ip agent now t of
      (Inl e, t') \<Rightarrow> t' = t | (Inr y, t') \<Rightarrow> t' = t \<and> y = z\<lparr>abx_IdempotentReplay := True\<rparr>"
proof (cases "AdjustAdminBalance actor role target input ip agent now t")
  case (Pair res t')
  show ?thesis
  proof (cases res)
    case (Inl e)
    then show ?thesis using Pair by (auto simp: AdjustAdminBalance_def WithinTransaction_error split: if_splits sum.splits)
  next
    case (Inr y)
    obtain r where norm: "normalizeAdminBalanceAdjustment actor target input = Inr r"
      and body: "AdjustAdminBalance_body r actor target ip agent now t = Inr (y, t')"
      using adjust_run Pair Inr by metis
    note k = key [OF norm]
    have only: "l = l0" if "l \<in> set (ledger t)" "l_key l = l_key l0" for l
      using that stored(3) valid_db_keys(6) [OF valid] by (auto simp: distinct_map inj_on_def)
    from body show ?thesis
    proof (cases rule: body_cases)
      case (replay l z')
      then have "l = l0" using only stored(2) k by simp
      then have z: "z' = z" using replay(3) stored(1) k by simp
      show ?thesis using replay(5,6) Pair Inr unfolding z by simp
    next
      case adjusted
      then show ?thesis using imageI [OF stored(3), of l_key] stored(2) k adjusted(2) by simp
    qed
  qed
qed

text \<open>
  C35: An idempotency key adjusts a balance once. After an adjustment, in every later state of the database, no request
  with the same key changes anything, whatever its actor, user, amount and texts; one that is accepted
  returns the first result, marked as a replay; and the same request by the same administrator is accepted.
\<close>

theorem balance_adjustment_once:
  assumes valid: "valid_db s" and amount: "is_i64 (abi_Amount input)" and ids: "is_i64 actor" "is_i64 target"
    and run: "AdjustAdminBalance actor role target input ip agent now s = (Inr x, t)" and new: "\<not> abx_IdempotentReplay x"
    and later: "evolves t t'" "valid_db t'"
  shows "(trim_space (abi_IdempotencyKey input') = trim_space (abi_IdempotencyKey input) \<longrightarrow>
      (case AdjustAdminBalance actor' role' target' input' ip' agent' now' t' of
         (Inl e, t'') \<Rightarrow> t'' = t'
       | (Inr y, t'') \<Rightarrow> t'' = t' \<and> y = x\<lparr>abx_IdempotentReplay := True, abx_entryType := entry_type (abi_Amount input)\<rparr>)) \<and>
    (is_current_admin t' actor \<and> (\<exists>u\<in>set (users t'). u_id u = target \<and> u_deleted u = None) \<longrightarrow>
      AdjustAdminBalance actor ''ADMIN'' target input ip' agent' now' t' =
        (Inr (x\<lparr>abx_IdempotentReplay := True, abx_entryType := entry_type (abi_Amount input)\<rparr>), t'))"
proof (rule adjustment_effect [OF valid amount run new])
  fix u :: user_row and r
  let ?r = "adjusted_record r (u_balance u) (u_balance u + abi_Amount input) actor target now"
  let ?l = "adjustment_entry ?r (sequences s Ledger) (clock s)"
  let ?y = "x\<lparr>abx_IdempotentReplay := True, abx_entryType := entry_type (abi_Amount input)\<rparr>"
  assume norm: "normalizeAdminBalanceAdjustment actor target input = Inr r" and u: "u \<in> set (users s)"
    and bounds: "0 \<le> u_balance u + abi_Amount input" "u_balance u + abi_Amount input \<le> MaxInt64"
    and l: "ledger t = ledger s @ [?l]" and x: "x = fresh_result ?r (sequences s Ledger) actor target (clock s)"
  note r = normalized [OF norm]
  have stored: "stored_adjustment (abr_CanonicalIdempotencyKey r) ?l = Inr (x\<lparr>abx_entryType := entry_type (abi_Amount input)\<rparr>)"
    unfolding x by (rule stored_of_entry [OF norm amount ids])
      (use valid_db_checks(1) [OF valid u] bounds in \<open>simp_all add: user_checks is_i64_def\<close>)
  have key: "l_key ?l = abr_CanonicalIdempotencyKey r" by (simp add: adjustment_entry_def adjusted_record_def Let_def)
  have there: "?l \<in> set (ledger t')" using later(1) l by (auto simp: evolves_def grows_eq)
  have first: "case AdjustAdminBalance actor' role' target' input' ip' agent' now' t' of
         (Inl e, t'') \<Rightarrow> t'' = t' | (Inr y, t'') \<Rightarrow> t'' = t' \<and> y = ?y"
    if same: "trim_space (abi_IdempotencyKey input') = trim_space (abi_IdempotencyKey input)"
  proof -
    have "abr_CanonicalIdempotencyKey r2 = abr_CanonicalIdempotencyKey r"
      if "normalizeAdminBalanceAdjustment actor' target' input' = Inr r2" for r2
      using normalized(1) [OF that] r(1) same by simp
    note replayed = stored_key_replayed [where actor = actor' and target = target' and input = input', OF later(2) stored key there this]
    have "?y = x\<lparr>abx_entryType := entry_type (abi_Amount input)\<rparr>\<lparr>abx_IdempotentReplay := True\<rparr>" by simp
    then show ?thesis using replayed by (simp only:)
  qed
  have "AdjustAdminBalance actor ''ADMIN'' target input ip' agent' now' t' = (Inr ?y, t')"
    if admin: "is_current_admin t' actor" and v: "v \<in> set (users t')" "u_id v = target" "u_deleted v = None" for v
  proof -
    have find: "find_adjustment (abr_CanonicalIdempotencyKey r) t' = Inr (Some (x\<lparr>abx_entryType := entry_type (abi_Amount input)\<rparr>), t')"
      by (rule find_forward [OF later(2) there key stored])
    have "adminBalanceAdjustmentMatches (x\<lparr>abx_entryType := entry_type (abi_Amount input)\<rparr>) r"
      by (simp add: adminBalanceAdjustmentMatches_def x fresh_result_def adjusted_record_def Let_def entry_type_def) (simp add: r(1))
    then show ?thesis
      using find lock_forward [OF later(2) admin v] Payment_RequireCurrentAdmin_accepts [OF valid_db_keys(1) [OF later(2)] admin]
      by (simp add: AdjustAdminBalance_def norm AdjustAdminBalance_body_def WithinTransaction_def tx_seq_def tx_bind_def wrap_unless_step wrapf_step tx_return_def)
  qed
  with first show ?thesis by blast
qed

definition credit_input :: AdminBalanceAdjustmentInput where
  "credit_input = \<lparr>abi_Amount = 250, abi_Currency = '' usd '', abi_ReasonCode = ''GOODWILL'', abi_Comment = ''late'', abi_IdempotencyKey = ''ticket-0001''\<rparr>"

lemma credit_run:
  obtains x t where "AdjustAdminBalance 1 ''ADMIN'' 2 credit_input [] ''agent'' Minute waiting_db = (Inr x, t)" "\<not> abx_IdempotentReplay x"
proof -
  have "ok_with (\<lambda>x. \<not> abx_IdempotentReplay x) (AdjustAdminBalance 1 ''ADMIN'' 2 credit_input [] ''agent'' Minute waiting_db)" by code_simp
  then show thesis using that by (blast dest: ok_withD)
qed

lemma balance_adjustment_effect_witness:
  "\<exists>x t. AdjustAdminBalance 1 ''ADMIN'' 2 credit_input [] ''agent'' Minute waiting_db = (Inr x, t) \<and>
     (\<exists>l. ledger t = ledger waiting_db @ [l] \<and> l_amount l = 250)"
proof (rule credit_run)
  fix x t
  assume run: "AdjustAdminBalance 1 ''ADMIN'' 2 credit_input [] ''agent'' Minute waiting_db = (Inr x, t)" "\<not> abx_IdempotentReplay x"
  have "is_i64 (abi_Amount credit_input)" by (simp add: credit_input_def is_i64_def)
  from balance_adjustment_effect [OF waiting_db_valid this run] have "\<exists>l. ledger t = ledger waiting_db @ [l] \<and> l_amount l = \<bar>abi_Amount credit_input\<bar>" by blast
  then show ?thesis using run by (auto simp: credit_input_def)
qed

lemma balance_adjustment_once_witness:
  "\<exists>x t. AdjustAdminBalance 1 ''ADMIN'' 2 credit_input [] ''agent'' Minute waiting_db = (Inr x, t) \<and>
     snd (AdjustAdminBalance 1 ''ADMIN'' 2 (credit_input\<lparr>abi_Amount := 900\<rparr>) [] ''agent'' Minute t) = t"
proof (rule credit_run)
  fix x t
  assume run: "AdjustAdminBalance 1 ''ADMIN'' 2 credit_input [] ''agent'' Minute waiting_db = (Inr x, t)" "\<not> abx_IdempotentReplay x"
  have amount: "is_i64 (abi_Amount credit_input)" and ids: "is_i64 1" "is_i64 2" by (simp_all add: credit_input_def is_i64_def)
  obtain r where "AdjustAdminBalance_body r 1 2 [] ''agent'' Minute waiting_db = Inr (x, t)" using adjust_run [OF run(1)] by blast
  then have "valid_db t" using valid.closedD [OF adjustment_valid] waiting_db_valid by (auto simp: keeps_valid_def)
  from balance_adjustment_once [OF waiting_db_valid amount ids run evolution.R_refl this, of "credit_input\<lparr>abi_Amount := 900\<rparr>" 1 "''ADMIN''" 2 "[]" "''agent''" Minute]
  show ?thesis using run(1) by (auto simp: credit_input_def split: prod.splits sum.splits)
qed

end
