(* ===== verification/Sessions.thy ===== *)
theory Sessions
  imports Go_Text Webhook_Signature Users
begin

text \<open>
  Sign-in: users, refresh tokens and session tokens (\<open>internal/auth\<close>,
  \<open>internal/shared/auth/jwt.go\<close>) and the middleware that every authenticated request passes
  (\<open>internal/shared/middleware/auth.go\<close>). The record \<open>crypto\<close> holds what the code takes from the
  libraries: SHA-256 and its authentication code, bcrypt, the source of random bytes, the JSON form of the claims, the parser of mail
  addresses and the Unicode tables. URL-safe base64 is defined here and decoding is shown to undo encoding. An operation reads the clock once.
\<close>

section \<open>URL-safe base64\<close>

definition b64_char :: "nat \<Rightarrow> char" where
  "b64_char n = char_of (if n < 26 then 65 + n else if n < 52 then 71 + n else if n < 62 then n - 4 else if n = 62 then 45 else 95)"

definition b64_val :: "char \<Rightarrow> nat option" where
  "b64_val c = (let b = byte c in
     if 65 \<le> b \<and> b \<le> 90 then Some (b - 65) else if 97 \<le> b \<and> b \<le> 122 then Some (b - 71)
     else if 48 \<le> b \<and> b \<le> 57 then Some (b + 4) else if b = 45 then Some 62 else if b = 95 then Some 63 else None)"

text \<open>\<open>base64.URLEncoding\<close> with the padding cut off, as \<open>strings.TrimRight(.., "=")\<close> does.\<close>

fun base64URLEncode :: "string \<Rightarrow> string" where
  "base64URLEncode (x # y # z # s) =
     b64_char (byte x div 4) # b64_char (byte x mod 4 * 16 + byte y div 16) # b64_char (byte y mod 16 * 4 + byte z div 64) # b64_char (byte z mod 64) #
     base64URLEncode s"
| "base64URLEncode [x, y] = [b64_char (byte x div 4), b64_char (byte x mod 4 * 16 + byte y div 16), b64_char (byte y mod 16 * 4)]"
| "base64URLEncode [x] = [b64_char (byte x div 4), b64_char (byte x mod 4 * 16)]"
| "base64URLEncode [] = []"

text \<open>\<open>DecodeString\<close>: quadruples, the last one perhaps padded; line ends are skipped and unused bits ignored.\<close>

fun decode_quads :: "string \<Rightarrow> string option" where
  "decode_quads [] = Some []"
| "decode_quads (a # b # c # d # s) =
     (case (b64_val a, b64_val b) of
        (Some p, Some q) \<Rightarrow>
          (case (b64_val c, b64_val d) of
             (Some r, Some t) \<Rightarrow> map_option (\<lambda>rest. char_of (p * 4 + q div 16) # char_of (q mod 16 * 16 + r div 4) # char_of (r mod 4 * 64 + t) # rest) (decode_quads s)
           | (Some r, None) \<Rightarrow> if d = CHR ''='' \<and> s = [] then Some [char_of (p * 4 + q div 16), char_of (q mod 16 * 16 + r div 4)] else None
           | (None, _) \<Rightarrow> if c = CHR ''='' \<and> d = CHR ''='' \<and> s = [] then Some [char_of (p * 4 + q div 16)] else None)
      | _ \<Rightarrow> None)"
| "decode_quads s = None"

definition base64URLDecode :: "string \<Rightarrow> string option" where
  "base64URLDecode s =
     (let l = length s mod 4; padded = (if 0 < l then s @ replicate (4 - l) (CHR ''='') else s)
      in decode_quads (filter (\<lambda>c. c \<noteq> CHR 0x0A \<and> c \<noteq> CHR 0x0D) padded))"

lemma byte_bound: "byte c < 256"
  by (simp add: byte_def)

lemma byte_char_of [simp]: "n < 256 \<Longrightarrow> byte (char_of n) = n"
  by (simp add: byte_def)

lemma char_of_byte [simp]: "char_of (byte c) = c"
  by (simp add: byte_def)

lemma b64_val_char [simp]:
  assumes "n < 64"
  shows "b64_val (b64_char n) = Some n"
proof -
  have "byte (b64_char n) = (if n < 26 then 65 + n else if n < 52 then 71 + n else if n < 62 then n - 4 else if n = 62 then 45 else 95)"
    using assms by (simp add: b64_char_def)
  then show ?thesis using assms by (auto simp: b64_val_def Let_def)
qed

lemma b64_char_plain:
  assumes "n < 64"
  shows "b64_char n \<noteq> CHR ''.''" "b64_char n \<noteq> CHR 0x0A" "b64_char n \<noteq> CHR 0x0D" "b64_char n \<noteq> CHR ''=''"
  using b64_val_char [OF assms] by (auto simp: b64_val_def byte_def)

text \<open>The six-bit pieces of the octets put together again.\<close>

lemma octets:
  fixes x y z :: nat
  assumes "x < 256" "y < 256" "z < 256"
  shows "x div 4 * 4 + (x mod 4 * 16 + y div 16) div 16 = x" "(x mod 4 * 16 + y div 16) mod 16 * 16 + (y mod 16 * 4 + z div 64) div 4 = y"
    "(y mod 16 * 4 + z div 64) mod 4 * 64 + z mod 64 = z" "x div 4 * 4 + x mod 4 * 16 div 16 = x"
    "(x mod 4 * 16 + y div 16) mod 16 * 16 + y mod 16 * 4 div 4 = y"
proof -
  have y: "y div 16 < 16" and z: "z div 64 < 4" using assms by linarith+
  have 1: "(x mod 4 * 16 + y div 16) div 16 = x mod 4" "(x mod 4 * 16 + y div 16) mod 16 = y div 16" using y by simp_all
  have 2: "(y mod 16 * 4 + z div 64) div 4 = y mod 16" "(y mod 16 * 4 + z div 64) mod 4 = z div 64" using z by simp_all
  show "x div 4 * 4 + (x mod 4 * 16 + y div 16) div 16 = x" "x div 4 * 4 + x mod 4 * 16 div 16 = x" unfolding 1 by simp_all
  show "(x mod 4 * 16 + y div 16) mod 16 * 16 + (y mod 16 * 4 + z div 64) div 4 = y"
    "(x mod 4 * 16 + y div 16) mod 16 * 16 + y mod 16 * 4 div 4 = y" unfolding 1 2 by simp_all
  show "(y mod 16 * 4 + z div 64) mod 4 * 64 + z mod 64 = z" unfolding 2 by simp
qed

lemma pieces:
  fixes x y z :: nat
  assumes "x < 256" "y < 256" "z < 256"
  shows "x div 4 < 64" "x mod 4 * 16 + y div 16 < 64" "y mod 16 * 4 + z div 64 < 64" "z mod 64 < 64" "x mod 4 * 16 < 64" "y mod 16 * 4 < 64"
  using assms by linarith+

definition b64_text :: "string \<Rightarrow> bool" where
  "b64_text s = list_all (\<lambda>c. b64_val c \<noteq> None) s"

lemma quad:
  obtains p q r u where "\<And>s. base64URLEncode (x # y # z # s) = b64_char p # b64_char q # b64_char r # b64_char u # base64URLEncode s"
    "p < 64" "q < 64" "r < 64" "u < 64" "char_of (p * 4 + q div 16) = x" "char_of (q mod 16 * 16 + r div 4) = y" "char_of (r mod 4 * 64 + u) = z"
proof (rule that)
  note b = byte_bound [of x] byte_bound [of y] byte_bound [of z]
  show "base64URLEncode (x # y # z # s) = b64_char (byte x div 4) # b64_char (byte x mod 4 * 16 + byte y div 16) #
      b64_char (byte y mod 16 * 4 + byte z div 64) # b64_char (byte z mod 64) # base64URLEncode s" for s
    by (simp only: base64URLEncode.simps)
  show "byte x div 4 < 64" "byte x mod 4 * 16 + byte y div 16 < 64" "byte y mod 16 * 4 + byte z div 64 < 64" "byte z mod 64 < 64"
    by (rule pieces [OF b])+
  show "char_of (byte x div 4 * 4 + (byte x mod 4 * 16 + byte y div 16) div 16) = x"
    "char_of ((byte x mod 4 * 16 + byte y div 16) mod 16 * 16 + (byte y mod 16 * 4 + byte z div 64) div 4) = y"
    "char_of ((byte y mod 16 * 4 + byte z div 64) mod 4 * 64 + byte z mod 64) = z"
    by (simp_all only: octets [OF b] char_of_byte)
qed

lemma triple:
  obtains p q r where "base64URLEncode [x, y] = [b64_char p, b64_char q, b64_char r]"
    "p < 64" "q < 64" "r < 64" "char_of (p * 4 + q div 16) = x" "char_of (q mod 16 * 16 + r div 4) = y"
proof (rule that)
  note b = byte_bound [of x] byte_bound [of y] byte_bound [of y]
  show "base64URLEncode [x, y] = [b64_char (byte x div 4), b64_char (byte x mod 4 * 16 + byte y div 16), b64_char (byte y mod 16 * 4)]"
    by (simp only: base64URLEncode.simps)
  show "byte x div 4 < 64" "byte x mod 4 * 16 + byte y div 16 < 64" "byte y mod 16 * 4 < 64" by (rule pieces [OF b])+
  show "char_of (byte x div 4 * 4 + (byte x mod 4 * 16 + byte y div 16) div 16) = x"
    "char_of ((byte x mod 4 * 16 + byte y div 16) mod 16 * 16 + byte y mod 16 * 4 div 4) = y"
    by (simp_all only: octets [OF b] char_of_byte)
qed

lemma pair:
  obtains p q where "base64URLEncode [x] = [b64_char p, b64_char q]" "p < 64" "q < 64" "char_of (p * 4 + q div 16) = x"
proof (rule that)
  note b = byte_bound [of x] byte_bound [of x] byte_bound [of x]
  show "base64URLEncode [x] = [b64_char (byte x div 4), b64_char (byte x mod 4 * 16)]" by (simp only: base64URLEncode.simps)
  show "byte x div 4 < 64" "byte x mod 4 * 16 < 64" by (rule pieces [OF b])+
  show "char_of (byte x div 4 * 4 + byte x mod 4 * 16 div 16) = x" by (simp only: octets [OF b] char_of_byte)
qed

lemma encode_text: "b64_text (base64URLEncode s)"
proof (induction s rule: base64URLEncode.induct)
  case (1 x y z s)
  show ?case by (rule quad [of x y z]) (use 1 in \<open>simp add: b64_text_def\<close>)
next
  case (2 x y)
  show ?case by (rule triple [of x y]) (simp add: b64_text_def)
next
  case (3 x)
  show ?case by (rule pair [of x]) (simp add: b64_text_def)
qed (simp add: b64_text_def)

lemma b64_text_plain: "b64_text s \<Longrightarrow> CHR ''.'' \<notin> set s \<and> filter (\<lambda>c. c \<noteq> CHR 0x0A \<and> c \<noteq> CHR 0x0D) s = s"
  by (induction s) (auto simp: b64_text_def b64_val_def byte_def)

lemma b64_pad: "b64_val (CHR ''='') = None"
  by (simp add: b64_val_def byte_def)

text \<open>Decoding undoes encoding, whatever the length.\<close>

definition padding :: "string \<Rightarrow> string" where
  "padding s = (let l = length (base64URLEncode s) mod 4 in if 0 < l then replicate (4 - l) (CHR ''='') else [])"

lemma decode_padded: "decode_quads (base64URLEncode s @ padding s) = Some s"
proof (induction s rule: base64URLEncode.induct)
  case (1 x y z s)
  show ?case
  proof (rule quad [of x y z])
    fix p q r u
    assume enc: "\<And>s. base64URLEncode (x # y # z # s) = b64_char p # b64_char q # b64_char r # b64_char u # base64URLEncode s"
      and "p < 64" "q < 64" "r < 64" "u < 64" "char_of (p * 4 + q div 16) = x" "char_of (q mod 16 * 16 + r div 4) = y" "char_of (r mod 4 * 64 + u) = z"
    moreover have "padding (x # y # z # s) = padding s" by (simp add: padding_def enc Let_def)
    ultimately show ?case using 1 by (simp add: enc del: base64URLEncode.simps)
  qed
next
  case (2 x y)
  show ?case by (rule triple [of x y]) (simp add: padding_def b64_pad del: base64URLEncode.simps)
next
  case (3 x)
  show ?case by (rule pair [of x]) (simp add: padding_def b64_pad numeral_2_eq_2 del: base64URLEncode.simps)
qed (simp add: padding_def)

lemma base64_round_trip: "base64URLDecode (base64URLEncode s) = Some s"
proof -
  let ?e = "base64URLEncode s"
  have "filter (\<lambda>c. c \<noteq> CHR 0x0A \<and> c \<noteq> CHR 0x0D) (?e @ padding s) = ?e @ padding s"
    using b64_text_plain [OF encode_text] by (auto simp: padding_def Let_def)
  moreover have "(if 0 < length ?e mod 4 then ?e @ replicate (4 - length ?e mod 4) (CHR ''='') else ?e) = ?e @ padding s"
    by (simp add: padding_def Let_def)
  ultimately show ?thesis using decode_padded by (simp add: base64URLDecode_def Let_def)
qed

section \<open>Session tokens\<close>

record Claims =
  cl_UserID :: int
  cl_Role :: string
  cl_Exp :: int

text \<open>
  What the code takes from the libraries: HMAC-SHA256 and SHA-256, \<open>json.Marshal\<close> and
  \<open>json.Unmarshal\<close> for the claims, bcrypt, the address parser, the Unicode tables and the random source.
\<close>

record crypto =
  hmac_sha256 :: "string \<Rightarrow> string \<Rightarrow> string"
  sha256 :: "string \<Rightarrow> string"
  marshal_claims :: "Claims \<Rightarrow> string"
  unmarshal_claims :: "string \<Rightarrow> Claims option"
  bcrypt_generate :: "string \<Rightarrow> err + string"
  bcrypt_matches :: "string \<Rightarrow> string \<Rightarrow> bool"
  random_bytes :: "err + string"
  parse_address :: "string \<Rightarrow> bool"
  is_letter :: "string \<Rightarrow> bool"
  is_number :: "string \<Rightarrow> bool"
  lower :: "string \<Rightarrow> string"

datatype token_error = ErrInvalidToken | ErrTokenExpired

definition jwt_header :: string where
  "jwt_header = base64URLEncode ''{\"alg\":\"HS256\",\"typ\":\"JWT\"}''"

definition unix :: "time \<Rightarrow> int" where
  "unix t = t div Second"

definition GenerateTokenWithRole :: "crypto \<Rightarrow> int \<Rightarrow> string \<Rightarrow> duration \<Rightarrow> string \<Rightarrow> time \<Rightarrow> string" where
  "GenerateTokenWithRole c userID role ttl secret now =
     (let payload = base64URLEncode (marshal_claims c \<lparr>cl_UserID = userID, cl_Role = role, cl_Exp = unix (now + ttl)\<rparr>);
          unsignedToken = jwt_header @ ''.'' @ payload
      in unsignedToken @ ''.'' @ base64URLEncode (hmac_sha256 c secret unsignedToken))"

definition GenerateToken :: "crypto \<Rightarrow> int \<Rightarrow> duration \<Rightarrow> string \<Rightarrow> time \<Rightarrow> string" where
  "GenerateToken c userID ttl secret now = GenerateTokenWithRole c userID [] ttl secret now"

definition ValidateToken :: "crypto \<Rightarrow> string \<Rightarrow> string \<Rightarrow> time \<Rightarrow> token_error + Claims" where
  "ValidateToken c tokenStr secret now =
     (case split_on (CHR ''.'') tokenStr of
        [header, payload, signature] \<Rightarrow>
          if signature \<noteq> base64URLEncode (hmac_sha256 c secret (header @ ''.'' @ payload)) then Inl ErrInvalidToken
          else (case base64URLDecode payload of
                  None \<Rightarrow> Inl ErrInvalidToken
                | Some bytes \<Rightarrow>
                    (case unmarshal_claims c bytes of
                       None \<Rightarrow> Inl ErrInvalidToken
                     | Some claims \<Rightarrow> if cl_Exp claims < unix now then Inl ErrTokenExpired else Inr claims))
      | _ \<Rightarrow> Inl ErrInvalidToken)"

section \<open>Users and refresh tokens\<close>

record AuthUser =
  au_ID :: int
  au_Email :: string
  au_PasswordHash :: string
  au_FirstName :: string
  au_LastName :: string
  au_Role :: string
  au_EmailVerified :: bool
  au_IsBlocked :: bool
  au_CreatedAt :: time
  au_UpdatedAt :: time
  au_DeletedAt :: "time option"

definition Auth_ValidateEmail :: "crypto \<Rightarrow> string \<Rightarrow> err option" where
  "Auth_ValidateEmail c email =
     (let email = trim_space (lower c email) in
      if email = [] then Some (AuthErr Auth_ErrInvalidEmail)
      else if \<not> parse_address c email then Some (AuthErr Auth_ErrInvalidEmail)
      else (case split_on (CHR ''@'') email of
              [local, domain] \<Rightarrow> if local = [] \<or> domain = [] then Some (AuthErr Auth_ErrInvalidEmail) else None
            | _ \<Rightarrow> Some (AuthErr Auth_ErrInvalidEmail)))"

definition AuthUser_Validate :: "crypto \<Rightarrow> AuthUser \<Rightarrow> err option" where
  "AuthUser_Validate c u =
     (case Auth_ValidateEmail c (au_Email u) of
        Some e \<Rightarrow> Some e
      | None \<Rightarrow> if au_PasswordHash u = [] then Some (ErrText ''password hash cannot be empty'') else None)"

definition Auth_NewUser :: "crypto \<Rightarrow> string \<Rightarrow> string \<Rightarrow> time \<Rightarrow> err + AuthUser" where
  "Auth_NewUser c email passwordHash now =
     (let u = \<lparr>au_ID = 0, au_Email = email, au_PasswordHash = passwordHash, au_FirstName = [], au_LastName = [], au_Role = ''RENT'',
               au_EmailVerified = False, au_IsBlocked = False, au_CreatedAt = now, au_UpdatedAt = now, au_DeletedAt = None\<rparr>
      in case AuthUser_Validate c u of Some e \<Rightarrow> Inl e | None \<Rightarrow> Inr u)"

definition CanAuthenticate :: "AuthUser \<Rightarrow> err option" where
  "CanAuthenticate u =
     (if au_IsBlocked u then Some (AuthErr Auth_ErrUserBlocked)
      else if \<not> au_EmailVerified u then Some (AuthErr Auth_ErrEmailNotVerified) else None)"

record RefreshToken =
  rt_ID :: int
  rt_UserID :: int
  rt_TokenHash :: string
  rt_ExpiresAt :: time
  rt_RevokedAt :: "time option"
  rt_CreatedAt :: time

definition NewRefreshToken :: "int \<Rightarrow> string \<Rightarrow> duration \<Rightarrow> time \<Rightarrow> err + RefreshToken" where
  "NewRefreshToken userID tokenHash duration now =
     (if userID \<le> 0 then Inl (ErrText ''user ID must be positive'')
      else if tokenHash = [] then Inl (ErrText ''token hash cannot be empty'')
      else if duration \<le> 0 then Inl (ErrText ''token duration must be positive'')
      else Inr \<lparr>rt_ID = 0, rt_UserID = userID, rt_TokenHash = tokenHash, rt_ExpiresAt = now + duration, rt_RevokedAt = None, rt_CreatedAt = now\<rparr>)"

definition IsExpired :: "RefreshToken \<Rightarrow> time \<Rightarrow> bool" where
  "IsExpired rt now \<longleftrightarrow> rt_ExpiresAt rt < now"

definition IsRevoked :: "RefreshToken \<Rightarrow> bool" where
  "IsRevoked rt \<longleftrightarrow> rt_RevokedAt rt \<noteq> None"

definition Revoke :: "RefreshToken \<Rightarrow> time \<Rightarrow> err + RefreshToken" where
  "Revoke rt now = (if IsRevoked rt then Inl (AuthErr Auth_ErrTokenAlreadyRevoked) else Inr (rt\<lparr>rt_RevokedAt := Some now\<rparr>))"

section \<open>Statements\<close>

text \<open>A column \<open>VARCHAR(n)\<close> holds \<open>n\<close> characters.\<close>

definition varchar :: "nat \<Rightarrow> string \<Rightarrow> (db, unit) tx" where
  "varchar n v = fail_if (n < rune_count v) (PgError ''22001'' ''varchar'')"

definition Auth_CreateUser :: "AuthUser \<Rightarrow> (db, AuthUser) tx" where
  "Auth_CreateUser u =
     tx_seq (varchar 255 (au_Email u)) (tx_seq (varchar 100 (au_FirstName u)) (tx_seq (varchar 100 (au_LastName u))
     (tx_bind (next_id Users) (\<lambda>i. tx_bind db_now (\<lambda>t.
     tx_seq (insert_row users users_update user_schema
       \<lparr>u_id = i, u_email = au_Email u, u_password_hash = au_PasswordHash u, u_first_name = Some (au_FirstName u),
        u_last_name = Some (au_LastName u), u_email_verified = au_EmailVerified u, u_role = au_Role u, u_trust = 300,
        u_blocked = au_IsBlocked u, u_balance = 0, u_created = pg_ts (au_CreatedAt u), u_updated = t, u_deleted = map_option pg_ts (au_DeletedAt u)\<rparr>)
       (tx_return (u\<lparr>au_ID := i\<rparr>)))))))"

definition auth_user :: "user_row \<Rightarrow> AuthUser" where
  "auth_user r = \<lparr>au_ID = u_id r, au_Email = u_email r, au_PasswordHash = u_password_hash r, au_FirstName = case_option [] id (u_first_name r),
     au_LastName = case_option [] id (u_last_name r), au_Role = u_role r, au_EmailVerified = u_email_verified r, au_IsBlocked = u_blocked r,
     au_CreatedAt = u_created r, au_UpdatedAt = u_updated r, au_DeletedAt = u_deleted r\<rparr>"

definition Auth_GetUserByEmail :: "string \<Rightarrow> (db, AuthUser) tx" where
  "Auth_GetUserByEmail email = no_rows_as (AuthErr Auth_ErrUserNotFound)
     (query_row (\<lambda>s. map auth_user (filter (\<lambda>r. u_email r = email \<and> u_deleted r = None) (users s))))"

definition Auth_GetUserByID :: "int \<Rightarrow> (db, AuthUser) tx" where
  "Auth_GetUserByID i = no_rows_as (AuthErr Auth_ErrUserNotFound)
     (query_row (\<lambda>s. map auth_user (filter (\<lambda>r. u_id r = i \<and> u_deleted r = None) (users s))))"

definition Auth_UpdateUser :: "AuthUser \<Rightarrow> (db, unit) tx" where
  "Auth_UpdateUser u =
     tx_seq (update_table users users_update user_schema (\<lambda>r. u_id r = au_ID u)
       (\<lambda>r. r\<lparr>u_email := au_Email u, u_password_hash := au_PasswordHash u, u_first_name := Some (au_FirstName u),
          u_last_name := Some (au_LastName u), u_role := au_Role u, u_email_verified := au_EmailVerified u, u_blocked := au_IsBlocked u,
          u_updated := pg_ts (au_UpdatedAt u), u_deleted := map_option pg_ts (au_DeletedAt u)\<rparr>)) (tx_return ())"

definition CreateRefreshToken :: "RefreshToken \<Rightarrow> (db, unit) tx" where
  "CreateRefreshToken rt =
     tx_bind (next_id Tokens) (\<lambda>i.
     insert_row tokens tokens_update token_schema
       \<lparr>t_id = i, t_user = rt_UserID rt, t_hash = rt_TokenHash rt, t_expires = pg_ts (rt_ExpiresAt rt),
        t_revoked = map_option pg_ts (rt_RevokedAt rt), t_created = pg_ts (rt_CreatedAt rt)\<rparr>)"

definition refresh_token :: "token_row \<Rightarrow> RefreshToken" where
  "refresh_token k = \<lparr>rt_ID = t_id k, rt_UserID = t_user k, rt_TokenHash = t_hash k, rt_ExpiresAt = t_expires k, rt_RevokedAt = t_revoked k,
     rt_CreatedAt = t_created k\<rparr>"

definition getRefreshToken :: "string \<Rightarrow> (db, RefreshToken) tx" where
  "getRefreshToken tokenHash = no_rows_as (AuthErr Auth_ErrRefreshTokenNotFound)
     (query_row (\<lambda>s. map refresh_token (filter (\<lambda>k. t_hash k = tokenHash) (tokens s))))"

definition GetRefreshTokenForUpdate :: "string \<Rightarrow> (db, RefreshToken) tx" where
  "GetRefreshTokenForUpdate tokenHash = getRefreshToken tokenHash"

definition UpdateRefreshToken :: "RefreshToken \<Rightarrow> (db, unit) tx" where
  "UpdateRefreshToken rt =
     some_rows (update_table tokens tokens_update token_schema (\<lambda>k. t_id k = rt_ID rt \<and> t_revoked k = None)
       (\<lambda>k. k\<lparr>t_revoked := map_option pg_ts (rt_RevokedAt rt)\<rparr>)) (AuthErr Auth_ErrTokenAlreadyRevoked)"

definition DeleteExpiredRefreshTokens :: "time \<Rightarrow> (db, unit) tx" where
  "DeleteExpiredRefreshTokens now = tx_seq (delete_rows tokens tokens_update (\<lambda>k. t_expires k < pg_ts now)) (tx_return ())"

section \<open>The service\<close>

definition generateRandomString :: "crypto \<Rightarrow> err + string" where
  "generateRandomString c = (case random_bytes c of Inl e \<Rightarrow> Inl e | Inr b \<Rightarrow> Inr (hex_encode b))"

definition hashRefreshToken :: "crypto \<Rightarrow> string \<Rightarrow> string" where
  "hashRefreshToken c token = hex_encode (sha256 c token)"

definition fail_some :: "err option \<Rightarrow> (db, unit) tx" where
  "fail_some e = (case e of None \<Rightarrow> tx_return () | Some e \<Rightarrow> tx_fail e)"

text \<open>The end of the three operations that open a session: a new refresh token of thirty days is stored.\<close>

definition store_session :: "crypto \<Rightarrow> int \<Rightarrow> time \<Rightarrow> (db, string) tx" where
  "store_session c userID now =
     tx_bind (lift_result (generateRandomString c)) (\<lambda>refreshToken.
     tx_bind (lift_result (NewRefreshToken userID (hashRefreshToken c refreshToken) (30 * 24 * Hour) now)) (\<lambda>rt.
     tx_seq (CreateRefreshToken rt) (tx_return refreshToken)))"

definition Register ::
  "crypto \<Rightarrow> string \<Rightarrow> duration \<Rightarrow> string \<Rightarrow> string \<Rightarrow> string \<Rightarrow> string \<Rightarrow> time \<Rightarrow> db \<Rightarrow> (err + AuthUser \<times> string \<times> string) \<times> db" where
  "Register c jwtSecret jwtTTL email password firstName lastName now =
     WithinTransaction
    (tx_seq (tx_catch (tx_seq (Auth_GetUserByEmail email) (tx_fail (ErrText ''user already exists''))) (\<lambda>e.
       if errors_is e (AuthErr Auth_ErrUserNotFound) then tx_return () else tx_fail e))
    (tx_bind (lift_result (bcrypt_generate c password)) (\<lambda>hash.
     tx_bind (lift_result (Auth_NewUser c email hash now)) (\<lambda>user.
     tx_bind (Auth_CreateUser (user\<lparr>au_FirstName := firstName, au_LastName := lastName, au_Role := ''RENT'', au_EmailVerified := True\<rparr>)) (\<lambda>user.
     tx_bind (store_session c (au_ID user) now) (\<lambda>refreshToken.
     tx_return (user, GenerateTokenWithRole c (au_ID user) (au_Role user) jwtTTL jwtSecret now, refreshToken)))))))"

definition Login :: "crypto \<Rightarrow> string \<Rightarrow> duration \<Rightarrow> string \<Rightarrow> string \<Rightarrow> time \<Rightarrow> db \<Rightarrow> (err + string \<times> string) \<times> db" where
  "Login c jwtSecret jwtTTL email password now =
     WithinTransaction
    (tx_bind (tx_catch (Auth_GetUserByEmail email) (\<lambda>e. tx_fail (ErrText ''invalid email or password''))) (\<lambda>user.
     tx_seq (fail_if (\<not> bcrypt_matches c (au_PasswordHash user) password) (ErrText ''invalid email or password''))
    (tx_seq (fail_some (CanAuthenticate user))
    (tx_bind (store_session c (au_ID user) now) (\<lambda>refreshToken.
     tx_return (GenerateTokenWithRole c (au_ID user) (au_Role user) jwtTTL jwtSecret now, refreshToken))))))"

definition Refresh :: "crypto \<Rightarrow> string \<Rightarrow> duration \<Rightarrow> string \<Rightarrow> time \<Rightarrow> db \<Rightarrow> (err + string \<times> string) \<times> db" where
  "Refresh c jwtSecret jwtTTL refreshToken now =
     WithinTransaction
    (tx_bind (tx_catch (GetRefreshTokenForUpdate (hashRefreshToken c refreshToken)) (\<lambda>e. tx_fail (AuthErr Auth_ErrInvalidRefreshToken))) (\<lambda>rt.
     tx_seq (fail_if (IsExpired rt now) (AuthErr Auth_ErrTokenExpired))
    (tx_seq (fail_if (IsRevoked rt) (AuthErr Auth_ErrTokenAlreadyRevoked))
    (tx_bind (lift_result (Revoke rt now)) (\<lambda>rt.
     tx_seq (UpdateRefreshToken rt)
    (tx_bind (Auth_GetUserByID (rt_UserID rt)) (\<lambda>user.
     tx_seq (fail_some (CanAuthenticate user))
    (tx_bind (store_session c (au_ID user) now) (\<lambda>newRefreshToken.
     tx_return (GenerateTokenWithRole c (au_ID user) (au_Role user) jwtTTL jwtSecret now, newRefreshToken))))))))))"

definition Logout :: "crypto \<Rightarrow> string \<Rightarrow> time \<Rightarrow> db \<Rightarrow> (err + unit) \<times> db" where
  "Logout c refreshToken now =
     WithinTransaction
    (tx_bind (tx_catch (GetRefreshTokenForUpdate (hashRefreshToken c refreshToken)) (\<lambda>e. tx_fail (AuthErr Auth_ErrInvalidRefreshToken))) (\<lambda>rt.
     tx_bind (lift_result (Revoke rt now)) (\<lambda>rt. UpdateRefreshToken rt)))"

definition Me :: "int \<Rightarrow> (db, AuthUser) tx" where
  "Me userID = Auth_GetUserByID userID"

section \<open>Validation of requests\<close>

record RegisterRequest =
  rq_Email :: string
  rq_Password :: string
  rq_FirstName :: string
  rq_LastName :: string

definition validatePassword :: "crypto \<Rightarrow> string \<Rightarrow> err option" where
  "validatePassword c password =
     (if length password < 8 then Some (AuthErr Auth_ErrPasswordTooShort)
      else if \<not> list_ex (is_letter c) (runes password) \<or> \<not> list_ex (is_number c) (runes password)
      then Some (ErrText ''password must contain at least one letter and one digit'') else None)"

definition validateName :: "crypto \<Rightarrow> string \<Rightarrow> string \<Rightarrow> err option" where
  "validateName c field v =
     (if v = [] then Some (ErrText (field @ '' is required''))
      else if rune_count v < 2 \<or> 50 < rune_count v then Some (ErrText (field @ '' length must be between 2 and 50 characters''))
      else if list_all (\<lambda>ch. is_letter c ch \<or> ch = ''-'' \<or> ch = [CHR 0x27] \<or> ch = '' '') (runes v) then None
      else Some (ErrText (field @ '' can contain only letters, spaces, hyphen and apostrophe'')))"

definition orelse :: "err option \<Rightarrow> err option \<Rightarrow> err option" where
  "orelse a b = (case a of Some e \<Rightarrow> Some e | None \<Rightarrow> b)"

definition RegisterRequest_Validate :: "crypto \<Rightarrow> RegisterRequest \<Rightarrow> err option \<times> RegisterRequest" where
  "RegisterRequest_Validate c r =
     (let r = r\<lparr>rq_Email := trim_space (lower c (rq_Email r)), rq_FirstName := trim_space (rq_FirstName r), rq_LastName := trim_space (rq_LastName r)\<rparr>
      in (orelse (Auth_ValidateEmail c (rq_Email r)) (orelse (validatePassword c (rq_Password r))
            (orelse (validateName c ''first name'' (rq_FirstName r)) (validateName c ''last name'' (rq_LastName r)))), r))"

record LoginRequest =
  lq_Email :: string
  lq_Password :: string

definition LoginRequest_Validate :: "crypto \<Rightarrow> LoginRequest \<Rightarrow> err option \<times> LoginRequest" where
  "LoginRequest_Validate c r =
     (let r = r\<lparr>lq_Email := trim_space (lower c (lq_Email r))\<rparr>
      in (orelse (Auth_ValidateEmail c (lq_Email r)) (if lq_Password r = [] then Some (ErrText ''password is required'') else None), r))"

definition RefreshRequest_Validate :: "string \<Rightarrow> err option" where
  "RefreshRequest_Validate refreshToken = (if refreshToken = [] then Some (ErrText ''refresh token is required'') else None)"

section \<open>The middleware\<close>

record session =
  se_UserID :: int
  se_Role :: string

text \<open>The answer of the middleware: a status with its code, or the user and the effective role that the handlers see.\<close>

definition Auth :: "crypto \<Rightarrow> string \<Rightarrow> string \<Rightarrow> time \<Rightarrow> db \<Rightarrow> (nat \<times> string) + session" where
  "Auth c secret authHeader now s =
     (if authHeader = [] then Inl (401, ''UNAUTHORIZED'')
      else (case split_on (CHR '' '') authHeader of
        [scheme, token] \<Rightarrow>
          if to_lower scheme \<noteq> ''bearer'' then Inl (401, ''UNAUTHORIZED'')
          else (case ValidateToken c token secret now of
                  Inl e \<Rightarrow> Inl (401, ''UNAUTHORIZED'')
                | Inr claims \<Rightarrow>
                    (case LoadCurrentUser (cl_UserID claims) s of
                       Inl e \<Rightarrow> if errors_is e (AuthErr ErrCurrentUserForbidden) then Inl (401, ''SESSION_REVOKED'') else Inl (500, ''INTERNAL_ERROR'')
                     | Inr (currentUser, _) \<Rightarrow>
                         Inr \<lparr>se_UserID = cu_ID currentUser,
                              se_Role = (if cu_Role currentUser = ''ADMIN'' \<and> cl_Role claims \<noteq> ''ADMIN'' then ''RENT'' else cu_Role currentUser)\<rparr>))
      | _ \<Rightarrow> Inl (401, ''UNAUTHORIZED'')))"

end
