(* ===== verification/Sessions_Properties.thy ===== *)
theory Sessions_Properties
  imports Sessions
begin

text \<open>
  What the session operations guarantee: the tokens of the service are accepted until they expire and no others are, the
  middleware judges the user as the database has them now, a refresh token is used once, and a sign-in needs the password and the standing.
\<close>

section \<open>Constraints\<close>

lemmas auth_statements = Auth_CreateUser_def varchar_def Auth_GetUserByEmail_def Auth_GetUserByID_def store_session_def CreateRefreshToken_def
  GetRefreshTokenForUpdate_def getRefreshToken_def UpdateRefreshToken_def some_rows_def fail_some_def

lemma auth_valid [closed_intros]:
  "valid.closed (Auth_CreateUser u)" "valid.closed (Auth_GetUserByEmail e)" "valid.closed (Auth_GetUserByID i)" "valid.closed (store_session c i now)"
  "valid.closed (GetRefreshTokenForUpdate h)" "valid.closed (UpdateRefreshToken rt)" "valid.closed (fail_some x)"
  unfolding auth_statements by (intro closed_intros)+

lemma auth_evolves [closed_intros]:
  "evolution.closed (Auth_CreateUser u)" "evolution.closed (Auth_GetUserByEmail e)" "evolution.closed (Auth_GetUserByID i)" "evolution.closed (store_session c i now)"
  "evolution.closed (GetRefreshTokenForUpdate h)" "evolution.closed (UpdateRefreshToken rt)" "evolution.closed (fail_some x)"
  unfolding auth_statements by (intro closed_intros)+

lemma within_valid: "valid.closed m \<Longrightarrow> valid_db s \<Longrightarrow> valid_db (snd (WithinTransaction m s))"
  using valid.within_closed [of m s] by (simp add: keeps_valid_def)

lemma auth_operations_valid:
  assumes "valid_db s"
  shows "valid_db (snd (Register c sec ttl email pw fn ln now s))" "valid_db (snd (Login c sec ttl email pw now s))"
    "valid_db (snd (Refresh c sec ttl tok now s))" "valid_db (snd (Logout c tok now s))"
  unfolding Register_def Login_def Refresh_def Logout_def
  by (rule within_valid, intro closed_intros, rule assms)+

section \<open>Tokens\<close>

lemma split_on_append: "c \<notin> set a \<Longrightarrow> split_on c (a @ c # b) = a # split_on c b"
  by (induction a) auto

lemma split_on_plain: "c \<notin> set a \<Longrightarrow> split_on c a = [a]"
  by (induction a) auto

lemma split_three: "CHR ''.'' \<notin> set a \<Longrightarrow> CHR ''.'' \<notin> set b \<Longrightarrow> CHR ''.'' \<notin> set d \<Longrightarrow>
  split_on (CHR ''.'') (a @ ''.'' @ b @ ''.'' @ d) = [a, b, d]"
  by (simp add: split_on_append split_on_plain)

lemma join_split: "concat (map (\<lambda>w. c # w) (split_on c s)) = c # s"
proof (induction s)
  case (Cons x s)
  then show ?case by (cases "split_on c s") auto
qed simp

lemma split_on_joined: "split_on c s = [a, b, d] \<Longrightarrow> s = a @ c # b @ c # d"
  using join_split [of c s] by simp

lemma no_dot: "CHR ''.'' \<notin> set (base64URLEncode s)"
  using b64_text_plain [OF encode_text] by blast

lemma token_unique:
  assumes "valid_db s" "k \<in> set (tokens s)" "k' \<in> set (tokens s)" "t_hash k' = t_hash k"
  shows "k' = k"
proof (rule ccontr)
  assume other: "k' \<noteq> k"
  have "sorted_wrt (\<lambda>a b. clash token_schema a b = None) (tokens s)" using assms(1) by (simp add: valid_db_def valid_table_def)
  from sorted_wrt_pair [OF this assms(3,2) other] have "clash token_schema k' k = None \<or> clash token_schema k k' = None" .
  then show False using assms(4) by (auto simp: token_schema_def split: if_splits)
qed

lemma token_ids: "valid_db s \<Longrightarrow> distinct (map t_id (tokens s))"
  by (rule distinct_key [where sc = token_schema]) (auto simp: valid_db_def token_schema_def split: if_splits)

definition session_row :: "int \<Rightarrow> int \<Rightarrow> string \<Rightarrow> time \<Rightarrow> token_row" where
  "session_row i userID hash now = \<lparr>t_id = i, t_user = userID, t_hash = hash, t_expires = pg_ts (now + 30 * 24 * Hour), t_revoked = None,
     t_created = pg_ts now\<rparr>"

lemma store_session_ok:
  assumes "store_session c i now s = Inr (new, t)"
  shows "t = (bump Tokens s)\<lparr>tokens := tokens s @ [session_row (sequences s Tokens) i (hashRefreshToken c new) now]\<rparr>"
  using assms
  by (auto simp: store_session_def tx_bind_ok tx_seq_ok lift_result_ok CreateRefreshToken_def next_id_ok insert_row_ok tx_return_ok NewRefreshToken_def session_row_def
      split: if_splits)

lemma get_token_ok:
  assumes "tx_catch (GetRefreshTokenForUpdate h) (\<lambda>e. tx_fail e') s = Inr (rt, t)"
  shows "\<exists>k\<in>set (tokens s). t_hash k = h \<and> rt = refresh_token k \<and> t = s"
  using assms by (auto simp: GetRefreshTokenForUpdate_def getRefreshToken_def tx_catch_ok tx_fail_ok no_rows_as_ok query_row_ok dest!: filter_hd)

lemma update_token_ok:
  assumes valid: "valid_db s" and k: "k \<in> set (tokens s)" "t_revoked k = None"
    and run: "UpdateRefreshToken (refresh_token k\<lparr>rt_RevokedAt := Some now\<rparr>) s = Inr (x, t)"
  shows "t = s\<lparr>tokens := set_row t_id (k\<lparr>t_revoked := Some (pg_ts now)\<rparr>) (tokens s)\<rparr>"
proof -
  have "t = s\<lparr>tokens := upd (\<lambda>x. t_id x = t_id k \<and> t_revoked x = None) (\<lambda>x. x\<lparr>t_revoked := Some (pg_ts now)\<rparr>) (tokens s)\<rparr>"
    using run by (auto simp: UpdateRefreshToken_def some_rows_def tx_bind_ok fail_if_ok update_table_ok refresh_token_def)
  moreover have "upd (\<lambda>x. t_id x = t_id k \<and> t_revoked x = None) (\<lambda>x. x\<lparr>t_revoked := Some (pg_ts now)\<rparr>) (tokens s) =
      set_row t_id (k\<lparr>t_revoked := Some (pg_ts now)\<rparr>) (tokens s)"
    by (rule upd_set_row [OF token_ids [OF valid] k(1)]) (use k(2) in simp_all)
  ultimately show ?thesis by simp
qed

text \<open>A token that is revoked is accepted by neither operation.\<close>

lemma revoked_token_refused:
  assumes valid: "valid_db s" and k: "k \<in> set (tokens s)" "t_hash k = hashRefreshToken c tok" "t_revoked k \<noteq> None"
  shows "\<exists>e. Refresh c sec ttl tok now s = (Inl e, s)" "\<exists>e. Logout c tok now s = (Inl e, s)"
proof -
  have filter: "filter (\<lambda>k. t_hash k = hashRefreshToken c tok) (tokens s) = [k]"
  proof (rule filter_unique [OF token_ids [OF valid] k(1)])
    show "t_hash y = hashRefreshToken c tok \<longleftrightarrow> t_id y = t_id k" if "y \<in> set (tokens s)" for y
      using that token_unique [OF valid k(1) that] token_ids [OF valid] k by (auto simp: distinct_map inj_on_def)
  qed
  show "\<exists>e. Refresh c sec ttl tok now s = (Inl e, s)" "\<exists>e. Logout c tok now s = (Inl e, s)"
    using k(3) by (auto simp: Refresh_def Logout_def WithinTransaction_def tx_bind_def tx_catch_def GetRefreshTokenForUpdate_def getRefreshToken_def
        no_rows_as_def query_row_def filter tx_seq_def fail_if_def IsRevoked_def Revoke_def refresh_token_def lift_result_def)
qed

section \<open>Properties\<close>

text \<open>
  C37: A session token that the service issues is accepted by the middleware's check until it expires,
  with the user and the role it was issued for; after its expiry it is refused as expired.
\<close>

theorem session_token_round_trip:
  assumes "unmarshal_claims c (marshal_claims c \<lparr>cl_UserID = i, cl_Role = role, cl_Exp = unix (now + ttl)\<rparr>) =
      Some \<lparr>cl_UserID = i, cl_Role = role, cl_Exp = unix (now + ttl)\<rparr>"
  shows "ValidateToken c (GenerateTokenWithRole c i role ttl secret now) secret later =
    (if unix later \<le> unix (now + ttl) then Inr \<lparr>cl_UserID = i, cl_Role = role, cl_Exp = unix (now + ttl)\<rparr> else Inl ErrTokenExpired)"
proof -
  let ?p = "base64URLEncode (marshal_claims c \<lparr>cl_UserID = i, cl_Role = role, cl_Exp = unix (now + ttl)\<rparr>)"
  have dots: "CHR ''.'' \<notin> set jwt_header" unfolding jwt_header_def by (rule no_dot)
  have "split_on (CHR ''.'') (jwt_header @ ''.'' @ ?p @ ''.'' @ base64URLEncode (hmac_sha256 c secret (jwt_header @ ''.'' @ ?p))) =
      [jwt_header, ?p, base64URLEncode (hmac_sha256 c secret (jwt_header @ ''.'' @ ?p))]"
    by (rule split_three [OF dots no_dot no_dot])
  then show ?thesis using assms by (simp add: ValidateToken_def GenerateTokenWithRole_def Let_def base64_round_trip not_le)
qed

text \<open>
  C38: A request is let through only with a token whose signature is the authentication code under the server's secret,
  that has not expired, and whose user exists and is at that moment neither blocked nor deleted. The handlers see the user's id; the
  role they see is the administrator's only if the user is one now and was one when the token was issued.
\<close>

theorem authenticated_session:
  assumes "Auth c secret authHeader now s = Inr se"
  shows "\<exists>scheme header payload claims u.
     authHeader = scheme @ '' '' @ header @ ''.'' @ payload @ ''.'' @ base64URLEncode (hmac_sha256 c secret (header @ ''.'' @ payload)) \<and>
     Some claims = Option.bind (base64URLDecode payload) (unmarshal_claims c) \<and> unix now \<le> cl_Exp claims \<and>
     u \<in> set (users s) \<and> u_id u = cl_UserID claims \<and> \<not> u_blocked u \<and> u_deleted u = None \<and>
     se_UserID se = u_id u \<and> (se_Role se = ''ADMIN'' \<longleftrightarrow> u_role u = ''ADMIN'' \<and> cl_Role claims = ''ADMIN'')"
proof -
  obtain scheme token where h: "split_on (CHR '' '') authHeader = [scheme, token]"
    using assms by (auto simp: Auth_def split: if_splits list.splits)
  obtain claims cu t where tok: "ValidateToken c token secret now = Inr claims" and user: "LoadCurrentUser (cl_UserID claims) s = Inr (cu, t)"
    and se: "se = \<lparr>se_UserID = cu_ID cu, se_Role = (if cu_Role cu = ''ADMIN'' \<and> cl_Role claims \<noteq> ''ADMIN'' then ''RENT'' else cu_Role cu)\<rparr>"
    using assms by (auto simp: Auth_def h split: if_splits sum.splits)
  obtain header payload signature where parts: "split_on (CHR ''.'') token = [header, payload, signature]"
    using tok by (auto simp: ValidateToken_def split: list.splits)
  have sig: "signature = base64URLEncode (hmac_sha256 c secret (header @ ''.'' @ payload))" and exp: "unix now \<le> cl_Exp claims"
    and bytes: "Some claims = Option.bind (base64URLDecode payload) (unmarshal_claims c)"
    using tok by (auto simp: ValidateToken_def parts split: if_splits option.splits)
  have "authHeader = scheme @ '' '' @ header @ ''.'' @ payload @ ''.'' @ base64URLEncode (hmac_sha256 c secret (header @ ''.'' @ payload))"
    using join_split [of "CHR '' ''" authHeader] split_on_joined [OF parts] by (simp add: h sig)
  moreover obtain u where "u \<in> set (users s)" "u_id u = cl_UserID claims" "\<not> u_blocked u" "u_deleted u = None" "cu = current_user u"
    using user by (auto simp: LoadCurrentUser_def tx_inv current_user_def split: if_splits dest!: filter_hd)
  ultimately show ?thesis using exp bytes se by (intro exI [of _ scheme] exI [of _ header] exI [of _ payload] exI [of _ claims] exI [of _ u])
    (auto simp: current_user_def)
qed

text \<open>
  C39: A refresh token is exchanged once. An accepted exchange needs a stored token that has neither expired nor been
  revoked, of a user who may sign in; it revokes that token, stores the new one for the same user and issues a session token with
  the user's present role. Afterwards the old token is refused by every exchange and every sign-out, at any time.
\<close>

theorem refresh_token_once:
  assumes valid: "valid_db s" and run: "Refresh c sec ttl tok now s = (Inr (access, new), t)"
  shows "(\<exists>k\<in>set (tokens s). \<exists>u\<in>set (users s). t_hash k = hashRefreshToken c tok \<and> t_revoked k = None \<and> now \<le> t_expires k \<and>
       u_id u = t_user k \<and> u_deleted u = None \<and> \<not> u_blocked u \<and> u_email_verified u \<and>
       access = GenerateTokenWithRole c (u_id u) (u_role u) ttl sec now \<and>
       t = (bump Tokens s)\<lparr>tokens := set_row t_id (k\<lparr>t_revoked := Some (pg_ts now)\<rparr>) (tokens s) @
             [session_row (sequences s Tokens) (t_user k) (hashRefreshToken c new) now]\<rparr>) \<and>
     (\<forall>sec' ttl' now'. \<exists>e. Refresh c sec' ttl' tok now' t = (Inl e, t)) \<and> (\<forall>now'. \<exists>e. Logout c tok now' t = (Inl e, t))"
proof -
  obtain rt s1 rt' s2 user s3 x where get: "tx_catch (GetRefreshTokenForUpdate (hashRefreshToken c tok)) (\<lambda>e. tx_fail (AuthErr Auth_ErrInvalidRefreshToken)) s = Inr (rt, s1)"
    and alive: "\<not> IsExpired rt now" "\<not> IsRevoked rt" and rt': "Revoke rt now = Inr rt'" and upd: "UpdateRefreshToken rt' s1 = Inr (x, s2)"
    and user: "Auth_GetUserByID (rt_UserID rt') s2 = Inr (user, s3)" and can: "CanAuthenticate user = None"
    and store: "store_session c (au_ID user) now s3 = Inr (new, t)" and access: "access = GenerateTokenWithRole c (au_ID user) (au_Role user) ttl sec now"
    using run by (auto simp: Refresh_def WithinTransaction_ok tx_bind_ok tx_seq_ok fail_if_ok lift_result_ok tx_return_ok fail_some_def tx_fail_ok split: option.splits)
  obtain k where k: "k \<in> set (tokens s)" "t_hash k = hashRefreshToken c tok" "rt = refresh_token k" "s1 = s" using get_token_ok [OF get] by blast
  have live: "t_revoked k = None" "now \<le> t_expires k" using alive k(3) by (simp_all add: IsRevoked_def IsExpired_def refresh_token_def)
  have "rt' = refresh_token k\<lparr>rt_RevokedAt := Some now\<rparr>" using rt' k(3) alive(2) by (simp add: Revoke_def)
  then have s2: "s2 = s\<lparr>tokens := set_row t_id (k\<lparr>t_revoked := Some (pg_ts now)\<rparr>) (tokens s)\<rparr>" and ru: "rt_UserID rt' = t_user k"
    using update_token_ok [OF valid k(1) live(1)] upd k(4) by (simp_all add: refresh_token_def)
  obtain u where u: "u \<in> set (users s)" "u_id u = t_user k" "u_deleted u = None" "user = auth_user u" and s3: "s3 = s2"
    using user by (auto simp: Auth_GetUserByID_def no_rows_as_ok query_row_ok s2 ru dest!: filter_hd)
  have standing: "\<not> u_blocked u" "u_email_verified u" using can by (auto simp: CanAuthenticate_def u(4) auth_user_def split: if_splits)
  have id: "au_ID user = t_user k" "au_Role user = u_role u" using u by (simp_all add: auth_user_def)
  have "t = (bump Tokens s2)\<lparr>tokens := tokens s2 @ [session_row (sequences s2 Tokens) (t_user k) (hashRefreshToken c new) now]\<rparr>"
    using store_session_ok [OF store] by (simp add: s3 id)
  then have t: "t = (bump Tokens s)\<lparr>tokens := set_row t_id (k\<lparr>t_revoked := Some (pg_ts now)\<rparr>) (tokens s) @
             [session_row (sequences s Tokens) (t_user k) (hashRefreshToken c new) now]\<rparr>"
    unfolding s2 by (simp add: bump_def)
  let ?k = "k\<lparr>t_revoked := Some (pg_ts now)\<rparr>"
  have "valid_db t" using auth_operations_valid(3) [OF valid, of c sec ttl tok now] run by simp
  moreover have "?k \<in> set (tokens t)" using k(1) unfolding t by (auto simp: set_row_def image_iff intro!: bexI [of _ k])
  ultimately have "\<exists>e. Refresh c sec' ttl' tok now' t = (Inl e, t)" "\<exists>e. Logout c tok now' t = (Inl e, t)" for sec' ttl' now'
    using revoked_token_refused [of t ?k c tok] k(2) by simp_all
  moreover have "access = GenerateTokenWithRole c (u_id u) (u_role u) ttl sec now" using access id u(2) by simp
  ultimately show ?thesis using k live u standing t by blast
qed

text \<open>
  A sign-in succeeds only with an address of a user who is not deleted, a password that matches the stored hash, and a user who is verified and not
  blocked. It then adds exactly one refresh token, for that user, and changes nothing else; a sign-in that is refused changes nothing, and
  does not tell an unknown address from a wrong password.
\<close>

theorem login_effect:
  shows "case Login c sec ttl email password now s of
     (Inr (access, new), t) \<Rightarrow> \<exists>u\<in>set (users s). u_email u = email \<and> u_deleted u = None \<and> bcrypt_matches c (u_password_hash u) password \<and>
        \<not> u_blocked u \<and> u_email_verified u \<and> access = GenerateTokenWithRole c (u_id u) (u_role u) ttl sec now \<and>
        t = (bump Tokens s)\<lparr>tokens := tokens s @ [session_row (sequences s Tokens) (u_id u) (hashRefreshToken c new) now]\<rparr>
   | (Inl e, t) \<Rightarrow> t = s \<and> ((\<forall>u\<in>set (users s). u_email u = email \<and> u_deleted u = None \<longrightarrow> \<not> bcrypt_matches c (u_password_hash u) password) \<longrightarrow>
        e = ErrText ''invalid email or password'')"
proof (cases "filter (\<lambda>r. u_email r = email \<and> u_deleted r = None) (users s)")
  case Nil
  then have "Login c sec ttl email password now s = (Inl (ErrText ''invalid email or password''), s)"
    by (simp add: Login_def WithinTransaction_def tx_bind_def tx_catch_def Auth_GetUserByEmail_def no_rows_as_empty tx_fail_def)
  then show ?thesis by simp
next
  case (Cons u us)
  then have u: "u \<in> set (users s)" "u_email u = email" "u_deleted u = None" by (auto dest: filter_hd)
  have get: "tx_catch (Auth_GetUserByEmail email) (\<lambda>e. tx_fail (ErrText ''invalid email or password'')) s = Inr (auth_user u, s)"
    by (simp add: Auth_GetUserByEmail_def Cons tx_catch_def no_rows_as_def query_row_def)
  show ?thesis
  proof (cases "bcrypt_matches c (u_password_hash u) password")
    case False
    then have "Login c sec ttl email password now s = (Inl (ErrText ''invalid email or password''), s)"
      by (simp add: Login_def WithinTransaction_def tx_bind_def get tx_seq_def auth_user_def)
    then show ?thesis by simp
  next
    case True
    show ?thesis
    proof (cases "Login c sec ttl email password now s")
      case (Pair res t)
      show ?thesis
      proof (cases res)
        case (Inl e)
        then have "t = s" using Pair by (simp add: Login_def WithinTransaction_error)
        then show ?thesis unfolding Pair Inl using True u by auto
      next
        case (Inr p)
        obtain access new where p: "p = (access, new)" by (cases p)
        have "CanAuthenticate (auth_user u) = None" and store: "store_session c (au_ID (auth_user u)) now s = Inr (new, t)"
          and access: "access = GenerateTokenWithRole c (au_ID (auth_user u)) (au_Role (auth_user u)) ttl sec now"
          using Pair Inr p by (auto simp: Login_def WithinTransaction_ok tx_bind_ok tx_seq_ok get fail_if_ok fail_some_def tx_fail_ok tx_return_ok split: option.splits)
        then show ?thesis using u True store_session_ok [OF store] Pair Inr p
          by (auto simp: auth_user_def CanAuthenticate_def split: if_splits)
      qed
    qed
  qed
qed

text \<open>Concrete functions for the libraries, on which the witnesses run.\<close>

text \<open>Claims of small numbers as two octets and the role.\<close>

definition toy_marshal :: "Claims \<Rightarrow> string" where
  "toy_marshal cl = char_of (nat (cl_UserID cl)) # char_of (nat (cl_Exp cl)) # cl_Role cl"

fun toy_unmarshal :: "string \<Rightarrow> Claims option" where
  "toy_unmarshal (i # e # r) = Some \<lparr>cl_UserID = int (byte i), cl_Role = r, cl_Exp = int (byte e)\<rparr>"
| "toy_unmarshal v = None"

definition toy_crypto :: crypto where
  "toy_crypto = \<lparr>hmac_sha256 = (\<lambda>k m. take 3 (k @ m)), sha256 = rev, marshal_claims = toy_marshal, unmarshal_claims = toy_unmarshal,
     bcrypt_generate = (\<lambda>p. Inr (''#'' @ p)), bcrypt_matches = (\<lambda>h p. h = ''#'' @ p), random_bytes = Inr ''r'', parse_address = (\<lambda>_. True),
     is_letter = (\<lambda>c. list_all is_lower c), is_number = (\<lambda>c. list_all is_digit c), lower = to_lower\<rparr>"

definition signed_db :: db where
  "signed_db = waiting_db\<lparr>users := [admin_row, customer_row\<lparr>u_password_hash := ''#pw''\<rparr>],
     tokens := [token3\<lparr>t_hash := hashRefreshToken toy_crypto ''tok''\<rparr>]\<rparr>"

lemma session_token_round_trip_witness:
  "ValidateToken toy_crypto (GenerateTokenWithRole toy_crypto 2 ''RENT'' (100 * Second) ''key'' 0) ''key'' Minute =
     Inr \<lparr>cl_UserID = 2, cl_Role = ''RENT'', cl_Exp = 100\<rparr>"
proof -
  have claims: "unmarshal_claims toy_crypto (marshal_claims toy_crypto \<lparr>cl_UserID = 2, cl_Role = ''RENT'', cl_Exp = unix (0 + 100 * Second)\<rparr>) =
      Some \<lparr>cl_UserID = 2, cl_Role = ''RENT'', cl_Exp = unix (0 + 100 * Second)\<rparr>"
    by code_simp
  show ?thesis using session_token_round_trip [OF claims, of "''key''" Minute] by (simp add: unix_def)
qed

lemma authenticated_session_witness:
  "\<exists>se. Auth toy_crypto ''key'' (''Bearer '' @ GenerateTokenWithRole toy_crypto 2 ''RENT'' (100 * Second) ''key'' 0) Minute signed_db = Inr se \<and>
     (\<exists>u\<in>set (users signed_db). se_UserID se = u_id u \<and> \<not> u_blocked u)"
proof -
  have "Auth toy_crypto ''key'' (''Bearer '' @ GenerateTokenWithRole toy_crypto 2 ''RENT'' (100 * Second) ''key'' 0) Minute signed_db =
      Inr \<lparr>se_UserID = 2, se_Role = ''RENT''\<rparr>" by code_simp
  with authenticated_session [OF this] show ?thesis by blast
qed

lemma signed_db_valid: "valid_db signed_db"
  by code_simp

lemma refresh_token_once_witness:
  "\<exists>access new t. Refresh toy_crypto ''key'' Minute ''tok'' Minute signed_db = (Inr (access, new), t) \<and>
     (\<exists>e. Refresh toy_crypto ''key'' Minute ''tok'' Minute t = (Inl e, t))"
proof -
  have "ok_with (\<lambda>_. True) (Refresh toy_crypto ''key'' Minute ''tok'' Minute signed_db)" by code_simp
  then obtain access new t where run: "Refresh toy_crypto ''key'' Minute ''tok'' Minute signed_db = (Inr (access, new), t)" by (auto dest: ok_withD)
  with refresh_token_once [OF signed_db_valid run] show ?thesis by blast
qed

lemma login_effect_witness:
  "\<exists>access new t. Login toy_crypto ''key'' Minute ''c'' ''pw'' Minute signed_db = (Inr (access, new), t) \<and>
     (\<exists>u\<in>set (users signed_db). u_email u = ''c'' \<and> access = GenerateTokenWithRole toy_crypto (u_id u) (u_role u) Minute ''key'' Minute)"
proof -
  have "ok_with (\<lambda>_. True) (Login toy_crypto ''key'' Minute ''c'' ''pw'' Minute signed_db)" by code_simp
  then obtain access new t where run: "Login toy_crypto ''key'' Minute ''c'' ''pw'' Minute signed_db = (Inr (access, new), t)" by (auto dest: ok_withD)
  with login_effect [where c = toy_crypto and sec = "''key''" and ttl = Minute and email = "''c''" and password = "''pw''" and now = Minute and s = signed_db] show ?thesis by auto
qed

end
