(* ===== verification/System.thy ===== *)
theory System
  imports Webhook_Signature Webhook_Properties Refund Workers_Properties Adjustment_Properties Sessions_Properties
begin

text \<open>
  The program as a whole: the requests it serves (one per handler that changes state and one per scheduled task), the
  effect of each on the database, and runs of them. Every request but renting is \<open>lawful\<close>: it keeps the constraints, moves
  rows only forward, and creates no rental. The book of rentals is the abstract machine that all of them refine: its state is the account and the
  phase of every rental, its steps the life of a rental.
\<close>

section \<open>No operation but renting creates a rental\<close>

definition same_rentals :: "db \<Rightarrow> db \<Rightarrow> bool" where
  "same_rentals s t \<longleftrightarrow> map r_id (rentals t) = map r_id (rentals s)"

interpretation fixed: step_preorder same_rentals
  by unfold_locales (simp_all add: same_rentals_def)

lemma fixed_statements [closed_intros]:
  "fixed.closed (update_table users users_update user_schema P1 f1)" "fixed.closed (update_table accounts accounts_update account_schema P2 f2)"
  "(\<And>r. P3 r \<Longrightarrow> r_id (f3 r) = r_id r) \<Longrightarrow> fixed.closed (update_table rentals rentals_update rental_schema P3 f3)"
  "fixed.closed (update_table payments payments_update payment_schema P4 f4)" "fixed.closed (update_table holds holds_update hold_schema P5 f5)"
  "fixed.closed (update_table refunds refunds_update refund_schema P6 f6)" "fixed.closed (update_table tokens tokens_update token_schema P7 f7)"
  "fixed.closed (update_table account_games account_games_update link_schema P8 f8)"
  "fixed.closed (insert_row users users_update user_schema r1)" "fixed.closed (insert_row accounts accounts_update account_schema r2)"
  "fixed.closed (insert_row payments payments_update payment_schema r4)" "fixed.closed (insert_row events events_update event_schema r5)"
  "fixed.closed (insert_row audits audits_update audit_schema r6)" "fixed.closed (insert_row tokens tokens_update token_schema r7)"
  "fixed.closed (insert_row games games_update game_schema r11)" "fixed.closed (insert_row account_games account_games_update link_schema r12)"
  "fixed.closed (delete_rows account_games account_games_update P13)" "fixed.closed (insert_row ledger ledger_update ledger_schema r8)"
  "fixed.closed (insert_on_conflict ledger ledger_update ledger_schema k8 r8)" "fixed.closed (insert_on_conflict holds holds_update hold_schema k9 r9)"
  "fixed.closed (insert_on_conflict refunds refunds_update refund_schema k10 r10)" "fixed.closed (next_id tb)" "fixed.closed db_now"
  by (auto intro!: fixed.closedI simp: same_rentals_def tx_inv map_upd_key)

section \<open>Lawful steps\<close>

text \<open>What every operation but renting keeps: the constraints, the evolution of the rows, and the set of rentals.\<close>

definition lawful :: "db \<Rightarrow> db \<Rightarrow> bool" where
  "lawful s t \<longleftrightarrow> (valid_db s \<longrightarrow> valid_db t \<and> evolves s t \<and> same_rentals s t)"

interpretation lawful: step_preorder lawful
  by unfold_locales (auto simp: lawful_def evolution.R_refl fixed.R_refl intro: evolution.R_trans fixed.R_trans)

lemma lawful_closedI: "valid.closed m \<Longrightarrow> evolution.closed m \<Longrightarrow> fixed.closed m \<Longrightarrow> lawful.closed m"
  by (auto simp: valid.closed_def evolution.closed_def fixed.closed_def lawful.closed_def lawful_def keeps_valid_def)

text \<open>A change of rentals that moves every row it meets forward.\<close>

lemma evolves_rental_update:
  assumes "update_table rentals rentals_update rental_schema P f s = Inr (n, t)" "\<And>r. r \<in> set (rentals s) \<Longrightarrow> P r \<Longrightarrow> rental_next r (f r)"
  shows "evolves s t \<and> same_rentals s t"
proof -
  have t: "t = s\<lparr>rentals := upd P f (rentals s)\<rparr>" using assms(1) by (auto simp: update_table_ok)
  have "grows rental_next (rentals s) (upd P f (rentals s))" by (rule rental_order.grows_upd) (rule assms(2))
  moreover have "map r_id (upd P f (rentals s)) = map r_id (rentals s)"
    using assms(2) unfolding upd_def by (auto simp: rental_next_def)
  ultimately show ?thesis unfolding t by (simp add: evolves_def same_rentals_def grows_refls)
qed

lemma evolves_payment_update:
  assumes "update_table payments payments_update payment_schema P f s = Inr (n, t)" "\<And>p. p \<in> set (payments s) \<Longrightarrow> P p \<Longrightarrow> payment_next p (f p)"
  shows "evolves s t \<and> same_rentals s t"
proof -
  have t: "t = s\<lparr>payments := upd P f (payments s)\<rparr>" using assms(1) by (auto simp: update_table_ok)
  have "grows payment_next (payments s) (upd P f (payments s))" by (rule payment_order.grows_upd) (rule assms(2))
  then show ?thesis unfolding t by (simp add: evolves_def same_rentals_def grows_refls)
qed

definition evolves_same :: "db \<Rightarrow> db \<Rightarrow> bool" where
  "evolves_same s t \<longleftrightarrow> evolves s t \<and> same_rentals s t"

interpretation forward: step_preorder evolves_same
  by unfold_locales (auto simp: evolves_same_def evolution.R_refl fixed.R_refl intro: evolution.R_trans fixed.R_trans)

lemma forward_closedI: "evolution.closed m \<Longrightarrow> fixed.closed m \<Longrightarrow> forward.closed m"
  by (auto simp: evolution.closed_def fixed.closed_def forward.closed_def evolves_same_def)

section \<open>The operations\<close>

lemma fixed_operations [closed_intros]:
  "fixed.closed (PayRentalWithBalance_body inet uid rid ip agent now)"
  "fixed.closed (ProcessWebhook_body inet req pid rid ip agent now)"
  "fixed.closed (ReleaseDeposit_body actor rid now)"
  "fixed.closed (ForfeitDeposit_body actor rid reason ev i now)"
  "fixed.closed (finalize_next busy now)"
  "fixed.closed (RefundWalletPayment_body actor role rid reason now)"
  "fixed.closed (AdjustAdminBalance_body r actor target ip agent now)"
  unfolding wallet_defs webhook_defs settlement_defs finalize_defs refund_defs adjustment_statements
  by (intro closed_intros; simp)+

lemma unique_rental: "valid_db s \<Longrightarrow> x \<in> set (rentals s) \<Longrightarrow> y \<in> set (rentals s) \<Longrightarrow> r_id x = r_id y \<Longrightarrow> x = y"
  using valid_db_keys(3) [of s] by (auto simp: distinct_map inj_on_def)

lemma unique_payment: "valid_db s \<Longrightarrow> x \<in> set (payments s) \<Longrightarrow> y \<in> set (payments s) \<Longrightarrow> p_id x = p_id y \<Longrightarrow> x = y"
  using valid_db_keys(4) [of s] by (auto simp: distinct_map inj_on_def)

lemma rentals_of_payment_update:
  "update_table payments payments_update payment_schema P f s = Inr (n, t) \<Longrightarrow> rentals t = rentals s"
  by (auto simp: update_table_ok)

text \<open>An update of payments and then of rentals that each move only the rows of the state before.\<close>

lemma payments_then_rentals:
  assumes "tx_bind (update_table payments payments_update payment_schema P f) (\<lambda>n. tx_bind (update_table rentals rentals_update rental_schema Q g) (m n)) s = Inr (v, t)"
    and "\<And>p. p \<in> set (payments s) \<Longrightarrow> P p \<Longrightarrow> payment_next p (f p)" "\<And>r. r \<in> set (rentals s) \<Longrightarrow> Q r \<Longrightarrow> rental_next r (g r)"
    and rest: "\<And>n k. forward.closed (m n k)"
  shows "evolves_same s t"
proof -
  obtain n s1 k s2 where 1: "update_table payments payments_update payment_schema P f s = Inr (n, s1)"
    and 2: "update_table rentals rentals_update rental_schema Q g s1 = Inr (k, s2)" and 3: "m n k s2 = Inr (v, t)"
    using assms(1) by (auto simp: tx_bind_ok)
  have "evolves_same s s1" unfolding evolves_same_def by (rule evolves_payment_update [OF 1 assms(2)])
  moreover have "evolves_same s1 s2" unfolding evolves_same_def
    by (rule evolves_rental_update [OF 2]) (use assms(3) rentals_of_payment_update [OF 1] in simp)
  moreover have "evolves_same s2 t" by (rule forward.closedD [OF rest 3])
  ultimately show ?thesis by (blast intro: forward.R_trans)
qed

lemma forward_statements [closed_intros]:
  "(\<And>a. P2 a \<Longrightarrow> account_next a (f2 a)) \<Longrightarrow> forward.closed (update_table accounts accounts_update account_schema P2 f2)"
  "forward.closed (insert_row events events_update event_schema r5)" "forward.closed (next_id tb)" "forward.closed db_now"
  by (rule forward_closedI; intro closed_intros; simp)+

lemma tx_bind_read: "tx_bind (tx_read f) g s = g (f s) s"
  by (simp add: tx_bind_def tx_read_def)

lemma then_forward:
  assumes "tx_bind m k s = Inr (v, t)" "\<And>x u. m s = Inr (x, u) \<Longrightarrow> evolves_same s u" "\<And>x. forward.closed (k x)"
  shows "evolves_same s t"
  using assms(1) unfolding tx_bind_ok by (blast intro: forward.R_trans assms(2) forward.closedD [OF assms(3)])

lemma within_lawful:
  assumes "valid.closed m" "\<And>x t. valid_db s \<Longrightarrow> m s = Inr (x, t) \<Longrightarrow> evolves_same s t"
  shows "lawful s (snd (WithinTransaction m s))"
proof (rule WithinTransaction_cases [of m s])
  fix x t
  assume "m s = Inr (x, t)" "WithinTransaction m s = (Inr x, t)"
  then show ?thesis using assms(2) valid.closedD [OF assms(1)] by (auto simp: lawful_def evolves_same_def keeps_valid_def)
qed (simp add: lawful.R_refl)

lemma cancel_statement_forward:
  assumes valid: "valid_db s" and run: "cancel_statement rid uid reason now s = Inr (v, t)"
  shows "evolves_same s t"
proof (rule payments_then_rentals [OF run [unfolded cancel_statement_def tx_bind_read id_apply Let_def]])
  show "payment_next p (p\<lparr>p_status := 3, p_processed := Some (pg_ts now)\<rparr>)"
    if "p \<in> set (payments s)" "list_ex (\<lambda>(r, q). p_id p = p_id q) (cancel_locked rid uid s)" for p
  proof -
    have "p_status p = 1" using cancel_locked_status(1) [OF that(2)] unique_payment [OF valid] that(1) by auto
    then show ?thesis by (simp add: payment_next_def)
  qed
  show "rental_next r (r\<lparr>r_status := Rental_Cancelled, r_reason := Some reason, r_finished := Some (pg_ts now), r_updated := pg_ts now\<rparr>)"
    if "r \<in> set (rentals s)" "list_ex (\<lambda>(x, q). r_id r = r_id x) (cancel_locked rid uid s)" for r
  proof -
    have "r_status r = 1" using cancel_locked_status(2) [OF that(2)] unique_rental [OF valid] that(1) by auto
    then show ?thesis by (simp add: rental_next_def later_status_def)
  qed
qed (unfold insert_event_def; intro closed_intros; simp add: account_next_def)

lemma cancel_lawful: "lawful s (snd (CancelRental uid rid reason now s))"
  unfolding CancelRental_def
proof (rule within_lawful)
  fix x t
  assume valid: "valid_db s" and run: "wrapf ''cancel rental'' (CancelWaitingPaymentRental rid uid reason now) s = Inr (x, t)"
  show "evolves_same s t"
  proof (rule then_forward [OF run [unfolded wrapf_ok CancelWaitingPaymentRental_def]])
    show "evolves_same s u" if "wrapf ''cancel waiting payment rental transition'' (cancel_statement rid uid (cancel_reason reason) now) s = Inr (y, u)" for y u
      using cancel_statement_forward [OF valid] that by (simp add: wrapf_ok)
  qed (intro closed_intros)
qed (intro closed_intros)

text \<open>The statements of the workers.\<close>

lemma reservation_locked_status:
  "(p, r) \<in> set (reservation_locked i now s) \<Longrightarrow> p \<in> set (payments s) \<and> p_status p = 1 \<and> r \<in> set (rentals s) \<and> r_id r = p_rental p \<and> r_status r = 1"
  by (auto simp: reservation_locked_def unpaid_reservation_def split: if_splits)

lemma reservation_lawful: "lawful s (snd (ExpireWaitingPaymentReservation i now s))"
  unfolding ExpireWaitingPaymentReservation_def
proof (rule within_lawful)
  show "valid.closed (ExpireWaitingPaymentReservation_body i now)"
    unfolding ExpireWaitingPaymentReservation_body_def insert_event_def by (intro closed_intros)
  fix x t
  assume valid: "valid_db s" and run: "ExpireWaitingPaymentReservation_body i now s = Inr (x, t)"
  show "evolves_same s t"
  proof (rule payments_then_rentals [OF run [unfolded ExpireWaitingPaymentReservation_body_def tx_bind_read tx_seq_def]])
    show "payment_next p (p\<lparr>p_status := 3, p_processed := Some (pg_ts now)\<rparr>)"
      if p: "p \<in> set (payments s)" "list_ex (\<lambda>(q, r). p_id p = p_id q) (reservation_locked i now s)" for p
    proof -
      obtain q x where q: "(q, x) \<in> set (reservation_locked i now s)" "p_id p = p_id q" using p(2) by (auto simp: list_ex_iff)
      note q' = reservation_locked_status [OF q(1)]
      have "p = q" by (rule unique_payment [OF valid p(1)]) (use q' q(2) in simp_all)
      then have "p_status p = 1" using q' by simp
      then show ?thesis by (simp add: payment_next_def)
    qed
    show "rental_next r (r\<lparr>r_status := 3, r_updated := pg_ts now\<rparr>)"
      if p: "r \<in> set (rentals s)" "list_ex (\<lambda>(q, x). r_id r = p_rental q) (reservation_locked i now s)" for r
    proof -
      obtain q x where q: "(q, x) \<in> set (reservation_locked i now s)" "r_id r = p_rental q" using p(2) by (auto simp: list_ex_iff)
      note q' = reservation_locked_status [OF q(1)]
      have "r = x" by (rule unique_rental [OF valid p(1)]) (use q' q(2) in simp_all)
      then have "r_status r = 1" using q' by simp
      then show ?thesis by (simp add: rental_next_def later_status_def)
    qed
  qed (unfold insert_event_def; intro closed_intros; simp add: account_next_def)
qed

lemma expiry_lawful: "lawful s (snd (ExpireRental busy i acc now s))"
  unfolding ExpireRental_def
proof (rule within_lawful)
  show "valid.closed (tx_bind (expire_statement busy i acc now) (\<lambda>(lockedCount, accountUpdated, auditInserted).
       if lockedCount = 0 then tx_return False
       else tx_seq (fail_if (accountUpdated = 0 \<or> auditInserted = 0) (ErrText ''expire rental transition did not update all required records''))
            (tx_return True)))"
    unfolding expire_statement_def insert_event_def Let_def by (intro closed_intros)
  fix x t
  assume valid: "valid_db s" and run: "tx_bind (expire_statement busy i acc now) (\<lambda>(lockedCount, accountUpdated, auditInserted).
       if lockedCount = 0 then tx_return False
       else tx_seq (fail_if (accountUpdated = 0 \<or> auditInserted = 0) (ErrText ''expire rental transition did not update all required records''))
            (tx_return True)) s = Inr (x, t)"
  show "evolves_same s t"
  proof (rule then_forward [OF run])
    fix y u
    assume "expire_statement busy i acc now s = Inr (y, u)"
    then show "evolves_same s u"
      unfolding expire_statement_def tx_bind_read id_apply Let_def
    proof (rule then_forward)
      fix n v
      assume "update_table rentals rentals_update rental_schema (\<lambda>x. list_ex (\<lambda>r. r_id x = r_id r) (expiry_locked busy i acc now s)) (expired_row s now) s = Inr (n, v)"
      then show "evolves_same s v"
        unfolding evolves_same_def
      proof (rule evolves_rental_update)
        fix r
        assume r: "r \<in> set (rentals s)" "list_ex (\<lambda>x. r_id r = r_id x) (expiry_locked busy i acc now s)"
        then obtain x where x: "x \<in> set (expiry_locked busy i acc now s)" "r_id r = r_id x" by (auto simp: list_ex_iff)
        then have x': "x \<in> set (rentals s)" "r_status x = 2" by (auto simp: expiry_locked_def split: if_splits)
        have "r = x" by (rule unique_rental [OF valid r(1) x'(1) x(2)])
        then have "r_status r = 2" using x' by simp
        then show "rental_next r (expired_row s now r)" by (simp add: expired_row_def rental_next_def later_status_def)
      qed
    qed (unfold insert_event_def; intro closed_intros; simp add: account_next_def)
  qed (intro closed_intros)
qed

section \<open>Requests\<close>

text \<open>What the running program takes from outside: the libraries and external services, and its configuration.\<close>

record env =
  env_inet :: "string \<Rightarrow> bool"
  env_crypto :: crypto
  env_encrypt :: "string \<Rightarrow> err + string"
  env_decrypt :: "string \<Rightarrow> err + string"
  env_pg_int :: "string \<Rightarrow> int option"
  env_steam :: SteamClient
  env_secret :: string
  env_ttl :: duration

datatype request =
    Sign_Up string string string string
  | Sign_In string string
  | Exchange string
  | Sign_Out string
  | Rent int int int duration
  | Cancel int int string
  | Credentials int int string string
  | Pay_Wallet int int string string
  | Pay_Webhook WebhookRequest string string
  | Release int string int
  | Forfeit int string int string string
  | Refund_Wallet int string int string
  | Adjust int string int AdminBalanceAdjustmentInput string string
  | Finalize "nat \<Rightarrow> int set" int
  | Expire_Rentals "int \<Rightarrow> bool"
  | Expire_Reservations
  | Sync_Steam
  | Sync_Games int int "AccountGameSyncInfo list"
  | Disable_Account int int
  | Create_Account int AdminAccountInput
  | Update_Account int int AdminAccountUpdate
  | Update_User int int AdminUpdateInput
  | Update_Profile int string string

fun exec :: "env \<Rightarrow> time \<Rightarrow> request \<Rightarrow> db \<Rightarrow> db" where
  "exec env now (Sign_Up email pw fn ln) s = snd (Register (env_crypto env) (env_secret env) (env_ttl env) email pw fn ln now s)"
| "exec env now (Sign_In email pw) s = snd (Login (env_crypto env) (env_secret env) (env_ttl env) email pw now s)"
| "exec env now (Exchange tok) s = snd (Refresh (env_crypto env) (env_secret env) (env_ttl env) tok now s)"
| "exec env now (Sign_Out tok) s = snd (Logout (env_crypto env) tok now s)"
| "exec env now (Rent i uid aid d) s = snd (RentAccount i uid aid d now s)"
| "exec env now (Cancel uid i reason) s = snd (CancelRental uid i reason now s)"
| "exec env now (Credentials uid i ip agent) s = snd (GetRentalCredentials (env_inet env) (env_decrypt env) uid i ip agent now s)"
| "exec env now (Pay_Wallet uid i ip agent) s = snd (PayRentalWithBalance (env_inet env) uid i ip agent now s)"
| "exec env now (Pay_Webhook req ip agent) s = snd (ProcessWebhook (env_inet env) req ip agent now s)"
| "exec env now (Release actor role i) s = snd (ReleaseDeposit actor role i now s)"
| "exec env now (Forfeit actor role i reason ev) s = snd (ForfeitDeposit actor role i reason ev now s)"
| "exec env now (Refund_Wallet actor role i reason) s = snd (RefundWalletPayment actor role i reason now s)"
| "exec env now (Adjust actor role target input ip agent) s = snd (AdjustAdminBalance actor role target input ip agent now s)"
| "exec env now (Finalize busy limit) s = snd (FinalizeExpiredRentals busy now limit s)"
| "exec env now (Expire_Rentals busy) s = ExpiredCleanup busy now s"
| "exec env now Expire_Reservations s = WaitingPaymentCleanup now s"
| "exec env now Sync_Steam s = SteamSyncWorker (env_pg_int env) (env_steam env) s"
| "exec env now (Sync_Games actor i gs) s = snd (SyncAccountGamesAsCurrentAdmin (env_pg_int env) actor i gs s)"
| "exec env now (Disable_Account actor i) s = snd (DisableAccountIfIdleAsCurrentAdmin actor i s)"
| "exec env now (Create_Account actor input) s = snd (AdminService_CreateAccount (env_encrypt env) actor input s)"
| "exec env now (Update_Account actor i input) s = snd (AdminService_UpdateAccount actor i input s)"
| "exec env now (Update_User actor target input) s = snd (User_AdminUpdateUser actor target input s)"
| "exec env now (Update_Profile uid fn ln) s = snd (WithinTransaction (User_ServiceUpdateUser uid fn ln now) s)"

text \<open>Requests are served one after the other, each at a moment that the database's clock shows.\<close>

definition serve :: "env \<Rightarrow> time \<times> request \<Rightarrow> db \<Rightarrow> db" where
  "serve env = (\<lambda>(now, r) s. exec env now r (s\<lparr>clock := pg_ts now\<rparr>))"

definition run :: "env \<Rightarrow> (time \<times> request) list \<Rightarrow> db \<Rightarrow> db" where
  "run env rs s = fold (serve env) rs s"

section \<open>Every request but renting is lawful\<close>

lemma closed_list:
  "valid.closed m \<Longrightarrow> (\<And>x xs. valid.closed (f x xs)) \<Longrightarrow> valid.closed (case v of [] \<Rightarrow> m | x # xs \<Rightarrow> f x xs)"
  "evolution.closed m \<Longrightarrow> (\<And>x xs. evolution.closed (f x xs)) \<Longrightarrow> evolution.closed (case v of [] \<Rightarrow> m | x # xs \<Rightarrow> f x xs)"
  "fixed.closed m \<Longrightarrow> (\<And>x xs. fixed.closed (f x xs)) \<Longrightarrow> fixed.closed (case v of [] \<Rightarrow> m | x # xs \<Rightarrow> f x xs)"
  by (simp_all split: list.split)

lemmas worker_statements = disableAccountIfIdle_def syncAccountGames_def sync_game_def insert_link_def admin_reads Let_def

lemma worker_valid [closed_intros]:
  "valid.closed (disableAccountIfIdle i)" "valid.closed (syncAccountGames pg i gs)" "valid.closed (RequireCurrentAdminForMutation b i)"
  unfolding worker_statements by (intro closed_intros closed_list)+

lemma worker_evolves [closed_intros]:
  "evolution.closed (disableAccountIfIdle i)" "evolution.closed (syncAccountGames pg i gs)" "evolution.closed (RequireCurrentAdminForMutation b i)"
  unfolding worker_statements by (intro closed_intros closed_list; simp add: account_next_def)+

lemma worker_fixed [closed_intros]:
  "fixed.closed (disableAccountIfIdle i)" "fixed.closed (syncAccountGames pg i gs)" "fixed.closed (RequireCurrentAdminForMutation b i)"
  unfolding worker_statements by (intro closed_intros closed_list)+

lemma auth_fixed [closed_intros]:
  "fixed.closed (Auth_CreateUser u)" "fixed.closed (Auth_GetUserByEmail e)" "fixed.closed (Auth_GetUserByID i)" "fixed.closed (store_session c i now)"
  "fixed.closed (GetRefreshTokenForUpdate h)" "fixed.closed (UpdateRefreshToken rt)" "fixed.closed (fail_some x)"
  unfolding auth_statements by (intro closed_intros)+

lemma user_fixed [closed_intros]:
  "fixed.closed (GetUser i)" "fixed.closed (User_UpdateUser u)"
  "fixed.closed (User_AdminUpdate_body actor target input)" "fixed.closed (User_ServiceUpdateUser i f l now)"
  unfolding User_AdminUpdate_body_def user_statements by (intro closed_intros)+

lemma account_fixed [closed_intros]:
  "fixed.closed (CreateAdminAccount steam login pw price deposit)" "fixed.closed (UpdateAdminPricing i price' deposit')"
  "fixed.closed (Account_RequireCurrentAdmin i)" "fixed.closed (GetAccount i)" "fixed.closed (GetAccountForUpdate i)"
  unfolding account_writes account_reads by (intro closed_intros)+

lemma credentials_closed [closed_intros]:
  "evolution.closed (GetRentalCredentials_body inet decrypt uid i ip agent now)" "fixed.closed (GetRentalCredentials_body inet decrypt uid i ip agent now)"
  unfolding rental_defs Let_def by (intro closed_intros)+

lemma lawful_within: "valid.closed m \<Longrightarrow> evolution.closed m \<Longrightarrow> fixed.closed m \<Longrightarrow> lawful s (snd (WithinTransaction m s))"
  by (rule lawful.within_closed) (rule lawful_closedI)

lemma lawful_fold: "(\<And>x s. lawful s (f x s)) \<Longrightarrow> lawful s (fold f xs s)"
  by (induction xs arbitrary: s) (auto intro: lawful.R_refl lawful.R_trans)

lemma lawful_if: "(c \<Longrightarrow> lawful s (snd x)) \<Longrightarrow> (\<not> c \<Longrightarrow> lawful s (snd y)) \<Longrightarrow> lawful s (snd (if c then x else y))"
  by simp

lemma lawful_finalize: "lawful s (snd (finalize_loop n busy now result s))"
  by (rule finalize_loop_induct)
    (use lawful.closedD [OF lawful_closedI [OF finalize_valid finalize_evolves fixed_operations(5)]] in \<open>auto intro: lawful.R_refl lawful.R_trans\<close>)

definition renting :: "request \<Rightarrow> bool" where
  "renting r \<longleftrightarrow> (\<exists>i uid aid d. r = Rent i uid aid d)"

lemma steam_sync_lawful: "lawful s (steam_sync_account pg client i s)"
proof -
  have "lawful t (snd (DisableAccountIfIdle i t))" "lawful t (snd (Workers_SyncAccountGames pg i gs t))" for t gs
    unfolding DisableAccountIfIdle_def Workers_SyncAccountGames_def by (rule lawful_within; intro closed_intros)+
  moreover have "t = s" if "GetAccountSyncDetails i s = Inr (x, t)" for x t
    using that by (auto simp: GetAccountSyncDetails_def query_row_ok)
  ultimately show ?thesis
    by (auto simp: steam_sync_account_def lawful.R_refl split: sum.split prod.split bool.split)
qed

lemma snd_with_aliases [simp]: "snd (with_aliases status r) = snd r"
  by (simp add: with_aliases_def split: prod.split sum.split)

lemma exec_lawful:
  assumes "\<not> renting r"
  shows "lawful s (exec env now r s)"
proof (cases r)
  case (Rent i uid aid d)
  then show ?thesis using assms by (auto simp: renting_def)
next
  case (Pay_Wallet uid i ip agent)
  have "lawful s (snd (WithinTransaction (PayRentalWithBalance_body (env_inet env) uid i ip agent now) s))"
    by (rule lawful_within; intro closed_intros)
  then show ?thesis by (auto simp: Pay_Wallet PayRentalWithBalance_def split: prod.splits sum.splits)
next
  case (Pay_Webhook req ip agent)
  have "lawful s (snd (WithinTransaction (ProcessWebhook_body (env_inet env) req pid rid ip agent now) s))" for pid rid
    by (rule lawful_within; intro closed_intros)
  then show ?thesis by (auto simp: Pay_Webhook ProcessWebhook_def lawful.R_refl split: prod.splits sum.splits)
next
  case (Release actor role i)
  have "lawful s (snd (WithinTransaction (ReleaseDeposit_body actor i now) s))" by (rule lawful_within; intro closed_intros)
  then show ?thesis by (auto simp: Release ReleaseDeposit_def lawful.R_refl)
next
  case (Forfeit actor role i reason ev)
  have "lawful s (snd (WithinTransaction (ForfeitDeposit_body actor i r' e k now) s))" for r' e k by (rule lawful_within; intro closed_intros)
  then show ?thesis
    by (auto simp: Forfeit ForfeitDeposit_def lawful.R_refl Let_def split: prod.splits)
next
  case (Refund_Wallet actor role i reason)
  have "lawful s (snd (WithinTransaction (RefundWalletPayment_body actor role i r' now) s))" for r' by (rule lawful_within; intro closed_intros)
  then show ?thesis by (auto simp: Refund_Wallet RefundWalletPayment_def lawful.R_refl Let_def)
next
  case (Adjust actor role target input ip agent)
  have "lawful s (snd (WithinTransaction (AdjustAdminBalance_body r' actor target ip agent now) s))" for r' by (rule lawful_within; intro closed_intros)
  then show ?thesis by (auto simp: Adjust AdjustAdminBalance_def lawful.R_refl split: sum.splits)
next
  case (Finalize busy limit)
  then show ?thesis by (auto simp: FinalizeExpiredRentals_def lawful.R_refl lawful_finalize)
next
  case (Expire_Rentals busy)
  then show ?thesis by (auto simp: ExpiredCleanup_def GetExpiredRentals_def tx_read_def intro: lawful_fold expiry_lawful)
next
  case Expire_Reservations
  then show ?thesis by (auto simp: WaitingPaymentCleanup_def GetExpiredWaitingPaymentReservations_def tx_read_def intro: lawful_fold reservation_lawful)
next
  case Sync_Steam
  then show ?thesis by (auto simp: SteamSyncWorker_def GetAccountsForSync_def tx_read_def intro: lawful_fold steam_sync_lawful)
next
  case (Create_Account actor input)
  have "lawful s (snd (WithinTransaction (tx_seq (Account_RequireCurrentAdmin actor) (CreateAdminAccount a b c d e)) s))" for a b c d e
    by (rule lawful_within; intro closed_intros)
  then show ?thesis by (auto simp: Create_Account AdminService_CreateAccount_def lawful.R_refl split: option.splits sum.splits)
next
  case (Cancel uid i reason)
  then show ?thesis by (simp add: cancel_lawful)
next
  case (Sign_Up email pw fn ln)
  show ?thesis unfolding Sign_Up exec.simps Register_def by (rule lawful_within; intro closed_intros)
next
  case (Sign_In email pw)
  show ?thesis unfolding Sign_In exec.simps Login_def by (rule lawful_within; intro closed_intros)
next
  case (Exchange tok)
  show ?thesis unfolding Exchange exec.simps Refresh_def by (rule lawful_within; intro closed_intros)
next
  case (Sign_Out tok)
  show ?thesis unfolding Sign_Out exec.simps Logout_def by (rule lawful_within; intro closed_intros)
next
  case (Credentials uid i ip agent)
  show ?thesis unfolding Credentials exec.simps GetRentalCredentials_def by (rule lawful_within; intro closed_intros)
next
  case (Sync_Games actor i gs)
  show ?thesis unfolding Sync_Games exec.simps SyncAccountGamesAsCurrentAdmin_def by (rule lawful_within; intro closed_intros)
next
  case (Disable_Account actor i)
  show ?thesis unfolding Disable_Account exec.simps DisableAccountIfIdleAsCurrentAdmin_def by (rule lawful_within; intro closed_intros)
next
  case (Update_Account actor i input)
  show ?thesis unfolding Update_Account exec.simps AdminService_UpdateAccount_def Let_def by (rule lawful_within; intro closed_intros)
next
  case (Update_User actor target input)
  show ?thesis unfolding Update_User exec.simps User_AdminUpdateUser_def by (rule lawful_within; intro closed_intros)
next
  case (Update_Profile uid fn ln)
  show ?thesis unfolding Update_Profile exec.simps by (rule lawful_within; intro closed_intros)
qed

section \<open>Renting\<close>

lemma rent_evolves [closed_intros]: "evolution.closed (RentAccount_body i uid aid d now)"
  unfolding rental_defs Let_def by (intro closed_intros; simp add: account_next_def)

lemma rent_cases:
  assumes valid: "valid_db s"
  obtains (refused) "snd (RentAccount i uid aid d now s) = s"
  | (opened) r where "valid_db (snd (RentAccount i uid aid d now s))" "evolves s (snd (RentAccount i uid aid d now s))"
      "rentals (snd (RentAccount i uid aid d now s)) = rentals s @ [r]" "r_status r = 1"
proof (cases "RentAccount i uid aid d now s")
  case (Pair res t)
  show thesis
  proof (cases res)
    case (Inl e)
    then have "t = s" using Pair by (simp add: RentAccount_def WithinTransaction_error)
    show thesis by (rule refused) (simp add: Pair \<open>t = s\<close>)
  next
    case (Inr rental)
    have run: "RentAccount i uid aid d now s = (Inr rental, t)" using Pair Inr by simp
    obtain a r p where "t = rented_db a r p now s" "r_status r = 1"
      by (rule rented [OF valid run]) (simp add: new_rental_row_def)
    moreover have "evolves s t"
      using evolution.closedD [OF rent_evolves] run by (simp add: RentAccount_def WithinTransaction_ok)
    ultimately show thesis using opened rent_keeps_valid [OF valid run] Pair by (simp add: rented_db_def)
  qed
qed

lemma exec_valid_evolves:
  assumes "valid_db s"
  shows "valid_db (exec env now r s) \<and> evolves s (exec env now r s)"
proof (cases "renting r")
  case True
  then obtain i uid aid d where r: "r = Rent i uid aid d" by (auto simp: renting_def)
  show ?thesis unfolding r exec.simps by (rule rent_cases [OF assms, of i uid aid d now]) (simp_all add: assms evolution.R_refl)
next
  case False
  then show ?thesis using exec_lawful [OF False, of s env now] assms by (simp add: lawful_def)
qed

section \<open>The history of a database\<close>

definition history :: "db \<Rightarrow> db \<Rightarrow> bool" where
  "history s t \<longleftrightarrow> (valid_db s \<longrightarrow> valid_db t \<and> evolves s (t\<lparr>clock := clock s\<rparr>))"

interpretation history: step_preorder history
proof
  show "history s s" for s by (simp add: history_def evolution.R_refl)
  show "history s t \<Longrightarrow> history t u \<Longrightarrow> history s u" for s t u
  proof (unfold history_def, intro impI)
    assume 1: "valid_db s \<longrightarrow> valid_db t \<and> evolves s (t\<lparr>clock := clock s\<rparr>)" and 2: "valid_db t \<longrightarrow> valid_db u \<and> evolves t (u\<lparr>clock := clock t\<rparr>)" and "valid_db s"
    then have u: "valid_db u" "evolves s (t\<lparr>clock := clock s\<rparr>)" "evolves t (u\<lparr>clock := clock t\<rparr>)" by simp_all
    have "evolves (t\<lparr>clock := clock s\<rparr>) (u\<lparr>clock := clock s\<rparr>)" using u(3) by (simp add: evolves_def)
    then show "valid_db u \<and> evolves s (u\<lparr>clock := clock s\<rparr>)" using u by (blast intro: evolution.R_trans)
  qed
qed

lemma serve_history: "history s (serve env e s)"
proof (unfold history_def, intro impI)
  assume valid: "valid_db s"
  obtain now r where e: "e = (now, r)" by (cases e)
  have "valid_db (s\<lparr>clock := pg_ts now\<rparr>)" using valid by (simp add: valid_db_def)
  from exec_valid_evolves [OF this, of env now r]
  show "valid_db (serve env e s) \<and> evolves s ((serve env e s)\<lparr>clock := clock s\<rparr>)"
    by (simp add: serve_def e evolves_def)
qed

lemma run_history: "history s (run env rs s)"
  unfolding run_def by (induction rs arbitrary: s) (auto intro: history.R_refl history.R_trans serve_history)

section \<open>The book of rentals\<close>

text \<open>
  The abstract machine: a book that has for every rental its account and its phase. Its six steps are the life of a
  rental, and a rental is opened only on an account that no other rental occupies.
\<close>

datatype phase = Reserved | Running | Ended | Closed | Called_Off

type_synonym book = "int \<Rightarrow> (int \<times> phase) option"

definition occupies :: "phase \<Rightarrow> bool" where
  "occupies p \<longleftrightarrow> p = Reserved \<or> p = Running"

inductive book_step :: "book \<Rightarrow> book \<Rightarrow> bool" where
  opened: "m i = None \<Longrightarrow> (\<And>j q. m j = Some (a, q) \<Longrightarrow> \<not> occupies q) \<Longrightarrow> book_step m (m(i \<mapsto> (a, Reserved)))"
| started: "m i = Some (a, Reserved) \<Longrightarrow> book_step m (m(i \<mapsto> (a, Running)))"
| lapsed: "m i = Some (a, Reserved) \<Longrightarrow> book_step m (m(i \<mapsto> (a, Ended)))"
| called_off: "m i = Some (a, Reserved) \<Longrightarrow> book_step m (m(i \<mapsto> (a, Called_Off)))"
| finished: "m i = Some (a, Running) \<Longrightarrow> book_step m (m(i \<mapsto> (a, Ended)))"
| closed: "m i = Some (a, Ended) \<Longrightarrow> book_step m (m(i \<mapsto> (a, Closed)))"

inductive_cases book_stepE: "book_step m n"

definition exclusive :: "book \<Rightarrow> bool" where
  "exclusive m \<longleftrightarrow> (\<forall>i j a p q. m i = Some (a, p) \<and> m j = Some (a, q) \<and> occupies p \<and> occupies q \<longrightarrow> i = j)"

lemma book_step_exclusive: "book_step m n \<Longrightarrow> exclusive m \<Longrightarrow> exclusive n"
proof (induction rule: book_step.induct)
  case (opened m i a)
  then show ?case by (simp add: exclusive_def) (metis option.distinct(1))
qed (auto simp: exclusive_def occupies_def split: if_splits)

lemma book_steps_exclusive: "book_step\<^sup>*\<^sup>* m n \<Longrightarrow> exclusive m \<Longrightarrow> exclusive n"
  by (induction rule: rtranclp_induct) (auto intro: book_step_exclusive)

text \<open>A rental that is closed or called off keeps its phase, whatever happens.\<close>

lemma book_step_final: "book_step m n \<Longrightarrow> m i = Some (a, p) \<Longrightarrow> p = Closed \<or> p = Called_Off \<Longrightarrow> n i = Some (a, p)"
  by (erule book_stepE) (auto split: if_splits)

definition phase :: "int \<Rightarrow> phase" where
  "phase st = (if st = 1 then Reserved else if st = 2 then Running else if st = 3 then Ended else if st = 4 then Closed else Called_Off)"

definition book_entry :: "rental_row \<Rightarrow> int \<times> int \<times> phase" where
  "book_entry r = (r_id r, r_account r, phase (r_status r))"

definition book :: "db \<Rightarrow> book" where
  "book s = map_of (map book_entry (rentals s))"

lemma later_path:
  assumes "later_status st st'" "m i = Some (a, phase st)"
  shows "book_step\<^sup>*\<^sup>* m (m(i \<mapsto> (a, phase st')))"
proof -
  have same: "m(i \<mapsto> (a, phase st)) = m" using assms(2) by (simp add: map_upd_triv)
  have ended: "book_step\<^sup>*\<^sup>* n (n(i \<mapsto> (a, Closed)))" if "n i = Some (a, Ended)" for n
    using that by (blast intro: book_step.closed)
  have two: "book_step\<^sup>*\<^sup>* m (m(i \<mapsto> (a, Closed)))" if "book_step m (m(i \<mapsto> (a, Ended)))"
    using ended [of "m(i \<mapsto> (a, Ended))"] that by (simp add: converse_rtranclp_into_rtranclp)
  consider "st = st'" | "st = 1" "st' \<in> {2, 3, 4, 5}" | "st = 2" "st' \<in> {3, 4}" | "st = 3" "st' = 4"
    using assms(1) by (auto simp: later_status_def)
  then show ?thesis
  proof cases
    case 1
    then show ?thesis using same by simp
  next
    case 2
    then show ?thesis using assms(2) two book_step.intros(2-4) [of m i a] by (auto simp: phase_def)
  next
    case 3
    then show ?thesis using assms(2) two book_step.finished [of m i a] by (auto simp: phase_def)
  next
    case 4
    then show ?thesis using assms(2) ended [of m] by (auto simp: phase_def)
  qed
qed

lemma map_of_replace:
  "map_of xs i = None \<Longrightarrow> map_of (xs @ (i, v) # ys) = (map_of (xs @ (i, w) # ys))(i \<mapsto> v)"
  by (auto simp: fun_eq_iff map_add_def split: option.split)

lemma rows_path:
  assumes "list_all2 rental_next xs ys" "distinct (map r_id (pre @ xs))"
  shows "book_step\<^sup>*\<^sup>* (map_of (map book_entry (pre @ xs))) (map_of (map book_entry (pre @ ys)))"
  using assms
proof (induction xs ys arbitrary: pre rule: list_all2_induct)
  case (Cons x xs y ys)
  have y: "r_id y = r_id x" "r_account y = r_account x" "later_status (r_status x) (r_status y)" using Cons(1) by (simp_all add: rental_next_def)
  have "r_id x \<notin> fst ` set (map book_entry pre)" using Cons.prems by (auto simp: book_entry_def)
  then have fresh: "map_of (map book_entry pre) (r_id x) = None" by (simp only: map_of_eq_None_iff not_False_eq_True)
  let ?m = "map_of (map book_entry (pre @ x # xs))"
  have "?m (r_id x) = Some (r_account x, phase (r_status x))"
    using fresh by (simp add: book_entry_def map_add_def)
  from later_path [where m = ?m, OF y(3) this]
  have "book_step\<^sup>*\<^sup>* ?m (?m(r_id x \<mapsto> (r_account x, phase (r_status y))))" .
  also have "?m(r_id x \<mapsto> (r_account x, phase (r_status y))) = map_of (map book_entry ((pre @ [y]) @ xs))"
    using map_of_replace [OF fresh, of "(r_account x, phase (r_status y))" "map book_entry xs" "(r_account x, phase (r_status x))"]
    by (simp add: book_entry_def y)
  also have "book_step\<^sup>*\<^sup>* \<dots> (map_of (map book_entry ((pre @ [y]) @ ys)))"
    by (rule Cons.IH) (use Cons.prems y in simp)
  finally show ?case by simp
qed simp

lemma exec_refines:
  assumes valid: "valid_db s"
  shows "book_step\<^sup>*\<^sup>* (book s) (book (exec env now r s))"
proof (cases "renting r")
  case True
  then obtain i uid aid d where r: "r = Rent i uid aid d" by (auto simp: renting_def)
  let ?t = "snd (RentAccount i uid aid d now s)"
  show ?thesis unfolding r exec.simps
  proof (rule rent_cases [OF valid, of i uid aid d now])
    fix w
    assume t: "valid_db ?t" "rentals ?t = rentals s @ [w]" "r_status w = 1"
    have clash: "clash rental_schema x w = None" if "x \<in> set (rentals s)" for x
      using t(1,2) that by (auto simp: valid_db_def valid_table_def sorted_wrt_append)
    have new: "r_id x \<noteq> r_id w" and free: "r_account x = r_account w \<Longrightarrow> \<not> occupying x" if "x \<in> set (rentals s)" for x
      using clash [OF that] t(3) by (auto simp: rental_schema_def occupying_def split: if_splits)
    have none: "book s (r_id w) = None" using new unfolding book_def map_of_eq_None_iff by (fastforce simp: book_entry_def)
    have "\<not> occupies q" if "book s j = Some (r_account w, q)" for j q
    proof -
      have "(j, r_account w, q) \<in> set (map book_entry (rentals s))" using that unfolding book_def by (rule map_of_SomeD)
      then obtain x where "x \<in> set (rentals s)" "r_account x = r_account w" "q = phase (r_status x)" by (auto simp: book_entry_def)
      then show ?thesis using free by (auto simp: occupying_def occupies_def phase_def split: if_splits)
    qed
    then have "book_step (book s) ((book s)(r_id w \<mapsto> (r_account w, Reserved)))" using none by (rule opened [rotated]) simp
    moreover have "book ?t = (book s)(r_id w \<mapsto> (r_account w, Reserved))"
      using none t(2,3) by (auto simp: book_def map_add_def fun_eq_iff book_entry_def phase_def split: option.split)
    ultimately show "book_step\<^sup>*\<^sup>* (book s) (book ?t)" by simp
  qed simp
next
  case False
  have l: "evolves s (exec env now r s)" "same_rentals s (exec env now r s)"
    using exec_lawful [OF False, of s env now] valid by (simp_all add: lawful_def)
  obtain zs es where z: "rentals (exec env now r s) = zs @ es" "list_all2 rental_next (rentals s) zs"
    using l(1) by (auto simp: evolves_def grows_def)
  have "length (rentals (exec env now r s)) = length (rentals s)" using l(2) by (metis same_rentals_def length_map)
  then have "es = []" using z list_all2_lengthD [OF z(2)] by simp
  then have "list_all2 rental_next (rentals s) (rentals (exec env now r s))" using z by simp
  from rows_path [OF this, of "[]"] show ?thesis using valid_db_keys(3) [OF valid] by (simp add: book_def)
qed

lemma serve_refines: "valid_db s \<Longrightarrow> book_step\<^sup>*\<^sup>* (book s) (book (serve env e s))"
proof -
  assume valid: "valid_db s"
  obtain now r where e: "e = (now, r)" by (cases e)
  have "valid_db (s\<lparr>clock := pg_ts now\<rparr>)" using valid by (simp add: valid_db_def)
  from exec_refines [OF this, of env now r] show ?thesis by (simp add: serve_def e book_def)
qed

lemma run_refines: "valid_db s \<Longrightarrow> book_step\<^sup>*\<^sup>* (book s) (book (run env rs s))"
proof (induction rs arbitrary: s)
  case (Cons e rs)
  have "valid_db (serve env e s)" using serve_history Cons.prems by (simp add: history_def)
  have "book_step\<^sup>*\<^sup>* (book s) (book (serve env e s))" by (rule serve_refines [OF Cons.prems])
  also have "book_step\<^sup>*\<^sup>* \<dots> (book (run env rs (serve env e s)))" by (rule Cons.IH) fact
  finally show ?case by (simp add: run_def)
qed (simp add: run_def)

lemma valid_exclusive: "valid_db s \<Longrightarrow> exclusive (book s)"
proof -
  assume valid: "valid_db s"
  have row: "\<exists>r\<in>set (rentals s). r_id r = i \<and> r_account r = a \<and> p = phase (r_status r)" if "book s i = Some (a, p)" for i a p
  proof -
    have "(i, a, p) \<in> set (map book_entry (rentals s))" using that unfolding book_def by (rule map_of_SomeD)
    then show ?thesis by (auto simp: book_entry_def)
  qed
  have occ: "occupies (phase (r_status r)) \<Longrightarrow> occupying r" for r by (auto simp: occupies_def occupying_def phase_def split: if_splits)
  have sorted: "sorted_wrt (\<lambda>a b. clash rental_schema a b = None) (rentals s)" using valid by (simp add: valid_db_def valid_table_def)
  have alone: "x = y" if "x \<in> set (rentals s)" "y \<in> set (rentals s)" "r_account x = r_account y" "occupying x" "occupying y" for x y
  proof (rule ccontr)
    assume other: "x \<noteq> y"
    from sorted_wrt_pair [OF sorted that(1,2) other] have "clash rental_schema x y = None \<or> clash rental_schema y x = None" .
    then show False using that by (auto simp: rental_schema_def split: if_splits)
  qed
  show ?thesis unfolding exclusive_def
  proof (intro allI impI, elim conjE)
    fix i j a p q
    assume i: "book s i = Some (a, p)" and j: "book s j = Some (a, q)" and "occupies p" "occupies q"
    obtain x y where "x \<in> set (rentals s)" "r_id x = i" "r_account x = a" "p = phase (r_status x)"
      "y \<in> set (rentals s)" "r_id y = j" "r_account y = a" "q = phase (r_status y)" using row [OF i] row [OF j] by blast
    then show "i = j" using alone [of x y] occ \<open>occupies p\<close> \<open>occupies q\<close> by simp
  qed
qed

lemma book_steps_final:
  "book_step\<^sup>*\<^sup>* m n \<Longrightarrow> m i = Some (a, p) \<Longrightarrow> p = Closed \<or> p = Called_Off \<Longrightarrow> n i = Some (a, p)"
  by (induction rule: rtranclp_induct) (auto dest: book_step_final)

end
