(* ===== verification/Payment_Reads.thy ===== *)
theory Payment_Reads
  imports "HOL-Library.AList" Refund Accounts Rental_Service
begin

text \<open>
  The reads of the payments (src/internal/payment/service.go, repository.go and admin_rentals.go): a customer's balance,
  payments, ledger and refunds, and the back office's list of rentals with its filters and counts and the detail of one rental. They
  change nothing; a page is cut out of the sorted rows with LIMIT and OFFSET.
\<close>

section \<open>Public names of codes\<close>

definition publicLedgerDisplayType :: "int \<Rightarrow> string" where
  "publicLedgerDisplayType entryType =
     (if entryType = ledgerEntryProviderPaymentReceived then ''PROVIDER_PAYMENT_RECEIVED''
      else if entryType = ledgerEntryDepositHeld then ''DEPOSIT_HELD''
      else if entryType = ledgerEntryDepositReleasedBalance then ''DEPOSIT_RELEASED_TO_BALANCE''
      else if entryType = ledgerEntryDepositForfeited then ''DEPOSIT_FORFEITED''
      else if entryType = ledgerEntryBalanceDebit then ''BALANCE_DEBIT''
      else if entryType = ledgerEntryBalanceRefundCredit then ''BALANCE_REFUND_CREDIT''
      else if entryType = ledgerEntryDepositRefundCredit then ''DEPOSIT_REFUND_CREDIT''
      else if entryType = ledgerEntryAdminBalanceCredit then ''ADMIN_BALANCE_CREDIT''
      else if entryType = ledgerEntryAdminBalanceDebit then ''ADMIN_BALANCE_DEBIT''
      else ''UNKNOWN'')"

definition publicRefundStatus :: "int \<Rightarrow> string" where
  "publicRefundStatus status =
     (if status = refundStatusRequested then ''REQUESTED''
      else if status = refundStatusCompleted then ''COMPLETED''
      else if status = refundStatusFailed then ''FAILED''
      else ''UNKNOWN'')"

section \<open>Balance and payments of a customer\<close>

definition Repo_GetUserBalance :: "int \<Rightarrow> (db, UserBalance) tx" where
  "Repo_GetUserBalance userID =
     no_rows_as (PaymentErr ErrFinancialUserNotFound) (query_row (\<lambda>s.
       map (\<lambda>u. \<lparr>ub_UserID = u_id u, ub_AvailableBalance = u_balance u, ub_Currency = ''USD''\<rparr>)
         (filter (\<lambda>u. u_id u = userID \<and> u_deleted u = None) (users s))))"

definition GetUserBalance :: "int \<Rightarrow> (db, UserBalance) tx" where
  "GetUserBalance userID =
     wrap_unless (PaymentErr ErrFinancialUserNotFound) ''get user balance'' (Repo_GetUserBalance userID)"

definition customer_payment :: "payment_row \<Rightarrow> CustomerPayment" where
  "customer_payment p = \<lparr>cp_ID = p_id p, cp_RentalID = p_rental p, cp_Amount = p_amount p, cp_Currency = p_currency p,
     cp_Status = p_status p, cp_CreatedAt = p_created p\<rparr>"

definition getCustomerPaymentByRental :: "int \<Rightarrow> int \<Rightarrow> (db, CustomerPayment) tx" where
  "getCustomerPaymentByRental rentalID userID =
     no_rows_as (PaymentErr ErrCustomerPaymentUnavailable) (query_row (\<lambda>s.
       map customer_payment (filter (\<lambda>p. p_rental p = rentalID \<and> p_user p = userID) (payments s))))"

definition GetCustomerRentalPayment :: "int \<Rightarrow> int \<Rightarrow> (db, CustomerPayment) tx" where
  "GetCustomerRentalPayment rentalID userID =
     tx_bind (tx_read (\<lambda>s. list_ex (\<lambda>r. r_id r = rentalID \<and> r_user r = userID) (rentals s))) (\<lambda>exists.
     tx_seq (fail_if (\<not> exists) (PaymentErr ErrPaymentNotFound)) (getCustomerPaymentByRental rentalID userID))"

text \<open>The service's test for a missing payment never holds: the repository returns a payment or an error.\<close>

definition CreateCustomerPayment :: "int \<Rightarrow> int \<Rightarrow> (db, CustomerPayment) tx" where
  "CreateCustomerPayment userID rentalID =
     tx_catch (GetCustomerRentalPayment rentalID userID) (\<lambda>e.
       tx_fail (if errors_is e (PaymentErr ErrPaymentNotFound) then PaymentErr ErrCustomerRentalNotFound else e))"

definition Repo_ListCustomerPayments :: "int \<Rightarrow> (db, CustomerPayment list) tx" where
  "Repo_ListCustomerPayments userID = tx_read (\<lambda>s.
     map customer_payment (sort_key (\<lambda>p. - p_created p) (filter (\<lambda>p. p_user p = userID) (payments s))))"

definition ListCustomerPayments :: "int \<Rightarrow> (db, CustomerPayment list) tx" where
  "ListCustomerPayments userID = Repo_ListCustomerPayments userID"

definition Repo_GetCustomerPayment :: "int \<Rightarrow> int \<Rightarrow> (db, CustomerPayment) tx" where
  "Repo_GetCustomerPayment paymentID userID =
     no_rows_as (PaymentErr ErrPaymentNotFound) (query_row (\<lambda>s.
       map customer_payment (filter (\<lambda>p. p_id p = paymentID \<and> p_user p = userID) (payments s))))"

definition GetCustomerPayment :: "int \<Rightarrow> int \<Rightarrow> (db, CustomerPayment) tx" where
  "GetCustomerPayment userID paymentID =
     tx_catch (Repo_GetCustomerPayment paymentID userID) (\<lambda>e.
       tx_fail (if errors_is e (PaymentErr ErrPaymentNotFound) then PaymentErr ErrPaymentNotFound else e))"

section \<open>Pages of the ledger and of the refunds\<close>

text \<open>\<open>ORDER BY created_at DESC, id DESC\<close>; \<open>LIMIT\<close> and \<open>OFFSET\<close> refuse a negative number.\<close>

definition newest_first :: "('a \<Rightarrow> time) \<Rightarrow> ('a \<Rightarrow> int) \<Rightarrow> 'a list \<Rightarrow> 'a list" where
  "newest_first created key xs = sort_key (\<lambda>x. - created x) (sort_key (\<lambda>x. - key x) xs)"

definition query_page :: "int \<Rightarrow> int \<Rightarrow> (db \<Rightarrow> 'a list) \<Rightarrow> (db, 'a list) tx" where
  "query_page limit offset q = tx_bind (tx_read (\<lambda>s. page_of limit offset (q s))) lift_result"

text \<open>The offset of a page is computed in 64 bits.\<close>

definition page_offset :: "int \<Rightarrow> int \<Rightarrow> int" where
  "page_offset page pageSize = i64 (i64 (page - 1) * pageSize)"

definition public_ledger_entry :: "ledger_row \<Rightarrow> PublicLedgerEntry" where
  "public_ledger_entry l = \<lparr>ple_ID = l_id l, ple_EntryType = l_type l, ple_Amount = l_amount l, ple_Currency = l_currency l,
     ple_RentalID = l_rental l, ple_PaymentID = l_payment l, ple_CreatedAt = l_created l,
     ple_DisplayType = publicLedgerDisplayType (l_type l)\<rparr>"

definition ListUserLedgerEntries :: "int \<Rightarrow> int \<Rightarrow> int \<Rightarrow> (db, PublicLedgerEntry list) tx" where
  "ListUserLedgerEntries userID limit offset =
     query_page limit offset (\<lambda>s. map public_ledger_entry (newest_first l_created l_id (filter (\<lambda>l. l_user l = Some userID) (ledger s))))"

definition CountUserLedgerEntries :: "int \<Rightarrow> (db, int) tx" where
  "CountUserLedgerEntries userID = tx_read (\<lambda>s. int (length (filter (\<lambda>l. l_user l = Some userID) (ledger s))))"

record UserLedgerPage =
  ulp_Entries :: "PublicLedgerEntry list"
  ulp_Page :: int
  ulp_PageSize :: int
  ulp_TotalItems :: int

definition ListUserLedger :: "int \<Rightarrow> int \<Rightarrow> int \<Rightarrow> (db, UserLedgerPage) tx" where
  "ListUserLedger userID page pageSize =
     tx_seq (fail_if (page < 1 \<or> pageSize < 1 \<or> 100 < pageSize) (PaymentErr ErrInvalidLedgerPagination))
    (tx_bind (wrapf ''list user ledger entries'' (ListUserLedgerEntries userID pageSize (page_offset page pageSize))) (\<lambda>entries.
     tx_bind (wrapf ''count user ledger entries'' (CountUserLedgerEntries userID)) (\<lambda>total.
     tx_return \<lparr>ulp_Entries = entries, ulp_Page = page, ulp_PageSize = pageSize, ulp_TotalItems = total\<rparr>)))"

definition public_refund_entry :: "refund_row \<Rightarrow> PublicRefundEntry" where
  "public_refund_entry f = \<lparr>pre_ID = f_id f, pre_RentalID = f_rental f, pre_PaymentID = f_payment f, pre_Status = publicRefundStatus (f_status f),
     pre_PrincipalAmount = f_principal f, pre_DepositAmount = f_deposit f, pre_TotalAmount = f_total f, pre_Currency = f_currency f,
     pre_ReasonCode = (if isSafeReasonCode (f_reason f) then Some (f_reason f) else None),
     pre_CreatedAt = f_created f, pre_ProcessedAt = f_processed f\<rparr>"

definition ListUserRefundEntries :: "int \<Rightarrow> int \<Rightarrow> int \<Rightarrow> (db, PublicRefundEntry list) tx" where
  "ListUserRefundEntries userID limit offset =
     query_page limit offset (\<lambda>s. map public_refund_entry (newest_first f_created f_id (filter (\<lambda>f. f_user f = userID) (refunds s))))"

definition CountUserRefundEntries :: "int \<Rightarrow> (db, int) tx" where
  "CountUserRefundEntries userID = tx_read (\<lambda>s. int (length (filter (\<lambda>f. f_user f = userID) (refunds s))))"

record UserRefundPage =
  urp_Entries :: "PublicRefundEntry list"
  urp_Page :: int
  urp_PageSize :: int
  urp_TotalItems :: int

definition ListUserRefunds :: "int \<Rightarrow> int \<Rightarrow> int \<Rightarrow> (db, UserRefundPage) tx" where
  "ListUserRefunds userID page pageSize =
     tx_seq (fail_if (page < 1 \<or> pageSize < 1 \<or> 100 < pageSize) (PaymentErr ErrInvalidRefundPagination))
    (tx_bind (wrapf ''list user refunds'' (ListUserRefundEntries userID pageSize (page_offset page pageSize))) (\<lambda>entries.
     tx_bind (wrapf ''count user refunds'' (CountUserRefundEntries userID)) (\<lambda>total.
     tx_return \<lparr>urp_Entries = entries, urp_Page = page, urp_PageSize = pageSize, urp_TotalItems = total\<rparr>)))"

section \<open>Rentals in the back office\<close>

definition adminRentalStatusFilterValues :: "(string \<times> int) list" where
  "adminRentalStatusFilterValues =
     [(''WAITING_PAYMENT'', 1), (''ACTIVE'', 2), (''EXPIRED'', 3), (''COMPLETED'', 4), (''CANCELLED'', 5)]"

definition adminPaymentStatusFilterValues :: "(string \<times> int) list" where
  "adminPaymentStatusFilterValues = [(''PENDING'', 1), (''SUCCESS'', 2), (''FAILED'', 3)]"

definition adminPaymentProviderFilterValues :: "string list" where
  "adminPaymentProviderFilterValues = [walletPaymentProvider, webhookPaymentProvider]"

definition adminDepositStatusFilterValues :: "string list" where
  "adminDepositStatusFilterValues = [''NONE'', ''HELD'', ''RELEASED'', ''FORFEITED'', ''REFUNDED'', ''UNKNOWN'']"

definition adminRefundStatusFilterValues :: "(string \<times> int) list" where
  "adminRefundStatusFilterValues =
     [(''NONE'', 0), (''REQUESTED'', refundStatusRequested), (''COMPLETED'', refundStatusCompleted), (''FAILED'', refundStatusFailed)]"

text \<open>The value of a Go map at a key: zero where the key is missing.\<close>

definition code_of :: "(string \<times> int) list \<Rightarrow> string \<Rightarrow> int" where
  "code_of m k = (case map_of m k of None \<Rightarrow> 0 | Some v \<Rightarrow> v)"

record AdminRentalListFilter =
  arf_RentalStatus :: string
  arf_PaymentStatus :: string
  arf_PaymentProvider :: string
  arf_DepositStatus :: string
  arf_RefundStatus :: string
  arf_EligibleWalletRefund :: "bool option"
  arf_UserID :: int
  arf_RentalID :: int
  arf_Page :: int
  arf_PageSize :: int

record AdminRentalEntry =
  are_ID :: int
  are_UserID :: int
  are_AccountID :: int
  are_Status :: int
  are_StartedAt :: time
  are_ExpiresAt :: time
  are_PaymentExpiresAt :: time
  are_RentalPrice :: int
  are_SecurityDeposit :: int
  are_DepositStatus :: string
  are_PaymentID :: int
  are_PaymentStatus :: int
  are_PaymentProvider :: string
  are_HasRefund :: bool
  are_RefundStatus :: string
  are_RefundTotal :: int
  are_ProcessedAt :: "time option"

record AdminRentalSummary =
  ars_TotalCount :: int
  ars_EligibleWalletRefundCount :: int
  ars_RentalStatusCounts :: "(string \<times> int) list"
  ars_PaymentStatusCounts :: "(string \<times> int) list"
  ars_RefundStatusCounts :: "(string \<times> int) list"

record AdminRentalPage =
  arp_Rentals :: "AdminRentalEntry list"
  arp_Summary :: AdminRentalSummary
  arp_Page :: int
  arp_PageSize :: int
  arp_TotalItems :: int

definition filters_error :: "string \<Rightarrow> err option" where
  "filters_error message = Some (adminRentalFilterError message)"

definition validateAdminRentalFilters :: "AdminRentalListFilter \<Rightarrow> err option" where
  "validateAdminRentalFilters filters =
     (if arf_Page filters \<le> 0 then filters_error ''page must be a positive integer''
      else if arf_PageSize filters \<le> 0 then filters_error ''page_size must be a positive integer''
      else if 100 < arf_PageSize filters then filters_error ''page_size must be <= 100''
      else if arf_UserID filters < 0 then filters_error ''user_id must be a positive integer''
      else if arf_RentalID filters < 0 then filters_error ''rental_id must be a positive integer''
      else if arf_UserID filters = 0 \<and> arf_RentalStatus filters = [] \<and> arf_PaymentStatus filters = [] \<and> arf_PaymentProvider filters = [] \<and>
        arf_DepositStatus filters = [] \<and> arf_RefundStatus filters = [] \<and> arf_EligibleWalletRefund filters = None \<and> arf_RentalID filters = 0 then None
      else if arf_RentalStatus filters \<noteq> [] \<and> map_of adminRentalStatusFilterValues (arf_RentalStatus filters) = None
        then filters_error ''rental_status is invalid''
      else if arf_PaymentStatus filters \<noteq> [] \<and> map_of adminPaymentStatusFilterValues (arf_PaymentStatus filters) = None
        then filters_error ''payment_status is invalid''
      else if arf_PaymentProvider filters \<noteq> [] \<and> arf_PaymentProvider filters \<notin> set adminPaymentProviderFilterValues
        then filters_error ''payment_provider is invalid''
      else if arf_DepositStatus filters \<noteq> [] \<and> arf_DepositStatus filters \<notin> set adminDepositStatusFilterValues
        then filters_error ''deposit_status is invalid''
      else if arf_RefundStatus filters \<noteq> [] \<and> map_of adminRefundStatusFilterValues (arf_RefundStatus filters) = None
        then filters_error ''refund_status is invalid''
      else None)"

definition adminPublicDepositStatus :: "int \<Rightarrow> int \<Rightarrow> string" where
  "adminPublicDepositStatus depositAmount holdStatus =
     (if depositAmount \<le> 0 \<or> holdStatus = 0 then ''NONE''
      else if holdStatus = depositHoldStatusHeld then ''HELD''
      else if holdStatus = depositHoldStatusReleased then ''RELEASED''
      else if holdStatus = depositHoldStatusForfeited then ''FORFEITED''
      else if holdStatus = depositHoldStatusRefunded then ''REFUNDED''
      else ''UNKNOWN'')"

text \<open>
  The joined row of \<open>adminRentalsBaseQuery\<close>: a rental with the status of its deposit hold, its latest payment
  and the latest refund to its renter, each absent or present.
\<close>

record joined_rental =
  j_rental :: rental_row
  j_hold :: "hold_row option"
  j_payment :: "payment_row option"
  j_refund :: "refund_row option"

definition j_hold_status :: "joined_rental \<Rightarrow> int" where "j_hold_status j = case_option 0 d_status (j_hold j)"
definition j_payment_status :: "joined_rental \<Rightarrow> int" where "j_payment_status j = case_option 0 p_status (j_payment j)"
definition j_provider :: "joined_rental \<Rightarrow> string" where "j_provider j = case_option [] p_provider (j_payment j)"
definition j_refund_status :: "joined_rental \<Rightarrow> int" where "j_refund_status j = case_option 0 f_status (j_refund j)"

definition eligible_wallet_refund :: "joined_rental \<Rightarrow> bool" where
  "eligible_wallet_refund j \<longleftrightarrow> j_provider j = ''balance'' \<and> j_payment_status j = 2 \<and> r_status (j_rental j) \<in> {3, 4} \<and> j_refund_status j \<noteq> 2"

definition latest_payment :: "db \<Rightarrow> rental_row \<Rightarrow> payment_row option" where
  "latest_payment s r =
     (case newest_first p_created p_id (filter (\<lambda>p. p_rental p = r_id r) (payments s)) of [] \<Rightarrow> None | p # _ \<Rightarrow> Some p)"

definition deposit_condition :: "string \<Rightarrow> joined_rental \<Rightarrow> bool" where
  "deposit_condition status j =
     (let deposit = r_deposit (j_rental j); hold = j_hold_status j
      in if status = ''NONE'' then deposit \<le> 0 \<or> hold = 0
         else if status = ''HELD'' then 0 < deposit \<and> hold = depositHoldStatusHeld
         else if status = ''RELEASED'' then 0 < deposit \<and> hold = depositHoldStatusReleased
         else if status = ''FORFEITED'' then 0 < deposit \<and> hold = depositHoldStatusForfeited
         else if status = ''REFUNDED'' then 0 < deposit \<and> hold = depositHoldStatusRefunded
         else if status = ''UNKNOWN'' then 0 < deposit \<and> (case j_hold j of None \<Rightarrow> False | Some d \<Rightarrow> d_status d \<notin> {1, 2, 3, 4})
         else True)"

text \<open>The WHERE clause: one condition for each filter that is set.\<close>

definition admin_condition :: "AdminRentalListFilter \<Rightarrow> joined_rental \<Rightarrow> bool" where
  "admin_condition filters j \<longleftrightarrow>
     (arf_RentalStatus filters = [] \<or> r_status (j_rental j) = code_of adminRentalStatusFilterValues (arf_RentalStatus filters)) \<and>
     (arf_PaymentStatus filters = [] \<or> j_payment_status j = code_of adminPaymentStatusFilterValues (arf_PaymentStatus filters)) \<and>
     (arf_PaymentProvider filters = [] \<or> j_provider j = arf_PaymentProvider filters) \<and>
     (arf_DepositStatus filters = [] \<or> deposit_condition (arf_DepositStatus filters) j) \<and>
     (arf_RefundStatus filters = [] \<or> j_refund_status j = code_of adminRefundStatusFilterValues (arf_RefundStatus filters)) \<and>
     (case arf_EligibleWalletRefund filters of None \<Rightarrow> True | Some wanted \<Rightarrow> eligible_wallet_refund j = wanted) \<and>
     (arf_UserID filters \<le> 0 \<or> r_user (j_rental j) = arf_UserID filters) \<and>
     (arf_RentalID filters \<le> 0 \<or> r_id (j_rental j) = arf_RentalID filters)"

definition adminRentalsBaseQuery :: "AdminRentalListFilter \<Rightarrow> db \<Rightarrow> joined_rental list" where
  "adminRentalsBaseQuery filters s =
     filter (admin_condition filters)
       [\<lparr>j_rental = r, j_hold = d, j_payment = latest_payment s r, j_refund = latest_refund s r\<rparr>.
          r \<leftarrow> rentals s, d \<leftarrow> left_join (filter (\<lambda>d. d_rental d = r_id r) (holds s))]"

definition admin_rental_entry :: "joined_rental \<Rightarrow> AdminRentalEntry" where
  "admin_rental_entry j =
     (let r = j_rental j
      in \<lparr>are_ID = r_id r, are_UserID = r_user r, are_AccountID = r_account r, are_Status = r_status r, are_StartedAt = r_start r,
          are_ExpiresAt = r_end r, are_PaymentExpiresAt = r_payment_expires r, are_RentalPrice = r_price r, are_SecurityDeposit = r_deposit r,
          are_DepositStatus = adminPublicDepositStatus (r_deposit r) (j_hold_status j), are_PaymentID = case_option 0 p_id (j_payment j),
          are_PaymentStatus = j_payment_status j, are_PaymentProvider = j_provider j, are_HasRefund = (j_refund_status j \<noteq> 0),
          are_RefundStatus = (if j_refund_status j = 0 then ''NONE'' else publicRefundStatus (j_refund_status j)),
          are_RefundTotal = case_option 0 f_total (j_refund j),
          are_ProcessedAt = (case j_refund j of None \<Rightarrow> None | Some f \<Rightarrow> f_processed f)\<rparr>)"

definition ListAdminRentalEntries :: "AdminRentalListFilter \<Rightarrow> (db, AdminRentalEntry list) tx" where
  "ListAdminRentalEntries filters =
     query_page (arf_PageSize filters) (page_offset (arf_Page filters) (arf_PageSize filters)) (\<lambda>s.
       map admin_rental_entry (newest_first (\<lambda>j. r_created (j_rental j)) (\<lambda>j. r_id (j_rental j)) (adminRentalsBaseQuery filters s)))"

definition count_where :: "('a \<Rightarrow> bool) \<Rightarrow> 'a list \<Rightarrow> int" where
  "count_where P xs = int (length (filter P xs))"

definition SummarizeAdminRentals :: "AdminRentalListFilter \<Rightarrow> (db, AdminRentalSummary) tx" where
  "SummarizeAdminRentals filters = tx_read (\<lambda>s.
     let rows = adminRentalsBaseQuery filters s;
         rental = (\<lambda>c. count_where (\<lambda>j. r_status (j_rental j) = c) rows);
         payment = (\<lambda>c. count_where (\<lambda>j. j_payment_status j = c) rows);
         refund = (\<lambda>c. count_where (\<lambda>j. j_refund_status j = c) rows)
     in \<lparr>ars_TotalCount = int (length rows), ars_EligibleWalletRefundCount = count_where eligible_wallet_refund rows,
         ars_RentalStatusCounts = [(''WAITING_PAYMENT'', rental 1), (''ACTIVE'', rental 2), (''EXPIRED'', rental 3),
           (''COMPLETED'', rental 4), (''CANCELLED'', rental 5)],
         ars_PaymentStatusCounts = [(''PENDING'', payment 1), (''SUCCESS'', payment 2), (''FAILED'', payment 3), (''CANCELLED'', payment 4)],
         ars_RefundStatusCounts = [(''NONE'', refund 0), (''REQUESTED'', refund 1), (''COMPLETED'', refund 2), (''FAILED'', refund 3)]\<rparr>)"

definition ListAdminRentals :: "AdminRentalListFilter \<Rightarrow> (db, AdminRentalPage) tx" where
  "ListAdminRentals filters =
     (case validateAdminRentalFilters filters of
        Some e \<Rightarrow> tx_fail e
      | None \<Rightarrow>
          tx_bind (ListAdminRentalEntries filters) (\<lambda>items.
          tx_bind (SummarizeAdminRentals filters) (\<lambda>summary.
          tx_return \<lparr>arp_Rentals = items, arp_Summary = summary, arp_Page = arf_Page filters, arp_PageSize = arf_PageSize filters,
            arp_TotalItems = ars_TotalCount summary\<rparr>)))"

section \<open>One rental in detail\<close>

record AdminRentalDetailRental =
  adr_ID :: int
  adr_UserID :: int
  adr_AccountID :: int
  adr_Status :: int
  adr_StartAt :: time
  adr_EndAt :: time
  adr_RentalPrice :: int
  adr_DepositAmount :: int
  adr_PaymentExpiresAt :: time
  adr_CreatedAt :: time
  adr_UpdatedAt :: time

record AdminRentalDetailPayment =
  adp_ID :: int
  adp_Status :: int
  adp_Provider :: string
  adp_Amount :: int
  adp_Currency :: string
  adp_CreatedAt :: time

record AdminRentalDetailDeposit =
  add_Amount :: int
  add_Currency :: string
  add_Status :: string
  add_HeldAt :: "time option"
  add_ReleasedAt :: "time option"
  add_ForfeitedAt :: "time option"
  add_RefundedAt :: "time option"

record AdminRentalDetailRefundSummary =
  rsm_Count :: int
  rsm_LatestStatus :: string
  rsm_TotalRefundedPrimary :: int
  rsm_TotalRefundedDeposit :: int
  rsm_LatestProcessedAt :: "time option"

record AdminRentalSafeLedgerEntry =
  sle_ID :: int
  sle_DisplayType :: string
  sle_Amount :: int
  sle_Currency :: string
  sle_CreatedAt :: time

text \<open>A Go map from display types is an association list with distinct keys.\<close>

record AdminRentalDetailLedgerSummary =
  lsm_CountsByDisplayType :: "(string \<times> int) list"
  lsm_TotalsByDisplayType :: "(string \<times> int) list"
  lsm_LatestEntries :: "AdminRentalSafeLedgerEntry list"

record AdminRentalSupportFlags =
  flag_EligibleWalletRefund :: bool
  flag_RefundIneligibleReason :: string
  flag_HasActiveCredentials :: bool
  flag_PaymentWindowExpired :: bool

record AdminRentalDetail =
  det_Rental :: AdminRentalDetailRental
  det_Payment :: "AdminRentalDetailPayment option"
  det_Deposit :: "AdminRentalDetailDeposit option"
  det_RefundSummary :: AdminRentalDetailRefundSummary
  det_LedgerSummary :: AdminRentalDetailLedgerSummary
  det_SupportFlags :: AdminRentalSupportFlags

definition adminWalletRefundEligibility :: "int \<Rightarrow> int \<Rightarrow> string \<Rightarrow> string \<Rightarrow> bool \<times> string" where
  "adminWalletRefundEligibility rentalStatus paymentStatus paymentProvider latestRefundStatus =
     (if latestRefundStatus = ''COMPLETED'' then (False, ''REFUND_ALREADY_COMPLETED'')
      else if paymentProvider \<noteq> walletPaymentProvider then (False, ''PAYMENT_PROVIDER_NOT_BALANCE'')
      else if paymentStatus \<noteq> 2 then (False, ''PAYMENT_NOT_SUCCESS'')
      else if rentalStatus \<noteq> 3 \<and> rentalStatus \<noteq> 4 then (False, ''RENTAL_NOT_EXPIRED_OR_COMPLETED'')
      else (True, []))"

text \<open>PostgreSQL sums BIGINT values in NUMERIC: a sum that \<open>int64\<close> cannot hold makes the scan fail.\<close>

definition scan_sum :: "int list \<Rightarrow> err + int" where
  "scan_sum xs = (if is_i64 (sum_list xs) then Inr (sum_list xs) else Inl (ErrText ''cannot scan numeric into int64''))"

definition detail_rental :: "rental_row \<Rightarrow> AdminRentalDetailRental" where
  "detail_rental r = \<lparr>adr_ID = r_id r, adr_UserID = r_user r, adr_AccountID = r_account r, adr_Status = r_status r, adr_StartAt = r_start r,
     adr_EndAt = r_end r, adr_RentalPrice = r_price r, adr_DepositAmount = r_deposit r, adr_PaymentExpiresAt = r_payment_expires r,
     adr_CreatedAt = r_created r, adr_UpdatedAt = r_updated r\<rparr>"

text \<open>A payment that was found has a positive id: the payment of a rental without one has the id zero.\<close>

definition detail_payment :: "payment_row option \<Rightarrow> AdminRentalDetailPayment option" where
  "detail_payment lp = (case lp of None \<Rightarrow> None | Some p \<Rightarrow>
     if 0 < p_id p
     then Some \<lparr>adp_ID = p_id p, adp_Status = p_status p, adp_Provider = p_provider p, adp_Amount = p_amount p, adp_Currency = p_currency p,
       adp_CreatedAt = p_created p\<rparr>
     else None)"

definition detail_deposit :: "hold_row option \<Rightarrow> AdminRentalDetailDeposit option" where
  "detail_deposit h = (case h of None \<Rightarrow> None | Some d \<Rightarrow>
     if 0 < d_amount d
     then Some \<lparr>add_Amount = d_amount d, add_Currency = d_currency d, add_Status = adminPublicDepositStatus (d_amount d) (d_status d),
       add_HeldAt = d_held d, add_ReleasedAt = d_released d, add_ForfeitedAt = d_forfeited d, add_RefundedAt = d_refunded d\<rparr>
     else None)"

definition refund_summary :: "int \<Rightarrow> (db, AdminRentalDetailRefundSummary) tx" where
  "refund_summary rentalID =
     tx_bind (tx_read (\<lambda>s. filter (\<lambda>f. f_rental f = rentalID) (refunds s))) (\<lambda>rows.
     let completed = filter (\<lambda>f. f_status f = refundStatusCompleted) rows;
         latest = (case newest_first f_created f_id rows of [] \<Rightarrow> None | f # _ \<Rightarrow> Some f);
         code = case_option 0 f_status latest
     in tx_bind (lift_result (scan_sum (map f_principal completed))) (\<lambda>principal.
        tx_bind (lift_result (scan_sum (map f_deposit completed))) (\<lambda>deposit.
        tx_return \<lparr>rsm_Count = int (length rows), rsm_LatestStatus = (if code = 0 then ''NONE'' else publicRefundStatus code),
          rsm_TotalRefundedPrimary = principal, rsm_TotalRefundedDeposit = deposit,
          rsm_LatestProcessedAt = (case latest of None \<Rightarrow> None | Some f \<Rightarrow> f_processed f)\<rparr>)))"

text \<open>
  \<open>GROUP BY entry_type\<close> gives one row per type, and the loop stores the count and the total under the display type of
  the row: types without a name of their own share the entry UNKNOWN.
\<close>

definition ledger_groups :: "ledger_row list \<Rightarrow> int list" where
  "ledger_groups rows = remdups (map l_type rows)"

definition ledger_summary :: "int \<Rightarrow> (db, AdminRentalDetailLedgerSummary) tx" where
  "ledger_summary rentalID =
     tx_bind (tx_read (\<lambda>s. filter (\<lambda>l. l_rental l = Some rentalID) (ledger s))) (\<lambda>rows.
     tx_bind (tx_collect (\<lambda>entryType.
         tx_bind (lift_result (scan_sum (map l_amount (filter (\<lambda>l. l_type l = entryType) rows)))) (\<lambda>total.
         tx_return (publicLedgerDisplayType entryType, count_where (\<lambda>l. l_type l = entryType) rows, total))) (ledger_groups rows)) (\<lambda>groups.
     tx_return \<lparr>lsm_CountsByDisplayType = fold (\<lambda>(k, c, t). AList.update k c) groups [],
       lsm_TotalsByDisplayType = fold (\<lambda>(k, c, t). AList.update k t) groups [],
       lsm_LatestEntries = map (\<lambda>l. \<lparr>sle_ID = l_id l, sle_DisplayType = publicLedgerDisplayType (l_type l), sle_Amount = l_amount l,
         sle_Currency = l_currency l, sle_CreatedAt = l_created l\<rparr>) (take 5 (newest_first l_created l_id rows))\<rparr>))"

definition support_flags ::
  "AdminRentalDetailRental \<Rightarrow> AdminRentalDetailPayment option \<Rightarrow> string \<Rightarrow> time \<Rightarrow> AdminRentalSupportFlags" where
  "support_flags rental payment latestRefundStatus now =
     (let paymentStatus = case_option 0 adp_Status payment;
          eligibility = adminWalletRefundEligibility (adr_Status rental) paymentStatus (case_option [] adp_Provider payment) latestRefundStatus
      in \<lparr>flag_EligibleWalletRefund = fst eligibility, flag_RefundIneligibleReason = snd eligibility,
          flag_HasActiveCredentials = (adr_Status rental = 2 \<and> now < adr_EndAt rental \<and> payment \<noteq> None \<and> paymentStatus = 2),
          flag_PaymentWindowExpired = (\<not> now < adr_PaymentExpiresAt rental)\<rparr>)"

definition Repo_GetAdminRentalDetail :: "int \<Rightarrow> time \<Rightarrow> (db, AdminRentalDetail) tx" where
  "Repo_GetAdminRentalDetail rentalID now =
     tx_bind (no_rows_as (PaymentErr ErrAdminRentalNotFound) (query_row (\<lambda>s.
       [(r, d, latest_payment s r). r \<leftarrow> rentals s, r_id r = rentalID, d \<leftarrow> left_join (filter (\<lambda>d. d_rental d = r_id r) (holds s))]))) (\<lambda>(r, d, lp).
     tx_bind (refund_summary rentalID) (\<lambda>refundSummary.
     tx_bind (ledger_summary rentalID) (\<lambda>ledgerSummary.
     tx_return \<lparr>det_Rental = detail_rental r, det_Payment = detail_payment lp, det_Deposit = detail_deposit d, det_RefundSummary = refundSummary,
       det_LedgerSummary = ledgerSummary,
       det_SupportFlags = support_flags (detail_rental r) (detail_payment lp) (rsm_LatestStatus refundSummary) now\<rparr>)))"

definition GetAdminRentalDetail :: "int \<Rightarrow> time \<Rightarrow> (db, AdminRentalDetail) tx" where
  "GetAdminRentalDetail rentalID now =
     (if rentalID \<le> 0 then tx_fail (adminRentalFilterError ''rental_id must be a positive integer'') else Repo_GetAdminRentalDetail rentalID now)"

end
