(* ===== verification/Payment_Reads_Properties.thy ===== *)
theory Payment_Reads_Properties
  imports "HOL-Library.Multiset" Payment_Reads
begin

text \<open>
  What the reads of the payments show: pages that cover a list, offsets that wrap around, and the flag of an eligible refund.
\<close>

section \<open>Pages of a sorted list\<close>

lemma newest_first_simps [simp]:
  "set (newest_first created key xs) = set xs" "length (newest_first created key xs) = length xs" "mset (newest_first created key xs) = mset xs"
  by (simp_all add: newest_first_def)

lemma newest_first_sorted: "sorted_wrt (\<lambda>x y. created y \<le> created x) (newest_first created key xs)"
proof -
  have "sorted (map (\<lambda>x. - created x) (newest_first created key xs))" by (simp add: newest_first_def)
  then show ?thesis by (simp add: sorted_map)
qed

lemma distinct_newest_first: "distinct (map f (newest_first created key xs)) \<longleftrightarrow> distinct (map f xs)"
  by (metis mset_map newest_first_simps(3) mset_eq_imp_distinct_iff)

lemma filter_newest_first: "filter P (newest_first created key xs) = newest_first created key (filter P xs)"
  by (simp add: newest_first_def filter_sort)

text \<open>The pages of a list, one after the other, are the list.\<close>

lemma pages_cover: "concat (map (\<lambda>k. take n (drop (k * n) xs)) [0..<m]) = take (m * n) xs"
proof (induction m)
  case (Suc m)
  have "take (Suc m * n) xs = take (m * n + n) xs" by (simp add: add.commute)
  also have "\<dots> = take (m * n) xs @ take n (drop (m * n) xs)" by (simp add: take_add)
  finally show ?case using Suc by simp
qed simp

lemma page_offset_exact: "is_i64 page \<Longrightarrow> 0 < page \<Longrightarrow> is_i64 ((page - 1) * n) \<Longrightarrow> page_offset page n = (page - 1) * n"
  by (simp add: page_offset_def i64_id is_i64_def)

lemma query_page_run:
  "query_page limit offset q s =
     (if limit < 0 then Inl (PgError ''2201W'' ''LIMIT must not be negative'')
      else if offset < 0 then Inl (PgError ''2201X'' ''OFFSET must not be negative'')
      else Inr (take (nat limit) (drop (nat offset) (q s)), s))"
  by (simp add: query_page_def page_of_def tx_bind_def tx_read_def lift_result_def)

section \<open>The rows of the back office\<close>

definition joined_row :: "db \<Rightarrow> rental_row \<Rightarrow> hold_row option \<Rightarrow> joined_rental" where
  "joined_row s r d = \<lparr>j_rental = r, j_hold = d, j_payment = latest_payment s r, j_refund = latest_refund s r\<rparr>"

definition deposit_hold_of :: "db \<Rightarrow> rental_row \<Rightarrow> hold_row option" where
  "deposit_hold_of s r = (case filter (\<lambda>d. d_rental d = r_id r) (holds s) of [] \<Rightarrow> None | d # _ \<Rightarrow> Some d)"

lemma distinct_holds: "valid_db s \<Longrightarrow> distinct (map d_rental (holds s))"
  using valid_db_keys by blast

lemma left_join_unique:
  assumes "distinct (map key xs)"
  shows "left_join (filter (\<lambda>x. key x = k) xs) = [case filter (\<lambda>x. key x = k) xs of [] \<Rightarrow> None | x # _ \<Rightarrow> Some x]"
proof (cases "filter (\<lambda>x. key x = k) xs")
  case (Cons x ys)
  have "distinct (map key (filter (\<lambda>x. key x = k) xs))" using assms by (simp add: distinct_map_filter)
  moreover have "\<forall>y\<in>set (filter (\<lambda>x. key x = k) xs). key y = k" by simp
  ultimately have "ys = []" unfolding Cons by (cases ys) auto
  then show ?thesis using Cons by (simp add: left_join_def)
qed (simp add: left_join_def)

lemma base_query_rows:
  assumes "valid_db s"
  shows "adminRentalsBaseQuery filters s = filter (admin_condition filters) (map (\<lambda>r. joined_row s r (deposit_hold_of s r)) (rentals s))"
  using left_join_unique [OF distinct_holds [OF assms]]
  by (simp add: adminRentalsBaseQuery_def joined_row_def deposit_hold_of_def concat_map_singleton)

lemma is_i64_between: "0 \<le> x \<Longrightarrow> x \<le> y \<Longrightarrow> y \<le> MaxInt64 \<Longrightarrow> is_i64 x"
  by (simp add: is_i64_def)

lemma admin_filters_page [simp]:
  "adminRentalsBaseQuery (filters\<lparr>arf_Page := k\<rparr>) = adminRentalsBaseQuery filters"
  by (simp add: adminRentalsBaseQuery_def admin_condition_def [abs_def] fun_eq_iff)

lemma admin_summary_page [simp]: "SummarizeAdminRentals (filters\<lparr>arf_Page := k\<rparr>) = SummarizeAdminRentals filters"
  by (simp add: SummarizeAdminRentals_def)

lemma valid_filters_page:
  assumes "validateAdminRentalFilters filters = None" "0 < k"
  shows "validateAdminRentalFilters (filters\<lparr>arf_Page := k\<rparr>) = None"
proof -
  have "\<not> arf_Page filters \<le> 0" using assms(1) by (auto simp: validateAdminRentalFilters_def filters_error_def)
  moreover have "\<not> k \<le> 0" using assms(2) by simp
  ultimately have "validateAdminRentalFilters (filters\<lparr>arf_Page := k\<rparr>) = validateAdminRentalFilters filters"
    by (cases filters) (simp only: validateAdminRentalFilters_def AdminRentalListFilter.update_convs AdminRentalListFilter.select_convs if_False)
  with assms(1) show ?thesis by simp
qed

lemma valid_filters_size: "validateAdminRentalFilters filters = None \<Longrightarrow> 0 < arf_PageSize filters \<and> arf_PageSize filters \<le> 100"
  by (simp add: validateAdminRentalFilters_def filters_error_def split: if_splits)

definition listed_rentals :: "AdminRentalListFilter \<Rightarrow> db \<Rightarrow> AdminRentalEntry list" where
  "listed_rentals filters s =
     map admin_rental_entry (newest_first (\<lambda>j. r_created (j_rental j)) (\<lambda>j. r_id (j_rental j)) (adminRentalsBaseQuery filters s))"

definition rental_summary :: "AdminRentalListFilter \<Rightarrow> db \<Rightarrow> AdminRentalSummary" where
  "rental_summary filters s = (case SummarizeAdminRentals filters s of Inr (x, t) \<Rightarrow> x)"

lemma SummarizeAdminRentals_run: "SummarizeAdminRentals filters s = Inr (rental_summary filters s, s)"
  by (simp add: rental_summary_def SummarizeAdminRentals_def tx_read_def)

lemma ListAdminRentals_run:
  assumes "validateAdminRentalFilters filters = None" "0 < k"
  shows "ListAdminRentals (filters\<lparr>arf_Page := k\<rparr>) s =
    (if page_offset k (arf_PageSize filters) < 0 then Inl (PgError ''2201X'' ''OFFSET must not be negative'')
     else Inr (\<lparr>arp_Rentals = take (nat (arf_PageSize filters)) (drop (nat (page_offset k (arf_PageSize filters))) (listed_rentals filters s)),
       arp_Summary = rental_summary filters s, arp_Page = k, arp_PageSize = arf_PageSize filters,
       arp_TotalItems = ars_TotalCount (rental_summary filters s)\<rparr>, s))"
  using valid_filters_page [OF assms] valid_filters_size [OF assms(1)]
  by (simp add: ListAdminRentals_def ListAdminRentalEntries_def query_page_run tx_bind_def SummarizeAdminRentals_run tx_return_def listed_rentals_def)

lemma entry_fields [simp]:
  "are_ID (admin_rental_entry j) = r_id (j_rental j)" "are_Status (admin_rental_entry j) = r_status (j_rental j)"
  by (simp_all add: admin_rental_entry_def Let_def)

lemma listed_ids:
  assumes "valid_db s"
  shows "distinct (map are_ID (listed_rentals filters s))"
    "set (listed_rentals filters s) = admin_rental_entry ` {j. admin_condition filters j \<and> (\<exists>r\<in>set (rentals s). j = joined_row s r (deposit_hold_of s r))}"
proof -
  have "map are_ID (listed_rentals filters s) = map (\<lambda>j. r_id (j_rental j))
      (newest_first (\<lambda>j. r_created (j_rental j)) (\<lambda>j. r_id (j_rental j)) (adminRentalsBaseQuery filters s))"
    by (simp add: listed_rentals_def)
  moreover have "distinct (map (\<lambda>j. r_id (j_rental j)) (adminRentalsBaseQuery filters s))"
    unfolding base_query_rows [OF assms]
    by (rule distinct_map_filter) (simp add: comp_def joined_row_def valid_db_keys(3) [OF assms])
  ultimately show "distinct (map are_ID (listed_rentals filters s))" by (simp add: distinct_newest_first)
  show "set (listed_rentals filters s) = admin_rental_entry ` {j. admin_condition filters j \<and> (\<exists>r\<in>set (rentals s). j = joined_row s r (deposit_hold_of s r))}"
    unfolding listed_rentals_def base_query_rows [OF assms] by auto
qed

lemma listed_newest:
  assumes "valid_db s"
  shows "sorted_wrt (\<lambda>x y. \<forall>a\<in>set (rentals s). \<forall>b\<in>set (rentals s). r_id a = are_ID x \<and> r_id b = are_ID y \<longrightarrow> r_created b \<le> r_created a)
    (listed_rentals filters s)"
proof -
  have row: "a = j_rental j" if "j \<in> set (adminRentalsBaseQuery filters s)" "a \<in> set (rentals s)" "r_id a = r_id (j_rental j)" for a j
  proof -
    have "j_rental j \<in> set (rentals s)" using that(1) unfolding base_query_rows [OF assms] by (auto simp: joined_row_def)
    then show ?thesis by (rule key_inj [OF valid_db_keys(3) [OF assms] that(2) _ that(3)])
  qed
  show ?thesis
    unfolding listed_rentals_def sorted_wrt_map
    by (rule sorted_wrt_mono_rel [OF _ newest_first_sorted]) (auto dest: row)
qed

lemma listed_length: "int (length (listed_rentals filters s)) = ars_TotalCount (rental_summary filters s)"
  by (simp add: listed_rentals_def rental_summary_def SummarizeAdminRentals_def tx_read_def Let_def)

text \<open>A partition of a list into classes has the length of the list.\<close>

lemma count_partition:
  assumes "distinct cs" "\<And>x. x \<in> set xs \<Longrightarrow> f x \<in> set cs"
  shows "(\<Sum>c\<leftarrow>cs. count_where (\<lambda>x. f x = c) xs) = int (length xs)"
  using assms(2)
proof (induction xs)
  case (Cons x xs)
  have "(\<Sum>c\<leftarrow>cs. count_where (\<lambda>x. f x = c) (x # xs)) = (\<Sum>c\<leftarrow>cs. (if f x = c then 1 else 0) + count_where (\<lambda>x. f x = c) xs)"
    by (rule arg_cong [where f = sum_list], rule map_cong) (simp_all add: count_where_def)
  also have "\<dots> = (\<Sum>c\<leftarrow>cs. if f x = c then 1 else 0) + (\<Sum>c\<leftarrow>cs. count_where (\<lambda>x. f x = c) xs)"
    by (simp add: sum_list_addf)
  also have "(\<Sum>c\<leftarrow>cs. if f x = c then 1 else 0) = (1 :: int)"
    using assms(1) Cons.prems [of x] by (simp add: sum_list_distinct_conv_sum_set)
  finally show ?case using Cons by simp
qed (simp add: count_where_def)

lemma summary_counts:
  assumes "valid_db s" "\<forall>r\<in>set (rentals s). r_status r \<in> {1..5}"
  shows "(\<Sum>(k, c)\<leftarrow>ars_RentalStatusCounts (rental_summary filters s). c) = ars_TotalCount (rental_summary filters s)"
proof -
  let ?rows = "adminRentalsBaseQuery filters s"
  have "r_status (j_rental j) \<in> set [1, 2, 3, 4, 5]" if "j \<in> set ?rows" for j
  proof -
    have "j_rental j \<in> set (rentals s)" using that unfolding base_query_rows [OF assms(1)] by (auto simp: joined_row_def)
    with assms(2) have "r_status (j_rental j) \<in> {1..5}" by blast
    then show ?thesis by (simp add: atLeastAtMost_iff) presburger
  qed
  from count_partition [of "[1, 2, 3, 4, 5]" ?rows "\<lambda>j. r_status (j_rental j)", OF _ this]
  show ?thesis by (simp add: rental_summary_def SummarizeAdminRentals_def tx_read_def Let_def)
qed

text \<open>
  C24: The back office misses no rental and repeats none: page by page, the list has exactly the rentals that match the
  filters, each once and the newest first, every page states the number of all of them, and the counts by rental status add up to it.
\<close>

theorem admin_rental_pages:
  assumes valid: "valid_db s" and ok: "validateAdminRentalFilters filters = None" and n: "n = nat (arf_PageSize filters)"
  shows "\<exists>rows summary.
    distinct (map are_ID rows) \<and>
    sorted_wrt (\<lambda>x y. \<forall>a\<in>set (rentals s). \<forall>b\<in>set (rentals s). r_id a = are_ID x \<and> r_id b = are_ID y \<longrightarrow> r_created b \<le> r_created a) rows \<and>
    set rows = {admin_rental_entry j |j. admin_condition filters j \<and> (\<exists>r\<in>set (rentals s). j = joined_row s r (deposit_hold_of s r))} \<and>
    (\<forall>k\<ge>1. int k * 100 \<le> MaxInt64 \<longrightarrow> ListAdminRentals (filters\<lparr>arf_Page := int k\<rparr>) s =
       Inr (\<lparr>arp_Rentals = take n (drop ((k - 1) * n) rows), arp_Summary = summary, arp_Page = int k, arp_PageSize = int n,
         arp_TotalItems = int (length rows)\<rparr>, s)) \<and>
    (\<forall>m. length rows \<le> m * n \<longrightarrow> concat (map (\<lambda>k. take n (drop (k * n) rows)) [0..<m]) = rows) \<and>
    ((\<forall>r\<in>set (rentals s). r_status r \<in> {1..5}) \<longrightarrow> (\<Sum>(k, c)\<leftarrow>ars_RentalStatusCounts summary. c) = int (length rows))"
proof (intro exI conjI allI impI)
  let ?rows = "listed_rentals filters s"
  let ?summary = "rental_summary filters s"
  note size = valid_filters_size [OF ok]
  show "distinct (map are_ID ?rows)" "set ?rows = {admin_rental_entry j |j. admin_condition filters j \<and> (\<exists>r\<in>set (rentals s). j = joined_row s r (deposit_hold_of s r))}"
    using listed_ids [OF valid] by (simp_all add: setcompr_eq_image)
  show "sorted_wrt (\<lambda>x y. \<forall>a\<in>set (rentals s). \<forall>b\<in>set (rentals s). r_id a = are_ID x \<and> r_id b = are_ID y \<longrightarrow> r_created b \<le> r_created a) ?rows"
    by (rule listed_newest [OF valid])
  show "concat (map (\<lambda>k. take n (drop (k * n) ?rows)) [0..<m]) = ?rows" if "length ?rows \<le> m * n" for m
    using that by (simp add: pages_cover)
  show "(\<Sum>(k, c)\<leftarrow>ars_RentalStatusCounts ?summary. c) = int (length ?rows)" if "\<forall>r\<in>set (rentals s). r_status r \<in> {1..5}"
    using summary_counts [OF valid that] by (simp add: listed_length)
  fix k :: nat
  assume k: "1 \<le> k" "int k * 100 \<le> MaxInt64"
  have "0 \<le> (int k - 1) * arf_PageSize filters" using size k by simp
  moreover have "(int k - 1) * arf_PageSize filters \<le> (int k - 1) * 100" by (rule mult_left_mono) (use size k in simp_all)
  ultimately have "is_i64 ((int k - 1) * arf_PageSize filters)" by (rule is_i64_between) (use k in simp)
  moreover have "is_i64 (int k)" using k by (simp add: is_i64_def)
  ultimately have "page_offset (int k) (arf_PageSize filters) = (int k - 1) * arf_PageSize filters"
    using page_offset_exact [of "int k" "arf_PageSize filters"] k by simp
  moreover have sz: "arf_PageSize filters = int n" using size by (simp add: n)
  moreover have "int k - 1 = int (k - 1)" using k by (simp add: of_nat_diff)
  ultimately have off: "page_offset (int k) (int n) = int ((k - 1) * n)" by (simp only: of_nat_mult)
  show "ListAdminRentals (filters\<lparr>arf_Page := int k\<rparr>) s =
       Inr (\<lparr>arp_Rentals = take n (drop ((k - 1) * n) ?rows), arp_Summary = ?summary, arp_Page = int k, arp_PageSize = int n,
         arp_TotalItems = int (length ?rows)\<rparr>, s)"
    using ListAdminRentals_run [OF ok, of "int k" s] k(1) unfolding sz off by (simp add: listed_length del: of_nat_mult)
qed

definition user_ledger :: "int \<Rightarrow> db \<Rightarrow> PublicLedgerEntry list" where
  "user_ledger userID s = map public_ledger_entry (newest_first l_created l_id (filter (\<lambda>l. l_user l = Some userID) (ledger s)))"

lemma ListUserLedger_run:
  assumes "0 < page" "0 < n" "n \<le> 100"
  shows "ListUserLedger userID page n s =
    (if page_offset page n < 0 then Inl (Wrapf ''list user ledger entries'' (PgError ''2201X'' ''OFFSET must not be negative''))
     else Inr (\<lparr>ulp_Entries = take (nat n) (drop (nat (page_offset page n)) (user_ledger userID s)), ulp_Page = page, ulp_PageSize = n,
       ulp_TotalItems = int (length (user_ledger userID s))\<rparr>, s))"
  using assms
  by (simp add: ListUserLedger_def ListUserLedgerEntries_def CountUserLedgerEntries_def query_page_run tx_bind_def tx_seq_def fail_if_def wrapf_def
      tx_catch_def tx_fail_def tx_read_def tx_return_def user_ledger_def)

text \<open>
  C36: The pages of a user's ledger. The offset of a page is computed in 64 bits and wraps around there: a page whose wrapped offset is negative is an internal error,
  and any other page shows the entries from the wrapped offset on. So the pages are right as long as the offset fits into 64 bits. The
  page number is not checked beyond that: the page 2^58 + 1 of size 64 shows the first page again, the page 6148914691236517207 of size 3 starts at the third entry, as
  no page of this size should, and the last representable page of size 2 is an internal error.
\<close>

theorem ledger_pages:
  "(0 < page \<and> is_i64 page \<and> 0 < n \<and> n \<le> 100 \<longrightarrow>
     ListUserLedger userID page n s = (let off = ((page - 1) * n + 2 ^ 63) mod 2 ^ 64 - 2 ^ 63
       in if off < 0 then Inl (Wrapf ''list user ledger entries'' (PgError ''2201X'' ''OFFSET must not be negative''))
          else Inr (\<lparr>ulp_Entries = take (nat n) (drop (nat off) (user_ledger userID s)), ulp_Page = page,
            ulp_PageSize = n, ulp_TotalItems = int (length (user_ledger userID s))\<rparr>, s))) \<and>
   (0 < page \<and> is_i64 page \<and> 0 < n \<and> n \<le> 100 \<and> (page - 1) * n \<le> MaxInt64 \<longrightarrow>
     ListUserLedger userID page n s = Inr (\<lparr>ulp_Entries = take (nat n) (drop (nat ((page - 1) * n)) (user_ledger userID s)), ulp_Page = page,
       ulp_PageSize = n, ulp_TotalItems = int (length (user_ledger userID s))\<rparr>, s)) \<and>
   (\<exists>x y. ListUserLedger userID 1 64 s = Inr (x, s) \<and> ListUserLedger userID 288230376151711745 64 s = Inr (y, s) \<and>
     ulp_Entries y = ulp_Entries x) \<and>
   (\<exists>y. ListUserLedger userID 6148914691236517207 3 s = Inr (y, s) \<and> ulp_Entries y = take 3 (drop 2 (user_ledger userID s))) \<and>
   ListUserLedger userID MaxInt64 2 s = Inl (Wrapf ''list user ledger entries'' (PgError ''2201X'' ''OFFSET must not be negative''))"
proof (intro conjI impI)
  assume a: "0 < page \<and> is_i64 page \<and> 0 < n \<and> n \<le> 100"
  then have "is_i64 (page - 1)" by (auto simp: is_i64_def)
  then have off: "page_offset page n = ((page - 1) * n + 2 ^ 63) mod 2 ^ 64 - 2 ^ 63" by (simp add: page_offset_def i64_def [of "(page - 1) * n"])
  show "ListUserLedger userID page n s = (let off = ((page - 1) * n + 2 ^ 63) mod 2 ^ 64 - 2 ^ 63
       in if off < 0 then Inl (Wrapf ''list user ledger entries'' (PgError ''2201X'' ''OFFSET must not be negative''))
          else Inr (\<lparr>ulp_Entries = take (nat n) (drop (nat off) (user_ledger userID s)), ulp_Page = page,
            ulp_PageSize = n, ulp_TotalItems = int (length (user_ledger userID s))\<rparr>, s))"
    unfolding Let_def off [symmetric] by (rule ListUserLedger_run) (use a in simp_all)
next
  assume a: "0 < page \<and> is_i64 page \<and> 0 < n \<and> n \<le> 100 \<and> (page - 1) * n \<le> MaxInt64"
  then have "0 \<le> (page - 1) * n" by simp
  then have "is_i64 ((page - 1) * n)" by (rule is_i64_between [OF _ order_refl]) (use a in simp)
  then have off: "page_offset page n = (page - 1) * n" using a by (intro page_offset_exact) simp_all
  show "ListUserLedger userID page n s = Inr (\<lparr>ulp_Entries = take (nat n) (drop (nat ((page - 1) * n)) (user_ledger userID s)), ulp_Page = page,
       ulp_PageSize = n, ulp_TotalItems = int (length (user_ledger userID s))\<rparr>, s)"
    using ListUserLedger_run [of page n userID s] a \<open>0 \<le> (page - 1) * n\<close> unfolding off by (simp add: not_less)
next
  show "\<exists>x y. ListUserLedger userID 1 64 s = Inr (x, s) \<and> ListUserLedger userID 288230376151711745 64 s = Inr (y, s) \<and> ulp_Entries y = ulp_Entries x"
    by (simp add: ListUserLedger_run page_offset_def i64_def)
next
  show "\<exists>y. ListUserLedger userID 6148914691236517207 3 s = Inr (y, s) \<and> ulp_Entries y = take 3 (drop 2 (user_ledger userID s))"
    by (simp add: ListUserLedger_run page_offset_def i64_def)
qed (simp add: ListUserLedger_run page_offset_def i64_def)

section \<open>The flag of an eligible refund\<close>

lemma latest_refund_newest:
  "latest_refund s r = (case newest_first f_created f_id (filter (\<lambda>f. f_rental f = r_id r \<and> f_user f = r_user r) (refunds s)) of [] \<Rightarrow> None | f # _ \<Rightarrow> Some f)"
  by (simp add: latest_refund_def newest_first_def)

lemma newest_hd: "(case newest_first created key xs of [] \<Rightarrow> None | x # _ \<Rightarrow> Some x) = Some y \<Longrightarrow> y \<in> set xs"
  using newest_first_simps(1) [of created key xs] by (cases "newest_first created key xs") auto

lemma public_completed: "publicRefundStatus c = ''COMPLETED'' \<longleftrightarrow> c = 2"
  by (simp add: publicRefundStatus_def)

lemma eligibility_flag:
  "fst (adminWalletRefundEligibility r p v (if c = 0 then ''NONE'' else publicRefundStatus c)) \<longleftrightarrow> v = ''balance'' \<and> p = 2 \<and> r \<in> {3, 4} \<and> c \<noteq> 2"
  "snd (adminWalletRefundEligibility r p v l) = [] \<longleftrightarrow> fst (adminWalletRefundEligibility r p v l)"
  by (auto simp: adminWalletRefundEligibility_def public_completed)

lemma refund_summary_ok:
  "refund_summary i s = Inr (x, t) \<Longrightarrow> t = s \<and>
     rsm_LatestStatus x = (let c = (case newest_first f_created f_id (filter (\<lambda>f. f_rental f = i) (refunds s)) of [] \<Rightarrow> 0 | f # _ \<Rightarrow> f_status f)
       in if c = 0 then ''NONE'' else publicRefundStatus c)"
  by (auto simp: refund_summary_def tx_inv Let_def split: list.splits)

lemma ledger_summary_ok: "ledger_summary i s = Inr (x, t) \<Longrightarrow> t = s"
proof -
  have "tx_collect (\<lambda>e. tx_bind (lift_result (g e)) (\<lambda>y. tx_return (h e y))) xs s = Inr (ys, t) \<Longrightarrow> t = s" for g h xs ys and s t :: db
    by (induction xs arbitrary: ys t) (auto simp: tx_inv)
  then show "ledger_summary i s = Inr (x, t) \<Longrightarrow> t = s" by (auto simp: ledger_summary_def tx_inv)
qed

lemma detail_query:
  assumes "valid_db s" "r \<in> set (rentals s)" "r_id r = i"
  shows "[(r, d, latest_payment s r). r \<leftarrow> rentals s, r_id r = i, d \<leftarrow> left_join (filter (\<lambda>d. d_rental d = r_id r) (holds s))] =
    [(r, deposit_hold_of s r, latest_payment s r)]"
proof -
  have "[(r, d, latest_payment s r). r \<leftarrow> rentals s, r_id r = i, d \<leftarrow> left_join (filter (\<lambda>d. d_rental d = r_id r) (holds s))] =
      concat (map (\<lambda>r. if r_id r = i then [(r, deposit_hold_of s r, latest_payment s r)] else []) (rentals s))"
    unfolding left_join_unique [OF distinct_holds [OF assms(1)]] by (simp add: deposit_hold_of_def cong: if_cong)
  also have "\<dots> = map (\<lambda>r. (r, deposit_hold_of s r, latest_payment s r)) (filter (\<lambda>r. r_id r = i) (rentals s))"
    by (simp add: concat_map_if concat_map_singleton)
  also have "filter (\<lambda>r. r_id r = i) (rentals s) = [r]"
    by (rule filter_unique [where key = r_id, OF valid_db_keys(3) [OF assms(1)] assms(2)]) (simp add: assms(3))
  finally show ?thesis by simp
qed

lemma latest_payment_unique:
  assumes "valid_db s" "p \<in> set (payments s)" "p_rental p = r_id r"
  shows "latest_payment s r = Some p"
proof -
  have "filter (\<lambda>p. p_rental p = r_id r) (payments s) = [p]"
    by (rule filter_unique [where key = p_rental, OF valid_db_keys(5) [OF assms(1)] assms(2)]) (simp add: assms(3))
  then show ?thesis by (simp add: latest_payment_def newest_first_def)
qed

lemma GetAdminRentalDetail_ok:
  assumes valid: "valid_db s" and r: "r \<in> set (rentals s)" and run: "GetAdminRentalDetail (r_id r) now s = Inr (d, t)"
  obtains x where "t = s" "refund_summary (r_id r) s = Inr (x, s)"
    "det_SupportFlags d = support_flags (detail_rental r) (detail_payment (latest_payment s r)) (rsm_LatestStatus x) now"
proof -
  have "query_row (\<lambda>s. [(r', d, latest_payment s r'). r' \<leftarrow> rentals s, r_id r' = r_id r, d \<leftarrow> left_join (filter (\<lambda>d. d_rental d = r_id r') (holds s))]) s =
      Inr ((r, deposit_hold_of s r, latest_payment s r), s)"
    unfolding query_row_def detail_query [OF valid r refl] by simp
  with run obtain x y s1 where "refund_summary (r_id r) s = Inr (x, s1)" "ledger_summary (r_id r) s1 = Inr (y, t)"
    "det_SupportFlags d = support_flags (detail_rental r) (detail_payment (latest_payment s r)) (rsm_LatestStatus x) now"
    by (auto simp: GetAdminRentalDetail_def Repo_GetAdminRentalDetail_def no_rows_as_def tx_catch_def tx_bind_ok tx_return_ok tx_fail_ok split: if_splits)
  then show thesis using that refund_summary_ok ledger_summary_ok by blast
qed

lemma support_flag:
  assumes "\<forall>p\<in>set (payments s). 0 < p_id p"
  shows "flag_EligibleWalletRefund (support_flags (detail_rental r) (detail_payment (latest_payment s r)) l now) =
    fst (adminWalletRefundEligibility (r_status r) (case_option 0 p_status (latest_payment s r)) (case_option [] p_provider (latest_payment s r)) l)"
    "flag_RefundIneligibleReason (support_flags (detail_rental r) (detail_payment (latest_payment s r)) l now) =
    snd (adminWalletRefundEligibility (r_status r) (case_option 0 p_status (latest_payment s r)) (case_option [] p_provider (latest_payment s r)) l)"
proof -
  have "0 < p_id p" if "latest_payment s r = Some p" for p
  proof -
    have "p \<in> set (filter (\<lambda>p. p_rental p = r_id r) (payments s))" using that unfolding latest_payment_def by (rule newest_hd)
    then show ?thesis using assms by simp
  qed
  then show "flag_EligibleWalletRefund (support_flags (detail_rental r) (detail_payment (latest_payment s r)) l now) =
    fst (adminWalletRefundEligibility (r_status r) (case_option 0 p_status (latest_payment s r)) (case_option [] p_provider (latest_payment s r)) l)"
    "flag_RefundIneligibleReason (support_flags (detail_rental r) (detail_payment (latest_payment s r)) l now) =
    snd (adminWalletRefundEligibility (r_status r) (case_option 0 p_status (latest_payment s r)) (case_option [] p_provider (latest_payment s r)) l)"
    by (cases "latest_payment s r"; simp add: support_flags_def Let_def detail_payment_def detail_rental_def)+
qed

lemma flag_of_list:
  assumes "\<forall>f\<in>set (refunds s). f_rental f = r_id r \<longrightarrow> f_user f = r_user r"
  shows "filter (\<lambda>f. f_rental f = r_id r) (refunds s) = filter (\<lambda>f. f_rental f = r_id r \<and> f_user f = r_user r) (refunds s)"
  using assms by (intro filter_cong) auto

lemma no_completed_refund:
  assumes valid: "valid_db s" "valid_db t" and keys: "\<forall>f\<in>set (refunds s). f_rental f = r_id r \<longrightarrow> f_key f = refund_key (r_id r)"
    and f: "f \<in> set fs" "f_key f = refund_key (r_id r)" "f_status f = 1" "distinct (map f_id fs)" and fs: "fs = refunds s \<or> fs = refunds s @ [f]"
    and t: "refunds t = set_row f_id (completed_refund f now) fs"
  shows "case_option 0 f_status (latest_refund s r) \<noteq> 2"
proof (cases "latest_refund s r")
  case (Some g)
  then have "g \<in> set (filter (\<lambda>f. f_rental f = r_id r \<and> f_user f = r_user r) (refunds s))" unfolding latest_refund_newest by (rule newest_hd)
  then have g: "g \<in> set (refunds s)" "f_rental g = r_id r" by simp_all
  then have key: "f_key g = refund_key (r_id r)" using keys by blast
  have "map f_key (refunds t) = map f_key fs"
    using f(1,4) unfolding t set_row_def by (auto simp: completed_refund_def distinct_map inj_on_def)
  with valid_db_keys(11) [OF valid(2)] have "distinct (map f_key fs)" by simp
  moreover have "g \<in> set fs" using g fs by auto
  ultimately have "g = f" using f(1,2) key unfolding distinct_map inj_on_def by metis
  with f(3) Some show ?thesis by simp
qed simp

lemma refund_eligible:
  assumes valid: "valid_db s" and r: "r \<in> set (rentals s)"
    and keys: "\<forall>f\<in>set (refunds s). f_rental f = r_id r \<longrightarrow> f_key f = refund_key (r_id r)"
    and run: "RefundWalletPayment actor role (r_id r) reason now s = (Inr res, t)" "wrr_Changed res"
  shows "eligible_wallet_refund (joined_row s r (deposit_hold_of s r))"
proof -
  obtain r' p u h f fs ls es gs q where rows: "refund_rows s (r_id r) r' p u h" "p_provider p = ''balance''" "p_status p = 2" "r_status r' \<in> {3, 4}"
    and f: "f \<in> set fs" "f_key f = refund_key (r_id r)" "f_status f = 1" "distinct (map f_id fs)" and fs: "fs = refunds s \<or> fs = refunds s @ [f]"
    and t: "refunds t = set_row f_id (completed_refund f now) fs"
    by (rule refund_changed [OF valid run]) (simp add: refunded_db_def; blast)
  have "r' = r" using rows(1) r valid_db_keys(3) [OF valid] by (auto simp: refund_rows_def distinct_map inj_on_def)
  moreover have "latest_payment s r = Some p" using rows(1) by (intro latest_payment_unique [OF valid]) (auto simp: refund_rows_def)
  moreover have "case_option 0 f_status (latest_refund s r) \<noteq> 2"
    by (rule no_completed_refund [OF valid refund_keeps_valid [OF valid run(1)] keys f fs t])
  ultimately show ?thesis using rows
    by (simp add: eligible_wallet_refund_def joined_row_def j_provider_def j_payment_status_def j_refund_status_def)
qed

text \<open>
  C23: The flag that tells an administrator whether a wallet payment can be refunded is the same in the list of rentals and in the
  detail of a rental, a reason is given exactly when it is not set, and no refund goes through without it.
\<close>

theorem refund_flag:
  assumes valid: "valid_db s" and r: "r \<in> set (rentals s)" and ids: "\<forall>p\<in>set (payments s). 0 < p_id p"
    and refunds: "\<forall>f\<in>set (refunds s). f_rental f = r_id r \<longrightarrow> f_user f = r_user r \<and> f_key f = refund_key (r_id r)"
  shows "(\<forall>now d t. GetAdminRentalDetail (r_id r) now s = Inr (d, t) \<longrightarrow>
       flag_EligibleWalletRefund (det_SupportFlags d) = eligible_wallet_refund (joined_row s r (deposit_hold_of s r)) \<and>
       (flag_RefundIneligibleReason (det_SupportFlags d) = [] \<longleftrightarrow> flag_EligibleWalletRefund (det_SupportFlags d))) \<and>
    (\<forall>actor role reason now res t. RefundWalletPayment actor role (r_id r) reason now s = (Inr res, t) \<and> wrr_Changed res \<longrightarrow>
       eligible_wallet_refund (joined_row s r (deposit_hold_of s r)))"
proof (intro conjI allI impI)
  fix now d t
  assume run: "GetAdminRentalDetail (r_id r) now s = Inr (d, t)"
  let ?j = "joined_row s r (deposit_hold_of s r)"
  obtain x where x: "refund_summary (r_id r) s = Inr (x, s)"
    and flags: "det_SupportFlags d = support_flags (detail_rental r) (detail_payment (latest_payment s r)) (rsm_LatestStatus x) now"
    by (rule GetAdminRentalDetail_ok [OF valid r run])
  have own: "filter (\<lambda>f. f_rental f = r_id r) (refunds s) = filter (\<lambda>f. f_rental f = r_id r \<and> f_user f = r_user r) (refunds s)"
    using refunds by (intro flag_of_list) blast
  have "rsm_LatestStatus x = (let c = j_refund_status ?j in if c = 0 then ''NONE'' else publicRefundStatus c)"
    using refund_summary_ok [OF x] unfolding own
    by (simp add: j_refund_status_def joined_row_def latest_refund_newest split: list.split)
  then show "flag_EligibleWalletRefund (det_SupportFlags d) = eligible_wallet_refund ?j"
    unfolding flags support_flag [OF ids] Let_def
    by (simp only: eligibility_flag) (simp add: eligible_wallet_refund_def joined_row_def j_provider_def j_payment_status_def)
  show "flag_RefundIneligibleReason (det_SupportFlags d) = [] \<longleftrightarrow> flag_EligibleWalletRefund (det_SupportFlags d)"
    unfolding flags support_flag [OF ids] by (rule eligibility_flag)
next
  fix actor role reason now res t
  assume "RefundWalletPayment actor role (r_id r) reason now s = (Inr res, t) \<and> wrr_Changed res"
  then show "eligible_wallet_refund (joined_row s r (deposit_hold_of s r))"
    using refund_eligible [OF valid r, of actor role reason now res t] refunds by blast
qed

definition waiting_filters :: AdminRentalListFilter where
  "waiting_filters = \<lparr>arf_RentalStatus = ''WAITING_PAYMENT'', arf_PaymentStatus = [], arf_PaymentProvider = ''internal'', arf_DepositStatus = ''NONE'',
     arf_RefundStatus = ''NONE'', arf_EligibleWalletRefund = Some False, arf_UserID = 2, arf_RentalID = 0, arf_Page = 1, arf_PageSize = 20\<rparr>"

lemma admin_rental_pages_witness:
  "\<exists>x. ListAdminRentals (waiting_filters\<lparr>arf_Page := int 1\<rparr>) waiting_db = Inr (x, waiting_db) \<and> arp_PageSize x = 20 \<and> are_ID ` set (arp_Rentals x) = {7}"
proof -
  have "validateAdminRentalFilters waiting_filters = None" by code_simp
  from admin_rental_pages [OF waiting_db_valid this refl] obtain rows summary where
    distinct: "distinct (map are_ID rows)" and
    rows: "set rows = {admin_rental_entry j |j. admin_condition waiting_filters j \<and> (\<exists>r\<in>set (rentals waiting_db). j = joined_row waiting_db r (deposit_hold_of waiting_db r))}"
    and pages: "\<forall>k\<ge>1. int k * 100 \<le> MaxInt64 \<longrightarrow> ListAdminRentals (waiting_filters\<lparr>arf_Page := int k\<rparr>) waiting_db =
       Inr (\<lparr>arp_Rentals = take (nat (arf_PageSize waiting_filters)) (drop ((k - 1) * nat (arf_PageSize waiting_filters)) rows), arp_Summary = summary,
         arp_Page = int k, arp_PageSize = int (nat (arf_PageSize waiting_filters)), arp_TotalItems = int (length rows)\<rparr>, waiting_db)"
    by blast
  have page: "ListAdminRentals (waiting_filters\<lparr>arf_Page := int 1\<rparr>) waiting_db = Inr (\<lparr>arp_Rentals = take 20 rows, arp_Summary = summary,
      arp_Page = 1, arp_PageSize = 20, arp_TotalItems = int (length rows)\<rparr>, waiting_db)"
    using pages [rule_format, of 1] by (simp add: waiting_filters_def)
  have "admin_condition waiting_filters (joined_row waiting_db rental7 (deposit_hold_of waiting_db rental7))" by code_simp
  then have row: "set rows = {admin_rental_entry (joined_row waiting_db rental7 (deposit_hold_of waiting_db rental7))}"
    unfolding rows by (auto simp: waiting_db_def)
  have "length rows \<le> 1" using distinct row distinct_card [of rows] by (simp add: distinct_map)
  then have "take 20 rows = rows" by simp
  then show ?thesis using page row by (simp add: joined_row_def rental7_def)
qed

lemma ledger_pages_witness:
  "\<exists>x. ListUserLedger 2 3 20 waiting_db = Inr (x, waiting_db) \<and> ulp_Entries x = []"
  using ledger_pages [of 3 20 2 waiting_db] by (simp add: is_i64_def user_ledger_def waiting_db_def newest_first_def)

lemma refund_flag_witness:
  "eligible_wallet_refund (joined_row wallet_expired_db (hd (rentals wallet_expired_db)) (deposit_hold_of wallet_expired_db (hd (rentals wallet_expired_db))))"
proof -
  let ?r = "hd (rentals wallet_expired_db)"
  obtain res t where run: "RefundWalletPayment 1 ''ADMIN'' 7 ''ACCOUNT_INVALID '' (5 * Hour) wallet_expired_db = (Inr res, t)" "wrr_Changed res"
    by (rule refunded_expired)
  have rows: "?r \<in> set (rentals wallet_expired_db)" "\<forall>p\<in>set (payments wallet_expired_db). 0 < p_id p"
    "\<forall>f\<in>set (refunds wallet_expired_db). f_rental f = r_id ?r \<longrightarrow> f_user f = r_user ?r \<and> f_key f = refund_key (r_id ?r)" and id: "r_id ?r = 7"
    by code_simp+
  from refund_flag [OF wallet_expired_db_valid rows] run show ?thesis unfolding id by blast
qed

end
