(* ===== verification/Http_Base.thy ===== *)
theory Http_Base
  imports Payment_Reads Sessions System
begin

text \<open>
  What the HTTP handlers share: the texts of errors (the \<open>errors.New\<close> of every package), the replies
  (src/internal/shared/response/response.go), the requests with their path values, query, headers and decoded bodies
  (src/internal/pkg/transport/http/request/decode.go) and the parameters that the handlers parse
  (src/internal/api/handler_helpers.go and handler_admin_accounts.go). The rendering of a reply as JSON is left out: a reply carries
  its status, its headers and the value that is rendered.
\<close>

section \<open>The texts of errors\<close>

text \<open>
  \<open>err.Error()\<close>: the text of a package-level error, prefixed by those of the calls that wrap it. The
  texts of the database driver are a parameter.
\<close>

fun payment_error_text :: "payment_error \<Rightarrow> string" where
  "payment_error_text ErrPaymentNotFound = ''payment not found''"
| "payment_error_text ErrWebhookMissingIdentifier = ''missing payment_id or external_transaction_id in request''"
| "payment_error_text ErrWebhookMissingExternalTxID = ''external_transaction_id is required for successful payment webhook''"
| "payment_error_text ErrWebhookNotSuccessful = ''webhook status is not successful''"
| "payment_error_text ErrWebhookInvalidTransition = ''payment, rental or account is not in an activatable state''"
| "payment_error_text ErrWebhookExternalTxMismatch = ''external_transaction_id does not match the stored payment''"
| "payment_error_text ErrWebhookInvalidPayload = ''invalid webhook payload''"
| "payment_error_text ErrWebhookIdentifierMismatch = ''webhook identifiers do not match the stored payment''"
| "payment_error_text ErrWebhookFinancialMismatch = ''webhook financial facts do not match the stored payment''"
| "payment_error_text ErrWebhookProviderUnsupported = ''webhook provider is not supported''"
| "payment_error_text ErrInvalidWebhookSecret = ''PAYMENT_WEBHOOK_SECRET must be an explicit non-placeholder value of at least 32 bytes without surrounding whitespace''"
| "payment_error_text ErrPaymentAlreadyProcessed = ''payment already processed''"
| "payment_error_text ErrRentalNotEligible = ''rental is not eligible for activation''"
| "payment_error_text ErrAccountNotReserved = ''account is not reserved''"
| "payment_error_text ErrFinancialUserNotFound = ''financial user not found''"
| "payment_error_text ErrWalletPaymentNotFound = ''wallet payment rental not found''"
| "payment_error_text ErrWalletPaymentNotAllowed = ''wallet payment is not allowed''"
| "payment_error_text ErrWalletPaymentExpired = ''wallet payment has expired''"
| "payment_error_text ErrWalletInsufficientBalance = ''insufficient wallet balance''"
| "payment_error_text ErrWalletRefundNotFound = ''wallet refund rental not found''"
| "payment_error_text ErrWalletRefundNotAllowed = ''wallet refund is not allowed''"
| "payment_error_text ErrDepositHoldNotFound = ''deposit hold not found''"
| "payment_error_text ErrDepositSettlementNotAllowed = ''deposit settlement is not allowed''"
| "payment_error_text ErrDepositAlreadySettled = ''deposit is already settled''"
| "payment_error_text ErrDepositReviewDeadlinePassed = ''deposit review deadline has passed''"
| "payment_error_text ErrInvalidEvidenceReference = ''invalid evidence_reference''"
| "payment_error_text ErrInvalidFinalizationLimit = ''invalid finalization batch limit''"
| "payment_error_text ErrLedgerIdempotencyConflict = ''financial ledger idempotency conflict''"
| "payment_error_text ErrAdminRequired = ''admin role is required''"
| "payment_error_text ErrInvalidReasonCode = ''invalid reason_code''"
| "payment_error_text ErrInvalidLedgerPagination = ''invalid ledger pagination''"
| "payment_error_text ErrInvalidRefundPagination = ''invalid refund pagination''"
| "payment_error_text ErrInvalidAdminRentalFilters = ''invalid admin rental filters''"
| "payment_error_text ErrAdminRentalNotFound = ''admin rental not found''"
| "payment_error_text ErrCustomerRentalNotFound = ''customer rental not found''"
| "payment_error_text ErrCustomerPaymentUnavailable = ''customer payment unavailable''"

fun adjustment_error_text :: "adjustment_error \<Rightarrow> string" where
  "adjustment_error_text ErrBalanceAdjustmentNotFound = ''balance adjustment not found''"
| "adjustment_error_text ErrBalanceAdjustmentAmountRequired = ''balance adjustment amount must be non-zero''"
| "adjustment_error_text ErrBalanceAdjustmentWouldBeNegative = ''balance adjustment would make balance negative''"
| "adjustment_error_text ErrBalanceAdjustmentOverflow = ''balance adjustment would overflow''"
| "adjustment_error_text ErrBalanceAdjustmentCurrencyUnsupported = ''balance adjustment currency must be USD''"
| "adjustment_error_text ErrBalanceAdjustmentReasonRequired = ''balance adjustment reason_code is invalid''"
| "adjustment_error_text ErrBalanceAdjustmentCommentTooLong = ''balance adjustment comment must be at most 500 characters''"
| "adjustment_error_text ErrBalanceAdjustmentIdempotencyRequired = ''balance adjustment idempotency_key is invalid''"
| "adjustment_error_text ErrBalanceAdjustmentIdempotencyConflict = ''balance adjustment idempotency key was already used for a different request''"

fun rental_error_text :: "rental_error \<Rightarrow> string" where
  "rental_error_text ErrInvalidPeriod = ''rental period end time must be after start time''"
| "rental_error_text ErrPeriodTooShort = ''rental period must be at least 1 hour''"
| "rental_error_text ErrPeriodTooLong = ''rental period cannot exceed 30 days''"
| "rental_error_text ErrInvalidUserID = ''invalid user ID''"
| "rental_error_text ErrInvalidAccountID = ''invalid account ID''"
| "rental_error_text ErrInvalidPrice = ''rental price must be positive''"
| "rental_error_text ErrInvalidDeposit = ''deposit amount must be non-negative''"
| "rental_error_text ErrInvalidTransition = ''invalid rental state transition''"
| "rental_error_text ErrUnsupportedCurrency = ''unsupported currency''"
| "rental_error_text ErrCannotCancel = ''cannot cancel rental in current state''"
| "rental_error_text ErrAccountNotAvailable = ''account is not available for rent''"
| "rental_error_text ErrInsufficientBalance = ''insufficient balance''"
| "rental_error_text ErrUserBlocked = ''user is blocked''"
| "rental_error_text ErrCredentialsNotAvailable = ''rental credentials are not available''"
| "rental_error_text ErrInvalidRentalPricing = ''invalid rental pricing''"
| "rental_error_text ErrRentalPriceOverflow = ''rental price exceeds supported range''"
| "rental_error_text ErrRentalAccessDenied = ''rental access denied''"
| "rental_error_text ErrCustomerQueriesUnavailable = ''customer rental queries are not configured''"
| "rental_error_text ErrRentalNotFound = ''rental not found''"

fun account_error_text :: "account_error \<Rightarrow> string" where
  "account_error_text Account_ErrInvalidSteamID = ''steam ID must be a non-empty numeric string''"
| "account_error_text Account_ErrInvalidHourlyPrice = ''hourly price must be positive''"
| "account_error_text Account_ErrInvalidDeposit = ''deposit amount must be non-negative''"
| "account_error_text Account_ErrCannotPublish = ''cannot publish account: security check or synchronization requirements not met''"
| "account_error_text Account_ErrInvalidState = ''invalid status transition''"
| "account_error_text Account_ErrEmptyLogin = ''login cannot be empty''"
| "account_error_text Account_ErrEmptyPassword = ''password cannot be empty''"
| "account_error_text Account_ErrUnsupportedCurrency = ''unsupported currency''"
| "account_error_text Account_ErrAccountNotFound = ''account not found''"
| "account_error_text Account_ErrAdminAuthorization = ''current administrator authorization is required''"
| "account_error_text Account_ErrPricingOutOfRange = ''account pricing exceeds the supported range''"
| "account_error_text ErrAccountLifecycleConflict = ''account has an exclusive lifecycle state or rental''"

fun user_error_text :: "user_error \<Rightarrow> string" where
  "user_error_text User_ErrInvalidTrustScore = ''trust score must be between 0 and 1000''"
| "user_error_text User_ErrInvalidEmail = ''invalid email address''"
| "user_error_text User_ErrUserNotFound = ''user not found''"
| "user_error_text User_ErrAdminAuthorization = ''current administrator authorization is required''"
| "user_error_text User_ErrAdminSelfUpdateForbidden = ''administrators cannot change their own administrative user state''"

fun auth_error_text :: "auth_error \<Rightarrow> string" where
  "auth_error_text Auth_ErrInvalidEmail = ''invalid email address''"
| "auth_error_text Auth_ErrPasswordTooShort = ''password must be at least 8 characters long''"
| "auth_error_text Auth_ErrUserBlocked = ''user is blocked''"
| "auth_error_text Auth_ErrEmailNotVerified = ''email is not verified''"
| "auth_error_text Auth_ErrInvalidRefreshToken = ''invalid refresh token''"
| "auth_error_text Auth_ErrTokenExpired = ''refresh token is expired''"
| "auth_error_text Auth_ErrTokenAlreadyRevoked = ''refresh token is already revoked''"
| "auth_error_text Auth_ErrUserNotFound = ''user not found''"
| "auth_error_text Auth_ErrRefreshTokenNotFound = ''refresh token not found''"
| "auth_error_text ErrCurrentUserForbidden = ''current user is not allowed''"
| "auth_error_text ErrCurrentAdminRequired = ''current admin authorization is required''"
| "auth_error_text ErrTransactionRequired = ''current admin mutation authorization requires a transaction''"

fun err_Error :: "(err \<Rightarrow> string) \<Rightarrow> err \<Rightarrow> string" where
  "err_Error driver (PaymentErr e) = payment_error_text e"
| "err_Error driver (AdjustmentErr e) = adjustment_error_text e"
| "err_Error driver (RentalErr e) = rental_error_text e"
| "err_Error driver (AccountErr e) = account_error_text e"
| "err_Error driver (UserErr e) = user_error_text e"
| "err_Error driver (AuthErr e) = auth_error_text e"
| "err_Error driver (ErrText m) = m"
| "err_Error driver (adminRentalFilterError m) = m"
| "err_Error driver (Wrapf m e) = m @ '': '' @ err_Error driver e"
| "err_Error driver e = driver e"

section \<open>Replies\<close>

datatype dto =
    DStr string
  | DInt int
  | DBool bool
  | DTime time
  | DNull
  | DObj "(string \<times> dto) list"
  | DList "dto list"

abbreviation (input) DOpt :: "('a \<Rightarrow> dto) \<Rightarrow> 'a option \<Rightarrow> dto" where
  "DOpt f v \<equiv> case_option DNull f v"

text \<open>The body says \<open>success: true\<close> with the data, or \<open>success: false\<close> with the code and the message.\<close>

datatype reply_body = Data dto | Failure string string

record reply =
  rep_Status :: int
  rep_Headers :: "(string \<times> string) list"
  rep_Body :: reply_body

definition reply_JSON :: "int \<Rightarrow> dto \<Rightarrow> reply" where
  "reply_JSON statusCode data =
     \<lparr>rep_Status = statusCode, rep_Headers = [(''Content-Type'', ''application/json'')], rep_Body = Data data\<rparr>"

definition reply_Error :: "int \<Rightarrow> string \<Rightarrow> string \<Rightarrow> reply" where
  "reply_Error statusCode code message =
     \<lparr>rep_Status = statusCode, rep_Headers = [(''Content-Type'', ''application/json'')], rep_Body = Failure code message\<rparr>"

section \<open>Requests\<close>

text \<open>The values of the path's wildcards, of the query and of the headers, by name; a missing one is empty.\<close>

record http_request =
  hr_PathValues :: "(string \<times> string) list"
  hr_QueryValues :: "(string \<times> string) list"
  hr_Headers :: "(string \<times> string) list"
  hr_RemoteAddr :: string

definition value_of :: "(string \<times> string) list \<Rightarrow> string \<Rightarrow> string" where
  "value_of kvs k = (case map_of kvs k of None \<Rightarrow> [] | Some v \<Rightarrow> v)"

definition PathValue :: "http_request \<Rightarrow> string \<Rightarrow> string" where "PathValue r = value_of (hr_PathValues r)"
definition QueryValue :: "http_request \<Rightarrow> string \<Rightarrow> string" where "QueryValue r = value_of (hr_QueryValues r)"
definition HeaderValue :: "http_request \<Rightarrow> string \<Rightarrow> string" where "HeaderValue r = value_of (hr_Headers r)"

text \<open>
  What \<open>json.Decoder\<close> makes of a body: the decoder's complaint, or the fields of the request with whether more data follows.
\<close>

datatype 'r request_body = Undecodable string | Decoded 'r bool

text \<open>\<open>validate\<close> is the method \<open>Validate\<close> of the request, which may rewrite it.\<close>

definition DecodeAndValidateRequest :: "('r \<Rightarrow> string + 'r) \<Rightarrow> 'r request_body \<Rightarrow> string + 'r" where
  "DecodeAndValidateRequest validate body =
     (case body of
        Undecodable m \<Rightarrow> Inl (''decode json: '' @ m @ '': invalid argument'')
      | Decoded req trailing \<Rightarrow>
          (case validate req of
             Inl m \<Rightarrow> Inl (''request validation: '' @ m @ '': invalid argument'')
           | Inr req \<Rightarrow> Inr req))"

text \<open>A decoder with \<open>DisallowUnknownFields\<close> that must have read the whole body.\<close>

definition decode_strictly :: "string \<Rightarrow> 'r request_body \<Rightarrow> reply + 'r" where
  "decode_strictly message body =
     (case body of Decoded req False \<Rightarrow> Inr req | _ \<Rightarrow> Inl (reply_Error 422 ''VALIDATION_ERROR'' message))"

definition pathID :: "http_request \<Rightarrow> string \<Rightarrow> reply + int" where
  "pathID r name =
     (case parse_int (PathValue r name) of
        Some i \<Rightarrow> if 0 < i then Inr i else Inl (reply_Error 400 ''INVALID_REQUEST'' ''Invalid ID'')
      | None \<Rightarrow> Inl (reply_Error 400 ''INVALID_REQUEST'' ''Invalid ID''))"

text \<open>A positive number of the query, with the value where it is missing and the message where it is not one.\<close>

definition positive_param :: "http_request \<Rightarrow> string \<Rightarrow> int \<Rightarrow> string \<Rightarrow> reply + int" where
  "positive_param r name missing message =
     (let raw = trim_space (QueryValue r name)
      in if raw = [] then Inr missing
         else case parse_int raw of
                Some i \<Rightarrow> if 0 < i then Inr i else Inl (reply_Error 422 ''VALIDATION_ERROR'' message)
              | None \<Rightarrow> Inl (reply_Error 422 ''VALIDATION_ERROR'' message))"

definition ledgerPaginationParams :: "http_request \<Rightarrow> reply + (int \<times> int)" where
  "ledgerPaginationParams r =
     (case positive_param r ''page'' 1 ''page must be a positive integer'' of
        Inl e \<Rightarrow> Inl e
      | Inr page \<Rightarrow>
          (case positive_param r ''page_size'' 20 ''page_size must be a positive integer'' of
             Inl e \<Rightarrow> Inl e
           | Inr pageSize \<Rightarrow> Inr (page, pageSize)))"

definition adminPaginationParams :: "http_request \<Rightarrow> reply + (int \<times> int)" where
  "adminPaginationParams r =
     (case ledgerPaginationParams r of
        Inl e \<Rightarrow> Inl e
      | Inr (page, pageSize) \<Rightarrow>
          if 100 < pageSize then Inl (reply_Error 422 ''VALIDATION_ERROR'' ''page_size must be <= 100'') else Inr (page, pageSize))"

text \<open>\<open>strconv.ParseBool\<close>\<close>

definition parse_bool :: "string \<Rightarrow> bool option" where
  "parse_bool v =
     (if v \<in> set [''1'', ''t'', ''T'', ''true'', ''TRUE'', ''True''] then Some True
      else if v \<in> set [''0'', ''f'', ''F'', ''false'', ''FALSE'', ''False''] then Some False else None)"

definition adminRentalListFilters :: "http_request \<Rightarrow> reply + AdminRentalListFilter" where
  "adminRentalListFilters r =
     (case adminPaginationParams r of
        Inl e \<Rightarrow> Inl e
      | Inr (page, pageSize) \<Rightarrow>
          (let raw = trim_space (QueryValue r ''eligible_wallet_refund'')
           in if raw \<noteq> [] \<and> parse_bool raw = None
              then Inl (reply_Error 422 ''VALIDATION_ERROR'' ''eligible_wallet_refund must be true or false'')
              else case positive_param r ''user_id'' 0 ''user_id must be a positive integer'' of
                     Inl e \<Rightarrow> Inl e
                   | Inr userID \<Rightarrow>
                       (case positive_param r ''rental_id'' 0 ''rental_id must be a positive integer'' of
                          Inl e \<Rightarrow> Inl e
                        | Inr rentalID \<Rightarrow> Inr
                            \<lparr>arf_RentalStatus = trim_space (QueryValue r ''rental_status''), arf_PaymentStatus = trim_space (QueryValue r ''payment_status''),
                             arf_PaymentProvider = trim_space (QueryValue r ''payment_provider''),
                             arf_DepositStatus = trim_space (QueryValue r ''deposit_status''), arf_RefundStatus = trim_space (QueryValue r ''refund_status''),
                             arf_EligibleWalletRefund = parse_bool raw, arf_UserID = userID, arf_RentalID = rentalID,
                             arf_Page = page, arf_PageSize = pageSize\<rparr>)))"

text \<open>\<open>net.SplitHostPort\<close>, of which only the host is used; it is empty where the address is malformed.\<close>

definition last_index :: "char \<Rightarrow> string \<Rightarrow> nat option" where
  "last_index c s = (case filter (\<lambda>i. s ! i = c) [0..<length s] of [] \<Rightarrow> None | is \<Rightarrow> Some (last is))"

definition first_index :: "char \<Rightarrow> string \<Rightarrow> nat option" where
  "first_index c s = (case filter (\<lambda>i. s ! i = c) [0..<length s] of [] \<Rightarrow> None | i # _ \<Rightarrow> Some i)"

definition split_host :: "string \<Rightarrow> string" where
  "split_host hostport =
     (case last_index (CHR '':'') hostport of
        None \<Rightarrow> []
      | Some i \<Rightarrow>
          if hd hostport = CHR ''[''
          then (case first_index (CHR '']'') hostport of
                  None \<Rightarrow> []
                | Some e \<Rightarrow>
                    if e + 1 = i \<and> CHR ''['' \<notin> set (drop 1 hostport) \<and> CHR '']'' \<notin> set (drop (e + 1) hostport)
                    then take (e - 1) (drop 1 hostport) else [])
          else let host = take i hostport
               in if CHR '':'' \<in> set host \<or> CHR ''['' \<in> set hostport \<or> CHR '']'' \<in> set hostport then [] else host)"

definition clientIPFromRequest :: "http_request \<Rightarrow> string" where
  "clientIPFromRequest r =
     (if HeaderValue r ''X-Forwarded-For'' \<noteq> [] then trim_space (takeWhile (\<lambda>c. c \<noteq> CHR '','') (HeaderValue r ''X-Forwarded-For''))
      else if HeaderValue r ''X-Real-IP'' \<noteq> [] then trim_space (HeaderValue r ''X-Real-IP'')
      else trim_space (split_host (hr_RemoteAddr r)))"

end
