(* ===== verification/Http_Handlers.thy ===== *)
theory Http_Handlers
  imports Http_Base
begin

text \<open>
  The handlers of customers (src/internal/api/handler_rental.go), of the accounts and rentals of the back office
  (handler_admin_accounts.go), and of sign-in, profile and the public catalogue of accounts (handler.go of src/internal/auth,
  src/internal/user and src/internal/account).
\<close>

section \<open>Renderings\<close>

definition money :: "int \<Rightarrow> dto" where
  "money amount = DObj [(''amount'', DInt amount), (''currency'', DStr ''USD'')]"

definition publicDepositStatus :: "int \<Rightarrow> int \<Rightarrow> string" where
  "publicDepositStatus depositAmount holdStatus =
     (if depositAmount \<le> 0 then ''NONE''
      else if holdStatus = 0 then ''NONE''
      else if holdStatus = 1 then ''HELD''
      else if holdStatus = 2 then ''RELEASED''
      else if holdStatus = 3 then ''FORFEITED''
      else if holdStatus = 4 then ''REFUNDED''
      else ''UNKNOWN'')"

definition Api_publicRefundStatus :: "int \<Rightarrow> string" where
  "Api_publicRefundStatus statusCode =
     (if statusCode = 1 then ''REQUESTED'' else if statusCode = 2 then ''COMPLETED'' else if statusCode = 3 then ''FAILED'' else ''UNKNOWN'')"

record publicRentalRefundSummary =
  prs_HasRefund :: bool
  prs_Status :: string
  prs_TotalAmount :: int
  prs_ProcessedAt :: "time option"

definition publicRefundSummary :: "int \<Rightarrow> int \<Rightarrow> time option \<Rightarrow> publicRentalRefundSummary option" where
  "publicRefundSummary statusCode amount processedAt =
     (if statusCode = 0 then None
      else Some \<lparr>prs_HasRefund = True, prs_Status = Api_publicRefundStatus statusCode, prs_TotalAmount = amount, prs_ProcessedAt = processedAt\<rparr>)"

definition rentalMap ::
  "int \<Rightarrow> int \<Rightarrow> int \<Rightarrow> int \<Rightarrow> time \<Rightarrow> time \<Rightarrow> time \<Rightarrow> int \<Rightarrow> int \<Rightarrow> string \<Rightarrow> publicRentalRefundSummary option \<Rightarrow> (string \<times> dto) list" where
  "rentalMap ident userID accountID status start end' paymentExpiresAt price deposit depositStatus refundSummary =
     [(''id'', DInt ident), (''user_id'', DInt userID), (''account_id'', DInt accountID), (''status'', DInt status), (''started_at'', DTime start),
      (''expires_at'', DTime end'), (''payment_expires_at'', DTime paymentExpiresAt), (''rental_price'', money price),
      (''security_deposit'', money deposit), (''deposit_status'', DStr depositStatus), (''total_price'', money (i64 (price + deposit)))] @
     (case refundSummary of
        None \<Rightarrow> [(''has_refund'', DBool False), (''refund_status'', DStr ''NONE''), (''refund_total_amount'', money 0)]
      | Some f \<Rightarrow> [(''has_refund'', DBool (prs_HasRefund f)), (''refund_status'', DStr (prs_Status f)),
          (''refund_total_amount'', money (prs_TotalAmount f))] @
          (case prs_ProcessedAt f of None \<Rightarrow> [] | Some t \<Rightarrow> [(''processed_at'', DTime t)]))"

definition rentalDTO :: "Rental \<Rightarrow> dto" where
  "rentalDTO rent = DObj (rentalMap (ID rent) (UserID rent) (AccountID rent) (Status rent) (StartAt (Period rent)) (EndAt (Period rent))
     (CreatedAt rent + 15 * Minute) (Amount (RentalPrice rent)) (Amount (DepositAmount rent))
     (publicDepositStatus (Amount (DepositAmount rent)) 0) None)"

definition customer_rental_dto :: "CustomerRental \<Rightarrow> dto" where
  "customer_rental_dto item = DObj (rentalMap (cr_ID item) (cr_UserID item) (cr_AccountID item) (cr_Status item) (cr_StartAt item) (cr_EndAt item)
     (cr_PaymentExpiresAt item) (cr_RentalPrice item) (cr_DepositAmount item) (publicDepositStatus (cr_DepositAmount item) (cr_DepositHoldStatus item))
     (publicRefundSummary (cr_RefundStatus item) (cr_RefundTotalAmount item) (cr_RefundProcessedAt item)))"

text \<open>The number of pages, as the handlers compute it, and the description of a page.\<close>

definition total_pages :: "int \<Rightarrow> int \<Rightarrow> int" where
  "total_pages totalItems pageSize =
     (if totalItems = 0 then 0
      else quot totalItems pageSize + (if totalItems - quot totalItems pageSize * pageSize \<noteq> 0 then 1 else 0))"

definition pagination_dto :: "int \<Rightarrow> int \<Rightarrow> int \<Rightarrow> dto" where
  "pagination_dto page pageSize totalItems =
     DObj [(''page'', DInt page), (''page_size'', DInt pageSize), (''total_items'', DInt totalItems), (''total_pages'', DInt (total_pages totalItems pageSize))]"

section \<open>The handlers of a customer\<close>

text \<open>
  A handler gets the session that the middleware has established, the request and its decoded body, the random number or the time
  where it takes one, and the database; it answers with a reply and the database after it.
\<close>

record createRentalRequest =
  crr_AccountID :: int
  crr_DurationHours :: int

definition createRentalRequest_Validate :: "createRentalRequest \<Rightarrow> string + createRentalRequest" where
  "createRentalRequest_Validate r =
     (if crr_AccountID r \<le> 0 then Inl ''account_id is required''
      else if crr_DurationHours r < 1 \<or> 720 < crr_DurationHours r then Inl ''duration_hours must be between 1 and 720''
      else Inr r)"

definition Api_CreateRental ::
  "(err \<Rightarrow> string) \<Rightarrow> session \<Rightarrow> createRentalRequest request_body \<Rightarrow> int \<Rightarrow> time \<Rightarrow> db \<Rightarrow> reply \<times> db" where
  "Api_CreateRental driver se body rentalID now s =
     (case DecodeAndValidateRequest createRentalRequest_Validate body of
        Inl m \<Rightarrow> (reply_Error 422 ''VALIDATION_ERROR'' m, s)
      | Inr req \<Rightarrow>
          (case RentAccount rentalID (se_UserID se) (crr_AccountID req) (i64 (crr_DurationHours req * Hour)) now s of
             (Inl e, t) \<Rightarrow> (reply_Error 409 ''RENTAL_FAILED'' (err_Error driver e), t)
           | (Inr rent, t) \<Rightarrow> (reply_JSON 201 (rentalDTO rent), t)))"

definition Api_ListMyRentals :: "(err \<Rightarrow> string) \<Rightarrow> session \<Rightarrow> db \<Rightarrow> reply" where
  "Api_ListMyRentals driver se s =
     (case ListCustomerRentals (se_UserID se) s of
        Inl e \<Rightarrow> reply_Error 500 ''INTERNAL_ERROR'' (err_Error driver e)
      | Inr (items, _) \<Rightarrow> reply_JSON 200 (DObj [(''rentals'', DList (map customer_rental_dto items))]))"

definition Api_GetRental :: "session \<Rightarrow> http_request \<Rightarrow> db \<Rightarrow> reply" where
  "Api_GetRental se r s =
     (case pathID r ''rentalId'' of
        Inl e \<Rightarrow> e
      | Inr i \<Rightarrow>
          (case GetCustomerRental (se_UserID se) i s of
             Inl e \<Rightarrow> if errors_is e (RentalErr ErrRentalAccessDenied) then reply_Error 403 ''FORBIDDEN'' ''You can access only your rentals''
                else reply_Error 404 ''NOT_FOUND'' ''Rental not found''
           | Inr (rent, _) \<Rightarrow> reply_JSON 200 (customer_rental_dto rent)))"

definition Api_GetMyBalance :: "session \<Rightarrow> db \<Rightarrow> reply" where
  "Api_GetMyBalance se s =
     (case GetUserBalance (se_UserID se) s of
        Inl e \<Rightarrow> if errors_is e (PaymentErr ErrFinancialUserNotFound) then reply_Error 404 ''NOT_FOUND'' ''Balance not found''
           else reply_Error 500 ''INTERNAL_ERROR'' ''Failed to load balance''
      | Inr (balance, _) \<Rightarrow>
          reply_JSON 200 (DObj [(''available_balance'', DInt (ub_AvailableBalance balance)), (''currency'', DStr (ub_Currency balance))]))"

definition ledger_entry_dto :: "PublicLedgerEntry \<Rightarrow> dto" where
  "ledger_entry_dto entry = DObj
     ([(''id'', DInt (ple_ID entry)), (''entry_type'', DInt (ple_EntryType entry)), (''amount'', DInt (ple_Amount entry)),
       (''currency'', DStr (ple_Currency entry)), (''created_at'', DTime (ple_CreatedAt entry)), (''display_type'', DStr (ple_DisplayType entry))] @
      (case ple_RentalID entry of None \<Rightarrow> [] | Some i \<Rightarrow> [(''rental_id'', DInt i)]) @
      (case ple_PaymentID entry of None \<Rightarrow> [] | Some i \<Rightarrow> [(''payment_id'', DInt i)]))"

definition Api_ListMyLedger :: "session \<Rightarrow> http_request \<Rightarrow> db \<Rightarrow> reply" where
  "Api_ListMyLedger se r s =
     (case ledgerPaginationParams r of
        Inl e \<Rightarrow> e
      | Inr (page, pageSize) \<Rightarrow>
          (case ListUserLedger (se_UserID se) page pageSize s of
             Inl e \<Rightarrow> if errors_is e (PaymentErr ErrInvalidLedgerPagination)
                then reply_Error 422 ''VALIDATION_ERROR'' ''page and page_size must be positive; page_size must be <= 100''
                else reply_Error 500 ''INTERNAL_ERROR'' ''Failed to load ledger''
           | Inr (p, _) \<Rightarrow> reply_JSON 200 (DObj [(''entries'', DList (map ledger_entry_dto (ulp_Entries p))),
               (''pagination'', pagination_dto (ulp_Page p) (ulp_PageSize p) (ulp_TotalItems p))])))"

definition refund_entry_dto :: "PublicRefundEntry \<Rightarrow> dto" where
  "refund_entry_dto entry = DObj
     ([(''id'', DInt (pre_ID entry)), (''rental_id'', DInt (pre_RentalID entry)), (''payment_id'', DInt (pre_PaymentID entry)),
       (''status'', DStr (pre_Status entry)), (''principal_amount'', DInt (pre_PrincipalAmount entry)),
       (''deposit_amount'', DInt (pre_DepositAmount entry)), (''total_amount'', DInt (pre_TotalAmount entry)), (''currency'', DStr (pre_Currency entry)),
       (''created_at'', DTime (pre_CreatedAt entry)), (''processed_at'', DOpt DTime (pre_ProcessedAt entry))] @
      (case pre_ReasonCode entry of None \<Rightarrow> [] | Some c \<Rightarrow> [(''reason_code'', DStr c)]))"

definition Api_ListMyRefunds :: "session \<Rightarrow> http_request \<Rightarrow> db \<Rightarrow> reply" where
  "Api_ListMyRefunds se r s =
     (case ledgerPaginationParams r of
        Inl e \<Rightarrow> e
      | Inr (page, pageSize) \<Rightarrow>
          (case ListUserRefunds (se_UserID se) page pageSize s of
             Inl e \<Rightarrow> if errors_is e (PaymentErr ErrInvalidRefundPagination)
                then reply_Error 422 ''VALIDATION_ERROR'' ''page and page_size must be positive; page_size must be <= 100''
                else reply_Error 500 ''INTERNAL_ERROR'' ''Failed to load refunds''
           | Inr (p, _) \<Rightarrow> reply_JSON 200 (DObj [(''refunds'', DList (map refund_entry_dto (urp_Entries p))),
               (''pagination'', pagination_dto (urp_Page p) (urp_PageSize p) (urp_TotalItems p))])))"

definition Api_GetMyRentalCredentials :: "env \<Rightarrow> session \<Rightarrow> http_request \<Rightarrow> time \<Rightarrow> db \<Rightarrow> reply \<times> db" where
  "Api_GetMyRentalCredentials env se r now s =
     (case pathID r ''rentalId'' of
        Inl e \<Rightarrow> (e, s)
      | Inr rentalID \<Rightarrow>
          (case GetRentalCredentials (env_inet env) (env_decrypt env) (se_UserID se) rentalID (clientIPFromRequest r) (HeaderValue r ''User-Agent'') now s of
             (Inl e, t) \<Rightarrow>
               (if errors_is e (RentalErr ErrCredentialsNotAvailable) then reply_Error 404 ''NOT_FOUND'' ''Rental not found''
                else reply_Error 500 ''INTERNAL_ERROR'' ''Failed to load rental credentials'', t)
           | (Inr creds, t) \<Rightarrow>
               (let ok = reply_JSON 200 (DObj [(''login'', DStr (rc_Login creds)), (''password'', DStr (rc_Password creds))])
                in (ok\<lparr>rep_Headers := [(''Cache-Control'', ''no-store, no-cache, must-revalidate, max-age=0''), (''Pragma'', ''no-cache''),
                      (''Expires'', ''0'')] @ rep_Headers ok\<rparr>, t))))"

definition Api_PayRentalWithBalance :: "env \<Rightarrow> session \<Rightarrow> http_request \<Rightarrow> time \<Rightarrow> db \<Rightarrow> reply \<times> db" where
  "Api_PayRentalWithBalance env se r now s =
     (case pathID r ''rentalId'' of
        Inl e \<Rightarrow> (e, s)
      | Inr rentalID \<Rightarrow>
          (case PayRentalWithBalance (env_inet env) (se_UserID se) rentalID (clientIPFromRequest r) (HeaderValue r ''User-Agent'') now s of
             (Inl e, t) \<Rightarrow>
               (if errors_is e (PaymentErr ErrWalletPaymentNotFound) then reply_Error 404 ''NOT_FOUND'' ''Rental not found''
                else if errors_is e (PaymentErr ErrWalletInsufficientBalance) then reply_Error 409 ''PAYMENT_FAILED'' ''Insufficient balance''
                else if errors_is e (PaymentErr ErrWalletPaymentExpired) \<or> errors_is e (PaymentErr ErrWalletPaymentNotAllowed)
                  then reply_Error 409 ''PAYMENT_FAILED'' ''Rental cannot be paid with balance''
                else reply_Error 500 ''INTERNAL_ERROR'' ''Failed to pay rental with balance'', t)
           | (Inr res, t) \<Rightarrow>
               (reply_JSON 200 (DObj [(''changed'', DBool (wpr_Changed res)), (''idempotent'', DBool (wpr_Idempotent res)),
                  (''payment_id'', DInt (wpr_PaymentID res)), (''rental_id'', DInt (wpr_RentalID res)), (''account_id'', DInt (wpr_AccountID res)),
                  (''payment_status'', DInt (wpr_PaymentStatus res)), (''rental_status'', DInt (wpr_RentalStatus res)),
                  (''account_status'', DInt (wpr_AccountStatus res)), (''payment_provider'', DStr (wpr_PaymentProvider res))]), t)))"

definition Api_CancelRental :: "session \<Rightarrow> http_request \<Rightarrow> time \<Rightarrow> db \<Rightarrow> reply \<times> db" where
  "Api_CancelRental se r now s =
     (case pathID r ''rentalId'' of
        Inl e \<Rightarrow> (e, s)
      | Inr i \<Rightarrow>
          (case CancelRental (se_UserID se) i ''cancelled by user'' now s of
             (Inl e, t) \<Rightarrow> (reply_Error 409 ''CANCEL_FAILED'' ''Rental cannot be cancelled'', t)
           | (Inr _, t) \<Rightarrow> (reply_JSON 200 (DObj [(''message'', DStr ''Rental cancelled'')]), t)))"

definition Api_CalculateRental :: "createRentalRequest request_body \<Rightarrow> db \<Rightarrow> reply" where
  "Api_CalculateRental body s =
     (case DecodeAndValidateRequest createRentalRequest_Validate body of
        Inl m \<Rightarrow> reply_Error 422 ''VALIDATION_ERROR'' m
      | Inr req \<Rightarrow>
          (case QuoteRental (crr_AccountID req) (crr_DurationHours req) s of
             Inl e \<Rightarrow>
               if errors_is e (RentalErr ErrInvalidRentalPricing) \<or> errors_is e (RentalErr ErrRentalPriceOverflow)
               then reply_Error 422 ''VALIDATION_ERROR'' ''Configured rental price exceeds the supported range''
               else reply_Error 404 ''NOT_FOUND'' ''Account not found''
           | Inr ((quote, amount), _) \<Rightarrow>
               reply_JSON 200 (DObj [(''price_per_hour'', money (rq_HourlyPrice quote)), (''security_deposit'', money (rq_DepositAmount quote)),
                 (''duration_hours'', DInt (crr_DurationHours req)), (''total_price'', money amount)])))"

definition Api_ExtendRental :: reply where
  "Api_ExtendRental = reply_Error 501 ''EXTENSION_NOT_SUPPORTED'' ''Paid rental extension is not supported''"

text \<open>The body of \<open>CreatePayment\<close> has only the id of the rental.\<close>

definition Api_CreatePayment :: "session \<Rightarrow> int request_body \<Rightarrow> db \<Rightarrow> reply" where
  "Api_CreatePayment se body s =
     (case body of
        Decoded rentalID trailing \<Rightarrow>
          if rentalID \<le> 0 then reply_Error 422 ''VALIDATION_ERROR'' ''rental_id is required''
          else (case CreateCustomerPayment (se_UserID se) rentalID s of
                  Inl e \<Rightarrow> if errors_is e (PaymentErr ErrCustomerRentalNotFound) then reply_Error 404 ''NOT_FOUND'' ''Rental not found''
                     else reply_Error 409 ''PAYMENT_FAILED'' ''Payment record is unavailable for this rental''
                | Inr (p, _) \<Rightarrow> reply_JSON 200 (DObj [(''id'', DInt (cp_ID p)), (''rental_id'', DInt rentalID), (''amount'', DInt (cp_Amount p)),
                    (''currency'', DStr (cp_Currency p)), (''status'', DInt (cp_Status p))]))
      | Undecodable m \<Rightarrow> reply_Error 422 ''VALIDATION_ERROR'' ''rental_id is required'')"

definition Api_ListMyPayments :: "(err \<Rightarrow> string) \<Rightarrow> session \<Rightarrow> db \<Rightarrow> reply" where
  "Api_ListMyPayments driver se s =
     (case ListCustomerPayments (se_UserID se) s of
        Inl e \<Rightarrow> reply_Error 500 ''INTERNAL_ERROR'' (err_Error driver e)
      | Inr (ps, _) \<Rightarrow> reply_JSON 200 (DObj [(''payments'', DList (map (\<lambda>p. DObj [(''id'', DInt (cp_ID p)), (''rental_id'', DInt (cp_RentalID p)),
          (''amount'', DInt (cp_Amount p)), (''currency'', DStr (cp_Currency p)), (''status'', DInt (cp_Status p)),
          (''created_at'', DTime (cp_CreatedAt p))]) ps))]))"

definition Api_GetPayment :: "session \<Rightarrow> http_request \<Rightarrow> db \<Rightarrow> reply" where
  "Api_GetPayment se r s =
     (case pathID r ''paymentId'' of
        Inl e \<Rightarrow> e
      | Inr i \<Rightarrow>
          (case GetCustomerPayment (se_UserID se) i s of
             Inl e \<Rightarrow> reply_Error 404 ''NOT_FOUND'' ''Payment not found''
           | Inr (p, _) \<Rightarrow> reply_JSON 200 (DObj [(''id'', DInt i), (''rental_id'', DInt (cp_RentalID p)), (''amount'', DInt (cp_Amount p)),
               (''currency'', DStr (cp_Currency p)), (''status'', DInt (cp_Status p))])))"

definition Api_FavoriteOK :: reply where
  "Api_FavoriteOK = reply_JSON 200 (DObj [(''message'', DStr ''Favorites are accepted in local MVP but not persisted'')])"

section \<open>The handlers of an administrator\<close>

definition admin_only :: "session \<Rightarrow> reply \<times> db \<Rightarrow> db \<Rightarrow> reply \<times> db" where
  "admin_only se answer s =
     (if se_Role se \<noteq> ''ADMIN'' then (reply_Error 403 ''FORBIDDEN'' ''Admin access is required'', s) else answer)"

definition Api_AdminListAccounts :: "(string \<Rightarrow> string \<Rightarrow> bool) \<Rightarrow> db \<Rightarrow> reply" where
  "Api_AdminListAccounts ilike s =
     (case AdminService_ListAccounts ilike s of
        Inl e \<Rightarrow> reply_Error 500 ''INTERNAL_ERROR'' ''Failed to load accounts''
      | Inr (items, _) \<Rightarrow> reply_JSON 200 (DObj [(''accounts'', DList (map (\<lambda>a. DObj [(''id'', DInt (acc_ID a)),
          (''steam_id64'', DStr (sc_SteamID64 (acc_Credentials a))), (''status'', DInt (acc_Status a)),
          (''hourly_price'', DInt (am_Amount (acc_HourlyPrice a))), (''deposit_amount'', DInt (am_Amount (acc_DepositAmount a)))]) items))]))"

definition counts_dto :: "(string \<times> int) list \<Rightarrow> dto" where
  "counts_dto m = DObj (map (\<lambda>(k, c). (k, DInt c)) m)"

definition adminRentalSummaryDTO :: "AdminRentalSummary \<Rightarrow> dto" where
  "adminRentalSummaryDTO m = DObj
     [(''total_count'', DInt (ars_TotalCount m)), (''eligible_wallet_refund_count'', DInt (ars_EligibleWalletRefundCount m)),
      (''rental_status_counts'', counts_dto (ars_RentalStatusCounts m)), (''payment_status_counts'', counts_dto (ars_PaymentStatusCounts m)),
      (''refund_status_counts'', counts_dto (ars_RefundStatusCounts m))]"

definition adminRentalEntryDTO :: "AdminRentalEntry \<Rightarrow> dto" where
  "adminRentalEntryDTO item = DObj
     (rentalMap (are_ID item) (are_UserID item) (are_AccountID item) (are_Status item) (are_StartedAt item) (are_ExpiresAt item)
        (are_PaymentExpiresAt item) (are_RentalPrice item) (are_SecurityDeposit item) (are_DepositStatus item)
        (Some \<lparr>prs_HasRefund = are_HasRefund item, prs_Status = are_RefundStatus item, prs_TotalAmount = are_RefundTotal item,
           prs_ProcessedAt = are_ProcessedAt item\<rparr>) @
      (if 0 < are_PaymentID item then [(''payment_id'', DInt (are_PaymentID item))] else []) @
      [(''payment_status'', DInt (are_PaymentStatus item)), (''payment_provider'', DStr (are_PaymentProvider item))])"

definition Api_AdminListRentals :: "(err \<Rightarrow> string) \<Rightarrow> http_request \<Rightarrow> db \<Rightarrow> reply" where
  "Api_AdminListRentals driver r s =
     (case adminRentalListFilters r of
        Inl e \<Rightarrow> e
      | Inr filters \<Rightarrow>
          (case ListAdminRentals filters s of
             Inl e \<Rightarrow> if errors_is e (PaymentErr ErrInvalidAdminRentalFilters) then reply_Error 422 ''VALIDATION_ERROR'' (err_Error driver e)
                else reply_Error 500 ''INTERNAL_ERROR'' ''Failed to load admin rentals''
           | Inr (p, _) \<Rightarrow> reply_JSON 200 (DObj [(''rentals'', DList (map adminRentalEntryDTO (arp_Rentals p))),
               (''summary'', adminRentalSummaryDTO (arp_Summary p)),
               (''pagination'', pagination_dto (arp_Page p) (arp_PageSize p) (arp_TotalItems p))])))"

definition adminLedgerTotalsDTO :: "(string \<times> int) list \<Rightarrow> dto" where
  "adminLedgerTotalsDTO totals = DObj (map (\<lambda>(k, v). (k, money v)) totals)"

definition adminLedgerEntriesDTO :: "AdminRentalSafeLedgerEntry list \<Rightarrow> dto" where
  "adminLedgerEntriesDTO entries = DList (map (\<lambda>e. DObj [(''id'', DInt (sle_ID e)), (''display_type'', DStr (sle_DisplayType e)),
     (''amount'', DInt (sle_Amount e)), (''currency'', DStr (sle_Currency e)), (''created_at'', DTime (sle_CreatedAt e))]) entries)"

definition adminRentalDetailDTO :: "AdminRentalDetail \<Rightarrow> dto" where
  "adminRentalDetailDTO d =
     (let r = det_Rental d; f = det_RefundSummary d; l = det_LedgerSummary d; g = det_SupportFlags d
      in DObj
        [(''rental'', DObj [(''id'', DInt (adr_ID r)), (''user_id'', DInt (adr_UserID r)), (''account_id'', DInt (adr_AccountID r)),
           (''status'', DInt (adr_Status r)), (''start_at'', DTime (adr_StartAt r)), (''end_at'', DTime (adr_EndAt r)),
           (''rental_price'', money (adr_RentalPrice r)), (''deposit_amount'', money (adr_DepositAmount r)),
           (''payment_expires_at'', DTime (adr_PaymentExpiresAt r)), (''created_at'', DTime (adr_CreatedAt r)), (''updated_at'', DTime (adr_UpdatedAt r))]),
         (''payment'', DOpt (\<lambda>p. DObj [(''id'', DInt (adp_ID p)), (''status'', DInt (adp_Status p)), (''provider'', DStr (adp_Provider p)),
           (''amount'', DInt (adp_Amount p)), (''currency'', DStr (adp_Currency p)), (''created_at'', DTime (adp_CreatedAt p))]) (det_Payment d)),
         (''deposit'', DOpt (\<lambda>h. DObj [(''amount'', DInt (add_Amount h)), (''currency'', DStr (add_Currency h)), (''status'', DStr (add_Status h)),
           (''held_at'', DOpt DTime (add_HeldAt h)), (''released_at'', DOpt DTime (add_ReleasedAt h)),
           (''forfeited_at'', DOpt DTime (add_ForfeitedAt h)), (''refunded_at'', DOpt DTime (add_RefundedAt h))]) (det_Deposit d)),
         (''refund_summary'', DObj [(''count'', DInt (rsm_Count f)), (''latest_refund_status'', DStr (rsm_LatestStatus f)),
           (''total_refunded_principal'', money (rsm_TotalRefundedPrimary f)), (''total_refunded_deposit'', money (rsm_TotalRefundedDeposit f)),
           (''latest_processed_at'', DOpt DTime (rsm_LatestProcessedAt f))]),
         (''ledger_summary'', DObj [(''counts_by_display_type'', counts_dto (lsm_CountsByDisplayType l)),
           (''totals_by_display_type'', adminLedgerTotalsDTO (lsm_TotalsByDisplayType l)), (''latest_entries'', adminLedgerEntriesDTO (lsm_LatestEntries l))]),
         (''support_flags'', DObj [(''eligible_wallet_refund'', DBool (flag_EligibleWalletRefund g)),
           (''refund_ineligible_reason'', DStr (flag_RefundIneligibleReason g)), (''has_active_credentials_access'', DBool (flag_HasActiveCredentials g)),
           (''payment_window_expired'', DBool (flag_PaymentWindowExpired g))])])"

text \<open>An id of the path that is answered with 422 where it is not positive.\<close>

definition strict_path_id :: "http_request \<Rightarrow> string \<Rightarrow> string \<Rightarrow> reply + int" where
  "strict_path_id r name message =
     (case parse_int (PathValue r name) of
        Some i \<Rightarrow> if 0 < i then Inr i else Inl (reply_Error 422 ''VALIDATION_ERROR'' message)
      | None \<Rightarrow> Inl (reply_Error 422 ''VALIDATION_ERROR'' message))"

definition Api_AdminGetRentalDetail :: "(err \<Rightarrow> string) \<Rightarrow> http_request \<Rightarrow> time \<Rightarrow> db \<Rightarrow> reply" where
  "Api_AdminGetRentalDetail driver r now s =
     (case strict_path_id r ''rentalId'' ''rentalId must be a positive integer'' of
        Inl e \<Rightarrow> e
      | Inr rentalID \<Rightarrow>
          (case GetAdminRentalDetail rentalID now s of
             Inl e \<Rightarrow> if errors_is e (PaymentErr ErrInvalidAdminRentalFilters) then reply_Error 422 ''VALIDATION_ERROR'' (err_Error driver e)
                else if errors_is e (PaymentErr ErrAdminRentalNotFound) then reply_Error 404 ''NOT_FOUND'' ''Rental not found''
                else reply_Error 500 ''INTERNAL_ERROR'' ''Failed to load admin rental detail''
           | Inr (d, _) \<Rightarrow> reply_JSON 200 (adminRentalDetailDTO d)))"

definition Api_AdminRefundReasonCodes :: reply where
  "Api_AdminRefundReasonCodes = reply_JSON 200 (DObj [(''reason_codes'',
     DList (map (\<lambda>opt. DObj [(''code'', DStr (Code opt)), (''label'', DStr (Label opt))]) walletRefundReasonOptions))])"

definition syncSteamLibrary :: "env \<Rightarrow> int \<Rightarrow> int \<Rightarrow> db \<Rightarrow> (err + int) \<times> db" where
  "syncSteamLibrary env actorUserID accountID s =
     (case GetAccountSyncDetails accountID s of
        Inl e \<Rightarrow> (Inl (Wrapf ''failed to load Steam account details'' e), s)
      | Inr ((login, steamID64), _) \<Rightarrow>
          if steamID64 = [] then (Inl (ErrText (''account '' @ format_int accountID @ '' has empty steam_id64'')), s)
          else (case CheckVACBans (env_steam env) steamID64 of
             Inl e \<Rightarrow> (Inl (Wrapf (''failed to check VAC bans for '' @ login) e), s)
           | Inr True \<Rightarrow>
               (case DisableAccountIfIdleAsCurrentAdmin actorUserID accountID s of
                  (Inl e, t) \<Rightarrow> (Inl (Wrapf ''account is VAC banned and could not be disabled'' e), t)
                | (Inr _, t) \<Rightarrow> (Inl (ErrText ''account is VAC banned and was disabled''), t))
           | Inr False \<Rightarrow>
               (case GetOwnedGames (env_steam env) steamID64 of
                  Inl e \<Rightarrow> (Inl (Wrapf (''failed to fetch owned games for '' @ login) e), s)
                | Inr gs \<Rightarrow>
                    (case SyncAccountGamesAsCurrentAdmin (env_pg_int env) actorUserID accountID gs s of
                       (Inl e, t) \<Rightarrow> (Inl (Wrapf ''failed to persist Steam library'' e), t)
                     | (Inr _, t) \<Rightarrow> (Inr (int (length gs)), t)))))"

definition Api_AdminCreateAccount :: "(err \<Rightarrow> string) \<Rightarrow> env \<Rightarrow> session \<Rightarrow> AdminAccountInput request_body \<Rightarrow> db \<Rightarrow> reply \<times> db" where
  "Api_AdminCreateAccount driver env se body s =
     (case decode_strictly ''Invalid account creation payload'' body of
        Inl e \<Rightarrow> (e, s)
      | Inr req \<Rightarrow>
          if aai_SteamID64 req = [] \<or> aai_SteamLogin req = [] \<or> aai_SteamPassword req = [] \<or> aai_PricePerHour req \<le> 0 \<or> aai_SecurityDeposit req < 0
          then (reply_Error 422 ''VALIDATION_ERROR'' ''steam credentials, positive price_per_hour, and non-negative security_deposit are required'', s)
          else (case AdminService_CreateAccount (env_encrypt env) (se_UserID se) req s of
             (Inl e, t) \<Rightarrow>
               (if errors_is e (AccountErr Account_ErrAdminAuthorization) then reply_Error 403 ''FORBIDDEN'' ''Current administrator authorization is required''
                else if errors_is e (AccountErr Account_ErrPricingOutOfRange)
                  then reply_Error 422 ''VALIDATION_ERROR'' ''Account pricing exceeds the supported range''
                else reply_Error 409 ''CREATE_FAILED'' ''Account could not be created'', t)
           | (Inr i, t) \<Rightarrow>
               (case syncSteamLibrary env (se_UserID se) i t of
                  (Inl e, t') \<Rightarrow> (reply_JSON 201 (DObj [(''id'', DInt i), (''games_count'', DInt 0), (''sync_error'', DStr (err_Error driver e))]), t')
                | (Inr gamesCount, t') \<Rightarrow> (reply_JSON 201 (DObj [(''id'', DInt i), (''games_count'', DInt gamesCount)]), t'))))"

definition Api_AdminUpdateAccount :: "session \<Rightarrow> http_request \<Rightarrow> AdminAccountUpdate request_body \<Rightarrow> db \<Rightarrow> reply \<times> db" where
  "Api_AdminUpdateAccount se r body s =
     (case pathID r ''accountId'' of
        Inl e \<Rightarrow> (e, s)
      | Inr i \<Rightarrow>
          (case decode_strictly ''Invalid account update payload'' body of
             Inl e \<Rightarrow> (e, s)
           | Inr req \<Rightarrow>
               if (case aau_PricePerHour req of None \<Rightarrow> False | Some p \<Rightarrow> p \<le> 0)
               then (reply_Error 422 ''VALIDATION_ERROR'' ''price_per_hour must be positive'', s)
               else if (case aau_SecurityDeposit req of None \<Rightarrow> False | Some d \<Rightarrow> d < 0)
               then (reply_Error 422 ''VALIDATION_ERROR'' ''security_deposit must be non-negative'', s)
               else (case AdminService_UpdateAccount (se_UserID se) i req s of
                  (Inl e, t) \<Rightarrow>
                    (if errors_is e (AccountErr Account_ErrAdminAuthorization) then reply_Error 403 ''FORBIDDEN'' ''Current administrator authorization is required''
                     else if errors_is e (AccountErr Account_ErrAccountNotFound) then reply_Error 404 ''NOT_FOUND'' ''Account not found''
                     else if errors_is e (AccountErr Account_ErrPricingOutOfRange)
                       then reply_Error 422 ''VALIDATION_ERROR'' ''Account pricing exceeds the supported range''
                     else reply_Error 500 ''INTERNAL_ERROR'' ''Failed to update account'', t)
                | (Inr _, t) \<Rightarrow> (reply_JSON 200 (DObj [(''message'', DStr ''Account updated'')]), t))))"

definition Api_AdminSyncAccount :: "(err \<Rightarrow> string) \<Rightarrow> env \<Rightarrow> session \<Rightarrow> http_request \<Rightarrow> db \<Rightarrow> reply \<times> db" where
  "Api_AdminSyncAccount driver env se r s =
     (case pathID r ''accountId'' of
        Inl e \<Rightarrow> (e, s)
      | Inr i \<Rightarrow>
          (case syncSteamLibrary env (se_UserID se) i s of
             (Inl e, t) \<Rightarrow>
               (if errors_is e (AuthErr ErrCurrentAdminRequired) then reply_Error 403 ''FORBIDDEN'' ''Current administrator authorization is required''
                else if errors_is e (AccountErr ErrAccountLifecycleConflict)
                  then reply_Error 409 ''ACCOUNT_LIFECYCLE_CONFLICT'' ''Account cannot be disabled while a rental is waiting for payment or active''
                else reply_Error 502 ''STEAM_SYNC_FAILED'' (err_Error driver e), t)
           | (Inr gamesCount, t) \<Rightarrow>
               (reply_JSON 200 (DObj [(''message'', DStr ''Account library synced''), (''games_count'', DInt gamesCount)]), t)))"

section \<open>The handlers of sign-in and profile\<close>

definition validated :: "(err \<Rightarrow> string) \<Rightarrow> ('r \<Rightarrow> err option \<times> 'r) \<Rightarrow> 'r \<Rightarrow> string + 'r" where
  "validated driver validate r = (case validate r of (Some e, _) \<Rightarrow> Inl (err_Error driver e) | (None, r) \<Rightarrow> Inr r)"

definition auth_user_dto :: "AuthUser \<Rightarrow> dto" where
  "auth_user_dto u = DObj [(''id'', DInt (au_ID u)), (''email'', DStr (au_Email u)), (''first_name'', DStr (au_FirstName u)),
     (''last_name'', DStr (au_LastName u)), (''role'', DStr (au_Role u)), (''email_verified'', DBool (au_EmailVerified u)),
     (''is_blocked'', DBool (au_IsBlocked u))]"

definition tokens_dto :: "string \<times> string \<Rightarrow> dto" where
  "tokens_dto ts = DObj [(''access_token'', DStr (fst ts)), (''refresh_token'', DStr (snd ts))]"

definition Handler_Register :: "(err \<Rightarrow> string) \<Rightarrow> env \<Rightarrow> RegisterRequest request_body \<Rightarrow> time \<Rightarrow> db \<Rightarrow> reply \<times> db" where
  "Handler_Register driver env body now s =
     (case DecodeAndValidateRequest (validated driver (RegisterRequest_Validate (env_crypto env))) body of
        Inl m \<Rightarrow> (reply_Error 422 ''VALIDATION_ERROR'' m, s)
      | Inr req \<Rightarrow>
          (case Register (env_crypto env) (env_secret env) (env_ttl env) (rq_Email req) (rq_Password req) (rq_FirstName req) (rq_LastName req) now s of
             (Inl e, t) \<Rightarrow> (reply_Error 409 ''REGISTRATION_FAILED'' (err_Error driver e), t)
           | (Inr x, t) \<Rightarrow> (reply_JSON 201 (DObj [(''user'', auth_user_dto (fst x)), (''access_token'', DStr (fst (snd x))),
               (''refresh_token'', DStr (snd (snd x)))]), t)))"

definition Handler_Login :: "(err \<Rightarrow> string) \<Rightarrow> env \<Rightarrow> LoginRequest request_body \<Rightarrow> time \<Rightarrow> db \<Rightarrow> reply \<times> db" where
  "Handler_Login driver env body now s =
     (case DecodeAndValidateRequest (validated driver (LoginRequest_Validate (env_crypto env))) body of
        Inl m \<Rightarrow> (reply_Error 422 ''VALIDATION_ERROR'' m, s)
      | Inr req \<Rightarrow>
          (case Login (env_crypto env) (env_secret env) (env_ttl env) (lq_Email req) (lq_Password req) now s of
             (Inl e, t) \<Rightarrow> (reply_Error 401 ''UNAUTHORIZED'' ''Invalid email or password'', t)
           | (Inr ts, t) \<Rightarrow> (reply_JSON 200 (tokens_dto ts), t)))"

text \<open>The body of \<open>Refresh\<close> and of \<open>Logout\<close> has only the refresh token.\<close>

definition refresh_validate :: "(err \<Rightarrow> string) \<Rightarrow> string \<Rightarrow> string + string" where
  "refresh_validate driver = validated driver (\<lambda>r. (RefreshRequest_Validate r, r))"

definition Handler_Refresh :: "(err \<Rightarrow> string) \<Rightarrow> env \<Rightarrow> string request_body \<Rightarrow> time \<Rightarrow> db \<Rightarrow> reply \<times> db" where
  "Handler_Refresh driver env body now s =
     (case DecodeAndValidateRequest (refresh_validate driver) body of
        Inl m \<Rightarrow> (reply_Error 422 ''VALIDATION_ERROR'' m, s)
      | Inr tok \<Rightarrow>
          (case Refresh (env_crypto env) (env_secret env) (env_ttl env) tok now s of
             (Inl e, t) \<Rightarrow>
               (if errors_is e (AuthErr Auth_ErrInvalidRefreshToken) \<or> errors_is e (AuthErr Auth_ErrTokenExpired) \<or>
                   errors_is e (AuthErr Auth_ErrTokenAlreadyRevoked) \<or> errors_is e (AuthErr Auth_ErrUserBlocked) \<or>
                   errors_is e (AuthErr Auth_ErrEmailNotVerified)
                then reply_Error 401 ''UNAUTHORIZED'' (err_Error driver e)
                else reply_Error 400 ''INVALID_REQUEST'' (err_Error driver e), t)
           | (Inr ts, t) \<Rightarrow> (reply_JSON 200 (tokens_dto ts), t)))"

definition Handler_Logout :: "(err \<Rightarrow> string) \<Rightarrow> env \<Rightarrow> string request_body \<Rightarrow> time \<Rightarrow> db \<Rightarrow> reply \<times> db" where
  "Handler_Logout driver env body now s =
     (case DecodeAndValidateRequest (refresh_validate driver) body of
        Inl m \<Rightarrow> (reply_Error 422 ''VALIDATION_ERROR'' m, s)
      | Inr tok \<Rightarrow>
          (case Logout (env_crypto env) tok now s of
             (Inl e, t) \<Rightarrow> (reply_Error 400 ''INVALID_REQUEST'' (err_Error driver e), t)
           | (Inr _, t) \<Rightarrow> (reply_JSON 200 (DObj [(''message'', DStr ''Logged out successfully'')]), t)))"

definition Handler_Me :: "session \<Rightarrow> db \<Rightarrow> reply" where
  "Handler_Me se s =
     (if se_UserID se = 0 then reply_Error 401 ''UNAUTHORIZED'' ''Unauthorized''
      else case Me (se_UserID se) s of
             Inl e \<Rightarrow> reply_Error 404 ''NOT_FOUND'' ''User not found''
           | Inr (u, _) \<Rightarrow> reply_JSON 200 (auth_user_dto u))"

definition user_dto :: "User \<Rightarrow> dto" where
  "user_dto u = DObj [(''id'', DInt (usr_ID u)), (''email'', DStr (usr_Email u)), (''first_name'', DStr (usr_FirstName u)),
     (''last_name'', DStr (usr_LastName u)), (''trust_score'', DInt (usr_TrustScore u)), (''trust_level'', DStr (User_TrustLevel u)),
     (''role'', DStr (usr_Role u)), (''is_blocked'', DBool (usr_IsBlocked u)), (''created_at'', DTime (usr_CreatedAt u)),
     (''updated_at'', DTime (usr_UpdatedAt u))]"

text \<open>\<open>requesterID == 0 || (requesterID != id && !IsAdmin)\<close>\<close>

definition may_not_access :: "session \<Rightarrow> int \<Rightarrow> bool" where
  "may_not_access se i \<longleftrightarrow> se_UserID se = 0 \<or> se_UserID se \<noteq> i \<and> se_Role se \<noteq> ''ADMIN''"

definition Handler_GetProfile :: "(err \<Rightarrow> string) \<Rightarrow> session \<Rightarrow> http_request \<Rightarrow> db \<Rightarrow> reply" where
  "Handler_GetProfile driver se r s =
     (case parse_int (PathValue r ''id'') of
        None \<Rightarrow> reply_Error 400 ''INVALID_REQUEST'' ''Invalid user ID format''
      | Some i \<Rightarrow>
          if may_not_access se i then reply_Error 403 ''FORBIDDEN'' ''You can access only your own profile''
          else case GetUserByID i s of
                 Inl e \<Rightarrow> reply_Error 404 ''NOT_FOUND'' (err_Error driver e)
               | Inr (u, _) \<Rightarrow> reply_JSON 200 (user_dto u))"

record UpdateUserRequest =
  uur_FirstName :: string
  uur_LastName :: string

definition UpdateUserRequest_Validate :: "crypto \<Rightarrow> UpdateUserRequest \<Rightarrow> err option \<times> UpdateUserRequest" where
  "UpdateUserRequest_Validate c r =
     (let r = \<lparr>uur_FirstName = trim_space (uur_FirstName r), uur_LastName = trim_space (uur_LastName r)\<rparr>
      in (orelse (validateName c ''first name'' (uur_FirstName r)) (validateName c ''last name'' (uur_LastName r)), r))"

definition Handler_UpdateProfile :: "(err \<Rightarrow> string) \<Rightarrow> env \<Rightarrow> session \<Rightarrow> http_request \<Rightarrow> UpdateUserRequest request_body \<Rightarrow> time \<Rightarrow> db \<Rightarrow> reply \<times> db" where
  "Handler_UpdateProfile driver env se r body now s =
     (case parse_int (PathValue r ''id'') of
        None \<Rightarrow> (reply_Error 400 ''INVALID_REQUEST'' ''Invalid user ID format'', s)
      | Some i \<Rightarrow>
          if may_not_access se i then (reply_Error 403 ''FORBIDDEN'' ''You can update only your own profile'', s)
          else (case DecodeAndValidateRequest (validated driver (UpdateUserRequest_Validate (env_crypto env))) body of
             Inl m \<Rightarrow> (reply_Error 422 ''VALIDATION_ERROR'' m, s)
           | Inr req \<Rightarrow>
               (case WithinTransaction (User_ServiceUpdateUser i (uur_FirstName req) (uur_LastName req) now) s of
                  (Inl e, t) \<Rightarrow> (reply_Error 404 ''NOT_FOUND'' (err_Error driver e), t)
                | (Inr u, t) \<Rightarrow> (reply_JSON 200 (user_dto u), t))))"

section \<open>The public catalogue of accounts\<close>

definition account_response :: "Account \<Rightarrow> dto" where
  "account_response acc = DObj
     [(''id'', DInt (acc_ID acc)), (''steam_id64'', DStr (sc_SteamID64 (acc_Credentials acc))), (''status'', DStr (AccountStatus_String (acc_Status acc))),
      (''price_per_hour'', DObj [(''amount'', DInt (am_Amount (acc_HourlyPrice acc))), (''currency'', DStr (am_Currency (acc_HourlyPrice acc)))]),
      (''security_deposit'', DObj [(''amount'', DInt (am_Amount (acc_DepositAmount acc))), (''currency'', DStr (am_Currency (acc_DepositAmount acc)))]),
      (''games'', DList (map (\<lambda>g. DObj [(''game_id'', DInt (gm_ID (ag_Game g))), (''name'', DStr (gm_Name (ag_Game g))),
         (''steam_app_id'', DInt (gm_SteamAppID (ag_Game g))), (''playtime_minutes'', DInt (ag_PlaytimeMinutes g))]) (acc_Games acc)))]"

definition page_count :: "int \<Rightarrow> int \<Rightarrow> int" where
  "page_count items pageSize = quot items pageSize + (if items - quot items pageSize * pageSize \<noteq> 0 then 1 else 0)"

definition Handler_ListAccounts :: "(string \<Rightarrow> string \<Rightarrow> bool) \<Rightarrow> http_request \<Rightarrow> db \<Rightarrow> reply" where
  "Handler_ListAccounts ilike r s =
     (let params = ParseAndValidateQueryParams (QueryValue r)
      in case PostgresService_ListAccounts ilike params s of
           Inl e \<Rightarrow> reply_Error 500 ''INTERNAL_ERROR'' ''Failed to retrieve accounts''
         | Inr ((found, items), _) \<Rightarrow> reply_JSON 200 (DObj [(''accounts'', DList (map account_response found)),
             (''pagination'', DObj [(''page'', DInt (qp_Page params)), (''page_size'', DInt (qp_PageSize params)), (''total_items'', DInt items),
                (''total_pages'', DInt (page_count items (qp_PageSize params)))])]))"

definition Handler_GetAccount :: "http_request \<Rightarrow> db \<Rightarrow> reply" where
  "Handler_GetAccount r s =
     (case parse_int (PathValue r ''accountId'') of
        None \<Rightarrow> reply_Error 400 ''INVALID_REQUEST'' ''Invalid account ID format''
      | Some i \<Rightarrow> (case GetAccountByID i s of
          Inl e \<Rightarrow> reply_Error 404 ''NOT_FOUND'' ''Account not found''
        | Inr (acc, _) \<Rightarrow> reply_JSON 200 (account_response acc)))"

definition Handler_GetAvailability :: "http_request \<Rightarrow> db \<Rightarrow> reply" where
  "Handler_GetAvailability r s =
     (case parse_int (PathValue r ''accountId'') of
        None \<Rightarrow> reply_Error 400 ''INVALID_REQUEST'' ''Invalid account ID format''
      | Some i \<Rightarrow> (case CheckAvailability i s of
          Inl e \<Rightarrow> reply_Error 404 ''NOT_FOUND'' ''Account not found''
        | Inr (available, _) \<Rightarrow> reply_JSON 200 (DObj [(''account_id'', DInt i), (''available'', DBool available)])))"

end
