(* ===== verification/Http_Webhook.thy ===== *)
theory Http_Webhook
  imports Http_Handlers Webhook_Signature
begin

text \<open>
  The endpoint of the payment provider (src/internal/payment/handler.go): the limit of the body, the signature header, the media type
  as \<open>mime.ParseMediaType\<close> reads it, the rejection of repeated fields and the decoding of the request. The parser of JSON is a
  parameter that gives the value of a text. The handler tests once more for data after the first value, which the rejection of repeated fields
  has excluded; the second test is left out.
\<close>

section \<open>Media types\<close>

text \<open>
  \<open>mime.ParseMediaType\<close>: the media type in lower case and whether the parameters after it are well formed; of their values
  only the clash of two for one name matters here.
\<close>

definition is_token_char :: "char \<Rightarrow> bool" where
  "is_token_char c \<longleftrightarrow> 0x20 < byte c \<and> byte c < 0x7F \<and> c \<notin> set ''()<>@,;:/[]?='' \<and> c \<noteq> CHR 0x22 \<and> c \<noteq> CHR 0x5C"

definition is_tspecial :: "char \<Rightarrow> bool" where
  "is_tspecial c \<longleftrightarrow> c \<in> set ''()<>@,;:/[]?='' \<or> c = CHR 0x22 \<or> c = CHR 0x5C"

definition consumeToken :: "string \<Rightarrow> string \<times> string" where
  "consumeToken v = (takeWhile is_token_char v, dropWhile is_token_char v)"

fun quoted_rest :: "string \<Rightarrow> string \<Rightarrow> (string \<times> string) option" where
  "quoted_rest out [] = None"
| "quoted_rest out (c # v) =
     (if c = CHR 0x22 then Some (rev out, v)
      else if c = CHR 0x0D \<or> c = CHR 0x0A then None
      else case v of
             [] \<Rightarrow> None
           | d # w \<Rightarrow> if c = CHR 0x5C \<and> is_tspecial d then quoted_rest (d # out) w else quoted_rest (c # out) v)"

definition consumeValue :: "string \<Rightarrow> string \<times> string" where
  "consumeValue v =
     (case v of
        [] \<Rightarrow> ([], [])
      | c # w \<Rightarrow> if c \<noteq> CHR 0x22 then consumeToken v else (case quoted_rest [] w of Some r \<Rightarrow> r | None \<Rightarrow> ([], v)))"

definition consumeMediaParam :: "string \<Rightarrow> string \<times> string \<times> string" where
  "consumeMediaParam v =
     (case trim_left v of
        c # w \<Rightarrow>
          if c \<noteq> CHR '';'' then ([], [], v)
          else (let (param, w) = consumeToken (trim_left w) in
             if param = [] then ([], [], v)
             else case trim_left w of
                    d # w \<Rightarrow>
                      if d \<noteq> CHR ''='' then ([], [], v)
                      else (let w = trim_left w; (val, rest) = consumeValue w
                            in if val = [] \<and> rest = w then ([], [], v) else (to_lower param, val, rest))
                  | [] \<Rightarrow> ([], [], v))
      | [] \<Rightarrow> ([], [], v))"

text \<open>Every step consumes a parameter, so as many steps as bytes are enough.\<close>

fun media_params :: "nat \<Rightarrow> (string \<times> string) list \<Rightarrow> string \<Rightarrow> bool" where
  "media_params 0 seen v = (trim_left v = [])"
| "media_params (Suc n) seen v =
     (let v = trim_left v
      in if v = [] then True
         else let (key, val, rest) = consumeMediaParam v
              in if key = [] then trim_space rest = '';''
                 else if (case map_of seen key of None \<Rightarrow> False | Some w \<Rightarrow> w \<noteq> val) then False
                 else media_params n ((key, val) # seen) rest)"

definition ParseMediaType :: "string \<Rightarrow> string option" where
  "ParseMediaType v =
     (let base = takeWhile (\<lambda>c. c \<noteq> CHR '';'') v; mediatype = trim_space (to_lower base);
          (typ, rest) = consumeToken mediatype; (subtype, tail) = consumeToken (drop 1 rest)
      in if typ = [] then None
         else if rest \<noteq> [] \<and> (hd rest \<noteq> CHR ''/'' \<or> subtype = [] \<or> tail \<noteq> []) then None
         else if media_params (length v) [] (drop (length base) v) then Some mediatype else None)"

section \<open>The body of a webhook\<close>

text \<open>
  What the JSON parser finds in a text: its first value, with whether anything but white space follows it. A number is
  kept as it is written.
\<close>

datatype json_value =
    JNull
  | JBool bool
  | JNumber string
  | JString string
  | JArray "json_value list"
  | JObject "(string \<times> json_value) list"

datatype json_text = Not_JSON | JSON json_value bool

definition rejectDuplicateWebhookFields :: "json_text \<Rightarrow> bool" where
  "rejectDuplicateWebhookFields body =
     (case body of JSON (JObject kvs) False \<Rightarrow> \<not> distinct (map fst kvs) | _ \<Rightarrow> True)"

text \<open>
  The decoder matches the names of fields without regard to case; the long s (\<open>C5 BF\<close>) and the Kelvin sign (\<open>E2 84 AA\<close>) fold to letters
  as well.
\<close>

fun fold_name :: "string \<Rightarrow> string" where
  "fold_name [] = []"
| "fold_name (c # s) =
     (if is_upper c then char_of ((of_char c :: nat) + 32) # fold_name s
      else if c = CHR 0xC5 \<and> has_prefix s [CHR 0xBF] then CHR ''s'' # fold_name (drop 1 s)
      else if c = CHR 0xE2 \<and> has_prefix s [CHR 0x84, CHR 0xAA] then CHR ''k'' # fold_name (drop 2 s)
      else c # fold_name s)"

text \<open>A field of the wrong type is an error, a null leaves the field as it is, and a later field of the same name wins.\<close>

definition into_string :: "((string \<Rightarrow> string) \<Rightarrow> 'r \<Rightarrow> 'r) \<Rightarrow> json_value \<Rightarrow> 'r \<Rightarrow> 'r option" where
  "into_string put v r = (case v of JNull \<Rightarrow> Some r | JString x \<Rightarrow> Some (put (\<lambda>_. x) r) | _ \<Rightarrow> None)"

definition into_int :: "((int \<Rightarrow> int) \<Rightarrow> 'r \<Rightarrow> 'r) \<Rightarrow> json_value \<Rightarrow> 'r \<Rightarrow> 'r option" where
  "into_int put v r =
     (case v of
        JNull \<Rightarrow> Some r
      | JNumber x \<Rightarrow> (case parse_int x of None \<Rightarrow> None | Some i \<Rightarrow> Some (put (\<lambda>_. i) r))
      | _ \<Rightarrow> None)"

definition decode_field :: "string \<times> json_value \<Rightarrow> WebhookRequest \<Rightarrow> WebhookRequest option" where
  "decode_field kv r =
     (let k = fold_name (fst kv); v = snd kv
      in if k = ''payment_id'' then into_string req_PaymentID_update v r
         else if k = ''rental_id'' then into_string req_RentalID_update v r
         else if k = ''external_transaction_id'' then into_string req_ExternalTransactionID_update v r
         else if k = ''provider'' then into_string req_Provider_update v r
         else if k = ''amount'' then into_int req_Amount_update v r
         else if k = ''currency'' then into_string req_Currency_update v r
         else if k = ''status'' then into_string req_Status_update v r
         else None)"

definition decode_webhook :: "json_text \<Rightarrow> WebhookRequest option" where
  "decode_webhook body =
     (case body of
        JSON (JObject kvs) trailing \<Rightarrow>
          fold (\<lambda>kv r. case r of None \<Rightarrow> None | Some r \<Rightarrow> decode_field kv r) kvs
            (Some \<lparr>req_PaymentID = [], req_RentalID = [], req_ExternalTransactionID = [], req_Provider = [], req_Amount = 0, req_Currency = [],
               req_Status = []\<rparr>)
      | _ \<Rightarrow> None)"

section \<open>The endpoint\<close>

text \<open>The signature that the provider sends: \<open>mac\<close> is HMAC-SHA256.\<close>

definition PaymentSignature :: "(string \<Rightarrow> string \<Rightarrow> string) \<Rightarrow> string \<Rightarrow> string \<Rightarrow> string" where
  "PaymentSignature mac secret body = hex_encode (mac secret body)"

definition HeaderValues :: "http_request \<Rightarrow> string \<Rightarrow> string list" where
  "HeaderValues r k = map snd (filter (\<lambda>kv. fst kv = k) (hr_Headers r))"

definition getClientIP :: "http_request \<Rightarrow> string" where
  "getClientIP r = trim_space (split_host (hr_RemoteAddr r))"

definition webhook_refusal :: "err \<Rightarrow> reply" where
  "webhook_refusal e =
     (if errors_is e (PaymentErr ErrWebhookMissingIdentifier) \<or> errors_is e (PaymentErr ErrWebhookMissingExternalTxID) \<or>
         errors_is e (PaymentErr ErrWebhookInvalidPayload)
      then reply_Error 400 ''INVALID_REQUEST'' ''Invalid webhook payload''
      else if errors_is e (PaymentErr ErrPaymentNotFound) then reply_Error 404 ''NOT_FOUND'' ''Payment not found''
      else if errors_is e (PaymentErr ErrWebhookNotSuccessful) \<or> errors_is e (PaymentErr ErrWebhookInvalidTransition) \<or>
         errors_is e (PaymentErr ErrWebhookExternalTxMismatch) \<or> errors_is e (PaymentErr ErrWebhookIdentifierMismatch) \<or>
         errors_is e (PaymentErr ErrWebhookFinancialMismatch) \<or> errors_is e (PaymentErr ErrWebhookProviderUnsupported) \<or>
         errors_is e (PaymentErr ErrRentalNotEligible) \<or> errors_is e (PaymentErr ErrAccountNotReserved)
      then reply_Error 409 ''PAYMENT_FAILED'' ''Webhook does not match an eligible payment''
      else reply_Error 500 ''INTERNAL_ERROR'' ''Failed to process payment webhook'')"

text \<open>
  The body is the text that arrives, or none where the connection breaks before 16 KiB have been read; \<open>parse\<close> is the parser of JSON.
\<close>

definition Handler_Webhook ::
  "env \<Rightarrow> string \<Rightarrow> (string \<Rightarrow> json_text) \<Rightarrow> http_request \<Rightarrow> string option \<Rightarrow> time \<Rightarrow> db \<Rightarrow> reply \<times> db" where
  "Handler_Webhook env webhookSecret parse r body now s =
     (case body of
        None \<Rightarrow> (reply_Error 400 ''INVALID_REQUEST'' ''Invalid webhook request'', s)
      | Some bodyBytes \<Rightarrow>
          if 16384 < length bodyBytes then (reply_Error 413 ''PAYLOAD_TOO_LARGE'' ''Webhook payload exceeds the maximum size'', s)
          else if bodyBytes = [] then (reply_Error 400 ''INVALID_REQUEST'' ''Invalid webhook payload'', s)
          else (let signature = (case HeaderValues r ''X-Payment-Signature'' of [v] \<Rightarrow> v | _ \<Rightarrow> [])
           in if \<not> VerifySignature (hmac_sha256 (env_crypto env)) webhookSecret bodyBytes signature
              then (reply_Error 401 ''UNAUTHORIZED'' ''Invalid request signature'', s)
              else if ParseMediaType (HeaderValue r ''Content-Type'') \<noteq> Some ''application/json''
              then (reply_Error 415 ''INVALID_REQUEST'' ''Content-Type must be application/json'', s)
              else if rejectDuplicateWebhookFields (parse bodyBytes) then (reply_Error 400 ''INVALID_REQUEST'' ''Invalid webhook payload'', s)
              else (case decode_webhook (parse bodyBytes) of
                 None \<Rightarrow> (reply_Error 400 ''INVALID_REQUEST'' ''Invalid JSON payload'', s)
               | Some req \<Rightarrow>
                   (case ProcessWebhook (env_inet env) req (getClientIP r) (take 512 (HeaderValue r ''User-Agent'')) now s of
                      (Inl e, t) \<Rightarrow> (webhook_refusal e, t)
                    | (Inr x, t) \<Rightarrow> (reply_JSON 200 (DObj [(''status'', DStr ''success''), (''message'', DStr ''Payment processed'')]), t)))))"

end
