(* ===== verification/Http_Api.thy ===== *)
theory Http_Api
  imports Http_Webhook
begin

text \<open>
  The handlers of users and money in the back office (src/internal/api/handler_admin_users.go and handler_admin_financial.go) and the
  routes (handler_routes.go): \<open>api\<close> serves the routes behind the session middleware, \<open>public_api\<close> those that anyone may call.
\<close>

definition Api_AdminListUsers :: "db \<Rightarrow> reply" where
  "Api_AdminListUsers s =
     (case User_AdminListUsers s of
        Inl e \<Rightarrow> reply_Error 500 ''INTERNAL_ERROR'' ''Failed to load users''
      | Inr (items, _) \<Rightarrow> reply_JSON 200 (DObj [(''users'', DList (map (\<lambda>u. DObj [(''id'', DInt (usr_ID u)), (''email'', DStr (usr_Email u)),
          (''first_name'', DStr (usr_FirstName u)), (''last_name'', DStr (usr_LastName u)), (''role'', DStr (usr_Role u)),
          (''trust_score'', DInt (usr_TrustScore u)), (''is_blocked'', DBool (usr_IsBlocked u)), (''balance'', DInt (usr_Balance u))]) items))]))"

definition Api_AdminUpdateUser :: "session \<Rightarrow> http_request \<Rightarrow> AdminUpdateInput request_body \<Rightarrow> db \<Rightarrow> reply \<times> db" where
  "Api_AdminUpdateUser se r body s =
     (case pathID r ''userId'' of
        Inl e \<Rightarrow> (e, s)
      | Inr i \<Rightarrow>
          (case decode_strictly ''Invalid admin user update payload'' body of
             Inl e \<Rightarrow> (e, s)
           | Inr req \<Rightarrow>
               if (case aui_Role req of None \<Rightarrow> False | Some role \<Rightarrow> role \<noteq> ''ADMIN'' \<and> role \<noteq> ''RENT'')
               then (reply_Error 422 ''VALIDATION_ERROR'' ''role must be ADMIN or RENT'', s)
               else if (case aui_TrustScore req of None \<Rightarrow> False | Some n \<Rightarrow> n < 0 \<or> 1000 < n)
               then (reply_Error 422 ''VALIDATION_ERROR'' ''trust_score must be between 0 and 1000'', s)
               else (case User_AdminUpdateUser (se_UserID se) i req s of
                  (Inl e, t) \<Rightarrow>
                    (if errors_is e (UserErr User_ErrAdminAuthorization) then reply_Error 403 ''FORBIDDEN'' ''Current administrator authorization is required''
                     else if errors_is e (UserErr User_ErrAdminSelfUpdateForbidden)
                       then reply_Error 409 ''ADMIN_USER_UPDATE_FORBIDDEN'' ''Administrators cannot change their own administrative user state''
                     else if errors_is e (UserErr User_ErrUserNotFound) then reply_Error 404 ''NOT_FOUND'' ''User not found''
                     else reply_Error 500 ''INTERNAL_ERROR'' ''Failed to update user'', t)
                | (Inr _, t) \<Rightarrow> (reply_JSON 200 (DObj [(''message'', DStr ''User updated'')]), t))))"

text \<open>The request of a balance adjustment has the fields of the service's input.\<close>

definition adjustment_failure :: "(err \<Rightarrow> string) \<Rightarrow> err \<Rightarrow> reply" where
  "adjustment_failure driver e =
     (if errors_is e (PaymentErr ErrAdminRequired) then reply_Error 403 ''FORBIDDEN'' (err_Error driver e)
      else if errors_is e (PaymentErr ErrFinancialUserNotFound) then reply_Error 404 ''NOT_FOUND'' ''User not found''
      else if errors_is e (AdjustmentErr ErrBalanceAdjustmentAmountRequired) \<or> errors_is e (AdjustmentErr ErrBalanceAdjustmentCurrencyUnsupported) \<or>
        errors_is e (AdjustmentErr ErrBalanceAdjustmentReasonRequired) \<or> errors_is e (AdjustmentErr ErrBalanceAdjustmentCommentTooLong) \<or>
        errors_is e (AdjustmentErr ErrBalanceAdjustmentIdempotencyRequired) \<or> errors_is e (AdjustmentErr ErrBalanceAdjustmentOverflow)
        then reply_Error 422 ''VALIDATION_ERROR'' (err_Error driver e)
      else if errors_is e (AdjustmentErr ErrBalanceAdjustmentWouldBeNegative) \<or> errors_is e (AdjustmentErr ErrBalanceAdjustmentIdempotencyConflict)
        then reply_Error 409 ''BALANCE_ADJUSTMENT_FAILED'' (err_Error driver e)
      else reply_Error 500 ''INTERNAL_ERROR'' ''Failed to adjust user balance'')"

definition Api_AdminAdjustUserBalance ::
  "(err \<Rightarrow> string) \<Rightarrow> session \<Rightarrow> http_request \<Rightarrow> AdminBalanceAdjustmentInput request_body \<Rightarrow> time \<Rightarrow> db \<Rightarrow> reply \<times> db" where
  "Api_AdminAdjustUserBalance driver se r body now s =
     (case strict_path_id r ''userId'' ''userId must be a positive integer'' of
        Inl e \<Rightarrow> (e, s)
      | Inr target \<Rightarrow>
          (case decode_strictly ''Invalid balance adjustment payload'' body of
             Inl e \<Rightarrow> (e, s)
           | Inr req \<Rightarrow>
               (case AdjustAdminBalance (se_UserID se) (se_Role se) target req (clientIPFromRequest r) (HeaderValue r ''User-Agent'') now s of
                  (Inl e, t) \<Rightarrow> (adjustment_failure driver e, t)
                | (Inr x, t) \<Rightarrow>
                    (reply_JSON (if abx_IdempotentReplay x then 200 else 201)
                       (DObj [(''adjustment_id'', DInt (abx_AdjustmentID x)), (''user_id'', DInt (abx_UserID x)),
                          (''previous_balance'', DInt (abx_PreviousBalance x)), (''new_balance'', DInt (abx_NewBalance x)), (''amount'', DInt (abx_Amount x)),
                          (''currency'', DStr (abx_Currency x)), (''ledger_entry_id'', DInt (abx_LedgerEntryID x)),
                          (''idempotency_key'', DStr (abx_IdempotencyKey x)), (''idempotent_replay'', DBool (abx_IdempotentReplay x)),
                          (''created_at'', DTime (abx_CreatedAt x))]), t))))"

definition Api_AdminAuditLogs :: "db \<Rightarrow> reply" where
  "Api_AdminAuditLogs s =
     (case User_AdminListAuditLogs s of
        Inl e \<Rightarrow> reply_Error 500 ''INTERNAL_ERROR'' ''Failed to load audit logs''
      | Inr (items, _) \<Rightarrow> reply_JSON 200 (DObj [(''audit_logs'', DList (map (\<lambda>g. DObj [(''id'', DInt (al_ID g)),
          (''actor_user_id'', DOpt DInt (al_ActorUserID g)), (''entity_type'', DStr (al_EntityType g)), (''entity_id'', DInt (al_EntityID g)),
          (''action'', DStr (al_Action g)), (''created_at'', DTime (al_CreatedAt g))]) items))]))"

subsection \<open>Deposits and refunds\<close>

record adminForfeitDepositRequest =
  afd_ReasonCode :: string
  afd_EvidenceReference :: string

definition adminForfeitDepositRequest_Validate :: "adminForfeitDepositRequest \<Rightarrow> string + adminForfeitDepositRequest" where
  "adminForfeitDepositRequest_Validate r =
     (let reason = trim_space (afd_ReasonCode r); evidence = trim_space (afd_EvidenceReference r)
      in if \<not> IsAllowedDepositForfeitReasonCode reason then Inl ''reason_code must be one of the supported deposit forfeit reason codes''
         else if \<not> IsValidDepositEvidenceReference evidence then Inl ''evidence_reference must be SECURITY_EVENT:<positive integer>''
         else Inr \<lparr>afd_ReasonCode = reason, afd_EvidenceReference = evidence\<rparr>)"

text \<open>The request of a refund has only the reason code.\<close>

definition adminWalletRefundRequest_Validate :: "string \<Rightarrow> string + string" where
  "adminWalletRefundRequest_Validate reasonCode =
     (let reason = trim_space reasonCode
      in if \<not> IsAllowedWalletRefundReasonCode reason then Inl ''reason_code must be one of the supported wallet refund reason codes'' else Inr reason)"

definition Api_AdminWalletRefund :: "(err \<Rightarrow> string) \<Rightarrow> session \<Rightarrow> http_request \<Rightarrow> string request_body \<Rightarrow> time \<Rightarrow> db \<Rightarrow> reply \<times> db" where
  "Api_AdminWalletRefund driver se r body now s =
     (case pathID r ''rentalId'' of
        Inl e \<Rightarrow> (e, s)
      | Inr rentalID \<Rightarrow>
          (case DecodeAndValidateRequest adminWalletRefundRequest_Validate body of
             Inl m \<Rightarrow> (reply_Error 422 ''VALIDATION_ERROR'' m, s)
           | Inr reason \<Rightarrow>
               (case RefundWalletPayment (se_UserID se) (se_Role se) rentalID reason now s of
                  (Inl e, t) \<Rightarrow>
                    (if errors_is e (PaymentErr ErrAdminRequired) then reply_Error 403 ''FORBIDDEN'' (err_Error driver e)
                     else if errors_is e (PaymentErr ErrInvalidReasonCode) then reply_Error 422 ''VALIDATION_ERROR'' (err_Error driver e)
                     else if errors_is e (PaymentErr ErrWalletRefundNotFound) then reply_Error 404 ''NOT_FOUND'' (err_Error driver e)
                     else if errors_is e (PaymentErr ErrWalletRefundNotAllowed) \<or> errors_is e (PaymentErr ErrDepositAlreadySettled)
                       then reply_Error 409 ''WALLET_REFUND_FAILED'' (err_Error driver e)
                     else reply_Error 500 ''INTERNAL_ERROR'' ''Internal error'', t)
                | (Inr x, t) \<Rightarrow>
                    (reply_JSON 200 (DObj [(''changed'', DBool (wrr_Changed x)), (''idempotent'', DBool (wrr_Idempotent x)), (''status'', DStr (wrr_Status x)),
                       (''principal_amount'', money (wrr_PrincipalAmount x)), (''deposit_amount'', money (wrr_DepositAmount x)),
                       (''total_amount'', money (wrr_TotalAmount x)), (''deposit_status'', DStr (wrr_DepositStatus x))]), t))))"

definition depositSettlementResponse :: "DepositSettlementResult \<Rightarrow> dto" where
  "depositSettlementResponse x =
     DObj [(''changed'', DBool (dsr_Changed x)), (''idempotent'', DBool (dsr_Idempotent x)), (''status'', DStr (dsr_DepositStatus x)),
       (''deposit_status'', DStr (dsr_DepositStatus x)), (''settled_at'', DOpt DTime (dsr_SettledAt x)), (''rental_status'', DInt (dsr_RentalStatus x)),
       (''completed_at'', DOpt DTime (dsr_CompletedAt x))]"

definition Api_AdminReleaseDeposit :: "(err \<Rightarrow> string) \<Rightarrow> session \<Rightarrow> http_request \<Rightarrow> time \<Rightarrow> db \<Rightarrow> reply \<times> db" where
  "Api_AdminReleaseDeposit driver se r now s =
     (case pathID r ''rentalId'' of
        Inl e \<Rightarrow> (e, s)
      | Inr rentalID \<Rightarrow>
          (case ReleaseDeposit (se_UserID se) (se_Role se) rentalID now s of
             (Inl e, t) \<Rightarrow>
               (if errors_is e (PaymentErr ErrAdminRequired) then reply_Error 403 ''FORBIDDEN'' (err_Error driver e)
                else if errors_is e (PaymentErr ErrDepositHoldNotFound) then reply_Error 404 ''NOT_FOUND'' (err_Error driver e)
                else if errors_is e (PaymentErr ErrDepositSettlementNotAllowed) \<or> errors_is e (PaymentErr ErrDepositAlreadySettled)
                  then reply_Error 409 ''DEPOSIT_SETTLEMENT_FAILED'' (err_Error driver e)
                else reply_Error 500 ''INTERNAL_ERROR'' ''Internal error'', t)
           | (Inr x, t) \<Rightarrow> (reply_JSON 200 (depositSettlementResponse x), t)))"

definition Api_AdminForfeitDeposit ::
  "(err \<Rightarrow> string) \<Rightarrow> session \<Rightarrow> http_request \<Rightarrow> adminForfeitDepositRequest request_body \<Rightarrow> time \<Rightarrow> db \<Rightarrow> reply \<times> db" where
  "Api_AdminForfeitDeposit driver se r body now s =
     (case pathID r ''rentalId'' of
        Inl e \<Rightarrow> (e, s)
      | Inr rentalID \<Rightarrow>
          (case DecodeAndValidateRequest adminForfeitDepositRequest_Validate body of
             Inl m \<Rightarrow> (reply_Error 422 ''VALIDATION_ERROR'' m, s)
           | Inr req \<Rightarrow>
               (case ForfeitDeposit (se_UserID se) (se_Role se) rentalID (afd_ReasonCode req) (afd_EvidenceReference req) now s of
                  (Inl e, t) \<Rightarrow>
                    (if errors_is e (PaymentErr ErrAdminRequired) then reply_Error 403 ''FORBIDDEN'' (err_Error driver e)
                     else if errors_is e (PaymentErr ErrInvalidReasonCode) \<or> errors_is e (PaymentErr ErrInvalidEvidenceReference)
                       then reply_Error 422 ''VALIDATION_ERROR'' (err_Error driver e)
                     else if errors_is e (PaymentErr ErrDepositHoldNotFound) then reply_Error 404 ''NOT_FOUND'' (err_Error driver e)
                     else if errors_is e (PaymentErr ErrDepositSettlementNotAllowed) \<or> errors_is e (PaymentErr ErrDepositAlreadySettled) \<or>
                       errors_is e (PaymentErr ErrDepositReviewDeadlinePassed)
                       then reply_Error 409 ''DEPOSIT_SETTLEMENT_FAILED'' (err_Error driver e)
                     else reply_Error 500 ''INTERNAL_ERROR'' ''Internal error'', t)
                | (Inr x, t) \<Rightarrow> (reply_JSON 200 (depositSettlementResponse x), t))))"

section \<open>The routes\<close>

text \<open>One constructor per handler behind the authentication, with the decoded body where the handler reads one.\<close>

datatype endpoint =
    GET_me_balance
  | GET_me_ledger
  | GET_me_refunds
  | GET_rentals
  | GET_rental
  | GET_me_rental_credentials
  | POST_me_rental_pay
  | GET_payments
  | GET_payment
  | POST_rentals "createRentalRequest request_body" int
  | POST_rental_cancel
  | POST_rentals_calculate "createRentalRequest request_body"
  | POST_rental_extend
  | POST_payments "int request_body"
  | Favorite
  | GET_admin_accounts
  | GET_admin_rentals
  | GET_admin_rental
  | GET_admin_refund_reason_codes
  | POST_admin_accounts "AdminAccountInput request_body"
  | PATCH_admin_account "AdminAccountUpdate request_body"
  | POST_admin_account_sync
  | POST_admin_rental_refund "string request_body"
  | POST_admin_deposit_release
  | POST_admin_deposit_forfeit "adminForfeitDepositRequest request_body"
  | GET_admin_users
  | PATCH_admin_user "AdminUpdateInput request_body"
  | POST_admin_user_adjustments "AdminBalanceAdjustmentInput request_body"
  | GET_admin_audit_logs
  | GET_auth_me
  | GET_user
  | PATCH_user "UpdateUserRequest request_body"

text \<open>The routes that anyone may call; the body of a webhook is its text.\<close>

datatype public_endpoint =
    POST_auth_register "RegisterRequest request_body"
  | POST_auth_login "LoginRequest request_body"
  | POST_auth_refresh "string request_body"
  | POST_auth_logout "string request_body"
  | GET_accounts
  | GET_account
  | GET_account_availability
  | POST_payments_webhook "string option"

text \<open>
  What the handlers share: the outside world, the texts of the driver's errors, PostgreSQL's \<open>ILIKE\<close>, the secret of the
  payment provider and the parser of JSON.
\<close>

record api_env =
  ae_env :: env
  ae_driver :: "err \<Rightarrow> string"
  ae_ilike :: "string \<Rightarrow> string \<Rightarrow> bool"
  ae_webhook_secret :: string
  ae_json :: "string \<Rightarrow> json_text"

fun customer_answer :: "api_env \<Rightarrow> session \<Rightarrow> http_request \<Rightarrow> endpoint \<Rightarrow> time \<Rightarrow> db \<Rightarrow> (reply \<times> db) option" where
  "customer_answer ae se r GET_me_balance now s = Some (Api_GetMyBalance se s, s)"
| "customer_answer ae se r GET_me_ledger now s = Some (Api_ListMyLedger se r s, s)"
| "customer_answer ae se r GET_me_refunds now s = Some (Api_ListMyRefunds se r s, s)"
| "customer_answer ae se r GET_rentals now s = Some (Api_ListMyRentals (ae_driver ae) se s, s)"
| "customer_answer ae se r GET_rental now s = Some (Api_GetRental se r s, s)"
| "customer_answer ae se r GET_me_rental_credentials now s = Some (Api_GetMyRentalCredentials (ae_env ae) se r now s)"
| "customer_answer ae se r POST_me_rental_pay now s = Some (Api_PayRentalWithBalance (ae_env ae) se r now s)"
| "customer_answer ae se r GET_payments now s = Some (Api_ListMyPayments (ae_driver ae) se s, s)"
| "customer_answer ae se r GET_payment now s = Some (Api_GetPayment se r s, s)"
| "customer_answer ae se r (POST_rentals body i) now s = Some (Api_CreateRental (ae_driver ae) se body i now s)"
| "customer_answer ae se r POST_rental_cancel now s = Some (Api_CancelRental se r now s)"
| "customer_answer ae se r (POST_rentals_calculate body) now s = Some (Api_CalculateRental body s, s)"
| "customer_answer ae se r POST_rental_extend now s = Some (Api_ExtendRental, s)"
| "customer_answer ae se r (POST_payments body) now s = Some (Api_CreatePayment se body s, s)"
| "customer_answer ae se r Favorite now s = Some (Api_FavoriteOK, s)"
| "customer_answer ae se r GET_auth_me now s = Some (Handler_Me se s, s)"
| "customer_answer ae se r GET_user now s = Some (Handler_GetProfile (ae_driver ae) se r s, s)"
| "customer_answer ae se r (PATCH_user body) now s = Some (Handler_UpdateProfile (ae_driver ae) (ae_env ae) se r body now s)"
| "customer_answer ae se r ep now s = None"

fun admin_answer :: "api_env \<Rightarrow> session \<Rightarrow> http_request \<Rightarrow> endpoint \<Rightarrow> time \<Rightarrow> db \<Rightarrow> (reply \<times> db) option" where
  "admin_answer ae se r GET_admin_accounts now s = Some (Api_AdminListAccounts (ae_ilike ae) s, s)"
| "admin_answer ae se r GET_admin_rentals now s = Some (Api_AdminListRentals (ae_driver ae) r s, s)"
| "admin_answer ae se r GET_admin_rental now s = Some (Api_AdminGetRentalDetail (ae_driver ae) r now s, s)"
| "admin_answer ae se r GET_admin_refund_reason_codes now s = Some (Api_AdminRefundReasonCodes, s)"
| "admin_answer ae se r (POST_admin_accounts body) now s = Some (Api_AdminCreateAccount (ae_driver ae) (ae_env ae) se body s)"
| "admin_answer ae se r (PATCH_admin_account body) now s = Some (Api_AdminUpdateAccount se r body s)"
| "admin_answer ae se r POST_admin_account_sync now s = Some (Api_AdminSyncAccount (ae_driver ae) (ae_env ae) se r s)"
| "admin_answer ae se r (POST_admin_rental_refund body) now s = Some (Api_AdminWalletRefund (ae_driver ae) se r body now s)"
| "admin_answer ae se r POST_admin_deposit_release now s = Some (Api_AdminReleaseDeposit (ae_driver ae) se r now s)"
| "admin_answer ae se r (POST_admin_deposit_forfeit body) now s = Some (Api_AdminForfeitDeposit (ae_driver ae) se r body now s)"
| "admin_answer ae se r GET_admin_users now s = Some (Api_AdminListUsers s, s)"
| "admin_answer ae se r (PATCH_admin_user body) now s = Some (Api_AdminUpdateUser se r body s)"
| "admin_answer ae se r (POST_admin_user_adjustments body) now s = Some (Api_AdminAdjustUserBalance (ae_driver ae) se r body now s)"
| "admin_answer ae se r GET_admin_audit_logs now s = Some (Api_AdminAuditLogs s, s)"
| "admin_answer ae se r ep now s = None"

text \<open>An endpoint is a customer's or an administrator's.\<close>

definition dispatch :: "api_env \<Rightarrow> session \<Rightarrow> http_request \<Rightarrow> endpoint \<Rightarrow> time \<Rightarrow> db \<Rightarrow> reply \<times> db" where
  "dispatch ae se r ep now s =
     (case customer_answer ae se r ep now s of
        Some answer \<Rightarrow> answer
      | None \<Rightarrow> admin_only se (the (admin_answer ae se r ep now s)) s)"

text \<open>
  \<open>wrap(h, authMw)\<close>: the middleware refuses the request or calls the handler with the session. The message of a
  refusal belongs to its code.
\<close>

definition refusal_message :: "nat \<Rightarrow> string \<Rightarrow> string \<Rightarrow> string" where
  "refusal_message status code authHeader =
     (if status = 500 then ''Failed to authorize current user''
      else if code = ''SESSION_REVOKED'' then ''Current session has been revoked''
      else if authHeader = [] then ''Authorization header is required''
      else case split_on (CHR '' '') authHeader of
             [scheme, token] \<Rightarrow> if to_lower scheme \<noteq> ''bearer'' then ''Authorization header must be Bearer token'' else ''Invalid or expired token''
           | _ \<Rightarrow> ''Authorization header must be Bearer token'')"

definition api :: "api_env \<Rightarrow> http_request \<Rightarrow> endpoint \<Rightarrow> time \<Rightarrow> db \<Rightarrow> reply \<times> db" where
  "api ae r ep now s =
     (let authHeader = HeaderValue r ''Authorization''
      in case Auth (env_crypto (ae_env ae)) (env_secret (ae_env ae)) authHeader now s of
           Inl (status, code) \<Rightarrow> (reply_Error (int status) code (refusal_message status code authHeader), s)
         | Inr se \<Rightarrow> dispatch ae se r ep now s)"

text \<open>The rate limiter before sign-up, sign-in and refresh, which may answer instead of the handler, is added in the theory Server.\<close>

fun public_api :: "api_env \<Rightarrow> http_request \<Rightarrow> public_endpoint \<Rightarrow> time \<Rightarrow> db \<Rightarrow> reply \<times> db" where
  "public_api ae r (POST_auth_register body) now s = Handler_Register (ae_driver ae) (ae_env ae) body now s"
| "public_api ae r (POST_auth_login body) now s = Handler_Login (ae_driver ae) (ae_env ae) body now s"
| "public_api ae r (POST_auth_refresh body) now s = Handler_Refresh (ae_driver ae) (ae_env ae) body now s"
| "public_api ae r (POST_auth_logout body) now s = Handler_Logout (ae_driver ae) (ae_env ae) body now s"
| "public_api ae r GET_accounts now s = (Handler_ListAccounts (ae_ilike ae) r s, s)"
| "public_api ae r GET_account now s = (Handler_GetAccount r s, s)"
| "public_api ae r GET_account_availability now s = (Handler_GetAvailability r s, s)"
| "public_api ae r (POST_payments_webhook body) now s = Handler_Webhook (ae_env ae) (ae_webhook_secret ae) (ae_json ae) r body now s"

end
