(* ===== verification/Http_Properties.thy ===== *)
theory Http_Properties
  imports Http_Api Sessions_Properties
begin

text \<open>
  What the HTTP interface guarantees as a whole: what a call does to the database is one or two requests of the system in the name of its
  session (\<open>in_name_of\<close>, \<open>own_effect\<close>), a call that fails changes nothing (\<open>clean\<close>), a customer's reads depend on the
  customer's own rows (\<open>same_view\<close>), and the payment provider's endpoint acts on signed bodies only.
\<close>

section \<open>Requests made in the name of a session\<close>

fun in_name_of :: "session \<Rightarrow> request \<Rightarrow> bool" where
  "in_name_of se (Rent i uid aid d) = (uid = se_UserID se)"
| "in_name_of se (Cancel uid i reason) = (uid = se_UserID se)"
| "in_name_of se (Credentials uid i ip agent) = (uid = se_UserID se)"
| "in_name_of se (Pay_Wallet uid i ip agent) = (uid = se_UserID se)"
| "in_name_of se (Release actor role i) = (actor = se_UserID se \<and> role = ''ADMIN'' \<and> se_Role se = ''ADMIN'')"
| "in_name_of se (Forfeit actor role i reason ev) = (actor = se_UserID se \<and> role = ''ADMIN'' \<and> se_Role se = ''ADMIN'')"
| "in_name_of se (Refund_Wallet actor role i reason) = (actor = se_UserID se \<and> role = ''ADMIN'' \<and> se_Role se = ''ADMIN'')"
| "in_name_of se (Adjust actor role target input ip agent) = (actor = se_UserID se \<and> role = ''ADMIN'' \<and> se_Role se = ''ADMIN'')"
| "in_name_of se (Sync_Games actor i gs) = (actor = se_UserID se \<and> se_Role se = ''ADMIN'')"
| "in_name_of se (Disable_Account actor i) = (actor = se_UserID se \<and> se_Role se = ''ADMIN'')"
| "in_name_of se (Create_Account actor input) = (actor = se_UserID se \<and> se_Role se = ''ADMIN'')"
| "in_name_of se (Update_Account actor i input) = (actor = se_UserID se \<and> se_Role se = ''ADMIN'')"
| "in_name_of se (Update_User actor target input) = (actor = se_UserID se \<and> se_Role se = ''ADMIN'')"
| "in_name_of se (Update_Profile uid fn ln) = (uid = se_UserID se \<or> se_Role se = ''ADMIN'')"
| "in_name_of se r = False"

text \<open>What a session may do to the database while one call is answered: up to two requests in its own name.\<close>

definition own_effect :: "env \<Rightarrow> session \<Rightarrow> time \<Rightarrow> db \<Rightarrow> db \<Rightarrow> bool" where
  "own_effect env se now s t \<longleftrightarrow> (\<exists>rqs. length rqs \<le> 2 \<and> (\<forall>rq\<in>set rqs. in_name_of se rq) \<and> t = fold (exec env now) rqs s)"

lemma own_effect_none [simp, intro]: "own_effect env se now s s"
  unfolding own_effect_def by (intro exI [of _ "[]"]) simp

lemma own_effect_one: "in_name_of se rq \<Longrightarrow> own_effect env se now s (exec env now rq s)"
  unfolding own_effect_def by (intro exI [of _ "[rq]"]) simp

lemma own_effect_two: "in_name_of se rq \<Longrightarrow> in_name_of se rq' \<Longrightarrow> own_effect env se now s (exec env now rq' (exec env now rq s))"
  unfolding own_effect_def by (intro exI [of _ "[rq, rq']"]) simp

text \<open>The state after a call of a service is that of the call, whichever reply its result is rendered as.\<close>

lemma snd_answer:
  "snd (case p of (Inl e, t) \<Rightarrow> (f e t, t) | (Inr x, t) \<Rightarrow> (g x t, t)) = snd p"
  by (simp split: prod.split sum.split)

lemmas own_effects = own_effect_one [of _ "Rent i uid aid d" for i uid aid d] own_effect_one [of _ "Cancel uid i reason" for uid i reason]
  own_effect_one [of _ "Credentials uid i ip agent" for uid i ip agent] own_effect_one [of _ "Pay_Wallet uid i ip agent" for uid i ip agent]
  own_effect_one [of _ "Release actor role i" for actor role i] own_effect_one [of _ "Forfeit actor role i reason ev" for actor role i reason ev]
  own_effect_one [of _ "Refund_Wallet actor role i reason" for actor role i reason]
  own_effect_one [of _ "Adjust actor role target input ip agent" for actor role target input ip agent]
  own_effect_one [of _ "Sync_Games actor i gs" for actor i gs] own_effect_one [of _ "Disable_Account actor i" for actor i]
  own_effect_one [of _ "Update_Account actor i input" for actor i input] own_effect_one [of _ "Update_User actor target input" for actor target input]
  own_effect_one [of _ "Update_Profile uid fn ln" for uid fn ln]

lemmas own_effects_simps = own_effects [simplified exec.simps in_name_of.simps]

section \<open>The effect of each handler\<close>

lemma customer_effects:
  "own_effect env se now s (snd (Api_CreateRental driver se body i now s))"
  "own_effect env se now s (snd (Api_GetMyRentalCredentials env se r now s))"
  "own_effect env se now s (snd (Api_PayRentalWithBalance env se r now s))"
  "own_effect env se now s (snd (Api_CancelRental se r now s))"
  "own_effect env se now s (snd (Handler_UpdateProfile driver env se r profile_body now s))"
  unfolding Api_CreateRental_def Api_GetMyRentalCredentials_def Api_PayRentalWithBalance_def Api_CancelRental_def Handler_UpdateProfile_def Let_def
  by (auto simp: may_not_access_def snd_answer own_effects_simps split: sum.split option.split)

lemma sync_states:
  "snd (syncSteamLibrary env actor i s) = s \<or> snd (syncSteamLibrary env actor i s) = snd (DisableAccountIfIdleAsCurrentAdmin actor i s) \<or>
   (\<exists>gs. snd (syncSteamLibrary env actor i s) = snd (SyncAccountGamesAsCurrentAdmin (env_pg_int env) actor i gs s))"
proof (cases "GetAccountSyncDetails i s")
  case (Inr x)
  obtain login steam t where x: "x = ((login, steam), t)" by (metis prod.exhaust)
  show ?thesis unfolding syncSteamLibrary_def Inr x
    by (cases "CheckVACBans (env_steam env) steam"; cases "GetOwnedGames (env_steam env) steam") (auto simp: snd_answer split: bool.split)
qed (simp add: syncSteamLibrary_def)

lemma sync_effect:
  assumes "se_Role se = ''ADMIN''"
  obtains (nothing) "snd (syncSteamLibrary env (se_UserID se) i s) = s"
  | (request) rq where "in_name_of se rq" "\<And>now. snd (syncSteamLibrary env (se_UserID se) i s) = exec env now rq s"
proof -
  consider "snd (syncSteamLibrary env (se_UserID se) i s) = s"
    | "snd (syncSteamLibrary env (se_UserID se) i s) = snd (DisableAccountIfIdleAsCurrentAdmin (se_UserID se) i s)"
    | gs where "snd (syncSteamLibrary env (se_UserID se) i s) = snd (SyncAccountGamesAsCurrentAdmin (env_pg_int env) (se_UserID se) i gs s)"
    using sync_states by metis
  then show thesis
  proof cases
    case 2
    show thesis by (rule request [of "Disable_Account (se_UserID se) i"]) (simp_all add: 2 assms)
  next
    case 3
    show thesis by (rule request [of "Sync_Games (se_UserID se) i gs"]) (simp_all add: 3 assms)
  qed (rule nothing)
qed

lemma sync_own_effect:
  assumes "se_Role se = ''ADMIN''"
  shows "own_effect env se now s (snd (syncSteamLibrary env (se_UserID se) i s))"
proof (rule sync_effect [OF assms, of env i s])
  fix rq
  assume rq: "in_name_of se rq" "\<And>now. snd (syncSteamLibrary env (se_UserID se) i s) = exec env now rq s"
  show ?thesis unfolding rq(2) [of now] by (rule own_effect_one [OF rq(1)])
qed simp

lemma admin_effects:
  assumes "se_Role se = ''ADMIN''"
  shows "own_effect env se now s (snd (Api_AdminUpdateAccount se r account_body s))"
    "own_effect env se now s (snd (Api_AdminSyncAccount driver env se r s))"
    "own_effect env se now s (snd (Api_AdminWalletRefund driver se r reason_body now s))"
    "own_effect env se now s (snd (Api_AdminReleaseDeposit driver se r now s))"
    "own_effect env se now s (snd (Api_AdminForfeitDeposit driver se r forfeit_body now s))"
    "own_effect env se now s (snd (Api_AdminUpdateUser se r user_body s))"
    "own_effect env se now s (snd (Api_AdminAdjustUserBalance driver se r adjust_body now s))"
proof -
  show "own_effect env se now s (snd (Api_AdminSyncAccount driver env se r s))"
    unfolding Api_AdminSyncAccount_def by (auto simp: snd_answer sync_own_effect [OF assms] split: sum.split)
qed (auto simp: Api_AdminUpdateAccount_def Api_AdminWalletRefund_def Api_AdminReleaseDeposit_def Api_AdminForfeitDeposit_def Api_AdminUpdateUser_def
    Api_AdminAdjustUserBalance_def snd_answer assms own_effects_simps split: sum.split)

lemma create_account_effect:
  assumes "se_Role se = ''ADMIN''"
  shows "own_effect env se now s (snd (Api_AdminCreateAccount driver env se body s))"
proof (cases "decode_strictly ''Invalid account creation payload'' body")
  case (Inr req)
  have create: "in_name_of se (Create_Account (se_UserID se) req)"
    "snd (AdminService_CreateAccount (env_encrypt env) (se_UserID se) req s) = exec env now (Create_Account (se_UserID se) req) s"
    using assms by simp_all
  obtain res t where run: "AdminService_CreateAccount (env_encrypt env) (se_UserID se) req s = (res, t)" by fastforce
  have t: "t = exec env now (Create_Account (se_UserID se) req) s" using create(2) run by simp
  have "own_effect env se now s t" unfolding t by (rule own_effect_one [OF create(1)])
  moreover have "own_effect env se now s (snd (syncSteamLibrary env (se_UserID se) i t))" for i
  proof (rule sync_effect [OF assms, of env i t])
    fix rq
    assume rq: "in_name_of se rq" "\<And>now. snd (syncSteamLibrary env (se_UserID se) i t) = exec env now rq t"
    show ?thesis unfolding rq(2) [of now] unfolding t by (rule own_effect_two [OF create(1) rq(1)])
  qed (use \<open>own_effect env se now s t\<close> in simp)
  ultimately show ?thesis unfolding Api_AdminCreateAccount_def Inr sum.case run prod.case
    by (auto simp: snd_answer split: sum.split)
qed (simp add: Api_AdminCreateAccount_def)

section \<open>The API as a whole\<close>

lemma customer_answer_effect: "customer_answer ae se r ep now s = Some (rep, t) \<Longrightarrow> own_effect (ae_env ae) se now s t"
proof (cases ep)
  case (POST_rentals body i)
  then show "customer_answer ae se r ep now s = Some (rep, t) \<Longrightarrow> own_effect (ae_env ae) se now s t"
    using customer_effects(1) [of "ae_env ae" se now s "ae_driver ae" body i] by simp
next
  case GET_me_rental_credentials
  then show "customer_answer ae se r ep now s = Some (rep, t) \<Longrightarrow> own_effect (ae_env ae) se now s t"
    using customer_effects(2) [of "ae_env ae" se now s r] by simp
next
  case POST_me_rental_pay
  then show "customer_answer ae se r ep now s = Some (rep, t) \<Longrightarrow> own_effect (ae_env ae) se now s t"
    using customer_effects(3) [of "ae_env ae" se now s r] by simp
next
  case POST_rental_cancel
  then show "customer_answer ae se r ep now s = Some (rep, t) \<Longrightarrow> own_effect (ae_env ae) se now s t"
    using customer_effects(4) [of "ae_env ae" se now s r] by simp
next
  case (PATCH_user body)
  then show "customer_answer ae se r ep now s = Some (rep, t) \<Longrightarrow> own_effect (ae_env ae) se now s t"
    using customer_effects(5) [of "ae_env ae" se now s "ae_driver ae" r body] by simp
qed auto

lemma admin_answer_effect:
  assumes admin: "se_Role se = ''ADMIN''" and answer: "admin_answer ae se r ep now s = Some (rep, t)"
  shows "own_effect (ae_env ae) se now s t"
proof -
  note effects = admin_effects [OF admin, where env = "ae_env ae" and s = s and r = r and now = now]
    create_account_effect [OF admin, where env = "ae_env ae" and s = s and now = now]
  have "admin_answer ae se r ep now s = Some a \<Longrightarrow> own_effect (ae_env ae) se now s (snd a)" for a by (cases ep) (auto simp: effects)
  from this [OF answer] show ?thesis by simp
qed

lemma endpoint_cases: "customer_answer ae se r ep now s = None \<Longrightarrow> admin_answer ae se r ep now s \<noteq> None"
  by (cases ep) simp_all

lemma dispatch_effect: "own_effect (ae_env ae) se now s (snd (dispatch ae se r ep now s))"
proof (cases "customer_answer ae se r ep now s")
  case None
  then obtain rep t where answer: "admin_answer ae se r ep now s = Some (rep, t)" using endpoint_cases by fastforce
  show ?thesis
  proof (cases "se_Role se = ''ADMIN''")
    case True
    then show ?thesis using admin_answer_effect [OF True answer] None answer by (simp add: dispatch_def admin_only_def)
  qed (simp add: dispatch_def admin_only_def None)
next
  case (Some answer)
  then show ?thesis using customer_answer_effect [of ae se r ep now s "fst answer" "snd answer"] by (simp add: dispatch_def)
qed

lemma api_effect:
  "snd (api ae r ep now s) = s \<or>
   (\<exists>se. Auth (env_crypto (ae_env ae)) (env_secret (ae_env ae)) (HeaderValue r ''Authorization'') now s = Inr se \<and>
      own_effect (ae_env ae) se now s (snd (api ae r ep now s)))"
  using dispatch_effect by (cases "Auth (env_crypto (ae_env ae)) (env_secret (ae_env ae)) (HeaderValue r ''Authorization'') now s") (auto simp: api_def)

section \<open>Errors\<close>

definition failed :: "reply \<Rightarrow> bool" where
  "failed rep \<longleftrightarrow> (case rep_Body rep of Data d \<Rightarrow> False | Failure c m \<Rightarrow> True)"

lemma failed_simps [simp]: "\<not> failed (reply_JSON c d)" "failed (reply_Error c code m)" "rep_Status (reply_Error c code m) = c"
  by (simp_all add: failed_def reply_JSON_def reply_Error_def)

lemma failed_headers [simp]: "failed (rep\<lparr>rep_Headers := h\<rparr>) = failed rep"
  by (simp add: failed_def)

section \<open>A service that fails\<close>

lemma with_aliases_error: "with_aliases status r = (Inl e, t) \<longleftrightarrow> r = (Inl e, t)"
  by (auto simp: with_aliases_def split: prod.splits sum.splits)

lemma service_failures:
  "RentAccount i uid aid d now s = (Inl e, t) \<Longrightarrow> t = s"
  "GetRentalCredentials inet decrypt uid rid ip agent now s = (Inl e, t) \<Longrightarrow> t = s"
  "PayRentalWithBalance inet uid rid ip agent now s = (Inl e, t) \<Longrightarrow> t = s"
  "CancelRental uid rid reason now s = (Inl e, t) \<Longrightarrow> t = s"
  "AdminService_UpdateAccount actor aid update s = (Inl e, t) \<Longrightarrow> t = s"
  "User_AdminUpdateUser actor target changes s = (Inl e, t) \<Longrightarrow> t = s"
  "DisableAccountIfIdleAsCurrentAdmin actor aid s = (Inl e, t) \<Longrightarrow> t = s"
  "SyncAccountGamesAsCurrentAdmin pg actor aid gs s = (Inl e, t) \<Longrightarrow> t = s"
  by (simp_all add: RentAccount_def GetRentalCredentials_def PayRentalWithBalance_def CancelRental_def AdminService_UpdateAccount_def
      User_AdminUpdateUser_def DisableAccountIfIdleAsCurrentAdmin_def SyncAccountGamesAsCurrentAdmin_def WithinTransaction_error
      split: sum.splits prod.splits)

lemma admin_service_failures:
  "AdminService_CreateAccount encrypt actor input s = (Inl e, t) \<Longrightarrow> t = s"
  "ReleaseDeposit actor role rid now s = (Inl e, t) \<Longrightarrow> t = s"
  "RefundWalletPayment actor role rid reason now s = (Inl e, t) \<Longrightarrow> t = s"
  "AdjustAdminBalance actor role target adjustment ip agent now s = (Inl e, t) \<Longrightarrow> t = s"
  "ForfeitDeposit actor role rid reason ev now s = (Inl e, t) \<Longrightarrow> t = s"
  by (auto simp: AdminService_CreateAccount_def ReleaseDeposit_def RefundWalletPayment_def AdjustAdminBalance_def ForfeitDeposit_def Let_def
      with_aliases_error WithinTransaction_error split: option.splits sum.splits prod.splits if_splits)

lemma session_failures:
  "Register c sec ttl email pw fn ln now s = (Inl e, t) \<Longrightarrow> t = s"
  "Login c sec ttl email pw now s = (Inl e, t) \<Longrightarrow> t = s"
  "Refresh c sec ttl tok now s = (Inl e, t) \<Longrightarrow> t = s"
  "Logout c tok now s = (Inl e, t) \<Longrightarrow> t = s"
  by (simp_all add: Register_def Login_def Refresh_def Logout_def WithinTransaction_error)

lemma webhook_failure: "ProcessWebhook inet req ip agent now s = (Inl e, t) \<Longrightarrow> t = s"
  by (auto simp: ProcessWebhook_def WithinTransaction_error split: sum.splits prod.splits if_splits)

lemmas failures = service_failures admin_service_failures session_failures webhook_failure

text \<open>A handler that answers with an error has left the database as it was.\<close>

definition clean :: "db \<Rightarrow> reply \<times> db \<Rightarrow> bool" where
  "clean s answer \<longleftrightarrow> (failed (fst answer) \<longrightarrow> snd answer = s)"

lemma clean_unchanged [simp]: "clean s (rep, s)"
  by (simp add: clean_def)

lemma clean_reply: "\<not> failed rep \<Longrightarrow> clean s (rep, t)"
  by (simp add: clean_def)

lemma clean_service:
  assumes "\<And>e t. p = (Inl e, t) \<Longrightarrow> t = s" and "\<And>x t. \<not> failed (g x t)"
  shows "clean s (case p of (Inl e, t) \<Rightarrow> (f e t, t) | (Inr x, t) \<Rightarrow> (g x t, t))"
  using assms by (auto simp: clean_def split: prod.split sum.split)

lemma clean_if: "clean s a \<Longrightarrow> clean s b \<Longrightarrow> clean s (if c then a else b)"
  by simp

lemma clean_sum: "(\<And>e. clean s (f e)) \<Longrightarrow> (\<And>x. clean s (g x)) \<Longrightarrow> clean s (case r of Inl e \<Rightarrow> f e | Inr x \<Rightarrow> g x)"
  by (simp split: sum.split)

lemma clean_option: "clean s a \<Longrightarrow> (\<And>x. clean s (f x)) \<Longrightarrow> clean s (case r of None \<Rightarrow> a | Some x \<Rightarrow> f x)"
  by (simp split: option.split)

lemmas clean_intros = clean_sum clean_option clean_if clean_unchanged clean_service

lemma customer_clean:
  "clean s (Api_CreateRental driver se body i now s)"
  "clean s (Api_GetMyRentalCredentials env se r now s)"
  "clean s (Api_PayRentalWithBalance env se r now s)"
  "clean s (Api_CancelRental se r now s)"
  unfolding Api_CreateRental_def Api_GetMyRentalCredentials_def Api_PayRentalWithBalance_def Api_CancelRental_def Let_def
  by (intro clean_intros; simp add: failures)+

lemma profile_clean: "clean s (Handler_UpdateProfile driver env se r profile_body now s)"
  unfolding Handler_UpdateProfile_def by (intro clean_intros; simp add: WithinTransaction_error)

lemma public_clean:
  "clean s (Handler_Register driver env sign_up_body now s)"
  "clean s (Handler_Login driver env sign_in_body now s)"
  "clean s (Handler_Refresh driver env refresh_body now s)"
  "clean s (Handler_Logout driver env logout_body now s)"
  unfolding Handler_Register_def Handler_Login_def Handler_Refresh_def Handler_Logout_def
  by (intro clean_intros; simp add: failures)+

lemma webhook_clean: "clean s (Handler_Webhook env secret parse r body now s)"
  unfolding Handler_Webhook_def Let_def
  by (intro clean_intros; simp add: failures)

lemma admin_clean:
  "clean s (Api_AdminUpdateAccount se r account_body s)"
  "clean s (Api_AdminWalletRefund driver se r reason_body now s)"
  "clean s (Api_AdminReleaseDeposit driver se r now s)"
  "clean s (Api_AdminForfeitDeposit driver se r forfeit_body now s)"
  "clean s (Api_AdminUpdateUser se r user_body s)"
  "clean s (Api_AdminAdjustUserBalance driver se r adjust_body now s)"
  unfolding Api_AdminUpdateAccount_def Api_AdminWalletRefund_def Api_AdminReleaseDeposit_def Api_AdminForfeitDeposit_def Api_AdminUpdateUser_def
    Api_AdminAdjustUserBalance_def
  by (intro clean_intros; simp add: failures)+

lemma create_account_clean: "clean s (Api_AdminCreateAccount driver env se body s)"
proof -
  have "clean s (case syncSteamLibrary env (se_UserID se) i t of
      (Inl e, t') \<Rightarrow> (reply_JSON 201 (f e), t') | (Inr x, t') \<Rightarrow> (reply_JSON 201 (g x), t'))" for i t f g
    by (simp add: clean_def split: prod.split sum.split)
  then show ?thesis unfolding Api_AdminCreateAccount_def
    by (auto simp: failures clean_def split: prod.split sum.split)
qed

text \<open>The synchronization may have disabled a banned account when it fails, and then the status is 502.\<close>

lemma sync_failure:
  assumes "Api_AdminSyncAccount driver env se r s = (rep, t)" "failed rep" "rep_Status rep \<noteq> 502"
  shows "t = s"
proof -
  have kept: "t = s" if "syncSteamLibrary env actor i s = (Inl e, t)" "\<And>m. e \<noteq> ErrText m" for actor i e t
    using that unfolding syncSteamLibrary_def
    by (auto simp: failures split: sum.splits prod.splits if_splits bool.splits)
  show ?thesis using assms unfolding Api_AdminSyncAccount_def
    by (auto split: sum.splits prod.splits if_splits dest!: kept)
qed

lemma customer_answer_clean: "customer_answer ae se r ep now s = Some answer \<Longrightarrow> clean s answer"
  by (cases ep) (auto simp: customer_clean profile_clean)

lemma admin_answer_clean: "ep \<noteq> POST_admin_account_sync \<Longrightarrow> admin_answer ae se r ep now s = Some answer \<Longrightarrow> clean s answer"
  by (cases ep) (auto simp: admin_clean create_account_clean)

lemma public_api_clean: "clean s (public_api ae r pe now s)"
  by (cases pe) (simp_all add: public_clean webhook_clean)

section \<open>What a customer can read\<close>

text \<open>Two databases look the same to a user when they have the same rows of that user.\<close>

definition own_rental :: "int \<Rightarrow> db \<Rightarrow> int \<Rightarrow> bool" where
  "own_rental uid s i \<longleftrightarrow> list_ex (\<lambda>r. r_id r = i \<and> r_user r = uid) (rentals s)"

definition same_view :: "int \<Rightarrow> db \<Rightarrow> db \<Rightarrow> bool" where
  "same_view uid s t \<longleftrightarrow>
     filter (\<lambda>u. u_id u = uid) (users s) = filter (\<lambda>u. u_id u = uid) (users t) \<and>
     filter (\<lambda>r. r_user r = uid) (rentals s) = filter (\<lambda>r. r_user r = uid) (rentals t) \<and>
     filter (\<lambda>p. p_user p = uid) (payments s) = filter (\<lambda>p. p_user p = uid) (payments t) \<and>
     filter (\<lambda>l. l_user l = Some uid) (ledger s) = filter (\<lambda>l. l_user l = Some uid) (ledger t) \<and>
     filter (\<lambda>f. f_user f = uid) (refunds s) = filter (\<lambda>f. f_user f = uid) (refunds t) \<and>
     filter (\<lambda>d. own_rental uid s (d_rental d)) (holds s) = filter (\<lambda>d. own_rental uid t (d_rental d)) (holds t)"

fun private_read :: "endpoint \<Rightarrow> bool" where
  "private_read GET_me_balance = True"
| "private_read GET_me_ledger = True"
| "private_read GET_me_refunds = True"
| "private_read GET_rentals = True"
| "private_read GET_rental = True"
| "private_read GET_payments = True"
| "private_read GET_payment = True"
| "private_read (POST_payments body) = True"
| "private_read ep = False"

lemma filter_within: "(\<And>x. P x \<Longrightarrow> Q x) \<Longrightarrow> filter P xs = filter P (filter Q xs)"
  by (simp add: conj_absorb cong: filter_cong) (metis (mono_tags, lifting))

lemma filter_agree:
  assumes "filter Q xs = filter Q' ys" "\<And>x. P x \<Longrightarrow> Q x" "\<And>x. P x \<Longrightarrow> Q' x"
  shows "filter P xs = filter P ys"
  using filter_within [of P Q xs] filter_within [of P Q' ys] assms by simp

lemma view_filters:
  assumes "same_view uid s t"
  shows "filter (\<lambda>u. u_id u = uid \<and> u_deleted u = None) (users s) = filter (\<lambda>u. u_id u = uid \<and> u_deleted u = None) (users t)"
    "filter (\<lambda>r. r_user r = uid) (rentals s) = filter (\<lambda>r. r_user r = uid) (rentals t)"
    "filter (\<lambda>p. p_user p = uid) (payments s) = filter (\<lambda>p. p_user p = uid) (payments t)"
    "filter (\<lambda>p. p_rental p = i \<and> p_user p = uid) (payments s) = filter (\<lambda>p. p_rental p = i \<and> p_user p = uid) (payments t)"
    "filter (\<lambda>p. p_id p = i \<and> p_user p = uid) (payments s) = filter (\<lambda>p. p_id p = i \<and> p_user p = uid) (payments t)"
    "filter (\<lambda>l. l_user l = Some uid) (ledger s) = filter (\<lambda>l. l_user l = Some uid) (ledger t)"
    "filter (\<lambda>f. f_user f = uid) (refunds s) = filter (\<lambda>f. f_user f = uid) (refunds t)"
    "filter (\<lambda>f. f_rental f = i \<and> f_user f = uid) (refunds s) = filter (\<lambda>f. f_rental f = i \<and> f_user f = uid) (refunds t)"
  using assms unfolding same_view_def by (auto intro: filter_agree)

lemma own_rental_view:
  assumes "same_view uid s t"
  shows "own_rental uid s i = own_rental uid t i"
proof -
  have own: "own_rental uid u i \<longleftrightarrow> i \<in> r_id ` set (filter (\<lambda>r. r_user r = uid) (rentals u))" for u
    by (auto simp: own_rental_def list_ex_iff)
  show ?thesis by (simp only: own view_filters(2) [OF assms])
qed

lemma customer_rental_view:
  assumes view: "same_view uid s t" and r: "r \<in> set (rentals s)" "r_user r = uid"
  shows "customer_rental s r = customer_rental t r"
proof -
  have own: "own_rental uid s (r_id r)" using r by (auto simp: own_rental_def list_ex_iff)
  then have "filter (\<lambda>d. d_rental d = r_id r) (holds s) = filter (\<lambda>d. d_rental d = r_id r) (holds t)"
    using view own_rental_view [OF view] unfolding same_view_def
    by (intro filter_agree [of "\<lambda>d. own_rental uid s (d_rental d)" _ "\<lambda>d. own_rental uid t (d_rental d)"]) simp_all
  moreover have "latest_refund s r = latest_refund t r" by (simp add: latest_refund_def r(2) view_filters(8) [OF view])
  ultimately show ?thesis by (simp add: customer_rental_def Let_def)
qed

lemma customer_rentals_view:
  assumes "same_view uid s t"
  shows "map (customer_rental s) (sort_key k (filter (\<lambda>r. r_user r = uid) (rentals s))) =
    map (customer_rental t) (sort_key k (filter (\<lambda>r. r_user r = uid) (rentals t)))"
proof -
  have "map (customer_rental s) (sort_key k (filter (\<lambda>r. r_user r = uid) (rentals s))) =
      map (customer_rental t) (sort_key k (filter (\<lambda>r. r_user r = uid) (rentals s)))"
    by (rule map_cong [OF refl]) (auto intro: customer_rental_view [OF assms])
  then show ?thesis by (simp only: view_filters(2) [OF assms])
qed

lemmas reading_defs = tx_bind_def tx_seq_def tx_read_def tx_return_def tx_fail_def fail_if_def tx_catch_def wrapf_def wrap_unless_def lift_result_def
  query_row_def no_rows_as_def query_page_def

lemma own_reads:
  assumes "same_view (se_UserID se) s t"
  shows "Api_GetMyBalance se s = Api_GetMyBalance se t"
    "Api_ListMyPayments driver se s = Api_ListMyPayments driver se t"
    "Api_GetPayment se r s = Api_GetPayment se r t"
    "Api_ListMyRentals driver se s = Api_ListMyRentals driver se t"
    "Api_CreatePayment se body s = Api_CreatePayment se body t"
proof -
  note view = view_filters [OF assms]
  show "Api_GetMyBalance se s = Api_GetMyBalance se t"
    unfolding Api_GetMyBalance_def GetUserBalance_def Repo_GetUserBalance_def reading_defs view by (simp split: list.split)
  show "Api_ListMyPayments driver se s = Api_ListMyPayments driver se t"
    unfolding Api_ListMyPayments_def ListCustomerPayments_def Repo_ListCustomerPayments_def reading_defs view by simp
  show "Api_GetPayment se r s = Api_GetPayment se r t"
    unfolding Api_GetPayment_def GetCustomerPayment_def Repo_GetCustomerPayment_def reading_defs view by (simp split: list.split sum.split)
  show "Api_ListMyRentals driver se s = Api_ListMyRentals driver se t"
    unfolding Api_ListMyRentals_def ListCustomerRentals_def Repo_ListCustomerRentals_def reading_defs customer_rentals_view [OF assms] by simp
  show "Api_CreatePayment se body s = Api_CreatePayment se body t"
    using own_rental_view [OF assms, unfolded own_rental_def]
    unfolding Api_CreatePayment_def CreateCustomerPayment_def GetCustomerRentalPayment_def getCustomerPaymentByRental_def reading_defs
    by (auto simp: view split: list.split request_body.split)
qed

lemma own_pages:
  assumes "same_view (se_UserID se) s t"
  shows "Api_ListMyLedger se r s = Api_ListMyLedger se r t" "Api_ListMyRefunds se r s = Api_ListMyRefunds se r t"
proof -
  note view = view_filters [OF assms]
  show "Api_ListMyLedger se r s = Api_ListMyLedger se r t"
    unfolding Api_ListMyLedger_def ListUserLedger_def ListUserLedgerEntries_def CountUserLedgerEntries_def reading_defs
    by (simp add: view split: sum.split)
  show "Api_ListMyRefunds se r s = Api_ListMyRefunds se r t"
    unfolding Api_ListMyRefunds_def ListUserRefunds_def ListUserRefundEntries_def CountUserRefundEntries_def reading_defs
    by (simp add: view split: sum.split)
qed

lemma customer_rental_own:
  assumes view: "same_view (se_UserID se) s t" and valid: "valid_db s" "valid_db t"
  shows "Api_GetRental se r s = Api_GetRental se r t \<or> failed (Api_GetRental se r s) \<and> failed (Api_GetRental se r t)"
proof (cases "pathID r ''rentalId''")
  case (Inr i)
  have fetch: "Api_GetRental se r u = (case filter (\<lambda>x. r_id x = i) (rentals u) of [] \<Rightarrow> reply_Error 404 ''NOT_FOUND'' ''Rental not found''
      | x # _ \<Rightarrow> if r_user x = se_UserID se then reply_JSON 200 (customer_rental_dto (customer_rental u x))
         else reply_Error 403 ''FORBIDDEN'' ''You can access only your rentals'')" for u
    unfolding Api_GetRental_def Inr GetCustomerRental_def Repo_GetCustomerRental_def reading_defs
    by (simp add: customer_rental_def Let_def split: list.split)
  show ?thesis
  proof (cases "\<exists>x\<in>set (rentals s). r_id x = i \<and> r_user x = se_UserID se")
    case True
    then obtain x where x: "x \<in> set (rentals s)" "r_id x = i" "r_user x = se_UserID se" by blast
    then have "x \<in> set (filter (\<lambda>x. r_user x = se_UserID se) (rentals s))" by simp
    then have y: "x \<in> set (rentals t)" unfolding view_filters(2) [OF view] by simp
    have "filter (\<lambda>x. r_id x = i) (rentals s) = [x]" "filter (\<lambda>x. r_id x = i) (rentals t) = [x]"
      using filter_unique [OF valid_db_keys(3) [OF valid(1)] x(1)] filter_unique [OF valid_db_keys(3) [OF valid(2)] y] x(2) by auto
    then show ?thesis by (simp add: fetch x(3) customer_rental_view [OF view x(1,3)])
  next
    case False
    have foreign: "failed (Api_GetRental se r u)" if "\<not> own_rental (se_UserID se) u i" for u
    proof (cases "filter (\<lambda>x. r_id x = i) (rentals u)")
      case (Cons x xs)
      then have "x \<in> set (filter (\<lambda>x. r_id x = i) (rentals u))" by simp
      then have "r_user x \<noteq> se_UserID se" using that by (auto simp: own_rental_def list_ex_iff)
      then show ?thesis by (simp add: fetch Cons)
    qed (simp add: fetch)
    have "\<not> own_rental (se_UserID se) s i" using False by (auto simp: own_rental_def list_ex_iff)
    then show ?thesis using foreign own_rental_view [OF view] by simp
  qed
qed (simp add: Api_GetRental_def)

text \<open>The middleware looks at the row of one user only.\<close>

lemma Auth_user:
  assumes "Auth c secret h now s = Inr se"
  shows "\<exists>scheme token claims. split_on (CHR '' '') h = [scheme, token] \<and> h \<noteq> [] \<and> to_lower scheme = ''bearer'' \<and>
    ValidateToken c token secret now = Inr claims \<and> cl_UserID claims = se_UserID se"
proof -
  have user: "cu_ID u = i" if "LoadCurrentUser i s = Inr (u, t)" for i u t
    using that unfolding LoadCurrentUser_def reading_defs
    by (auto simp: current_user_def filter_eq_Cons_iff split: if_splits list.splits)
  obtain scheme token where h: "h \<noteq> []" "split_on (CHR '' '') h = [scheme, token]"
    using assms unfolding Auth_def by (auto split: if_splits list.splits)
  then obtain claims where claims: "to_lower scheme = ''bearer''" "ValidateToken c token secret now = Inr claims"
    using assms unfolding Auth_def by (auto split: if_splits sum.splits)
  obtain u t where "LoadCurrentUser (cl_UserID claims) s = Inr (u, t)" "se_UserID se = cu_ID u"
    using assms h claims unfolding Auth_def by (auto split: if_splits sum.splits)
  with h claims user show ?thesis by auto
qed

lemma Auth_view:
  assumes auth: "Auth c secret h now s = Inr se" and view: "same_view (se_UserID se) s t"
  shows "Auth c secret h now t = Inr se"
proof -
  obtain scheme token claims where h: "split_on (CHR '' '') h = [scheme, token]" "h \<noteq> []" "to_lower scheme = ''bearer''"
    "ValidateToken c token secret now = Inr claims" "cl_UserID claims = se_UserID se"
    using Auth_user [OF auth] by blast
  have "filter (\<lambda>u. u_id u = se_UserID se) (users s) = filter (\<lambda>u. u_id u = se_UserID se) (users t)"
    using view by (simp add: same_view_def)
  then show ?thesis using auth unfolding Auth_def LoadCurrentUser_def reading_defs h(1) by (auto simp: h split: list.splits if_splits)
qed

text \<open>The whole API.\<close>

lemma api_clean:
  assumes "failed (fst (api ae r ep now s))"
    and "ep = POST_admin_account_sync \<Longrightarrow> rep_Status (fst (api ae r ep now s)) \<noteq> 502"
  shows "snd (api ae r ep now s) = s"
proof (cases "Auth (env_crypto (ae_env ae)) (env_secret (ae_env ae)) (HeaderValue r ''Authorization'') now s")
  case (Inr se)
  have api: "api ae r ep now s = dispatch ae se r ep now s" by (simp add: api_def Inr)
  have "snd (dispatch ae se r ep now s) = s" using assms unfolding api
  proof (cases "customer_answer ae se r ep now s")
    case None
    obtain answer where answer: "admin_answer ae se r ep now s = Some answer" using endpoint_cases [OF None] by blast
    show "snd (dispatch ae se r ep now s) = s"
    proof (cases "se_Role se = ''ADMIN''")
      case True
      then have d: "dispatch ae se r ep now s = answer" by (simp add: dispatch_def None answer admin_only_def)
      show ?thesis
      proof (cases "ep = POST_admin_account_sync")
        case sync: True
        then have "answer = Api_AdminSyncAccount (ae_driver ae) (ae_env ae) se r s" using answer by simp
        with sync_failure [of "ae_driver ae" "ae_env ae" se r s "fst answer" "snd answer"] show ?thesis
          using assms sync unfolding api d by simp
      qed (use admin_answer_clean [OF _ answer] assms(1) in \<open>simp add: api d clean_def\<close>)
    qed (simp add: dispatch_def None admin_only_def)
  next
    case (Some answer)
    then show "snd (dispatch ae se r ep now s) = s"
      using customer_answer_clean [OF Some] assms(1) by (simp add: api dispatch_def clean_def)
  qed
  then show ?thesis by (simp add: api)
qed (auto simp: api_def split: prod.split)

section \<open>Properties\<close>

text \<open>
  C7: Whatever an HTTP call does to the database is done in the name of its caller. A call leaves the database as it is, or the
  bearer token in its header was accepted and the database after the call is the result of at most two of the requests of the system, each of
  which carries the session's own user as customer or as acting administrator, the latter only if the session has that role;
  so the constraints of the database and the book of rentals are kept.
\<close>

theorem api_acts_as_session:
  assumes "valid_db s"
  shows "(snd (api ae r ep now s) = s \<or>
     (\<exists>se rqs. Auth (env_crypto (ae_env ae)) (env_secret (ae_env ae)) (HeaderValue r ''Authorization'') now s = Inr se \<and>
       length rqs \<le> 2 \<and> list_all (in_name_of se) rqs \<and> snd (api ae r ep now s) = fold (exec (ae_env ae) now) rqs s)) \<and>
    valid_db (snd (api ae r ep now s)) \<and> book_step\<^sup>*\<^sup>* (book s) (book (snd (api ae r ep now s)))"
proof -
  have kept: "valid_db (fold (exec env now) rqs s) \<and> book_step\<^sup>*\<^sup>* (book s) (book (fold (exec env now) rqs s))" for env rqs
    using assms
  proof (induction rqs arbitrary: s)
    case (Cons rq rqs)
    then show ?case using exec_valid_evolves [of s env now rq] exec_refines [of s env now rq]
      by (auto intro: rtranclp_trans)
  qed simp
  show ?thesis using api_effect [of ae r ep now s] kept [of "ae_env ae"] assms
    unfolding own_effect_def list_all_iff by (metis rtranclp.rtrancl_refl)
qed

text \<open>
  C8: An HTTP call that is answered with an error has changed nothing, whether it came with a session or to a public route. The one
  exception is the synchronization of an account that answers 502: it may have taken a banned account out of service.
\<close>

theorem api_errors_change_nothing:
  "(failed (fst (public_api ae r pe now s)) \<longrightarrow> snd (public_api ae r pe now s) = s) \<and>
   (failed (fst (api ae r ep now s)) \<and> (ep = POST_admin_account_sync \<longrightarrow> rep_Status (fst (api ae r ep now s)) \<noteq> 502) \<longrightarrow>
      snd (api ae r ep now s) = s)"
  using public_api_clean [of s ae r pe now] api_clean [of ae r ep now s] by (simp add: clean_def)

text \<open>
  C9: What a customer reads depends on the customer's own rows only. If two well-formed databases agree on the caller's row and on the
  caller's rentals, payments, ledger entries, refunds and deposits, however they differ otherwise, then the reads of balance, ledger, refunds,
  rentals and payments answer the same in both; only the refusal of a rental that is not the caller's may differ
  in telling whether it exists.
\<close>

theorem customer_reads_own_data:
  assumes auth: "Auth (env_crypto (ae_env ae)) (env_secret (ae_env ae)) (HeaderValue r ''Authorization'') now s = Inr se"
    and valid: "valid_db s" "valid_db t" and view: "same_view (se_UserID se) s t" and read: "private_read ep"
  shows "fst (api ae r ep now s) = fst (api ae r ep now t) \<or>
    ep = GET_rental \<and> failed (fst (api ae r ep now s)) \<and> failed (fst (api ae r ep now t))"
proof -
  have "api ae r ep now u = dispatch ae se r ep now u" if "u = s \<or> u = t" for u
    using that auth Auth_view [OF auth view] by (auto simp: api_def)
  then have api: "api ae r ep now s = dispatch ae se r ep now s" "api ae r ep now t = dispatch ae se r ep now t" by simp_all
  show ?thesis using read unfolding api
    by (cases ep) (use own_reads [OF view] own_pages [OF view] customer_rental_own [OF view valid] in \<open>simp_all add: dispatch_def\<close>)
qed

text \<open>
  C15: A payment provider's call changes the database only if it proves its origin. If HMAC-SHA256 gives 32 bytes, then a call of the webhook
  that changes anything has a body of at most 16 KiB, exactly one signature header with the lower-case hexadecimal code of that body
  under an acceptable secret, the media type application/json, and a body that decodes, with no name of a field written twice in exactly the same way, to a request; it is answered
  with 200, and what it has done is to process that request once.
\<close>

theorem webhook_endpoint:
  assumes mac: "\<And>m. length (hmac_sha256 (env_crypto (ae_env ae)) (ae_webhook_secret ae) m) = 32"
    and run: "public_api ae r (POST_payments_webhook body) now s = (rep, t)" "t \<noteq> s"
  shows "\<exists>msg req. body = Some msg \<and> length msg \<le> 16384 \<and> ValidateWebhookSecret (ae_webhook_secret ae) = None \<and>
    HeaderValues r ''X-Payment-Signature'' = [PaymentSignature (hmac_sha256 (env_crypto (ae_env ae))) (ae_webhook_secret ae) msg] \<and>
    ParseMediaType (HeaderValue r ''Content-Type'') = Some ''application/json'' \<and>
    \<not> rejectDuplicateWebhookFields (ae_json ae msg) \<and> decode_webhook (ae_json ae msg) = Some req \<and> rep_Status rep = 200 \<and>
    t = exec (ae_env ae) now (Pay_Webhook req (getClientIP r) (take 512 (HeaderValue r ''User-Agent''))) s"
proof -
  let ?mac = "hmac_sha256 (env_crypto (ae_env ae))" and ?secret = "ae_webhook_secret ae" and ?sigs = "HeaderValues r ''X-Payment-Signature''"
  have run': "Handler_Webhook (ae_env ae) ?secret (ae_json ae) r body now s = (rep, t)" using run(1) by simp
  obtain msg where msg: "body = Some msg" "length msg \<le> 16384" "msg \<noteq> []"
    using run' run(2) unfolding Handler_Webhook_def by (auto split: option.splits if_splits)
  have verified: "VerifySignature ?mac ?secret msg (case ?sigs of [v] \<Rightarrow> v | _ \<Rightarrow> [])"
    and media: "ParseMediaType (HeaderValue r ''Content-Type'') = Some ''application/json''"
    and unique: "\<not> rejectDuplicateWebhookFields (ae_json ae msg)"
    using run' run(2) msg unfolding Handler_Webhook_def Let_def by (simp_all split: if_splits)
  obtain req where req: "decode_webhook (ae_json ae msg) = Some req"
    using run' run(2) msg verified media unique unfolding Handler_Webhook_def Let_def by (cases "decode_webhook (ae_json ae msg)") simp_all
  obtain res u where process: "ProcessWebhook (env_inet (ae_env ae)) req (getClientIP r) (take 512 (HeaderValue r ''User-Agent'')) now s = (res, u)"
    by fastforce
  have outcome: "u = t \<and> rep_Status rep = 200"
    using run' run(2) msg verified media unique req process webhook_failure [of "env_inet (ae_env ae)" req "getClientIP r" "take 512 (HeaderValue r ''User-Agent'')" now s]
    unfolding Handler_Webhook_def Let_def by (cases res) (auto simp: reply_JSON_def)
  have signed: "ValidateWebhookSecret ?secret = None \<and> (case ?sigs of [v] \<Rightarrow> v | _ \<Rightarrow> []) = hex_encode (?mac ?secret msg)"
    using verified VerifySignature_iff [of ?mac ?secret msg, OF mac] by blast
  have "hex_encode (?mac ?secret msg) \<noteq> []" using mac [of msg] by (cases "?mac ?secret msg") auto
  then have "?sigs = [hex_encode (?mac ?secret msg)]" using signed by (auto split: list.splits)
  then show ?thesis using msg signed media unique req process outcome by (auto simp: PaymentSignature_def)
qed

section \<open>A sample environment\<close>

definition sample_crypto :: crypto where
  "sample_crypto = toy_crypto\<lparr>hmac_sha256 := (\<lambda>k m. take 32 (k @ m @ replicate 32 (CHR ''0'')))\<rparr>"

definition sample_env :: env where
  "sample_env = \<lparr>env_inet = (\<lambda>_. True), env_crypto = sample_crypto, env_encrypt = Inr, env_decrypt = Inr, env_pg_int = parse_int,
     env_steam = \<lparr>CheckVACBans = (\<lambda>s. Inr (Fake_CheckVACBans s)), GetOwnedGames = (\<lambda>s. Inr (Fake_GetOwnedGames s))\<rparr>,
     env_secret = ''key'', env_ttl = Hour\<rparr>"

definition sample_fields :: "(string \<times> json_value) list" where
  "sample_fields = [(''payment_id'', JString ''9''), (''rental_id'', JString ''7''), (''external_transaction_id'', JString ''tx-1''),
     (''provider'', JString ''internal''), (''amount'', JNumber ''80''), (''currency'', JString ''USD''), (''status'', JString ''success'')]"

definition sample_api :: api_env where
  "sample_api = \<lparr>ae_env = sample_env, ae_driver = (\<lambda>_. ''driver error''), ae_ilike = (=),
     ae_webhook_secret = ''0123456789abcdefghijklmnopqrstuvwxyz'', ae_json = (\<lambda>_. JSON (JObject sample_fields) False)\<rparr>"

text \<open>A customer's request about rental 7, and a call of the payment provider.\<close>

definition sample_request :: http_request where
  "sample_request = \<lparr>hr_PathValues = [(''rentalId'', ''7'')], hr_QueryValues = [],
     hr_Headers = [(''Authorization'', ''Bearer '' @ GenerateTokenWithRole sample_crypto 2 ''RENT'' (100 * Second) ''key'' 0)],
     hr_RemoteAddr = ''10.0.0.1:80''\<rparr>"

definition provider_request :: http_request where
  "provider_request = \<lparr>hr_PathValues = [], hr_QueryValues = [],
     hr_Headers = [(''X-Payment-Signature'', hex_encode ''0123456789abcdefghijklmnopqrstuv''), (''Content-Type'', ''application/json'')],
     hr_RemoteAddr = ''10.0.0.1:80''\<rparr>"

lemma sample_auth: "Auth (env_crypto (ae_env sample_api)) (env_secret (ae_env sample_api)) (HeaderValue sample_request ''Authorization'') Minute signed_db =
  Inr \<lparr>se_UserID = 2, se_Role = ''RENT''\<rparr>"
  by code_simp

lemma api_acts_as_session_witness:
  "snd (api sample_api sample_request POST_me_rental_pay Minute signed_db) \<noteq> signed_db \<and>
   (\<exists>se rqs. list_all (in_name_of se) rqs \<and> snd (api sample_api sample_request POST_me_rental_pay Minute signed_db) = fold (exec sample_env Minute) rqs signed_db)"
proof -
  have "ledger (snd (api sample_api sample_request POST_me_rental_pay Minute signed_db)) \<noteq> []" by code_simp
  moreover have "ledger signed_db = []" by (simp add: signed_db_def waiting_db_def)
  ultimately have changed: "snd (api sample_api sample_request POST_me_rental_pay Minute signed_db) \<noteq> signed_db" by metis
  moreover have "ae_env sample_api = sample_env" by (simp add: sample_api_def)
  ultimately show ?thesis
    using api_acts_as_session [OF signed_db_valid, of sample_api sample_request POST_me_rental_pay Minute] by metis
qed

lemma api_errors_change_nothing_witness:
  "rep_Status (fst (api sample_api sample_request POST_admin_deposit_release Minute signed_db)) = 403 \<and>
   snd (api sample_api sample_request POST_admin_deposit_release Minute signed_db) = signed_db"
proof -
  have "api sample_api sample_request POST_admin_deposit_release Minute signed_db =
      dispatch sample_api \<lparr>se_UserID = 2, se_Role = ''RENT''\<rparr> sample_request POST_admin_deposit_release Minute signed_db"
    by (simp add: api_def sample_auth)
  then have refused: "fst (api sample_api sample_request POST_admin_deposit_release Minute signed_db) = reply_Error 403 ''FORBIDDEN'' ''Admin access is required''"
    by (simp add: dispatch_def admin_only_def)
  then have "failed (fst (api sample_api sample_request POST_admin_deposit_release Minute signed_db))" by simp
  then show ?thesis
    using api_errors_change_nothing [of sample_api sample_request undefined Minute signed_db POST_admin_deposit_release] by (simp add: refused)
qed

text \<open>The customer's balance reads the same after the administrator has been credited.\<close>

definition richer_db :: db where
  "richer_db = signed_db\<lparr>users := [admin_row\<lparr>u_balance := 5\<rparr>, customer_row\<lparr>u_password_hash := ''#pw''\<rparr>]\<rparr>"

lemma customer_reads_own_data_witness:
  "fst (api sample_api sample_request GET_me_balance Minute signed_db) = fst (api sample_api sample_request GET_me_balance Minute richer_db)"
proof -
  have "valid_db richer_db" by code_simp
  moreover have "same_view 2 signed_db richer_db"
    by (simp add: same_view_def own_rental_def richer_db_def signed_db_def admin_row_def customer_row_def waiting_db_def)
  ultimately show ?thesis
    using customer_reads_own_data [OF sample_auth signed_db_valid, of richer_db GET_me_balance] by simp
qed

lemma webhook_endpoint_witness:
  "\<exists>req. decode_webhook (ae_json sample_api ''{..}'') = Some req \<and>
    snd (public_api sample_api provider_request (POST_payments_webhook (Some ''{..}'')) Minute waiting_db) =
      exec (ae_env sample_api) Minute (Pay_Webhook req (getClientIP provider_request) (take 512 (HeaderValue provider_request ''User-Agent''))) waiting_db"
proof -
  let ?answer = "public_api sample_api provider_request (POST_payments_webhook (Some ''{..}'')) Minute waiting_db"
  have "ledger (snd ?answer) \<noteq> []" by code_simp
  moreover have "ledger waiting_db = []" by (simp add: waiting_db_def)
  ultimately have changed: "snd ?answer \<noteq> waiting_db" by metis
  have "length (hmac_sha256 (env_crypto (ae_env sample_api)) (ae_webhook_secret sample_api) m) = 32" for m
    by (simp add: sample_api_def sample_env_def sample_crypto_def)
  from webhook_endpoint [where ae = sample_api, OF this surjective_pairing [of ?answer] changed] show ?thesis by auto
qed

text \<open>Two spellings of one field pass the test for repeated fields, and the decoder takes the second.\<close>

lemma field_given_twice:
  "let body = JSON (JObject [(''amount'', JNumber ''80''), (''Amount'', JNumber ''1'')]) False
   in \<not> rejectDuplicateWebhookFields body \<and> (\<exists>req. decode_webhook body = Some req \<and> req_Amount req = 1)"
proof -
  have "\<not> rejectDuplicateWebhookFields (JSON (JObject [(''amount'', JNumber ''80''), (''Amount'', JNumber ''1'')]) False)" by code_simp
  moreover have "map_option req_Amount (decode_webhook (JSON (JObject [(''amount'', JNumber ''80''), (''Amount'', JNumber ''1'')]) False)) = Some 1"
    by code_simp
  ultimately show ?thesis unfolding Let_def by auto
qed

end
