(* ===== verification/Community.thy ===== *)
theory Community
  imports Http_Base Sample
begin

text \<open>
  Reviews and notifications (src/internal/review, src/internal/notification and
  src/internal/api/handler_reviews_notifications.go): two tables of their own beside the database of the other components, whose rentals, users
  and accounts a review refers to.
\<close>

section \<open>Tables\<close>

record review_row =
  v_id :: int
  v_rental :: int
  v_user :: int
  v_account :: int
  v_rating :: int
  v_comment :: string
  v_created :: time

record notification_row =
  n_id :: int
  n_user :: int
  n_type :: int
  n_title :: string
  n_body :: string
  n_read :: bool
  n_sent :: "time option"
  n_created :: time

text \<open>The two tables beside the database that everything else works on; \<open>bd_next\<close> is the next id of a review.\<close>

record board =
  bd_db :: db
  bd_reviews :: "review_row list"
  bd_notifications :: "notification_row list"
  bd_next :: int

definition review_schema :: "review_row schema" where
  "review_schema = \<lparr>
     checks = (\<lambda>r. first_error
       [(CHR 0x00 \<in> set (v_comment r), PgError ''22021'' ''invalid byte sequence''),
        (v_rating r < 1 \<or> 5 < v_rating r, check_violation ''reviews_rating_check'')]),
     clash = (\<lambda>a b. first_error
       [(v_id a = v_id b, unique_violation ''reviews_pkey''),
        (v_rental a = v_rental b, unique_violation ''reviews_rental_id_key'')])\<rparr>"

definition foreign_key_violation :: "string \<Rightarrow> err" where
  "foreign_key_violation c = PgError ''23503'' c"

section \<open>Reviews\<close>

record Review =
  rev_ID :: int
  rev_UserID :: int
  rev_AccountID :: int
  rev_Rating :: int
  rev_Comment :: string
  rev_CreatedAt :: time

record CreateInput =
  ci_RentalID :: int
  ci_UserID :: int
  ci_AccountID :: int
  ci_Rating :: int
  ci_Comment :: string

text \<open>The references are checked after the row has been inserted.\<close>

definition Review_Repo_Create :: "CreateInput \<Rightarrow> (board, int) tx" where
  "Review_Repo_Create input =
     tx_bind (tx_read (\<lambda>b. (bd_next b, clock (bd_db b)))) (\<lambda>(i, now).
     tx_seq (insert_row bd_reviews bd_reviews_update review_schema
       \<lparr>v_id = i, v_rental = ci_RentalID input, v_user = ci_UserID input, v_account = ci_AccountID input, v_rating = ci_Rating input,
        v_comment = ci_Comment input, v_created = now\<rparr>)
    (tx_bind (tx_read bd_db) (\<lambda>s.
     tx_seq (fail_if (\<not> list_ex (\<lambda>r. r_id r = ci_RentalID input) (rentals s)) (foreign_key_violation ''reviews_rental_id_fkey''))
    (tx_seq (fail_if (\<not> list_ex (\<lambda>u. u_id u = ci_UserID input) (users s)) (foreign_key_violation ''reviews_user_id_fkey''))
    (tx_seq (fail_if (\<not> list_ex (\<lambda>a. a_id a = ci_AccountID input) (accounts s)) (foreign_key_violation ''reviews_account_id_fkey''))
    (\<lambda>b. Inr (i, b\<lparr>bd_next := bd_next b + 1\<rparr>)))))))"

definition Review_Repo_ListByAccount :: "int \<Rightarrow> (board, Review list) tx" where
  "Review_Repo_ListByAccount accountID = tx_read (\<lambda>b.
     map (\<lambda>v. \<lparr>rev_ID = v_id v, rev_UserID = v_user v, rev_AccountID = accountID, rev_Rating = v_rating v, rev_Comment = v_comment v,
        rev_CreatedAt = v_created v\<rparr>)
       (sort_key (\<lambda>v. - v_created v) (filter (\<lambda>v. v_account v = accountID) (bd_reviews b))))"

definition Review_Create :: "CreateInput \<Rightarrow> board \<Rightarrow> (err + int) \<times> board" where
  "Review_Create input = WithinTransaction (Review_Repo_Create input)"

definition Review_ListByAccount :: "int \<Rightarrow> (board, Review list) tx" where
  "Review_ListByAccount accountID = Review_Repo_ListByAccount accountID"

section \<open>Notifications\<close>

record Notification =
  ntf_ID :: int
  ntf_Type :: int
  ntf_Title :: string
  ntf_Body :: string
  ntf_Read :: bool
  ntf_CreatedAt :: time

definition Notification_Repo_ListByUser :: "int \<Rightarrow> (board, Notification list) tx" where
  "Notification_Repo_ListByUser userID = tx_read (\<lambda>b.
     map (\<lambda>n. \<lparr>ntf_ID = n_id n, ntf_Type = n_type n, ntf_Title = n_title n, ntf_Body = n_body n, ntf_Read = n_read n, ntf_CreatedAt = n_created n\<rparr>)
       (sort_key (\<lambda>n. - n_created n) (filter (\<lambda>n. n_user n = userID) (bd_notifications b))))"

definition Notification_Repo_MarkRead :: "int \<Rightarrow> int \<Rightarrow> (board, bool) tx" where
  "Notification_Repo_MarkRead notificationID userID = (\<lambda>b.
     let P = (\<lambda>n. n_id n = notificationID \<and> n_user n = userID)
     in Inr (length (filter P (bd_notifications b)) \<noteq> 0, b\<lparr>bd_notifications := upd P (\<lambda>n. n\<lparr>n_read := True\<rparr>) (bd_notifications b)\<rparr>))"

definition Notification_ListByUser :: "int \<Rightarrow> (board, Notification list) tx" where
  "Notification_ListByUser userID = Notification_Repo_ListByUser userID"

definition Notification_MarkRead :: "int \<Rightarrow> int \<Rightarrow> board \<Rightarrow> (err + bool) \<times> board" where
  "Notification_MarkRead notificationID userID = WithinTransaction (Notification_Repo_MarkRead notificationID userID)"

section \<open>The handlers\<close>

record createReviewRequest =
  cvr_AccountID :: int
  cvr_RentalID :: int
  cvr_Rating :: int
  cvr_Comment :: string

definition Api_CreateReview :: "(err \<Rightarrow> string) \<Rightarrow> session \<Rightarrow> createReviewRequest request_body \<Rightarrow> board \<Rightarrow> reply \<times> board" where
  "Api_CreateReview driver se body b =
     (let refusal = (reply_Error 422 ''VALIDATION_ERROR'' ''account_id, rental_id and rating 1..5 are required'', b)
      in case body of
           Undecodable m \<Rightarrow> refusal
         | Decoded req trailing \<Rightarrow>
             if cvr_AccountID req \<le> 0 \<or> cvr_RentalID req \<le> 0 \<or> cvr_Rating req < 1 \<or> 5 < cvr_Rating req then refusal
             else (case Review_Create \<lparr>ci_RentalID = cvr_RentalID req, ci_UserID = se_UserID se, ci_AccountID = cvr_AccountID req,
                 ci_Rating = cvr_Rating req, ci_Comment = cvr_Comment req\<rparr> b of
               (Inl e, c) \<Rightarrow> (reply_Error 409 ''REVIEW_FAILED'' (err_Error driver e), c)
             | (Inr i, c) \<Rightarrow> (reply_JSON 201 (DObj [(''id'', DInt i)]), c)))"

definition Api_ListAccountReviews :: "(err \<Rightarrow> string) \<Rightarrow> http_request \<Rightarrow> board \<Rightarrow> reply" where
  "Api_ListAccountReviews driver r b =
     (case pathID r ''accountId'' of
        Inl e \<Rightarrow> e
      | Inr accountID \<Rightarrow>
          (case Review_ListByAccount accountID b of
             Inl e \<Rightarrow> reply_Error 500 ''INTERNAL_ERROR'' (err_Error driver e)
           | Inr (items, _) \<Rightarrow> reply_JSON 200 (DObj [(''reviews'', DList (map (\<lambda>v. DObj [(''id'', DInt (rev_ID v)), (''user_id'', DInt (rev_UserID v)),
               (''account_id'', DInt (rev_AccountID v)), (''rating'', DInt (rev_Rating v)), (''comment'', DStr (rev_Comment v)),
               (''created_at'', DTime (rev_CreatedAt v))]) items))])))"

definition Api_ListMyNotifications :: "(err \<Rightarrow> string) \<Rightarrow> session \<Rightarrow> board \<Rightarrow> reply" where
  "Api_ListMyNotifications driver se b =
     (case Notification_ListByUser (se_UserID se) b of
        Inl e \<Rightarrow> reply_Error 500 ''INTERNAL_ERROR'' (err_Error driver e)
      | Inr (items, _) \<Rightarrow> reply_JSON 200 (DObj [(''notifications'', DList (map (\<lambda>n. DObj [(''id'', DInt (ntf_ID n)), (''type'', DInt (ntf_Type n)),
          (''title'', DStr (ntf_Title n)), (''body'', DStr (ntf_Body n)), (''read'', DBool (ntf_Read n)), (''created_at'', DTime (ntf_CreatedAt n))]) items))]))"

definition Api_MarkNotificationRead :: "session \<Rightarrow> http_request \<Rightarrow> board \<Rightarrow> reply \<times> board" where
  "Api_MarkNotificationRead se r b =
     (case pathID r ''notificationId'' of
        Inl e \<Rightarrow> (e, b)
      | Inr i \<Rightarrow>
          (case Notification_MarkRead i (se_UserID se) b of
             (Inr True, c) \<Rightarrow> (reply_JSON 200 (DObj [(''message'', DStr ''Notification marked as read'')]), c)
           | (_, c) \<Rightarrow> (reply_Error 404 ''NOT_FOUND'' ''Notification not found'', c)))"

section \<open>What the handlers do\<close>

text \<open>The constraints of the two tables and of the sequence.\<close>

definition valid_board :: "board \<Rightarrow> bool" where
  "valid_board b \<longleftrightarrow> valid_table review_schema (bd_reviews b) \<and> list_all (\<lambda>v. v_id v < bd_next b) (bd_reviews b) \<and>
     list_all (\<lambda>v. v_rental v \<in> r_id ` set (rentals (bd_db b)) \<and> v_user v \<in> u_id ` set (users (bd_db b)) \<and>
       v_account v \<in> a_id ` set (accounts (bd_db b))) (bd_reviews b)"

definition review_of :: "CreateInput \<Rightarrow> board \<Rightarrow> review_row" where
  "review_of input b = \<lparr>v_id = bd_next b, v_rental = ci_RentalID input, v_user = ci_UserID input, v_account = ci_AccountID input,
     v_rating = ci_Rating input, v_comment = ci_Comment input, v_created = clock (bd_db b)\<rparr>"

definition reviewable :: "CreateInput \<Rightarrow> board \<Rightarrow> bool" where
  "reviewable input b \<longleftrightarrow> CHR 0x00 \<notin> set (ci_Comment input) \<and> 1 \<le> ci_Rating input \<and> ci_Rating input \<le> 5 \<and>
     ci_RentalID input \<notin> v_rental ` set (bd_reviews b) \<and> ci_RentalID input \<in> r_id ` set (rentals (bd_db b)) \<and>
     ci_UserID input \<in> u_id ` set (users (bd_db b)) \<and> ci_AccountID input \<in> a_id ` set (accounts (bd_db b))"

lemma review_insert_ok:
  assumes "valid_board b"
  shows "insert_ok review_schema (review_of input b) (bd_reviews b) \<longleftrightarrow>
    CHR 0x00 \<notin> set (ci_Comment input) \<and> 1 \<le> ci_Rating input \<and> ci_Rating input \<le> 5 \<and> ci_RentalID input \<notin> v_rental ` set (bd_reviews b)"
proof -
  have "v_id v \<noteq> bd_next b" if "v \<in> set (bd_reviews b)" for v using assms that by (auto simp: valid_board_def list_all_iff)
  moreover have "ci_RentalID input \<notin> v_rental ` set (bd_reviews b) \<longleftrightarrow> (\<forall>v\<in>set (bd_reviews b). v_rental v \<noteq> ci_RentalID input)" by (metis imageE image_eqI)
  ultimately show ?thesis by (auto simp: insert_ok_def review_schema_def review_of_def)
qed

lemma list_ex_image: "list_ex (\<lambda>x. f x = y) xs \<longleftrightarrow> y \<in> f ` set xs"
  by (auto simp: list_ex_iff)

lemma Review_Create_ok:
  assumes "valid_board b"
  shows "Review_Create input b = (Inr i, c) \<longleftrightarrow> reviewable input b \<and> i = bd_next b \<and>
    c = b\<lparr>bd_reviews := bd_reviews b @ [review_of input b], bd_next := bd_next b + 1\<rparr>"
  using review_insert_ok [OF assms, of input] unfolding Review_Create_def WithinTransaction_ok Review_Repo_Create_def review_of_def [symmetric]
  by (auto simp: tx_inv review_of_def [symmetric] reviewable_def list_ex_image)

lemma Review_Create_error: "Review_Create input b = (Inl e, c) \<Longrightarrow> c = b"
  by (simp add: Review_Create_def WithinTransaction_error)

lemma created_review_valid:
  assumes valid: "valid_board b" and ok: "reviewable input b"
  shows "valid_board (b\<lparr>bd_reviews := bd_reviews b @ [review_of input b], bd_next := bd_next b + 1\<rparr>)"
proof -
  have "insert_ok review_schema (review_of input b) (bd_reviews b)" using review_insert_ok [OF valid] ok by (simp add: reviewable_def)
  then have "valid_table review_schema (bd_reviews b @ [review_of input b])"
    using valid by (auto simp: valid_board_def valid_table_def insert_ok_def sorted_wrt_append)
  then show ?thesis using valid ok by (auto simp: valid_board_def list_all_iff reviewable_def review_of_def)
qed

text \<open>
  C40: What the creation of a review checks, and what it does not. A signed-in user's request is answered 201 exactly if the ids are positive,
  the rating is between 1 and 5, the comment is storable, the rental has no review yet, and rental, user and account exist; then exactly the one
  review is added under the user's name, and otherwise nothing changes. Neither the renter of the rental nor its state nor its account
  play any part.
\<close>

theorem create_review:
  assumes valid: "valid_board b" and run: "Api_CreateReview driver se body b = (rep, c)"
  shows "(rep_Status rep = 201 \<longleftrightarrow> (\<exists>req trailing. body = Decoded req trailing \<and> 0 < cvr_AccountID req \<and> 0 < cvr_RentalID req \<and>
      1 \<le> cvr_Rating req \<and> cvr_Rating req \<le> 5 \<and> CHR 0x00 \<notin> set (cvr_Comment req) \<and>
      cvr_RentalID req \<notin> v_rental ` set (bd_reviews b) \<and> cvr_RentalID req \<in> r_id ` set (rentals (bd_db b)) \<and>
      se_UserID se \<in> u_id ` set (users (bd_db b)) \<and> cvr_AccountID req \<in> a_id ` set (accounts (bd_db b)))) \<and>
    (rep_Status rep = 201 \<longrightarrow> (\<exists>v. bd_reviews c = bd_reviews b @ [v] \<and> v_user v = se_UserID se \<and> v_id v = bd_next b)) \<and>
    (rep_Status rep \<noteq> 201 \<longrightarrow> c = b) \<and> valid_board c"
proof (cases body)
  case (Decoded req trailing)
  define input where "input = \<lparr>ci_RentalID = cvr_RentalID req, ci_UserID = se_UserID se, ci_AccountID = cvr_AccountID req,
    ci_Rating = cvr_Rating req, ci_Comment = cvr_Comment req\<rparr>"
  have api: "Api_CreateReview driver se body b =
      (if cvr_AccountID req \<le> 0 \<or> cvr_RentalID req \<le> 0 \<or> cvr_Rating req < 1 \<or> 5 < cvr_Rating req
       then (reply_Error 422 ''VALIDATION_ERROR'' ''account_id, rental_id and rating 1..5 are required'', b)
       else case Review_Create input b of
           (Inl e, c) \<Rightarrow> (reply_Error 409 ''REVIEW_FAILED'' (err_Error driver e), c)
         | (Inr i, c) \<Rightarrow> (reply_JSON 201 (DObj [(''id'', DInt i)]), c))"
    by (simp add: Api_CreateReview_def Decoded input_def)
  show ?thesis
  proof (cases "cvr_AccountID req \<le> 0 \<or> cvr_RentalID req \<le> 0 \<or> cvr_Rating req < 1 \<or> 5 < cvr_Rating req")
    case True
    then show ?thesis using run valid unfolding api by (auto simp: Decoded reply_Error_def)
  next
    case False
    then have "(case Review_Create input b of
        (Inl e, c) \<Rightarrow> (reply_Error 409 ''REVIEW_FAILED'' (err_Error driver e), c)
      | (Inr i, c) \<Rightarrow> (reply_JSON 201 (DObj [(''id'', DInt i)]), c)) = (rep, c)" using run unfolding api by simp
    then consider (ok) i where "Review_Create input b = (Inr i, c)" "rep = reply_JSON 201 (DObj [(''id'', DInt i)])"
      | (refused) e where "Review_Create input b = (Inl e, c)" "rep_Status rep = 409"
      by (auto simp: reply_Error_def split: prod.splits sum.splits)
    then show ?thesis
    proof cases
      case ok
      have "reviewable input b" "c = b\<lparr>bd_reviews := bd_reviews b @ [review_of input b], bd_next := bd_next b + 1\<rparr>"
        using ok(1) unfolding Review_Create_ok [OF valid] by simp_all
      then show ?thesis using False ok(2) created_review_valid [OF valid, of input]
        by (simp add: Decoded reply_JSON_def reviewable_def input_def review_of_def)
    next
      case refused
      have "\<not> reviewable input b"
        using refused(1) Review_Create_ok [OF valid, of input "bd_next b", THEN iffD2] by fastforce
      then show ?thesis using False refused(2) Review_Create_error [OF refused(1)] valid
        by (auto simp: Decoded reviewable_def input_def)
    qed
  qed
qed (use run valid in \<open>auto simp: Api_CreateReview_def reply_Error_def\<close>)

text \<open>User 1, who never rented, reviews the rental that still waits for its payment.\<close>

lemma create_review_witness:
  "\<exists>rep c. Api_CreateReview (\<lambda>_. []) \<lparr>se_UserID = 1, se_Role = ''ADMIN''\<rparr>
      (Decoded \<lparr>cvr_AccountID = 5, cvr_RentalID = 7, cvr_Rating = 1, cvr_Comment = ''bad''\<rparr> False)
      \<lparr>bd_db = waiting_db, bd_reviews = [], bd_notifications = [], bd_next = 1\<rparr> = (rep, c) \<and> rep_Status rep = 201 \<and>
    map r_user (rentals waiting_db) = [2] \<and> map v_user (bd_reviews c) = [1]"
proof -
  let ?b = "\<lparr>bd_db = waiting_db, bd_reviews = [], bd_notifications = [], bd_next = 1\<rparr>"
  obtain rep c where run: "Api_CreateReview (\<lambda>_. []) \<lparr>se_UserID = 1, se_Role = ''ADMIN''\<rparr>
      (Decoded \<lparr>cvr_AccountID = 5, cvr_RentalID = 7, cvr_Rating = 1, cvr_Comment = ''bad''\<rparr> False) ?b = (rep, c)" by fastforce
  have "valid_board ?b" by (simp add: valid_board_def valid_table_def)
  from create_review [OF this run] show ?thesis using run by (auto simp: sample_defs)
qed

section \<open>Notifications\<close>

text \<open>
  A notification is marked by its owner only: the request is answered 200 exactly if the caller has a notification of that id; it
  changes nothing but the mark of that one, so what every other user sees stays the same.
\<close>

theorem mark_notification_read:
  assumes run: "Api_MarkNotificationRead se r b = (rep, c)"
  shows "(rep_Status rep = 200 \<longleftrightarrow> (\<exists>n\<in>set (bd_notifications b). n_user n = se_UserID se \<and> pathID r ''notificationId'' = Inr (n_id n))) \<and>
    (\<forall>uid. uid \<noteq> se_UserID se \<longrightarrow> Notification_ListByUser uid c = Inr (fst (projr (Notification_ListByUser uid b)), c)) \<and>
    map (\<lambda>n. n\<lparr>n_read := True\<rparr>) (bd_notifications c) = map (\<lambda>n. n\<lparr>n_read := True\<rparr>) (bd_notifications b) \<and>
    bd_reviews c = bd_reviews b \<and> bd_db c = bd_db b"
proof (cases "pathID r ''notificationId''")
  case (Inl e)
  then have "rep_Status rep \<noteq> 200" "c = b"
    using run by (auto simp: Api_MarkNotificationRead_def pathID_def reply_Error_def split: option.splits if_splits)
  then show ?thesis by (simp add: Inl Notification_ListByUser_def Notification_Repo_ListByUser_def tx_read_def)
next
  case (Inr i)
  define P where "P n \<longleftrightarrow> n_id n = i \<and> n_user n = se_UserID se" for n :: notification_row
  have c: "c = b\<lparr>bd_notifications := upd P (\<lambda>n. n\<lparr>n_read := True\<rparr>) (bd_notifications b)\<rparr>"
    and rep: "rep_Status rep = 200 \<longleftrightarrow> filter P (bd_notifications b) \<noteq> []"
    using run unfolding Api_MarkNotificationRead_def Inr Notification_MarkRead_def WithinTransaction_def Notification_Repo_MarkRead_def P_def Let_def
    by (auto simp: reply_Error_def reply_JSON_def split: if_splits bool.splits)
  have other: "filter (\<lambda>n. n_user n = uid) (upd P (\<lambda>n. n\<lparr>n_read := True\<rparr>) ns) = filter (\<lambda>n. n_user n = uid) ns" if "uid \<noteq> se_UserID se" for uid and ns :: "notification_row list"
    using that by (induction ns) (auto simp: P_def)
  have marks: "map (\<lambda>n. n\<lparr>n_read := True\<rparr>) (upd P (\<lambda>n. n\<lparr>n_read := True\<rparr>) ns) = map (\<lambda>n. n\<lparr>n_read := True\<rparr>) ns" for ns :: "notification_row list"
    by (induction ns) simp_all
  show ?thesis using rep other marks
    by (auto simp: c Inr Notification_ListByUser_def Notification_Repo_ListByUser_def tx_read_def filter_empty_conv P_def)
qed

lemma mark_notification_read_witness:
  "let n = \<lparr>n_id = 3, n_user = 2, n_type = 1, n_title = ''t'', n_body = ''b'', n_read = False, n_sent = None, n_created = 0\<rparr>;
       b = \<lparr>bd_db = waiting_db, bd_reviews = [], bd_notifications = [n], bd_next = 1\<rparr>;
       r = \<lparr>hr_PathValues = [(''notificationId'', ''3'')], hr_QueryValues = [], hr_Headers = [], hr_RemoteAddr = []\<rparr>
   in rep_Status (fst (Api_MarkNotificationRead \<lparr>se_UserID = 2, se_Role = ''RENT''\<rparr> r b)) = 200 \<and>
      rep_Status (fst (Api_MarkNotificationRead \<lparr>se_UserID = 1, se_Role = ''ADMIN''\<rparr> r b)) \<noteq> 200"
proof -
  let ?r = "\<lparr>hr_PathValues = [(''notificationId'', ''3'')], hr_QueryValues = [], hr_Headers = [], hr_RemoteAddr = []\<rparr>"
  have "pathID ?r ''notificationId'' = Inr 3" by code_simp
  then show ?thesis
    using mark_notification_read [OF surjective_pairing, of "\<lparr>se_UserID = 2, se_Role = ''RENT''\<rparr>" ?r]
      mark_notification_read [OF surjective_pairing, of "\<lparr>se_UserID = 1, se_Role = ''ADMIN''\<rparr>" ?r]
    unfolding Let_def by simp
qed

end
