(* ===== verification/Games.thy ===== *)
theory Games
  imports Http_Handlers Sample
begin

text \<open>
  The catalogue of games (src/internal/game: repository_postgres.go, service_postgres.go, validator.go, handler.go). The pattern match and the
  order of texts of PostgreSQL are parameters.
\<close>

section \<open>The repository of games\<close>

abbreviation (input) ErrGameNotFound :: err where "ErrGameNotFound \<equiv> ErrText ''game not found''"

text \<open>A DATE keeps the day of the time (the server's zone is UTC).\<close>

definition pg_date :: "time \<Rightarrow> time" where
  "pg_date t = t - t mod (24 * Hour)"

definition stored_game :: "Game \<Rightarrow> game_row" where
  "stored_game g = (row_of_game g)\<lparr>gm_release := map_option pg_date (gm_ReleaseDate g)\<rparr>"

definition CreateGame :: "Game \<Rightarrow> (db, unit) tx" where
  "CreateGame g = insert_row games games_update game_schema (stored_game g)"

definition Repo_GetGameByID :: "int \<Rightarrow> (db, Game) tx" where
  "Repo_GetGameByID i = no_rows_as ErrGameNotFound (query_row (\<lambda>s. map game_of_row (filter (\<lambda>g. gm_id g = i) (games s))))"

text \<open>An application id that no INTEGER can hold is refused before the query.\<close>

definition GetGameBySteamAppID :: "int \<Rightarrow> (db, Game) tx" where
  "GetGameBySteamAppID app =
     tx_seq (fail_if (\<not> is_i32 app) (PgError ''22003'' ''integer''))
       (no_rows_as ErrGameNotFound (query_row (\<lambda>s. map game_of_row (filter (\<lambda>g. gm_app g = app) (games s)))))"

definition UpdateGame :: "Game \<Rightarrow> (db, unit) tx" where
  "UpdateGame g =
     tx_bind (update_table games games_update game_schema (\<lambda>x. gm_id x = gm_ID g)
       (\<lambda>x. (stored_game g)\<lparr>gm_id := gm_id x, gm_created := gm_created x\<rparr>)) (\<lambda>_. tx_return ())"

text \<open>
  \<open>ilike\<close> is the pattern match of PostgreSQL and \<open>collate\<close> the rank of a name in the database's order of texts; rows of
  one name come in the order of the table.
\<close>

definition ListGamesRows :: "(string \<Rightarrow> string \<Rightarrow> bool) \<Rightarrow> (string \<Rightarrow> int) \<Rightarrow> string \<Rightarrow> db \<Rightarrow> game_row list" where
  "ListGamesRows ilike collate search s =
     sort_key (\<lambda>g. collate (gm_name g)) (filter (\<lambda>g. search = [] \<or> ilike (gm_name g) (''%'' @ search @ ''%'')) (games s))"

definition Repo_ListGames :: "(string \<Rightarrow> string \<Rightarrow> bool) \<Rightarrow> (string \<Rightarrow> int) \<Rightarrow> int \<Rightarrow> int \<Rightarrow> string \<Rightarrow> (db, Game list) tx" where
  "Repo_ListGames ilike collate limit offset search =
     tx_bind (tx_read (\<lambda>s. page_of limit offset (map game_of_row (ListGamesRows ilike collate search s)))) lift_result"

section \<open>The service\<close>

definition Game_ListGames :: "(string \<Rightarrow> string \<Rightarrow> bool) \<Rightarrow> (string \<Rightarrow> int) \<Rightarrow> int \<Rightarrow> int \<Rightarrow> string \<Rightarrow> (db, Game list \<times> int) tx" where
  "Game_ListGames ilike collate page pageSize search =
     (let page = (if page < 1 then 1 else page); pageSize = (if pageSize < 1 then 20 else pageSize);
          offset = i64 (i64 (page - 1) * pageSize)
      in tx_bind (Repo_ListGames ilike collate pageSize offset search) (\<lambda>found.
         let n = i64 (offset + int (length found))
         in tx_return (found, if int (length found) = pageSize then i64 (n + 1) else n)))"

definition Game_GetGameByID :: "int \<Rightarrow> (db, Game) tx" where
  "Game_GetGameByID i = Repo_GetGameByID i"

section \<open>The endpoints\<close>

record Game_QueryParams =
  gqp_Page :: int
  gqp_PageSize :: int
  gqp_Search :: string

text \<open>The digits of a number, computed in 64 bits; any other character is an error.\<close>

fun digits_value :: "int \<Rightarrow> string \<Rightarrow> int option" where
  "digits_value res [] = Some res"
| "digits_value res (c # cs) = (if is_digit c then digits_value (i64 (i64 (res * 10) + int (digit_val c))) cs else None)"

definition parsePositiveInt :: "string \<Rightarrow> int option" where
  "parsePositiveInt s = digits_value 0 s"

definition Game_ParseAndValidateQueryParams :: "(string \<Rightarrow> string) \<Rightarrow> Game_QueryParams" where
  "Game_ParseAndValidateQueryParams q =
     (let page = (if q ''page'' = [] then 1 else case parsePositiveInt (q ''page'') of Some p \<Rightarrow> if 0 < p then p else 1 | None \<Rightarrow> 1);
          pageSize = (if q ''page_size'' = [] then 20
             else case parsePositiveInt (q ''page_size'') of Some ps \<Rightarrow> if 0 < ps then (if 100 < ps then 100 else ps) else 20 | None \<Rightarrow> 20)
      in \<lparr>gqp_Page = page, gqp_PageSize = pageSize, gqp_Search = q ''search''\<rparr>)"

definition game_response :: "Game \<Rightarrow> dto" where
  "game_response g = DObj [(''id'', DInt (gm_ID g)), (''steam_app_id'', DInt (gm_SteamAppID g)), (''name'', DStr (gm_Name g)),
     (''header_image'', DStr (gm_HeaderImage g))]"

definition texts_dto :: "string list \<Rightarrow> dto" where
  "texts_dto xs = DList (map DStr xs)"

definition game_dto :: "Game \<Rightarrow> dto" where
  "game_dto g = DObj [(''id'', DInt (gm_ID g)), (''steam_app_id'', DInt (gm_SteamAppID g)), (''name'', DStr (gm_Name g)),
     (''short_description'', DStr (gm_ShortDescription g)), (''header_image'', DStr (gm_HeaderImage g)),
     (''release_date'', DOpt DTime (gm_ReleaseDate g)), (''developers'', texts_dto (gm_Developers g)), (''publishers'', texts_dto (gm_Publishers g)),
     (''genres'', texts_dto (gm_Genres g)), (''created_at'', DTime (gm_CreatedAt g)), (''updated_at'', DTime (gm_UpdatedAt g))]"

definition Handler_ListGames :: "(string \<Rightarrow> string \<Rightarrow> bool) \<Rightarrow> (string \<Rightarrow> int) \<Rightarrow> http_request \<Rightarrow> db \<Rightarrow> reply" where
  "Handler_ListGames ilike collate r s =
     (let params = Game_ParseAndValidateQueryParams (QueryValue r)
      in case Game_ListGames ilike collate (gqp_Page params) (gqp_PageSize params) (gqp_Search params) s of
           Inl e \<Rightarrow> reply_Error 500 ''INTERNAL_ERROR'' ''Failed to retrieve game catalog''
         | Inr ((found, items), _) \<Rightarrow> reply_JSON 200 (DObj [(''games'', DList (map game_response found)),
             (''pagination'', DObj [(''page'', DInt (gqp_Page params)), (''page_size'', DInt (gqp_PageSize params)), (''total_items'', DInt items),
                (''total_pages'', DInt (page_count items (gqp_PageSize params)))])]))"

definition Handler_GetGame :: "http_request \<Rightarrow> db \<Rightarrow> reply" where
  "Handler_GetGame r s =
     (case parse_int (PathValue r ''gameId'') of
        None \<Rightarrow> reply_Error 400 ''INVALID_REQUEST'' ''Invalid game ID format''
      | Some i \<Rightarrow> (case Game_GetGameByID i s of
          Inl e \<Rightarrow> reply_Error 404 ''NOT_FOUND'' ''Game not found''
        | Inr (g, _) \<Rightarrow> reply_JSON 200 (game_dto g)))"

section \<open>Properties of the catalogue\<close>

lemma Game_ListGames_run:
  assumes "1 \<le> page" "1 \<le> psize" "is_i64 ((page - 1) * psize)" "is_i64 (page - 1)"
    and rows: "rows = ListGamesRows ilike collate search s" and found: "found = take (nat psize) (drop (nat ((page - 1) * psize)) rows)"
    and fits: "(page - 1) * psize + psize + 1 \<le> 9223372036854775807"
  shows "Game_ListGames ilike collate page psize search s = Inr ((map game_of_row found,
    (if int (length found) = psize then page * psize + 1 else (page - 1) * psize + int (length found))), s)"
proof -
  let ?off = "(page - 1) * psize"
  have off: "i64 (i64 (page - 1) * psize) = ?off" using assms(3,4) by simp
  have pos: "0 \<le> ?off" using assms(1,2) by simp
  have len: "int (length found) \<le> psize" unfolding found using assms(2) by simp
  have "- 9223372036854775808 \<le> ?off + int (length found)" "?off + int (length found) + 1 \<le> 9223372036854775807" using pos len fits by linarith+
  then have sum: "i64 (?off + int (length found)) = ?off + int (length found)" "i64 (?off + int (length found) + 1) = ?off + int (length found) + 1"
    by (simp_all add: is_i64_def)
  define n where "n = int (length found)"
  have n: "i64 (?off + n) = ?off + n" "i64 (?off + n + 1) = ?off + n + 1" "int (length found) = n"
    using sum by (simp_all add: n_def)
  have pe: "page * psize = ?off + psize" by (simp add: algebra_simps)
  have page: "page_of psize ?off (map game_of_row rows) = Inr (map game_of_row found)"
    using assms(2) pos by (simp add: page_of_def found take_map drop_map)
  have norm: "(if page < 1 then 1 else page) = page" "(if psize < 1 then 20 else psize) = psize" using assms(1,2) by simp_all
  show ?thesis
    unfolding Game_ListGames_def norm Let_def off Repo_ListGames_def tx_bind_def tx_read_def lift_result_def tx_return_def rows [symmetric] page
    by (cases "n = psize") (use n(1,2) in \<open>simp_all add: n(3) pe\<close>)
qed

text \<open>
  A page of the catalogue is the requested section of the games that match, in the order of their names. The reported number
  of games is right only on the last page and when exactly one more game follows: a full page reports one game more than it reaches, however many follow.
\<close>

theorem games_page:
  assumes "1 \<le> page" "1 \<le> psize" "psize \<le> 100" "page \<le> 10 ^ 15" and rows: "rows = ListGamesRows ilike collate search s"
  shows "\<exists>items. Game_ListGames ilike collate page psize search s =
      Inr ((map game_of_row (take (nat psize) (drop (nat ((page - 1) * psize)) rows)), items), s) \<and>
    (items = int (length rows) \<longleftrightarrow>
      (page - 1) * psize \<le> int (length rows) \<and> int (length rows) < page * psize \<or> int (length rows) = page * psize + 1)"
proof -
  let ?off = "(page - 1) * psize" and ?found = "take (nat psize) (drop (nat ((page - 1) * psize)) rows)"
  have off: "0 \<le> ?off" "page * psize = ?off + psize" using assms(1,2) by (simp_all add: algebra_simps)
  have "?off \<le> (10 ^ 15) * 100" using assms by (intro mult_mono) auto
  then have bounds: "is_i64 ?off" "is_i64 (page - 1)" "?off + psize + 1 \<le> 9223372036854775807"
    using assms(1-4) unfolding is_i64_def by (simp_all add: order_trans [OF _ off(1)])
  note run = Game_ListGames_run [OF assms(1,2) bounds(1,2) rows refl bounds(3)]
  define found where "found = ?found"
  define L where "L = int (length rows)"
  have len: "int (length found) = (if L \<le> ?off then 0 else if L \<le> ?off + psize then L - ?off else psize)"
  proof -
    obtain o' z where n: "?off = int o'" "psize = int z" using zero_le_imp_eq_int [OF off(1)] zero_le_imp_eq_int [of psize] assms(2) by auto
    have "length found = min (length rows - o') z" unfolding found_def n(1) by (simp add: n(2))
    then show ?thesis unfolding L_def unfolding n(1) unfolding n(2) by (auto simp: min_def)
  qed
  have "(if int (length found) = psize then page * psize + 1 else ?off + int (length found)) = L \<longleftrightarrow>
      ?off \<le> L \<and> L < page * psize \<or> L = page * psize + 1"
    unfolding off(2) len using assms(2) by auto
  then show ?thesis using run unfolding found_def [symmetric] L_def by blast
qed

lemma games_page_witness:
  "\<exists>items. Game_ListGames (\<lambda>_ _. True) (\<lambda>_. 0) 1 20 [] waiting_db = Inr (([], items), waiting_db)"
  using games_page [of 1 20 "ListGamesRows (\<lambda>_ _. True) (\<lambda>_. 0) [] waiting_db" "\<lambda>_ _. True" "\<lambda>_. 0" "[]" waiting_db]
  by (auto simp: ListGamesRows_def waiting_db_def)

end
