(* ===== verification/Steam_Client.thy ===== *)
theory Steam_Client
  imports Workers
begin

text \<open>
  The client of the Steam Web API (src/internal/game/steam_client.go): the requests with their retries, and the two calls that the synchronization
  of accounts makes. The network, the random jitter and the decoder of JSON are parameters.
\<close>

section \<open>The client of the Steam Web API\<close>

text \<open>
  What the network does: the answer to each request, a failure or a status with a body; the random jitter of each wait; and whether the
  context has been cancelled before a request or while waiting after one.
\<close>

record steam_world =
  sw_answer :: "nat \<Rightarrow> err + int \<times> string"
  sw_jitter :: "nat \<Rightarrow> duration"
  sw_cancelled :: "nat \<Rightarrow> err option"
  sw_interrupted :: "nat \<Rightarrow> err option"

abbreviation (input) Millisecond :: duration where "Millisecond \<equiv> 1000000"

definition retry_delay :: "steam_world \<Rightarrow> nat \<Rightarrow> duration" where
  "retry_delay w attempt =
     (let delay = 100 * Millisecond * 2 ^ attempt + sw_jitter w attempt in if 5 * (1000 * Millisecond) < delay then 5 * (1000 * Millisecond) else delay)"

definition final_status :: "int \<Rightarrow> bool" where
  "final_status status \<longleftrightarrow> status = 200 \<or> 400 \<le> status \<and> status < 500 \<and> status \<noteq> 429"

text \<open>The result with the delays that were waited; the loop has \<open>n\<close> attempts left, and \<open>lastErr\<close> is why the last one failed.\<close>

fun retry_loop :: "steam_world \<Rightarrow> nat \<Rightarrow> nat \<Rightarrow> err \<Rightarrow> (err + int \<times> string) \<times> duration list" where
  "retry_loop w attempt 0 lastErr = (Inl (Wrapf ''steam api call failed after 5 retries'' lastErr), [])"
| "retry_loop w attempt (Suc n) lastErr =
     (case sw_cancelled w attempt of
        Some e \<Rightarrow> (Inl e, [])
      | None \<Rightarrow>
          (let again = (\<lambda>e. case sw_interrupted w attempt of
               Some c \<Rightarrow> (Inl c, [])
             | None \<Rightarrow> (let (result, delays) = retry_loop w (attempt + 1) n e in (result, retry_delay w attempt # delays)))
           in case sw_answer w attempt of
                Inl e \<Rightarrow> again e
              | Inr (status, body) \<Rightarrow>
                  if final_status status then (Inr (status, body), []) else again (ErrText (''HTTP status '' @ format_int status))))"

definition executeWithRetry :: "steam_world \<Rightarrow> (err + int \<times> string) \<times> duration list" where
  "executeWithRetry w = retry_loop w 0 5 ErrNoRows"

text \<open>
  The answers are JSON texts: \<open>decode_games\<close> gives the application id, the name and the playtime of each game, \<open>decode_bans\<close>
  the VAC ban of each player, or the decoder's error. \<open>bad_url\<close> is the complaint about the configured address, if it is not one.
\<close>

record steam_config =
  sg_bad_url :: "err option"
  sg_decode_games :: "string \<Rightarrow> err + (int \<times> string \<times> int) list"
  sg_decode_bans :: "string \<Rightarrow> err + bool list"

definition steam_call :: "steam_config \<Rightarrow> steam_world \<Rightarrow> string \<Rightarrow> string \<Rightarrow> err + string" where
  "steam_call cfg w name steamID64 =
     (if steamID64 = [] then Inl (ErrText ''steamID64 cannot be empty'')
      else case sg_bad_url cfg of
             Some e \<Rightarrow> Inl e
           | None \<Rightarrow>
               (case fst (executeWithRetry w) of
                  Inl e \<Rightarrow> Inl e
                | Inr (status, body) \<Rightarrow>
                    if status \<noteq> 200 then Inl (ErrText (''unexpected status code '' @ format_int status @ '' from Steam Web API '' @ name)) else Inr body))"

definition Steam_GetOwnedGames :: "steam_config \<Rightarrow> steam_world \<Rightarrow> string \<Rightarrow> err + AccountGameSyncInfo list" where
  "Steam_GetOwnedGames cfg w steamID64 =
     (case steam_call cfg w ''GetOwnedGames'' steamID64 of
        Inl e \<Rightarrow> Inl e
      | Inr body \<Rightarrow>
          (case sg_decode_games cfg body of
             Inl e \<Rightarrow> Inl (Wrapf ''failed to decode Steam GetOwnedGames response'' e)
           | Inr gs \<Rightarrow> Inr (map (\<lambda>(app, name, playtime). \<lparr>gs_StoreGameID = format_int app, gs_Name = name, gs_PlaytimeMinutes = playtime\<rparr>) gs)))"

definition Steam_CheckVACBans :: "steam_config \<Rightarrow> steam_world \<Rightarrow> string \<Rightarrow> err + bool" where
  "Steam_CheckVACBans cfg w steamID64 =
     (case steam_call cfg w ''GetPlayerBans'' steamID64 of
        Inl e \<Rightarrow> Inl e
      | Inr body \<Rightarrow>
          (case sg_decode_bans cfg body of
             Inl e \<Rightarrow> Inl (Wrapf ''failed to decode Steam GetPlayerBans response'' e)
           | Inr [] \<Rightarrow> Inl (ErrText (''no player records returned for steamid: '' @ steamID64))
           | Inr (banned # _) \<Rightarrow> Inr banned))"

section \<open>Properties of the client\<close>

definition settled :: "err + int \<times> string \<Rightarrow> bool" where
  "settled a = (case a of Inl e \<Rightarrow> False | Inr (status, body) \<Rightarrow> final_status status)"

text \<open>The loop goes on after attempt \<open>k\<close>.\<close>

definition goes_on :: "steam_world \<Rightarrow> nat \<Rightarrow> bool" where
  "goes_on w k \<longleftrightarrow> sw_cancelled w k = None \<and> \<not> settled (sw_answer w k) \<and> sw_interrupted w k = None"

lemma retry_step:
  "retry_loop w a (Suc n) e =
     (if sw_cancelled w a \<noteq> None then (Inl (the (sw_cancelled w a)), [])
      else if settled (sw_answer w a) then (Inr (projr (sw_answer w a)), [])
      else if sw_interrupted w a \<noteq> None then (Inl (the (sw_interrupted w a)), [])
      else let e' = (case sw_answer w a of Inl e \<Rightarrow> e | Inr (status, body) \<Rightarrow> ErrText (''HTTP status '' @ format_int status))
           in (fst (retry_loop w (a + 1) n e'), retry_delay w a # snd (retry_loop w (a + 1) n e')))"
  by (auto simp: settled_def Let_def split: option.split sum.split prod.split)

lemma retry_delays: "\<exists>m\<le>n. snd (retry_loop w a n e) = map (\<lambda>k. retry_delay w k) [a..<a + m] \<and> (\<forall>k<m. goes_on w (a + k))"
proof (induction n arbitrary: a e)
  case (Suc n)
  show ?case
  proof (cases "goes_on w a")
    case True
    define e' where "e' = (case sw_answer w a of Inl e \<Rightarrow> e | Inr (status, body) \<Rightarrow> ErrText (''HTTP status '' @ format_int status))"
    have step: "snd (retry_loop w a (Suc n) e) = retry_delay w a # snd (retry_loop w (a + 1) n e')"
      using True unfolding retry_step goes_on_def by (simp add: e'_def Let_def)
    obtain m where m: "m \<le> n" "snd (retry_loop w (a + 1) n e') = map (\<lambda>k. retry_delay w k) [a + 1..<a + 1 + m]" "\<forall>k<m. goes_on w (a + 1 + k)"
      using Suc.IH by blast
    have "goes_on w (a + k)" if "k < Suc m" for k using that True m(3) by (cases k) auto
    moreover have "map (\<lambda>k. retry_delay w k) [a..<a + Suc m] = retry_delay w a # map (\<lambda>k. retry_delay w k) [a + 1..<a + 1 + m]"
      by (subst upt_conv_Cons) simp_all
    ultimately show ?thesis using m(1) unfolding step m(2) by (intro exI [of _ "Suc m"]) (simp del: upt_Suc)
  next
    case False
    then have "snd (retry_loop w a (Suc n) e) = []" unfolding retry_step goes_on_def by auto
    then show ?thesis by (intro exI [of _ 0]) simp
  qed
qed simp

lemma retry_answer:
  "fst (retry_loop w a n e) = Inr answer \<longleftrightarrow>
     (\<exists>k<n. sw_cancelled w (a + k) = None \<and> sw_answer w (a + k) = Inr answer \<and> settled (Inr answer) \<and> (\<forall>j<k. goes_on w (a + j)))"
proof (induction n arbitrary: a e)
  case (Suc n)
  have shift: "(\<exists>k<Suc n. P k) \<longleftrightarrow> P 0 \<or> (\<exists>k<n. P (Suc k))" for P by (metis Suc_less_eq less_Suc_eq_0_disj zero_less_Suc)
  have all: "(\<forall>j<Suc k. Q j) \<longleftrightarrow> Q 0 \<and> (\<forall>j<k. Q (Suc j))" for Q and k :: nat by (metis Suc_less_eq less_Suc_eq_0_disj zero_less_Suc)
  show ?case
  proof (cases "goes_on w a")
    case True
    then show ?thesis unfolding retry_step goes_on_def shift all using Suc.IH by (auto simp: Let_def goes_on_def)
  next
    case False
    then show ?thesis unfolding retry_step shift all by (auto simp: goes_on_def settled_def split: sum.splits)
  qed
qed simp

text \<open>
  C33: A call of the Steam Web API ends after at most five requests and a bounded time. With jitters in the range that is drawn, wait k is between 100
  and 110 milliseconds times 2^k, and all waits together take at most 3.41 seconds. The call has an answer exactly if one of the five
  requests got a final one (200, or a refusal other than 429) and all before it failed without the context being cancelled.
\<close>

theorem steam_retries:
  assumes jitter: "\<And>k. 0 \<le> sw_jitter w k \<and> sw_jitter w k \<le> 10000000 * 2 ^ k" and run: "executeWithRetry w = (result, delays)"
  shows "length delays \<le> 5 \<and> (\<forall>k<length delays. 100000000 * 2 ^ k \<le> delays ! k \<and> delays ! k \<le> 110000000 * 2 ^ k) \<and>
    sum_list delays \<le> 3410000000 \<and>
    (\<forall>answer. result = Inr answer \<longleftrightarrow> (\<exists>k<5. sw_cancelled w k = None \<and> sw_answer w k = Inr answer \<and> final_status (fst answer) \<and>
       (\<forall>j<k. goes_on w j)))"
proof -
  obtain m where m: "m \<le> 5" "delays = map (\<lambda>k. retry_delay w k) [0..<m]"
    using retry_delays [where w = w and a = 0 and n = 5 and e = ErrNoRows] run unfolding executeWithRetry_def by auto
  have delay: "100000000 * 2 ^ k \<le> retry_delay w k \<and> retry_delay w k \<le> 110000000 * 2 ^ k" if "k < 5" for k
  proof -
    have "(2::int) ^ k \<le> 2 ^ 4" using that by (intro power_increasing) auto
    then show ?thesis using jitter [of k] unfolding retry_delay_def Let_def by auto
  qed
  have "sum_list delays \<le> sum_list (map (\<lambda>k. 110000000 * 2 ^ k) [0..<m])"
    unfolding m(2) using m(1) delay by (intro sum_list_mono) auto
  also have "\<dots> \<le> sum_list (map (\<lambda>k. 110000000 * 2 ^ k) [0..<5])"
  proof -
    have "[0..<5] = [0..<m] @ [m..<5]" using m(1) upt_add_eq_append [of 0 m "5 - m"] by simp
    moreover have "0 \<le> sum_list (map (\<lambda>k. 110000000 * 2 ^ k :: int) [m..<5])" by (intro sum_list_nonneg) auto
    ultimately show ?thesis by simp
  qed
  also have "\<dots> = (3410000000 :: int)" by (simp add: upt_rec numeral_eq_Suc)
  finally have "sum_list delays \<le> 3410000000" .
  moreover have "result = Inr answer \<longleftrightarrow> (\<exists>k<5. sw_cancelled w k = None \<and> sw_answer w k = Inr answer \<and> final_status (fst answer) \<and>
       (\<forall>j<k. goes_on w j))" for answer
    using retry_answer [where w = w and a = 0 and n = 5 and e = ErrNoRows and answer = answer] run unfolding executeWithRetry_def
    by (cases answer) (simp add: settled_def)
  ultimately show ?thesis using m delay by auto
qed

text \<open>The network fails twice, once with a failure and once with the status 503, and then answers.\<close>

definition flaky :: steam_world where
  "flaky = \<lparr>sw_answer = (\<lambda>k. if k = 0 then Inl (ErrText ''timeout'') else if k = 1 then Inr (503, []) else Inr (200, ''ok'')), sw_jitter = (\<lambda>_. 0),
     sw_cancelled = (\<lambda>_. None), sw_interrupted = (\<lambda>_. None)\<rparr>"

lemma steam_retries_witness: "fst (executeWithRetry flaky) = Inr (200, ''ok'') \<and> sum_list (snd (executeWithRetry flaky)) \<le> 3410000000"
proof -
  have "0 \<le> sw_jitter flaky k \<and> sw_jitter flaky k \<le> 10000000 * 2 ^ k" for k by (simp add: flaky_def)
  from steam_retries [OF this surjective_pairing]
  have "sum_list (snd (executeWithRetry flaky)) \<le> 3410000000"
    "fst (executeWithRetry flaky) = Inr (200, ''ok'') \<longleftrightarrow> (\<exists>k<5. sw_cancelled flaky k = None \<and> sw_answer flaky k = Inr (200, ''ok'') \<and> final_status 200 \<and>
       (\<forall>j<k. goes_on flaky j))" by auto
  moreover have "goes_on flaky j" if "j < 2" for j using that by (auto simp: goes_on_def settled_def final_status_def flaky_def)
  ultimately show ?thesis by (auto simp: flaky_def final_status_def intro!: exI [of _ 2])
qed

end
