(* ===== verification/Rate_Limiter.thy ===== *)
theory Rate_Limiter
  imports Http_Base
begin

text \<open>
  The rate limiter before sign-up, sign-in and refresh (src/internal/shared/middleware/rate_limiter.go): a token bucket per key, and what
  a key is. The mutex makes every call one step.
\<close>

section \<open>Token buckets\<close>

text \<open>
  The arithmetic of float64 is a parameter: the seconds of a duration, sum, difference and product, the comparisons
  \<open>>\<close> and \<open>>=\<close>, and the constant 1.
\<close>

record 'f arith =
  ar_seconds :: "duration \<Rightarrow> 'f"
  ar_add :: "'f \<Rightarrow> 'f \<Rightarrow> 'f"
  ar_sub :: "'f \<Rightarrow> 'f \<Rightarrow> 'f"
  ar_mul :: "'f \<Rightarrow> 'f \<Rightarrow> 'f"
  ar_gt :: "'f \<Rightarrow> 'f \<Rightarrow> bool"
  ar_ge :: "'f \<Rightarrow> 'f \<Rightarrow> bool"
  ar_one :: 'f

record 'f TokenBucket =
  tb_rate :: 'f
  tb_capacity :: 'f
  tb_tokens :: 'f
  tb_lastRefilled :: time

record 'f RateLimiter =
  rl_buckets :: "string \<rightharpoonup> 'f TokenBucket"
  rl_rate :: 'f
  rl_capacity :: 'f

definition NewRateLimiter :: "'f \<Rightarrow> 'f \<Rightarrow> 'f RateLimiter" where
  "NewRateLimiter rate capacity = \<lparr>rl_buckets = Map.empty, rl_rate = rate, rl_capacity = capacity\<rparr>"

text \<open>One round of \<open>cleanupLoop\<close>.\<close>

definition cleanup :: "time \<Rightarrow> 'f RateLimiter \<Rightarrow> 'f RateLimiter" where
  "cleanup now rl = rl\<lparr>rl_buckets := (\<lambda>ip. case rl_buckets rl ip of
     None \<Rightarrow> None
   | Some b \<Rightarrow> if 10 * Minute < time_sub now (tb_lastRefilled b) then None else Some b)\<rparr>"

definition Allow :: "'f arith \<Rightarrow> string \<Rightarrow> time \<Rightarrow> 'f RateLimiter \<Rightarrow> bool \<times> 'f RateLimiter" where
  "Allow ar ip now rl =
     (let bucket = (case rl_buckets rl ip of
            Some b \<Rightarrow> b
          | None \<Rightarrow> \<lparr>tb_rate = rl_rate rl, tb_capacity = rl_capacity rl, tb_tokens = rl_capacity rl, tb_lastRefilled = now\<rparr>);
          elapsed = ar_seconds ar (time_sub now (tb_lastRefilled bucket));
          tokens = ar_add ar (tb_tokens bucket) (ar_mul ar elapsed (tb_rate bucket));
          tokens = (if ar_gt ar tokens (tb_capacity bucket) then tb_capacity bucket else tokens);
          allowed = ar_ge ar tokens (ar_one ar);
          bucket = bucket\<lparr>tb_lastRefilled := now, tb_tokens := (if allowed then ar_sub ar tokens (ar_one ar) else tokens)\<rparr>
      in (allowed, rl\<lparr>rl_buckets := (rl_buckets rl)(ip \<mapsto> bucket)\<rparr>))"

text \<open>The key of a request: the header, or the address of the connection with its port.\<close>

definition limit_key :: "http_request \<Rightarrow> string" where
  "limit_key r = (if HeaderValue r ''X-Forwarded-For'' \<noteq> [] then HeaderValue r ''X-Forwarded-For'' else hr_RemoteAddr r)"

definition RateLimit :: "'f arith \<Rightarrow> http_request \<Rightarrow> time \<Rightarrow> (unit \<Rightarrow> reply \<times> 's) \<Rightarrow> 's \<Rightarrow> 'f RateLimiter \<Rightarrow> (reply \<times> 's) \<times> 'f RateLimiter" where
  "RateLimit ar r now answer s rl =
     (let (allowed, rl) = Allow ar (limit_key r) now rl
      in (if allowed then answer () else (reply_Error 429 ''TOO_MANY_REQUESTS'' ''Rate limit exceeded. Please try again later.'', s), rl))"

section \<open>Bursts\<close>

text \<open>The answers to requests that arrive at one moment, one after the other.\<close>

fun burst :: "'f arith \<Rightarrow> time \<Rightarrow> string list \<Rightarrow> 'f RateLimiter \<Rightarrow> bool list" where
  "burst ar now [] rl = []"
| "burst ar now (ip # ips) rl = (let (allowed, rl) = Allow ar ip now rl in allowed # burst ar now ips rl)"

text \<open>
  What IEEE arithmetic gives for the small whole numbers \<open>k\<close> that a bucket of capacity \<open>n\<close> goes through: subtracting one is exact,
  comparing with one and with the capacity is right, and adding a product with zero seconds changes nothing.
\<close>

definition exact_small :: "'f arith \<Rightarrow> (nat \<Rightarrow> 'f) \<Rightarrow> nat \<Rightarrow> 'f \<Rightarrow> bool" where
  "exact_small ar num n rate \<longleftrightarrow>
     (\<forall>k<n. ar_sub ar (num (Suc k)) (ar_one ar) = num k \<and> ar_ge ar (num (Suc k)) (ar_one ar)) \<and> \<not> ar_ge ar (num 0) (ar_one ar) \<and>
     (\<forall>k\<le>n. \<not> ar_gt ar (num k) (num n) \<and> ar_add ar (num k) (ar_mul ar (ar_seconds ar 0) rate) = num k)"

lemma Allow_same_moment:
  assumes exact: "exact_small ar num n rate" and k: "k \<le> n"
    and bucket: "rl_buckets rl ip = Some \<lparr>tb_rate = rate, tb_capacity = num n, tb_tokens = num k, tb_lastRefilled = now\<rparr>"
  shows "Allow ar ip now rl = (0 < k, rl\<lparr>rl_buckets := (rl_buckets rl)(ip \<mapsto>
    \<lparr>tb_rate = rate, tb_capacity = num n, tb_tokens = num (k - 1), tb_lastRefilled = now\<rparr>)\<rparr>)"
  using assms unfolding exact_small_def Allow_def by (cases k) (simp_all add: time_sub_def Let_def)

lemma Allow_fresh:
  assumes exact: "exact_small ar num n rate" and rl: "rl_rate rl = rate" "rl_capacity rl = num n" "rl_buckets rl ip = None" and n: "0 < n"
  shows "Allow ar ip now rl = (True, rl\<lparr>rl_buckets := (rl_buckets rl)(ip \<mapsto>
    \<lparr>tb_rate = rate, tb_capacity = num n, tb_tokens = num (n - 1), tb_lastRefilled = now\<rparr>)\<rparr>)"
  using assms unfolding exact_small_def Allow_def by (cases n) (simp_all add: time_sub_def Let_def)

lemma burst_one_key:
  assumes exact: "exact_small ar num n rate"
  shows "k \<le> n \<Longrightarrow> rl_buckets rl ip = Some \<lparr>tb_rate = rate, tb_capacity = num n, tb_tokens = num k, tb_lastRefilled = now\<rparr> \<Longrightarrow>
    burst ar now (replicate m ip) rl = map (\<lambda>i. i < k) [0..<m]"
proof (induction m arbitrary: k rl)
  case (Suc m)
  have "burst ar now (replicate m ip) (rl\<lparr>rl_buckets := (rl_buckets rl)(ip \<mapsto>
      \<lparr>tb_rate = rate, tb_capacity = num n, tb_tokens = num (k - 1), tb_lastRefilled = now\<rparr>)\<rparr>) = map (\<lambda>i. i < k - 1) [0..<m]"
    using Suc.prems by (intro Suc.IH) simp_all
  also have "\<dots> = map ((\<lambda>i. i < k) \<circ> Suc) [0..<m]" by auto
  finally show ?case
    using Allow_same_moment [OF exact Suc.prems] by (simp add: map_upt_Suc comp_def del: upt_Suc)
qed simp

lemma burst_fresh_keys:
  assumes exact: "exact_small ar num n rate" and n: "0 < n"
  shows "rl_rate rl = rate \<Longrightarrow> rl_capacity rl = num n \<Longrightarrow> distinct ips \<Longrightarrow> (\<And>ip. ip \<in> set ips \<Longrightarrow> rl_buckets rl ip = None) \<Longrightarrow>
    burst ar now ips rl = replicate (length ips) True"
proof (induction ips arbitrary: rl)
  case (Cons ip ips)
  show ?case using Allow_fresh [OF exact _ _ _ n, of rl ip now] Cons by (auto intro!: Cons.IH)
qed simp

text \<open>
  C0: What the limiter limits. In arithmetic that is exact on small whole numbers, of any number of requests that arrive under one fresh key at
  one moment exactly the first \<open>n\<close> pass, \<open>n\<close> the capacity; but the key is the header X-Forwarded-For as the client wrote it, or the address
  with the port of the connection, and requests under fresh keys pass without any limit.
\<close>

theorem rate_limit_burst:
  assumes exact: "exact_small ar num n rate" and n: "0 < n"
  shows "burst ar now (replicate m ip) (NewRateLimiter rate (num n)) = map (\<lambda>i. i < n) [0..<m] \<and>
    (distinct (map limit_key rs) \<longrightarrow> burst ar now (map limit_key rs) (NewRateLimiter rate (num n)) = replicate (length rs) True)"
proof
  let ?rl = "NewRateLimiter rate (num n)"
  have new: "rl_rate ?rl = rate" "rl_capacity ?rl = num n" "rl_buckets ?rl x = None" for x by (simp_all add: NewRateLimiter_def)
  show "burst ar now (replicate m ip) ?rl = map (\<lambda>i. i < n) [0..<m]"
  proof (cases m)
    case (Suc j)
    have "burst ar now (replicate j ip) (?rl\<lparr>rl_buckets := (rl_buckets ?rl)(ip \<mapsto>
        \<lparr>tb_rate = rate, tb_capacity = num n, tb_tokens = num (n - 1), tb_lastRefilled = now\<rparr>)\<rparr>) = map (\<lambda>i. i < n - 1) [0..<j]"
      by (rule burst_one_key [OF exact]) simp_all
    also have "\<dots> = map ((\<lambda>i. i < n) \<circ> Suc) [0..<j]" by auto
    finally show ?thesis using Allow_fresh [OF exact new n, of ip now] n by (simp add: Suc map_upt_Suc comp_def del: upt_Suc)
  qed simp
  show "distinct (map limit_key rs) \<longrightarrow> burst ar now (map limit_key rs) ?rl = replicate (length rs) True"
    using burst_fresh_keys [OF exact n new(1,2), of "map limit_key rs" now] new(3) by simp
qed

definition whole_arith :: "int arith" where
  "whole_arith = \<lparr>ar_seconds = (\<lambda>d. quot d 1000000000), ar_add = (+), ar_sub = (-), ar_mul = (*), ar_gt = (>), ar_ge = (\<ge>), ar_one = 1\<rparr>"

lemma rate_limit_burst_witness:
  "burst whole_arith 0 (replicate 12 ''10.0.0.1:80'') (NewRateLimiter 5 10) = replicate 10 True @ [False, False]"
proof -
  have "exact_small whole_arith int 10 5" by (auto simp: exact_small_def whole_arith_def quot_def)
  from rate_limit_burst [OF this, of 0 12 "''10.0.0.1:80''" "[]"]
  have "burst whole_arith 0 (replicate 12 ''10.0.0.1:80'') (NewRateLimiter 5 10) = map (\<lambda>i. i < 10) [0..<12]" by simp
  then show ?thesis by (simp add: upt_rec numeral_eq_Suc)
qed

end
