(* ===== verification/Transport.thy ===== *)
theory Transport
  imports Http_Base
begin

text \<open>
  Around the handlers: the writer of a response (src/internal/pkg/transport/http/response), the middlewares of
  src/internal/pkg/transport/http/middleware, and what their chain makes of a handler (\<open>chain_answers\<close>).
\<close>

section \<open>Responses\<close>

text \<open>
  What a handler has written: the headers, the status that was sent, the chunks of the body, and what the
  \<open>ResponseWriter\<close>s of src/internal/pkg/transport/http/response/writer.go around it have recorded, the innermost first.
\<close>

datatype chunk = Rendered reply_body | Complaint string string | Plain string

record response =
  rsp_Header :: "(string \<times> string) list"
  rsp_Status :: "int option"
  rsp_Body :: "chunk list"
  rsp_Recorded :: "int list"

definition empty_response :: response where
  "empty_response = \<lparr>rsp_Header = [], rsp_Status = None, rsp_Body = [], rsp_Recorded = []\<rparr>"

datatype outcome = Returned | Panicked string

definition set_header :: "string \<Rightarrow> string \<Rightarrow> (string \<times> string) list \<Rightarrow> (string \<times> string) list" where
  "set_header k v hs = (k, v) # filter (\<lambda>h. fst h \<noteq> k) hs"

text \<open>
  The writer of net/http: headers count until the status is sent, the first status is sent and later ones are ignored,
  an informational one is sent at once and does not count, and a body without a status sends 200.
\<close>

definition Header_Set :: "string \<Rightarrow> string \<Rightarrow> response \<Rightarrow> response" where
  "Header_Set k v w = (if rsp_Status w = None then w\<lparr>rsp_Header := set_header k v (rsp_Header w)\<rparr> else w)"

definition net_WriteHeader :: "int \<Rightarrow> response \<Rightarrow> outcome \<times> response" where
  "net_WriteHeader statusCode w =
     (if rsp_Status w \<noteq> None then (Returned, w)
      else if statusCode < 100 \<or> 999 < statusCode then (Panicked (''invalid WriteHeader code '' @ format_int statusCode), w)
      else if statusCode < 200 \<and> statusCode \<noteq> 101 then (Returned, w)
      else (Returned, w\<lparr>rsp_Status := Some statusCode\<rparr>))"

definition Write :: "chunk \<Rightarrow> response \<Rightarrow> response" where
  "Write c w =
     (let status = (case rsp_Status w of None \<Rightarrow> 200 | Some n \<Rightarrow> n)
      in w\<lparr>rsp_Status := Some status, rsp_Body := (if status \<in> {101, 204, 304} then rsp_Body w else rsp_Body w @ [c])\<rparr>)"

text \<open>\<open>ResponseWriter.WriteHeader\<close> passes the status on, and then records it; a wrapper inside another calls that one.\<close>

definition StatusCodeUninitialized :: int where "StatusCodeUninitialized = -1"

definition NewResponseWriter :: "response \<Rightarrow> response" where
  "NewResponseWriter w = w\<lparr>rsp_Recorded := StatusCodeUninitialized # rsp_Recorded w\<rparr>"

definition WriteHeader :: "int \<Rightarrow> response \<Rightarrow> outcome \<times> response" where
  "WriteHeader statusCode w =
     (case net_WriteHeader statusCode w of
        (Panicked p, w) \<Rightarrow> (Panicked p, w)
      | (Returned, w) \<Rightarrow> (Returned, w\<lparr>rsp_Recorded := map (\<lambda>_. statusCode) (rsp_Recorded w)\<rparr>))"

definition GetStatusCodeOrPanic :: "response \<Rightarrow> string + int" where
  "GetStatusCodeOrPanic w = (let n = hd (rsp_Recorded w) in if n = StatusCodeUninitialized then Inl ''no status code set'' else Inr n)"

definition GetStatusCode :: "response \<Rightarrow> int" where
  "GetStatusCode w = (let n = hd (rsp_Recorded w) in if n = StatusCodeUninitialized then 200 else n)"

definition drop_writer :: "response \<Rightarrow> response" where
  "drop_writer w = w\<lparr>rsp_Recorded := tl (rsp_Recorded w)\<rparr>"

text \<open>A handler, seen from the writer: a sequence of calls, which a panic of the writer cuts short.\<close>

datatype act = Sets string string | Sends int | Writes chunk

fun perform :: "act list \<Rightarrow> response \<Rightarrow> outcome \<times> response" where
  "perform [] w = (Returned, w)"
| "perform (Sets k v # acts) w = perform acts (Header_Set k v w)"
| "perform (Sends n # acts) w = (case WriteHeader n w of (Returned, w) \<Rightarrow> perform acts w | (Panicked p, w) \<Rightarrow> (Panicked p, w))"
| "perform (Writes c # acts) w = perform acts (Write c w)"

text \<open>\<open>response.JSON\<close> and \<open>response.Error\<close> of src/internal/shared/response/response.go\<close>

definition send_reply :: "reply \<Rightarrow> act list" where
  "send_reply rep = map (\<lambda>(k, v). Sets k v) (rep_Headers rep) @ [Sends (rep_Status rep), Writes (Rendered (rep_Body rep))]"

section \<open>The response handler\<close>

text \<open>src/internal/pkg/transport/http/response/handler.go, with the errors of src/internal/pkg/errors/common.go.\<close>

datatype fault = pkg_ErrNotFound | pkg_ErrInvalidArgument | pkg_ErrConflict | Cause string | Around string fault

fun fault_Is :: "fault \<Rightarrow> fault \<Rightarrow> bool" where
  "fault_Is (Around m e) target = (Around m e = target \<or> fault_Is e target)"
| "fault_Is e target = (e = target)"

fun fault_Error :: "fault \<Rightarrow> string" where
  "fault_Error pkg_ErrNotFound = ''not found''"
| "fault_Error pkg_ErrInvalidArgument = ''invalid argument''"
| "fault_Error pkg_ErrConflict = ''conflict''"
| "fault_Error (Cause m) = m"
| "fault_Error (Around m e) = m @ '': '' @ fault_Error e"

definition JSONResponse :: "chunk \<Rightarrow> int \<Rightarrow> act list" where
  "JSONResponse responseBody statusCode = [Sends statusCode, Writes responseBody]"

definition NoContentResponse :: "act list" where
  "NoContentResponse = [Sends 204]"

definition errorResponse :: "int \<Rightarrow> fault \<Rightarrow> string \<Rightarrow> act list" where
  "errorResponse statusCode e msg = JSONResponse (Complaint msg (fault_Error e)) statusCode"

definition ErrorResponse :: "fault \<Rightarrow> string \<Rightarrow> act list" where
  "ErrorResponse e msg =
     errorResponse (if fault_Is e pkg_ErrInvalidArgument then 400 else if fault_Is e pkg_ErrNotFound then 404
        else if fault_Is e pkg_ErrConflict then 409 else 500) e msg"

definition PanicResponse :: "string \<Rightarrow> string \<Rightarrow> act list" where
  "PanicResponse p msg = errorResponse 500 (Cause (''unexpected panic: '' @ p)) msg"

text \<open>src/internal/pkg/transport/http/utils: numbers in the path and in the query. The complaint of \<open>strconv.Atoi\<close> is a parameter.\<close>

definition quoted :: "string \<Rightarrow> string" where "quoted s = [CHR 0x27] @ s @ [CHR 0x27]"

definition GetIntPathValue :: "(string \<Rightarrow> string) \<Rightarrow> http_request \<Rightarrow> string \<Rightarrow> fault + int" where
  "GetIntPathValue complaint r key =
     (let pathValue = PathValue r key
      in if pathValue = [] then Inl (Around (''no key='' @ quoted key @ '' in path values'') pkg_ErrInvalidArgument)
         else case parse_int pathValue of
                Some n \<Rightarrow> Inr n
              | None \<Rightarrow> Inl (Around (''path value='' @ quoted pathValue @ '' by key='' @ quoted key @ '' not a valid integer: '' @ complaint pathValue)
                  pkg_ErrInvalidArgument))"

definition GetIntQueryParam :: "(string \<Rightarrow> string) \<Rightarrow> http_request \<Rightarrow> string \<Rightarrow> fault + int option" where
  "GetIntQueryParam complaint r key =
     (let param = QueryValue r key
      in if param = [] then Inr None
         else case parse_int param of
                Some n \<Rightarrow> Inr (Some n)
              | None \<Rightarrow> Inl (Around (''param '' @ param @ '' by key'' @ quoted key @ '' not a valid integer: '' @ complaint param) pkg_ErrInvalidArgument))"

section \<open>Middlewares\<close>

text \<open>
  A request as the server sees it: the method, the escaped path, the URL, the body if it could be read, the parts that handlers
  read, and the fields of the logger in its context, if there is one.
\<close>

record server_request =
  sq_Method :: string
  sq_Path :: string
  sq_URL :: string
  sq_Body :: "string option"
  sq_http :: http_request
  sq_log :: "(string \<times> string) option"

text \<open>The state of the program, with the counter \<open>http_requests_total\<close> as the list of the labels it was increased for.\<close>

record 's monitored =
  mon_state :: 's
  mon_requests :: "(string \<times> string \<times> string) list"

type_synonym 's handler = "server_request \<Rightarrow> 's monitored \<Rightarrow> response \<Rightarrow> outcome \<times> 's monitored \<times> response"
type_synonym 's middleware = "'s handler \<Rightarrow> 's handler"

definition ChainMiddleware :: "'s handler \<Rightarrow> 's middleware list \<Rightarrow> 's handler" where
  "ChainMiddleware h m = (if m = [] then h else foldr (\<lambda>f h. f h) m h)"

definition with_header :: "string \<Rightarrow> string \<Rightarrow> server_request \<Rightarrow> server_request" where
  "with_header k v r = r\<lparr>sq_http := (sq_http r)\<lparr>hr_Headers := set_header k v (hr_Headers (sq_http r))\<rparr>\<rparr>"

definition RequestID :: "string \<Rightarrow> 's middleware" where
  "RequestID uuid next r s w =
     (let requestID = HeaderValue (sq_http r) ''X-Request-ID'';
          requestID = (if requestID = [] then uuid else requestID)
      in next (with_header ''X-Request-ID'' requestID r) s (Header_Set ''X-Request-ID'' requestID w))"

definition Logger :: "'s middleware" where
  "Logger next r s w = next (r\<lparr>sq_log := Some (HeaderValue (sq_http r) ''X-Request-ID'', sq_URL r)\<rparr>) s w"

definition Panic :: "'s middleware" where
  "Panic next r s w =
     (if sq_log r = None then (Panicked ''no logger in context'', s, w)
      else case next r s w of
             (Returned, s, w) \<Rightarrow> (Returned, s, w)
           | (Panicked p, s, w) \<Rightarrow>
               (let (oc, w) = perform (PanicResponse p ''during handle HTTP request go unexpected panic'') w in (oc, s, w)))"

definition Trace :: "'s middleware" where
  "Trace next r s w =
     (if sq_log r = None then (Panicked ''no logger in context'', s, w)
      else case next r s (NewResponseWriter w) of
             (Panicked p, s, w) \<Rightarrow> (Panicked p, s, drop_writer w)
           | (Returned, s, w) \<Rightarrow>
               (case GetStatusCodeOrPanic w of
                  Inl p \<Rightarrow> (Panicked p, s, drop_writer w)
                | Inr _ \<Rightarrow> (Returned, s, drop_writer w)))"

text \<open>\<open>url.PathUnescape\<close>, as the router uses it: a segment with a malformed escape stays as it is.\<close>

fun unescape :: "string \<Rightarrow> string option" where
  "unescape [] = Some []"
| "unescape (c # s) =
     (if c \<noteq> CHR ''%'' then map_option ((#) c) (unescape s)
      else case s of
             x # y # s' \<Rightarrow> (case (hex_val x, hex_val y) of
                (Some a, Some b) \<Rightarrow> map_option ((#) (char_of (16 * a + b))) (unescape s') | _ \<Rightarrow> None)
           | _ \<Rightarrow> None)"

definition pathUnescape :: "string \<Rightarrow> string" where
  "pathUnescape s = (case unescape s of None \<Rightarrow> s | Some t \<Rightarrow> t)"

text \<open>
  \<open>WithLabelValues\<close> of a Prometheus counter panics at a label that the library refuses: \<open>label_panic\<close> is its message for a label, if it refuses it. The labels are looked at in
  their order. \<open>Metrics\<close> stands outside of \<open>Panic\<close>, so that this panic cuts the connection.
\<close>

definition WithLabelValues :: "(string \<Rightarrow> string option) \<Rightarrow> string list \<Rightarrow> string option" where
  "WithLabelValues label_panic labels = (case filter (\<lambda>l. label_panic l \<noteq> None) labels of [] \<Rightarrow> None | l # _ \<Rightarrow> label_panic l)"

definition Metrics :: "(string \<Rightarrow> string option) \<Rightarrow> 's middleware" where
  "Metrics label_panic next r s w =
     (let path = pathUnescape (sq_Path r)
      in if path \<in> set [''/metrics'', ''/healthz'', ''/health/live'', ''/health/ready''] then next r s w
         else case next r s (NewResponseWriter w) of
                (Panicked p, s, w) \<Rightarrow> (Panicked p, s, drop_writer w)
              | (Returned, s, w) \<Rightarrow>
                  (let statusStr = format_int (GetStatusCode w)
                   in case WithLabelValues label_panic [sq_Method r, path, statusStr] of
                        Some p \<Rightarrow> (Panicked p, s, drop_writer w)
                      | None \<Rightarrow> (Returned, s\<lparr>mon_requests := mon_requests s @ [(sq_Method r, path, statusStr)]\<rparr>, drop_writer w)))"

text \<open>The order of src/internal/modules/app.go: the first is the outermost.\<close>

definition server_middleware :: "string \<Rightarrow> (string \<Rightarrow> string option) \<Rightarrow> 's middleware list" where
  "server_middleware uuid label_panic = [RequestID uuid, Metrics label_panic, Logger, Trace, Panic]"

section \<open>What the middlewares make of a handler\<close>

text \<open>A handler given by what it does with a request: its calls of the writer, whether it returns, and the state it leaves.\<close>

definition handler_of :: "(server_request \<Rightarrow> 's \<Rightarrow> act list \<times> outcome \<times> 's) \<Rightarrow> 's handler" where
  "handler_of app r s w =
     (let (acts, oc, st) = app r (mon_state s); (wo, w) = perform acts w
      in ((case wo of Panicked p \<Rightarrow> Panicked p | Returned \<Rightarrow> oc), s\<lparr>mon_state := st\<rparr>, w))"

definition codes :: "act list \<Rightarrow> int list" where
  "codes acts = concat (map (\<lambda>a. case a of Sends n \<Rightarrow> [n] | _ \<Rightarrow> []) acts)"

definition final_codes :: "act list \<Rightarrow> bool" where
  "final_codes acts \<longleftrightarrow> (\<forall>n\<in>set (codes acts). 200 \<le> n \<and> n \<le> 599)"

lemma codes_simps [simp]:
  "codes [] = []" "codes (Sets k v # acts) = codes acts" "codes (Sends n # acts) = n # codes acts" "codes (Writes c # acts) = codes acts"
  "codes (acts @ acts') = codes acts @ codes acts'"
  by (simp_all add: codes_def)

lemma final_codes_simps [simp]:
  "final_codes []" "final_codes (Sets k v # acts) = final_codes acts" "final_codes (Writes c # acts) = final_codes acts"
  "final_codes (Sends n # acts) \<longleftrightarrow> 200 \<le> n \<and> n \<le> 599 \<and> final_codes acts"
  "final_codes (acts @ acts') \<longleftrightarrow> final_codes acts \<and> final_codes acts'"
  by (auto simp: final_codes_def)

text \<open>The wrappers watch the calls and change nothing of the response.\<close>

lemma WriteHeader_final:
  "200 \<le> n \<Longrightarrow> n \<le> 599 \<Longrightarrow> WriteHeader n w =
     (Returned, w\<lparr>rsp_Status := (case rsp_Status w of None \<Rightarrow> Some n | Some m \<Rightarrow> Some m), rsp_Recorded := map (\<lambda>_. n) (rsp_Recorded w)\<rparr>)"
  by (cases w) (auto simp: WriteHeader_def net_WriteHeader_def split: option.split)

lemma recorded_commutes:
  "Header_Set k v (w\<lparr>rsp_Recorded := rs\<rparr>) = (Header_Set k v w)\<lparr>rsp_Recorded := rs\<rparr>"
  "Write c (w\<lparr>rsp_Recorded := rs\<rparr>) = (Write c w)\<lparr>rsp_Recorded := rs\<rparr>"
  by (simp_all add: Header_Set_def Write_def Let_def)

lemma perform_recorded:
  "final_codes acts \<Longrightarrow> perform acts (w\<lparr>rsp_Recorded := rs\<rparr>) =
     (Returned, (snd (perform acts (w\<lparr>rsp_Recorded := []\<rparr>)))\<lparr>rsp_Recorded := (if codes acts = [] then rs else map (\<lambda>_. last (codes acts)) rs)\<rparr>)"
proof (induction acts arbitrary: w rs)
  case (Cons a acts)
  show ?case
  proof (cases a)
    case (Sends n)
    then have n: "200 \<le> n" "n \<le> 599" "final_codes acts" using Cons.prems by simp_all
    let ?v = "w\<lparr>rsp_Status := (case rsp_Status w of None \<Rightarrow> Some n | Some m \<Rightarrow> Some m)\<rparr>"
    have "perform (a # acts) (w\<lparr>rsp_Recorded := us\<rparr>) = perform acts (?v\<lparr>rsp_Recorded := map (\<lambda>_. n) us\<rparr>)" for us
      unfolding Sends perform.simps WriteHeader_final [OF n(1,2)] by simp
    then show ?thesis using Cons.IH [OF n(3), where w = ?v and rs = "map (\<lambda>_. n) rs"] Cons.IH [OF n(3), where w = ?v and rs = "[]"] by (simp add: Sends comp_def)
  next
    case (Sets k v)
    then have "final_codes acts" using Cons.prems by simp
    note IH = Cons.IH [OF this, where w = "Header_Set k v w"]
    show ?thesis unfolding Sets perform.simps recorded_commutes codes_simps by (rule IH)
  next
    case (Writes c)
    then have "final_codes acts" using Cons.prems by simp
    note IH = Cons.IH [OF this, where w = "Write c w"]
    show ?thesis unfolding Writes perform.simps recorded_commutes codes_simps by (rule IH)
  qed
qed simp

lemmas perform_plain = perform_recorded [where rs = "[]", simplified]

lemma perform_append:
  "final_codes acts \<Longrightarrow> perform (acts @ acts') w = perform acts' (snd (perform acts w))"
proof (induction acts arbitrary: w)
  case (Cons a acts)
  then show ?case by (cases a) (simp_all add: WriteHeader_final)
qed simp

lemma chain_unfold:
  "ChainMiddleware h (server_middleware uuid bad) = RequestID uuid (Metrics bad (Logger (Trace (Panic h))))"
  by (simp add: ChainMiddleware_def server_middleware_def)

text \<open>The request that reaches the handler, and the response it finds.\<close>

definition request_id :: "string \<Rightarrow> server_request \<Rightarrow> string" where
  "request_id uuid r = (let i = HeaderValue (sq_http r) ''X-Request-ID'' in if i = [] then uuid else i)"

definition inner_request :: "string \<Rightarrow> server_request \<Rightarrow> server_request" where
  "inner_request uuid r = (with_header ''X-Request-ID'' (request_id uuid r) r)\<lparr>sq_log := Some (request_id uuid r, sq_URL r)\<rparr>"

definition fresh_response :: "string \<Rightarrow> server_request \<Rightarrow> response" where
  "fresh_response uuid r = Header_Set ''X-Request-ID'' (request_id uuid r) empty_response"

definition counted_path :: "server_request \<Rightarrow> bool" where
  "counted_path r \<longleftrightarrow> pathUnescape (sq_Path r) \<notin> set [''/metrics'', ''/healthz'', ''/health/live'', ''/health/ready'']"

definition count_request :: "server_request \<Rightarrow> int \<Rightarrow> 's monitored \<Rightarrow> 's monitored" where
  "count_request r n s = (if counted_path r then s\<lparr>mon_requests := mon_requests s @ [(sq_Method r, pathUnescape (sq_Path r), format_int n)]\<rparr> else s)"

text \<open>The panic of the counter that a request ends with, and what is counted otherwise.\<close>

definition refused_label :: "(string \<Rightarrow> string option) \<Rightarrow> server_request \<Rightarrow> int \<Rightarrow> string option" where
  "refused_label bad r n = (if counted_path r then WithLabelValues bad [sq_Method r, pathUnescape (sq_Path r), format_int n] else None)"

definition label_outcome :: "(string \<Rightarrow> string option) \<Rightarrow> server_request \<Rightarrow> int \<Rightarrow> outcome" where
  "label_outcome bad r n = (case refused_label bad r n of None \<Rightarrow> Returned | Some p \<Rightarrow> Panicked p)"

definition label_count :: "(string \<Rightarrow> string option) \<Rightarrow> server_request \<Rightarrow> int \<Rightarrow> 's monitored \<Rightarrow> 's monitored" where
  "label_count bad r n s = (case refused_label bad r n of None \<Rightarrow> count_request r n s | Some p \<Rightarrow> s)"

lemma count_state [simp]: "mon_state (count_request r n s) = mon_state s" "mon_state (label_count bad r n s) = mon_state s"
  by (simp_all add: count_request_def label_count_def split: option.split)

text \<open>A number is written in ASCII, so only the method and the path can be refused where the library asks for valid UTF-8.\<close>

lemma format_int_utf8: "valid_utf8 (format_int n)"
proof -
  have digit: "byte c < 0x80" if "is_digit c" for c using that by (auto simp: is_digit_def in_class_def byte_def)
  have "\<forall>c\<in>set (dec_digits k). byte c < 0x80" for k
    using dec_digits_correct [of k] digit by (auto simp: list_all_iff)
  then show ?thesis by (intro valid_utf8_ascii) (auto simp: format_int_def byte_def)
qed

lemma refused_label_utf8:
  assumes "\<And>v. bad v = None \<longleftrightarrow> valid_utf8 v"
  shows "refused_label bad r n = None \<longleftrightarrow> (counted_path r \<longrightarrow> valid_utf8 (sq_Method r) \<and> valid_utf8 (pathUnescape (sq_Path r)))"
proof -
  have "bad (format_int n) = None" by (simp add: assms format_int_utf8)
  then show ?thesis by (auto simp: refused_label_def WithLabelValues_def simp flip: assms split: option.splits)
qed

definition panic_message :: string where "panic_message = ''during handle HTTP request go unexpected panic''"

lemma header_value_set [simp]: "HeaderValue (sq_http (with_header k v r)) k = v"
  by (simp add: HeaderValue_def with_header_def set_header_def value_of_def)

lemma with_header_fields [simp]:
  "sq_Method (with_header k v r) = sq_Method r" "sq_Path (with_header k v r) = sq_Path r" "sq_URL (with_header k v r) = sq_URL r"
  "sq_Body (with_header k v r) = sq_Body r" "sq_log (with_header k v r) = sq_log r"
  by (simp_all add: with_header_def)

lemma recorded_fresh: "(fresh_response uuid r)\<lparr>rsp_Recorded := []\<rparr> = fresh_response uuid r"
  by (simp add: fresh_response_def Header_Set_def empty_response_def)

lemma new_writers:
  "NewResponseWriter (NewResponseWriter (fresh_response uuid r)) = (fresh_response uuid r)\<lparr>rsp_Recorded := [StatusCodeUninitialized, StatusCodeUninitialized]\<rparr>"
  "NewResponseWriter (fresh_response uuid r) = (fresh_response uuid r)\<lparr>rsp_Recorded := [StatusCodeUninitialized]\<rparr>"
  by (simp_all add: NewResponseWriter_def fresh_response_def Header_Set_def empty_response_def)

lemma final_panic: "final_codes (PanicResponse p m)" "codes (PanicResponse p m) = [500]"
  by (simp_all add: PanicResponse_def errorResponse_def JSONResponse_def)

text \<open>What the wrappers have recorded after the calls.\<close>

definition noted :: "act list \<Rightarrow> int list \<Rightarrow> int list" where
  "noted acts rs = (if codes acts = [] then rs else map (\<lambda>_. last (codes acts)) rs)"

lemma perform_noted:
  "final_codes acts \<Longrightarrow> w\<lparr>rsp_Recorded := []\<rparr> = w \<Longrightarrow> perform acts (w\<lparr>rsp_Recorded := rs\<rparr>) = (Returned, (snd (perform acts w))\<lparr>rsp_Recorded := noted acts rs\<rparr>)"
  using perform_recorded [where acts = acts and w = w and rs = rs] by (simp add: noted_def)

lemma perform_unrecorded:
  "final_codes acts \<Longrightarrow> w\<lparr>rsp_Recorded := []\<rparr> = w \<Longrightarrow> (snd (perform acts w))\<lparr>rsp_Recorded := []\<rparr> = snd (perform acts w)"
  using perform_noted [of acts w "[]"] by (auto simp: noted_def split: if_splits) (metis snd_conv)+

lemma handler_of_noted:
  assumes "app r (mon_state s) = (acts, oc, st)" "final_codes acts" "w\<lparr>rsp_Recorded := []\<rparr> = w"
  shows "handler_of app r s (w\<lparr>rsp_Recorded := rs\<rparr>) = (oc, s\<lparr>mon_state := st\<rparr>, (snd (perform acts w))\<lparr>rsp_Recorded := noted acts rs\<rparr>)"
  by (simp add: handler_of_def assms(1) perform_noted [OF assms(2,3)])

text \<open>After \<open>Panic\<close> the handler has returned, and its calls are those of the handler, with the answer to a panic.\<close>

definition settled_acts :: "act list \<Rightarrow> outcome \<Rightarrow> act list" where
  "settled_acts acts oc = (case oc of Returned \<Rightarrow> acts | Panicked p \<Rightarrow> acts @ PanicResponse p panic_message)"

lemma panic_noted:
  assumes app: "app r (mon_state s) = (acts, oc, st)" and fin: "final_codes acts" and w: "w\<lparr>rsp_Recorded := []\<rparr> = w" and log: "sq_log r \<noteq> None"
  shows "Panic (handler_of app) r s (w\<lparr>rsp_Recorded := rs\<rparr>) =
    (Returned, s\<lparr>mon_state := st\<rparr>, (snd (perform (settled_acts acts oc) w))\<lparr>rsp_Recorded := noted (settled_acts acts oc) rs\<rparr>)"
proof (cases oc)
  case Returned
  show ?thesis using log unfolding Panic_def handler_of_noted [where app = app and r = r and s = s, OF app fin w] by (simp add: Returned settled_acts_def)
next
  case (Panicked p)
  have "final_codes (acts @ PanicResponse p panic_message)" using fin by (simp add: final_panic)
  note all = perform_noted [OF this w, of rs] and first = perform_noted [OF fin w, of rs]
  have "perform (PanicResponse p panic_message) ((snd (perform acts w))\<lparr>rsp_Recorded := noted acts rs\<rparr>) =
      (Returned, (snd (perform (acts @ PanicResponse p panic_message) w))\<lparr>rsp_Recorded := noted (acts @ PanicResponse p panic_message) rs\<rparr>)"
    using all first unfolding perform_append [OF fin] by simp
  then show ?thesis using log unfolding Panic_def handler_of_noted [where app = app and r = r and s = s, OF app fin w] panic_message_def [symmetric]
    by (simp add: Panicked settled_acts_def)
qed

text \<open>The middlewares around it look at what was recorded for them.\<close>

definition recorded_status :: "act list \<Rightarrow> int" where
  "recorded_status acts = (if codes acts = [] then StatusCodeUninitialized else last (codes acts))"

lemma trace_noted:
  assumes app: "app r (mon_state s) = (acts, oc, st)" and fin: "final_codes acts" and w: "w\<lparr>rsp_Recorded := []\<rparr> = w" and log: "sq_log r \<noteq> None"
  shows "Trace (Panic (handler_of app)) r s (w\<lparr>rsp_Recorded := rs\<rparr>) =
    (if codes (settled_acts acts oc) = [] then Panicked ''no status code set'' else Returned,
     s\<lparr>mon_state := st\<rparr>, (snd (perform (settled_acts acts oc) w))\<lparr>rsp_Recorded := noted (settled_acts acts oc) rs\<rparr>)"
proof -
  let ?all = "settled_acts acts oc"
  have fin': "final_codes ?all" using fin by (simp add: settled_acts_def final_panic split: outcome.split)
  have code: "codes ?all \<noteq> [] \<Longrightarrow> last (codes ?all) \<noteq> StatusCodeUninitialized"
    using fin' last_in_set [of "codes ?all"] by (force simp: final_codes_def StatusCodeUninitialized_def)
  have new: "NewResponseWriter (w\<lparr>rsp_Recorded := rs\<rparr>) = w\<lparr>rsp_Recorded := StatusCodeUninitialized # rs\<rparr>" by (simp add: NewResponseWriter_def)
  have head: "noted ?all (StatusCodeUninitialized # rs) = recorded_status ?all # noted ?all rs" by (simp add: noted_def recorded_status_def)
  show ?thesis using log code unfolding Trace_def new panic_noted [where app = app and r = r and s = s, OF app fin w log] head
    by (simp add: GetStatusCodeOrPanic_def drop_writer_def recorded_status_def)
qed

text \<open>
  The chain around a handler: what the handler sent reaches the client; a panic is answered with 500, or with what was sent before, and counted as 500;
  a handler that returns without a status makes \<open>Trace\<close> panic outside of \<open>Panic\<close>, so that the request is neither answered nor counted; and so is a
  request with a label that the counter refuses.
\<close>

lemma chain_answers:
  assumes app: "app (inner_request uuid r) (mon_state s) = (acts, oc, st)" and fin: "final_codes acts"
    and all: "all = (case oc of Returned \<Rightarrow> acts | Panicked p \<Rightarrow> acts @ PanicResponse p panic_message)"
  shows "ChainMiddleware (handler_of app) (server_middleware uuid bad) r s empty_response =
    (if codes all = [] then (Panicked ''no status code set'', s\<lparr>mon_state := st\<rparr>, snd (perform all (fresh_response uuid r)))
     else (label_outcome bad r (last (codes all)), label_count bad r (last (codes all)) (s\<lparr>mon_state := st\<rparr>), snd (perform all (fresh_response uuid r))))"
proof -
  let ?w = "fresh_response uuid r" and ?r = "with_header ''X-Request-ID'' (request_id uuid r) r"
  have all: "all = settled_acts acts oc" by (simp add: all settled_acts_def)
  then have fin': "final_codes all" using fin by (simp add: settled_acts_def final_panic split: outcome.split)
  have plain: "(snd (perform all ?w))\<lparr>rsp_Recorded := []\<rparr> = snd (perform all ?w)" by (rule perform_unrecorded [OF fin' recorded_fresh])
  have log: "sq_log (inner_request uuid r) \<noteq> None" by (simp add: inner_request_def)
  have logged: "Logger (Trace (Panic (handler_of app))) ?r s (?w\<lparr>rsp_Recorded := rs\<rparr>) =
      (if codes all = [] then Panicked ''no status code set'' else Returned, s\<lparr>mon_state := st\<rparr>,
       (snd (perform all ?w))\<lparr>rsp_Recorded := noted all rs\<rparr>)" for rs
    using trace_noted [where app = app and r = "inner_request uuid r" and s = s and w = ?w and rs = rs, OF app fin recorded_fresh log] unfolding all by (simp add: Logger_def inner_request_def)
  have chain: "ChainMiddleware (handler_of app) (server_middleware uuid bad) r s empty_response = Metrics bad (Logger (Trace (Panic (handler_of app)))) ?r s ?w"
    unfolding chain_unfold RequestID_def Let_def request_id_def fresh_response_def ..
  have code: "last (codes all) \<noteq> StatusCodeUninitialized" if "codes all \<noteq> []"
    using fin' last_in_set [OF that] by (force simp: final_codes_def StatusCodeUninitialized_def)
  show ?thesis
  proof (cases "counted_path r")
    case True
    then show ?thesis using code unfolding chain Metrics_def Let_def new_writers(2) logged
      by (simp add: counted_path_def count_request_def label_outcome_def label_count_def refused_label_def GetStatusCode_def Let_def drop_writer_def noted_def plain
        split: option.split)
  next
    case False
    then show ?thesis using logged [of "[]"] unfolding chain Metrics_def Let_def recorded_fresh
      by (simp add: counted_path_def count_request_def label_outcome_def label_count_def refused_label_def noted_def plain)
  qed
qed

end
