(* ===== verification/Router.thy ===== *)
theory Router
  imports Transport Http_Api Community Games Rate_Limiter
begin

text \<open>
  The router: \<open>http.ServeMux\<close> as src/internal/pkg/transport/http/server uses it, and the table of the routes of every package, of which no two
  conflict (\<open>routes_register\<close>).
\<close>

section \<open>Patterns and paths\<close>

text \<open>
  \<open>http.ServeMux\<close>: a pattern is a list of literal and wildcard segments, and a path is cleaned and split at its slashes; a
  trailing slash is a segment of its own. The addresses of redirects are left out, and so is the method CONNECT, whose paths are not cleaned.
\<close>

datatype pseg = Lit string | Wild string

definition parse_seg :: "string \<Rightarrow> pseg" where
  "parse_seg s = (if s \<noteq> [] \<and> hd s = CHR ''{'' \<and> last s = CHR ''}'' then Wild (butlast (tl s)) else Lit s)"

definition parse_pattern :: "string \<Rightarrow> pseg list" where
  "parse_pattern p = map parse_seg (split_on (CHR ''/'') (drop 1 p))"

text \<open>\<open>cleanPath\<close>: \<open>path.Clean\<close>, which keeps the trailing slash.\<close>

fun clean_segments :: "string list \<Rightarrow> string list \<Rightarrow> string list" where
  "clean_segments kept [] = rev kept"
| "clean_segments kept (s # segs) =
     (if s = [] \<or> s = ''.'' then clean_segments kept segs
      else if s = ''..'' then clean_segments (tl kept) segs else clean_segments (s # kept) segs)"

definition cleanPath :: "string \<Rightarrow> string" where
  "cleanPath p =
     (let segs = clean_segments [] (split_on (CHR ''/'') p); np = concat (map (\<lambda>s. CHR ''/'' # s) segs)
      in if segs = [] then ''/'' else if last p = CHR ''/'' then np @ ''/'' else np)"

definition path_segments :: "string \<Rightarrow> string list" where
  "path_segments p =
     (let segs = split_on (CHR ''/'') (drop 1 p)
      in map pathUnescape (butlast segs) @ [if last segs = [] then ''/'' else pathUnescape (last segs)])"

text \<open>The tree of patterns: a literal is tried before a wildcard, and a wildcard takes one segment that is not a trailing slash.\<close>

definition after_literal :: "string \<Rightarrow> (pseg list \<times> 'h) list \<Rightarrow> (pseg list \<times> 'h) list" where
  "after_literal seg ps = concat (map (\<lambda>(p, h). case p of Lit l # p' \<Rightarrow> if l = seg then [(p', h)] else [] | _ \<Rightarrow> []) ps)"

definition after_wildcard :: "(pseg list \<times> 'h) list \<Rightarrow> (pseg list \<times> 'h) list" where
  "after_wildcard ps = concat (map (\<lambda>(p, h). case p of Wild n # p' \<Rightarrow> [(p', h)] | _ \<Rightarrow> []) ps)"

fun matchPath :: "(pseg list \<times> 'h) list \<Rightarrow> string list \<Rightarrow> ('h \<times> string list) option" where
  "matchPath ps [] = (case filter (\<lambda>(p, h). p = []) ps of [] \<Rightarrow> None | (p, h) # _ \<Rightarrow> Some (h, []))"
| "matchPath ps (seg # segs) =
     (case matchPath (after_literal seg ps) segs of
        Some x \<Rightarrow> Some x
      | None \<Rightarrow>
          if seg = ''/'' then None
          else map_option (\<lambda>(h, vs). (h, seg # vs)) (matchPath (after_wildcard ps) segs))"

section \<open>Routes\<close>

text \<open>\<open>Route\<close> of src/internal/pkg/transport/http/server/route.go: the method, the path and the handler.\<close>

type_synonym 'h route = "string \<times> string \<times> 'h"

definition wildcards :: "string \<Rightarrow> string list" where
  "wildcards path = concat (map (\<lambda>s. case s of Wild n \<Rightarrow> [n] | _ \<Rightarrow> []) (parse_pattern path))"

definition method_tree :: "string \<Rightarrow> 'h route list \<Rightarrow> (pseg list \<times> (string list \<times> 'h)) list" where
  "method_tree method rs = map (\<lambda>(m, path, h). (parse_pattern path, wildcards path, h)) (filter (\<lambda>(m, _). m = method) rs)"

definition matchMethodAndPath :: "'h route list \<Rightarrow> string \<Rightarrow> string list \<Rightarrow> ((string list \<times> 'h) \<times> string list) option" where
  "matchMethodAndPath rs method segs =
     (case matchPath (method_tree method rs) segs of
        Some x \<Rightarrow> Some x
      | None \<Rightarrow> if method = ''HEAD'' then matchPath (method_tree ''GET'' rs) segs else None)"

text \<open>The methods a path has a handler for, in the order of their names.\<close>

definition matchingMethods :: "'h route list \<Rightarrow> string list \<Rightarrow> string list" where
  "matchingMethods rs segs = filter (\<lambda>m. matchMethodAndPath rs m segs \<noteq> None) [''DELETE'', ''GET'', ''HEAD'', ''PATCH'', ''POST'', ''PUT'']"

datatype 'h target = Serve 'h "(string \<times> string) list" | Redirect | MethodNotAllowed "string list" | NotFound

text \<open>\<open>findHandler\<close>, for a router none of whose patterns ends in a slash.\<close>

definition findHandler :: "'h route list \<Rightarrow> string \<Rightarrow> string \<Rightarrow> 'h target" where
  "findHandler rs method path =
     (let segs = path_segments (cleanPath path)
      in if cleanPath path \<noteq> path then Redirect
         else case matchMethodAndPath rs method segs of
                Some ((names, h), vs) \<Rightarrow> Serve h (zip names vs)
              | None \<Rightarrow> if matchingMethods rs segs \<noteq> [] then MethodNotAllowed (matchingMethods rs segs) else NotFound)"

text \<open>
  Two patterns of one method conflict, which is a panic when the second is registered, if a path matches both and neither is more specific.
\<close>

fun overlap :: "pseg list \<Rightarrow> pseg list \<Rightarrow> bool" where
  "overlap (Lit a # p) (Lit b # q) = (a = b \<and> overlap p q)"
| "overlap (_ # p) (_ # q) = overlap p q"
| "overlap [] [] = True"
| "overlap _ _ = False"

fun at_least_as_specific :: "pseg list \<Rightarrow> pseg list \<Rightarrow> bool" where
  "at_least_as_specific (Wild a # p) (Lit b # q) = False"
| "at_least_as_specific (_ # p) (_ # q) = at_least_as_specific p q"
| "at_least_as_specific p q = True"

definition conflict :: "pseg list \<Rightarrow> pseg list \<Rightarrow> bool" where
  "conflict p q \<longleftrightarrow> overlap p q \<and> at_least_as_specific p q = at_least_as_specific q p"

fun RegisterRoutes :: "'h route list \<Rightarrow> 'h route list \<Rightarrow> 'h route list option" where
  "RegisterRoutes table [] = Some table"
| "RegisterRoutes table ((m, path, h) # rs) =
     (if list_ex (\<lambda>(m', path', _). m' = m \<and> conflict (parse_pattern path') (parse_pattern path)) table then None
      else RegisterRoutes (table @ [(m, path, h)]) rs)"

section \<open>The table of routes\<close>

text \<open>
  \<open>wrap(h, authMw)\<close> and \<open>wrap(h, limitMw)\<close>, by what the handler works on. A route carries the handler's endpoint, to be applied to
  the body of the request.
\<close>

datatype board_endpoint = GET_notifications | PATCH_notification_read | POST_reviews "createReviewRequest request_body"

datatype route_handler =
    With_Auth "string option \<Rightarrow> endpoint"
  | Board_With_Auth "string option \<Rightarrow> board_endpoint"
  | With_Limit "string option \<Rightarrow> public_endpoint"
  | Unguarded "string option \<Rightarrow> public_endpoint"
  | Unguarded_ListGames
  | Unguarded_GetGame
  | Unguarded_ListAccountReviews

text \<open>What \<open>json.Decoder\<close> makes of the body, for each type of request.\<close>

record decoders =
  dc_register :: "string option \<Rightarrow> RegisterRequest request_body"
  dc_login :: "string option \<Rightarrow> LoginRequest request_body"
  dc_refresh :: "string option \<Rightarrow> string request_body"
  dc_profile :: "string option \<Rightarrow> UpdateUserRequest request_body"
  dc_rental :: "string option \<Rightarrow> createRentalRequest request_body"
  dc_payment :: "string option \<Rightarrow> int request_body"
  dc_review :: "string option \<Rightarrow> createReviewRequest request_body"
  dc_account :: "string option \<Rightarrow> AdminAccountInput request_body"
  dc_pricing :: "string option \<Rightarrow> AdminAccountUpdate request_body"
  dc_refund :: "string option \<Rightarrow> string request_body"
  dc_forfeit :: "string option \<Rightarrow> adminForfeitDepositRequest request_body"
  dc_user :: "string option \<Rightarrow> AdminUpdateInput request_body"
  dc_adjustment :: "string option \<Rightarrow> AdminBalanceAdjustmentInput request_body"

definition auth_Routes :: "decoders \<Rightarrow> route_handler route list" where
  "auth_Routes dc =
     [(''POST'', ''/auth/register'', With_Limit (\<lambda>b. POST_auth_register (dc_register dc b))),
      (''POST'', ''/auth/login'', With_Limit (\<lambda>b. POST_auth_login (dc_login dc b))),
      (''POST'', ''/auth/refresh'', With_Limit (\<lambda>b. POST_auth_refresh (dc_refresh dc b))),
      (''POST'', ''/auth/logout'', Unguarded (\<lambda>b. POST_auth_logout (dc_refresh dc b))),
      (''GET'', ''/auth/me'', With_Auth (\<lambda>b. GET_auth_me))]"

definition user_Routes :: "decoders \<Rightarrow> route_handler route list" where
  "user_Routes dc =
     [(''GET'', ''/users/{id}'', With_Auth (\<lambda>b. GET_user)),
      (''PATCH'', ''/users/{id}'', With_Auth (\<lambda>b. PATCH_user (dc_profile dc b)))]"

definition game_Routes :: "route_handler route list" where
  "game_Routes =
     [(''GET'', ''/games'', Unguarded_ListGames),
      (''GET'', ''/games/{gameId}'', Unguarded_GetGame)]"

definition account_Routes :: "route_handler route list" where
  "account_Routes =
     [(''GET'', ''/accounts'', Unguarded (\<lambda>b. GET_accounts)),
      (''GET'', ''/accounts/{accountId}'', Unguarded (\<lambda>b. GET_account)),
      (''GET'', ''/accounts/{accountId}/availability'', Unguarded (\<lambda>b. GET_account_availability))]"

definition payment_Routes :: "route_handler route list" where
  "payment_Routes = [(''POST'', ''/payments/webhook'', Unguarded POST_payments_webhook)]"

definition api_Routes :: "decoders \<Rightarrow> int \<Rightarrow> route_handler route list" where
  "api_Routes dc rentalID =
     [(''GET'', ''/me/balance'', With_Auth (\<lambda>b. GET_me_balance)),
      (''GET'', ''/me/ledger'', With_Auth (\<lambda>b. GET_me_ledger)),
      (''GET'', ''/me/refunds'', With_Auth (\<lambda>b. GET_me_refunds)),
      (''GET'', ''/me/rentals'', With_Auth (\<lambda>b. GET_rentals)),
      (''GET'', ''/me/rentals/{rentalId}/credentials'', With_Auth (\<lambda>b. GET_me_rental_credentials)),
      (''POST'', ''/me/rentals/{rentalId}/pay-with-balance'', With_Auth (\<lambda>b. POST_me_rental_pay)),
      (''GET'', ''/me/payments'', With_Auth (\<lambda>b. GET_payments)),
      (''GET'', ''/me/notifications'', Board_With_Auth (\<lambda>b. GET_notifications)),
      (''POST'', ''/rentals'', With_Auth (\<lambda>b. POST_rentals (dc_rental dc b) rentalID)),
      (''GET'', ''/rentals'', With_Auth (\<lambda>b. GET_rentals)),
      (''GET'', ''/rentals/{rentalId}'', With_Auth (\<lambda>b. GET_rental)),
      (''POST'', ''/rentals/{rentalId}/cancel'', With_Auth (\<lambda>b. POST_rental_cancel)),
      (''POST'', ''/rentals/calculate'', With_Auth (\<lambda>b. POST_rentals_calculate (dc_rental dc b))),
      (''POST'', ''/rentals/{id}/extend'', With_Auth (\<lambda>b. POST_rental_extend)),
      (''POST'', ''/payments'', With_Auth (\<lambda>b. POST_payments (dc_payment dc b))),
      (''GET'', ''/payments'', With_Auth (\<lambda>b. GET_payments)),
      (''GET'', ''/payments/{paymentId}'', With_Auth (\<lambda>b. GET_payment)),
      (''POST'', ''/reviews'', Board_With_Auth (\<lambda>b. POST_reviews (dc_review dc b))),
      (''GET'', ''/accounts/{accountId}/reviews'', Unguarded_ListAccountReviews),
      (''GET'', ''/notifications'', Board_With_Auth (\<lambda>b. GET_notifications)),
      (''PATCH'', ''/notifications/{notificationId}/read'', Board_With_Auth (\<lambda>b. PATCH_notification_read)),
      (''POST'', ''/accounts/{id}/favorite'', With_Auth (\<lambda>b. Favorite)),
      (''DELETE'', ''/accounts/{id}/favorite'', With_Auth (\<lambda>b. Favorite)),
      (''GET'', ''/admin/accounts'', With_Auth (\<lambda>b. GET_admin_accounts)),
      (''GET'', ''/admin/rentals'', With_Auth (\<lambda>b. GET_admin_rentals)),
      (''GET'', ''/admin/rentals/{rentalId}'', With_Auth (\<lambda>b. GET_admin_rental)),
      (''GET'', ''/admin/refund-reason-codes'', With_Auth (\<lambda>b. GET_admin_refund_reason_codes)),
      (''POST'', ''/admin/accounts'', With_Auth (\<lambda>b. POST_admin_accounts (dc_account dc b))),
      (''PATCH'', ''/admin/accounts/{accountId}'', With_Auth (\<lambda>b. PATCH_admin_account (dc_pricing dc b))),
      (''POST'', ''/admin/accounts/{accountId}/sync'', With_Auth (\<lambda>b. POST_admin_account_sync)),
      (''POST'', ''/admin/rentals/{rentalId}/wallet-refund'', With_Auth (\<lambda>b. POST_admin_rental_refund (dc_refund dc b))),
      (''POST'', ''/admin/rentals/{rentalId}/deposit/release'', With_Auth (\<lambda>b. POST_admin_deposit_release)),
      (''POST'', ''/admin/rentals/{rentalId}/deposit/forfeit'', With_Auth (\<lambda>b. POST_admin_deposit_forfeit (dc_forfeit dc b))),
      (''GET'', ''/admin/users'', With_Auth (\<lambda>b. GET_admin_users)),
      (''PATCH'', ''/admin/users/{userId}'', With_Auth (\<lambda>b. PATCH_admin_user (dc_user dc b))),
      (''POST'', ''/admin/users/{userId}/balance-adjustments'', With_Auth (\<lambda>b. POST_admin_user_adjustments (dc_adjustment dc b))),
      (''GET'', ''/admin/audit-logs'', With_Auth (\<lambda>b. GET_admin_audit_logs))]"

text \<open>The order in which src/internal/modules/app.go registers them.\<close>

definition all_routes :: "decoders \<Rightarrow> int \<Rightarrow> route_handler route list" where
  "all_routes dc rentalID =
     auth_Routes dc @ user_Routes dc @ game_Routes @ account_Routes @ payment_Routes @ api_Routes dc rentalID"

lemmas all_routes_defs = all_routes_def auth_Routes_def user_Routes_def game_Routes_def account_Routes_def payment_Routes_def api_Routes_def

text \<open>The methods and paths alone, and their patterns.\<close>

definition route_table :: "(string \<times> string) list" where
  "route_table =
     [(''POST'', ''/auth/register''),
      (''POST'', ''/auth/login''),
      (''POST'', ''/auth/refresh''),
      (''POST'', ''/auth/logout''),
      (''GET'', ''/auth/me''),
      (''GET'', ''/users/{id}''),
      (''PATCH'', ''/users/{id}''),
      (''GET'', ''/games''),
      (''GET'', ''/games/{gameId}''),
      (''GET'', ''/accounts''),
      (''GET'', ''/accounts/{accountId}''),
      (''GET'', ''/accounts/{accountId}/availability''),
      (''POST'', ''/payments/webhook''),
      (''GET'', ''/me/balance''),
      (''GET'', ''/me/ledger''),
      (''GET'', ''/me/refunds''),
      (''GET'', ''/me/rentals''),
      (''GET'', ''/me/rentals/{rentalId}/credentials''),
      (''POST'', ''/me/rentals/{rentalId}/pay-with-balance''),
      (''GET'', ''/me/payments''),
      (''GET'', ''/me/notifications''),
      (''POST'', ''/rentals''),
      (''GET'', ''/rentals''),
      (''GET'', ''/rentals/{rentalId}''),
      (''POST'', ''/rentals/{rentalId}/cancel''),
      (''POST'', ''/rentals/calculate''),
      (''POST'', ''/rentals/{id}/extend''),
      (''POST'', ''/payments''),
      (''GET'', ''/payments''),
      (''GET'', ''/payments/{paymentId}''),
      (''POST'', ''/reviews''),
      (''GET'', ''/accounts/{accountId}/reviews''),
      (''GET'', ''/notifications''),
      (''PATCH'', ''/notifications/{notificationId}/read''),
      (''POST'', ''/accounts/{id}/favorite''),
      (''DELETE'', ''/accounts/{id}/favorite''),
      (''GET'', ''/admin/accounts''),
      (''GET'', ''/admin/rentals''),
      (''GET'', ''/admin/rentals/{rentalId}''),
      (''GET'', ''/admin/refund-reason-codes''),
      (''POST'', ''/admin/accounts''),
      (''PATCH'', ''/admin/accounts/{accountId}''),
      (''POST'', ''/admin/accounts/{accountId}/sync''),
      (''POST'', ''/admin/rentals/{rentalId}/wallet-refund''),
      (''POST'', ''/admin/rentals/{rentalId}/deposit/release''),
      (''POST'', ''/admin/rentals/{rentalId}/deposit/forfeit''),
      (''GET'', ''/admin/users''),
      (''PATCH'', ''/admin/users/{userId}''),
      (''POST'', ''/admin/users/{userId}/balance-adjustments''),
      (''GET'', ''/admin/audit-logs'')]"

lemma routes_table: "map (\<lambda>(m, path, h). (m, path)) (all_routes dc rentalID) = route_table"
  by (simp add: all_routes_defs route_table_def)

text \<open>No two of them conflict, so that the registration does not panic.\<close>

fun conflict_free :: "(string \<times> pseg list) list \<Rightarrow> bool" where
  "conflict_free [] = True"
| "conflict_free ((m, p) # rs) = (list_all (\<lambda>(m', q). m' = m \<longrightarrow> \<not> conflict p q) rs \<and> conflict_free rs)"

definition parsed :: "(string \<times> string) list \<Rightarrow> (string \<times> pseg list) list" where
  "parsed = map (\<lambda>(m, path). (m, parse_pattern path))"

lemma route_table_conflict_free: "conflict_free (parsed route_table)"
  by code_simp

lemma register_conflict_free:
  assumes "conflict_free (parsed (map (\<lambda>(m, path, h). (m, path)) (table @ rs)))"
  shows "RegisterRoutes table rs = Some (table @ rs)"
  using assms
proof (induction rs arbitrary: table)
  case (Cons r rs)
  obtain m path h where r: "r = (m, path, h)" by (cases r)
  have split: "conflict_free (as @ b # bs) \<Longrightarrow> \<forall>(m', q)\<in>set as. m' = fst b \<longrightarrow> \<not> conflict q (snd b)" for as b bs
    by (induction as) auto
  have "\<forall>(m', q)\<in>set (parsed (map (\<lambda>(m, path, h). (m, path)) table)). m' = m \<longrightarrow> \<not> conflict q (parse_pattern path)"
    using split [of "parsed (map (\<lambda>(m, path, h). (m, path)) table)" "(m, parse_pattern path)"] Cons.prems by (simp add: r parsed_def)
  then have "\<not> list_ex (\<lambda>(m', path', _). m' = m \<and> conflict (parse_pattern path') (parse_pattern path)) table"
    by (auto simp: list_ex_iff parsed_def)
  then show ?case using Cons.IH [of "table @ [r]"] Cons.prems by (simp add: r)
qed simp

lemma routes_register: "RegisterRoutes [] (all_routes dc rentalID) = Some (all_routes dc rentalID)"
  using register_conflict_free [of "[]" "all_routes dc rentalID"] route_table_conflict_free routes_table [of dc rentalID] by simp

end
