(* ===== verification/Server.thy ===== *)
theory Server
  imports Router Http_Properties
begin

text \<open>
  The HTTP server that src/internal/modules/app.go puts together: the handlers behind session middleware and rate limiter on the state of the server,
  the sites of the outer router with the health checks, and \<open>http_serve\<close>, which serves one request through the whole chain.
\<close>

section \<open>Handlers on the state of the server\<close>

text \<open>
  The state: the database with the tables beside it, and the rate limiter. What a handler takes from outside at one moment are the time, the
  id that the database gives to a new rental, a fresh request id, and the states that the readiness check sees.
\<close>

record 'f shop =
  sh_board :: board
  sh_limiter :: "'f RateLimiter"

record 'f server_env =
  sv_api :: api_env
  sv_collate :: "string \<Rightarrow> int"
  sv_decoders :: decoders
  sv_arith :: "'f arith"
  sv_prometheus :: "act list"
  sv_label_panic :: "string \<Rightarrow> string option"

record moment =
  mo_now :: time
  mo_rental_id :: int
  mo_uuid :: string
  mo_shutting_down :: bool
  mo_postgres_up :: bool
  mo_redis_up :: bool

definition on_db :: "(db \<Rightarrow> reply \<times> db) \<Rightarrow> 'f shop \<Rightarrow> reply \<times> 'f shop" where
  "on_db f sh = (let (rep, s) = f (bd_db (sh_board sh)) in (rep, sh\<lparr>sh_board := (sh_board sh)\<lparr>bd_db := s\<rparr>\<rparr>))"

definition board_api :: "api_env \<Rightarrow> http_request \<Rightarrow> board_endpoint \<Rightarrow> time \<Rightarrow> board \<Rightarrow> reply \<times> board" where
  "board_api ae r ep now b =
     (let authHeader = HeaderValue r ''Authorization''
      in case Auth (env_crypto (ae_env ae)) (env_secret (ae_env ae)) authHeader now (bd_db b) of
           Inl (status, code) \<Rightarrow> (reply_Error (int status) code (refusal_message status code authHeader), b)
         | Inr se \<Rightarrow>
             (case ep of
                GET_notifications \<Rightarrow> (Api_ListMyNotifications (ae_driver ae) se b, b)
              | PATCH_notification_read \<Rightarrow> Api_MarkNotificationRead se r b
              | POST_reviews body \<Rightarrow> Api_CreateReview (ae_driver ae) se body b))"

definition handle :: "'f server_env \<Rightarrow> moment \<Rightarrow> route_handler \<Rightarrow> http_request \<Rightarrow> string option \<Rightarrow> 'f shop \<Rightarrow> reply \<times> 'f shop" where
  "handle sv mo h r body sh =
     (let ae = sv_api sv; now = mo_now mo; s = bd_db (sh_board sh)
      in case h of
           With_Auth ep \<Rightarrow> on_db (api ae r (ep body) now) sh
         | Board_With_Auth ep \<Rightarrow> (let (rep, b) = board_api ae r (ep body) now (sh_board sh) in (rep, sh\<lparr>sh_board := b\<rparr>))
         | With_Limit ep \<Rightarrow>
             (let ((rep, s), rl) = RateLimit (sv_arith sv) r now (\<lambda>_. public_api ae r (ep body) now s) s (sh_limiter sh)
              in (rep, sh\<lparr>sh_board := (sh_board sh)\<lparr>bd_db := s\<rparr>, sh_limiter := rl\<rparr>))
         | Unguarded ep \<Rightarrow> on_db (public_api ae r (ep body) now) sh
         | Unguarded_ListGames \<Rightarrow> (Handler_ListGames (ae_ilike ae) (sv_collate sv) r s, sh)
         | Unguarded_GetGame \<Rightarrow> (Handler_GetGame r s, sh)
         | Unguarded_ListAccountReviews \<Rightarrow> (Api_ListAccountReviews (ae_driver ae) r (sh_board sh), sh))"

section \<open>The server\<close>

text \<open>\<open>http.Error\<close>, \<open>http.NotFound\<close> and \<open>http.Redirect\<close>, of which the address is left out.\<close>

definition http_Error :: "int \<Rightarrow> string \<Rightarrow> act list" where
  "http_Error code text' =
     [Sets ''Content-Type'' ''text/plain; charset=utf-8'', Sets ''X-Content-Type-Options'' ''nosniff'', Sends code, Writes (Plain (text' @ [CHR 0x0A]))]"

fun join_on :: "string \<Rightarrow> string list \<Rightarrow> string" where
  "join_on sep [] = []"
| "join_on sep [s] = s"
| "join_on sep (s # t # ss) = s @ sep @ join_on sep (t # ss)"

definition answer_target :: "'f server_env \<Rightarrow> moment \<Rightarrow> server_request \<Rightarrow> route_handler target \<Rightarrow> 'f shop \<Rightarrow> act list \<times> 'f shop" where
  "answer_target sv mo r t sh =
     (case t of
        Serve h values \<Rightarrow> (let (rep, sh) = handle sv mo h ((sq_http r)\<lparr>hr_PathValues := values\<rparr>) (sq_Body r) sh in (send_reply rep, sh))
      | Redirect \<Rightarrow> ([Sends 301], sh)
      | MethodNotAllowed ms \<Rightarrow> (Sets ''Allow'' (join_on '', '' ms) # http_Error 405 ''Method Not Allowed'', sh)
      | NotFound \<Rightarrow> (http_Error 404 ''404 page not found'', sh))"

text \<open>\<open>RegisterAPIRouters\<close>: \<open>http.StripPrefix\<close> looks at the path as it was written, the router around it at its segments.\<close>

definition api_prefix :: string where "api_prefix = ''/api/'' @ ''v1''"

definition StripPrefix :: "string \<Rightarrow> (string \<Rightarrow> 'h target) \<Rightarrow> string \<Rightarrow> 'h target" where
  "StripPrefix prefix' router path = (if take (length prefix') path = prefix' then router (drop (length prefix') path) else NotFound)"

text \<open>The handlers of src/internal/modules/app.go beside the API\<close>

definition health_up :: "act list" where
  "health_up = [Sets ''Content-Type'' ''application/json'', Sends 200, Writes (Plain ''{\"status\":\"UP\"}'')]"

definition health_down :: "string \<Rightarrow> act list" where
  "health_down reason = [Sets ''Content-Type'' ''application/json'', Sends 503, Writes (Plain (''{\"status\":\"DOWN\",\"reason\":\"'' @ reason @ ''\"}''))]"

definition health_ready :: "moment \<Rightarrow> act list" where
  "health_ready mo =
     (if mo_shutting_down mo then health_down ''shutting down''
      else if \<not> mo_postgres_up mo then health_down ''postgres unavailable''
      else if \<not> mo_redis_up mo then health_down ''redis unavailable''
      else health_up)"

text \<open>\<open>http.ServeMux\<close> refuses the target \<open>*\<close> (of HTTP/1.1) before it looks for a handler; net/http answers \<open>OPTIONS *\<close> itself, before this handler.\<close>

definition server_mux :: "'f server_env \<Rightarrow> moment \<Rightarrow> server_request \<Rightarrow> 'f shop \<Rightarrow> act list \<times> outcome \<times> 'f shop" where
  "server_mux sv mo r sh =
     (let path = sq_Path r; segs = path_segments (cleanPath path);
          routes = all_routes (sv_decoders sv) (mo_rental_id mo);
          (acts, sh) =
            (if path = ''*'' then ([Sets ''Connection'' ''close'', Sends 400], sh)
             else if segs = [''api'', ''v1''] \<or> cleanPath path \<noteq> path then answer_target sv mo r Redirect sh
             else if take 2 segs = [''api'', ''v1'']
               then answer_target sv mo r (StripPrefix api_prefix (findHandler routes (sq_Method r)) path) sh
             else if segs = [''metrics''] then (sv_prometheus sv, sh)
             else if segs = [''healthz''] \<or> segs = [''health'', ''live''] then (health_up, sh)
             else if segs = [''health'', ''ready''] then (health_ready mo, sh)
             else answer_target sv mo r NotFound sh)
      in (acts, Returned, sh))"

text \<open>One request, at a moment that the database's clock shows.\<close>

definition tick :: "time \<Rightarrow> 'f shop monitored \<Rightarrow> 'f shop monitored" where
  "tick now m = m\<lparr>mon_state := (mon_state m)\<lparr>sh_board := (sh_board (mon_state m))\<lparr>bd_db := (bd_db (sh_board (mon_state m)))\<lparr>clock := pg_ts now\<rparr>\<rparr>\<rparr>\<rparr>"

definition http_serve :: "'f server_env \<Rightarrow> moment \<Rightarrow> server_request \<Rightarrow> 'f shop monitored \<Rightarrow> outcome \<times> 'f shop monitored \<times> response" where
  "http_serve sv mo r m = ChainMiddleware (handler_of (server_mux sv mo)) (server_middleware (mo_uuid mo) (sv_label_panic sv)) r (tick (mo_now mo) m) empty_response"

section \<open>Every reply has a final status\<close>

definition proper :: "reply \<Rightarrow> bool" where
  "proper rep \<longleftrightarrow> 200 \<le> rep_Status rep \<and> rep_Status rep \<le> 599"

lemma proper_replies [simp]:
  "proper (reply_JSON c d) \<longleftrightarrow> 200 \<le> c \<and> c \<le> 599" "proper (reply_Error c code m) \<longleftrightarrow> 200 \<le> c \<and> c \<le> 599"
  "proper (rep\<lparr>rep_Headers := hs\<rparr>) = proper rep"
  by (simp_all add: proper_def reply_JSON_def reply_Error_def)

lemma proper_rules:
  "(c \<Longrightarrow> proper a) \<Longrightarrow> (\<not> c \<Longrightarrow> proper b) \<Longrightarrow> proper (if c then a else b)"
  "(\<And>e. r = Inl e \<Longrightarrow> proper (f e)) \<Longrightarrow> (\<And>x. r = Inr x \<Longrightarrow> proper (g x)) \<Longrightarrow> proper (case r of Inl e \<Rightarrow> f e | Inr x \<Rightarrow> g x)"
  "(q = None \<Longrightarrow> proper a) \<Longrightarrow> (\<And>x. q = Some x \<Longrightarrow> proper (h x)) \<Longrightarrow> proper (case q of None \<Rightarrow> a | Some x \<Rightarrow> h x)"
  "(\<And>x y. p = (x, y) \<Longrightarrow> proper (k x y)) \<Longrightarrow> proper (case p of (x, y) \<Rightarrow> k x y)"
  by (auto split: sum.split option.split prod.split)

lemma proper_fst_rules:
  "(c \<Longrightarrow> proper (fst a)) \<Longrightarrow> (\<not> c \<Longrightarrow> proper (fst b)) \<Longrightarrow> proper (fst (if c then a else b))"
  "(\<And>e. r = Inl e \<Longrightarrow> proper (fst (f e))) \<Longrightarrow> (\<And>x. r = Inr x \<Longrightarrow> proper (fst (g x))) \<Longrightarrow> proper (fst (case r of Inl e \<Rightarrow> f e | Inr x \<Rightarrow> g x))"
  "(q = None \<Longrightarrow> proper (fst a)) \<Longrightarrow> (\<And>x. q = Some x \<Longrightarrow> proper (fst (h x))) \<Longrightarrow> proper (fst (case q of None \<Rightarrow> a | Some x \<Rightarrow> h x))"
  "(\<And>x y. p = (x, y) \<Longrightarrow> proper (fst (k x y))) \<Longrightarrow> proper (fst (case p of (x, y) \<Rightarrow> k x y))"
  "proper rep \<Longrightarrow> proper (fst (rep, s))"
  by (auto split: sum.split option.split prod.split)

lemma proper_parameters:
  "pathID r n = Inl e \<Longrightarrow> proper e" "positive_param r n i m = Inl e \<Longrightarrow> proper e" "strict_path_id r n m = Inl e \<Longrightarrow> proper e"
  "decode_strictly m body = Inl e \<Longrightarrow> proper e" "adminRentalListFilters r = Inl e \<Longrightarrow> proper e" "adminPaginationParams r = Inl e \<Longrightarrow> proper e"
  "ledgerPaginationParams r = Inl e \<Longrightarrow> proper e"
proof -
  have pos: "positive_param r n i m = Inl e \<Longrightarrow> proper e" for n i m e
    by (auto simp: positive_param_def Let_def split: if_splits option.splits)
  have ledger: "ledgerPaginationParams r = Inl e \<Longrightarrow> proper e" for e
    by (auto simp: ledgerPaginationParams_def split: sum.splits dest: pos)
  have pages: "adminPaginationParams r = Inl e \<Longrightarrow> proper e" for e
    by (auto simp: adminPaginationParams_def split: sum.splits if_splits dest: ledger)
  show "positive_param r n i m = Inl e \<Longrightarrow> proper e" by (rule pos)
  show "ledgerPaginationParams r = Inl e \<Longrightarrow> proper e" by (rule ledger)
  show "adminPaginationParams r = Inl e \<Longrightarrow> proper e" by (rule pages)
  show "pathID r n = Inl e \<Longrightarrow> proper e" by (auto simp: pathID_def split: if_splits option.splits)
  show "strict_path_id r n m = Inl e \<Longrightarrow> proper e" by (auto simp: strict_path_id_def Let_def split: if_splits option.splits)
  show "decode_strictly m body = Inl e \<Longrightarrow> proper e" by (auto simp: decode_strictly_def split: request_body.splits bool.splits)
  show "adminRentalListFilters r = Inl e \<Longrightarrow> proper e"
    by (auto simp: adminRentalListFilters_def Let_def split: sum.splits if_splits dest: pages pos)
qed

lemma proper_list: "(xs = [] \<Longrightarrow> proper (fst a)) \<Longrightarrow> (\<And>x ys. xs = x # ys \<Longrightarrow> proper (fst (f x ys))) \<Longrightarrow> proper (fst (case xs of [] \<Rightarrow> a | x # ys \<Rightarrow> f x ys))"
  by (simp split: list.split)

lemma proper_bool: "(b \<Longrightarrow> proper x) \<Longrightarrow> (\<not> b \<Longrightarrow> proper y) \<Longrightarrow> proper (case b of True \<Rightarrow> x | False \<Rightarrow> y)"
  by (simp split: bool.split)

lemma proper_customer_reads:
  "proper (Api_ListMyRentals driver se s)" "proper (Api_GetRental se r s)" "proper (Api_GetMyBalance se s)" "proper (Api_ListMyLedger se r s)"
  "proper (Api_ListMyRefunds se r s)" "proper (Api_CalculateRental rental s)" "proper Api_ExtendRental" "proper (Api_CreatePayment se payment s)"
  "proper (Api_ListMyPayments driver se s)" "proper (Api_GetPayment se r s)" "proper Api_FavoriteOK" "proper (Handler_Me se s)"
  "proper (Handler_GetProfile driver se r s)" "proper (Handler_ListAccounts ilike r s)" "proper (Handler_GetAccount r s)" "proper (Handler_GetAvailability r s)"
  unfolding Api_ListMyRentals_def Api_GetRental_def Api_GetMyBalance_def Api_ListMyLedger_def Api_ListMyRefunds_def Api_CalculateRental_def
    Api_ExtendRental_def Api_CreatePayment_def Api_ListMyPayments_def Api_GetPayment_def Api_FavoriteOK_def Handler_Me_def
    Handler_GetProfile_def Handler_ListAccounts_def Handler_GetAccount_def Handler_GetAvailability_def Let_def
  by (auto dest: proper_parameters split: sum.split option.split prod.split request_body.split)

lemma proper_admin_reads:
  "proper (Api_AdminListAccounts ilike s)" "proper (Api_AdminListRentals driver r s)" "proper (Api_AdminGetRentalDetail driver r now s)"
  "proper Api_AdminRefundReasonCodes" "proper (Api_AdminListUsers s)" "proper (Api_AdminAuditLogs s)"
  "proper (adjustment_failure driver e)" "proper (webhook_refusal e)"
  unfolding Api_AdminListAccounts_def Api_AdminListRentals_def Api_AdminGetRentalDetail_def Api_AdminRefundReasonCodes_def Api_AdminListUsers_def
    Api_AdminAuditLogs_def adjustment_failure_def webhook_refusal_def Let_def
  by (auto dest: proper_parameters split: sum.split option.split prod.split)

lemma proper_customer_writes:
  "proper (fst (Api_CreateRental driver se rental i now s))" "proper (fst (Api_GetMyRentalCredentials env se r now s))"
  "proper (fst (Api_PayRentalWithBalance env se r now s))" "proper (fst (Api_CancelRental se r now s))"
  "proper (fst (Handler_UpdateProfile driver env se r profile now s))"
  unfolding Api_CreateRental_def Api_GetMyRentalCredentials_def Api_PayRentalWithBalance_def Api_CancelRental_def Handler_UpdateProfile_def Let_def
  by (auto dest: proper_parameters split: sum.split option.split prod.split)

lemma proper_admin_writes:
  "proper (fst (Api_AdminCreateAccount driver env se account s))" "proper (fst (Api_AdminUpdateAccount se r pricing s))"
  "proper (fst (Api_AdminSyncAccount driver env se r s))" "proper (fst (Api_AdminWalletRefund driver se r refund now s))"
  "proper (fst (Api_AdminReleaseDeposit driver se r now s))" "proper (fst (Api_AdminForfeitDeposit driver se r forfeit now s))"
  "proper (fst (Api_AdminUpdateUser se r user now'))" "proper (fst (Api_AdminAdjustUserBalance driver se r adjustment now s))"
  unfolding Api_AdminCreateAccount_def Api_AdminUpdateAccount_def Api_AdminSyncAccount_def Api_AdminWalletRefund_def Api_AdminReleaseDeposit_def
    Api_AdminForfeitDeposit_def Api_AdminUpdateUser_def Api_AdminAdjustUserBalance_def Let_def
  by (auto simp: proper_admin_reads dest: proper_parameters split: sum.split option.split prod.split)

lemma proper_public:
  "proper (fst (public_api ae r pe now s))"
  by (cases pe) (auto simp: proper_customer_reads proper_admin_reads Handler_Register_def Handler_Login_def Handler_Refresh_def Handler_Logout_def
    Handler_Webhook_def Let_def split: sum.split option.split prod.split)

lemma proper_dispatch: "proper (fst (dispatch ae se r ep now s))"
  by (cases ep) (simp_all add: dispatch_def admin_only_def proper_customer_reads proper_admin_reads proper_customer_writes proper_admin_writes)

lemma Auth_refusal: "Auth c secret h now s = Inl (status, code) \<Longrightarrow> status = 401 \<or> status = 500"
  unfolding Auth_def by (auto simp: Let_def split: if_splits sum.splits list.splits prod.splits option.splits)

lemma proper_api: "proper (fst (api ae r ep now s))"
  by (auto simp: api_def Let_def proper_dispatch split: sum.split dest: Auth_refusal)

lemma proper_board:
  "proper (fst (board_api ae r ep now b))"
  unfolding board_api_def Let_def
  by (auto simp: Api_ListMyNotifications_def Api_MarkNotificationRead_def Api_CreateReview_def Let_def
    split: sum.split prod.split board_endpoint.split request_body.split bool.split dest: Auth_refusal proper_parameters)

lemma proper_unguarded:
  "proper (Handler_ListGames ilike collate r s)" "proper (Handler_GetGame r s)" "proper (Api_ListAccountReviews driver r b)"
  unfolding Handler_ListGames_def Handler_GetGame_def Api_ListAccountReviews_def Let_def
  by (auto split: sum.split prod.split option.split dest: proper_parameters)

lemma proper_parts:
  "api ae r ep now s = (rep, t) \<Longrightarrow> proper rep" "public_api ae r pe now s = (rep, t) \<Longrightarrow> proper rep" "board_api ae r be now b = (rep, c) \<Longrightarrow> proper rep"
  using proper_api [of ae r ep now s] proper_public [of ae r pe now s] proper_board [of ae r be now b] by simp_all

lemma proper_handle: "proper (fst (handle sv mo h r body sh))"
  unfolding handle_def Let_def
  by (auto simp: on_db_def RateLimit_def Let_def proper_unguarded split: route_handler.split prod.split if_splits dest: proper_parts)

section \<open>Every request is answered\<close>

text \<open>The one status that calls of the writer send, if it comes before the body.\<close>

fun sole_code :: "act list \<Rightarrow> int option" where
  "sole_code [] = None"
| "sole_code (Sets k v # acts) = sole_code acts"
| "sole_code (Sends n # acts) = (if codes acts = [] then Some n else None)"
| "sole_code (Writes c # acts) = None"

lemma status_kept: "rsp_Status w = Some n \<Longrightarrow> codes acts = [] \<Longrightarrow> rsp_Status (snd (perform acts w)) = Some n"
proof (induction acts arbitrary: w)
  case (Cons a acts)
  then show ?case by (cases a) (simp_all add: Header_Set_def Write_def Let_def)
qed simp

lemma sole_code_sent:
  "sole_code acts = Some n \<Longrightarrow> 200 \<le> n \<Longrightarrow> n \<le> 599 \<Longrightarrow> rsp_Status w = None \<Longrightarrow>
     codes acts = [n] \<and> final_codes acts \<and> rsp_Status (snd (perform acts w)) = Some n"
proof (induction acts arbitrary: w)
  case (Cons a acts)
  show ?case
  proof (cases a)
    case (Sets k v)
    then show ?thesis using Cons.IH [of "Header_Set k v w"] Cons.prems by (simp add: Header_Set_def)
  next
    case (Sends m)
    then have "codes acts = []" "m = n" using Cons.prems by (simp_all split: if_splits)
    then show ?thesis using Cons.prems Sends by (simp add: WriteHeader_final status_kept final_codes_def)
  qed (use Cons.prems in simp)
qed simp

lemma sole_code_sets: "sole_code (map (\<lambda>(k, v). Sets k v) hs @ acts) = sole_code acts"
  by (induction hs) (auto simp: case_prod_beta)

definition answered :: "act list \<Rightarrow> bool" where
  "answered acts \<longleftrightarrow> (\<exists>n. sole_code acts = Some n \<and> 200 \<le> n \<and> n \<le> 599)"

lemma answered_reply: "proper rep \<Longrightarrow> answered (send_reply rep)"
  by (simp add: answered_def send_reply_def sole_code_sets proper_def)

lemma answered_errors: "200 \<le> n \<Longrightarrow> n \<le> 599 \<Longrightarrow> answered (http_Error n m)"
  by (simp add: answered_def http_Error_def)

lemma answered_target: "answered (fst (answer_target sv mo r t sh))"
proof (cases t)
  case (Serve h vs)
  then show ?thesis
    using proper_handle [of sv mo h "(sq_http r)\<lparr>hr_PathValues := vs\<rparr>" "sq_Body r" sh]
    by (auto simp: answer_target_def Let_def answered_reply split: prod.split)
next
  case (MethodNotAllowed ms)
  then show ?thesis using answered_errors [of 405] by (simp add: answer_target_def answered_def)
qed (simp_all add: answer_target_def http_Error_def answered_def)

lemma answered_star: "answered [Sets ''Connection'' ''close'', Sends 400]"
  by (simp add: answered_def)

lemma answered_health: "answered (health_ready mo)" "answered health_up"
  by (simp_all add: health_ready_def health_down_def health_up_def answered_def)

lemma server_mux_returns:
  assumes "answered (sv_prometheus sv)" "server_mux sv mo r sh = (acts, oc, sh')"
  shows "oc = Returned" "answered acts"
proof -
  show "oc = Returned" using assms(2) by (auto simp: server_mux_def Let_def split: prod.splits)
  have "acts = fst (server_mux sv mo r sh)" using assms(2) by simp
  also have "answered \<dots>"
    unfolding server_mux_def Let_def using assms(1) answered_health answered_star
    by (auto simp: case_prod_beta answered_target)
  finally show "answered acts" .
qed

text \<open>What \<open>http_serve\<close> does, for calls of the writer that send one status.\<close>

lemma http_serve_run:
  assumes "answered (sv_prometheus sv)"
    and mux: "server_mux sv mo (inner_request (mo_uuid mo) r) (mon_state (tick (mo_now mo) m)) = (acts, oc, sh)"
    and n: "sole_code acts = Some n" "200 \<le> n" "n \<le> 599"
  shows "http_serve sv mo r m =
    (label_outcome (sv_label_panic sv) r n, label_count (sv_label_panic sv) r n ((tick (mo_now mo) m)\<lparr>mon_state := sh\<rparr>),
     snd (perform acts (fresh_response (mo_uuid mo) r)))"
    "rsp_Status (snd (perform acts (fresh_response (mo_uuid mo) r))) = Some n"
proof -
  have oc: "oc = Returned" by (rule server_mux_returns [OF assms(1) mux])
  have w: "rsp_Status (fresh_response (mo_uuid mo) r) = None" by (simp add: fresh_response_def Header_Set_def empty_response_def)
  note sent = sole_code_sent [OF n w]
  show "rsp_Status (snd (perform acts (fresh_response (mo_uuid mo) r))) = Some n" using sent by simp
  show "http_serve sv mo r m =
    (label_outcome (sv_label_panic sv) r n, label_count (sv_label_panic sv) r n ((tick (mo_now mo) m)\<lparr>mon_state := sh\<rparr>),
     snd (perform acts (fresh_response (mo_uuid mo) r)))"
    unfolding http_serve_def
    by (subst chain_answers [where app = "server_mux sv mo" and s = "tick (mo_now mo) m", OF mux, of acts])
      (use sent oc in simp_all)
qed

text \<open>
  C11: Every request is answered, but for one kind. Whatever is asked of the server, if the path is one of the four that are not counted or method and path are
  valid UTF-8, then the chain of middlewares returns (nothing panics, and no
  connection is cut because a handler forgot its status), a status between 200 and 599 has been sent, and the counter of requests has been increased once, for the
  method and the path as the client wrote it and for the status that was sent, or not at all for the four paths that are not counted.
  Otherwise the chain ends with a panic of the counter outside of the middleware that recovers from panics, for which net/http cuts the connection, and the request is not counted.
  The Prometheus handler is assumed to send its status once, before its body, and the counter to panic at labels that are not valid UTF-8 and only at those.
\<close>

theorem requests_are_answered:
  assumes prometheus: "answered (sv_prometheus sv)" and labels: "\<And>v. sv_label_panic sv v = None \<longleftrightarrow> valid_utf8 v"
    and run: "http_serve sv mo r m = (oc, m', w)"
  shows "if counted_path r \<longrightarrow> valid_utf8 (sq_Method r) \<and> valid_utf8 (pathUnescape (sq_Path r))
    then oc = Returned \<and> (\<exists>n. rsp_Status w = Some n \<and> 200 \<le> n \<and> n \<le> 599 \<and>
      mon_requests m' = mon_requests m @ (if counted_path r then [(sq_Method r, pathUnescape (sq_Path r), format_int n)] else []))
    else (\<exists>p. oc = Panicked p) \<and> mon_requests m' = mon_requests m"
proof -
  obtain acts oc' sh where mux: "server_mux sv mo (inner_request (mo_uuid mo) r) (mon_state (tick (mo_now mo) m)) = (acts, oc', sh)"
    by (metis prod_cases3)
  obtain n where n: "sole_code acts = Some n" "200 \<le> n" "n \<le> 599"
    using server_mux_returns(2) [OF prometheus mux] by (auto simp: answered_def)
  note served = http_serve_run [OF prometheus mux n]
  have parts: "oc = label_outcome (sv_label_panic sv) r n" "rsp_Status w = Some n"
    "m' = label_count (sv_label_panic sv) r n ((tick (mo_now mo) m)\<lparr>mon_state := sh\<rparr>)"
    using run served by auto
  have ticked: "mon_requests (tick (mo_now mo) m) = mon_requests m" by (simp add: tick_def)
  show ?thesis
  proof (cases "refused_label (sv_label_panic sv) r n")
    case None
    have valid: "counted_path r \<longrightarrow> valid_utf8 (sq_Method r) \<and> valid_utf8 (pathUnescape (sq_Path r))"
      using None refused_label_utf8 [where bad = "sv_label_panic sv" and r = r and n = n, OF labels] by simp
    show ?thesis unfolding if_P [OF valid] using parts n(2,3) None by (simp add: label_outcome_def label_count_def count_request_def ticked)
  next
    case (Some p)
    have valid: "\<not> (counted_path r \<longrightarrow> valid_utf8 (sq_Method r) \<and> valid_utf8 (pathUnescape (sq_Path r)))"
      using Some refused_label_utf8 [where bad = "sv_label_panic sv" and r = r and n = n, OF labels] by simp
    show ?thesis unfolding if_not_P [OF valid] using parts Some by (simp add: label_outcome_def label_count_def ticked)
  qed
qed

section \<open>The administrators' part of the API\<close>

lemma split_on_not_nil [simp]: "split_on c s \<noteq> []"
  by (cases s) (auto split: list.split)

lemma split_on_join: "split_on c (xs @ c # ys) = split_on c xs @ split_on c ys"
  by (induction xs) (auto split: list.split)

lemma path_segments_append:
  "CHR ''/'' \<notin> set x \<Longrightarrow> path_segments (CHR ''/'' # x @ CHR ''/'' # y) = map pathUnescape (split_on (CHR ''/'') x) @ path_segments (CHR ''/'' # y)"
  by (simp add: path_segments_def split_on_join Let_def butlast_append)

lemma api_segments: "path_segments (''/api/v1/'' @ y) = ''api'' # ''v1'' # path_segments (CHR ''/'' # y)"
proof -
  have "split_on (CHR ''/'') (''api/v1/'' @ y) = ''api'' # ''v1'' # split_on (CHR ''/'') y" by (simp split: list.split)
  then show ?thesis by (simp add: path_segments_def Let_def pathUnescape_def)
qed

text \<open>A match of a path whose first segment no pattern has as a wildcard begins with that segment.\<close>

lemma matchPath_literal:
  assumes "matchPath ps (seg # segs) = Some (h, vs)" "\<forall>(p, k)\<in>set ps. \<nexists>n q. p = Wild n # q"
  shows "\<exists>q. (Lit seg # q, h) \<in> set ps"
proof -
  have in_set: "matchPath qs ss = Some (k, us) \<Longrightarrow> \<exists>q. (q, k) \<in> set qs" for qs :: "(pseg list \<times> 'a) list" and ss k us
  proof (induction qs ss arbitrary: k us rule: matchPath.induct)
    case (1 ps)
    then have "(fst (hd (filter (\<lambda>(p, h). p = []) ps)), k) \<in> set (filter (\<lambda>(p, h). p = []) ps)"
      by (cases "filter (\<lambda>(p, h). p = []) ps") auto
    then show ?case by auto
  next
    case (2 ps seg segs)
    then show ?case
      by (fastforce simp: after_literal_def after_wildcard_def split: option.splits if_splits list.splits pseg.splits)
  qed
  have none: "after_wildcard ps = []" using assms(2) by (fastforce simp: after_wildcard_def split: list.split pseg.split)
  have empty: "matchPath [] ss = None" for ss :: "string list"
    by (induction ss) (simp_all add: after_literal_def after_wildcard_def)
  have "matchPath (after_literal seg ps) segs = Some (h, vs)"
    using assms(1) by (simp add: none empty split: option.splits if_splits)
  from in_set [OF this] show ?thesis by (auto simp: after_literal_def split: list.splits pseg.splits if_splits)
qed

text \<open>The routes whose pattern begins with \<open>admin\<close> answer an administrator only.\<close>

definition admin_endpoint :: "endpoint \<Rightarrow> bool" where
  "admin_endpoint ep \<longleftrightarrow> (case ep of GET_admin_accounts \<Rightarrow> True | GET_admin_rentals \<Rightarrow> True | GET_admin_rental \<Rightarrow> True
     | GET_admin_refund_reason_codes \<Rightarrow> True | POST_admin_accounts b \<Rightarrow> True | PATCH_admin_account b \<Rightarrow> True
     | POST_admin_account_sync \<Rightarrow> True | POST_admin_rental_refund b \<Rightarrow> True | POST_admin_deposit_release \<Rightarrow> True
     | POST_admin_deposit_forfeit b \<Rightarrow> True | GET_admin_users \<Rightarrow> True | PATCH_admin_user b \<Rightarrow> True
     | POST_admin_user_adjustments b \<Rightarrow> True | GET_admin_audit_logs \<Rightarrow> True | _ \<Rightarrow> False)"

lemma admin_endpoint_answer: "admin_endpoint ep \<Longrightarrow> customer_answer ae se r ep now s = None"
  by (cases ep) (simp_all add: admin_endpoint_def)

fun admin_handler :: "route_handler \<Rightarrow> string option \<Rightarrow> bool" where
  "admin_handler (With_Auth ep) body = admin_endpoint (ep body)"
| "admin_handler h body = False"

lemma admin_routes:
  "list_all (\<lambda>(m, path, h). case parse_pattern path of Lit l # q \<Rightarrow> l = ''admin'' \<longrightarrow> admin_handler h body | _ \<Rightarrow> False) (all_routes dc i)"
  by (simp add: all_routes_defs parse_pattern_def parse_seg_def admin_endpoint_def)

lemma admin_tree:
  assumes "(p, names, k) \<in> set (method_tree m (all_routes dc i))"
  shows "\<exists>l q. p = Lit l # q \<and> (l = ''admin'' \<longrightarrow> admin_handler k body)"
proof -
  obtain path where "p = parse_pattern path" "(m, path, k) \<in> set (all_routes dc i)" using assms by (auto simp: method_tree_def)
  then show ?thesis using admin_routes [of body dc i] unfolding list_all_iff
    by (cases "parse_pattern path"; cases "hd (parse_pattern path)") (auto dest!: bspec)
qed

lemma admin_match:
  assumes "findHandler (all_routes dc i) method (CHR ''/'' # y) = Serve h vs" "hd (path_segments (CHR ''/'' # y)) = ''admin''"
  shows "admin_handler h body"
proof -
  obtain segs where segs: "path_segments (CHR ''/'' # y) = ''admin'' # segs"
    using assms(2) by (cases "path_segments (CHR ''/'' # y)") (auto simp: path_segments_def Let_def)
  have route: "admin_handler k body" if "matchPath (method_tree m (all_routes dc i)) (''admin'' # segs) = Some ((names, k), us)" for m names k us
  proof -
    note match = that
    have heads: "\<forall>(p, k)\<in>set (method_tree m (all_routes dc i)). \<nexists>n q. p = Wild n # q"
      using admin_tree by fastforce
    obtain q where "(Lit ''admin'' # q, names, k) \<in> set (method_tree m (all_routes dc i))"
      using matchPath_literal [OF match heads] by blast
    from admin_tree [OF this, of body] show ?thesis by simp
  qed
  have "\<exists>names us. matchMethodAndPath (all_routes dc i) method (''admin'' # segs) = Some ((names, h), us)"
    using assms(1) segs by (auto simp: findHandler_def Let_def split: if_splits option.splits)
  then show ?thesis using route by (auto simp: matchMethodAndPath_def simp del: matchPath.simps split: option.splits if_splits)
qed

text \<open>A call of the administrators' API without an administrator's session.\<close>

lemma set_header_other: "k' \<noteq> k \<Longrightarrow> HeaderValue (sq_http (with_header k v r)) k' = HeaderValue (sq_http r) k'"
proof -
  have "k' \<noteq> k \<Longrightarrow> map_of (filter (\<lambda>h. fst h \<noteq> k) hs) k' = map_of hs k'" for hs :: "(string \<times> string) list"
    by (induction hs) auto
  then show "k' \<noteq> k \<Longrightarrow> ?thesis" by (simp add: HeaderValue_def with_header_def set_header_def value_of_def)
qed

lemma path_values_header [simp]: "HeaderValue (r\<lparr>hr_PathValues := vs\<rparr>) k = HeaderValue r k"
  by (simp add: HeaderValue_def)

lemma not_admin_refused:
  assumes h: "admin_handler h body" and auth: "\<And>se. Auth (env_crypto (ae_env (sv_api sv))) (env_secret (ae_env (sv_api sv)))
      (HeaderValue r ''Authorization'') (mo_now mo) (bd_db (sh_board sh)) = Inr se \<Longrightarrow> se_Role se \<noteq> ''ADMIN''"
  shows "proper (fst (handle sv mo h r body sh)) \<and> 400 \<le> rep_Status (fst (handle sv mo h r body sh)) \<and> snd (handle sv mo h r body sh) = sh"
proof -
  obtain ep where ep: "h = With_Auth ep" "admin_endpoint (ep body)" using h by (cases "(h, body)" rule: admin_handler.cases) simp_all
  let ?s = "bd_db (sh_board sh)" and ?ae = "sv_api sv"
  obtain rep where rep: "api ?ae r (ep body) (mo_now mo) ?s = (rep, ?s)" "400 \<le> rep_Status rep"
  proof (cases "Auth (env_crypto (ae_env ?ae)) (env_secret (ae_env ?ae)) (HeaderValue r ''Authorization'') (mo_now mo) ?s")
    case (Inl x)
    obtain status code where x: "x = (status, code)" by (cases x)
    then have "status = 401 \<or> status = 500" using Auth_refusal Inl by blast
    then show ?thesis using Inl by (intro that [of "reply_Error (int status) code (refusal_message status code (HeaderValue r ''Authorization''))"])
      (auto simp: api_def Let_def x)
  next
    case (Inr se)
    then show ?thesis using auth [OF Inr] admin_endpoint_answer [OF ep(2)]
      by (intro that [of "reply_Error 403 ''FORBIDDEN'' ''Admin access is required''"]) (simp_all add: api_def Let_def dispatch_def admin_only_def)
  qed
  then show ?thesis using proper_handle [of sv mo h r body sh] by (simp add: handle_def on_db_def Let_def ep)
qed

text \<open>
  C10: The administrators' part of the API is closed. A request whose path leads below /api/v1/admin, in whichever spelling the router takes
  for it and with whichever method, changes nothing, and the status that is written to its response is a redirect or an error, unless its session has the administrator's
  role: no route there, not even one that only reads, can be reached by another way through the table of routes. (Whether the response is delivered, or the connection cut
  because the path is not valid UTF-8, is said by the property on the answers to requests.)
\<close>

theorem administrators_only:
  assumes path: "sq_Path r = ''/api/v1/'' @ y" "hd (path_segments (CHR ''/'' # y)) = ''admin''"
    and session: "\<And>se. Auth (env_crypto (ae_env (sv_api sv))) (env_secret (ae_env (sv_api sv))) (HeaderValue (sq_http r) ''Authorization'')
      (mo_now mo) (bd_db (sh_board (mon_state (tick (mo_now mo) m)))) = Inr se \<Longrightarrow> se_Role se \<noteq> ''ADMIN''"
    and prometheus: "answered (sv_prometheus sv)" and run: "http_serve sv mo r m = (oc, m', w)"
  shows "mon_state m' = mon_state (tick (mo_now mo) m) \<and> (\<exists>n. rsp_Status w = Some n \<and> (n = 301 \<or> 400 \<le> n))"
proof -
  let ?r = "inner_request (mo_uuid mo) r" and ?sh = "mon_state (tick (mo_now mo) m)"
  let ?t = "findHandler (all_routes (sv_decoders sv) (mo_rental_id mo)) (sq_Method ?r)"
  have r: "sq_Path ?r = ''/api/v1/'' @ y" "HeaderValue (sq_http ?r) ''Authorization'' = HeaderValue (sq_http r) ''Authorization''"
    using path(1) set_header_other [of "''Authorization''" "''X-Request-ID''"] by (simp_all add: inner_request_def)
  obtain acts where mux: "server_mux sv mo ?r ?sh = (acts, Returned, ?sh)" and n: "\<exists>n. sole_code acts = Some n \<and> (n = 301 \<or> 400 \<le> n \<and> n \<le> 599)"
  proof (cases "cleanPath (sq_Path ?r) \<noteq> sq_Path ?r")
    case True
    have star: "sq_Path ?r \<noteq> ''*''" unfolding r(1) by simp
    show ?thesis using True by (intro that [of "[Sends 301]"]) (simp_all add: server_mux_def Let_def answer_target_def star)
  next
    case False
    then have clean: "cleanPath (''/api/v1/'' @ y) = ''/api/v1/'' @ y" using r by simp
    have segs: "path_segments (''/api/v1/'' @ y) = ''api'' # ''v1'' # path_segments (CHR ''/'' # y)" by (rule api_segments)
    have ne: "path_segments (CHR ''/'' # y) \<noteq> []" by (simp add: path_segments_def Let_def)
    have target: "server_mux sv mo ?r ?sh = (let (acts, sh) = answer_target sv mo ?r (?t (CHR ''/'' # y)) ?sh in (acts, Returned, sh))"
      using clean segs ne unfolding server_mux_def Let_def r(1) by (simp add: StripPrefix_def api_prefix_def)
    show ?thesis
    proof (cases "?t (CHR ''/'' # y)")
      case (Serve h vs)
      have "proper (fst (handle sv mo h ((sq_http ?r)\<lparr>hr_PathValues := vs\<rparr>) (sq_Body ?r) ?sh)) \<and>
          400 \<le> rep_Status (fst (handle sv mo h ((sq_http ?r)\<lparr>hr_PathValues := vs\<rparr>) (sq_Body ?r) ?sh)) \<and>
          snd (handle sv mo h ((sq_http ?r)\<lparr>hr_PathValues := vs\<rparr>) (sq_Body ?r) ?sh) = ?sh"
        by (rule not_admin_refused [OF admin_match [OF Serve path(2)]]) (use session r(2) in simp)
      then show ?thesis using target Serve
        by (intro that [of "send_reply (fst (handle sv mo h ((sq_http ?r)\<lparr>hr_PathValues := vs\<rparr>) (sq_Body ?r) ?sh))"])
          (auto simp: answer_target_def Let_def case_prod_beta send_reply_def sole_code_sets proper_def)
    next
      case (MethodNotAllowed ms)
      then show ?thesis using target by (intro that [of "Sets ''Allow'' (join_on '', '' ms) # http_Error 405 ''Method Not Allowed''"])
        (simp_all add: answer_target_def http_Error_def)
    next
      case NotFound
      then show ?thesis using target by (intro that [of "http_Error 404 ''404 page not found''"]) (simp_all add: answer_target_def http_Error_def)
    next
      case Redirect
      then show ?thesis using target by (intro that [of "[Sends 301]"]) (simp_all add: answer_target_def)
    qed
  qed
  then obtain n where n: "sole_code acts = Some n" "200 \<le> n" "n \<le> 599" "n = 301 \<or> 400 \<le> n" by auto
  show ?thesis using run n http_serve_run [OF prometheus mux n(1-3)] by auto
qed

end
