(* ===== verification/Server_Run.thy ===== *)
theory Server_Run
  imports Server
begin

text \<open>
  The scheduler (src/internal/shared/scheduler/scheduler.go) with the jobs of src/internal/modules/app.go, and runs of the server: sequences
  of requests and executions of jobs.
\<close>

section \<open>The scheduler\<close>

text \<open>
  src/internal/shared/scheduler/scheduler.go: a job is a task that is run at once and then at every tick of its own ticker. A task returns, fails or
  panics; a panic is recovered, and only an execution that returned is observed in the metrics.
\<close>

datatype task_result = Completed | Failed err | Crashed string

record 's Job =
  job_Name :: string
  job_Interval :: duration
  job_Handler :: "time \<Rightarrow> 's \<Rightarrow> task_result \<times> 's"

definition Scheduler_Register :: "'s Job list \<Rightarrow> string \<Rightarrow> duration \<Rightarrow> (time \<Rightarrow> 's \<Rightarrow> task_result \<times> 's) \<Rightarrow> 's Job list" where
  "Scheduler_Register jobs name interval handler = jobs @ [\<lparr>job_Name = name, job_Interval = interval, job_Handler = handler\<rparr>]"

text \<open>The state after an execution, with the names of the jobs that the metrics observe.\<close>

definition execute :: "'s Job \<Rightarrow> time \<Rightarrow> 's \<Rightarrow> 's \<times> string list" where
  "execute job now s =
     (case job_Handler job now s of
        (Crashed p, s) \<Rightarrow> (s, [])
      | (_, s) \<Rightarrow> (s, [job_Name job]))"

text \<open>
  \<open>runJob\<close>, until its context is cancelled: the ticker that was made at \<open>t0\<close> ticks at \<open>t0 + k * interval\<close>, and its channel holds one tick, which an execution
  that takes longer finds waiting. \<open>job_starts\<close> is when the executions begin, from the time each of them takes.
\<close>

definition next_start :: "time \<Rightarrow> duration \<Rightarrow> time \<Rightarrow> time \<Rightarrow> time" where
  "next_start t0 interval start end' = max end' (t0 + interval * ((start - t0) div interval + 1))"

fun job_starts :: "time \<Rightarrow> duration \<Rightarrow> time \<Rightarrow> duration list \<Rightarrow> time list" where
  "job_starts t0 interval start [] = [start]"
| "job_starts t0 interval start (d # ds) = start # job_starts t0 interval (next_start t0 interval start (start + d)) ds"

text \<open>The jobs of src/internal/modules/app.go\<close>

definition read_result :: "(err + 'a) \<Rightarrow> task_result" where
  "read_result r = (case r of Inl e \<Rightarrow> Failed e | Inr _ \<Rightarrow> Completed)"

definition deposit_finalization :: "(nat \<Rightarrow> int set) \<Rightarrow> time \<Rightarrow> db \<Rightarrow> task_result \<times> db" where
  "deposit_finalization held now s = (let (result, t) = FinalizeExpiredRentals held now 100 s in (read_result result, t))"

definition scheduled_jobs :: "env \<Rightarrow> (int \<Rightarrow> bool) \<Rightarrow> (nat \<Rightarrow> int set) \<Rightarrow> db Job list" where
  "scheduled_jobs env busy held =
     Scheduler_Register (Scheduler_Register (Scheduler_Register (Scheduler_Register []
       ''expired_cleanup'' (30 * Second) (\<lambda>now s. (read_result (GetExpiredRentals now s), ExpiredCleanup busy now s)))
       ''waiting_payment_cleanup'' Minute (\<lambda>now s. (read_result (GetExpiredWaitingPaymentReservations now s), WaitingPaymentCleanup now s)))
       ''steam_sync'' (5 * Minute) (\<lambda>now s. (read_result (GetAccountsForSync s), SteamSyncWorker (env_pg_int env) (env_steam env) s)))
       ''deposit_finalization'' (10 * Second) (deposit_finalization held)"

text \<open>The client of Steam, \<open>env_steam\<close>: the fake one without a key; \<open>new_client\<close> is \<open>game.NewSteamClient\<close> of a key and an address.\<close>

definition choose_steam_client :: "(string \<Rightarrow> string \<Rightarrow> SteamClient) \<Rightarrow> string \<Rightarrow> string \<Rightarrow> SteamClient" where
  "choose_steam_client new_client steamKey steamBaseURL =
     (if steamKey = [] then \<lparr>CheckVACBans = (\<lambda>s. Inr (Fake_CheckVACBans s)), GetOwnedGames = (\<lambda>s. Inr (Fake_GetOwnedGames s))\<rparr>
      else new_client steamKey (if steamBaseURL = [] then ''https://api.steampowered.com'' else steamBaseURL))"

lemma next_start_bounds:
  assumes "0 < interval"
  shows "end' \<le> next_start t0 interval start end'" "start < next_start t0 interval start end' \<or> end' = next_start t0 interval start end'"
    "next_start t0 interval start end' \<le> max end' (start + interval)"
proof -
  have "interval * ((start - t0) div interval) \<le> start - t0" "start - t0 < interval * ((start - t0) div interval + 1)"
    using div_mult_mod_eq [of "start - t0" interval] pos_mod_sign [OF assms, of "start - t0"] pos_mod_bound [OF assms, of "start - t0"]
    unfolding distrib_left mult.commute [of interval] by linarith+
  then show "end' \<le> next_start t0 interval start end'" "start < next_start t0 interval start end' \<or> end' = next_start t0 interval start end'"
    "next_start t0 interval start end' \<le> max end' (start + interval)"
    by (auto simp: next_start_def distrib_left max_def)
qed

text \<open>A job that is never slower than its interval runs at every tick.\<close>

lemma job_starts_on_time:
  assumes "0 < interval" "\<forall>d\<in>set ds. 0 \<le> d \<and> d \<le> interval"
  shows "job_starts t0 interval (t0 + int k * interval) ds = map (\<lambda>i. t0 + int i * interval) [k..<k + length ds + 1]"
  using assms(2)
proof (induction ds arbitrary: k)
  case (Cons d ds)
  have "next_start t0 interval (t0 + int k * interval) (t0 + int k * interval + d) = t0 + int (Suc k) * interval"
    using assms(1) Cons.prems by (simp add: next_start_def algebra_simps)
  moreover have "[k..<k + length (d # ds) + 1] = k # [Suc k..<Suc k + length ds + 1]"
    using upt_conv_Cons [of k "k + length (d # ds) + 1"] by simp
  ultimately show ?case using Cons.IH [of "Suc k"] Cons.prems by (simp del: upt_Suc)
qed simp

section \<open>Runs of the server\<close>

text \<open>The server with its scheduler: requests and executions of jobs, one after the other.\<close>

datatype event = Request_At moment server_request | Job_At time "int \<Rightarrow> bool" "nat \<Rightarrow> int set" nat

fun server_event :: "'f server_env \<Rightarrow> event \<Rightarrow> 'f shop monitored \<Rightarrow> 'f shop monitored" where
  "server_event sv (Request_At mo r) m = (case http_serve sv mo r m of (_, m', _) \<Rightarrow> m')"
| "server_event sv (Job_At now busy held i) m =
     (let jobs = scheduled_jobs (ae_env (sv_api sv)) busy held; m = tick now m; sh = mon_state m; b = sh_board sh
      in if i < length jobs then m\<lparr>mon_state := sh\<lparr>sh_board := b\<lparr>bd_db := fst (execute (jobs ! i) now (bd_db b))\<rparr>\<rparr>\<rparr> else m)"

definition server_run :: "'f server_env \<Rightarrow> event list \<Rightarrow> 'f shop monitored \<Rightarrow> 'f shop monitored" where
  "server_run sv es m = fold (server_event sv) es m"

text \<open>What every event keeps.\<close>

definition proceeds :: "board \<Rightarrow> board \<Rightarrow> bool" where
  "proceeds b c \<longleftrightarrow> (valid_db (bd_db b) \<and> valid_board b \<longrightarrow>
     valid_db (bd_db c) \<and> valid_board c \<and> evolves (bd_db b) ((bd_db c)\<lparr>clock := clock (bd_db b)\<rparr>) \<and> book_step\<^sup>*\<^sup>* (book (bd_db b)) (book (bd_db c)))"

interpretation proceeds: step_preorder proceeds
proof
  show "proceeds b b" for b by (simp add: proceeds_def evolution.R_refl)
  show "proceeds a b \<Longrightarrow> proceeds b c \<Longrightarrow> proceeds a c" for a b c
  proof (unfold proceeds_def, intro impI)
    let ?ok = "\<lambda>b c. valid_db (bd_db c) \<and> valid_board c \<and> evolves (bd_db b) ((bd_db c)\<lparr>clock := clock (bd_db b)\<rparr>) \<and> book_step\<^sup>*\<^sup>* (book (bd_db b)) (book (bd_db c))"
    assume 1: "valid_db (bd_db a) \<and> valid_board a \<longrightarrow> ?ok a b" and 2: "valid_db (bd_db b) \<and> valid_board b \<longrightarrow> ?ok b c" and "valid_db (bd_db a) \<and> valid_board a"
    then have ok: "?ok a b" "?ok b c" by blast+
    have "evolves ((bd_db b)\<lparr>clock := clock (bd_db a)\<rparr>) ((bd_db c)\<lparr>clock := clock (bd_db a)\<rparr>)" using ok(2) by (simp add: evolves_def)
    then show "?ok a c" using ok by (meson evolution.R_trans rtranclp_trans)
  qed
qed

lemma evolves_ids:
  assumes "evolves s (t\<lparr>clock := c\<rparr>)"
  shows "u_id ` set (users s) \<subseteq> u_id ` set (users t)" "a_id ` set (accounts s) \<subseteq> a_id ` set (accounts t)" "r_id ` set (rentals s) \<subseteq> r_id ` set (rentals t)"
proof -
  have e: "grows rental_next (rentals s) (rentals t)" "grows user_next (users s) (users t)" "grows account_next (accounts s) (accounts t)"
    using assms by (simp_all add: evolves_def)
  have "\<exists>v\<in>set (users t). u_id v = u_id u" if "u \<in> set (users s)" for u
    using user_order.grows_in [OF e(2) that] by (auto simp: user_next_def)
  moreover have "\<exists>b\<in>set (accounts t). a_id b = a_id a" if "a \<in> set (accounts s)" for a
    using account_order.grows_in [OF e(3) that] by (auto simp: account_next_def)
  moreover have "\<exists>b\<in>set (rentals t). r_id b = r_id r" if "r \<in> set (rentals s)" for r
    using rental_order.grows_in [OF e(1) that] by (auto simp: rental_next_def)
  ultimately show "u_id ` set (users s) \<subseteq> u_id ` set (users t)" "a_id ` set (accounts s) \<subseteq> a_id ` set (accounts t)"
    "r_id ` set (rentals s) \<subseteq> r_id ` set (rentals t)"
    by (metis image_eqI image_subsetI)+
qed

text \<open>A database that moved on by requests, with the tables beside it.\<close>

lemma proceeds_db:
  assumes "valid_db (bd_db b) \<Longrightarrow> valid_db t \<and> evolves (bd_db b) (t\<lparr>clock := clock (bd_db b)\<rparr>) \<and> book_step\<^sup>*\<^sup>* (book (bd_db b)) (book t)"
  shows "proceeds b (b\<lparr>bd_db := t\<rparr>)"
proof (unfold proceeds_def, intro impI)
  assume v: "valid_db (bd_db b) \<and> valid_board b"
  then have t: "valid_db t" "evolves (bd_db b) (t\<lparr>clock := clock (bd_db b)\<rparr>)" "book_step\<^sup>*\<^sup>* (book (bd_db b)) (book t)" using assms by simp_all
  have "valid_board (b\<lparr>bd_db := t\<rparr>)"
    using v evolves_ids [OF t(2)] unfolding valid_board_def by (auto simp: list_all_iff)
  then show "valid_db (bd_db (b\<lparr>bd_db := t\<rparr>)) \<and> valid_board (b\<lparr>bd_db := t\<rparr>) \<and>
      evolves (bd_db b) ((bd_db (b\<lparr>bd_db := t\<rparr>))\<lparr>clock := clock (bd_db b)\<rparr>) \<and> book_step\<^sup>*\<^sup>* (book (bd_db b)) (book (bd_db (b\<lparr>bd_db := t\<rparr>)))"
    using t by simp
qed

lemma proceeds_requests: "proceeds b (b\<lparr>bd_db := fold (exec env now) rqs (bd_db b)\<rparr>)"
proof (rule proceeds_db)
  show "valid_db (bd_db b) \<Longrightarrow> valid_db (fold (exec env now) rqs (bd_db b)) \<and>
      evolves (bd_db b) ((fold (exec env now) rqs (bd_db b))\<lparr>clock := clock (bd_db b)\<rparr>) \<and> book_step\<^sup>*\<^sup>* (book (bd_db b)) (book (fold (exec env now) rqs (bd_db b)))"
  proof (induction rqs arbitrary: b)
    case (Cons rq rqs)
    let ?s = "exec env now rq (bd_db b)"
    have s: "valid_db ?s" "evolves (bd_db b) ?s" "book_step\<^sup>*\<^sup>* (book (bd_db b)) (book ?s)"
      using exec_valid_evolves [OF Cons.prems] exec_refines [OF Cons.prems] by simp_all
    have rest: "valid_db (fold (exec env now) rqs ?s)" "evolves ?s ((fold (exec env now) rqs ?s)\<lparr>clock := clock ?s\<rparr>)"
      "book_step\<^sup>*\<^sup>* (book ?s) (book (fold (exec env now) rqs ?s))"
      using Cons.IH [of "b\<lparr>bd_db := ?s\<rparr>"] s(1) by simp_all
    have "clock ?s = clock (bd_db b)" using s(2) by (simp add: evolves_def)
    then have "evolves ?s ((fold (exec env now) rqs ?s)\<lparr>clock := clock (bd_db b)\<rparr>)" using rest(2) by simp
    then show ?case using s rest by (simp; blast intro: evolution.R_trans rtranclp_trans)
  qed (simp add: evolution.R_refl)
qed

lemma proceeds_clock: "proceeds b (b\<lparr>bd_db := (bd_db b)\<lparr>clock := c\<rparr>\<rparr>)"
  by (rule proceeds_db) (simp add: valid_db_def book_def evolution.R_refl)

lemma public_effect: "\<exists>rqs. snd (public_api ae r pe now s) = fold (exec (ae_env ae) now) rqs s"
proof -
  have none: "\<exists>rqs. s = fold (exec (ae_env ae) now) rqs s" by (rule exI [of _ "[]"]) simp
  have one: "\<exists>rqs. t = fold (exec (ae_env ae) now) rqs s" if "t = exec (ae_env ae) now rq s" for t rq
    by (rule exI [of _ "[rq]"]) (simp add: that)
  note ones = one [of _ "Sign_Up _ _ _ _"] one [of _ "Sign_In _ _"] one [of _ "Exchange _"] one [of _ "Sign_Out _"] one [of _ "Pay_Webhook _ _ _"]
  show ?thesis
  proof (cases pe)
    case (POST_auth_register body)
    show ?thesis unfolding POST_auth_register public_api.simps Handler_Register_def
      by (auto simp: snd_answer intro: none ones(1) [simplified exec.simps] split: sum.split) 
  next
    case (POST_auth_login body)
    show ?thesis unfolding POST_auth_login public_api.simps Handler_Login_def
      by (auto simp: snd_answer intro: none ones(2) [simplified exec.simps] split: sum.split)
  next
    case (POST_auth_refresh body)
    show ?thesis unfolding POST_auth_refresh public_api.simps Handler_Refresh_def
      by (auto simp: snd_answer intro: none ones(3) [simplified exec.simps] split: sum.split)
  next
    case (POST_auth_logout body)
    show ?thesis unfolding POST_auth_logout public_api.simps Handler_Logout_def
      by (auto simp: snd_answer intro: none ones(4) [simplified exec.simps] split: sum.split)
  next
    case (POST_payments_webhook body)
    show ?thesis unfolding POST_payments_webhook public_api.simps Handler_Webhook_def Let_def
      by (auto simp: snd_answer intro: none ones(5) [simplified exec.simps] split: option.split)
  qed (use none in simp_all)
qed

lemma api_requests: "\<exists>rqs. snd (api ae r ep now s) = fold (exec (ae_env ae) now) rqs s"
  using api_effect [of ae r ep now s] unfolding own_effect_def by (metis fold_simps(1))

lemma proceeds_board: "proceeds b (snd (board_api ae r ep now b))"
proof -
  have review: "proceeds b (snd (Api_CreateReview driver se body b))" for driver se body
  proof (unfold proceeds_def, intro impI)
    assume v: "valid_db (bd_db b) \<and> valid_board b"
    have "valid_board (snd (Review_Create input b)) \<and> bd_db (snd (Review_Create input b)) = bd_db b" for input
    proof (cases "Review_Create input b")
      case (Pair x c)
      show ?thesis
      proof (cases x)
        case (Inl e)
        show ?thesis using Review_Create_error [OF Pair [unfolded Inl]] v by (simp add: Pair)
      next
        case (Inr i)
        have "reviewable input b" "c = b\<lparr>bd_reviews := bd_reviews b @ [review_of input b], bd_next := bd_next b + 1\<rparr>"
          using Pair [unfolded Inr] Review_Create_ok [of b input i c] v by simp_all
        then show ?thesis using created_review_valid [of b input] v by (simp add: Pair)
      qed
    qed
    then have "valid_board (snd (Api_CreateReview driver se body b)) \<and> bd_db (snd (Api_CreateReview driver se body b)) = bd_db b"
      using v by (auto simp: Api_CreateReview_def Let_def snd_answer split: request_body.split)
    then show "valid_db (bd_db (snd (Api_CreateReview driver se body b))) \<and> valid_board (snd (Api_CreateReview driver se body b)) \<and>
        evolves (bd_db b) ((bd_db (snd (Api_CreateReview driver se body b)))\<lparr>clock := clock (bd_db b)\<rparr>) \<and>
        book_step\<^sup>*\<^sup>* (book (bd_db b)) (book (bd_db (snd (Api_CreateReview driver se body b))))"
      using v by (simp add: evolution.R_refl)
  qed
  have read: "proceeds b (snd (Api_MarkNotificationRead se r b))" for se
  proof -
    have "bd_db (snd (Api_MarkNotificationRead se r b)) = bd_db b \<and> bd_reviews (snd (Api_MarkNotificationRead se r b)) = bd_reviews b \<and>
        bd_next (snd (Api_MarkNotificationRead se r b)) = bd_next b"
      by (auto simp: Api_MarkNotificationRead_def Notification_MarkRead_def WithinTransaction_def Notification_Repo_MarkRead_def Let_def
        split: sum.split bool.split)
    then show ?thesis by (simp add: proceeds_def valid_board_def evolution.R_refl)
  qed
  show ?thesis using review read
    by (auto simp: board_api_def Let_def proceeds.R_refl split: sum.split board_endpoint.split)
qed

lemma proceeds_handle: "proceeds (sh_board sh) (sh_board (snd (handle sv mo h r body sh)))"
proof -
  have one: "proceeds b (b\<lparr>bd_db := t\<rparr>)" if "\<exists>rqs. t = fold (exec env now) rqs (bd_db b)" for b t env now
    using that proceeds_requests by blast
  have same: "b\<lparr>bd_db := bd_db b\<rparr> = b" for b :: board by simp
  show ?thesis
  proof (cases h)
    case (With_Limit ep)
    let ?r = "RateLimit (sv_arith sv) r (mo_now mo) (\<lambda>_. public_api (sv_api sv) r (ep body) (mo_now mo) (bd_db (sh_board sh))) (bd_db (sh_board sh)) (sh_limiter sh)"
    have "snd (fst ?r) = bd_db (sh_board sh) \<or> snd (fst ?r) = snd (public_api (sv_api sv) r (ep body) (mo_now mo) (bd_db (sh_board sh)))"
      by (simp add: RateLimit_def Let_def case_prod_beta)
    moreover have "sh_board (snd (handle sv mo h r body sh)) = (sh_board sh)\<lparr>bd_db := snd (fst ?r)\<rparr>"
      by (simp add: handle_def With_Limit Let_def case_prod_beta)
    ultimately show ?thesis using one [OF public_effect] by (auto simp: same proceeds.R_refl)
  qed (simp_all add: handle_def on_db_def Let_def case_prod_beta one [OF api_requests] one [OF public_effect] proceeds_board proceeds.R_refl)
qed

lemma proceeds_mux: "server_mux sv mo r sh = (acts, oc, sh') \<Longrightarrow> proceeds (sh_board sh) (sh_board sh')"
proof -
  have target: "proceeds (sh_board sh) (sh_board (snd (answer_target sv mo r t sh)))" for t
    by (cases t) (simp_all add: answer_target_def Let_def case_prod_beta proceeds_handle proceeds.R_refl)
  assume "server_mux sv mo r sh = (acts, oc, sh')"
  then have "sh' = snd (snd (server_mux sv mo r sh))" by simp
  then show ?thesis by (simp add: server_mux_def Let_def case_prod_beta target proceeds.R_refl)
qed

lemma tick_board: "sh_board (mon_state (tick now m)) = (sh_board (mon_state m))\<lparr>bd_db := (bd_db (sh_board (mon_state m)))\<lparr>clock := pg_ts now\<rparr>\<rparr>"
  by (simp add: tick_def)

lemma proceeds_tick: "proceeds (sh_board (mon_state m)) (sh_board (mon_state (tick now m)))"
  unfolding tick_board by (rule proceeds_clock)

lemma job_requests:
  assumes "i < length (scheduled_jobs env busy held)"
  shows "\<exists>rqs. fst (execute (scheduled_jobs env busy held ! i) now s) = fold (exec env now) rqs s"
proof -
  have one: "\<exists>rqs. t = fold (exec env now) rqs s" if "t = exec env now rq s" for t rq
    by (rule exI [of _ "[rq]"]) (simp add: that)
  have "i = 0 \<or> i = 1 \<or> i = 2 \<or> i = 3" using assms by (auto simp: scheduled_jobs_def Scheduler_Register_def)
  then show ?thesis
    using one [of _ "Expire_Rentals busy"] one [of _ Expire_Reservations] one [of _ Sync_Steam] one [of _ "Finalize held 100"]
    by (auto simp: scheduled_jobs_def deposit_finalization_def Scheduler_Register_def execute_def read_result_def Let_def case_prod_beta split: sum.split task_result.split)
qed

lemma proceeds_job:
  assumes "i < length (scheduled_jobs env busy held)"
  shows "proceeds b (b\<lparr>bd_db := fst (execute (scheduled_jobs env busy held ! i) now (bd_db b))\<rparr>)"
proof -
  obtain rqs where "fst (execute (scheduled_jobs env busy held ! i) now (bd_db b)) = fold (exec env now) rqs (bd_db b)"
    using job_requests [OF assms] by blast
  then show ?thesis by (simp only: proceeds_requests)
qed

lemma proceeds_event: 
  assumes "answered (sv_prometheus sv)"
  shows "proceeds (sh_board (mon_state m)) (sh_board (mon_state (server_event sv e m)))"
proof (cases e)
  case (Request_At mo r)
  obtain acts oc sh where mux: "server_mux sv mo (inner_request (mo_uuid mo) r) (mon_state (tick (mo_now mo) m)) = (acts, oc, sh)"
    by (metis prod_cases3)
  obtain n where n: "sole_code acts = Some n" "200 \<le> n" "n \<le> 599"
    using server_mux_returns(2) [OF assms mux] by (auto simp: answered_def)
  have "mon_state (server_event sv e m) = sh" using http_serve_run(1) [OF assms mux n] by (simp add: Request_At)
  then show ?thesis using proceeds.R_trans [OF proceeds_tick proceeds_mux [OF mux]] by simp
next
  case (Job_At now busy held i)
  show ?thesis
  proof (cases "i < length (scheduled_jobs (ae_env (sv_api sv)) busy held)")
    case True
    show ?thesis using proceeds.R_trans [OF proceeds_tick proceeds_job [OF True]] True by (simp add: Job_At Let_def)
  qed (use proceeds_tick in \<open>simp add: Job_At Let_def\<close>)
qed

text \<open>
  C5: The server as a whole. Over any sequence of HTTP requests, served through middlewares, router and
  rate limiter, and of executions of the four scheduled jobs, the constraints of the database and of the reviews hold, the rentals follow the book of rentals, in
  which no account is occupied twice, and ledger, security events and audit log only grow at their ends.
\<close>

theorem server_run_keeps_all:
  assumes valid: "valid_db (bd_db b)" "valid_board b" and b: "b = sh_board (mon_state m)" and c: "c = sh_board (mon_state (server_run sv es m))"
    and prometheus: "answered (sv_prometheus sv)"
  shows "valid_db (bd_db c) \<and> valid_board c \<and> book_step\<^sup>*\<^sup>* (book (bd_db b)) (book (bd_db c)) \<and> exclusive (book (bd_db c)) \<and>
    (\<exists>es. ledger (bd_db c) = ledger (bd_db b) @ es) \<and> (\<exists>es. events (bd_db c) = events (bd_db b) @ es) \<and> (\<exists>es. audits (bd_db c) = audits (bd_db b) @ es)"
proof -
  have "proceeds (sh_board (mon_state m)) (sh_board (mon_state (fold (server_event sv) es m)))"
    by (induction es arbitrary: m) (simp_all add: proceeds.R_refl, meson proceeds.R_trans proceeds_event [OF prometheus])
  then have all: "valid_db (bd_db c)" "valid_board c" "evolves (bd_db b) ((bd_db c)\<lparr>clock := clock (bd_db b)\<rparr>)"
    "book_step\<^sup>*\<^sup>* (book (bd_db b)) (book (bd_db c))"
    using valid unfolding b c server_run_def proceeds_def by simp_all
  have "grows (=) (ledger (bd_db b)) (ledger (bd_db c))" "grows (=) (events (bd_db b)) (events (bd_db c))" "grows (=) (audits (bd_db b)) (audits (bd_db c))"
    using all(3) by (simp_all add: evolves_def)
  then show ?thesis using all book_steps_exclusive [OF all(4) valid_exclusive [OF valid(1)]] by (simp add: grows_eq)
qed

section \<open>A concrete server\<close>

definition sample_decoders :: decoders where
  "sample_decoders = \<lparr>dc_register = (\<lambda>_. Undecodable []), dc_login = (\<lambda>_. Undecodable []), dc_refresh = (\<lambda>_. Undecodable []),
     dc_profile = (\<lambda>_. Undecodable []), dc_rental = (\<lambda>_. Decoded \<lparr>crr_AccountID = 5, crr_DurationHours = 2\<rparr> False),
     dc_payment = (\<lambda>_. Undecodable []), dc_review = (\<lambda>_. Undecodable []), dc_account = (\<lambda>_. Undecodable []), dc_pricing = (\<lambda>_. Undecodable []),
     dc_refund = (\<lambda>_. Undecodable []), dc_forfeit = (\<lambda>_. Undecodable []), dc_user = (\<lambda>_. Undecodable []), dc_adjustment = (\<lambda>_. Undecodable [])\<rparr>"

definition sample_server :: "int server_env" where
  "sample_server = \<lparr>sv_api = sample_api, sv_collate = int \<circ> length, sv_decoders = sample_decoders, sv_arith = whole_arith,
     sv_prometheus = [Sends 200, Writes (Plain ''active_rentals 0'')],
     sv_label_panic = (\<lambda>v. if valid_utf8 v then None else Some ''label value is not valid UTF-8'')\<rparr>"

definition sample_moment :: moment where
  "sample_moment = \<lparr>mo_now = Minute, mo_rental_id = 70, mo_uuid = ''request-1'', mo_shutting_down = False, mo_postgres_up = True, mo_redis_up = True\<rparr>"

definition sample_state :: "int shop monitored" where
  "sample_state = \<lparr>mon_state = \<lparr>sh_board = \<lparr>bd_db = signed_db, bd_reviews = [], bd_notifications = [], bd_next = 1\<rparr>, sh_limiter = NewRateLimiter 5 10\<rparr>,
     mon_requests = []\<rparr>"

definition sample_call :: "string \<Rightarrow> string \<Rightarrow> server_request" where
  "sample_call m path = \<lparr>sq_Method = m, sq_Path = path, sq_URL = path, sq_Body = None, sq_http = sample_request, sq_log = None\<rparr>"

text \<open>It has no key for Steam.\<close>

lemma sample_steam: "env_steam (ae_env (sv_api sample_server)) = choose_steam_client f [] url"
  by (simp add: sample_server_def sample_api_def sample_env_def choose_steam_client_def)

lemma sample_prometheus: "answered (sv_prometheus sample_server)"
  by (simp add: answered_def sample_server_def)

lemma sample_labels: "sv_label_panic sample_server v = None \<longleftrightarrow> valid_utf8 v"
  by (simp add: sample_server_def)

text \<open>A customer pays rental 7, and asks for the administrators' list of users; the session's role is not an administrator's.\<close>

lemma sample_session:
  "Auth (env_crypto (ae_env (sv_api sample_server))) (env_secret (ae_env (sv_api sample_server))) (HeaderValue (sq_http (sample_call m path)) ''Authorization'')
     (mo_now sample_moment) (bd_db (sh_board (mon_state (tick (mo_now sample_moment) sample_state)))) = Inr \<lparr>se_UserID = 2, se_Role = ''RENT''\<rparr>"
  by code_simp

lemma requests_are_answered_witness:
  "(\<exists>m' w n. http_serve sample_server sample_moment (sample_call ''POST'' ''/api/v1/me/rentals/7/pay-with-balance'') sample_state = (Returned, m', w) \<and>
     rsp_Status w = Some n \<and> mon_requests m' = [(''POST'', ''/api/v1/me/rentals/7/pay-with-balance'', format_int n)]) \<and>
   (\<exists>p m' w. http_serve sample_server sample_moment (sample_call ''GET'' ''/api/v1/%ff'') sample_state = (Panicked p, m', w) \<and> mon_requests m' = [])"
proof (rule conjI)
  let ?r = "sample_call ''POST'' ''/api/v1/me/rentals/7/pay-with-balance''"
  obtain oc m' w where run: "http_serve sample_server sample_moment ?r sample_state = (oc, m', w)"
    by (metis prod_cases3)
  have path: "counted_path ?r" "pathUnescape (sq_Path ?r) = sq_Path ?r" by code_simp+
  moreover have "valid_utf8 (sq_Method ?r)" "valid_utf8 (sq_Path ?r)" by (simp_all add: sample_call_def rune_size_def byte_def)
  ultimately show "\<exists>m' w n. http_serve sample_server sample_moment ?r sample_state = (Returned, m', w) \<and>
     rsp_Status w = Some n \<and> mon_requests m' = [(''POST'', ''/api/v1/me/rentals/7/pay-with-balance'', format_int n)]"
    using requests_are_answered [OF sample_prometheus sample_labels run] run by (auto simp: sample_call_def sample_state_def)
next
  let ?r = "sample_call ''GET'' ''/api/v1/%ff''"
  obtain oc m' w where run: "http_serve sample_server sample_moment ?r sample_state = (oc, m', w)"
    by (metis prod_cases3)
  have "counted_path ?r" "pathUnescape (sq_Path ?r) = ''/api/v1/'' @ [CHR 0xFF]" by code_simp+
  moreover have "\<not> valid_utf8 (''/api/v1/'' @ [CHR 0xFF])" by (simp add: rune_size_def byte_def)
  ultimately show "\<exists>p m' w. http_serve sample_server sample_moment ?r sample_state = (Panicked p, m', w) \<and> mon_requests m' = []"
    using requests_are_answered [OF sample_prometheus sample_labels run] run by (auto simp: sample_state_def)
qed

lemma administrators_only_witness:
  "\<exists>oc m' w n. http_serve sample_server sample_moment (sample_call ''GET'' ''/api/v1/admin/users'') sample_state = (oc, m', w) \<and>
     rsp_Status w = Some n \<and> (n = 301 \<or> 400 \<le> n) \<and> mon_state m' = mon_state (tick Minute sample_state)"
proof -
  let ?r = "sample_call ''GET'' ''/api/v1/admin/users''"
  obtain oc m' w where run: "http_serve sample_server sample_moment ?r sample_state = (oc, m', w)" by (metis prod_cases3)
  have path: "sq_Path ?r = ''/api/v1/'' @ ''admin/users''" "hd (path_segments (CHR ''/'' # ''admin/users'')) = ''admin''"
    by (simp add: sample_call_def) code_simp
  have session: "se_Role se \<noteq> ''ADMIN''" if "Auth (env_crypto (ae_env (sv_api sample_server))) (env_secret (ae_env (sv_api sample_server)))
      (HeaderValue (sq_http ?r) ''Authorization'') (mo_now sample_moment) (bd_db (sh_board (mon_state (tick (mo_now sample_moment) sample_state)))) = Inr se" for se
    using that unfolding sample_session by auto
  show ?thesis using administrators_only [OF path session sample_prometheus run] run by (auto simp: sample_moment_def)
qed

lemma sample_board_valid: "valid_board (sh_board (mon_state sample_state))"
  by (simp add: valid_board_def sample_state_def valid_table_def)

lemma server_run_keeps_all_witness:
  "let es = [Request_At sample_moment (sample_call ''POST'' ''/api/v1/me/rentals/7/pay-with-balance''), Job_At (2 * Minute) (\<lambda>_. False) (\<lambda>_. {}) 0]
   in valid_db (bd_db (sh_board (mon_state (server_run sample_server es sample_state)))) \<and> exclusive (book (bd_db (sh_board (mon_state (server_run sample_server es sample_state)))))"
proof -
  have "valid_db (bd_db (sh_board (mon_state sample_state)))" using signed_db_valid by (simp add: sample_state_def)
  from server_run_keeps_all [OF this sample_board_valid refl refl sample_prometheus] show ?thesis unfolding Let_def by blast
qed

end
