(* ===== verification/Spec2Isabelle.thy ===== *)
theory Spec2Isabelle
  imports System Payment_Reads_Properties Http_Properties Community Games Steam_Client Rate_Limiter Server_Run
begin

text \<open>
  GameRent is the Go server of a shop that rents out Steam accounts by the hour. A customer requests a rental of an account, which reserves
  it for a few minutes; pays it, with a deposit on top, from a balance or through a payment provider that reports the payment to a webhook; gets the
  account's credentials while the rental is active; and after its end has the deposit returned, unless an
  administrator forfeits it. Scheduled tasks let rentals and unpaid reservations lapse, finalize what is due and
  synchronise the libraries of the accounts with Steam. All state is in one PostgreSQL database; an operation is one
  transaction over it.

  This library models the server, in HOL, from the statements on that database up to the router and the scheduler, and proves what makes it
  correct. A path below is relative to src/.

  \<^bold>\<open>The theories.\<close>
  \<^item> \<open>Go_Base\<close>, \<open>Go_Text\<close>: what the code uses of Go. \<open>int64\<close> is \<open>64 word\<close> or an \<open>int\<close> kept in range by
    explicit checks, division truncates, \<open>time.Time\<close> and \<open>time.Duration\<close> are
    whole nanoseconds; strings are lists of bytes, with \<open>strings.TrimSpace\<close>, \<open>strconv\<close>, the runes of UTF-8 text (and which text is valid) and \<open>net.ParseIP\<close>.
  \<^item> \<open>Errors\<close>: one constructor per sentinel error; \<open>fmt.Errorf\<close> with the verb w wraps a cause, and \<open>errors_Is\<close> looks through it.
  \<^item> \<open>Schema\<close>: one record per table of migrations/, with its CHECK constraints, ranges and unique indexes as \<open>valid_db\<close>, its
    sequences, and the clock that \<open>NOW()\<close> reads.
  \<^item> \<open>Tx\<close>: the transactions of internal/shared/database/transaction.go. \<open>'a tx\<close> maps a database to an error or to a
    result and a database, so an error has no state of its own: \<open>WithinTransaction\<close> gives back the state before. The theory has the rules that
    collect what a statement does (\<open>tx_inv\<close>), that it keeps the constraints, and when it is closed under a preorder on databases.
  \<^item> \<open>Evolution\<close>: how rows may change: logs grow at their ends, and what is settled stays. The preorders are an
    interpretation of one locale, \<open>growth\<close>, per table.
  \<^item> \<open>Rental_Entity\<close>, \<open>Account_Entity\<close>: the aggregates of internal/rental/entity.go and internal/account/entity.go.
  \<^item> \<open>Authorization\<close>: internal/shared/authorization/current_admin.go.
  \<^item> \<open>Payment_Repo\<close>, \<open>Payment_Writes\<close>, \<open>Payment_Facts\<close>: the statements of internal/payment/repository.go, and one inversion lemma for each.
  \<^item> \<open>Wallet_Payment\<close>, \<open>Webhook\<close>, \<open>Webhook_Signature\<close>, \<open>Settlement\<close>, \<open>Finalization\<close>, \<open>Refund\<close>: internal/payment/service.go and rental_finalization.go;
    \<open>Adjustment\<close>: internal/payment/balance_adjustment.go and its repository; \<open>Payment_Reads\<close>: the reads for
    customers (repository.go and service.go) and for the back office (admin_rentals.go). The theories \<open>X_Properties\<close> hold what is
    shown of the operations of the theory \<open>X\<close>, and \<open>X_Facts\<close> the lemmas for it.
  \<^item> \<open>Rental_Service\<close>: internal/rental/service.go and repository_postgres.go; \<open>Accounts\<close>: the services and the
    repository of internal/account; \<open>Users\<close>: those of internal/user.
  \<^item> \<open>Sessions\<close>: internal/auth, internal/shared/auth/jwt.go and internal/shared/middleware/auth.go.
  \<^item> \<open>Workers\<close>: internal/repository/postgres/workers.go and the tasks of internal/shared/scheduler. The two clean-up tasks are interpretations of one locale, \<open>cleanup\<close>.
  \<^item> \<open>Sample\<close>: the concrete database of most witnesses.
  \<^item> \<open>System\<close>: the requests of the server and its tasks as a datatype, the effect of one (\<open>exec\<close>), of one at a time (\<open>serve\<close>), and of a run of them (\<open>run\<close>).
  \<^item> \<open>Http_Base\<close>, \<open>Http_Handlers\<close>, \<open>Http_Webhook\<close>, \<open>Http_Api\<close>: the handlers of internal/api and of the packages' handler.go, with
    the parameters they parse, the texts of errors, and the replies of internal/shared/response; \<open>Http_Webhook\<close> has the
    media types and JSON objects that the endpoint of the payment provider looks at. \<open>api\<close> and \<open>public_api\<close> serve one endpoint each.
  \<^item> \<open>Community\<close>: internal/review and internal/notification, whose tables stand beside the database (the record \<open>board\<close>); \<open>Games\<close>:
    the catalogue of internal/game; \<open>Steam_Client\<close>: internal/game/steam_client.go, an implementation of the client that the synchronization uses;
    \<open>Rate_Limiter\<close>: internal/shared/middleware/rate_limiter.go.
  \<^item> \<open>Transport\<close>: the response writer and the middlewares of internal/pkg/transport/http; \<open>Router\<close>: \<open>http.ServeMux\<close> and the table
    of all routes; \<open>Server\<close>: what internal/modules/app.go builds of them, with \<open>http_serve\<close> as one HTTP request; \<open>Server_Run\<close>:
    internal/shared/scheduler/scheduler.go with the jobs of app.go, and \<open>server_run\<close>, a sequence of HTTP requests and executions of jobs.
  \<^item> this theory: the properties of every run.

  \<^bold>\<open>What is shown.\<close> Of the whole program: each database that a run produces satisfies the
  constraints; logs only grow and settled rows never change; and the rentals refine a
  small abstract machine, the book of rentals, in which no account is occupied twice. Of the operations on money: the exact rows that a
  wallet payment, a webhook, a release, a forfeit, a refund and a balance adjustment write and leave alone, what a repetition of the request
  answers (the same result and no second movement of money), and which guard refuses what. Of the
  finalization: which rental a pass takes, that a run with room for all due rentals completes all of
  them in order, and that a deposit which does not fit into its customer's balance blocks this and every later run. Of the rentals, accounts, users, workers and sessions: the effect and the exclusiveness of a request for a rental,
  that credentials are given to the renter of an active rental only, the life cycle of the aggregate and its end, that
  the last administrator stays, exactly which rentals a clean-up lets lapse, the encoding of session tokens and the encrypted
  credentials read back, and that a refresh token is used once.

  Of the HTTP interface: a call acts only in the name of its session, a call that is refused changes nothing (with one exception, which the property
  names), what a customer reads depends on the customer's own rows only, and the payment provider's endpoint acts on signed bodies only. Of the lists: pages neither miss nor repeat
  a rental, and where page numbers wrap around. Of the server: every request is answered and counted once, unless its path is not valid UTF-8, for which the counter panics outside of the recovery and the connection is cut; nothing below /api/v1/admin
  can be reached without an administrator's session, and over any sequence of requests and jobs the constraints hold and the book of rentals is followed. \<open>chain_answers\<close>
  says what the middlewares make of any handler, one that panics or forgets its status included; \<open>job_starts_on_time\<close> and \<open>next_start_bounds\<close> when jobs
  run. Of the client of Steam: how long it retries. Of the rate limiter: which part of a burst it lets through (\<open>rate_limit_burst\<close>).

  \<^bold>\<open>Bounds and fuel.\<close> The loop of \<open>FinalizeExpiredRentals\<close> is bounded by the code itself: its limit is set to 1..100, and \<open>finalize_loop\<close> recurses
  on that number. The client of Steam makes at most five requests, the number on which \<open>retry_loop\<close> recurses. The parameters of a media type are parsed with
  the length of the header as fuel, of which each round consumes at least one character. The other loops run over lists that the code
  has read. There is no other fuel: every definition is a total function.

  \<^bold>\<open>Parameters.\<close> What is not under src/ is an argument: bcrypt, HMAC-SHA256, the signing of tokens and random bytes (the record \<open>crypto\<close>, whose laws are
  hypotheses where a property rests on them, and which \<open>toy_crypto\<close> satisfies), AES-GCM (\<open>Encrypt\<close> and \<open>Decrypt\<close> take the
  cipher), the client of the Steam Web API (\<open>CheckVACBans\<close>, \<open>GetOwnedGames\<close>; its implementation has the network and the jitter
  as parameters), which strings PostgreSQL accepts as \<open>inet\<close> and as
  a number, its \<open>ILIKE\<close> and its order of texts, the texts of the driver's errors, the parser of JSON (what it makes of a body), the arithmetic of float64 in the
  rate limiter (the record \<open>arith\<close>), the Prometheus handler and the labels that its counters refuse (in the program: those that are not valid UTF-8, a hypothesis of the property that needs it), and the time of every request. The environments are the records \<open>env\<close>, \<open>api_env\<close> and \<open>server_env\<close>,
  and \<open>moment\<close> is what one request takes from outside.
  The environment is the same over a whole run, random bytes and the answers of Steam included; what is shown of one step holds for any environment, so the invariants of runs do not depend on that.

  \<^bold>\<open>Not modelled.\<close> Concurrency: transactions run one after the other, which is what the row locks and unique indexes of
  the code are there to give, and so do requests and jobs; deadlocks, lost connections and cancelled contexts are not modelled (but for the client of Steam). The
  rendering of replies as JSON text, the addresses of the router's redirects and the method CONNECT. PostgreSQL's refusal of text with
  a NUL byte or with invalid UTF-8, some of the lengths of VARCHAR columns, and the foreign keys other than those whose violation an operation can cause and reports.
  The start and the shutdown of the process: reading its configuration,
  migrations, connection pools, listening, logging, and the registration of metrics. Packages that nothing uses
  (internal/shared/cache, internal/shared/errors, internal/service, the mock of internal/shared/clock).
\<close>

section \<open>A sample run\<close>

definition sample_run :: "(time \<times> request) list" where
  "sample_run = [(Minute, Pay_Wallet 2 7 [] ''agent''), (3 * Hour, Expire_Rentals (\<lambda>_. False)), (28 * Hour, Finalize (\<lambda>_. {}) 10)]"

section \<open>Properties of every run\<close>

text \<open>
  Every database that the program can produce from a well-formed one is well formed: whatever requests are
  served, in whatever order, at whatever times and with whatever answers of the outside world, every row satisfies
  the constraints of its table and no two rows share a unique key.
\<close>

theorem run_well_formed:
  assumes "valid_db s"
  shows "valid_db (run env rs s)"
  using run_history [of s env rs] assms by (simp add: history_def)

lemma run_well_formed_witness: "valid_db waiting_db \<and> valid_db (run sample_env sample_run waiting_db)"
  using run_well_formed [OF waiting_db_valid] waiting_db_valid by blast

text \<open>
  C6: The past is never rewritten: over every run the ledger, the security events and the audit log only grow
  at their ends, a settled deposit, a decided payment and a completed refund stay as they are, a completed or cancelled rental stays as it is, and
  no user, account, rental or payment disappears.
\<close>

theorem run_keeps_history:
  assumes "valid_db s" and t: "t = run env rs s"
  shows "(\<exists>es. ledger t = ledger s @ es) \<and> (\<exists>es. events t = events s @ es) \<and> (\<exists>es. audits t = audits s @ es) \<and>
    (\<forall>d\<in>set (holds s). d_status d \<noteq> 1 \<longrightarrow> d \<in> set (holds t)) \<and> (\<forall>p\<in>set (payments s). p_status p \<noteq> 1 \<longrightarrow> p \<in> set (payments t)) \<and>
    (\<forall>f\<in>set (refunds s). f_status f \<noteq> 1 \<longrightarrow> f \<in> set (refunds t)) \<and> (\<forall>r\<in>set (rentals s). r_status r \<in> {4, 5} \<longrightarrow> r \<in> set (rentals t)) \<and>
    u_id ` set (users s) \<subseteq> u_id ` set (users t) \<and> a_id ` set (accounts s) \<subseteq> a_id ` set (accounts t) \<and>
    r_id ` set (rentals s) \<subseteq> r_id ` set (rentals t) \<and> p_id ` set (payments s) \<subseteq> p_id ` set (payments t)"
proof -
  have "evolves s (t\<lparr>clock := clock s\<rparr>)" using run_history [of s env rs] assms by (simp add: history_def)
  then have e: "grows (=) (ledger s) (ledger t)" "grows (=) (events s) (events t)" "grows (=) (audits s) (audits t)" "grows hold_next (holds s) (holds t)"
    "grows rental_next (rentals s) (rentals t)" "grows payment_next (payments s) (payments t)" "grows refund_next (refunds s) (refunds t)"
    "grows user_next (users s) (users t)" "grows account_next (accounts s) (accounts t)"
    by (simp_all add: evolves_def)
  have log: "\<exists>es. ledger t = ledger s @ es" "\<exists>es. events t = events s @ es" "\<exists>es. audits t = audits s @ es"
    using e(1-3) by (simp_all add: grows_eq)
  have settled: "d \<in> set (holds t)" if "d \<in> set (holds s)" "d_status d \<noteq> 1" for d
    using hold_order.grows_in [OF e(4) that(1)] that(2) by (auto simp: hold_next_def)
  have decided: "p \<in> set (payments t)" if "p \<in> set (payments s)" "p_status p \<noteq> 1" for p
    using payment_order.grows_in [OF e(6) that(1)] that(2) by (auto simp: payment_next_def)
  have refunded: "f \<in> set (refunds t)" if "f \<in> set (refunds s)" "f_status f \<noteq> 1" for f
    using refund_order.grows_in [OF e(7) that(1)] that(2) by (auto simp: refund_next_def)
  have over: "r \<in> set (rentals t)" if "r \<in> set (rentals s)" "r_status r \<in> {4, 5}" for r
    using rental_order.grows_in [OF e(5) that(1)] that(2) by (auto simp: rental_next_def)
  have "\<exists>v\<in>set (users t). u_id v = u_id u" if "u \<in> set (users s)" for u
    using user_order.grows_in [OF e(8) that] by (auto simp: user_next_def)
  moreover have "\<exists>b\<in>set (accounts t). a_id b = a_id a" if "a \<in> set (accounts s)" for a
    using account_order.grows_in [OF e(9) that] by (auto simp: account_next_def)
  moreover have "\<exists>b\<in>set (rentals t). r_id b = r_id r" if "r \<in> set (rentals s)" for r
    using rental_order.grows_in [OF e(5) that] by (auto simp: rental_next_def)
  moreover have "\<exists>b\<in>set (payments t). p_id b = p_id p" if "p \<in> set (payments s)" for p
    using payment_order.grows_in [OF e(6) that] by (auto simp: payment_next_def)
  ultimately have "u_id ` set (users s) \<subseteq> u_id ` set (users t)" "a_id ` set (accounts s) \<subseteq> a_id ` set (accounts t)"
    "r_id ` set (rentals s) \<subseteq> r_id ` set (rentals t)" "p_id ` set (payments s) \<subseteq> p_id ` set (payments t)"
    by (metis image_eqI image_subsetI)+
  with log settled decided refunded over show ?thesis by blast
qed

lemma run_keeps_history_witness:
  "\<exists>es. ledger (run sample_env sample_run waiting_db) = ledger waiting_db @ es"
  using run_keeps_history [OF waiting_db_valid refl] by blast

text \<open>
  C4: The program refines the book of rentals. Whatever a request does to the database, seen as a book
  that has the account and the phase of every rental, is a sequence of the six steps of the abstract machine: a rental is opened reserved, on an account that no
  other occupies; it starts, lapses, is called off, ends and is closed, and nothing else happens to it. So over every run no account
  is ever occupied by two rentals, and a closed or called-off rental stays so.
\<close>

theorem run_refines_book:
  assumes "valid_db s"
  shows "book_step\<^sup>*\<^sup>* (book s) (book (run env rs s)) \<and> exclusive (book (run env rs s)) \<and>
    (\<forall>i a p. book s i = Some (a, p) \<and> (p = Closed \<or> p = Called_Off) \<longrightarrow> book (run env rs s) i = Some (a, p))"
  using run_refines [OF assms] book_steps_exclusive [OF run_refines [OF assms] valid_exclusive [OF assms]] book_steps_final [OF run_refines [OF assms]]
  by blast

lemma run_refines_book_witness:
  "book waiting_db 7 = Some (5, Reserved) \<and> book_step\<^sup>*\<^sup>* (book waiting_db) (book (run sample_env sample_run waiting_db))"
  using run_refines_book [OF waiting_db_valid, of sample_env sample_run]
  by (simp add: book_def waiting_db_def rental7_def book_entry_def phase_def)

end
